(* ===== verification/Wasm_Prelude.thy ===== *)
theory Wasm_Prelude
  imports Main "HOL-Library.Word"
begin

unbundle bit_operations_syntax

text \<open>
  Shared vocabulary of the development: the machine integers of the Rust sources as words,
  the named collections of rules the component proofs use, and generic facts on bits, lists and
  words that more than one component needs.

  A Rust \<open>usize\<close> is a \<^typ>\<open>nat\<close>: every buffer is a slice, whose length is at most
  \<open>isize::MAX\<close>, so the additions the sources perform on positions and lengths do not
  overflow on a 64-bit host. A signed integer \<open>iN\<close> is an \<open>N\<close>-bit word read with \<open>sint\<close>.
\<close>

section \<open>Machine integers\<close>

type_synonym u8 = "8 word"
type_synonym u32 = "32 word"
type_synonym u64 = "64 word"
type_synonym i32 = "32 word"
type_synonym i64 = "64 word"
type_synonym usize = nat

named_theorems rd_intro \<open>readers that respect the reader contract\<close>
named_theorems rd_eval \<open>equations that run readers on concrete bytes\<close>
named_theorems dec_intro \<open>readers that decode a given byte string\<close>

section \<open>Hexadecimal and decimal output of numbers\<close>

text \<open>The digits that \<open>{:x}\<close> and \<open>{}\<close> print in format strings.\<close>

definition digit_char :: "nat \<Rightarrow> char" where
  "digit_char d = ''0123456789abcdef'' ! (d mod 16)"

fun fmt_radix :: "nat \<Rightarrow> nat \<Rightarrow> string" where
  "fmt_radix b n =
     (if n < b \<or> b < 2 then [digit_char n] else fmt_radix b (n div b) @ [digit_char (n mod b)])"

declare fmt_radix.simps [simp del]

abbreviation fmt_hex :: "nat \<Rightarrow> string" where
  "fmt_hex \<equiv> fmt_radix 16"

abbreviation fmt_dec :: "nat \<Rightarrow> string" where
  "fmt_dec \<equiv> fmt_radix 10"

section \<open>Bits\<close>

lemma nat_or_push_bit:
  fixes a b :: nat
  assumes "a < 2 ^ s"
  shows "a OR push_bit s b = a + 2 ^ s * b"
proof -
  have "a AND push_bit s b = 0"
  proof (rule bit_eqI)
    fix n
    have "\<not> (bit a n \<and> s \<le> n)"
      using assms by (metis bit_take_bit_iff leD take_bit_nat_eq_self)
    then show "bit (a AND push_bit s b) n \<longleftrightarrow> bit (0::nat) n"
      by (auto simp: bit_simps)
  qed
  then have "a + push_bit s b = a OR push_bit s b"
    by (rule disjunctive_add_eq_or)
  then show ?thesis
    by (simp add: push_bit_eq_mult mult.commute)
qed

lemma int_or_push_bit:
  fixes a b :: int
  assumes "0 \<le> a" "a < 2 ^ s"
  shows "a OR push_bit s b = a + 2 ^ s * b"
proof -
  have "a AND push_bit s b = 0"
  proof (rule bit_eqI)
    fix n
    have "take_bit s a = a"
      using assms by (simp add: take_bit_int_eq_self)
    then have "\<not> (bit a n \<and> s \<le> n)"
      by (metis bit_take_bit_iff leD)
    then show "bit (a AND push_bit s b) n \<longleftrightarrow> bit (0::int) n"
      by (auto simp: bit_simps)
  qed
  then have "a + push_bit s b = a OR push_bit s b"
    by (rule disjunctive_add_eq_or)
  then show ?thesis
    by (simp add: push_bit_eq_mult mult.commute)
qed

lemma byte_and_7F: "(b :: u8) AND 0x7F = take_bit 7 b"
  by (simp add: take_bit_eq_mask mask_eq_exp_minus_1)

lemma unat_byte_and_7F: "unat ((b :: u8) AND 0x7F) = unat b mod 128"
proof -
  have "unat (b AND 0x7F) = unat b AND mask 7"
    by (simp add: unsigned_and_eq mask_eq_exp_minus_1)
  then show ?thesis
    by (simp add: take_bit_eq_mask [symmetric] take_bit_nat_def)
qed

lemma unat_byte_less: "unat (b :: u8) < 256"
  using unsigned_less [of b, where ?'a = nat] by simp

lemma byte_and_80_iff: "(b :: u8) AND 0x80 = 0 \<longleftrightarrow> unat b < 128"
proof -
  have "unat (b AND 0x80) = unat b AND 2 ^ 7"
    by (simp add: unsigned_and_eq)
  then have "b AND 0x80 = 0 \<longleftrightarrow> unat b AND 2 ^ 7 = 0"
    by (metis unat_eq_zero)
  also have "\<dots> \<longleftrightarrow> even (unat b div 128)"
    using and_exp_eq_0_iff_not_bit [of "unat b" 7] by (simp add: bit_nat_def)
  also have "\<dots> \<longleftrightarrow> unat b < 128"
  proof
    assume "even (unat b div 128)"
    moreover have "unat b div 128 < 2"
      using unat_byte_less [of b] by linarith
    ultimately have "unat b div 128 = 0"
      by (auto elim: evenE)
    then show "unat b < 128"
      by (simp add: div_eq_0_iff)
  qed simp
  finally show ?thesis .
qed

lemma unat_drop_bit_byte: "unat (drop_bit n (b :: u8)) = unat b div 2 ^ n"
  by (simp add: unat_drop_bit_eq drop_bit_nat_def)

lemma drop_bit_byte_eq_0_iff: "drop_bit n (b :: u8) = 0 \<longleftrightarrow> unat b < 2 ^ n"
  using unat_eq_zero [of "drop_bit n b"] by (simp add: unat_drop_bit_byte div_eq_0_iff)

lemma signed_take_bit_eqI:
  fixes x k :: int
  assumes "- (2 ^ n) \<le> k" "k < 2 ^ n" "x mod 2 ^ Suc n = k mod 2 ^ Suc n"
  shows "signed_take_bit n x = k"
proof -
  have "signed_take_bit n x = signed_take_bit n k"
    using assms(3) by (simp add: signed_take_bit_eq_iff_take_bit_eq take_bit_eq_mod)
  also have "\<dots> = k"
    using assms by (simp add: signed_take_bit_int_eq_self)
  finally show ?thesis .
qed

lemma uint_less_numeral_iff: "uint w < numeral k \<longleftrightarrow> unat w < numeral k"
proof -
  have "int (unat w) < numeral k \<longleftrightarrow> unat w < numeral k" by (rule of_nat_less_numeral_iff)
  then show ?thesis by simp
qed

lemma of_nat_unat_id: "of_nat (unat w) = (w :: 'a::len word)"
  by transfer simp

lemma of_int_sint_id: "word_of_int (sint w) = (w :: 'a::len word)"
  by simp

section \<open>Lists\<close>

lemma drop_eq_ConsD:
  assumes "drop n xs = y # ys"
  shows "n < length xs" "xs ! n = y" "drop (Suc n) xs = ys"
proof -
  show 1: "n < length xs"
    using assms by (metis drop_eq_Nil2 list.distinct(1) not_le_imp_less)
  show "xs ! n = y" "drop (Suc n) xs = ys"
    using assms Cons_nth_drop_Suc [OF 1] by auto
qed

section \<open>Results\<close>

text \<open>
  A Rust \<open>Result<T, E>\<close> is a sum with the error on the left. \<open>bind_res\<close> is the operator \<open>?\<close>,
  \<open>collect_res\<close> is \<open>map(..).collect::<Result<Vec<_>, _>>()\<close>, which stops at the first error.
\<close>

definition bind_res :: "'e + 'a \<Rightarrow> ('a \<Rightarrow> 'e + 'b) \<Rightarrow> 'e + 'b" where
  "bind_res x f = (case x of Inl e \<Rightarrow> Inl e | Inr y \<Rightarrow> f y)"

fun collect_res :: "('a \<Rightarrow> 'e + 'b) \<Rightarrow> 'a list \<Rightarrow> 'e + 'b list" where
  "collect_res f [] = Inr []"
| "collect_res f (x # xs) = bind_res (f x) (\<lambda>y. bind_res (collect_res f xs) (\<lambda>ys. Inr (y # ys)))"

definition ok_or :: "'e \<Rightarrow> 'a option \<Rightarrow> 'e + 'a" where
  "ok_or e x = (case x of None \<Rightarrow> Inl e | Some y \<Rightarrow> Inr y)"

lemma bind_res_simps [simp]: "bind_res (Inl e) f = Inl e" "bind_res (Inr y) f = f y"
  by (simp_all add: bind_res_def)

lemma bind_res_Inr_iff: "bind_res x f = Inr z \<longleftrightarrow> (\<exists>y. x = Inr y \<and> f y = Inr z)"
  by (cases x) simp_all

lemma ok_or_Inr_iff [simp]: "ok_or e x = Inr y \<longleftrightarrow> x = Some y"
  by (simp add: ok_or_def split: option.split)

lemma collect_res_Inr_iff:
  "collect_res f xs = Inr ys \<longleftrightarrow> list_all2 (\<lambda>x y. f x = Inr y) xs ys"
proof (induction xs arbitrary: ys)
  case (Cons x xs)
  then show ?case by (auto simp: bind_res_Inr_iff list_all2_Cons1)
qed auto

lemma collect_res_total:
  assumes "\<And>x. x \<in> set xs \<Longrightarrow> \<exists>y. f x = Inr y"
  shows "\<exists>ys. collect_res f xs = Inr ys"
  using assms by (induction xs) (auto simp: bind_res_Inr_iff)

end
