(* ===== verification/Features.thy ===== *)
theory Features
  imports Wasm_Prelude
begin

text \<open>
  The set of enabled WebAssembly proposals (crates/wasmparser/src/features.rs) and the
  implementation limits (crates/wasmparser/src/limits.rs). The bit flags of \<open>WasmFeatures\<close>
  are the elements of a set: \<open>union\<close> is set union and \<open>contains\<close> the subset relation.
\<close>

datatype wasm_feature =
    MUTABLE_GLOBAL | SATURATING_FLOAT_TO_INT | SIGN_EXTENSION | REFERENCE_TYPES | MULTI_VALUE
  | BULK_MEMORY | SIMD | RELAXED_SIMD | THREADS | SHARED_EVERYTHING_THREADS | TAIL_CALL | FLOATS
  | MULTI_MEMORY | EXCEPTIONS | MEMORY64 | EXTENDED_CONST | COMPONENT_MODEL
  | FUNCTION_REFERENCES | MEMORY_CONTROL | GC | CUSTOM_PAGE_SIZES | COMPONENT_MODEL_VALUES
  | COMPONENT_MODEL_NESTED_NAMES | COMPONENT_MODEL_MORE_FLAGS
  | COMPONENT_MODEL_MULTIPLE_RETURNS | LEGACY_EXCEPTIONS | GC_TYPES | STACK_SWITCHING
  | WIDE_ARITHMETIC | COMPONENT_MODEL_ASYNC

type_synonym wasm_features = "wasm_feature set"

definition features_all :: wasm_features where
  "features_all = UNIV"

definition features_default :: wasm_features where
  "features_default =
     - {SHARED_EVERYTHING_THREADS, MEMORY_CONTROL, CUSTOM_PAGE_SIZES, COMPONENT_MODEL_VALUES,
        COMPONENT_MODEL_NESTED_NAMES, COMPONENT_MODEL_MORE_FLAGS,
        COMPONENT_MODEL_MULTIPLE_RETURNS, LEGACY_EXCEPTIONS, STACK_SWITCHING, WIDE_ARITHMETIC,
        COMPONENT_MODEL_ASYNC}"

definition features_MVP :: wasm_features where
  "features_MVP = {FLOATS} \<union> {GC_TYPES}"

definition features_WASM1 :: wasm_features where
  "features_WASM1 = features_MVP \<union> {MUTABLE_GLOBAL}"

definition features_WASM2 :: wasm_features where
  "features_WASM2 =
     features_WASM1 \<union> {BULK_MEMORY} \<union> {REFERENCE_TYPES} \<union> {SIGN_EXTENSION}
     \<union> {SATURATING_FLOAT_TO_INT} \<union> {MULTI_VALUE} \<union> {SIMD}"

definition features_WASM3 :: wasm_features where
  "features_WASM3 =
     features_WASM2 \<union> {GC} \<union> {TAIL_CALL} \<union> {EXTENDED_CONST} \<union> {FUNCTION_REFERENCES}
     \<union> {MULTI_MEMORY} \<union> {RELAXED_SIMD} \<union> {THREADS} \<union> {EXCEPTIONS} \<union> {MEMORY64}"

definition FAST_VALIDATION_FEATURES :: wasm_features where
  "FAST_VALIDATION_FEATURES =
     features_WASM2 \<union> {CUSTOM_PAGE_SIZES} \<union> {EXTENDED_CONST} \<union> {MEMORY64} \<union> {MULTI_MEMORY}
     \<union> {RELAXED_SIMD} \<union> {TAIL_CALL} \<union> {THREADS} \<union> {WIDE_ARITHMETIC}"

definition needs_type_canonicalization :: "wasm_features \<Rightarrow> bool" where
  "needs_type_canonicalization f \<longleftrightarrow> \<not> f \<subseteq> FAST_VALIDATION_FEATURES"

lemmas feature_sets =
  features_all_def features_default_def features_MVP_def features_WASM1_def features_WASM2_def
  features_WASM3_def FAST_VALIDATION_FEATURES_def

section \<open>Limits\<close>

definition MAX_WASM_TYPES :: usize where "MAX_WASM_TYPES = 1000000"
definition MAX_WASM_SUPERTYPES :: usize where "MAX_WASM_SUPERTYPES = 1"
definition MAX_WASM_STRING_SIZE :: usize where "MAX_WASM_STRING_SIZE = 100000"
definition MAX_WASM_FUNCTION_SIZE :: usize where "MAX_WASM_FUNCTION_SIZE = 128 * 1024"
definition MAX_WASM_FUNCTION_LOCALS :: usize where "MAX_WASM_FUNCTION_LOCALS = 50000"
definition MAX_WASM_FUNCTION_PARAMS :: usize where "MAX_WASM_FUNCTION_PARAMS = 1000"
definition MAX_WASM_FUNCTION_RETURNS :: usize where "MAX_WASM_FUNCTION_RETURNS = 1000"
definition MAX_WASM_BR_TABLE_SIZE :: usize where
  "MAX_WASM_BR_TABLE_SIZE = MAX_WASM_FUNCTION_SIZE"
definition MAX_WASM_STRUCT_FIELDS :: usize where "MAX_WASM_STRUCT_FIELDS = 10000"
definition MAX_WASM_CATCHES :: usize where "MAX_WASM_CATCHES = 10000"
definition MAX_WASM_HANDLERS :: usize where "MAX_WASM_HANDLERS = 10000"

lemmas wasm_limits =
  MAX_WASM_TYPES_def MAX_WASM_SUPERTYPES_def MAX_WASM_STRING_SIZE_def MAX_WASM_FUNCTION_SIZE_def
  MAX_WASM_FUNCTION_LOCALS_def MAX_WASM_FUNCTION_PARAMS_def MAX_WASM_FUNCTION_RETURNS_def
  MAX_WASM_BR_TABLE_SIZE_def MAX_WASM_STRUCT_FIELDS_def MAX_WASM_CATCHES_def
  MAX_WASM_HANDLERS_def

end
