(* ===== verification/Binary_Reader.thy ===== *)
theory Binary_Reader
  imports Features
begin

text \<open>
  The primitive readers of crates/wasmparser/src/binary_reader.rs: the reader's state, its
  errors, and every method that reads bytes, integers and strings.

  A method \<open>fn(&mut self) -> Result<T>\<close> is a function from the reader to an error or to
  the value and the advanced reader. On an error the Rust code returns early with \<open>?\<close>; no
  caller reads from the reader again afterwards, so the model drops it.
\<close>

unbundle bit_operations_syntax

section \<open>Errors and the state of a reader\<close>

datatype binary_reader_error_kind = Custom | Invalid

record binary_reader_error =
  err_message :: string
  err_kind :: binary_reader_error_kind
  err_offset :: usize
  err_needed_hint :: "usize option"

definition error_new :: "string \<Rightarrow> usize \<Rightarrow> binary_reader_error" where
  "error_new msg off =
     \<lparr>err_message = msg, err_kind = Custom, err_offset = off, err_needed_hint = None\<rparr>"

definition error_invalid :: "string \<Rightarrow> usize \<Rightarrow> binary_reader_error" where
  "error_invalid msg off =
     \<lparr>err_message = msg, err_kind = Invalid, err_offset = off, err_needed_hint = None\<rparr>"

definition error_eof :: "usize \<Rightarrow> usize \<Rightarrow> binary_reader_error" where
  "error_eof off hint =
     (error_new ''unexpected end-of-file'' off)\<lparr>err_needed_hint := Some hint\<rparr>"

definition set_message :: "string \<Rightarrow> binary_reader_error \<Rightarrow> binary_reader_error" where
  "set_message msg e = e\<lparr>err_message := msg\<rparr>"

record binary_reader =
  buffer :: "u8 list"
  position :: usize
  original_offset :: usize
  features :: wasm_features

type_synonym 'a result = "binary_reader_error + 'a"
type_synonym 'a rd = "binary_reader \<Rightarrow> ('a \<times> binary_reader) result"

definition reader_new :: "u8 list \<Rightarrow> usize \<Rightarrow> binary_reader" where
  "reader_new data off =
     \<lparr>buffer = data, position = 0, original_offset = off, features = features_all\<rparr>"

definition reader_new_features :: "u8 list \<Rightarrow> usize \<Rightarrow> wasm_features \<Rightarrow> binary_reader" where
  "reader_new_features data off fs =
     \<lparr>buffer = data, position = 0, original_offset = off, features = fs\<rparr>"

definition shrink :: "binary_reader \<Rightarrow> binary_reader" where
  "shrink r =
     \<lparr>buffer = drop (position r) (buffer r), position = 0,
      original_offset = original_offset r + position r, features = features r\<rparr>"

definition original_position :: "binary_reader \<Rightarrow> usize" where
  "original_position r = original_offset r + position r"

definition reader_range :: "binary_reader \<Rightarrow> usize \<times> usize" where
  "reader_range r = (original_offset r, original_offset r + length (buffer r))"

definition remaining_buffer :: "binary_reader \<Rightarrow> u8 list" where
  "remaining_buffer r = drop (position r) (buffer r)"

definition eof :: "binary_reader \<Rightarrow> bool" where
  "eof r \<longleftrightarrow> position r \<ge> length (buffer r)"

definition bytes_remaining :: "binary_reader \<Rightarrow> usize" where
  "bytes_remaining r = length (buffer r) - position r"

definition eof_err :: "binary_reader \<Rightarrow> binary_reader_error" where
  "eof_err r = error_eof (original_position r) 1"

section \<open>Sequencing\<close>

text \<open>The \<open>?\<close> operator: run a reader, stop at its error, continue with its value.\<close>

definition bind_rd :: "'a rd \<Rightarrow> ('a \<Rightarrow> 'b rd) \<Rightarrow> 'b rd" where
  "bind_rd m f r = (case m r of Inl e \<Rightarrow> Inl e | Inr (x, r') \<Rightarrow> f x r')"

definition return_rd :: "'a \<Rightarrow> 'a rd" where
  "return_rd x r = Inr (x, r)"

definition fail_rd :: "(binary_reader \<Rightarrow> binary_reader_error) \<Rightarrow> 'a rd" where
  "fail_rd e r = Inl (e r)"

text \<open>\<open>let pos = self.original_position()\<close>, kept for later error messages.\<close>

definition with_pos :: "(usize \<Rightarrow> 'a rd) \<Rightarrow> 'a rd" where
  "with_pos f r = f (original_position r) r"

definition map_err_rd :: "(binary_reader_error \<Rightarrow> binary_reader_error) \<Rightarrow> 'a rd \<Rightarrow> 'a rd" where
  "map_err_rd g m r = (case m r of Inl e \<Rightarrow> Inl (g e) | Inr y \<Rightarrow> Inr y)"

section \<open>Bytes\<close>

definition ensure_has_byte :: "unit rd" where
  "ensure_has_byte r =
     (if position r < length (buffer r) then Inr ((), r)
      else Inl (error_eof (original_position r) 1))"

definition ensure_has_bytes :: "usize \<Rightarrow> unit rd" where
  "ensure_has_bytes len r =
     (if position r + len \<le> length (buffer r) then Inr ((), r)
      else Inl (error_eof (original_position r) (position r + len - length (buffer r))))"

definition read_u8 :: "u8 rd" where
  "read_u8 r =
     (if position r < length (buffer r)
      then Inr (buffer r ! position r, r\<lparr>position := position r + 1\<rparr>)
      else Inl (eof_err r))"

definition peek :: "u8 rd" where
  "peek = bind_rd ensure_has_byte (\<lambda>_ r. Inr (buffer r ! position r, r))"

definition read_u7 :: "u8 rd" where
  "read_u7 = bind_rd read_u8 (\<lambda>b.
     if b AND 0x80 \<noteq> 0 then fail_rd (\<lambda>r. error_new ''invalid u7'' (original_position r - 1))
     else return_rd b)"

definition read_bytes :: "usize \<Rightarrow> u8 list rd" where
  "read_bytes size' = bind_rd (ensure_has_bytes size') (\<lambda>_ r.
     Inr (take size' (drop (position r) (buffer r)), r\<lparr>position := position r + size'\<rparr>))"

text \<open>Little-endian words, as \<open>from_le_bytes\<close> and \<open>to_le_bytes\<close> read and write them.\<close>

fun nat_from_le_bytes :: "u8 list \<Rightarrow> nat" where
  "nat_from_le_bytes [] = 0"
| "nat_from_le_bytes (b # bs) = unat b + 256 * nat_from_le_bytes bs"

fun to_le_bytes :: "nat \<Rightarrow> nat \<Rightarrow> u8 list" where
  "to_le_bytes 0 n = []"
| "to_le_bytes (Suc k) n = of_nat (n mod 256) # to_le_bytes k (n div 256)"

lemma to_le_bytes_length [simp]: "length (to_le_bytes k n) = k"
  by (induction k arbitrary: n) simp_all

lemma nat_from_to_le_bytes: "nat_from_le_bytes (to_le_bytes k n) = n mod 256 ^ k"
proof (induction k arbitrary: n)
  case (Suc k)
  have "unat (of_nat (n mod 256) :: u8) = n mod 256"
    by (simp add: unat_of_nat)
  then show ?case
    by (simp add: Suc mod_mult2_eq)
qed simp

definition read_u32 :: "u32 rd" where
  "read_u32 = bind_rd (ensure_has_bytes 4) (\<lambda>_ r.
     Inr (of_nat (nat_from_le_bytes (take 4 (drop (position r) (buffer r)))),
          r\<lparr>position := position r + 4\<rparr>))"

definition read_u64 :: "u64 rd" where
  "read_u64 = bind_rd (ensure_has_bytes 8) (\<lambda>_ r.
     Inr (of_nat (nat_from_le_bytes (take 8 (drop (position r) (buffer r)))),
          r\<lparr>position := position r + 8\<rparr>))"

text \<open>Floats are kept as their bits.\<close>

datatype ieee32 = Ieee32 u32
datatype ieee64 = Ieee64 u64

definition read_f32 :: "ieee32 rd" where
  "read_f32 = bind_rd read_u32 (\<lambda>value. return_rd (Ieee32 value))"

definition read_f64 :: "ieee64 rd" where
  "read_f64 = bind_rd read_u64 (\<lambda>value. return_rd (Ieee64 value))"

lemma read_u8_bytes_remaining:
  "read_u8 r = Inr (b, r') \<Longrightarrow> bytes_remaining r' < bytes_remaining r"
  by (auto simp: read_u8_def bytes_remaining_def split: if_splits)

section \<open>LEB128 integers\<close>

function read_var_u32_loop :: "u32 \<Rightarrow> nat \<Rightarrow> u32 rd" where
  "read_var_u32_loop result shift r =
     (case read_u8 r of
        Inl e \<Rightarrow> Inl e
      | Inr (byte, r1) \<Rightarrow>
          (let result' = result OR push_bit shift (ucast (byte AND 0x7F)) in
           if shift \<ge> 25 \<and> drop_bit (32 - shift) byte \<noteq> 0
           then Inl (error_new
                  (if byte AND 0x80 \<noteq> 0 then ''invalid var_u32: integer representation too long''
                   else ''invalid var_u32: integer too large'')
                  (original_position r1 - 1))
           else if byte AND 0x80 = 0 then Inr (result', r1)
           else read_var_u32_loop result' (shift + 7) r1))"
  by pat_completeness auto
termination
  by (relation "measure (\<lambda>(_, _, r). bytes_remaining r)") (auto dest: read_u8_bytes_remaining)

declare read_var_u32_loop.simps [simp del]

definition read_var_u32_big :: "u8 \<Rightarrow> u32 rd" where
  "read_var_u32_big byte = read_var_u32_loop (ucast (byte AND 0x7F)) 7"

definition read_var_u32 :: "u32 rd" where
  "read_var_u32 = bind_rd read_u8 (\<lambda>byte.
     if byte AND 0x80 = 0 then return_rd (ucast byte) else read_var_u32_big byte)"

function read_var_u64_loop :: "u64 \<Rightarrow> nat \<Rightarrow> u64 rd" where
  "read_var_u64_loop result shift r =
     (case read_u8 r of
        Inl e \<Rightarrow> Inl e
      | Inr (byte, r1) \<Rightarrow>
          (let result' = result OR push_bit shift (ucast (byte AND 0x7F)) in
           if shift \<ge> 57 \<and> drop_bit (64 - shift) byte \<noteq> 0
           then Inl (error_new
                  (if byte AND 0x80 \<noteq> 0 then ''invalid var_u64: integer representation too long''
                   else ''invalid var_u64: integer too large'')
                  (original_position r1 - 1))
           else if byte AND 0x80 = 0 then Inr (result', r1)
           else read_var_u64_loop result' (shift + 7) r1))"
  by pat_completeness auto
termination
  by (relation "measure (\<lambda>(_, _, r). bytes_remaining r)") (auto dest: read_u8_bytes_remaining)

declare read_var_u64_loop.simps [simp del]

definition read_var_u64_big :: "u8 \<Rightarrow> u64 rd" where
  "read_var_u64_big byte = read_var_u64_loop (ucast (byte AND 0x7F)) 7"

definition read_var_u64 :: "u64 rd" where
  "read_var_u64 = bind_rd read_u8 (\<lambda>byte.
     if byte AND 0x80 = 0 then return_rd (ucast byte) else read_var_u64_big byte)"

text \<open>
  The signed readers. \<open>signed_drop_bit\<close> is the arithmetic shift \<open>>>\<close> of a signed
  integer, and \<open>drop_bit\<close> that of an unsigned one.
\<close>

function read_var_i32_loop :: "i32 \<Rightarrow> nat \<Rightarrow> i32 rd" where
  "read_var_i32_loop result shift r =
     (case read_u8 r of
        Inl e \<Rightarrow> Inl e
      | Inr (byte, r1) \<Rightarrow>
          (let result' = result OR push_bit shift (ucast (byte AND 0x7F)) in
           if shift \<ge> 25
           then (let continuation_bit = (byte AND 0x80 \<noteq> 0);
                     sign_and_unused_bit = signed_drop_bit (32 - shift) (push_bit 1 byte)
                 in if continuation_bit
                       \<or> (sign_and_unused_bit \<noteq> 0 \<and> sign_and_unused_bit \<noteq> - 1)
                    then Inl (error_new
                      (if continuation_bit then ''invalid var_i32: integer representation too long''
                       else ''invalid var_i32: integer too large'')
                      (original_position r1 - 1))
                    else Inr (result', r1))
           else if byte AND 0x80 = 0
           then (let ashift = 32 - (shift + 7)
                 in Inr (signed_drop_bit ashift (push_bit ashift result'), r1))
           else read_var_i32_loop result' (shift + 7) r1))"
  by pat_completeness auto
termination
  by (relation "measure (\<lambda>(_, _, r). bytes_remaining r)") (auto dest: read_u8_bytes_remaining)

declare read_var_i32_loop.simps [simp del]

definition read_var_i32_big :: "u8 \<Rightarrow> i32 rd" where
  "read_var_i32_big byte = read_var_i32_loop (ucast (byte AND 0x7F)) 7"

definition read_var_i32 :: "i32 rd" where
  "read_var_i32 = bind_rd read_u8 (\<lambda>byte.
     if byte AND 0x80 = 0 then return_rd (signed_drop_bit 25 (push_bit 25 (ucast byte)))
     else read_var_i32_big byte)"

function read_var_s33_loop :: "i64 \<Rightarrow> nat \<Rightarrow> i64 rd" where
  "read_var_s33_loop result shift r =
     (case read_u8 r of
        Inl e \<Rightarrow> Inl e
      | Inr (byte, r1) \<Rightarrow>
          (let result' = result OR push_bit shift (ucast (byte AND 0x7F)) in
           if shift \<ge> 25
           then (let continuation_bit = (byte AND 0x80 \<noteq> 0);
                     sign_and_unused_bit = signed_drop_bit (33 - shift) (push_bit 1 byte)
                 in if continuation_bit
                       \<or> (sign_and_unused_bit \<noteq> 0 \<and> sign_and_unused_bit \<noteq> - 1)
                    then Inl (error_new ''invalid var_s33: integer representation too long''
                      (original_position r1 - 1))
                    else Inr (result', r1))
           else if byte AND 0x80 = 0
           then (let ashift = 64 - (shift + 7)
                 in Inr (signed_drop_bit ashift (push_bit ashift result'), r1))
           else read_var_s33_loop result' (shift + 7) r1))"
  by pat_completeness auto
termination
  by (relation "measure (\<lambda>(_, _, r). bytes_remaining r)") (auto dest: read_u8_bytes_remaining)

declare read_var_s33_loop.simps [simp del]

definition read_var_s33 :: "i64 rd" where
  "read_var_s33 = bind_rd read_u8 (\<lambda>byte.
     if byte AND 0x80 = 0 then return_rd (signed_drop_bit 1 (scast (push_bit 1 byte)))
     else read_var_s33_loop (ucast (byte AND 0x7F)) 7)"

function read_var_i64_loop :: "i64 \<Rightarrow> nat \<Rightarrow> i64 rd" where
  "read_var_i64_loop result shift r =
     (case read_u8 r of
        Inl e \<Rightarrow> Inl e
      | Inr (byte, r1) \<Rightarrow>
          (let result' = result OR push_bit shift (ucast (byte AND 0x7F)) in
           if shift \<ge> 57
           then (let continuation_bit = (byte AND 0x80 \<noteq> 0);
                     sign_and_unused_bit = signed_drop_bit (64 - shift) (push_bit 1 byte)
                 in if continuation_bit
                       \<or> (sign_and_unused_bit \<noteq> 0 \<and> sign_and_unused_bit \<noteq> - 1)
                    then Inl (error_new
                      (if continuation_bit then ''invalid var_i64: integer representation too long''
                       else ''invalid var_i64: integer too large'')
                      (original_position r1 - 1))
                    else Inr (result', r1))
           else if byte AND 0x80 = 0
           then (let ashift = 64 - (shift + 7)
                 in Inr (signed_drop_bit ashift (push_bit ashift result'), r1))
           else read_var_i64_loop result' (shift + 7) r1))"
  by pat_completeness auto
termination
  by (relation "measure (\<lambda>(_, _, r). bytes_remaining r)") (auto dest: read_u8_bytes_remaining)

declare read_var_i64_loop.simps [simp del]

definition read_var_i64 :: "i64 rd" where
  "read_var_i64 = read_var_i64_loop 0 0"

text \<open>\<open>u32::try_from\<close> of an \<open>i64\<close>.\<close>

definition u32_try_from_i64 :: "i64 \<Rightarrow> u32 option" where
  "u32_try_from_i64 x = (if 0 \<le> sint x \<and> sint x < 2 ^ 32 then Some (ucast x) else None)"

section \<open>Sizes, lists of items, nested readers\<close>

definition read_size :: "usize \<Rightarrow> string \<Rightarrow> usize rd" where
  "read_size limit desc = with_pos (\<lambda>pos. bind_rd read_var_u32 (\<lambda>size'.
     if unat size' > limit
     then fail_rd (\<lambda>_. error_new (desc @ '' size is out of bounds'') pos)
     else return_rd (unat size')))"

text \<open>
  \<open>BinaryReaderIter\<close> collected into a \<open>Vec\<close>: the items are read in order, and the first
  error ends the iteration.
\<close>

fun read_items :: "'a rd \<Rightarrow> nat \<Rightarrow> 'a list rd" where
  "read_items item 0 = return_rd []"
| "read_items item (Suc n) =
     bind_rd item (\<lambda>x. bind_rd (read_items item n) (\<lambda>xs. return_rd (x # xs)))"

definition read_iter :: "usize \<Rightarrow> string \<Rightarrow> 'a rd \<Rightarrow> 'a list rd" where
  "read_iter limit desc item = bind_rd (read_size limit desc) (read_items item)"

definition skip :: "unit rd \<Rightarrow> binary_reader rd" where
  "skip f r =
     bind_rd f (\<lambda>_ r'. Inr
       (r'\<lparr>buffer := take (position r' - position r) (drop (position r) (buffer r')),
           position := 0, original_offset := original_offset r' + position r\<rparr>, r')) r"

definition read_reader :: "binary_reader rd" where
  "read_reader = bind_rd read_var_u32 (\<lambda>size'.
     skip (bind_rd (read_bytes (unat size')) (\<lambda>_. return_rd ())))"

definition skip_string :: "unit rd" where
  "skip_string = bind_rd read_var_u32 (\<lambda>len.
     if unat len > MAX_WASM_STRING_SIZE
     then fail_rd (\<lambda>r. error_new ''string size out of bounds'' (original_position r - 1))
     else bind_rd (ensure_has_bytes (unat len)) (\<lambda>_ r.
       Inr ((), r\<lparr>position := position r + unat len\<rparr>)))"

section \<open>Strings\<close>

text \<open>
  The well-formed UTF-8 byte sequences accepted by \<open>str::from_utf8\<close>: no overlong form, no
  surrogate, nothing beyond U+10FFFF.
\<close>

definition cont_byte :: "u8 \<Rightarrow> bool" where
  "cont_byte b \<longleftrightarrow> 0x80 \<le> b \<and> b \<le> 0xBF"

fun utf8_valid :: "u8 list \<Rightarrow> bool" where
  "utf8_valid [] \<longleftrightarrow> True"
| "utf8_valid (a # bs) \<longleftrightarrow>
     (if a \<le> 0x7F then utf8_valid bs
      else if 0xC2 \<le> a \<and> a \<le> 0xDF
        then (case bs of b # bs1 \<Rightarrow> cont_byte b \<and> utf8_valid bs1 | _ \<Rightarrow> False)
      else if 0xE0 \<le> a \<and> a \<le> 0xEF
        then (case bs of
                b # c # bs2 \<Rightarrow>
                  (if a = 0xE0 then 0xA0 \<le> b \<and> b \<le> 0xBF
                   else if a = 0xED then 0x80 \<le> b \<and> b \<le> 0x9F
                   else cont_byte b) \<and> cont_byte c \<and> utf8_valid bs2
              | _ \<Rightarrow> False)
      else if 0xF0 \<le> a \<and> a \<le> 0xF4
        then (case bs of
                b # c # d # bs3 \<Rightarrow>
                  (if a = 0xF0 then 0x90 \<le> b \<and> b \<le> 0xBF
                   else if a = 0xF4 then 0x80 \<le> b \<and> b \<le> 0x8F
                   else cont_byte b) \<and> cont_byte c \<and> cont_byte d \<and> utf8_valid bs3
              | _ \<Rightarrow> False)
      else False)"

definition internal_read_string :: "usize \<Rightarrow> u8 list rd" where
  "internal_read_string len = bind_rd (read_bytes len) (\<lambda>bytes.
     if utf8_valid bytes then return_rd bytes
     else fail_rd (\<lambda>r. error_new ''malformed UTF-8 encoding'' (original_position r - 1)))"

definition read_string :: "u8 list rd" where
  "read_string = bind_rd read_var_u32 (\<lambda>len.
     if unat len > MAX_WASM_STRING_SIZE
     then fail_rd (\<lambda>r. error_new ''string size out of bounds'' (original_position r - 1))
     else internal_read_string (unat len))"

definition read_unlimited_string :: "u8 list rd" where
  "read_unlimited_string = bind_rd read_var_u32 (\<lambda>len. internal_read_string (unat len))"

definition invalid_leading_byte_error :: "u8 \<Rightarrow> string \<Rightarrow> usize \<Rightarrow> binary_reader_error" where
  "invalid_leading_byte_error byte desc off =
     error_new (''invalid leading byte (0x'' @ fmt_hex (unat byte) @ '') for '' @ desc) off"

definition invalid_leading_byte :: "u8 \<Rightarrow> string \<Rightarrow> 'a rd" where
  "invalid_leading_byte byte desc =
     fail_rd (\<lambda>r. invalid_leading_byte_error byte desc (original_position r - 1))"

definition WASM_MAGIC_NUMBER :: "u8 list" where
  "WASM_MAGIC_NUMBER = [0x00, 0x61, 0x73, 0x6D]"

end
