(* ===== verification/Reader_Laws.thy ===== *)
theory Reader_Laws
  imports Binary_Reader
begin

text \<open>
  The contract of the trait \<open>FromReader\<close> (crates/wasmparser/src/readers.rs) and the proofs
  that every primitive reader satisfies it. Whatever a reader does, it

  \<^item> leaves the input, its offset and the enabled features alone,
  \<^item> only moves forward and never past the end of its buffer,
  \<^item> depends on no byte after the ones it consumed, and
  \<^item> reports an error at an offset inside the range it was asked to read.

  The locale \<open>from_reader\<close> states these laws for one reader and derives what the generic
  code relies on: reading a list of items keeps the laws.
\<close>

unbundle bit_operations_syntax

section \<open>Well-formed readers\<close>

definition rd_wf :: "binary_reader \<Rightarrow> bool" where
  "rd_wf r \<longleftrightarrow> position r \<le> length (buffer r)"

definition same_input :: "binary_reader \<Rightarrow> binary_reader \<Rightarrow> bool" where
  "same_input r r' \<longleftrightarrow>
     buffer r' = buffer r \<and> original_offset r' = original_offset r \<and> features r' = features r"

definition extend_input :: "u8 list \<Rightarrow> binary_reader \<Rightarrow> binary_reader" where
  "extend_input ys r = r\<lparr>buffer := buffer r @ ys\<rparr>"

definition advance :: "nat \<Rightarrow> binary_reader \<Rightarrow> binary_reader" where
  "advance n r = r\<lparr>position := position r + n\<rparr>"

definition end_position :: "binary_reader \<Rightarrow> usize" where
  "end_position r = original_offset r + length (buffer r)"

lemma extend_simps [simp]:
  "buffer (extend_input ys r) = buffer r @ ys" "position (extend_input ys r) = position r"
  "original_offset (extend_input ys r) = original_offset r" "features (extend_input ys r) = features r"
  "original_position (extend_input ys r) = original_position r"
  by (simp_all add: extend_input_def original_position_def)

lemma advance_simps [simp]:
  "buffer (advance n r) = buffer r" "position (advance n r) = position r + n"
  "original_offset (advance n r) = original_offset r" "features (advance n r) = features r"
  "original_position (advance n r) = original_position r + n"
  "advance m (advance n r) = advance (n + m) r" "advance 0 r = r"
  "extend_input ys (advance n r) = advance n (extend_input ys r)"
  by (simp_all add: extend_input_def advance_def original_position_def add.assoc)

lemma rd_wf_extend [simp]: "rd_wf r \<Longrightarrow> rd_wf (extend_input ys r)"
  by (simp add: rd_wf_def)

lemma same_input_refl [simp]: "same_input r r"
  by (simp add: same_input_def)

lemma same_input_advance [simp]: "same_input r (advance n r)"
  by (simp add: same_input_def)

lemma same_input_trans: "same_input r r1 \<Longrightarrow> same_input r1 r2 \<Longrightarrow> same_input r r2"
  by (simp add: same_input_def)

lemma same_input_end: "same_input r r' \<Longrightarrow> end_position r' = end_position r"
  by (simp add: same_input_def end_position_def)

lemma same_input_extendE:
  "same_input r r' \<Longrightarrow> extend_input ys r' = advance n (extend_input ys r) \<longleftrightarrow> r' = advance n r"
  by (cases r; cases r') (auto simp: same_input_def extend_input_def advance_def)

section \<open>The contract\<close>

locale from_reader =
  fixes read :: "'a rd"
  assumes read_frame: "rd_wf r \<Longrightarrow> read r = Inr (x, r') \<Longrightarrow> same_input r r'"
    and read_forward:
      "rd_wf r \<Longrightarrow> read r = Inr (x, r') \<Longrightarrow> position r \<le> position r' \<and> rd_wf r'"
    and read_local: "rd_wf r \<Longrightarrow> read r = Inr (x, r') \<Longrightarrow> read (extend_input ys r) = Inr (x, extend_input ys r')"
    and read_located:
      "rd_wf r \<Longrightarrow> read r = Inl e \<Longrightarrow>
         original_position r \<le> err_offset e \<and> err_offset e \<le> end_position r"

text \<open>
  The contract taken apart for compound reads: \<open>rd_ok k p m\<close> says that \<open>m\<close>, started at
  least \<open>k\<close> bytes after the absolute offset \<open>p\<close>, reports errors at \<open>p\<close> or later. The
  distance \<open>k\<close> lets a method report the byte it has just consumed, and the fixed \<open>p\<close> lets it
  report the offset where it started.
\<close>

definition rd_ok :: "nat \<Rightarrow> usize \<Rightarrow> 'a rd \<Rightarrow> bool" where
  "rd_ok k p m \<longleftrightarrow> (\<forall>r. rd_wf r \<longrightarrow> p + k \<le> original_position r \<longrightarrow>
     (case m r of
        Inl e \<Rightarrow> p \<le> err_offset e \<and> err_offset e \<le> end_position r
      | Inr (x, r') \<Rightarrow> same_input r r' \<and> position r \<le> position r' \<and> rd_wf r' \<and>
          (\<forall>ys. m (extend_input ys r) = Inr (x, extend_input ys r'))))"

definition consumes :: "nat \<Rightarrow> 'a rd \<Rightarrow> bool" where
  "consumes n m \<longleftrightarrow> (\<forall>r x r'. rd_wf r \<longrightarrow> m r = Inr (x, r') \<longrightarrow> position r + n \<le> position r')"

lemma rd_okD:
  assumes "rd_ok k p m" "rd_wf r" "p + k \<le> original_position r" "m r = Inr (x, r')"
  shows "same_input r r'" "position r \<le> position r'" "rd_wf r'"
    "m (extend_input ys r) = Inr (x, extend_input ys r')"
  using assms(1) [unfolded rd_ok_def, rule_format, OF assms(2,3)] assms(4) by simp_all

lemma rd_ok_errD:
  assumes "rd_ok k p m" "rd_wf r" "p + k \<le> original_position r" "m r = Inl e"
  shows "p \<le> err_offset e" "err_offset e \<le> end_position r"
  using assms(1) [unfolded rd_ok_def, rule_format, OF assms(2,3)] assms(4) by simp_all

lemma rd_okI:
  assumes "\<And>r e. rd_wf r \<Longrightarrow> p + k \<le> original_position r \<Longrightarrow> m r = Inl e \<Longrightarrow>
      p \<le> err_offset e \<and> err_offset e \<le> end_position r"
    and "\<And>r x r'. rd_wf r \<Longrightarrow> p + k \<le> original_position r \<Longrightarrow> m r = Inr (x, r') \<Longrightarrow>
      same_input r r' \<and> position r \<le> position r' \<and> rd_wf r' \<and>
      (\<forall>ys. m (extend_input ys r) = Inr (x, extend_input ys r'))"
  shows "rd_ok k p m"
  unfolding rd_ok_def using assms by (auto split: sum.split)

lemma from_reader_iff_rd_ok: "from_reader m \<longleftrightarrow> (\<forall>p. rd_ok 0 p m)"
proof
  assume m: "from_reader m"
  show "\<forall>p. rd_ok 0 p m"
  proof (intro allI rd_okI)
    fix p r e
    assume "rd_wf r" "p + 0 \<le> original_position r" "m r = Inl e"
    then show "p \<le> err_offset e \<and> err_offset e \<le> end_position r"
      using from_reader.read_located [OF m] by fastforce
  qed (use m in \<open>simp add: from_reader_def\<close>)
next
  assume ok: "\<forall>p. rd_ok 0 p m"
  show "from_reader m"
  proof
    fix r x r' ys
    assume "rd_wf r" "m r = Inr (x, r')"
    note rd_okD [OF ok [rule_format, of "original_position r"] this(1) _ this(2)]
    then show "same_input r r'" "position r \<le> position r' \<and> rd_wf r'"
      "m (extend_input ys r) = Inr (x, extend_input ys r')"
      by simp_all
  next
    fix r e
    assume "rd_wf r" "m r = Inl e"
    note rd_ok_errD [OF ok [rule_format, of "original_position r"] this(1) _ this(2)]
    then show "original_position r \<le> err_offset e \<and> err_offset e \<le> end_position r" by simp
  qed
qed

lemma from_readerI: "(\<And>p. rd_ok 0 p m) \<Longrightarrow> from_reader m"
  by (simp add: from_reader_iff_rd_ok)

lemma from_reader_rd_ok: "from_reader m \<Longrightarrow> rd_ok k p m"
proof -
  assume "from_reader m"
  then have "rd_ok 0 p m" by (simp add: from_reader_iff_rd_ok)
  then show ?thesis by (simp add: rd_ok_def)
qed

section \<open>The laws of sequencing\<close>

lemma bind_assoc: "bind_rd (bind_rd m f) g = bind_rd m (\<lambda>x. bind_rd (f x) g)"
  by (rule ext) (simp add: bind_rd_def split: sum.split)

lemma bind_return [simp]: "bind_rd m (\<lambda>x. return_rd x) = m"
  by (rule ext) (simp add: bind_rd_def return_rd_def split: sum.split)

lemma bind_return_left [simp]: "bind_rd (return_rd x) f = f x"
  by (rule ext) (simp add: bind_rd_def return_rd_def)

section \<open>The contract is closed under sequencing\<close>

lemma rd_ok_bind_gen:
  assumes m: "rd_ok k p m"
    and c: "\<And>r x r'. rd_wf r \<Longrightarrow> p + k \<le> original_position r \<Longrightarrow> m r = Inr (x, r') \<Longrightarrow>
      position r + j \<le> position r'"
    and f: "\<And>x. rd_ok (k + j) p (f x)"
  shows "rd_ok k p (bind_rd m f)"
proof (rule rd_okI)
  fix r e
  assume wf: "rd_wf r" "p + k \<le> original_position r" and err: "bind_rd m f r = Inl e"
  show "p \<le> err_offset e \<and> err_offset e \<le> end_position r"
  proof (cases "m r")
    case (Inl e')
    with err rd_ok_errD [OF m wf] show ?thesis by (simp add: bind_rd_def)
  next
    case (Inr q)
    then obtain x r1 where r1: "m r = Inr (x, r1)" by (cases q) auto
    note 1 = rd_okD [OF m wf r1]
    have "position r + j \<le> position r1" using c wf r1 by blast
    then have "p + (k + j) \<le> original_position r1"
      using 1(1) wf(2) by (simp add: same_input_def original_position_def)
    moreover have "f x r1 = Inl e" using err r1 by (simp add: bind_rd_def)
    ultimately have "p \<le> err_offset e" "err_offset e \<le> end_position r1"
      using rd_ok_errD [OF f 1(3)] by blast+
    then show ?thesis using same_input_end [OF 1(1)] by simp
  qed
next
  fix r y r2
  assume wf: "rd_wf r" "p + k \<le> original_position r" and "bind_rd m f r = Inr (y, r2)"
  then obtain x r1 where r1: "m r = Inr (x, r1)" and r2: "f x r1 = Inr (y, r2)"
    by (auto simp: bind_rd_def split: sum.splits)
  note 1 = rd_okD [OF m wf r1]
  have "position r + j \<le> position r1" using c wf r1 by blast
  then have "p + (k + j) \<le> original_position r1"
    using 1(1) wf(2) by (simp add: same_input_def original_position_def)
  note 2 = rd_okD [OF f 1(3) this r2]
  show "same_input r r2 \<and> position r \<le> position r2 \<and> rd_wf r2 \<and>
      (\<forall>ys. bind_rd m f (extend_input ys r) = Inr (y, extend_input ys r2))"
    using 1 2 by (auto simp: bind_rd_def intro: same_input_trans)
qed

lemma rd_ok_bind:
  assumes "rd_ok k p m" "consumes j m" "\<And>x. rd_ok (k + j) p (f x)"
  shows "rd_ok k p (bind_rd m f)"
  using assms(2) by (intro rd_ok_bind_gen [OF assms(1) _ assms(3)]) (simp add: consumes_def)

lemma rd_ok_bind_same:
  assumes "rd_ok k p m" "\<And>x. rd_ok k p (f x)"
  shows "rd_ok k p (bind_rd m f)"
  by (rule rd_ok_bind_gen [OF assms(1), where j = 0]) (use assms(2) rd_okD(2) [OF assms(1)] in simp_all)

lemma rd_ok_mono: "rd_ok j p m \<Longrightarrow> j \<le> k \<Longrightarrow> rd_ok k p m"
  by (simp add: rd_ok_def)

lemma rd_ok_bind0:
  assumes "\<And>q. rd_ok 0 q m" and "\<And>x. rd_ok k p (f x)"
  shows "rd_ok k p (bind_rd m f)"
  by (rule rd_ok_bind_same [OF rd_ok_mono [OF assms(1)] assms(2)]) simp

lemma rd_ok_return [rd_intro]: "rd_ok k p (return_rd x)"
  by (simp add: rd_ok_def return_rd_def)

lemma rd_ok_with_pos [rd_intro]:
  assumes "\<And>q. rd_ok 0 q (f q)"
  shows "rd_ok k p (with_pos f)"
proof (rule rd_okI)
  fix r e
  assume "rd_wf r" "p + k \<le> original_position r" "with_pos f r = Inl e"
  then show "p \<le> err_offset e \<and> err_offset e \<le> end_position r"
    using rd_ok_errD [OF assms, of r "original_position r" e] by (simp add: with_pos_def)
next
  fix r x r'
  assume "rd_wf r" "with_pos f r = Inr (x, r')"
  then show "same_input r r' \<and> position r \<le> position r' \<and> rd_wf r' \<and>
      (\<forall>ys. with_pos f (extend_input ys r) = Inr (x, extend_input ys r'))"
    using rd_okD [OF assms, of r "original_position r" x r'] by (simp add: with_pos_def)
qed

lemma rd_ok_fail:
  assumes "\<And>r. rd_wf r \<Longrightarrow> p + k \<le> original_position r \<Longrightarrow>
    p \<le> err_offset (e r) \<and> err_offset (e r) \<le> end_position r"
  shows "rd_ok k p (fail_rd e)"
  using assms by (simp add: rd_ok_def fail_rd_def)

lemma rd_ok_map_err [rd_intro]:
  assumes "rd_ok k p m" "\<And>e. err_offset (g e) = err_offset e"
  shows "rd_ok k p (map_err_rd g m)"
  using assms unfolding rd_ok_def map_err_rd_def by (fastforce split: sum.splits)

lemma rd_ok_if [rd_intro]:
  "(b \<Longrightarrow> rd_ok k p m) \<Longrightarrow> (\<not> b \<Longrightarrow> rd_ok k p m') \<Longrightarrow> rd_ok k p (if b then m else m')"
  by simp

lemma original_position_le_end: "rd_wf r \<Longrightarrow> original_position r \<le> end_position r"
  by (simp add: rd_wf_def original_position_def end_position_def)

lemma rd_ok_fail_here [rd_intro]:
  "rd_ok k p (fail_rd (\<lambda>r. error_new (msg r) (original_position r)))"
  by (rule rd_ok_fail) (use original_position_le_end in \<open>auto simp: error_new_def\<close>)

lemma rd_ok_fail_start [rd_intro]: "rd_ok k p (fail_rd (\<lambda>r. error_new (msg r) p))"
  by (rule rd_ok_fail) (use original_position_le_end in \<open>fastforce simp: error_new_def\<close>)

lemma rd_ok_fail_back [rd_intro]:
  "rd_ok (Suc k) p (fail_rd (\<lambda>r. error_new (msg r) (original_position r - Suc 0)))"
  by (rule rd_ok_fail) (use original_position_le_end in \<open>fastforce simp: error_new_def\<close>)

lemma rd_ok_fail_invalid_back [rd_intro]:
  "rd_ok (Suc k) p (fail_rd (\<lambda>r. error_invalid (msg r) (original_position r - Suc 0)))"
  by (rule rd_ok_fail) (use original_position_le_end in \<open>fastforce simp: error_invalid_def\<close>)

lemma rd_ok_invalid_leading_byte [rd_intro]: "rd_ok (Suc k) p (invalid_leading_byte b desc)"
  unfolding invalid_leading_byte_def invalid_leading_byte_error_def
  by (simp only: One_nat_def) (intro rd_intro)

section \<open>Bytes\<close>

lemma rd_ok_ensure_has_bytes [rd_intro]: "rd_ok k p (ensure_has_bytes n)"
  by (rule rd_okI)
    (auto simp: ensure_has_bytes_def error_eof_def error_new_def original_position_def
      end_position_def rd_wf_def split: if_splits)

lemma rd_ok_ensure_has_byte [rd_intro]: "rd_ok k p ensure_has_byte"
  by (rule rd_okI)
    (auto simp: ensure_has_byte_def error_eof_def error_new_def original_position_def
      end_position_def rd_wf_def split: if_splits)

lemma read_u8_alt:
  "read_u8 r = (if position r < length (buffer r) then Inr (buffer r ! position r, advance 1 r)
     else Inl (eof_err r))"
  by (simp add: read_u8_def advance_def)

lemma rd_ok_read_u8 [rd_intro]: "rd_ok k p read_u8"
  by (rule rd_okI)
    (auto simp: read_u8_alt eof_err_def error_eof_def error_new_def original_position_def
      end_position_def rd_wf_def nth_append split: if_splits)

lemma consumes_read_u8: "consumes 1 read_u8"
  by (auto simp: consumes_def read_u8_alt split: if_splits)

lemma rd_ok_peek [rd_intro]: "rd_ok k p peek"
  by (rule rd_okI)
    (auto simp: peek_def bind_rd_def ensure_has_byte_def error_eof_def error_new_def
      original_position_def end_position_def rd_wf_def nth_append split: if_splits)

text \<open>A byte, then code that may complain about that byte.\<close>

lemma rd_ok_read_u8_bind [rd_intro]:
  assumes "\<And>b. rd_ok (Suc k) p (f b)"
  shows "rd_ok k p (bind_rd read_u8 f)"
  by (rule rd_ok_bind [OF rd_ok_read_u8 consumes_read_u8]) (use assms in simp)

lemma read_bytes_alt:
  "read_bytes n r =
     (if position r + n \<le> length (buffer r)
      then Inr (take n (drop (position r) (buffer r)), advance n r)
      else Inl (error_eof (original_position r) (position r + n - length (buffer r))))"
  by (simp add: read_bytes_def bind_rd_def ensure_has_bytes_def advance_def)

lemma rd_ok_read_bytes [rd_intro]: "rd_ok k p (read_bytes n)"
  by (rule rd_okI)
    (auto simp: read_bytes_alt error_eof_def error_new_def original_position_def
      end_position_def rd_wf_def split: if_splits)

lemma read_le_local:
  "position r + n \<le> length (buffer r) \<Longrightarrow>
   take n (drop (position r) (buffer r @ ys)) = take n (drop (position r) (buffer r))"
  by simp

lemma rd_ok_read_u32 [rd_intro]: "rd_ok k p read_u32"
  by (rule rd_okI)
    (auto simp: read_u32_def bind_rd_def ensure_has_bytes_def error_eof_def error_new_def
      original_position_def end_position_def rd_wf_def same_input_def extend_input_def
      split: if_splits)

lemma rd_ok_read_u64 [rd_intro]: "rd_ok k p read_u64"
  by (rule rd_okI)
    (auto simp: read_u64_def bind_rd_def ensure_has_bytes_def error_eof_def error_new_def
      original_position_def end_position_def rd_wf_def same_input_def extend_input_def
      split: if_splits)

lemma rd_ok_read_f32 [rd_intro]: "rd_ok k p read_f32"
  unfolding read_f32_def by (rule rd_intro rd_ok_bind0)+

lemma rd_ok_read_f64 [rd_intro]: "rd_ok k p read_f64"
  unfolding read_f64_def by (rule rd_intro rd_ok_bind0)+

end
