(* ===== verification/Leb128.thy ===== *)
theory Leb128
  imports Reader_Laws
begin

text \<open>
  The LEB128 readers of crates/wasmparser/src/binary_reader.rs compute the mathematical value of
  the bytes they consume, and accept exactly the encodings WebAssembly allows: at most
  \<open>ceil(W/7)\<close> bytes whose value fits in \<open>W\<close> bits.

  The five loops share their shape. The locale \<open>leb_loop\<close> states it, and derives the reader
  contract and a description of the loop as a function of the bytes alone; each loop of the
  source is an interpretation.
\<close>

unbundle bit_operations_syntax

section \<open>Reading from the remaining bytes\<close>

lemma remaining_Cons_read_u8:
  "remaining_buffer r = b # bs \<Longrightarrow> read_u8 r = Inr (b, advance 1 r) \<and> remaining_buffer (advance 1 r) = bs"
  using drop_eq_ConsD [of "position r" "buffer r" b bs]
  by (simp add: remaining_buffer_def read_u8_alt)

lemma read_u8_remaining:
  "read_u8 r = Inr (b, r1) \<longleftrightarrow> remaining_buffer r = b # remaining_buffer (advance 1 r) \<and> r1 = advance 1 r"
proof
  assume "read_u8 r = Inr (b, r1)"
  then show "remaining_buffer r = b # remaining_buffer (advance 1 r) \<and> r1 = advance 1 r"
    by (auto simp: read_u8_alt remaining_buffer_def Cons_nth_drop_Suc split: if_splits)
qed (use remaining_Cons_read_u8 in blast)

lemma remaining_advance:
  "remaining_buffer r = bs @ rest \<Longrightarrow> remaining_buffer (advance (length bs) r) = rest"
  by (simp add: remaining_buffer_def) (metis add.commute append_eq_conv_conj drop_drop)

lemma bind_u8_iff:
  "bind_rd read_u8 f r = Inr (v, r') \<longleftrightarrow>
   (\<exists>b. remaining_buffer r = b # remaining_buffer (advance 1 r) \<and> f b (advance 1 r) = Inr (v, r'))"
  using read_u8_remaining [of r] by (force simp: bind_rd_def split: sum.splits)

section \<open>Loops over the bytes of an integer\<close>

datatype ('s, 'v) leb_step = LErr string | LDone 'v | LMore 's

fun leb_run :: "('s \<Rightarrow> u8 \<Rightarrow> ('s, 'v) leb_step) \<Rightarrow> 's \<Rightarrow> u8 list \<Rightarrow> 'v option" where
  "leb_run step s [] = None"
| "leb_run step s (b # bs) =
     (case step s b of
        LErr _ \<Rightarrow> None
      | LDone v \<Rightarrow> (if bs = [] then Some v else None)
      | LMore s' \<Rightarrow> leb_run step s' bs)"

locale leb_loop =
  fixes loop :: "'s \<Rightarrow> 'v rd" and step :: "'s \<Rightarrow> u8 \<Rightarrow> ('s, 'v) leb_step"
  assumes loop_unfold:
    "loop s r =
       (case read_u8 r of
          Inl e \<Rightarrow> Inl e
        | Inr (b, r1) \<Rightarrow>
            (case step s b of
               LErr msg \<Rightarrow> Inl (error_new msg (original_position r1 - 1))
             | LDone v \<Rightarrow> Inr (v, r1)
             | LMore s' \<Rightarrow> loop s' r1))"
begin

lemma loop_local:
  "loop s r = Inr (v, r') \<Longrightarrow> loop s (extend_input ys r) = Inr (v, extend_input ys r')"
proof (induction "bytes_remaining r" arbitrary: s r rule: less_induct)
  case less
  then obtain b r1 where r1: "read_u8 r = Inr (b, r1)"
    by (auto simp: loop_unfold [of s r] split: sum.splits)
  then have ext: "read_u8 (extend_input ys r) = Inr (b, extend_input ys r1)"
    by (auto simp: read_u8_alt nth_append split: if_splits)
  show ?case
  proof (cases "step s b")
    case (LMore s')
    have "loop s' (extend_input ys r1) = Inr (v, extend_input ys r')"
      using less.prems r1 LMore
      by (intro less.hyps read_u8_bytes_remaining [OF r1]) (simp add: loop_unfold [of s r])
    then show ?thesis using ext LMore by (simp add: loop_unfold [of s "extend_input ys r"])
  qed (use less.prems r1 ext in \<open>simp_all add: loop_unfold [of s]\<close>)
qed

lemma loop_bytes:
  "loop s r = Inr (v, r') \<Longrightarrow>
   \<exists>bs rest. remaining_buffer r = bs @ rest \<and> leb_run step s bs = Some v \<and> r' = advance (length bs) r"
proof (induction "bytes_remaining r" arbitrary: s r rule: less_induct)
  case less
  then obtain b r1 where r1: "read_u8 r = Inr (b, r1)"
    by (auto simp: loop_unfold [of s r] split: sum.splits)
  then have r1': "r1 = advance 1 r" and rem: "remaining_buffer r = b # remaining_buffer r1"
    by (auto simp: read_u8_alt remaining_buffer_def Cons_nth_drop_Suc split: if_splits)
  show ?case
  proof (cases "step s b")
    case (LErr msg)
    then show ?thesis using less.prems r1 by (simp add: loop_unfold [of s r])
  next
    case (LDone w)
    then have "v = w" "r' = r1" using less.prems r1 by (simp_all add: loop_unfold [of s r])
    then show ?thesis
      using rem r1' LDone by (intro exI [of _ "[b]"] exI [of _ "remaining_buffer r1"]) simp
  next
    case (LMore s')
    then have "loop s' r1 = Inr (v, r')" using less.prems r1 by (simp add: loop_unfold [of s r])
    from less.hyps [OF read_u8_bytes_remaining [OF r1] this] obtain bs rest where
      "remaining_buffer r1 = bs @ rest" "leb_run step s' bs = Some v" "r' = advance (length bs) r1"
      by blast
    then show ?thesis
      using rem r1' LMore by (intro exI [of _ "b # bs"] exI [of _ rest]) simp
  qed
qed

lemma loop_run:
  "remaining_buffer r = bs @ rest \<Longrightarrow> leb_run step s bs = Some v \<Longrightarrow>
   loop s r = Inr (v, advance (length bs) r)"
proof (induction bs arbitrary: s r)
  case Nil
  then show ?case by simp
next
  case (Cons b bs)
  have r1: "read_u8 r = Inr (b, advance 1 r)"
    using drop_eq_ConsD [of "position r" "buffer r" b "bs @ rest"] Cons.prems(1)
    by (simp add: remaining_buffer_def read_u8_alt)
  have rem: "remaining_buffer (advance 1 r) = bs @ rest"
    using drop_eq_ConsD [of "position r" "buffer r" b "bs @ rest"] Cons.prems(1)
    by (simp add: remaining_buffer_def)
  show ?case
    using Cons.prems(2) Cons.IH [OF rem] r1
    by (auto simp: loop_unfold [of s r] split: leb_step.splits if_splits)
qed

lemma loop_iff:
  "loop s r = Inr (v, r') \<longleftrightarrow>
   (\<exists>bs rest. remaining_buffer r = bs @ rest \<and> leb_run step s bs = Some v \<and> r' = advance (length bs) r)"
  using loop_bytes loop_run by fastforce

lemma loop_located:
  "rd_wf r \<Longrightarrow> loop s r = Inl e \<Longrightarrow>
   original_position r \<le> err_offset e \<and> err_offset e \<le> end_position r"
proof (induction "bytes_remaining r" arbitrary: s r rule: less_induct)
  case less
  show ?case
  proof (cases "read_u8 r")
    case (Inl e')
    then show ?thesis
      using less.prems rd_ok_errD [OF rd_ok_read_u8 [of 0 "original_position r"] less.prems(1) _ Inl]
      by (simp add: loop_unfold [of s r])
  next
    case (Inr p)
    then obtain b r1 where r1: "read_u8 r = Inr (b, r1)" by (cases p) auto
    then have r1': "r1 = advance 1 r" "rd_wf r1" "end_position r1 = end_position r"
      by (auto simp: read_u8_alt rd_wf_def end_position_def split: if_splits)
    show ?thesis
    proof (cases "step s b")
      case (LErr msg)
      then show ?thesis
        using less.prems r1 r1'
        by (auto simp: loop_unfold [of s r] error_new_def original_position_def rd_wf_def
          end_position_def)
    next
      case (LMore s')
      then have "loop s' r1 = Inl e" using less.prems r1 by (simp add: loop_unfold [of s r])
      from less.hyps [OF read_u8_bytes_remaining [OF r1] r1'(2) this] r1' show ?thesis
        by simp
    qed (use less.prems r1 in \<open>simp add: loop_unfold [of s r]\<close>)
  qed
qed

lemma rd_ok_loop: "rd_ok k p (loop s)"
proof (rule rd_okI)
  fix r e
  assume "rd_wf r" "p + k \<le> original_position r" "loop s r = Inl e"
  then show "p \<le> err_offset e \<and> err_offset e \<le> end_position r"
    using loop_located by fastforce
next
  fix r v r'
  assume wf: "rd_wf r" and eq: "loop s r = Inr (v, r')"
  then obtain bs rest where "remaining_buffer r = bs @ rest" "r' = advance (length bs) r"
    using loop_bytes by blast
  moreover have "length (remaining_buffer r) = length (buffer r) - position r"
    by (simp add: remaining_buffer_def)
  ultimately show "same_input r r' \<and> position r \<le> position r' \<and> rd_wf r' \<and>
      (\<forall>ys. loop s (extend_input ys r) = Inr (v, extend_input ys r'))"
    using wf loop_local [OF eq] by (auto simp: rd_wf_def)
qed

end

text \<open>The readers take a fast path when the first byte is also the last.\<close>

locale leb_reader = leb_loop +
  fixes read :: "'v rd" and fast :: "u8 \<Rightarrow> 'v" and init :: "u8 \<Rightarrow> 's"
  assumes read_unfold:
    "read = bind_rd read_u8 (\<lambda>byte.
       if byte AND 0x80 = 0 then return_rd (fast byte) else loop (init byte))"
begin

fun run :: "u8 list \<Rightarrow> 'v option" where
  "run [] = None"
| "run (b # bs) =
     (if unat b < 128 then (if bs = [] then Some (fast b) else None) else leb_run step (init b) bs)"

lemma read_iff:
  "read r = Inr (v, r') \<longleftrightarrow>
   (\<exists>bs rest. remaining_buffer r = bs @ rest \<and> run bs = Some v \<and> r' = advance (length bs) r)"
proof
  assume "read r = Inr (v, r')"
  then obtain b where b: "remaining_buffer r = b # remaining_buffer (advance 1 r)"
    and f: "(if b AND 0x80 = 0 then return_rd (fast b) else loop (init b)) (advance 1 r) = Inr (v, r')"
    by (auto simp: read_unfold bind_u8_iff)
  show "\<exists>bs rest. remaining_buffer r = bs @ rest \<and> run bs = Some v \<and> r' = advance (length bs) r"
  proof (cases "unat b < 128")
    case True
    then show ?thesis
      using b f by (intro exI [of _ "[b]"] exI [of _ "remaining_buffer (advance 1 r)"])
        (simp add: byte_and_80_iff return_rd_def)
  next
    case False
    with f have "loop (init b) (advance 1 r) = Inr (v, r')" by (simp add: byte_and_80_iff)
    then obtain bs rest where bs: "remaining_buffer (advance 1 r) = bs @ rest"
      "leb_run step (init b) bs = Some v" "r' = advance (length bs) (advance 1 r)"
      by (auto simp: loop_iff)
    with b False show ?thesis
      by (intro exI [of _ "b # bs"] exI [of _ rest]) simp
  qed
next
  assume "\<exists>bs rest. remaining_buffer r = bs @ rest \<and> run bs = Some v \<and> r' = advance (length bs) r"
  then obtain bs rest where bs: "remaining_buffer r = bs @ rest" "run bs = Some v"
    "r' = advance (length bs) r"
    by blast
  then obtain b bs' where b: "bs = b # bs'" by (cases bs) auto
  with bs(1) have rem: "remaining_buffer (advance 1 r) = bs' @ rest"
    and u8: "remaining_buffer r = b # remaining_buffer (advance 1 r)"
    using remaining_Cons_read_u8 [of r b "bs' @ rest"] by simp_all
  show "read r = Inr (v, r')"
  proof (cases "unat b < 128")
    case True
    then show ?thesis
      using b bs u8 by (auto simp: read_unfold bind_u8_iff byte_and_80_iff return_rd_def split: if_splits)
  next
    case False
    then have "loop (init b) (advance 1 r) = Inr (v, r')"
      using b bs loop_run [OF rem, of "init b" v] by simp
    then show ?thesis
      using False u8 by (simp add: read_unfold bind_u8_iff byte_and_80_iff)
  qed
qed

lemma rd_ok_read: "rd_ok k p read"
  unfolding read_unfold by (rule rd_intro rd_ok_loop)+

lemma consumes_read: "consumes 1 read"
proof (unfold consumes_def, intro allI impI)
  fix r x r'
  assume "read r = Inr (x, r')"
  then obtain bs where "run bs = Some x" "r' = advance (length bs) r"
    by (auto simp: read_iff)
  then show "position r + 1 \<le> position r'" by (cases bs) simp_all
qed

end

section \<open>The mathematical value of an encoding\<close>

text \<open>Every byte but the last has its continuation bit set.\<close>

fun leb_bytes :: "u8 list \<Rightarrow> bool" where
  "leb_bytes [] \<longleftrightarrow> False"
| "leb_bytes (b # bs) \<longleftrightarrow> (if bs = [] then unat b < 128 else 128 \<le> unat b \<and> leb_bytes bs)"

fun uleb_value :: "u8 list \<Rightarrow> nat" where
  "uleb_value [] = 0"
| "uleb_value (b # bs) = unat b mod 128 + 128 * uleb_value bs"

fun sleb_value :: "u8 list \<Rightarrow> int" where
  "sleb_value [] = 0"
| "sleb_value (b # bs) =
     (if bs = [] then (if unat b mod 128 < 64 then int (unat b mod 128) else int (unat b mod 128) - 128)
      else int (unat b mod 128) + 128 * sleb_value bs)"

section \<open>Unsigned integers\<close>

definition uleb_step ::
    "string \<Rightarrow> nat \<Rightarrow> 'a::len word \<times> nat \<Rightarrow> u8 \<Rightarrow> ('a word \<times> nat, 'a word) leb_step" where
  "uleb_step name W s byte =
     (let (result, shift) = s; result' = result OR push_bit shift (ucast (byte AND 0x7F)) in
      if shift \<ge> W - 7 \<and> drop_bit (W - shift) byte \<noteq> 0
      then LErr (if byte AND 0x80 \<noteq> 0
                 then ''invalid '' @ name @ '': integer representation too long''
                 else ''invalid '' @ name @ '': integer too large'')
      else if byte AND 0x80 = 0 then LDone result' else LMore (result', shift + 7))"

interpretation u32: leb_reader "\<lambda>(result, shift). read_var_u32_loop result shift"
    "uleb_step ''var_u32'' 32" read_var_u32 ucast "\<lambda>byte. (ucast (byte AND 0x7F), 7)"
  unfolding read_var_u32_def read_var_u32_big_def
  by unfold_locales
    (auto simp: uleb_step_def Let_def read_var_u32_loop.simps split: sum.split prod.split)

interpretation u64: leb_reader "\<lambda>(result, shift). read_var_u64_loop result shift"
    "uleb_step ''var_u64'' 64" read_var_u64 ucast "\<lambda>byte. (ucast (byte AND 0x7F), 7)"
  unfolding read_var_u64_def read_var_u64_big_def
  by unfold_locales
    (auto simp: uleb_step_def Let_def read_var_u64_loop.simps split: sum.split prod.split)

lemma leb_group:
  fixes result :: "'a::len word" and b :: u8
  assumes "uint result < 2 ^ shift"
  shows "result OR push_bit shift (ucast (b AND 0x7F)) =
    word_of_int (uint result + 2 ^ shift * int (unat b mod 128))"
proof -
  have "ucast (b AND 0x7F) = (word_of_int (int (unat b mod 128)) :: 'a word)"
    by (metis of_int_of_nat_eq of_nat_unat unat_byte_and_7F)
  then have "push_bit shift (ucast (b AND 0x7F)) =
      (word_of_int (push_bit shift (int (unat b mod 128))) :: 'a word)"
    by (simp only: of_int_push_bit)
  then have "result OR push_bit shift (ucast (b AND 0x7F)) =
      word_of_int (uint result OR push_bit shift (int (unat b mod 128)))"
    by (simp only: of_int_or_eq) simp
  also have "\<dots> = word_of_int (uint result + 2 ^ shift * int (unat b mod 128))"
    by (simp only: int_or_push_bit [OF _ assms] unsigned_greater_eq)
  finally show ?thesis .
qed

lemma unat_leb_group:
  fixes result :: "'a::len word" and b :: u8
  assumes "unat result < 2 ^ shift" "unat result + 2 ^ shift * (unat b mod 128) < 2 ^ LENGTH('a)"
  shows "unat (result OR push_bit shift (ucast (b AND 0x7F))) =
    unat result + 2 ^ shift * (unat b mod 128)"
proof -
  have "int (unat result) < 2 ^ shift" using assms(1) by (metis of_nat_less_iff of_nat_numeral of_nat_power)
  then have "uint result < 2 ^ shift" by simp
  note leb_group [OF this, of b]
  also have "word_of_int (uint result + 2 ^ shift * int (unat b mod 128)) =
      (of_nat (unat result + 2 ^ shift * (unat b mod 128)) :: 'a word)"
    by simp
  finally show ?thesis
    using assms(2) by (simp only: unat_of_nat mod_less)
qed

lemma uleb_run_iff:
  fixes result :: "'a::len word"
  assumes "LENGTH('a) = W" "7 \<le> W" "shift < W" "unat result < 2 ^ shift"
  shows "leb_run (uleb_step name W) (result, shift) bs = Some v \<longleftrightarrow>
     leb_bytes bs \<and> shift + 7 * (length bs - 1) < W
     \<and> unat result + 2 ^ shift * uleb_value bs < 2 ^ W
     \<and> v = of_nat (unat result + 2 ^ shift * uleb_value bs)"
  using assms
proof (induction bs arbitrary: result shift)
  case Nil
  then show ?case by simp
next
  case (Cons b bs)
  let ?g = "unat b mod 128"
  let ?r = "result OR push_bit shift (ucast (b AND 0x7F))"
  show ?case
  proof (cases "shift \<ge> W - 7 \<and> drop_bit (W - shift) b \<noteq> 0")
    case True
    then have big: "2 ^ (W - shift) \<le> unat b" and "shift \<ge> W - 7"
      by (auto simp: drop_bit_byte_eq_0_iff)
    have "\<not> (unat b < 128 \<and> unat result + 2 ^ shift * ?g < 2 ^ W)"
    proof
      assume h: "unat b < 128 \<and> unat result + 2 ^ shift * ?g < 2 ^ W"
      have "(2::nat) ^ W = 2 ^ shift * 2 ^ (W - shift)"
        using Cons.prems(3) by (simp flip: power_add)
      also have "\<dots> \<le> 2 ^ shift * unat b" using big by simp
      finally have "(2::nat) ^ W \<le> 2 ^ shift * unat b" .
      moreover have "unat result + 2 ^ shift * unat b < 2 ^ W" using h mod_less [of "unat b" 128] by metis
      ultimately show False by linarith
    qed
    moreover have "bs \<noteq> [] \<Longrightarrow> \<not> shift + 7 * length bs < W"
      using \<open>shift \<ge> W - 7\<close> Cons.prems(2) by (cases bs) auto
    ultimately show ?thesis
      using True by (auto simp: uleb_step_def)
  next
    case ok: False
    have fits: "unat result + 2 ^ shift * ?g < 2 ^ W \<and> (\<not> shift \<ge> W - 7 \<longrightarrow>
        unat result + 2 ^ shift * ?g < 2 ^ (shift + 7))"
    proof (cases "shift \<ge> W - 7")
      case True
      with ok have "unat b < 2 ^ (W - shift)" by (simp add: drop_bit_byte_eq_0_iff)
      then have "?g + 1 \<le> 2 ^ (W - shift)"
        by (metis Suc_eq_plus1 Suc_leI le_less_trans mod_less_eq_dividend)
      then have "2 ^ shift * (?g + 1) \<le> (2::nat) ^ shift * 2 ^ (W - shift)" by (rule mult_left_mono) simp
      also have "\<dots> = 2 ^ W" using Cons.prems(3) by (simp flip: power_add)
      finally show ?thesis using Cons.prems(4) True by (simp add: algebra_simps)
    next
      case False
      have "?g + 1 \<le> 128" by simp
      then have "2 ^ shift * (?g + 1) \<le> (2::nat) ^ shift * 128" by (rule mult_left_mono) simp
      also have "\<dots> = 2 ^ (shift + 7)" by (simp add: power_add)
      finally have lt: "unat result + 2 ^ shift * ?g < 2 ^ (shift + 7)"
        using Cons.prems(4) by (simp add: algebra_simps)
      moreover have "(2::nat) ^ (shift + 7) \<le> 2 ^ W" using False by simp
      ultimately show ?thesis by linarith
    qed
    have r: "unat ?r = unat result + 2 ^ shift * ?g"
      using unat_leb_group [OF Cons.prems(4)] fits Cons.prems(1) by simp
    then have r': "?r = of_nat (unat result + 2 ^ shift * ?g)"
      by (metis of_nat_unat_id)
    show ?thesis
    proof (cases "unat b < 128")
      case True
      then show ?thesis
        using ok fits r' Cons.prems(3) by (auto simp: uleb_step_def byte_and_80_iff)
    next
      case False
      have small: "\<not> shift \<ge> W - 7"
      proof
        assume "shift \<ge> W - 7"
        with ok have "unat b < 2 ^ (W - shift)" by (simp add: drop_bit_byte_eq_0_iff)
        moreover have "(2::nat) ^ (W - shift) \<le> 2 ^ 7"
          using \<open>shift \<ge> W - 7\<close> by (intro power_increasing) auto
        ultimately show False using False by simp
      qed
      have "leb_run (uleb_step name W) (?r, shift + 7) bs = Some v \<longleftrightarrow>
          leb_bytes bs \<and> (shift + 7) + 7 * (length bs - 1) < W
          \<and> unat ?r + 2 ^ (shift + 7) * uleb_value bs < 2 ^ W
          \<and> v = of_nat (unat ?r + 2 ^ (shift + 7) * uleb_value bs)"
        using small fits r Cons.prems by (intro Cons.IH) auto
      moreover have "uleb_step name W (result, shift) b = LMore (?r, shift + 7)"
        using ok False by (auto simp: uleb_step_def byte_and_80_iff Let_def)
      ultimately show ?thesis
        using r False by (cases bs) (auto simp: power_add algebra_simps)
    qed
  qed
qed

lemma uleb_reader_run:
  fixes fast :: "u8 \<Rightarrow> 'a::len word"
  assumes "LENGTH('a) = W" "14 \<le> W"
  shows "(case bs of [] \<Rightarrow> None | b # bs' \<Rightarrow>
      if unat b < 128 then (if bs' = [] then Some (ucast b) else None)
      else leb_run (uleb_step name W) (ucast (b AND 0x7F), 7) bs') = Some (v :: 'a word) \<longleftrightarrow>
    leb_bytes bs \<and> 7 * (length bs - 1) < W \<and> uleb_value bs < 2 ^ W \<and> v = of_nat (uleb_value bs)"
proof (cases bs)
  case (Cons b bs')
  have "(2::nat) ^ 14 \<le> 2 ^ W" using assms(2) by (rule power_increasing) simp
  then have W: "(16384::nat) \<le> 2 ^ W" by simp
  show ?thesis
  proof (cases "unat b < 128")
    case True
    then have "of_nat (unat b mod 128) = (ucast b :: 'a word)"
      by (simp only: mod_less [OF True]) simp
    then show ?thesis
      using Cons True W assms(2) by (auto simp: mod_less [OF True])
  next
    case False
    have "unat (ucast (b AND 0x7F) :: 'a word) = unat b mod 128"
      using W by (simp add: unsigned_ucast_eq unat_byte_and_7F take_bit_nat_eq_self assms(1))
    then show ?thesis
      using Cons False uleb_run_iff [OF assms(1), where shift = 7 and
          result = "ucast (b AND 0x7F)" and bs = bs' and name = name and v = v] assms(2)
      by (cases bs') auto
  qed
qed simp

lemma read_var_u32_iff:
  "read_var_u32 r = Inr (v, r') \<longleftrightarrow>
   (\<exists>bs rest. remaining_buffer r = bs @ rest \<and> leb_bytes bs \<and> length bs \<le> 5
      \<and> uleb_value bs < 2 ^ 32 \<and> v = of_nat (uleb_value bs) \<and> r' = advance (length bs) r)"
proof -
  have "u32.run bs = Some v \<longleftrightarrow>
      leb_bytes bs \<and> length bs \<le> 5 \<and> uleb_value bs < 2 ^ 32 \<and> v = of_nat (uleb_value bs)" for bs
    using uleb_reader_run [where ?'a = 32 and W = 32 and name = "''var_u32''" and bs = bs and v = v]
    by (cases bs) auto
  then show ?thesis
    unfolding u32.read_iff by auto
qed

lemma read_var_u64_iff:
  "read_var_u64 r = Inr (v, r') \<longleftrightarrow>
   (\<exists>bs rest. remaining_buffer r = bs @ rest \<and> leb_bytes bs \<and> length bs \<le> 10
      \<and> uleb_value bs < 2 ^ 64 \<and> v = of_nat (uleb_value bs) \<and> r' = advance (length bs) r)"
proof -
  have "u64.run bs = Some v \<longleftrightarrow>
      leb_bytes bs \<and> length bs \<le> 10 \<and> uleb_value bs < 2 ^ 64 \<and> v = of_nat (uleb_value bs)" for bs
    using uleb_reader_run [where ?'a = 64 and W = 64 and name = "''var_u64''" and bs = bs and v = v]
    by (cases bs) auto
  then show ?thesis
    unfolding u64.read_iff by auto
qed

section \<open>Signed integers\<close>

text \<open>
  \<open>W\<close> is the width of the encoded integer and \<open>T\<close> the shift from which the byte read is the
  last one allowed; the integer is returned in a word that may be wider than \<open>W\<close>.
\<close>

definition sleb_step ::
    "(bool \<Rightarrow> string) \<Rightarrow> nat \<Rightarrow> nat \<Rightarrow> 'a::len word \<times> nat \<Rightarrow> u8 \<Rightarrow> ('a word \<times> nat, 'a word) leb_step" where
  "sleb_step msg T W s byte =
     (let (result, shift) = s; result' = result OR push_bit shift (ucast (byte AND 0x7F)) in
      if shift \<ge> T
      then (let sign_and_unused_bit = signed_drop_bit (W - shift) (push_bit 1 byte)
            in if byte AND 0x80 \<noteq> 0 \<or> (sign_and_unused_bit \<noteq> 0 \<and> sign_and_unused_bit \<noteq> - 1)
               then LErr (msg (byte AND 0x80 \<noteq> 0)) else LDone result')
      else if byte AND 0x80 = 0
      then (let ashift = LENGTH('a) - (shift + 7)
            in LDone (signed_drop_bit ashift (push_bit ashift result')))
      else LMore (result', shift + 7))"

definition sleb_msg :: "string \<Rightarrow> bool \<Rightarrow> string" where
  "sleb_msg name continuation_bit =
     (if continuation_bit then ''invalid '' @ name @ '': integer representation too long''
      else ''invalid '' @ name @ '': integer too large'')"

interpretation i32: leb_reader "\<lambda>(result, shift). read_var_i32_loop result shift"
    "sleb_step (sleb_msg ''var_i32'') 25 32" read_var_i32
    "\<lambda>byte. signed_drop_bit 25 (push_bit 25 (ucast byte))" "\<lambda>byte. (ucast (byte AND 0x7F), 7)"
  unfolding read_var_i32_def read_var_i32_big_def
  by unfold_locales
    (auto simp: sleb_step_def sleb_msg_def Let_def read_var_i32_loop.simps split: sum.split prod.split)

interpretation s33: leb_reader "\<lambda>(result, shift). read_var_s33_loop result shift"
    "sleb_step (\<lambda>_. ''invalid var_s33: integer representation too long'') 25 33" read_var_s33
    "\<lambda>byte. signed_drop_bit 1 (scast (push_bit 1 byte))" "\<lambda>byte. (ucast (byte AND 0x7F), 7)"
  unfolding read_var_s33_def
  by unfold_locales
    (auto simp: sleb_step_def Let_def read_var_s33_loop.simps split: sum.split prod.split)

interpretation i64: leb_loop "\<lambda>(result, shift). read_var_i64_loop result shift"
    "sleb_step (sleb_msg ''var_i64'') 57 64"
  by unfold_locales
    (auto simp: sleb_step_def sleb_msg_def Let_def read_var_i64_loop.simps split: sum.split prod.split)

lemma sint_sign_extend:
  fixes w :: "'a::len word"
  assumes "a < LENGTH('a)"
  shows "sint (signed_drop_bit a (push_bit a w)) = signed_take_bit (LENGTH('a) - 1 - a) (uint w)"
proof (rule bit_eqI)
  fix n
  show "bit (sint (signed_drop_bit a (push_bit a w))) n \<longleftrightarrow>
      bit (signed_take_bit (LENGTH('a) - 1 - a) (uint w)) n"
    using assms
    by (cases "a = 0") (auto simp: sint_signed_drop_bit_eq bit_simps min_def not_le bit_signed_take_bit_iff
        signed_push_bit_eq not_less less_diff_conv)
qed

lemma sint_shl1_byte:
  assumes "unat (b :: u8) < 128"
  shows "sint (push_bit 1 b) = 2 * sleb_value [b]"
proof -
  have b: "unat b mod 128 = unat b" using assms by (rule mod_less)
  have ub: "0 \<le> uint b" "uint b < 128" using assms by (simp_all add: uint_less_numeral_iff)
  have "uint (push_bit 1 b) = take_bit 8 (push_bit 1 (uint b))"
    by (subst unsigned_push_bit_eq) simp
  also have "\<dots> = 2 * uint b"
    using ub by (simp add: take_bit_int_eq_self)
  finally have "sint (push_bit 1 b) = signed_take_bit 7 (2 * uint b)"
    unfolding sint_uint by simp
  also have "\<dots> = 2 * sleb_value [b]"
    using ub by (intro signed_take_bit_eqI) (auto simp: b intro: order_trans [of _ 0] simp flip: uint_less_numeral_iff)
  finally show ?thesis .
qed

lemma uint_byte_group: "uint (b AND 0x7F :: u8) = int (unat b mod 128)"
  by (metis of_nat_unat unat_byte_and_7F)

lemma sleb_value_single:
  "- 64 \<le> sleb_value [b]" "sleb_value [b] < 64"
  "(int (unat b mod 128) - sleb_value [b]) mod 128 = 0"
  by auto

text \<open>A number with lower digits \<open>r\<close> is in range exactly when its top digit is.\<close>

lemma top_digit_range:
  fixes r k :: int
  assumes "0 \<le> r" "r < 2 ^ s"
  shows "- (2 ^ (s + m)) \<le> r + 2 ^ s * k \<longleftrightarrow> - (2 ^ m) \<le> k"
    and "r + 2 ^ s * k < 2 ^ (s + m) \<longleftrightarrow> k < 2 ^ m"
proof -
  have p: "(0::int) < 2 ^ s" by simp
  show "- (2 ^ (s + m)) \<le> r + 2 ^ s * k \<longleftrightarrow> - (2 ^ m) \<le> k"
  proof
    assume "- (2 ^ (s + m)) \<le> r + 2 ^ s * k"
    then have "2 ^ s * (- (2 ^ m)) < 2 ^ s * (k + 1)"
      using assms by (simp add: power_add algebra_simps)
    then have "- (2 ^ m) < k + 1" by (simp only: mult_less_cancel_left_pos [OF p])
    then show "- (2 ^ m) \<le> k" by linarith
  next
    assume "- (2 ^ m) \<le> k"
    then have "2 ^ s * (- (2 ^ m)) \<le> 2 ^ s * k" using mult_le_cancel_left_pos [OF p] by blast
    then show "- (2 ^ (s + m)) \<le> r + 2 ^ s * k" using assms by (simp add: power_add)
  qed
  show "r + 2 ^ s * k < 2 ^ (s + m) \<longleftrightarrow> k < 2 ^ m"
  proof
    assume "r + 2 ^ s * k < 2 ^ (s + m)"
    then have "2 ^ s * k < 2 ^ s * 2 ^ m" using assms unfolding power_add by linarith
    then show "k < 2 ^ m" using mult_less_cancel_left_pos [OF p] by blast
  next
    assume "k < 2 ^ m"
    then have "2 ^ s * (k + 1) \<le> 2 ^ s * 2 ^ m"
      by (simp only: mult_le_cancel_left_pos [OF p])
    then show "r + 2 ^ s * k < 2 ^ (s + m)" using assms by (simp add: power_add algebra_simps)
  qed
qed

lemma div_0_or_minus_1_iff:
  fixes k m :: int
  assumes "0 < m"
  shows "k div m = 0 \<or> k div m = - 1 \<longleftrightarrow> - m \<le> k \<and> k < m"
proof
  assume d: "k div m = 0 \<or> k div m = - 1"
  have "m * (k div m) + k mod m = k" by simp
  then have "k = k mod m \<or> k = k mod m - m" using d by (elim disjE) simp_all
  moreover have "0 \<le> k mod m" "k mod m < m" using assms by simp_all
  ultimately show "- m \<le> k \<and> k < m" by linarith
next
  assume k: "- m \<le> k \<and> k < m"
  show "k div m = 0 \<or> k div m = - 1"
  proof (cases "0 \<le> k")
    case False
    then have "(k + m) div m = 0" using k by (intro div_pos_pos_trivial) simp_all
    moreover have "(k + m) div m = k div m + 1" using assms by (intro div_add_self2) simp
    ultimately show ?thesis by linarith
  qed (use k in \<open>simp add: div_pos_pos_trivial\<close>)
qed

lemma sign_and_unused_bit_iff:
  assumes "unat (b :: u8) < 128" "1 \<le> n"
  shows "signed_drop_bit n (push_bit 1 b) = 0 \<or> signed_drop_bit n (push_bit 1 b) = - 1 \<longleftrightarrow>
    - (2 ^ (n - 1)) \<le> sleb_value [b] \<and> sleb_value [b] < 2 ^ (n - 1)"
proof -
  let ?w = "signed_drop_bit n (push_bit 1 b)" and ?k = "sleb_value [b]"
  have w: "sint ?w = (2 * ?k) div 2 ^ n"
    by (simp only: sint_signed_drop_bit_eq sint_shl1_byte [OF assms(1)] drop_bit_int_def)
  have pn: "(2::int) ^ n = 2 * 2 ^ (n - 1)"
    using assms(2) by (simp add: power_eq_if)
  have "?w = c \<longleftrightarrow> sint ?w = sint c" for c
    by (auto intro: signed_word_eqI)
  from this [of 0] this [of "- 1"]
  have "?w = 0 \<or> ?w = - 1 \<longleftrightarrow> sint ?w = 0 \<or> sint ?w = - 1"
    by (simp only: signed_0 sint_n1)
  also have "\<dots> \<longleftrightarrow> ?k div 2 ^ (n - 1) = 0 \<or> ?k div 2 ^ (n - 1) = - 1"
    by (simp only: w pn) (simp add: div_mult_mult1)
  also have "\<dots> \<longleftrightarrow> - (2 ^ (n - 1)) \<le> ?k \<and> ?k < 2 ^ (n - 1)"
    by (rule div_0_or_minus_1_iff) simp
  finally show ?thesis .
qed

definition sleb_result :: "nat \<Rightarrow> nat \<Rightarrow> int \<Rightarrow> u8 list \<Rightarrow> int" where
  "sleb_result W shift r bs =
     (if W - 7 \<le> shift + 7 * (length bs - 1) then r + 2 ^ shift * int (uleb_value bs)
      else r + 2 ^ shift * sleb_value bs)"

lemma sleb_last_step:
  fixes result :: "'a::len word"
  assumes L: "W \<le> LENGTH('a)" and r: "uint result < 2 ^ shift" and sW: "shift < W"
    and b: "unat b < 128" and T: "T \<le> shift \<longleftrightarrow> W - 7 \<le> shift"
  shows "sleb_step msg T W (result, shift) b = LDone v \<longleftrightarrow>
    - (2 ^ (W - 1)) \<le> uint result + 2 ^ shift * sleb_value [b]
    \<and> uint result + 2 ^ shift * sleb_value [b] < 2 ^ (W - 1)
    \<and> v = word_of_int (sleb_result W shift (uint result) [b])"
proof -
  let ?r = "result OR push_bit shift (ucast (b AND 0x7F))"
  let ?k = "sleb_value [b]" and ?g = "int (unat b mod 128)"
  have W: "2 ^ (W - 1) = (2::int) ^ (shift + (W - shift - 1))" using sW by simp
  have range: "- (2 ^ (W - 1)) \<le> uint result + 2 ^ shift * ?k \<and> uint result + 2 ^ shift * ?k < 2 ^ (W - 1)
      \<longleftrightarrow> - (2 ^ (W - shift - 1)) \<le> ?k \<and> ?k < 2 ^ (W - shift - 1)"
    unfolding W using r by (simp only: top_digit_range unsigned_greater_eq)
  show ?thesis
  proof (cases "T \<le> shift")
    case True
    then have "sleb_result W shift (uint result) [b] = uint result + 2 ^ shift * ?g"
      using T by (simp add: sleb_result_def)
    then have "?r = word_of_int (sleb_result W shift (uint result) [b])"
      using leb_group [OF r, of b] by simp
    moreover have "1 \<le> W - shift" using sW by simp
    note sign_and_unused_bit_iff [OF b this]
    then have "sleb_step msg T W (result, shift) b =
        (if - (2 ^ (W - shift - 1)) \<le> ?k \<and> ?k < 2 ^ (W - shift - 1) then LDone ?r else LErr (msg False))"
      using True b
      by (auto simp: sleb_step_def Let_def byte_and_80_iff simp del: sleb_value.simps)
    ultimately show ?thesis using range by auto
  next
    case False
    then have lt: "shift + 7 < W" using T sW by linarith
    have k: "- (2 ^ 6) \<le> ?k" "?k < 2 ^ 6" using sleb_value_single [of b] by simp_all
    have in7: "- (2 ^ (shift + 6)) \<le> uint result + 2 ^ shift * ?k"
      "uint result + 2 ^ shift * ?k < 2 ^ (shift + 6)"
      using k r by (simp_all only: top_digit_range unsigned_greater_eq)
    have "(2::int) ^ (shift + 6) \<le> 2 ^ (W - 1)" using lt by (intro power_increasing) simp_all
    with in7 have ok: "- (2 ^ (W - 1)) \<le> uint result + 2 ^ shift * ?k"
        "uint result + 2 ^ shift * ?k < 2 ^ (W - 1)"
      by linarith+
    let ?a = "LENGTH('a) - (shift + 7)"
    have "uint ?r = uint result + 2 ^ shift * ?g"
    proof -
      have "?g < 2 ^ 7" by simp
      then have "uint result + 2 ^ shift * ?g < 2 ^ (shift + 7)"
        using r by (simp only: top_digit_range unsigned_greater_eq)
      also have "(2::int) ^ (shift + 7) \<le> 2 ^ LENGTH('a)" using lt L by (intro power_increasing) simp_all
      finally show ?thesis
        by (simp only: leb_group [OF r] uint_word_of_int) (simp add: mod_pos_pos_trivial)
    qed
    moreover have "(uint result + 2 ^ shift * ?g) mod 2 ^ Suc (shift + 6) =
        (uint result + 2 ^ shift * ?k) mod 2 ^ Suc (shift + 6)"
    proof -
      obtain q where "?g - ?k = 128 * q" using sleb_value_single(3) [of b] by (metis mod_0_imp_dvd dvdE)
      then have "?g = ?k + 128 * q" by linarith
      then have "uint result + 2 ^ shift * ?g = uint result + 2 ^ shift * ?k + 2 ^ Suc (shift + 6) * q"
        by (simp only: power_add power_Suc) (simp add: algebra_simps del: sleb_value.simps)
      then show ?thesis by (simp only: mod_mult_self2)
    qed
    ultimately have "signed_take_bit (shift + 6) (uint ?r) = uint result + 2 ^ shift * ?k"
      using in7 by (intro signed_take_bit_eqI) simp_all
    moreover have "LENGTH('a) - 1 - ?a = shift + 6" "?a < LENGTH('a)" using lt L by simp_all
    ultimately have "sint (signed_drop_bit ?a (push_bit ?a ?r)) = uint result + 2 ^ shift * ?k"
      by (simp only: sint_sign_extend)
    then have "signed_drop_bit ?a (push_bit ?a ?r) = word_of_int (uint result + 2 ^ shift * ?k)"
      by (metis of_int_sint_id)
    moreover have "sleb_result W shift (uint result) [b] = uint result + 2 ^ shift * ?k"
      using False T by (simp add: sleb_result_def)
    ultimately show ?thesis
      using False b ok by (auto simp: sleb_step_def Let_def byte_and_80_iff simp del: sleb_value.simps)
  qed
qed

lemma sleb_run_iff:
  fixes result :: "'a::len word"
  assumes "W \<le> LENGTH('a)" "7 \<le> W" "\<And>i. T \<le> 7 * i \<longleftrightarrow> W - 7 \<le> 7 * i"
    and "uint result < 2 ^ (7 * j)" "7 * j < W"
  shows "leb_run (sleb_step msg T W) (result, 7 * j) bs = Some v \<longleftrightarrow>
     leb_bytes bs \<and> 7 * j + 7 * (length bs - 1) < W
     \<and> - (2 ^ (W - 1)) \<le> uint result + 2 ^ (7 * j) * sleb_value bs
     \<and> uint result + 2 ^ (7 * j) * sleb_value bs < 2 ^ (W - 1)
     \<and> v = word_of_int (sleb_result W (7 * j) (uint result) bs)"
  using assms(4,5)
proof (induction bs arbitrary: result j)
  case Nil
  then show ?case by simp
next
  case (Cons b bs)
  let ?r = "result OR push_bit (7 * j) (ucast (b AND 0x7F))"
  show ?case
  proof (cases "unat b < 128")
    case True
    have "leb_run (sleb_step msg T W) (result, 7 * j) (b # bs) = Some v \<longleftrightarrow>
        bs = [] \<and> sleb_step msg T W (result, 7 * j) b = LDone v"
      using True by (auto simp: sleb_step_def Let_def byte_and_80_iff)
    then show ?thesis
      using sleb_last_step [OF assms(1) Cons.prems True assms(3), of msg v] True Cons.prems(2)
      by (cases bs) auto
  next
    case cont: False
    show ?thesis
    proof (cases "T \<le> 7 * j")
      case True
      then have "bs \<noteq> [] \<Longrightarrow> \<not> 7 * j + 7 * length bs < W"
        using assms(2) assms(3) [of j] by (cases bs) auto
      then show ?thesis using True cont by (auto simp: sleb_step_def Let_def byte_and_80_iff)
    next
      case False
      then have lt: "7 * Suc j < W" using assms(3) [of j] by simp
      have g: "int (unat b mod 128) < 2 ^ 7" by simp
      have fit: "uint result + 2 ^ (7 * j) * int (unat b mod 128) < 2 ^ (7 * j + 7)"
        using g Cons.prems(1) by (simp only: top_digit_range unsigned_greater_eq)
      also have "(2::int) ^ (7 * j + 7) \<le> 2 ^ LENGTH('a)"
        using lt assms(1) by (intro power_increasing) simp_all
      finally have r: "uint ?r = uint result + 2 ^ (7 * j) * int (unat b mod 128)"
        by (simp only: leb_group [OF Cons.prems(1)] uint_word_of_int) (simp add: mod_pos_pos_trivial)
      have step: "sleb_step msg T W (result, 7 * j) b = LMore (?r, 7 * Suc j)"
        using False cont by (simp add: sleb_step_def Let_def byte_and_80_iff)
      have "uint ?r < 2 ^ (7 * Suc j)" using fit r by (simp add: add.commute)
      note IH = Cons.IH [OF this lt]
      show ?thesis
      proof (cases bs)
        case Nil
        then show ?thesis using step cont by simp
      next
        case (Cons c cs)
        then have "uint ?r + 2 ^ (7 * Suc j) * sleb_value bs = uint result + 2 ^ (7 * j) * sleb_value (b # bs)"
          "sleb_result W (7 * Suc j) (uint ?r) bs = sleb_result W (7 * j) (uint result) (b # bs)"
          unfolding r by (simp_all add: sleb_result_def power_add algebra_simps)
        then show ?thesis
          using IH step cont Cons by (simp add: ac_simps del: sleb_value.simps)
      qed
    qed
  qed
qed

lemma uleb_sleb_cong:
  "bs \<noteq> [] \<Longrightarrow> \<exists>q. int (uleb_value bs) = sleb_value bs + 2 ^ (7 * length bs) * q"
proof (induction bs)
  case (Cons b bs)
  show ?case
  proof (cases "bs = []")
    case True
    then show ?thesis
      by (intro exI [of _ "if unat b mod 128 < 64 then 0 else 1"]) simp
  next
    case False
    with Cons.IH obtain q where "int (uleb_value bs) = sleb_value bs + 2 ^ (7 * length bs) * q" by blast
    then show ?thesis
      using False by (intro exI [of _ q]) (simp add: power_add algebra_simps)
  qed
qed simp

text \<open>When the word has exactly \<open>W\<close> bits, dropping the sign of the last group does no harm.\<close>

lemma sleb_result_full:
  assumes "leb_bytes bs" "LENGTH('a::len) = W"
  shows "word_of_int (sleb_result W shift r bs) = (word_of_int (r + 2 ^ shift * sleb_value bs) :: 'a word)"
proof (cases "W - 7 \<le> shift + 7 * (length bs - 1)")
  case True
  from assms(1) have "bs \<noteq> []" by auto
  then obtain q where q: "int (uleb_value bs) = sleb_value bs + 2 ^ (7 * length bs) * q"
    using uleb_sleb_cong by blast
  have "W \<le> shift + 7 * length bs" using True \<open>bs \<noteq> []\<close> by (cases bs) auto
  then obtain d where d: "shift + 7 * length bs = W + d" using le_Suc_ex by blast
  have "sleb_result W shift r bs = r + 2 ^ shift * sleb_value bs + 2 ^ (shift + 7 * length bs) * q"
    using True q by (simp add: sleb_result_def power_add algebra_simps)
  also have "\<dots> = r + 2 ^ shift * sleb_value bs + 2 ^ LENGTH('a) * (2 ^ d * q)"
    by (simp only: d assms(2) power_add mult.assoc)
  finally show ?thesis by simp
qed (simp add: sleb_result_def)

lemma read_var_i64_iff:
  "read_var_i64 r = Inr (v, r') \<longleftrightarrow>
   (\<exists>bs rest. remaining_buffer r = bs @ rest \<and> leb_bytes bs \<and> length bs \<le> 10
      \<and> - (2 ^ 63) \<le> sleb_value bs \<and> sleb_value bs < 2 ^ 63
      \<and> v = word_of_int (sleb_value bs) \<and> r' = advance (length bs) r)"
proof -
  have "leb_run (sleb_step (sleb_msg ''var_i64'') 57 64) (0 :: i64, 0) bs = Some v \<longleftrightarrow>
      leb_bytes bs \<and> length bs \<le> 10 \<and> - (2 ^ 63) \<le> sleb_value bs \<and> sleb_value bs < 2 ^ 63
      \<and> v = word_of_int (sleb_value bs)" for bs
    using sleb_run_iff [where W = 64 and T = 57 and j = 0 and result = "0 :: i64" and bs = bs
        and msg = "sleb_msg ''var_i64''" and v = v] sleb_result_full [where ?'a = 64 and W = 64, of bs 0 0]
    by auto
  then show ?thesis
    using i64.loop_iff [of "(0, 0)" r v r'] by (auto simp: read_var_i64_def)
qed

lemma leb_first_group:
  fixes b :: u8
  assumes "14 \<le> LENGTH('a::len)"
  shows "uint (ucast (b AND 0x7F) :: 'a word) = int (unat b mod 128)"
proof -
  have "(2::int) ^ 14 \<le> 2 ^ LENGTH('a)" using assms by (rule power_increasing) simp
  then have "(16384::int) \<le> 2 ^ LENGTH('a)" by simp
  moreover have "int (unat b mod 128) < 128" by simp
  ultimately have "int (unat b mod 128) < 2 ^ LENGTH('a)" by linarith
  then show ?thesis
    by (simp only: unsigned_ucast_eq uint_byte_group) (simp add: take_bit_int_eq_self)
qed

lemma sleb_reader_run:
  fixes fast :: "u8 \<Rightarrow> 'a::len word"
  assumes "W \<le> LENGTH('a)" "14 < W" "\<And>i. T \<le> 7 * i \<longleftrightarrow> W - 7 \<le> 7 * i"
    and fast: "\<And>b. unat b < 128 \<Longrightarrow> fast b = word_of_int (sleb_value [b])"
  shows "(case bs of [] \<Rightarrow> None | b # bs' \<Rightarrow>
      if unat b < 128 then (if bs' = [] then Some (fast b) else None)
      else leb_run (sleb_step msg T W) (ucast (b AND 0x7F), 7) bs') = Some v \<longleftrightarrow>
    leb_bytes bs \<and> 7 * (length bs - 1) < W
    \<and> - (2 ^ (W - 1)) \<le> sleb_value bs \<and> sleb_value bs < 2 ^ (W - 1)
    \<and> v = word_of_int (sleb_result W 0 0 bs)"
proof (cases bs)
  case (Cons b bs')
  show ?thesis
  proof (cases "unat b < 128")
    case True
    have "(2::int) ^ 13 \<le> 2 ^ (W - 1)" using assms(2) by (intro power_increasing) auto
    then have "(8192::int) \<le> 2 ^ (W - 1)" by simp
    with sleb_value_single [of b] have "- (2 ^ (W - 1)) \<le> sleb_value [b]" "sleb_value [b] < 2 ^ (W - 1)"
      by linarith+
    moreover have "sleb_result W 0 0 [b] = sleb_value [b]"
      using assms(2) by (simp add: sleb_result_def)
    ultimately show ?thesis
      using Cons True assms(2) fast [OF True] by (auto simp del: sleb_value.simps)
  next
    case False
    have g: "uint (ucast (b AND 0x7F) :: 'a word) = int (unat b mod 128)"
      using leb_first_group assms(1,2) by force
    have run: "leb_run (sleb_step msg T W) (ucast (b AND 0x7F) :: 'a word, 7 * 1) bs' = Some v \<longleftrightarrow>
       leb_bytes bs' \<and> 7 * 1 + 7 * (length bs' - 1) < W
       \<and> - (2 ^ (W - 1)) \<le> int (unat b mod 128) + 2 ^ (7 * 1) * sleb_value bs'
       \<and> int (unat b mod 128) + 2 ^ (7 * 1) * sleb_value bs' < 2 ^ (W - 1)
       \<and> v = word_of_int (sleb_result W (7 * 1) (int (unat b mod 128)) bs')"
      using sleb_run_iff [OF assms(1) _ assms(3), of "ucast (b AND 0x7F)" 1 msg bs' v] g assms(2) by simp
    show ?thesis
    proof (cases bs')
      case Nil
      then show ?thesis using \<open>bs = b # bs'\<close> False by simp
    next
      case (Cons c cs)
      then have "sleb_result W 7 (int (unat b mod 128)) bs' = sleb_result W 0 0 (b # bs')"
        by (simp add: sleb_result_def algebra_simps)
      then show ?thesis
        using \<open>bs = b # bs'\<close> False run Cons by (simp del: leb_run.simps)
    qed
  qed
qed simp

lemma i32_fast:
  assumes "unat (b :: u8) < 128"
  shows "signed_drop_bit 25 (push_bit 25 (ucast b)) = (word_of_int (sleb_value [b]) :: i32)"
proof -
  have m: "unat b mod 128 = unat b" using assms by (rule mod_less)
  have u: "0 \<le> uint b" "uint b < 128" using assms by (simp_all add: uint_less_numeral_iff)
  have "sint (signed_drop_bit 25 (push_bit 25 (ucast b)) :: i32) = signed_take_bit 6 (uint b)"
    using u by (subst sint_sign_extend) (simp_all add: unsigned_ucast_eq take_bit_int_eq_self)
  also have "\<dots> = sleb_value [b]"
    using u by (intro signed_take_bit_eqI) (auto simp: m intro: order_trans [of _ 0] simp flip: uint_less_numeral_iff)
  finally show ?thesis by (metis of_int_sint_id)
qed

lemma s33_fast:
  assumes "unat (b :: u8) < 128"
  shows "signed_drop_bit 1 (scast (push_bit 1 b)) = (word_of_int (sleb_value [b]) :: i64)"
proof -
  have "sint (scast (push_bit 1 b) :: i64) = signed_take_bit 63 (sint (push_bit 1 b))"
    by (subst signed_scast_eq) simp
  also have "\<dots> = 2 * sleb_value [b]"
    using sleb_value_single [of b] unfolding sint_shl1_byte [OF assms]
    by (intro signed_take_bit_int_eq_self) (simp_all del: sleb_value.simps)
  finally have "sint (scast (push_bit 1 b) :: i64) = 2 * sleb_value [b]" .
  then have "sint (signed_drop_bit 1 (scast (push_bit 1 b)) :: i64) = sleb_value [b]"
    by (simp only: sint_signed_drop_bit_eq drop_bit_int_def) simp
  then show ?thesis by (metis of_int_sint_id)
qed

lemma read_var_i32_iff:
  "read_var_i32 r = Inr (v, r') \<longleftrightarrow>
   (\<exists>bs rest. remaining_buffer r = bs @ rest \<and> leb_bytes bs \<and> length bs \<le> 5
      \<and> - (2 ^ 31) \<le> sleb_value bs \<and> sleb_value bs < 2 ^ 31
      \<and> v = word_of_int (sleb_value bs) \<and> r' = advance (length bs) r)"
proof -
  have "i32.run bs = Some v \<longleftrightarrow>
      leb_bytes bs \<and> length bs \<le> 5 \<and> - (2 ^ 31) \<le> sleb_value bs \<and> sleb_value bs < 2 ^ 31
      \<and> v = word_of_int (sleb_value bs)" for bs
    using sleb_reader_run [where W = 32 and T = 25 and bs = bs and v = v
        and msg = "sleb_msg ''var_i32''", OF _ _ _ i32_fast]
      sleb_result_full [where ?'a = 32 and W = 32, of bs 0 0]
    by (cases bs) (auto simp del: sleb_value.simps)
  then show ?thesis
    unfolding i32.read_iff by auto
qed

text \<open>
  \<open>read_var_s33\<close> returns the value in an \<open>i64\<close>. Its last group is not sign-extended: an
  encoding of five bytes yields the unsigned value of its 35 bits.
\<close>

lemma read_var_s33_iff:
  "read_var_s33 r = Inr (v, r') \<longleftrightarrow>
   (\<exists>bs rest. remaining_buffer r = bs @ rest \<and> leb_bytes bs \<and> length bs \<le> 5
      \<and> - (2 ^ 32) \<le> sleb_value bs \<and> sleb_value bs < 2 ^ 32
      \<and> v = word_of_int (if length bs = 5 then int (uleb_value bs) else sleb_value bs)
      \<and> r' = advance (length bs) r)"
proof -
  have "s33.run bs = Some v \<longleftrightarrow>
      leb_bytes bs \<and> length bs \<le> 5 \<and> - (2 ^ 32) \<le> sleb_value bs \<and> sleb_value bs < 2 ^ 32
      \<and> v = word_of_int (if length bs = 5 then int (uleb_value bs) else sleb_value bs)" for bs
  proof -
    have T: "25 \<le> 7 * i \<longleftrightarrow> 33 - 7 \<le> 7 * i" for i :: nat by presburger
    have 5: "7 * (length bs - 1) < 33 \<longleftrightarrow> length bs \<le> 5" by auto
    have "length bs \<le> 5 \<Longrightarrow> 33 - 7 \<le> 0 + 7 * (length bs - 1) \<longleftrightarrow> length bs = 5" by auto
    then have res: "length bs \<le> 5 \<Longrightarrow> sleb_result 33 0 0 bs =
        (if length bs = 5 then int (uleb_value bs) else sleb_value bs)"
      unfolding sleb_result_def by simp
    have "s33.run bs = (case bs of [] \<Rightarrow> None | b # bs' \<Rightarrow>
      if unat b < 128 then (if bs' = [] then Some (signed_drop_bit 1 (scast (push_bit 1 b))) else None)
      else leb_run (sleb_step (\<lambda>_. ''invalid var_s33: integer representation too long'') 25 33)
        (ucast (b AND 0x7F), 7) bs')"
      by (cases bs) (simp_all only: s33.run.simps list.case)
    also have "\<dots> = Some v \<longleftrightarrow> leb_bytes bs \<and> 7 * (length bs - 1) < 33
        \<and> - (2 ^ (33 - 1)) \<le> sleb_value bs \<and> sleb_value bs < 2 ^ (33 - 1)
        \<and> v = word_of_int (sleb_result 33 0 0 bs)"
      by (rule sleb_reader_run [OF _ _ T s33_fast]) simp_all
    finally show ?thesis
      unfolding 5 using res by auto
  qed
  then show ?thesis
    unfolding s33.read_iff by auto
qed

text \<open>
  The callers only ask whether the value fits in a \<open>u32\<close>, and for them the missing sign
  extension makes no difference: a negative encoding of five bytes yields at least
  \<open>2 ^ 35 - 2 ^ 32\<close>, which is no \<open>u32\<close> either.
\<close>

lemma uleb_less: "uleb_value bs < 2 ^ (7 * length bs)"
proof (induction bs)
  case (Cons b bs)
  have "unat b mod 128 < 128" by simp
  with Cons have "unat b mod 128 + 128 * uleb_value bs < 128 * 2 ^ (7 * length bs)" by linarith
  then show ?case by (simp add: power_add)
qed simp

lemma sleb_bounds:
  "bs \<noteq> [] \<Longrightarrow> - (2 ^ (7 * length bs - 1)) \<le> sleb_value bs \<and> sleb_value bs < 2 ^ (7 * length bs - 1)"
proof (induction bs)
  case (Cons b bs)
  show ?case
  proof (cases "bs = []")
    case True
    then show ?thesis using sleb_value_single [of b] by simp
  next
    case False
    define n where "n = 7 * length bs - 1"
    have "7 * length (b # bs) - 1 = n + 7" using False by (cases bs) (simp_all add: n_def)
    then have p: "(2::int) ^ (7 * length (b # bs) - 1) = 128 * 2 ^ n" by (simp add: power_add)
    have "- (2 ^ n) \<le> sleb_value bs" "sleb_value bs < 2 ^ n"
      using Cons.IH [OF False] by (simp_all add: n_def)
    moreover have "0 \<le> int (unat b mod 128)" "int (unat b mod 128) < 128" by simp_all
    ultimately show ?thesis
      unfolding p using False by (simp only: sleb_value.simps if_False) linarith
  qed
qed simp

lemma uleb_sleb_eq:
  assumes "bs \<noteq> []"
  shows "int (uleb_value bs) = (if 0 \<le> sleb_value bs then sleb_value bs else sleb_value bs + 2 ^ (7 * length bs))"
proof -
  obtain q where q: "int (uleb_value bs) = sleb_value bs + 2 ^ (7 * length bs) * q"
    using uleb_sleb_cong [OF assms] by blast
  define m where "m = (2::int) ^ (7 * length bs)"
  have half: "2 * 2 ^ (7 * length bs - 1) = m"
    using assms by (cases bs) (simp_all add: m_def power_add)
  have "int (uleb_value bs) < int (2 ^ (7 * length bs))"
    using uleb_less [of bs] by (simp only: of_nat_less_iff)
  then have u: "0 \<le> int (uleb_value bs)" "int (uleb_value bs) < m"
    by (simp_all add: m_def)
  have s: "- m \<le> 2 * sleb_value bs" "2 * sleb_value bs < m" "0 < m"
    using sleb_bounds [OF assms] half by (auto simp: m_def)
  have e: "int (uleb_value bs) = sleb_value bs + m * q" using q m_def by simp
  have "int (uleb_value bs) = int (uleb_value bs) mod m"
    using u by (simp add: mod_pos_pos_trivial)
  also have "\<dots> = sleb_value bs mod m" unfolding e by (rule mod_mult_self2)
  finally have mod: "int (uleb_value bs) = sleb_value bs mod m" .
  show ?thesis
  proof (cases "0 \<le> sleb_value bs")
    case True
    then show ?thesis using mod s by (simp add: mod_pos_pos_trivial)
  next
    case False
    have "sleb_value bs mod m = (sleb_value bs + m) mod m" by simp
    also have "\<dots> = sleb_value bs + m" using False s by (intro mod_pos_pos_trivial) linarith+
    finally show ?thesis using mod False by (simp add: m_def)
  qed
qed

lemma read_var_s33_u32:
  assumes "read_var_s33 r = Inr (v, r')"
  obtains bs rest where "remaining_buffer r = bs @ rest" "leb_bytes bs" "length bs \<le> 5"
    "- (2 ^ 32) \<le> sleb_value bs" "sleb_value bs < 2 ^ 32" "r' = advance (length bs) r"
    "u32_try_from_i64 v = (if 0 \<le> sleb_value bs then Some (word_of_int (sleb_value bs)) else None)"
proof -
  obtain bs rest where bs: "remaining_buffer r = bs @ rest" "leb_bytes bs" "length bs \<le> 5"
    "- (2 ^ 32) \<le> sleb_value bs" "sleb_value bs < 2 ^ 32" "r' = advance (length bs) r"
    and v: "v = word_of_int (if length bs = 5 then int (uleb_value bs) else sleb_value bs)"
    using assms unfolding read_var_s33_iff by blast
  have "bs \<noteq> []" using bs(2) by auto
  note us = uleb_sleb_eq [OF this]
  define w where "w = (if length bs = 5 then int (uleb_value bs) else sleb_value bs)"
  have w: "- (2 ^ 63) \<le> w" "w < 2 ^ 63" "0 \<le> sleb_value bs \<Longrightarrow> w = sleb_value bs"
    "sleb_value bs < 0 \<Longrightarrow> w < 0 \<or> 2 ^ 32 \<le> w"
    using us bs(4,5) unfolding w_def by (auto split: if_splits)
  have "sint v = w"
    unfolding v w_def [symmetric] using w(1,2)
    by (simp add: signed_of_int signed_take_bit_int_eq_self)
  then have "u32_try_from_i64 v = (if 0 \<le> w \<and> w < 2 ^ 32 then Some (word_of_int w) else None)"
    unfolding u32_try_from_i64_def v w_def [symmetric]
    by (simp add: ucast_eq unsigned_of_int take_bit_int_eq_self)
  then have "u32_try_from_i64 v = (if 0 \<le> sleb_value bs then Some (word_of_int (sleb_value bs)) else None)"
    using w(3,4) bs(5) by (cases "0 \<le> sleb_value bs") auto
  with bs that show thesis by blast
qed

section \<open>Properties\<close>

text \<open>
  C12. \<open>read_var_u32\<close> succeeds exactly on the LEB128 encodings of at most five bytes whose value
  is below \<open>2 ^ 32\<close>; it returns that value and consumes exactly those bytes. (Its comment says
  that it reads up to four bytes.)
\<close>

theorem read_var_u32_correct:
  "read_var_u32 r = Inr (v, r') \<longleftrightarrow>
   (\<exists>bs rest. remaining_buffer r = bs @ rest \<and> leb_bytes bs \<and> length bs \<le> 5
      \<and> uleb_value bs < 2 ^ 32 \<and> v = of_nat (uleb_value bs) \<and> r' = advance (length bs) r)"
  by (rule read_var_u32_iff)

text \<open>
  C13. \<open>read_var_u64\<close> succeeds exactly on the LEB128 encodings of at most ten bytes whose value
  is below \<open>2 ^ 64\<close>; it returns that value and consumes exactly those bytes. (Its comment says
  that it reads up to four bytes, and under Errors up to eight.)
\<close>

theorem read_var_u64_correct:
  "read_var_u64 r = Inr (v, r') \<longleftrightarrow>
   (\<exists>bs rest. remaining_buffer r = bs @ rest \<and> leb_bytes bs \<and> length bs \<le> 10
      \<and> uleb_value bs < 2 ^ 64 \<and> v = of_nat (uleb_value bs) \<and> r' = advance (length bs) r)"
  by (rule read_var_u64_iff)

text \<open>
  C14. \<open>read_var_i32\<close> succeeds exactly on the signed LEB128 encodings of at most five bytes whose
  value fits in 32 bits; it returns that value and consumes exactly those bytes. (Its comment says
  that it reads up to four bytes.)
\<close>

theorem read_var_i32_correct:
  "read_var_i32 r = Inr (v, r') \<longleftrightarrow>
   (\<exists>bs rest. remaining_buffer r = bs @ rest \<and> leb_bytes bs \<and> length bs \<le> 5
      \<and> - (2 ^ 31) \<le> sleb_value bs \<and> sleb_value bs < 2 ^ 31
      \<and> v = word_of_int (sleb_value bs) \<and> r' = advance (length bs) r)"
  by (rule read_var_i32_iff)

text \<open>
  C15. \<open>read_var_i64\<close> succeeds exactly on the signed LEB128 encodings of at most ten bytes whose
  value fits in 64 bits; it returns that value and consumes exactly those bytes. (Its comment says
  that it reads up to eight bytes.)
\<close>

theorem read_var_i64_correct:
  "read_var_i64 r = Inr (v, r') \<longleftrightarrow>
   (\<exists>bs rest. remaining_buffer r = bs @ rest \<and> leb_bytes bs \<and> length bs \<le> 10
      \<and> - (2 ^ 63) \<le> sleb_value bs \<and> sleb_value bs < 2 ^ 63
      \<and> v = word_of_int (sleb_value bs) \<and> r' = advance (length bs) r)"
  by (rule read_var_i64_iff)

text \<open>
  C16. \<open>read_var_s33\<close> accepts exactly the signed LEB128 encodings of at most five bytes whose value
  fits in 33 bits, but it does not sign-extend an encoding of five bytes: there the result is the
  unsigned value of its 35 bits, so that the five bytes of minus one, \<open>ff ff ff ff 7f\<close>, are read as
  \<open>2 ^ 35 - 1\<close>. (Its comment says that it returns a signed 33 bit integer and reads up to four bytes.)
\<close>

theorem read_var_s33_characterised:
  "read_var_s33 r = Inr (v, r') \<longleftrightarrow>
   (\<exists>bs rest. remaining_buffer r = bs @ rest \<and> leb_bytes bs \<and> length bs \<le> 5
      \<and> - (2 ^ 32) \<le> sleb_value bs \<and> sleb_value bs < 2 ^ 32
      \<and> v = word_of_int (if length bs = 5 then int (uleb_value bs) else sleb_value bs)
      \<and> r' = advance (length bs) r)"
  by (rule read_var_s33_iff)

end
