(* ===== verification/Reader_Items.thy ===== *)
theory Reader_Items
  imports Leb128
begin

text \<open>
  The readers built from bytes and integers: sizes, lists of items, nested readers and strings.
  Each one keeps the contract \<open>from_reader\<close>; the generic list reader does so for every item
  type that does. The second half relates readers to encodings: \<open>decodes fs m bs x\<close> says that
  \<open>m\<close>, with the features \<open>fs\<close>, turns the bytes \<open>bs\<close> into \<open>x\<close> whatever follows.
\<close>

unbundle bit_operations_syntax

section \<open>The contract for integers\<close>

lemmas rd_ok_leb [rd_intro] =
  u32.rd_ok_read u64.rd_ok_read i32.rd_ok_read s33.rd_ok_read

lemma rd_ok_read_var_i64 [rd_intro]: "rd_ok k p read_var_i64"
  unfolding read_var_i64_def using i64.rd_ok_loop [of k p "(0, 0)"] by simp

interpretation u8: from_reader read_u8
  by (rule from_readerI) (rule rd_intro)

interpretation var_u32: from_reader read_var_u32
  by (rule from_readerI) (rule rd_intro)

interpretation var_u64: from_reader read_var_u64
  by (rule from_readerI) (rule rd_intro)

interpretation var_i32: from_reader read_var_i32
  by (rule from_readerI) (rule rd_intro)

interpretation var_s33: from_reader read_var_s33
  by (rule from_readerI) (rule rd_intro)

interpretation var_i64: from_reader read_var_i64
  by (rule from_readerI) (rule rd_intro)

text \<open>Code that complains about the integer it has just read.\<close>

lemma rd_ok_read_var_u32_bind [rd_intro]:
  assumes "\<And>x. rd_ok (Suc k) p (f x)"
  shows "rd_ok k p (bind_rd read_var_u32 f)"
  by (rule rd_ok_bind [OF u32.rd_ok_read u32.consumes_read]) (use assms in simp)

lemma rd_ok_read_var_s33_bind [rd_intro]:
  assumes "\<And>x. rd_ok (Suc k) p (f x)"
  shows "rd_ok k p (bind_rd read_var_s33 f)"
  by (rule rd_ok_bind [OF s33.rd_ok_read s33.consumes_read]) (use assms in simp)

lemma rd_ok_read_u7 [rd_intro]: "rd_ok k p read_u7"
  unfolding read_u7_def One_nat_def by (rule rd_intro)+

section \<open>Sizes and lists of items\<close>

lemma rd_ok_read_size [rd_intro]: "rd_ok k p (read_size limit desc)"
  unfolding read_size_def by (rule rd_intro)+

lemma read_size_le: "read_size limit desc r = Inr (n, r') \<Longrightarrow> n \<le> limit"
  by (auto simp: read_size_def with_pos_def bind_rd_def fail_rd_def return_rd_def
      split: sum.splits if_splits)

lemma read_items_length: "read_items item n r = Inr (xs, r') \<Longrightarrow> length xs = n"
proof (induction n arbitrary: r xs r')
  case (Suc n)
  then obtain x r1 ys where "read_items item n r1 = Inr (ys, r')" "xs = x # ys"
    by (auto simp: bind_rd_def return_rd_def split: sum.splits)
  with Suc.IH show ?case by simp
qed (simp add: return_rd_def)

context from_reader
begin

lemma rd_ok_read: "rd_ok k p read"
  by (rule from_reader_rd_ok) (rule from_reader_axioms)

lemma rd_ok_items: "rd_ok k p (read_items read n)"
proof (induction n arbitrary: k p)
  case (Suc n)
  show ?case
    unfolding read_items.simps by (rule rd_ok_read Suc.IH rd_intro rd_ok_bind0)+
qed (simp add: rd_intro)

lemma rd_ok_iter: "rd_ok k p (read_iter limit desc read)"
  unfolding read_iter_def by (rule rd_intro rd_ok_bind0 rd_ok_items)+

lemma from_reader_iter: "from_reader (read_iter limit desc read)"
  by (rule from_readerI) (rule rd_ok_iter)

lemma read_iter_length:
  "read_iter limit desc read r = Inr (xs, r') \<Longrightarrow> length xs \<le> limit"
  by (auto simp: read_iter_def bind_rd_def dest: read_size_le read_items_length split: sum.splits)

end

lemmas rd_ok_read_iter [rd_intro] = from_reader.rd_ok_iter [OF from_readerI]

section \<open>Nested readers and strings\<close>

lemma rd_ok_skip [rd_intro]:
  assumes f: "\<And>q. rd_ok 0 q f"
  shows "rd_ok k p (skip f)"
proof (rule rd_okI)
  fix r e
  assume "rd_wf r" "p + k \<le> original_position r" "skip f r = Inl e"
  then show "p \<le> err_offset e \<and> err_offset e \<le> end_position r"
    using rd_ok_errD [OF f, of r p e] by (auto simp: skip_def bind_rd_def split: sum.splits)
next
  fix r x r'
  assume wf: "rd_wf r" and eq: "skip f r = Inr (x, r')"
  then have f': "f r = Inr ((), r')"
    and x: "x = r'\<lparr>buffer := take (position r' - position r) (drop (position r) (buffer r')),
           position := 0, original_offset := original_offset r' + position r\<rparr>"
    by (auto simp: skip_def bind_rd_def split: sum.splits)
  note 1 = rd_okD [OF f, of r "original_position r" "()" r', OF wf _ f', simplified]
  have "take (position r' - position r) (drop (position r) (buffer r' @ ys)) =
      take (position r' - position r) (drop (position r) (buffer r'))" for ys
    using 1 by (simp add: rd_wf_def same_input_def)
  then show "same_input r r' \<and> position r \<le> position r' \<and> rd_wf r' \<and>
      (\<forall>ys. skip f (extend_input ys r) = Inr (x, extend_input ys r'))"
    using 1 x by (simp add: skip_def bind_rd_def extend_input_def)
qed

lemma rd_ok_read_reader [rd_intro]: "rd_ok k p read_reader"
  unfolding read_reader_def by (rule rd_intro rd_ok_bind0)+

text \<open>The nested reader sees exactly the bytes that were skipped, at their original offset.\<close>

lemma skip_nested:
  assumes "\<And>q. rd_ok 0 q f" "rd_wf r" "skip f r = Inr (x, r')"
  shows "f r = Inr ((), r')" "remaining_buffer r = remaining_buffer x @ remaining_buffer r'"
    "original_position x = original_position r" "features x = features r" "end_position x = original_position r'"
proof -
  show f': "f r = Inr ((), r')"
    using assms(3) by (auto simp: skip_def bind_rd_def split: sum.splits)
  have x: "x = r'\<lparr>buffer := take (position r' - position r) (drop (position r) (buffer r')),
           position := 0, original_offset := original_offset r' + position r\<rparr>"
    using assms(3) by (auto simp: skip_def bind_rd_def split: sum.splits)
  note 1 = rd_okD [OF assms(1), of r "original_position r" "()" r', OF assms(2) _ f', simplified]
  have "drop (position r) (buffer r) =
      take (position r' - position r) (drop (position r) (buffer r)) @ drop (position r') (buffer r)"
    using 1(2) by (metis append_take_drop_id drop_drop le_add_diff_inverse2)
  then show "remaining_buffer r = remaining_buffer x @ remaining_buffer r'"
    using 1(1) x by (simp add: remaining_buffer_def same_input_def)
  show "original_position x = original_position r" "features x = features r"
    "end_position x = original_position r'"
    using 1 x by (simp_all add: original_position_def same_input_def end_position_def rd_wf_def)
qed

lemma rd_ok_skip_string [rd_intro]: "rd_ok k p skip_string"
proof -
  have "(\<lambda>r. Inr ((), r\<lparr>position := position r + n\<rparr>)) = (\<lambda>r. Inr ((), advance n r))" for n
    by (simp add: advance_def)
  then have "bind_rd (ensure_has_bytes n) (\<lambda>_ r. Inr ((), r\<lparr>position := position r + n\<rparr>)) =
      bind_rd (read_bytes n) (\<lambda>_. return_rd ())" for n
    by (auto simp: fun_eq_iff bind_rd_def ensure_has_bytes_def read_bytes_alt return_rd_def advance_def)
  then show ?thesis
    unfolding skip_string_def One_nat_def by (simp only:) (rule rd_intro rd_ok_bind0)+
qed

lemma utf8_valid_nonempty: "\<not> utf8_valid bs \<Longrightarrow> bs \<noteq> []"
  by auto

lemma rd_ok_internal_read_string [rd_intro]: "rd_ok k p (internal_read_string len)"
proof (rule rd_okI)
  fix r e
  assume "rd_wf r" "p + k \<le> original_position r" "internal_read_string len r = Inl e"
  then show "p \<le> err_offset e \<and> err_offset e \<le> end_position r"
    by (auto simp: internal_read_string_def bind_rd_def read_bytes_alt error_eof_def error_new_def
        fail_rd_def return_rd_def original_position_def end_position_def rd_wf_def
        dest!: utf8_valid_nonempty split: if_splits)
next
  fix r x r'
  assume "rd_wf r" "internal_read_string len r = Inr (x, r')"
  then show "same_input r r' \<and> position r \<le> position r' \<and> rd_wf r' \<and>
      (\<forall>ys. internal_read_string len (extend_input ys r) = Inr (x, extend_input ys r'))"
    by (auto simp: internal_read_string_def bind_rd_def read_bytes_alt fail_rd_def return_rd_def
        rd_wf_def split: if_splits)
qed

lemma rd_ok_read_string [rd_intro]: "rd_ok k p read_string"
  unfolding read_string_def One_nat_def by (rule rd_intro)+

lemma rd_ok_read_unlimited_string [rd_intro]: "rd_ok k p read_unlimited_string"
  unfolding read_unlimited_string_def by (rule rd_intro)+

interpretation str: from_reader read_string
  by (rule from_readerI) (rule rd_intro)

section \<open>Readers and encodings\<close>

definition decodes :: "wasm_features \<Rightarrow> 'a rd \<Rightarrow> u8 list \<Rightarrow> 'a \<Rightarrow> bool" where
  "decodes fs m bs x \<longleftrightarrow>
     (\<forall>r rest. rd_wf r \<longrightarrow> features r = fs \<longrightarrow> remaining_buffer r = bs @ rest \<longrightarrow>
        m r = Inr (x, advance (length bs) r))"

lemma decodesD:
  "decodes fs m bs x \<Longrightarrow> rd_wf r \<Longrightarrow> features r = fs \<Longrightarrow> remaining_buffer r = bs @ rest \<Longrightarrow>
   m r = Inr (x, advance (length bs) r)"
  by (simp add: decodes_def)

text \<open>What is left to read after a prefix: the reader is at the start of a fresh buffer.\<close>

lemma decodes_new:
  assumes "decodes features_all m bs x"
  shows "m (reader_new (bs @ rest) off) = Inr (x, advance (length bs) (reader_new (bs @ rest) off))"
  by (rule decodesD [OF assms]) (simp_all add: reader_new_def remaining_buffer_def rd_wf_def)

lemma rd_wf_advance:
  "rd_wf r \<Longrightarrow> remaining_buffer r = bs @ rest \<Longrightarrow> rd_wf (advance (length bs) r)"
proof -
  assume "rd_wf r" "remaining_buffer r = bs @ rest"
  moreover from this have "length (drop (position r) (buffer r)) = length (bs @ rest)"
    by (simp only: remaining_buffer_def)
  ultimately show ?thesis by (simp add: rd_wf_def)
qed

lemma decodes_bind [dec_intro]:
  assumes "decodes fs m bs x" "decodes fs (f x) cs y"
  shows "decodes fs (bind_rd m f) (bs @ cs) y"
  unfolding decodes_def
proof (intro allI impI)
  fix r rest
  assume wf: "rd_wf r" and fs: "features r = fs" and "remaining_buffer r = (bs @ cs) @ rest"
  then have rem: "remaining_buffer r = bs @ cs @ rest" by simp
  from wf fs this have "m r = Inr (x, advance (length bs) r)"
    by (rule decodesD [OF assms(1)])
  moreover have "f x (advance (length bs) r) = Inr (y, advance (length cs) (advance (length bs) r))"
    by (rule decodesD [OF assms(2) rd_wf_advance [OF wf rem] _ remaining_advance [OF rem]])
      (simp add: fs)
  ultimately show "bind_rd m f r = Inr (y, advance (length (bs @ cs)) r)"
    by (simp add: bind_rd_def add.commute)
qed

lemma decodes_bind_Nil:
  assumes "decodes fs m [] x" "decodes fs (f x) cs y"
  shows "decodes fs (bind_rd m f) cs y"
  using decodes_bind [where f = f, OF assms] by simp

lemma decodes_return [dec_intro]: "decodes fs (return_rd x) [] x"
  by (simp add: decodes_def return_rd_def)

lemma decodes_with_pos [dec_intro]: "(\<And>p. decodes fs (f p) bs x) \<Longrightarrow> decodes fs (with_pos f) bs x"
  by (simp add: decodes_def with_pos_def)

lemma decodes_map_err [dec_intro]: "decodes fs m bs x \<Longrightarrow> decodes fs (map_err_rd g m) bs x"
  by (auto simp: decodes_def map_err_rd_def)

lemma decodes_u8 [dec_intro]: "decodes fs read_u8 [b] b"
  using remaining_Cons_read_u8 by (auto simp: decodes_def)

lemma decodes_u8_bind: "decodes fs (f b) bs x \<Longrightarrow> decodes fs (bind_rd read_u8 f) (b # bs) x"
  using decodes_bind [OF decodes_u8, of fs f b bs x] by simp

lemma decodes_peek_bind:
  assumes "decodes fs (f b) (b # bs) x"
  shows "decodes fs (bind_rd peek f) (b # bs) x"
  unfolding decodes_def
proof (intro allI impI)
  fix r rest
  assume wf: "rd_wf r" and fs: "features r = fs" and rem: "remaining_buffer r = (b # bs) @ rest"
  then have "position r < length (buffer r)" "buffer r ! position r = b"
    using drop_eq_ConsD [of "position r" "buffer r" b "bs @ rest"] by (simp_all add: remaining_buffer_def)
  then have "peek r = Inr (b, r)"
    by (simp add: peek_def bind_rd_def ensure_has_byte_def)
  then show "bind_rd peek f r = Inr (x, advance (length (b # bs)) r)"
    using decodesD [OF assms wf fs rem] by (simp add: bind_rd_def)
qed

lemma decodes_read_bytes [dec_intro]: "length bs = n \<Longrightarrow> decodes fs (read_bytes n) bs bs"
  unfolding decodes_def
proof (intro allI impI)
  fix r rest
  assume "length bs = n" "rd_wf r" and rem: "remaining_buffer r = bs @ rest"
  moreover from this have "position r + n \<le> length (buffer r)"
    using rd_wf_advance [of r bs rest] by (simp add: rd_wf_def)
  ultimately show "read_bytes n r = Inr (bs, advance (length bs) r)"
    by (auto simp: read_bytes_alt remaining_buffer_def)
qed

lemma decodes_var_u32:
  "leb_bytes bs \<Longrightarrow> length bs \<le> 5 \<Longrightarrow> uleb_value bs < 2 ^ 32 \<Longrightarrow> v = of_nat (uleb_value bs) \<Longrightarrow>
   decodes fs read_var_u32 bs v"
  unfolding decodes_def by (auto simp: read_var_u32_iff)

lemma decodes_var_u64:
  "leb_bytes bs \<Longrightarrow> length bs \<le> 10 \<Longrightarrow> uleb_value bs < 2 ^ 64 \<Longrightarrow> v = of_nat (uleb_value bs) \<Longrightarrow>
   decodes fs read_var_u64 bs v"
  unfolding decodes_def by (auto simp: read_var_u64_iff)

lemma decodes_var_i32:
  "leb_bytes bs \<Longrightarrow> length bs \<le> 5 \<Longrightarrow> - (2 ^ 31) \<le> sleb_value bs \<Longrightarrow> sleb_value bs < 2 ^ 31 \<Longrightarrow>
   v = word_of_int (sleb_value bs) \<Longrightarrow> decodes fs read_var_i32 bs v"
  unfolding decodes_def by (auto simp: read_var_i32_iff)

lemma decodes_var_i64:
  "leb_bytes bs \<Longrightarrow> length bs \<le> 10 \<Longrightarrow> - (2 ^ 63) \<le> sleb_value bs \<Longrightarrow> sleb_value bs < 2 ^ 63 \<Longrightarrow>
   v = word_of_int (sleb_value bs) \<Longrightarrow> decodes fs read_var_i64 bs v"
  unfolding decodes_def by (auto simp: read_var_i64_iff)

lemma decodes_items:
  assumes "\<And>x. x \<in> set xs \<Longrightarrow> decodes fs item (enc x) x"
  shows "decodes fs (read_items item (length xs)) (concat (map enc xs)) xs"
  using assms
proof (induction xs)
  case (Cons x xs)
  have "decodes fs item (enc x) x" "decodes fs (read_items item (length xs)) (concat (map enc xs)) xs"
    using Cons by simp_all
  from decodes_bind [OF this(1) decodes_bind [OF this(2) decodes_return]]
  have "decodes fs (read_items item (length (x # xs))) (enc x @ (concat (map enc xs) @ [])) (x # xs)"
    by simp
  then show ?case by simp
qed (simp add: dec_intro)

lemma decodes_size:
  assumes "decodes fs read_var_u32 bs (of_nat n)" "n < 2 ^ 32" "n \<le> limit"
  shows "decodes fs (read_size limit desc) bs n"
proof -
  have "unat (of_nat n :: u32) = n" using assms(2) by (simp add: unat_of_nat)
  then have "decodes fs (read_size limit desc) (bs @ []) n"
    unfolding read_size_def using assms(3)
    by (intro decodes_with_pos decodes_bind [OF assms(1)]) (simp add: decodes_return)
  then show ?thesis by simp
qed

lemma decodes_iter:
  assumes "decodes fs read_var_u32 bs (of_nat (length xs))" "length xs < 2 ^ 32" "length xs \<le> limit"
    and "\<And>x. x \<in> set xs \<Longrightarrow> decodes fs item (enc x) x"
  shows "decodes fs (read_iter limit desc item) (bs @ concat (map enc xs)) xs"
  unfolding read_iter_def
  by (rule decodes_bind [where x = "length xs", OF decodes_size [OF assms(1-3)]])
    (rule decodes_items [OF assms(4)])

end
