(* ===== verification/Wasm_Types.thy ===== *)
theory Wasm_Types
  imports Reader_Items
begin

text \<open>
  The core types of crates/wasmparser/src/readers/core/types.rs: type indices packed in 22 bits,
  reference types packed in 24 bits, heap types, value types and the composite types, with
  their constructors and observers. The readers of these types are in the theory \<open>Type_Readers\<close>.

  An arm \<open>unreachable!()\<close> or a failed \<open>unwrap\<close> is the value \<open>None\<close> of the function that has it;
  a caller that does not handle it applies \<open>the\<close>. The results below show that it is never
  reached from values built by the public constructors.
\<close>

unbundle bit_operations_syntax

section \<open>Type indices\<close>

datatype packed_index = PackedIndex u32

datatype unpacked_index = Module u32 | RecGroupIndex u32 | CoreTypeId u32

definition PACKED_KIND_MASK :: u32 where "PACKED_KIND_MASK = push_bit 20 0b11"
definition PACKED_INDEX_MASK :: u32 where "PACKED_INDEX_MASK = push_bit 20 1 - 1"
definition MODULE_KIND :: u32 where "MODULE_KIND = push_bit 20 0b00"
definition REC_GROUP_KIND :: u32 where "REC_GROUP_KIND = push_bit 20 0b01"
definition ID_KIND :: u32 where "ID_KIND = push_bit 20 0b10"

definition unchecked_from_u32 :: "u32 \<Rightarrow> packed_index" where
  "unchecked_from_u32 x = PackedIndex x"

fun to_u32 :: "packed_index \<Rightarrow> u32" where
  "to_u32 (PackedIndex x) = x"

definition can_represent_index :: "u32 \<Rightarrow> bool" where
  "can_represent_index index \<longleftrightarrow> index AND PACKED_INDEX_MASK = index"

definition packed_kind :: "packed_index \<Rightarrow> u32" where
  "packed_kind p = to_u32 p AND PACKED_KIND_MASK"

definition packed_index_of :: "packed_index \<Rightarrow> u32" where
  "packed_index_of p = to_u32 p AND PACKED_INDEX_MASK"

definition from_module_index :: "u32 \<Rightarrow> packed_index option" where
  "from_module_index index =
     (if can_represent_index index then Some (PackedIndex (MODULE_KIND OR index)) else None)"

definition from_rec_group_index :: "u32 \<Rightarrow> packed_index option" where
  "from_rec_group_index index =
     (if can_represent_index index then Some (PackedIndex (REC_GROUP_KIND OR index)) else None)"

definition from_id :: "u32 \<Rightarrow> packed_index option" where
  "from_id index =
     (if can_represent_index index then Some (PackedIndex (ID_KIND OR index)) else None)"

definition packed_is_canonical :: "packed_index \<Rightarrow> bool option" where
  "packed_is_canonical p =
     (if packed_kind p = REC_GROUP_KIND \<or> packed_kind p = ID_KIND then Some True
      else if packed_kind p = MODULE_KIND then Some False
      else None)"

definition unpack :: "packed_index \<Rightarrow> unpacked_index option" where
  "unpack p =
     (if packed_kind p = MODULE_KIND then Some (Module (packed_index_of p))
      else if packed_kind p = REC_GROUP_KIND then Some (RecGroupIndex (packed_index_of p))
      else if packed_kind p = ID_KIND then Some (CoreTypeId (packed_index_of p))
      else None)"

definition packed_as_module_index :: "packed_index \<Rightarrow> u32 option" where
  "packed_as_module_index p =
     (if packed_kind p = MODULE_KIND then Some (packed_index_of p) else None)"

definition packed_as_rec_group_index :: "packed_index \<Rightarrow> u32 option" where
  "packed_as_rec_group_index p =
     (if packed_kind p = REC_GROUP_KIND then Some (packed_index_of p) else None)"

definition packed_as_core_type_id :: "packed_index \<Rightarrow> u32 option" where
  "packed_as_core_type_id p =
     (if packed_kind p = ID_KIND then Some (packed_index_of p) else None)"

fun pack :: "unpacked_index \<Rightarrow> packed_index option" where
  "pack (Module i) = from_module_index i"
| "pack (RecGroupIndex i) = from_rec_group_index i"
| "pack (CoreTypeId i) = from_id i"

fun unpacked_is_canonical :: "unpacked_index \<Rightarrow> bool" where
  "unpacked_is_canonical (RecGroupIndex _) = True"
| "unpacked_is_canonical (CoreTypeId _) = True"
| "unpacked_is_canonical _ = False"

fun as_module_index :: "unpacked_index \<Rightarrow> u32 option" where
  "as_module_index (Module i) = Some i"
| "as_module_index _ = None"

fun as_rec_group_index :: "unpacked_index \<Rightarrow> u32 option" where
  "as_rec_group_index (RecGroupIndex i) = Some i"
| "as_rec_group_index _ = None"

fun as_core_type_id :: "unpacked_index \<Rightarrow> u32 option" where
  "as_core_type_id (CoreTypeId i) = Some i"
| "as_core_type_id _ = None"

fun unpacked_index_display :: "unpacked_index \<Rightarrow> string" where
  "unpacked_index_display (Module i) = ''(module '' @ fmt_dec (unat i) @ '')''"
| "unpacked_index_display (RecGroupIndex i) = ''(recgroup '' @ fmt_dec (unat i) @ '')''"
| "unpacked_index_display (CoreTypeId i) = ''(id '' @ fmt_dec (unat i) @ '')''"

lemmas packed_masks =
  PACKED_KIND_MASK_def PACKED_INDEX_MASK_def MODULE_KIND_def REC_GROUP_KIND_def ID_KIND_def

section \<open>Heap types\<close>

datatype abstract_heap_type =
    AFunc | AExtern | AAny | ANone | ANoExtern | ANoFunc | AEq | AStruct | AArray | AI31 | AExn
  | ANoExn | ACont | ANoCont

datatype heap_type = Abstract bool abstract_heap_type | Concrete unpacked_index

definition HeapType_FUNC :: heap_type where "HeapType_FUNC = Abstract False AFunc"
definition HeapType_EXTERN :: heap_type where "HeapType_EXTERN = Abstract False AExtern"

fun as_str :: "bool \<Rightarrow> abstract_heap_type \<Rightarrow> string" where
  "as_str _ AAny = ''any''"
| "as_str nullable ANone = (if nullable then ''null'' else ''none'')"
| "as_str nullable ANoExtern = (if nullable then ''nullextern'' else ''noextern'')"
| "as_str nullable ANoFunc = (if nullable then ''nullfunc'' else ''nofunc'')"
| "as_str _ AEq = ''eq''"
| "as_str _ AStruct = ''struct''"
| "as_str _ AArray = ''array''"
| "as_str _ AI31 = ''i31''"
| "as_str _ AExtern = ''extern''"
| "as_str _ AFunc = ''func''"
| "as_str _ AExn = ''exn''"
| "as_str nullable ANoExn = (if nullable then ''nullexn'' else ''noexn'')"
| "as_str _ ACont = ''cont''"
| "as_str nullable ANoCont = (if nullable then ''nullcont'' else ''nocont'')"

definition is_subtype_of :: "abstract_heap_type \<Rightarrow> abstract_heap_type \<Rightarrow> bool" where
  "is_subtype_of a b \<longleftrightarrow>
     (a = b
      \<or> a \<in> {AEq, AI31, AStruct, AArray, ANone} \<and> b = AAny
      \<or> a \<in> {AI31, AStruct, AArray, ANone} \<and> b = AEq
      \<or> a = ANoExtern \<and> b = AExtern
      \<or> a = ANoFunc \<and> b = AFunc
      \<or> a = ANone \<and> b \<in> {AI31, AArray, AStruct}
      \<or> a = ANoExn \<and> b = AExn
      \<or> a = ANoCont \<and> b = ACont)"

section \<open>Reference types\<close>

datatype ref_type = RefType u8 u8 u8

definition NULLABLE_BIT :: u32 where "NULLABLE_BIT = push_bit 23 1"
definition CONCRETE_BIT :: u32 where "CONCRETE_BIT = push_bit 22 1"
definition SHARED_BIT :: u32 where "SHARED_BIT = push_bit 21 1"
definition ABSTYPE_MASK :: u32 where "ABSTYPE_MASK = push_bit 17 0b1111"
definition REF_INDEX_MASK :: u32 where "REF_INDEX_MASK = push_bit 22 1 - 1"

text \<open>The constants \<open>FUNC_ABSTYPE\<close>, \<open>EXTERN_ABSTYPE\<close> and so on.\<close>

fun abstype_code :: "abstract_heap_type \<Rightarrow> u32" where
  "abstype_code AAny = push_bit 17 0b1111"
| "abstype_code AEq = push_bit 17 0b1101"
| "abstype_code AI31 = push_bit 17 0b1000"
| "abstype_code AStruct = push_bit 17 0b1001"
| "abstype_code AArray = push_bit 17 0b1100"
| "abstype_code AFunc = push_bit 17 0b0101"
| "abstype_code ANoFunc = push_bit 17 0b0100"
| "abstype_code AExtern = push_bit 17 0b0011"
| "abstype_code ANoExtern = push_bit 17 0b0010"
| "abstype_code AExn = push_bit 17 0b0001"
| "abstype_code ANoExn = push_bit 17 0b1110"
| "abstype_code ANone = push_bit 17 0b0000"
| "abstype_code ACont = push_bit 17 0b0111"
| "abstype_code ANoCont = push_bit 17 0b0110"

definition can_represent_type_index :: "u32 \<Rightarrow> bool" where
  "can_represent_type_index index \<longleftrightarrow> index AND REF_INDEX_MASK = index"

fun as_u32 :: "ref_type \<Rightarrow> u32" where
  "as_u32 (RefType b0 b1 b2) = of_nat (nat_from_le_bytes [b0, b1, b2, 0])"

definition from_u32 :: "u32 \<Rightarrow> ref_type" where
  "from_u32 x =
     (let bytes = to_le_bytes 4 (unat x) in RefType (bytes ! 0) (bytes ! 1) (bytes ! 2))"

definition ref_concrete :: "bool \<Rightarrow> packed_index \<Rightarrow> ref_type" where
  "ref_concrete nullable index =
     from_u32 (NULLABLE_BIT * of_bool nullable OR CONCRETE_BIT OR to_u32 index)"

fun ref_new :: "bool \<Rightarrow> heap_type \<Rightarrow> ref_type option" where
  "ref_new nullable (Concrete index) = map_option (ref_concrete nullable) (pack index)"
| "ref_new nullable (Abstract shared ty) =
     (let base32 = NULLABLE_BIT * of_bool nullable;
          base32 = base32 OR (SHARED_BIT * of_bool shared)
      in Some (from_u32 (base32 OR abstype_code ty)))"

definition is_concrete_type_ref :: "ref_type \<Rightarrow> bool" where
  "is_concrete_type_ref rt \<longleftrightarrow> as_u32 rt AND CONCRETE_BIT \<noteq> 0"

definition type_index :: "ref_type \<Rightarrow> packed_index option" where
  "type_index rt =
     (if is_concrete_type_ref rt then Some (unchecked_from_u32 (as_u32 rt AND REF_INDEX_MASK))
      else None)"

definition abstype :: "ref_type \<Rightarrow> u32" where
  "abstype rt = as_u32 rt AND ABSTYPE_MASK"

definition is_func_ref :: "ref_type \<Rightarrow> bool" where
  "is_func_ref rt \<longleftrightarrow> \<not> is_concrete_type_ref rt \<and> abstype rt = abstype_code AFunc"

definition is_extern_ref :: "ref_type \<Rightarrow> bool" where
  "is_extern_ref rt \<longleftrightarrow> \<not> is_concrete_type_ref rt \<and> abstype rt = abstype_code AExtern"

definition is_array_ref :: "ref_type \<Rightarrow> bool" where
  "is_array_ref rt \<longleftrightarrow> \<not> is_concrete_type_ref rt \<and> abstype rt = abstype_code AArray"

definition is_struct_ref :: "ref_type \<Rightarrow> bool" where
  "is_struct_ref rt \<longleftrightarrow> \<not> is_concrete_type_ref rt \<and> abstype rt = abstype_code AStruct"

definition is_cont_ref :: "ref_type \<Rightarrow> bool" where
  "is_cont_ref rt \<longleftrightarrow> \<not> is_concrete_type_ref rt \<and> abstype rt = abstype_code ACont"

definition is_nullable :: "ref_type \<Rightarrow> bool" where
  "is_nullable rt \<longleftrightarrow> as_u32 rt AND NULLABLE_BIT \<noteq> 0"

definition as_non_null :: "ref_type \<Rightarrow> ref_type" where
  "as_non_null rt = from_u32 (as_u32 rt AND NOT NULLABLE_BIT)"

definition ref_nullable :: "ref_type \<Rightarrow> ref_type" where
  "ref_nullable rt = from_u32 (as_u32 rt OR NULLABLE_BIT)"

definition ref_shared :: "ref_type \<Rightarrow> ref_type option" where
  "ref_shared rt =
     (if is_concrete_type_ref rt then None else Some (from_u32 (as_u32 rt OR SHARED_BIT)))"

text \<open>The arms of \<open>heap_type\<close>, in the order of the source.\<close>

definition abstract_heap_types :: "abstract_heap_type list" where
  "abstract_heap_types =
     [AFunc, AExtern, AAny, ANone, ANoExtern, ANoFunc, AEq, AStruct, AArray, AI31, AExn, ANoExn,
      ACont, ANoCont]"

definition ref_heap_type :: "ref_type \<Rightarrow> heap_type option" where
  "ref_heap_type rt =
     (if is_concrete_type_ref rt
      then map_option Concrete (unpack (the (type_index rt)))
      else map_option (Abstract (as_u32 rt AND SHARED_BIT \<noteq> 0))
        (find (\<lambda>ty. as_u32 rt AND ABSTYPE_MASK = abstype_code ty) abstract_heap_types))"

definition ref_difference :: "ref_type \<Rightarrow> ref_type \<Rightarrow> ref_type option" where
  "ref_difference a b =
     (case ref_heap_type a of
        None \<Rightarrow> None
      | Some hty \<Rightarrow> ref_new (if is_nullable b then False else is_nullable a) hty)"

definition ref_FUNC :: ref_type where "ref_FUNC = from_u32 (abstype_code AFunc)"
definition ref_EXTERN :: ref_type where "ref_EXTERN = from_u32 (abstype_code AExtern)"
definition ref_ANY :: ref_type where "ref_ANY = from_u32 (abstype_code AAny)"
definition ref_NONE :: ref_type where "ref_NONE = from_u32 (abstype_code ANone)"
definition ref_EQ :: ref_type where "ref_EQ = from_u32 (abstype_code AEq)"
definition ref_STRUCT :: ref_type where "ref_STRUCT = from_u32 (abstype_code AStruct)"
definition ref_ARRAY :: ref_type where "ref_ARRAY = from_u32 (abstype_code AArray)"
definition ref_I31 :: ref_type where "ref_I31 = from_u32 (abstype_code AI31)"
definition ref_EXN :: ref_type where "ref_EXN = from_u32 (abstype_code AExn)"
definition ref_CONT :: ref_type where "ref_CONT = from_u32 (abstype_code ACont)"
definition FUNCREF :: ref_type where "FUNCREF = ref_nullable ref_FUNC"
definition EXTERNREF :: ref_type where "EXTERNREF = ref_nullable ref_EXTERN"
definition ANYREF :: ref_type where "ANYREF = ref_nullable ref_ANY"
definition NULLREF :: ref_type where "NULLREF = ref_nullable ref_NONE"
definition EQREF :: ref_type where "EQREF = ref_nullable ref_EQ"
definition STRUCTREF :: ref_type where "STRUCTREF = ref_nullable ref_STRUCT"
definition ARRAYREF :: ref_type where "ARRAYREF = ref_nullable ref_ARRAY"
definition I31REF :: ref_type where "I31REF = ref_nullable ref_I31"
definition EXNREF :: ref_type where "EXNREF = ref_nullable ref_EXN"
definition CONTREF :: ref_type where "CONTREF = ref_nullable ref_CONT"

text \<open>\<open>Display\<close> of a reference type, and its variant \<open>wat\<close> without indices.\<close>

definition ref_display :: "ref_type \<Rightarrow> string" where
  "ref_display rt =
     (case the (ref_heap_type rt) of
        Abstract shared ty \<Rightarrow>
          (let nullable = is_nullable rt; name = as_str nullable ty in
           if nullable \<and> shared then ''(shared '' @ name @ ''ref)''
           else if nullable then name @ ''ref''
           else if shared then ''(ref (shared '' @ name @ ''))''
           else ''(ref '' @ name @ '')'')
      | Concrete index \<Rightarrow>
          (if is_nullable rt then ''(ref null '' @ unpacked_index_display index @ '')''
           else ''(ref '' @ unpacked_index_display index @ '')''))"

definition wat_abstract :: "bool \<Rightarrow> bool \<Rightarrow> abstract_heap_type \<Rightarrow> string" where
  "wat_abstract shared nullable ty =
     (case (shared, nullable) of
        (True, True) \<Rightarrow> (case ty of
            AFunc \<Rightarrow> ''(shared funcref)''
          | AExtern \<Rightarrow> ''(shared externref)''
          | AAny \<Rightarrow> ''(shared anyref)''
          | ANone \<Rightarrow> ''(shared nullref)''
          | ANoExtern \<Rightarrow> ''(shared nullexternref)''
          | ANoFunc \<Rightarrow> ''(shared nullfuncref)''
          | AEq \<Rightarrow> ''(shared eqref)''
          | AStruct \<Rightarrow> ''(shared structref)''
          | AArray \<Rightarrow> ''(shared arrayref)''
          | AI31 \<Rightarrow> ''(shared i31ref)''
          | AExn \<Rightarrow> ''(shared exnref)''
          | ANoExn \<Rightarrow> ''(shared nullexnref)''
          | ACont \<Rightarrow> ''(shared contref)''
          | ANoCont \<Rightarrow> ''(shared nullcontref)'')
      | (False, True) \<Rightarrow> (case ty of
            AFunc \<Rightarrow> ''funcref''
          | AExtern \<Rightarrow> ''externref''
          | AAny \<Rightarrow> ''anyref''
          | ANone \<Rightarrow> ''nullref''
          | ANoExtern \<Rightarrow> ''nullexternref''
          | ANoFunc \<Rightarrow> ''nullfuncref''
          | AEq \<Rightarrow> ''eqref''
          | AStruct \<Rightarrow> ''structref''
          | AArray \<Rightarrow> ''arrayref''
          | AI31 \<Rightarrow> ''i31ref''
          | AExn \<Rightarrow> ''exnref''
          | ANoExn \<Rightarrow> ''nullexnref''
          | ACont \<Rightarrow> ''contref''
          | ANoCont \<Rightarrow> ''nullcontref'')
      | (True, False) \<Rightarrow> (case ty of
            AFunc \<Rightarrow> ''(ref (shared func))''
          | AExtern \<Rightarrow> ''(ref (shared extern))''
          | AAny \<Rightarrow> ''(ref (shared any))''
          | ANone \<Rightarrow> ''(ref (shared none))''
          | ANoExtern \<Rightarrow> ''(ref (shared noextern))''
          | ANoFunc \<Rightarrow> ''(ref (shared nofunc))''
          | AEq \<Rightarrow> ''(ref (shared eq))''
          | AStruct \<Rightarrow> ''(ref (shared struct))''
          | AArray \<Rightarrow> ''(ref (shared array))''
          | AI31 \<Rightarrow> ''(ref (shared i31))''
          | AExn \<Rightarrow> ''(ref (shared exn))''
          | ANoExn \<Rightarrow> ''(ref (shared noexn))''
          | ACont \<Rightarrow> ''(ref (shared cont))''
          | ANoCont \<Rightarrow> ''(ref (shared nocont))'')
      | (False, False) \<Rightarrow> (case ty of
            AFunc \<Rightarrow> ''(ref func)''
          | AExtern \<Rightarrow> ''(ref extern)''
          | AAny \<Rightarrow> ''(ref any)''
          | ANone \<Rightarrow> ''(ref none)''
          | ANoExtern \<Rightarrow> ''(ref noextern)''
          | ANoFunc \<Rightarrow> ''(ref nofunc)''
          | AEq \<Rightarrow> ''(ref eq)''
          | AStruct \<Rightarrow> ''(ref struct)''
          | AArray \<Rightarrow> ''(ref array)''
          | AI31 \<Rightarrow> ''(ref i31)''
          | AExn \<Rightarrow> ''(ref exn)''
          | ANoExn \<Rightarrow> ''(ref noexn)''
          | ACont \<Rightarrow> ''(ref cont)''
          | ANoCont \<Rightarrow> ''(ref nocont)''))"

definition wat :: "ref_type \<Rightarrow> string" where
  "wat rt =
     (case the (ref_heap_type rt) of
        Abstract shared ty \<Rightarrow> wat_abstract shared (is_nullable rt) ty
      | Concrete _ \<Rightarrow> (if is_nullable rt then ''(ref null $type)'' else ''(ref $type)''))"

section \<open>Value types and composite types\<close>

datatype val_type = I32 | I64 | F32 | F64 | V128 | Ref ref_type

fun val_type_display :: "val_type \<Rightarrow> string" where
  "val_type_display I32 = ''i32''"
| "val_type_display I64 = ''i64''"
| "val_type_display F32 = ''f32''"
| "val_type_display F64 = ''f64''"
| "val_type_display V128 = ''v128''"
| "val_type_display (Ref r) = ref_display r"

fun is_reference_type :: "val_type \<Rightarrow> bool" where
  "is_reference_type (Ref _) = True"
| "is_reference_type _ = False"

fun as_reference_type :: "val_type \<Rightarrow> ref_type option" where
  "as_reference_type (Ref r) = Some r"
| "as_reference_type _ = None"

fun is_defaultable :: "val_type \<Rightarrow> bool" where
  "is_defaultable (Ref rt) = is_nullable rt"
| "is_defaultable _ = True"

datatype storage_type = StorageI8 | StorageI16 | Val val_type

fun is_packed :: "storage_type \<Rightarrow> bool" where
  "is_packed (Val _) = False"
| "is_packed _ = True"

fun storage_unpack :: "storage_type \<Rightarrow> val_type" where
  "storage_unpack (Val ty) = ty"
| "storage_unpack _ = I32"

record field_type =
  element_type :: storage_type
  field_mutable :: bool

record func_type =
  params_results :: "val_type list"
  len_params :: usize

definition func_type_new :: "val_type list \<Rightarrow> val_type list \<Rightarrow> func_type" where
  "func_type_new ps rs = \<lparr>params_results = ps @ rs, len_params = length ps\<rparr>"

definition from_raw_parts :: "val_type list \<Rightarrow> usize \<Rightarrow> func_type option" where
  "from_raw_parts prs n =
     (if n \<le> length prs then Some \<lparr>params_results = prs, len_params = n\<rparr> else None)"

definition func_params :: "func_type \<Rightarrow> val_type list" where
  "func_params ft = take (len_params ft) (params_results ft)"

definition func_results :: "func_type \<Rightarrow> val_type list" where
  "func_results ft = drop (len_params ft) (params_results ft)"

datatype array_type = ArrayType field_type
datatype struct_type = StructType "field_type list"
datatype cont_type = ContType packed_index

datatype composite_inner_type =
    CompFunc func_type | CompArray array_type | CompStruct struct_type | CompCont cont_type

record composite_type =
  comp_inner :: composite_inner_type
  comp_shared :: bool

record sub_type =
  is_final :: bool
  supertype_idx :: "packed_index option"
  composite_type :: composite_type

definition sub_type_func :: "func_type \<Rightarrow> bool \<Rightarrow> sub_type" where
  "sub_type_func signature shared =
     \<lparr>is_final = True, supertype_idx = None,
      composite_type = \<lparr>comp_inner = CompFunc signature, comp_shared = shared\<rparr>\<rparr>"

datatype rec_group = Implicit "usize \<times> sub_type" | Explicit "(usize \<times> sub_type) list"

fun is_explicit_rec_group :: "rec_group \<Rightarrow> bool" where
  "is_explicit_rec_group (Explicit _) = True"
| "is_explicit_rec_group (Implicit _) = False"

fun into_types_and_offsets :: "rec_group \<Rightarrow> (usize \<times> sub_type) list" where
  "into_types_and_offsets (Implicit ty) = [ty]"
| "into_types_and_offsets (Explicit types) = types"

definition rec_group_types :: "rec_group \<Rightarrow> sub_type list" where
  "rec_group_types g = map snd (into_types_and_offsets g)"

definition rec_group_eq :: "rec_group \<Rightarrow> rec_group \<Rightarrow> bool" where
  "rec_group_eq a b \<longleftrightarrow>
     length (rec_group_types a) = length (rec_group_types b)
     \<and> list_all (\<lambda>(x, y). x = y) (zip (rec_group_types a) (rec_group_types b))"

end
