(* ===== verification/Type_Packing.thy ===== *)
theory Type_Packing
  imports Wasm_Types
begin

text \<open>
  Packing loses nothing: a type index fits in the 22 bits of a \<open>PackedIndex\<close>, a nullable heap
  type in the 24 bits of a \<open>RefType\<close>, and unpacking gives back what was packed. Every reference
  type built by \<open>RefType::new\<close> is \<open>ref_ok\<close>, and on these no arm \<open>unreachable!()\<close> is reached.
\<close>

unbundle bit_operations_syntax

section \<open>Bytes of a word\<close>

lemma to_le_bytes_4:
  "to_le_bytes 4 n =
     [of_nat (n mod 256), of_nat (n div 256 mod 256), of_nat (n div 256 div 256 mod 256),
      of_nat (n div 256 div 256 div 256 mod 256)]"
proof -
  have "(4::nat) = Suc (Suc (Suc (Suc 0)))" by simp
  then show ?thesis by (simp only: to_le_bytes.simps)
qed

lemma unat_of_nat_less: "n < 2 ^ LENGTH('a) \<Longrightarrow> unat (of_nat n :: 'a::len word) = n"
  by (simp add: unat_of_nat)

lemma as_u32_from_u32:
  assumes "unat x < 2 ^ 24"
  shows "as_u32 (from_u32 x) = x"
proof -
  let ?n = "unat x"
  have b: "unat (of_nat (m mod 256) :: u8) = m mod 256" for m :: nat
    by (rule unat_of_nat_less) simp
  have "?n div 256 div 256 < 256" using assms by simp
  then have "?n mod 256 + 256 * (?n div 256 mod 256 + 256 * (?n div 256 div 256 mod 256)) = ?n"
    by simp
  moreover have "as_u32 (from_u32 x) = of_nat
      (?n mod 256 + 256 * (?n div 256 mod 256 + 256 * (?n div 256 div 256 mod 256)))"
    unfolding from_u32_def Let_def to_le_bytes_4 nth_Cons_0 nth_Cons_Suc One_nat_def numeral_2_eq_2
      as_u32.simps nat_from_le_bytes.simps b by simp
  ultimately show ?thesis by (simp only: of_nat_unat_id)
qed

lemma from_u32_as_u32: "from_u32 (as_u32 rt) = rt"
proof (cases rt)
  case (RefType a b c)
  note byte = unat_byte_less [of a] unat_byte_less [of b] unat_byte_less [of c]
  have "unat (of_nat (unat a + 256 * (unat b + 256 * unat c)) :: u32) =
      unat a + 256 * (unat b + 256 * unat c)"
    by (rule unat_of_nat_less) (use byte in simp)
  then have n: "unat (as_u32 rt) = unat a + 256 * (unat b + 256 * unat c)"
    unfolding RefType as_u32.simps nat_from_le_bytes.simps by simp
  have d: "(unat a + 256 * m) div 256 = m" "(unat b + 256 * m) div 256 = m"
    "(unat a + 256 * m) mod 256 = unat a" "(unat b + 256 * m) mod 256 = unat b"
    "unat c mod 256 = unat c" for m
    using byte by simp_all
  show ?thesis
    unfolding from_u32_def Let_def to_le_bytes_4 nth_Cons_0 nth_Cons_Suc One_nat_def numeral_2_eq_2
      n d by (simp only: of_nat_unat_id RefType)
qed

lemma unat_as_u32_less: "unat (as_u32 rt) < 2 ^ 24"
proof (cases rt)
  case (RefType a b c)
  note byte = unat_byte_less [of a] unat_byte_less [of b] unat_byte_less [of c]
  have "unat (of_nat (unat a + 256 * (unat b + 256 * unat c)) :: u32) =
      unat a + 256 * (unat b + 256 * unat c)"
    by (rule unat_of_nat_less) (use byte in simp)
  then show ?thesis using RefType byte by simp
qed

section \<open>Type indices\<close>

lemma take_bit_word_self_iff: "take_bit n (x :: 'a::len word) = x \<longleftrightarrow> unat x < 2 ^ n"
  unfolding word_eq_iff_unsigned [where ?'a = nat] unsigned_take_bit_eq take_bit_nat_eq_self_iff ..

lemma can_represent_index_iff: "can_represent_index i \<longleftrightarrow> unat i < 2 ^ 20"
proof -
  have "can_represent_index i \<longleftrightarrow> take_bit 20 i = i"
    unfolding can_represent_index_def PACKED_INDEX_MASK_def
    by (simp add: take_bit_eq_mask mask_eq_exp_minus_1 del: push_bit_numeral)
  also have "\<dots> \<longleftrightarrow> unat i < 2 ^ 20" by (rule take_bit_word_self_iff)
  finally show ?thesis .
qed

lemma packed_parts:
  assumes "unat i < 2 ^ 20" "k \<in> {0b00, 0b01, 0b10}"
  shows "packed_kind (PackedIndex (push_bit 20 k OR i)) = push_bit 20 k"
    "packed_index_of (PackedIndex (push_bit 20 k OR i)) = i"
proof -
  have i: "take_bit 20 i = i"
    using assms(1) by (simp only: take_bit_word_self_iff)
  then have "\<not> bit i n" if "20 \<le> n" for n
    using that by (metis bit_take_bit_iff not_le)
  then have "(push_bit 20 k OR i) AND push_bit 20 0b11 = push_bit 20 k"
    using assms(2)
    by (intro bit_word_eqI) (auto simp: bit_simps simp del: push_bit_numeral)
  then show "packed_kind (PackedIndex (push_bit 20 k OR i)) = push_bit 20 k"
    by (simp add: packed_kind_def PACKED_KIND_MASK_def del: push_bit_numeral)
  have "take_bit 20 (push_bit 20 k OR i) = i"
    using i by (simp add: take_bit_push_bit)
  then show "packed_index_of (PackedIndex (push_bit 20 k OR i)) = i"
    by (simp add: packed_index_of_def PACKED_INDEX_MASK_def take_bit_eq_mask mask_eq_exp_minus_1 del: push_bit_numeral)
qed

lemma kinds_distinct [simp]:
  "MODULE_KIND \<noteq> REC_GROUP_KIND" "MODULE_KIND \<noteq> ID_KIND" "REC_GROUP_KIND \<noteq> ID_KIND"
  "REC_GROUP_KIND \<noteq> MODULE_KIND" "ID_KIND \<noteq> MODULE_KIND" "ID_KIND \<noteq> REC_GROUP_KIND"
  by (simp_all add: packed_masks push_bit_numeral)

fun unpacked_value :: "unpacked_index \<Rightarrow> u32" where
  "unpacked_value (Module i) = i"
| "unpacked_value (RecGroupIndex i) = i"
| "unpacked_value (CoreTypeId i) = i"

lemma pack_None_iff: "pack u = None \<longleftrightarrow> 2 ^ 20 \<le> unat (unpacked_value u)"
  by (cases u) (simp_all add: from_module_index_def from_rec_group_index_def from_id_def
      can_represent_index_iff not_less)

lemma unpack_pack: "pack u = Some p \<Longrightarrow> unpack p = Some u"
proof (cases u)
  case (Module i)
  assume "pack u = Some p"
  with Module packed_parts [of i "0b00"] show ?thesis
    by (auto simp: from_module_index_def can_represent_index_iff unpack_def packed_masks
        simp del: push_bit_numeral split: if_splits)
next
  case (RecGroupIndex i)
  assume "pack u = Some p"
  with RecGroupIndex packed_parts [of i "0b01"] kinds_distinct show ?thesis
    by (auto simp: from_rec_group_index_def can_represent_index_iff unpack_def REC_GROUP_KIND_def
        simp del: push_bit_numeral split: if_splits)
next
  case (CoreTypeId i)
  assume "pack u = Some p"
  with CoreTypeId packed_parts [of i "0b10"] kinds_distinct show ?thesis
    by (auto simp: from_id_def can_represent_index_iff unpack_def ID_KIND_def
        simp del: push_bit_numeral split: if_splits)
qed

text \<open>A packed index is well-formed when it is the packed form of some index.\<close>

definition packed_ok :: "packed_index \<Rightarrow> bool" where
  "packed_ok p \<longleftrightarrow> (\<exists>u. pack u = Some p)"

lemma packed_ok_unpack: "packed_ok p \<Longrightarrow> \<exists>u. unpack p = Some u \<and> pack u = Some p"
  unfolding packed_ok_def using unpack_pack by blast

lemma packed_ok_less: "packed_ok p \<Longrightarrow> unat (to_u32 p) < 2 ^ 22"
proof -
  have less: "unat (push_bit 20 k OR i) < 2 ^ 22" if "unat i < 2 ^ 20" "k \<in> {0b00, 0b01, 0b10}"
    for i k :: u32
  proof -
    have "take_bit 20 i = i" using that(1) by (simp only: take_bit_word_self_iff)
    then have "\<not> bit i n" if "20 \<le> n" for n
      using that by (metis bit_take_bit_iff not_le)
    then have "take_bit 22 (push_bit 20 k OR i) = push_bit 20 k OR i"
      using that(2)
      by (intro bit_word_eqI) (auto simp: bit_simps simp del: push_bit_numeral)
    then show ?thesis by (simp only: take_bit_word_self_iff)
  qed
  assume "packed_ok p"
  then obtain u where "pack u = Some p" unfolding packed_ok_def by blast
  then show ?thesis
    using less [of "unpacked_value u" "0b00"] less [of "unpacked_value u" "0b01"]
      less [of "unpacked_value u" "0b10"]
    by (cases u) (auto simp: from_module_index_def from_rec_group_index_def from_id_def
      can_represent_index_iff packed_masks split: if_splits)
qed

section \<open>Reference types\<close>

lemma bit_NULLABLE_BIT: "bit NULLABLE_BIT n \<longleftrightarrow> n = 23"
  and bit_CONCRETE_BIT: "bit CONCRETE_BIT n \<longleftrightarrow> n = 22"
  and bit_SHARED_BIT: "bit SHARED_BIT n \<longleftrightarrow> n = 21"
  unfolding NULLABLE_BIT_def CONCRETE_BIT_def SHARED_BIT_def bit_push_bit_iff bit_1_iff by auto

lemma ref_bits_concrete:
  fixes i :: u32 and nullable :: bool
  assumes "unat i < 2 ^ 22"
  defines "x \<equiv> NULLABLE_BIT * of_bool nullable OR CONCRETE_BIT OR i"
  shows "unat x < 2 ^ 24" "x AND CONCRETE_BIT \<noteq> 0" "x AND REF_INDEX_MASK = i"
    "x AND NULLABLE_BIT \<noteq> 0 \<longleftrightarrow> nullable"
proof -
  have i: "take_bit 22 i = i" using assms(1) by (simp only: take_bit_word_self_iff)
  then have hi: "\<not> bit i n" if "22 \<le> n" for n
    using that by (metis bit_take_bit_iff not_le)
  have x: "bit x n \<longleftrightarrow> n = 23 \<and> nullable \<or> n = 22 \<or> bit i n" for n
    unfolding x_def
    by (cases nullable) (auto simp: bit_or_iff bit_NULLABLE_BIT bit_CONCRETE_BIT)
  have "bit i n \<Longrightarrow> n < 24" for n
    using hi [of n] by (cases "22 \<le> n") auto
  then have "take_bit 24 x = x"
    by (intro bit_word_eqI) (auto simp: bit_take_bit_iff x)
  then show "unat x < 2 ^ 24" by (simp only: take_bit_word_self_iff)
  have "bit (x AND CONCRETE_BIT) 22"
    by (simp add: bit_and_iff x bit_CONCRETE_BIT)
  then show "x AND CONCRETE_BIT \<noteq> 0" by (intro notI) simp
  have "bit i n \<Longrightarrow> n < 22" for n
    using hi [of n] by (cases "22 \<le> n") auto
  then have "take_bit 22 x = i"
    by (intro bit_word_eqI) (auto simp: bit_take_bit_iff x)
  then show "x AND REF_INDEX_MASK = i"
    by (simp add: REF_INDEX_MASK_def take_bit_eq_mask mask_eq_exp_minus_1 del: push_bit_numeral)
  have "x AND NULLABLE_BIT = (if nullable then NULLABLE_BIT else 0)"
    using hi [of 23] by (intro bit_word_eqI) (auto simp: bit_and_iff x bit_NULLABLE_BIT)
  moreover have "NULLABLE_BIT \<noteq> 0" by (simp add: NULLABLE_BIT_def)
  ultimately show "x AND NULLABLE_BIT \<noteq> 0 \<longleftrightarrow> nullable" by simp
qed

lemma ref_concrete_parts:
  assumes "packed_ok p"
  shows "is_concrete_type_ref (ref_concrete nullable p)"
    "type_index (ref_concrete nullable p) = Some p" "is_nullable (ref_concrete nullable p) = nullable"
proof -
  note b = ref_bits_concrete [OF packed_ok_less [OF assms], of nullable]
  have u: "as_u32 (ref_concrete nullable p) =
      NULLABLE_BIT * of_bool nullable OR CONCRETE_BIT OR to_u32 p"
    unfolding ref_concrete_def by (rule as_u32_from_u32 [OF b(1)])
  show c: "is_concrete_type_ref (ref_concrete nullable p)"
    unfolding is_concrete_type_ref_def u by (rule b(2))
  show "type_index (ref_concrete nullable p) = Some p"
    unfolding type_index_def u using c b(3) by (cases p) (simp add: unchecked_from_u32_def)
  show "is_nullable (ref_concrete nullable p) = nullable"
    unfolding is_nullable_def u by (rule b(4))
qed

definition ref_abstract :: "bool \<Rightarrow> bool \<Rightarrow> abstract_heap_type \<Rightarrow> u32" where
  "ref_abstract nullable shared ty =
     NULLABLE_BIT * of_bool nullable OR (SHARED_BIT * of_bool shared) OR abstype_code ty"

lemma ref_new_abstract: "ref_new nullable (Abstract shared ty) = Some (from_u32 (ref_abstract nullable shared ty))"
  by (simp add: ref_abstract_def Let_def or.assoc)

lemma ref_bits_abstract:
  "unat (ref_abstract nullable shared ty) < 2 ^ 24"
  "ref_abstract nullable shared ty AND CONCRETE_BIT = 0"
  "ref_abstract nullable shared ty AND ABSTYPE_MASK = abstype_code ty"
  "ref_abstract nullable shared ty AND SHARED_BIT \<noteq> 0 \<longleftrightarrow> shared"
  "ref_abstract nullable shared ty AND NULLABLE_BIT \<noteq> 0 \<longleftrightarrow> nullable"
  unfolding ref_abstract_def NULLABLE_BIT_def SHARED_BIT_def CONCRETE_BIT_def ABSTYPE_MASK_def
  by (cases nullable; cases shared; cases ty; simp add: push_bit_numeral)+

lemma abstype_code_inj: "abstype_code a = abstype_code b \<longleftrightarrow> a = b"
  by (cases a; cases b; simp add: push_bit_numeral)

lemma find_abstype: "find (\<lambda>t. abstype_code ty = abstype_code t) abstract_heap_types = Some ty"
  unfolding abstype_code_inj by (cases ty) (simp_all add: abstract_heap_types_def)

lemma ref_abstract_parts:
  defines "rt \<equiv> \<lambda>nullable shared ty. from_u32 (ref_abstract nullable shared ty)"
  shows "\<not> is_concrete_type_ref (rt nullable shared ty)" "abstype (rt nullable shared ty) = abstype_code ty"
    "is_nullable (rt nullable shared ty) = nullable"
    "ref_heap_type (rt nullable shared ty) = Some (Abstract shared ty)"
proof -
  have u: "as_u32 (rt nullable shared ty) = ref_abstract nullable shared ty"
    unfolding rt_def by (rule as_u32_from_u32 [OF ref_bits_abstract(1)])
  show c: "\<not> is_concrete_type_ref (rt nullable shared ty)"
    unfolding is_concrete_type_ref_def u by (simp add: ref_bits_abstract(2))
  show "abstype (rt nullable shared ty) = abstype_code ty"
    unfolding abstype_def u by (rule ref_bits_abstract(3))
  show "is_nullable (rt nullable shared ty) = nullable"
    unfolding is_nullable_def u by (rule ref_bits_abstract(5))
  show "ref_heap_type (rt nullable shared ty) = Some (Abstract shared ty)"
    unfolding ref_heap_type_def using c
    by (simp only: u ref_bits_abstract(3,4) find_abstype if_False option.map not_False_eq_True)
qed

lemma ref_new_correct:
  assumes "ref_new nullable hty = Some rt"
  shows "is_nullable rt = nullable" "ref_heap_type rt = Some hty"
proof -
  have "is_nullable rt = nullable \<and> ref_heap_type rt = Some hty"
  proof (cases hty)
    case (Abstract shared ty)
    then have "rt = from_u32 (ref_abstract nullable shared ty)"
      using assms ref_new_abstract by simp
    then show ?thesis using ref_abstract_parts Abstract by simp
  next
    case (Concrete u)
    then obtain p where p: "pack u = Some p" "rt = ref_concrete nullable p"
      using assms by auto
    then have "packed_ok p" unfolding packed_ok_def by blast
    from ref_concrete_parts [OF this] p show ?thesis
      using Concrete unpack_pack by (simp add: ref_heap_type_def)
  qed
  then show "is_nullable rt = nullable" "ref_heap_type rt = Some hty" by simp_all
qed

lemma ref_new_None_iff:
  "ref_new nullable hty = None \<longleftrightarrow> (\<exists>u. hty = Concrete u \<and> 2 ^ 20 \<le> unat (unpacked_value u))"
  using pack_None_iff by (cases hty) (auto simp: Let_def simp del: of_bool_eq)

text \<open>The reference types that \<open>RefType::new\<close> builds.\<close>

definition ref_ok :: "ref_type \<Rightarrow> bool" where
  "ref_ok rt \<longleftrightarrow> (\<exists>nullable hty. ref_new nullable hty = Some rt)"

lemma ref_ok_new: "ref_new nullable hty = Some rt \<Longrightarrow> ref_ok rt"
  unfolding ref_ok_def by blast

lemma ref_okE:
  assumes "ref_ok rt"
  obtains hty where "ref_heap_type rt = Some hty" "ref_new (is_nullable rt) hty = Some rt"
proof -
  obtain nullable hty where new: "ref_new nullable hty = Some rt"
    using assms unfolding ref_ok_def by blast
  note ref_new_correct [OF this]
  with new show thesis using that by simp
qed

lemma ref_new_other_nullability: "ref_new n hty = Some rt \<Longrightarrow> \<exists>rt'. ref_new n' hty = Some rt'"
  using ref_new_None_iff [of n hty] ref_new_None_iff [of n' hty] by (cases "ref_new n' hty") auto

lemma ref_difference_correct:
  assumes "ref_ok a"
  shows "\<exists>rt. ref_difference a b = Some rt \<and> ref_ok rt \<and> ref_heap_type rt = ref_heap_type a
    \<and> is_nullable rt = (is_nullable a \<and> \<not> is_nullable b)"
proof -
  obtain hty where hty: "ref_heap_type a = Some hty" "ref_new (is_nullable a) hty = Some a"
    using assms by (rule ref_okE)
  obtain rt where rt: "ref_new (if is_nullable b then False else is_nullable a) hty = Some rt"
    using ref_new_other_nullability [OF hty(2)] by blast
  then show ?thesis
    using ref_new_correct [OF rt] ref_ok_new [OF rt] hty(1) by (auto simp: ref_difference_def)
qed

lemma nullable_bits:
  shows "(x AND NOT NULLABLE_BIT) AND CONCRETE_BIT = x AND CONCRETE_BIT"
    "(x AND NOT NULLABLE_BIT) AND REF_INDEX_MASK = x AND REF_INDEX_MASK"
    "(x AND NOT NULLABLE_BIT) AND ABSTYPE_MASK = x AND ABSTYPE_MASK"
    "(x AND NOT NULLABLE_BIT) AND SHARED_BIT = x AND SHARED_BIT"
    "(x AND NOT NULLABLE_BIT) AND NULLABLE_BIT = 0"
proof -
  have "NOT NULLABLE_BIT AND CONCRETE_BIT = CONCRETE_BIT" "NOT NULLABLE_BIT AND SHARED_BIT = SHARED_BIT"
    "NOT NULLABLE_BIT AND ABSTYPE_MASK = ABSTYPE_MASK" "NOT NULLABLE_BIT AND NULLABLE_BIT = 0"
    "NOT NULLABLE_BIT AND REF_INDEX_MASK = REF_INDEX_MASK"
    by (simp_all add: NULLABLE_BIT_def CONCRETE_BIT_def SHARED_BIT_def ABSTYPE_MASK_def
        REF_INDEX_MASK_def push_bit_numeral)
  then show "(x AND NOT NULLABLE_BIT) AND CONCRETE_BIT = x AND CONCRETE_BIT"
    "(x AND NOT NULLABLE_BIT) AND REF_INDEX_MASK = x AND REF_INDEX_MASK"
    "(x AND NOT NULLABLE_BIT) AND ABSTYPE_MASK = x AND ABSTYPE_MASK"
    "(x AND NOT NULLABLE_BIT) AND SHARED_BIT = x AND SHARED_BIT"
    "(x AND NOT NULLABLE_BIT) AND NULLABLE_BIT = 0"
    by (simp_all only: and.assoc and_zero_eq)
qed

lemma nullable_or_bits:
  shows "(x OR NULLABLE_BIT) AND CONCRETE_BIT = x AND CONCRETE_BIT"
    "(x OR NULLABLE_BIT) AND REF_INDEX_MASK = x AND REF_INDEX_MASK"
    "(x OR NULLABLE_BIT) AND ABSTYPE_MASK = x AND ABSTYPE_MASK"
    "(x OR NULLABLE_BIT) AND SHARED_BIT = x AND SHARED_BIT"
    "(x OR NULLABLE_BIT) AND NULLABLE_BIT = NULLABLE_BIT"
proof -
  have "NULLABLE_BIT AND CONCRETE_BIT = 0" "NULLABLE_BIT AND SHARED_BIT = 0"
    "NULLABLE_BIT AND ABSTYPE_MASK = 0" "NULLABLE_BIT AND REF_INDEX_MASK = 0"
    by (simp_all add: NULLABLE_BIT_def CONCRETE_BIT_def SHARED_BIT_def ABSTYPE_MASK_def
        REF_INDEX_MASK_def push_bit_numeral)
  then show "(x OR NULLABLE_BIT) AND CONCRETE_BIT = x AND CONCRETE_BIT"
    "(x OR NULLABLE_BIT) AND REF_INDEX_MASK = x AND REF_INDEX_MASK"
    "(x OR NULLABLE_BIT) AND ABSTYPE_MASK = x AND ABSTYPE_MASK"
    "(x OR NULLABLE_BIT) AND SHARED_BIT = x AND SHARED_BIT"
    "(x OR NULLABLE_BIT) AND NULLABLE_BIT = NULLABLE_BIT"
    by (simp_all add: bit.conj_disj_distrib2)
qed

lemma as_u32_nullability:
  "as_u32 (as_non_null rt) = as_u32 rt AND NOT NULLABLE_BIT"
  "as_u32 (ref_nullable rt) = as_u32 rt OR NULLABLE_BIT"
proof -
  have t: "take_bit 24 (as_u32 rt) = as_u32 rt"
    using unat_as_u32_less by (simp only: take_bit_word_self_iff)
  then have b: "bit (as_u32 rt) n \<Longrightarrow> n < 24" for n
    by (metis bit_take_bit_iff)
  have "take_bit 24 (as_u32 rt AND NOT NULLABLE_BIT) = as_u32 rt AND NOT NULLABLE_BIT"
    "take_bit 24 (as_u32 rt OR NULLABLE_BIT) = as_u32 rt OR NULLABLE_BIT"
    using b by (intro bit_word_eqI; auto simp: bit_take_bit_iff bit_and_iff bit_or_iff bit_NULLABLE_BIT)+
  then show "as_u32 (as_non_null rt) = as_u32 rt AND NOT NULLABLE_BIT"
    "as_u32 (ref_nullable rt) = as_u32 rt OR NULLABLE_BIT"
    unfolding as_non_null_def ref_nullable_def
    by (intro as_u32_from_u32; simp only: take_bit_word_self_iff)+
qed

lemma as_non_null_correct:
  "is_nullable (as_non_null rt) = False" "ref_heap_type (as_non_null rt) = ref_heap_type rt"
  unfolding is_nullable_def ref_heap_type_def is_concrete_type_ref_def type_index_def
    as_u32_nullability nullable_bits by simp_all

lemma ref_nullable_correct:
  "is_nullable (ref_nullable rt) = True" "ref_heap_type (ref_nullable rt) = ref_heap_type rt"
proof -
  have "NULLABLE_BIT \<noteq> 0" by (simp add: NULLABLE_BIT_def)
  then show "is_nullable (ref_nullable rt) = True" "ref_heap_type (ref_nullable rt) = ref_heap_type rt"
    unfolding is_nullable_def ref_heap_type_def is_concrete_type_ref_def type_index_def
      as_u32_nullability nullable_or_bits by simp_all
qed

lemma ref_bits_nullability:
  "(NULLABLE_BIT * of_bool n OR y) AND NOT NULLABLE_BIT = NULLABLE_BIT * of_bool False OR y"
  "(NULLABLE_BIT * of_bool n OR y) OR NULLABLE_BIT = NULLABLE_BIT * of_bool True OR y"
  if "\<not> bit y 23" for y :: u32
proof -
  show "(NULLABLE_BIT * of_bool n OR y) AND NOT NULLABLE_BIT = NULLABLE_BIT * of_bool False OR y"
    "(NULLABLE_BIT * of_bool n OR y) OR NULLABLE_BIT = NULLABLE_BIT * of_bool True OR y"
    using that by (cases n; intro bit_word_eqI;
        auto simp: bit_and_iff bit_or_iff bit_not_iff bit_NULLABLE_BIT)+
qed

lemma ref_new_nullability:
  assumes "ref_new n hty = Some rt"
  shows "ref_new False hty = Some (as_non_null rt)" "ref_new True hty = Some (ref_nullable rt)"
proof -
  obtain y where rt: "\<And>m. ref_new m hty = Some (from_u32 (NULLABLE_BIT * of_bool m OR y))"
    and y: "\<not> bit y 23" "unat (NULLABLE_BIT * of_bool n OR y) < 2 ^ 24"
  proof (cases hty)
    case (Abstract shared ty)
    show thesis
    proof (rule that)
      show "ref_new m hty = Some (from_u32 (NULLABLE_BIT * of_bool m OR
          ((SHARED_BIT * of_bool shared) OR abstype_code ty)))" for m
        using Abstract by (simp add: Let_def or.assoc)
      show "\<not> bit ((SHARED_BIT * of_bool shared) OR abstype_code ty) 23"
        by (cases shared; cases ty; simp add: SHARED_BIT_def push_bit_numeral)
      show "unat (NULLABLE_BIT * of_bool n OR ((SHARED_BIT * of_bool shared) OR abstype_code ty)) < 2 ^ 24"
        using ref_bits_abstract(1) by (simp add: ref_abstract_def)
    qed
  next
    case (Concrete u)
    then obtain p where p: "pack u = Some p" using assms by auto
    then have less: "unat (to_u32 p) < 2 ^ 22" by (intro packed_ok_less) (auto simp: packed_ok_def)
    then have "take_bit 22 (to_u32 p) = to_u32 p" by (simp only: take_bit_word_self_iff)
    moreover have "\<not> bit (take_bit 22 (to_u32 p)) 23" by (simp add: bit_take_bit_iff)
    ultimately have "\<not> bit (to_u32 p) 23" by simp
    then show thesis
      using that [of "CONCRETE_BIT OR to_u32 p"] Concrete p ref_bits_concrete(1) [OF less]
      by (simp add: ref_concrete_def bit_or_iff bit_CONCRETE_BIT)
  qed
  from rt [of n] assms have "rt = from_u32 (NULLABLE_BIT * of_bool n OR y)" by simp
  then have "as_u32 rt = NULLABLE_BIT * of_bool n OR y"
    using as_u32_from_u32 [OF y(2)] by simp
  then show "ref_new False hty = Some (as_non_null rt)" "ref_new True hty = Some (ref_nullable rt)"
    unfolding rt as_non_null_def ref_nullable_def by (simp_all only: ref_bits_nullability [OF y(1)])
qed

lemma ref_ok_nullability: "ref_ok rt \<Longrightarrow> ref_ok (as_non_null rt)" "ref_ok rt \<Longrightarrow> ref_ok (ref_nullable rt)"
  using ref_new_nullability unfolding ref_ok_def by blast+

lemma ref_constants:
  "Some ref_FUNC = ref_new False (Abstract False AFunc)" "Some FUNCREF = ref_new True (Abstract False AFunc)"
  "Some ref_EXTERN = ref_new False (Abstract False AExtern)" "Some EXTERNREF = ref_new True (Abstract False AExtern)"
  "Some ref_ANY = ref_new False (Abstract False AAny)" "Some ANYREF = ref_new True (Abstract False AAny)"
  "Some ref_EXN = ref_new False (Abstract False AExn)" "Some EXNREF = ref_new True (Abstract False AExn)"
proof -
  have b: "Some (from_u32 (abstype_code ty)) = ref_new False (Abstract False ty)" for ty by simp
  then show "Some ref_FUNC = ref_new False (Abstract False AFunc)"
    "Some ref_EXTERN = ref_new False (Abstract False AExtern)"
    "Some ref_ANY = ref_new False (Abstract False AAny)"
    "Some ref_EXN = ref_new False (Abstract False AExn)"
    unfolding ref_FUNC_def ref_EXTERN_def ref_ANY_def ref_EXN_def by (simp_all only:)
  from b [symmetric, THEN ref_new_nullability(2)]
  show "Some FUNCREF = ref_new True (Abstract False AFunc)"
    "Some EXTERNREF = ref_new True (Abstract False AExtern)"
    "Some ANYREF = ref_new True (Abstract False AAny)"
    "Some EXNREF = ref_new True (Abstract False AExn)"
    unfolding FUNCREF_def EXTERNREF_def ANYREF_def EXNREF_def ref_FUNC_def ref_EXTERN_def
      ref_ANY_def ref_EXN_def by (simp_all only:)
qed

section \<open>Subtyping of abstract heap types\<close>

lemma is_subtype_of_refl: "is_subtype_of a a"
  by (simp add: is_subtype_of_def)

lemma is_subtype_of_antisym: "is_subtype_of a b \<Longrightarrow> is_subtype_of b a \<Longrightarrow> a = b"
  by (auto simp: is_subtype_of_def)

lemma is_subtype_of_trans: "is_subtype_of a b \<Longrightarrow> is_subtype_of b c \<Longrightarrow> is_subtype_of a c"
  by (auto simp: is_subtype_of_def)

fun heap_top :: "abstract_heap_type \<Rightarrow> abstract_heap_type" where
  "heap_top AFunc = AFunc"
| "heap_top ANoFunc = AFunc"
| "heap_top AExtern = AExtern"
| "heap_top ANoExtern = AExtern"
| "heap_top AExn = AExn"
| "heap_top ANoExn = AExn"
| "heap_top ACont = ACont"
| "heap_top ANoCont = ACont"
| "heap_top _ = AAny"

lemma is_subtype_of_top: "is_subtype_of a (heap_top a)"
  by (cases a) (simp_all add: is_subtype_of_def)

lemma is_subtype_of_same_top: "is_subtype_of a b \<Longrightarrow> heap_top a = heap_top b"
  by (auto simp: is_subtype_of_def)

section \<open>Printing\<close>

lemma wat_abstract_display:
  assumes "ref_heap_type rt = Some (Abstract shared ty)"
  shows "wat rt = ref_display rt"
  unfolding wat_def ref_display_def assms
  by (cases "is_nullable rt"; cases shared; cases ty; simp add: wat_abstract_def)

lemma func_type_new_parts [simp]:
  "func_params (func_type_new ps rs) = ps" "func_results (func_type_new ps rs) = rs"
  by (simp_all add: func_params_def func_results_def func_type_new_def)

section \<open>Properties\<close>

text \<open>
  C19. \<open>RefType::new\<close> fails exactly on the type indices of \<open>2 ^ 20\<close> and more, and the 24 bits it
  builds give back the nullability and the heap type it was given.
\<close>

theorem ref_type_round_trip:
  "(ref_new nullable hty = None \<longleftrightarrow> (\<exists>u. hty = Concrete u \<and> 2 ^ 20 \<le> unat (unpacked_value u)))
   \<and> (case ref_new nullable hty of
        Some rt \<Rightarrow> is_nullable rt = nullable \<and> ref_heap_type rt = Some hty
      | None \<Rightarrow> True)"
  using ref_new_correct [of nullable hty] ref_new_None_iff [of nullable hty]
  by (cases "ref_new nullable hty") simp_all

text \<open>
  C20. \<open>UnpackedIndex::pack\<close> fails exactly on the indices of \<open>2 ^ 20\<close> and more, and
  \<open>PackedIndex::unpack\<close> inverts it without reaching its \<open>unreachable!()\<close> arm.
\<close>

theorem pack_unpack_round_trip:
  "(pack u = None \<longleftrightarrow> 2 ^ 20 \<le> unat (unpacked_value u))
   \<and> (case pack u of
        Some p \<Rightarrow> unpack p = Some u \<and> packed_is_canonical p = Some (unpacked_is_canonical u)
      | None \<Rightarrow> True)"
proof (cases "pack u")
  case None
  then show ?thesis using pack_None_iff [of u] by simp
next
  case (Some p)
  note un = unpack_pack [OF Some]
  then have "packed_is_canonical p = Some (unpacked_is_canonical u)"
    by (cases u) (auto simp: unpack_def packed_is_canonical_def split: if_splits)
  with un Some show ?thesis using pack_None_iff [of u] by simp
qed

text \<open>
  C21. The type difference of a well-formed reference type always exists: it keeps the heap type,
  and it is nullable when the first type is nullable and the second is not.
\<close>

theorem ref_difference_spec:
  assumes "ref_ok a"
  shows "\<exists>rt. ref_difference a b = Some rt \<and> ref_ok rt \<and> ref_heap_type rt = ref_heap_type a
    \<and> is_nullable rt = (is_nullable a \<and> \<not> is_nullable b)"
  using assms by (rule ref_difference_correct)

theorem ref_difference_spec_witness:
  "ref_ok FUNCREF \<and> (\<exists>rt. ref_difference FUNCREF EXTERNREF = Some rt \<and> ref_ok rt
     \<and> ref_heap_type rt = ref_heap_type FUNCREF
     \<and> is_nullable rt = (is_nullable FUNCREF \<and> \<not> is_nullable EXTERNREF))"
proof -
  have "ref_ok FUNCREF" using ref_constants(2) by (intro ref_ok_new) (rule sym)
  then show ?thesis using ref_difference_spec [of FUNCREF EXTERNREF] by simp
qed

text \<open>
  C22. Subtyping of abstract heap types is a partial order with one greatest element in each of
  its five hierarchies, and types of different hierarchies are unrelated.
\<close>

theorem is_subtype_of_order:
  "is_subtype_of a a \<and> (is_subtype_of a b \<and> is_subtype_of b a \<longleftrightarrow> a = b)
   \<and> (is_subtype_of a b \<and> is_subtype_of b c \<longrightarrow> is_subtype_of a c)
   \<and> is_subtype_of a (heap_top a) \<and> (is_subtype_of a b \<longrightarrow> heap_top a = heap_top b)"
  using is_subtype_of_refl [of a] is_subtype_of_antisym [of a b] is_subtype_of_trans [of a b c]
    is_subtype_of_top [of a] is_subtype_of_same_top [of a b] by auto

theorem is_subtype_of_order_witness:
  "is_subtype_of ANone AI31 \<and> is_subtype_of AI31 AEq \<and> is_subtype_of ANone AEq
   \<and> heap_top ANone = heap_top AEq"
proof -
  have "is_subtype_of ANone AI31" "is_subtype_of AI31 AEq" by (simp_all add: is_subtype_of_def)
  then show ?thesis
    using is_subtype_of_order [of ANone AI31 AEq] is_subtype_of_order [of ANone AEq AEq] by blast
qed

text \<open>
  C23. The error messages' spelling of a reference type, \<open>wat\<close>, agrees with its \<open>Display\<close> on every
  abstract type.
\<close>

theorem wat_agrees_with_display:
  assumes "ref_new nullable (Abstract shared ty) = Some rt"
  shows "wat rt = ref_display rt"
  using wat_abstract_display ref_new_correct(2) [OF assms] by blast

theorem wat_agrees_with_display_witness:
  "\<exists>rt. ref_new True (Abstract False AFunc) = Some rt \<and> wat rt = ref_display rt"
proof -
  obtain rt where "ref_new True (Abstract False AFunc) = Some rt" using ref_constants(2) by metis
  then show ?thesis using wat_agrees_with_display by blast
qed

end
