(* ===== verification/Type_Readers.thy ===== *)
theory Type_Readers
  imports Type_Packing
begin

text \<open>
  The implementations of \<open>FromReader\<close> for the core types
  (crates/wasmparser/src/readers/core/types.rs). Each keeps the contract of the trait, and the
  reference types they return are well-formed.
\<close>

unbundle bit_operations_syntax

section \<open>Readers\<close>

text \<open>\<open>Reclassify\<close>: an error of kind \<open>Invalid\<close> gets the message of what was being parsed.\<close>

definition reclassify :: "string \<Rightarrow> binary_reader_error \<Rightarrow> binary_reader_error" where
  "reclassify msg e = (if err_kind e = Invalid then set_message msg e else e)"

definition abstract_heap_type_byte :: "u8 \<Rightarrow> abstract_heap_type option" where
  "abstract_heap_type_byte b =
     (if b = 0x70 then Some AFunc else if b = 0x6F then Some AExtern
      else if b = 0x6E then Some AAny else if b = 0x71 then Some ANone
      else if b = 0x72 then Some ANoExtern else if b = 0x73 then Some ANoFunc
      else if b = 0x6D then Some AEq else if b = 0x6B then Some AStruct
      else if b = 0x6A then Some AArray else if b = 0x6C then Some AI31
      else if b = 0x69 then Some AExn else if b = 0x74 then Some ANoExn
      else if b = 0x68 then Some ACont else if b = 0x75 then Some ANoCont else None)"

definition read_abstract_heap_type :: "abstract_heap_type rd" where
  "read_abstract_heap_type = bind_rd read_u8 (\<lambda>b.
     case abstract_heap_type_byte b of
       Some ty \<Rightarrow> return_rd ty
     | None \<Rightarrow> fail_rd (\<lambda>r. error_invalid ''invalid abstract heap type'' (original_position r - 1)))"

definition read_heap_type :: "heap_type rd" where
  "read_heap_type r =
     (case read_var_s33 r of
        Inl e \<Rightarrow> Inl e
      | Inr (s33, clone) \<Rightarrow>
          (case u32_try_from_i64 s33 of
             Some idx \<Rightarrow>
               (case from_module_index idx of
                  None \<Rightarrow> Inl (error_new ''type index greater than implementation limits''
                            (original_position clone))
                | Some p \<Rightarrow> Inr (Concrete (the (unpack p)), clone))
           | None \<Rightarrow>
               bind_rd peek (\<lambda>b.
                 if b = 0x65
                 then bind_rd read_u8 (\<lambda>_. bind_rd read_abstract_heap_type (\<lambda>ty.
                        return_rd (Abstract True ty)))
                 else bind_rd (map_err_rd (reclassify ''invalid heap type'') read_abstract_heap_type)
                        (\<lambda>ty. return_rd (Abstract False ty))) r))"

definition ok_or_too_large :: "usize \<Rightarrow> ref_type option \<Rightarrow> ref_type rd" where
  "ok_or_too_large pos rt =
     (case rt of
        Some x \<Rightarrow> return_rd x
      | None \<Rightarrow> fail_rd (\<lambda>_. error_new ''type index too large'' pos))"

definition read_ref_type :: "ref_type rd" where
  "read_ref_type = with_pos (\<lambda>pos. bind_rd peek (\<lambda>b.
     if b = 0x63 \<or> b = 0x64
     then bind_rd read_u8 (\<lambda>b. bind_rd read_heap_type (\<lambda>hty. ok_or_too_large pos (ref_new (b = 0x63) hty)))
     else bind_rd (map_err_rd (reclassify ''malformed reference type'') read_heap_type)
            (\<lambda>hty. ok_or_too_large pos (ref_new True hty))))"

definition read_val_type :: "val_type rd" where
  "read_val_type = bind_rd peek (\<lambda>b.
     if b = 0x7F then bind_rd read_u8 (\<lambda>_. return_rd I32)
     else if b = 0x7E then bind_rd read_u8 (\<lambda>_. return_rd I64)
     else if b = 0x7D then bind_rd read_u8 (\<lambda>_. return_rd F32)
     else if b = 0x7C then bind_rd read_u8 (\<lambda>_. return_rd F64)
     else if b = 0x7B then bind_rd read_u8 (\<lambda>_. return_rd V128)
     else bind_rd (map_err_rd (reclassify ''invalid value type'') read_ref_type)
            (\<lambda>refty. return_rd (Ref refty)))"

definition read_storage_type :: "storage_type rd" where
  "read_storage_type = bind_rd peek (\<lambda>b.
     if b = 0x78 then bind_rd read_u8 (\<lambda>_. return_rd StorageI8)
     else if b = 0x77 then bind_rd read_u8 (\<lambda>_. return_rd StorageI16)
     else bind_rd read_val_type (\<lambda>ty. return_rd (Val ty)))"

definition read_field_type :: "field_type rd" where
  "read_field_type = bind_rd read_storage_type (\<lambda>ty. bind_rd read_u8 (\<lambda>m.
     if m = 0 then return_rd \<lparr>element_type = ty, field_mutable = False\<rparr>
     else if m = 1 then return_rd \<lparr>element_type = ty, field_mutable = True\<rparr>
     else fail_rd (\<lambda>r. error_new ''malformed mutability byte for field type'' (original_position r))))"

definition read_array_type :: "array_type rd" where
  "read_array_type = bind_rd read_field_type (\<lambda>ft. return_rd (ArrayType ft))"

definition read_struct_type :: "struct_type rd" where
  "read_struct_type =
     bind_rd (read_iter MAX_WASM_STRUCT_FIELDS ''struct fields'' read_field_type)
       (\<lambda>fields. return_rd (StructType fields))"

definition read_func_type :: "func_type rd" where
  "read_func_type =
     bind_rd (read_iter MAX_WASM_FUNCTION_PARAMS ''function params'' read_val_type) (\<lambda>ps.
     bind_rd (read_iter MAX_WASM_FUNCTION_RETURNS ''function returns'' read_val_type) (\<lambda>rs.
     return_rd (the (from_raw_parts (ps @ rs) (length ps)))))"

definition read_cont_type :: "cont_type rd" where
  "read_cont_type = bind_rd read_var_s33 (\<lambda>s33.
     case u32_try_from_i64 s33 of
       None \<Rightarrow> fail_rd (\<lambda>r. error_new ''invalid continuation type'' (original_position r))
     | Some idx \<Rightarrow>
         (case from_module_index idx of
            None \<Rightarrow> fail_rd (\<lambda>r. error_new ''type index greater than implementation limits''
                      (original_position r))
          | Some p \<Rightarrow> return_rd (ContType p)))"

definition read_composite_inner :: "bool \<Rightarrow> u8 \<Rightarrow> composite_type rd" where
  "read_composite_inner shared opcode =
     (if opcode = 0x60
      then bind_rd read_func_type (\<lambda>t. return_rd \<lparr>comp_inner = CompFunc t, comp_shared = shared\<rparr>)
      else if opcode = 0x5e
      then bind_rd read_array_type (\<lambda>t. return_rd \<lparr>comp_inner = CompArray t, comp_shared = shared\<rparr>)
      else if opcode = 0x5f
      then bind_rd read_struct_type (\<lambda>t. return_rd \<lparr>comp_inner = CompStruct t, comp_shared = shared\<rparr>)
      else if opcode = 0x5d
      then bind_rd read_cont_type (\<lambda>t. return_rd \<lparr>comp_inner = CompCont t, comp_shared = shared\<rparr>)
      else invalid_leading_byte opcode ''type'')"

definition read_composite_type :: "u8 \<Rightarrow> composite_type rd" where
  "read_composite_type opcode =
     (if opcode = 0x65 then bind_rd read_u8 (read_composite_inner True)
      else read_composite_inner False opcode)"

definition composite_type_from_reader :: "composite_type rd" where
  "composite_type_from_reader = bind_rd read_u8 read_composite_type"

definition read_sub_type :: "sub_type rd" where
  "read_sub_type = with_pos (\<lambda>pos. bind_rd read_u8 (\<lambda>opcode.
     if opcode = 0x4f \<or> opcode = 0x50
     then bind_rd (read_iter MAX_WASM_SUPERTYPES ''supertype idxs'' read_var_u32) (\<lambda>idxs.
       if length idxs > 1
       then fail_rd (\<lambda>_. error_new ''multiple supertypes not supported'' pos)
       else bind_rd
         (case idxs of
            [] \<Rightarrow> return_rd None
          | idx # _ \<Rightarrow>
              (case from_module_index idx of
                 None \<Rightarrow> fail_rd (\<lambda>r. error_new ''type index greater than implementation limits''
                           (original_position r))
               | Some p \<Rightarrow> return_rd (Some p)))
         (\<lambda>super. bind_rd read_u8 (\<lambda>op2. bind_rd (read_composite_type op2) (\<lambda>ct.
            return_rd \<lparr>is_final = (opcode = 0x4f), supertype_idx = super, composite_type = ct\<rparr>))))
     else bind_rd (read_composite_type opcode) (\<lambda>ct.
       return_rd \<lparr>is_final = True, supertype_idx = None, composite_type = ct\<rparr>)))"

definition read_rec_group :: "rec_group rd" where
  "read_rec_group = bind_rd peek (\<lambda>b.
     if b = 0x4e
     then bind_rd read_u8 (\<lambda>_.
       bind_rd (read_iter MAX_WASM_TYPES ''rec group types''
         (with_pos (\<lambda>offset. bind_rd read_sub_type (\<lambda>ty. return_rd (offset, ty)))))
       (\<lambda>types. return_rd (Explicit types)))
     else with_pos (\<lambda>offset. bind_rd read_sub_type (\<lambda>ty. return_rd (Implicit (offset, ty)))))"

section \<open>The contract\<close>

lemma reclassify_offset [simp]: "err_offset (reclassify msg e) = err_offset e"
  by (simp add: reclassify_def set_message_def)

lemma rd_ok_option [rd_intro]:
  "(v = None \<Longrightarrow> rd_ok k p a) \<Longrightarrow> (\<And>x. v = Some x \<Longrightarrow> rd_ok k p (b x)) \<Longrightarrow>
   rd_ok k p (case v of None \<Rightarrow> a | Some x \<Rightarrow> b x)"
  by (cases v) simp_all

lemma rd_ok_list [rd_intro]:
  "(v = [] \<Longrightarrow> rd_ok k p a) \<Longrightarrow> (\<And>x xs. v = x # xs \<Longrightarrow> rd_ok k p (b x xs)) \<Longrightarrow>
   rd_ok k p (case v of [] \<Rightarrow> a | x # xs \<Rightarrow> b x xs)"
  by (cases v) simp_all

lemma rd_ok_read_abstract_heap_type [rd_intro]: "rd_ok k p read_abstract_heap_type"
  unfolding read_abstract_heap_type_def One_nat_def by (rule rd_intro)+

text \<open>Reading on a clone of the reader: the value without the progress.\<close>

definition lookahead :: "'a rd \<Rightarrow> 'a rd" where
  "lookahead m r = (case m r of Inl e \<Rightarrow> Inl e | Inr (x, _) \<Rightarrow> Inr (x, r))"

lemma rd_ok_lookahead [rd_intro]: "rd_ok k p m \<Longrightarrow> rd_ok k p (lookahead m)"
  unfolding rd_ok_def lookahead_def by (fastforce split: sum.splits)

lemma read_heap_type_alt:
  "read_heap_type = bind_rd (lookahead read_var_s33) (\<lambda>s33.
     case u32_try_from_i64 s33 of
       Some idx \<Rightarrow> bind_rd read_var_s33 (\<lambda>_.
         (case from_module_index idx of
            None \<Rightarrow> fail_rd (\<lambda>r. error_new ''type index greater than implementation limits''
                      (original_position r))
          | Some p \<Rightarrow> return_rd (Concrete (the (unpack p)))))
     | None \<Rightarrow> bind_rd peek (\<lambda>b.
         if b = 0x65
         then bind_rd read_u8 (\<lambda>_. bind_rd read_abstract_heap_type (\<lambda>ty. return_rd (Abstract True ty)))
         else bind_rd (map_err_rd (reclassify ''invalid heap type'') read_abstract_heap_type)
                (\<lambda>ty. return_rd (Abstract False ty))))"
  by (rule ext)
    (simp add: read_heap_type_def bind_rd_def [of "lookahead _"] lookahead_def
      bind_rd_def [of read_var_s33] fail_rd_def return_rd_def split: sum.split option.split)

lemma rd_ok_read_heap_type [rd_intro]: "rd_ok k p read_heap_type"
  unfolding read_heap_type_alt by (rule rd_intro reclassify_offset rd_ok_bind0)+

lemma rd_ok_read_ref_type [rd_intro]: "rd_ok k p read_ref_type"
  unfolding read_ref_type_def ok_or_too_large_def by (rule rd_intro reclassify_offset rd_ok_bind0)+

lemma rd_ok_read_val_type [rd_intro]: "rd_ok k p read_val_type"
  unfolding read_val_type_def by (rule rd_intro reclassify_offset rd_ok_bind0)+

lemma rd_ok_read_storage_type [rd_intro]: "rd_ok k p read_storage_type"
  unfolding read_storage_type_def by (rule rd_intro rd_ok_bind0)+

lemma rd_ok_read_field_type [rd_intro]: "rd_ok k p read_field_type"
  unfolding read_field_type_def by (rule rd_intro rd_ok_bind0)+

lemma rd_ok_read_array_type [rd_intro]: "rd_ok k p read_array_type"
  unfolding read_array_type_def by (rule rd_intro rd_ok_bind0)+

lemma rd_ok_read_struct_type [rd_intro]: "rd_ok k p read_struct_type"
  unfolding read_struct_type_def by (rule rd_intro rd_ok_bind0)+

lemma rd_ok_read_func_type [rd_intro]: "rd_ok k p read_func_type"
  unfolding read_func_type_def by (rule rd_intro rd_ok_bind0)+

lemma rd_ok_read_cont_type [rd_intro]: "rd_ok k p read_cont_type"
  unfolding read_cont_type_def by (rule rd_intro rd_ok_bind0)+

lemma rd_ok_read_composite_type [rd_intro]: "rd_ok (Suc k) p (read_composite_type opcode)"
  unfolding read_composite_type_def read_composite_inner_def by (rule rd_intro rd_ok_bind0)+

lemma rd_ok_composite_type_from_reader [rd_intro]: "rd_ok k p composite_type_from_reader"
  unfolding composite_type_from_reader_def by (rule rd_intro)+

lemma rd_ok_read_sub_type [rd_intro]: "rd_ok k p read_sub_type"
  unfolding read_sub_type_def by (rule rd_intro rd_ok_bind_same)+

lemma rd_ok_read_rec_group [rd_intro]: "rd_ok k p read_rec_group"
  unfolding read_rec_group_def by (rule rd_intro rd_ok_bind0)+

interpretation abstract_heap_type: from_reader read_abstract_heap_type
  by (rule from_readerI) (rule rd_intro)

interpretation heap_type: from_reader read_heap_type
  by (rule from_readerI) (rule rd_intro)

interpretation ref_type: from_reader read_ref_type
  by (rule from_readerI) (rule rd_intro)

interpretation val_type: from_reader read_val_type
  by (rule from_readerI) (rule rd_intro)

interpretation storage_type: from_reader read_storage_type
  by (rule from_readerI) (rule rd_intro)

interpretation field_type: from_reader read_field_type
  by (rule from_readerI) (rule rd_intro)

interpretation array_type: from_reader read_array_type
  by (rule from_readerI) (rule rd_intro)

interpretation struct_type: from_reader read_struct_type
  by (rule from_readerI) (rule rd_intro)

interpretation func_type: from_reader read_func_type
  by (rule from_readerI) (rule rd_intro)

interpretation cont_type: from_reader read_cont_type
  by (rule from_readerI) (rule rd_intro)

interpretation composite_type: from_reader composite_type_from_reader
  by (rule from_readerI) (rule rd_intro)

interpretation sub_type: from_reader read_sub_type
  by (rule from_readerI) (rule rd_intro)

interpretation rec_group: from_reader read_rec_group
  by (rule from_readerI) (rule rd_intro)

section \<open>What the readers return\<close>

lemma read_ref_type_ok:
  assumes "read_ref_type r = Inr (rt, r')"
  shows "ref_ok rt"
proof -
  have ok: "ok_or_too_large pos (ref_new n h) r1 = Inr (rt, r') \<Longrightarrow> ref_ok rt" for pos n h r1
    by (cases "ref_new n h") (auto simp: ok_or_too_large_def return_rd_def fail_rd_def ref_ok_def)
  from assms show ?thesis
    unfolding read_ref_type_def with_pos_def bind_rd_def
    by (auto split: sum.splits if_splits) (erule ok)+
qed

lemma read_val_type_ok:
  assumes "read_val_type r = Inr (Ref rt, r')"
  shows "ref_ok rt"
  using assms read_ref_type_ok
  by (auto simp: read_val_type_def bind_rd_def return_rd_def map_err_rd_def
      split: sum.splits if_splits)

lemma read_heap_type_concreteE:
  assumes "read_heap_type r = Inr (Concrete u, r')"
  obtains v idx p where "read_var_s33 r = Inr (v, r')" "u32_try_from_i64 v = Some idx"
    "from_module_index idx = Some p" "u = the (unpack p)"
proof (cases "read_var_s33 r")
  case (Inr q)
  then obtain v clone where v: "read_var_s33 r = Inr (v, clone)" by (cases q) auto
  show thesis
  proof (cases "u32_try_from_i64 v")
    case None
    then show thesis
      using assms v by (auto simp: read_heap_type_def bind_rd_def return_rd_def split: sum.splits if_splits)
  next
    case (Some idx)
    then show thesis
      using assms v that by (auto simp: read_heap_type_def split: option.splits)
  qed
qed (use assms in \<open>simp add: read_heap_type_def\<close>)

section \<open>Properties\<close>

text \<open>
  C17. Every \<open>FromReader\<close> implementation of types.rs keeps the contract of the trait: it
  changes only the position, moves forward within the buffer, does not depend on the bytes behind
  what it consumed, and reports its errors inside the range it was reading.
\<close>

theorem type_readers_contract:
  "from_reader read_storage_type \<and> from_reader read_val_type \<and> from_reader read_ref_type
   \<and> from_reader read_heap_type \<and> from_reader read_abstract_heap_type
   \<and> from_reader composite_type_from_reader \<and> from_reader read_rec_group \<and> from_reader read_sub_type
   \<and> from_reader read_func_type \<and> from_reader read_field_type \<and> from_reader read_array_type
   \<and> from_reader read_struct_type \<and> from_reader read_cont_type"
  by (intro conjI storage_type.from_reader_axioms val_type.from_reader_axioms ref_type.from_reader_axioms
      heap_type.from_reader_axioms abstract_heap_type.from_reader_axioms
      composite_type.from_reader_axioms rec_group.from_reader_axioms sub_type.from_reader_axioms
      func_type.from_reader_axioms field_type.from_reader_axioms array_type.from_reader_axioms
      struct_type.from_reader_axioms cont_type.from_reader_axioms)

text \<open>
  C18. The missing sign extension of \<open>read_var_s33\<close> does not reach the readers of heap types: a
  negative value never becomes a concrete type, however many bytes encode it.
\<close>

theorem read_heap_type_negative:
  assumes "read_heap_type r = Inr (Concrete u, r')"
  shows "\<exists>bs rest. remaining_buffer r = bs @ rest \<and> leb_bytes bs \<and> r' = advance (length bs) r
    \<and> 0 \<le> sleb_value bs \<and> u = Module (word_of_int (sleb_value bs)) \<and> sleb_value bs < 2 ^ 20"
proof -
  from assms obtain v idx p where v: "read_var_s33 r = Inr (v, r')"
    and idx: "u32_try_from_i64 v = Some idx" and p: "from_module_index idx = Some p"
    and u: "u = the (unpack p)"
    by (rule read_heap_type_concreteE)
  obtain bs rest where bs: "remaining_buffer r = bs @ rest" "leb_bytes bs" "r' = advance (length bs) r"
    and val: "u32_try_from_i64 v = (if 0 \<le> sleb_value bs then Some (word_of_int (sleb_value bs)) else None)"
    and less: "sleb_value bs < 2 ^ 32"
    using v by (rule read_var_s33_u32) blast
  have s: "0 \<le> sleb_value bs" "idx = word_of_int (sleb_value bs)"
    using val idx by (simp_all split: if_splits)
  have "u = Module idx" using u p unpack_pack [of "Module idx" p] by simp
  moreover have "unat idx < 2 ^ 20"
    using p by (simp add: from_module_index_def can_represent_index_iff split: if_splits)
  then have "uint idx < 2 ^ 20" by (simp add: uint_less_numeral_iff)
  then have "sleb_value bs < 2 ^ 20"
    using s less by (simp add: unsigned_of_int take_bit_int_eq_self)
  ultimately show ?thesis using bs s by blast
qed

theorem read_heap_type_negative_witness:
  "\<exists>r u r'. read_heap_type r = Inr (Concrete u, r') \<and>
     (\<exists>bs rest. remaining_buffer r = bs @ rest \<and> leb_bytes bs \<and> r' = advance (length bs) r
      \<and> 0 \<le> sleb_value bs \<and> u = Module (word_of_int (sleb_value bs)) \<and> sleb_value bs < 2 ^ 20)"
  (is "\<exists>r u r'. _ \<and> ?P r u r'")
proof -
  let ?r = "reader_new [5] 0"
  have "read_var_s33 ?r = Inr (5, advance 1 ?r)"
    unfolding read_var_s33_iff
    by (intro exI [of _ "[5]"] exI [of _ "[]"]) (simp add: remaining_buffer_def reader_new_def)
  moreover have "u32_try_from_i64 5 = Some 5" by (simp add: u32_try_from_i64_def)
  moreover have "from_module_index 5 = Some (PackedIndex 5)"
    by (simp add: from_module_index_def can_represent_index_def MODULE_KIND_def PACKED_INDEX_MASK_def)
  ultimately have "read_heap_type ?r = Inr (Concrete (the (unpack (PackedIndex 5))), advance 1 ?r)"
    by (simp add: read_heap_type_def)
  with read_heap_type_negative [OF this] have "read_heap_type ?r =
      Inr (Concrete (the (unpack (PackedIndex 5))), advance 1 ?r) \<and> ?P ?r (the (unpack (PackedIndex 5))) (advance 1 ?r)"
    by (rule conjI [rotated])
  then show ?thesis by (intro exI)
qed

end
