(* ===== verification/Operators.thy ===== *)
theory Operators
  imports Type_Readers
begin

text \<open>
  The instructions. \<open>wasmparser::Operator\<close> is generated by the macro \<open>for_each_operator\<close> of
  crates/wasmparser/src/lib.rs, and \<open>wasm_encoder::Instruction\<close>
  (crates/wasm-encoder/src/core/code.rs) has the same variants with the same fields; the two
  enums differ only in the types of the immediates. Here both are instances of one datatype, with
  a type parameter for each kind of immediate: block types \<open>'b\<close>, value types \<open>'v\<close>, heap types
  \<open>'h\<close>, reference types \<open>'r\<close>, memory immediates \<open>'m\<close> and branch tables \<open>'t\<close>.

  The variants keep their names and are grouped: one enumeration for each prefix of the numeric
  and vector operators, one for each family of operators with the same immediates.
\<close>

section \<open>Immediates\<close>

datatype block_type = BlockEmpty | BlockResult val_type | BlockFuncType u32

record mem_arg =
  ma_align :: u8
  ma_max_align :: u8
  ma_offset :: u64
  ma_memory :: u32

record br_table =
  bt_reader :: binary_reader
  bt_cnt :: u32
  bt_default :: u32

datatype ordering = AcqRel | SeqCst

datatype catch = CatchOne u32 u32 | CatchOneRef u32 u32 | CatchAllTo u32 | CatchAllRef u32

datatype handle = OnLabel u32 u32 | OnSwitch u32

datatype (dead 'b) try_table = MkTryTable 'b "catch list"

section \<open>Numeric operators\<close>

datatype (plugins only: size) i32_op = I32Eqz | I32Eq | I32Ne | I32LtS | I32LtU | I32GtS | I32GtU
  | I32LeS | I32LeU | I32GeS | I32GeU | I32Clz | I32Ctz | I32Popcnt | I32Add | I32Sub | I32Mul
  | I32DivS | I32DivU | I32RemS | I32RemU | I32And | I32Or | I32Xor | I32Shl | I32ShrS | I32ShrU
  | I32Rotl | I32Rotr | I32WrapI64 | I32TruncF32S | I32TruncF32U | I32TruncF64S | I32TruncF64U
  | I32ReinterpretF32 | I32Extend8S | I32Extend16S | I32TruncSatF32S | I32TruncSatF32U
  | I32TruncSatF64S | I32TruncSatF64U

datatype (plugins only: size) i64_op = I64Eqz | I64Eq | I64Ne | I64LtS | I64LtU | I64GtS | I64GtU
  | I64LeS | I64LeU | I64GeS | I64GeU | I64Clz | I64Ctz | I64Popcnt | I64Add | I64Sub | I64Mul
  | I64DivS | I64DivU | I64RemS | I64RemU | I64And | I64Or | I64Xor | I64Shl | I64ShrS | I64ShrU
  | I64Rotl | I64Rotr | I64ExtendI32S | I64ExtendI32U | I64TruncF32S | I64TruncF32U | I64TruncF64S
  | I64TruncF64U | I64ReinterpretF64 | I64Extend8S | I64Extend16S | I64Extend32S | I64TruncSatF32S
  | I64TruncSatF32U | I64TruncSatF64S | I64TruncSatF64U | I64Add128 | I64Sub128 | I64MulWideS
  | I64MulWideU

datatype (plugins only: size) f32_op = F32Eq | F32Ne | F32Lt | F32Gt | F32Le | F32Ge | F32Abs
  | F32Neg | F32Ceil | F32Floor | F32Trunc | F32Nearest | F32Sqrt | F32Add | F32Sub | F32Mul
  | F32Div | F32Min | F32Max | F32Copysign | F32ConvertI32S | F32ConvertI32U | F32ConvertI64S
  | F32ConvertI64U | F32DemoteF64 | F32ReinterpretI32

datatype (plugins only: size) f64_op = F64Eq | F64Ne | F64Lt | F64Gt | F64Le | F64Ge | F64Abs
  | F64Neg | F64Ceil | F64Floor | F64Trunc | F64Nearest | F64Sqrt | F64Add | F64Sub | F64Mul
  | F64Div | F64Min | F64Max | F64Copysign | F64ConvertI32S | F64ConvertI32U | F64ConvertI64S
  | F64ConvertI64U | F64PromoteF32 | F64ReinterpretI64

section \<open>Memory operators\<close>

datatype (plugins only: size) load_op = I32Load | I64Load | F32Load | F64Load | I32Load8S
  | I32Load8U | I32Load16S | I32Load16U | I64Load8S | I64Load8U | I64Load16S | I64Load16U
  | I64Load32S | I64Load32U

datatype (plugins only: size) store_op = I32Store | I64Store | F32Store | F64Store | I32Store8
  | I32Store16 | I64Store8 | I64Store16 | I64Store32

datatype (plugins only: size) atomic_access_op = MemoryAtomicNotify | MemoryAtomicWait32
  | MemoryAtomicWait64 | I32AtomicLoad | I64AtomicLoad | I32AtomicLoad8U | I32AtomicLoad16U
  | I64AtomicLoad8U | I64AtomicLoad16U | I64AtomicLoad32U | I32AtomicStore | I64AtomicStore
  | I32AtomicStore8 | I32AtomicStore16 | I64AtomicStore8 | I64AtomicStore16 | I64AtomicStore32

datatype (plugins only: size) atomic_rmw_op = I32AtomicRmwAdd | I64AtomicRmwAdd
  | I32AtomicRmw8AddU | I32AtomicRmw16AddU | I64AtomicRmw8AddU | I64AtomicRmw16AddU
  | I64AtomicRmw32AddU | I32AtomicRmwSub | I64AtomicRmwSub | I32AtomicRmw8SubU
  | I32AtomicRmw16SubU | I64AtomicRmw8SubU | I64AtomicRmw16SubU | I64AtomicRmw32SubU
  | I32AtomicRmwAnd | I64AtomicRmwAnd | I32AtomicRmw8AndU | I32AtomicRmw16AndU | I64AtomicRmw8AndU
  | I64AtomicRmw16AndU | I64AtomicRmw32AndU | I32AtomicRmwOr | I64AtomicRmwOr | I32AtomicRmw8OrU
  | I32AtomicRmw16OrU | I64AtomicRmw8OrU | I64AtomicRmw16OrU | I64AtomicRmw32OrU | I32AtomicRmwXor
  | I64AtomicRmwXor | I32AtomicRmw8XorU | I32AtomicRmw16XorU | I64AtomicRmw8XorU
  | I64AtomicRmw16XorU | I64AtomicRmw32XorU | I32AtomicRmwXchg | I64AtomicRmwXchg
  | I32AtomicRmw8XchgU | I32AtomicRmw16XchgU | I64AtomicRmw8XchgU | I64AtomicRmw16XchgU
  | I64AtomicRmw32XchgU | I32AtomicRmwCmpxchg | I64AtomicRmwCmpxchg | I32AtomicRmw8CmpxchgU
  | I32AtomicRmw16CmpxchgU | I64AtomicRmw8CmpxchgU | I64AtomicRmw16CmpxchgU
  | I64AtomicRmw32CmpxchgU

datatype (plugins only: size) v128_mem_op = V128Load | V128Load8x8S | V128Load8x8U | V128Load16x4S
  | V128Load16x4U | V128Load32x2S | V128Load32x2U | V128Load8Splat | V128Load16Splat
  | V128Load32Splat | V128Load64Splat | V128Load32Zero | V128Load64Zero | V128Store

datatype (plugins only: size) v128_lane_mem_op = V128Load8Lane | V128Load16Lane | V128Load32Lane
  | V128Load64Lane | V128Store8Lane | V128Store16Lane | V128Store32Lane | V128Store64Lane

section \<open>Vector operators\<close>

datatype (plugins only: size) lane_op = I8x16ExtractLaneS | I8x16ExtractLaneU | I8x16ReplaceLane
  | I16x8ExtractLaneS | I16x8ExtractLaneU | I16x8ReplaceLane | I32x4ExtractLane | I32x4ReplaceLane
  | I64x2ExtractLane | I64x2ReplaceLane | F32x4ExtractLane | F32x4ReplaceLane | F64x2ExtractLane
  | F64x2ReplaceLane

datatype (plugins only: size) i8x16_op = I8x16Swizzle | I8x16Splat | I8x16Eq | I8x16Ne | I8x16LtS
  | I8x16LtU | I8x16GtS | I8x16GtU | I8x16LeS | I8x16LeU | I8x16GeS | I8x16GeU | I8x16Abs
  | I8x16Neg | I8x16Popcnt | I8x16AllTrue | I8x16Bitmask | I8x16NarrowI16x8S | I8x16NarrowI16x8U
  | I8x16Shl | I8x16ShrS | I8x16ShrU | I8x16Add | I8x16AddSatS | I8x16AddSatU | I8x16Sub
  | I8x16SubSatS | I8x16SubSatU | I8x16MinS | I8x16MinU | I8x16MaxS | I8x16MaxU | I8x16AvgrU
  | I8x16RelaxedSwizzle | I8x16RelaxedLaneselect

datatype (plugins only: size) i16x8_op = I16x8Splat | I16x8Eq | I16x8Ne | I16x8LtS | I16x8LtU
  | I16x8GtS | I16x8GtU | I16x8LeS | I16x8LeU | I16x8GeS | I16x8GeU | I16x8ExtAddPairwiseI8x16S
  | I16x8ExtAddPairwiseI8x16U | I16x8Abs | I16x8Neg | I16x8Q15MulrSatS | I16x8AllTrue
  | I16x8Bitmask | I16x8NarrowI32x4S | I16x8NarrowI32x4U | I16x8ExtendLowI8x16S
  | I16x8ExtendHighI8x16S | I16x8ExtendLowI8x16U | I16x8ExtendHighI8x16U | I16x8Shl | I16x8ShrS
  | I16x8ShrU | I16x8Add | I16x8AddSatS | I16x8AddSatU | I16x8Sub | I16x8SubSatS | I16x8SubSatU
  | I16x8Mul | I16x8MinS | I16x8MinU | I16x8MaxS | I16x8MaxU | I16x8AvgrU | I16x8ExtMulLowI8x16S
  | I16x8ExtMulHighI8x16S | I16x8ExtMulLowI8x16U | I16x8ExtMulHighI8x16U | I16x8RelaxedLaneselect
  | I16x8RelaxedQ15mulrS | I16x8RelaxedDotI8x16I7x16S

datatype (plugins only: size) i32x4_op = I32x4Splat | I32x4Eq | I32x4Ne | I32x4LtS | I32x4LtU
  | I32x4GtS | I32x4GtU | I32x4LeS | I32x4LeU | I32x4GeS | I32x4GeU | I32x4ExtAddPairwiseI16x8S
  | I32x4ExtAddPairwiseI16x8U | I32x4Abs | I32x4Neg | I32x4AllTrue | I32x4Bitmask
  | I32x4ExtendLowI16x8S | I32x4ExtendHighI16x8S | I32x4ExtendLowI16x8U | I32x4ExtendHighI16x8U
  | I32x4Shl | I32x4ShrS | I32x4ShrU | I32x4Add | I32x4Sub | I32x4Mul | I32x4MinS | I32x4MinU
  | I32x4MaxS | I32x4MaxU | I32x4DotI16x8S | I32x4ExtMulLowI16x8S | I32x4ExtMulHighI16x8S
  | I32x4ExtMulLowI16x8U | I32x4ExtMulHighI16x8U | I32x4TruncSatF32x4S | I32x4TruncSatF32x4U
  | I32x4TruncSatF64x2SZero | I32x4TruncSatF64x2UZero | I32x4RelaxedTruncF32x4S
  | I32x4RelaxedTruncF32x4U | I32x4RelaxedTruncF64x2SZero | I32x4RelaxedTruncF64x2UZero
  | I32x4RelaxedLaneselect | I32x4RelaxedDotI8x16I7x16AddS

datatype (plugins only: size) i64x2_op = I64x2Splat | I64x2Eq | I64x2Ne | I64x2LtS | I64x2GtS
  | I64x2LeS | I64x2GeS | I64x2Abs | I64x2Neg | I64x2AllTrue | I64x2Bitmask | I64x2ExtendLowI32x4S
  | I64x2ExtendHighI32x4S | I64x2ExtendLowI32x4U | I64x2ExtendHighI32x4U | I64x2Shl | I64x2ShrS
  | I64x2ShrU | I64x2Add | I64x2Sub | I64x2Mul | I64x2ExtMulLowI32x4S | I64x2ExtMulHighI32x4S
  | I64x2ExtMulLowI32x4U | I64x2ExtMulHighI32x4U | I64x2RelaxedLaneselect

datatype (plugins only: size) f32x4_op = F32x4Splat | F32x4Eq | F32x4Ne | F32x4Lt | F32x4Gt
  | F32x4Le | F32x4Ge | F32x4Ceil | F32x4Floor | F32x4Trunc | F32x4Nearest | F32x4Abs | F32x4Neg
  | F32x4Sqrt | F32x4Add | F32x4Sub | F32x4Mul | F32x4Div | F32x4Min | F32x4Max | F32x4PMin
  | F32x4PMax | F32x4ConvertI32x4S | F32x4ConvertI32x4U | F32x4DemoteF64x2Zero | F32x4RelaxedMadd
  | F32x4RelaxedNmadd | F32x4RelaxedMin | F32x4RelaxedMax

datatype (plugins only: size) f64x2_op = F64x2Splat | F64x2Eq | F64x2Ne | F64x2Lt | F64x2Gt
  | F64x2Le | F64x2Ge | F64x2Ceil | F64x2Floor | F64x2Trunc | F64x2Nearest | F64x2Abs | F64x2Neg
  | F64x2Sqrt | F64x2Add | F64x2Sub | F64x2Mul | F64x2Div | F64x2Min | F64x2Max | F64x2PMin
  | F64x2PMax | F64x2ConvertLowI32x4S | F64x2ConvertLowI32x4U | F64x2PromoteLowF32x4
  | F64x2RelaxedMadd | F64x2RelaxedNmadd | F64x2RelaxedMin | F64x2RelaxedMax

datatype (plugins only: size) v128_op = V128Not | V128And | V128AndNot | V128Or | V128Xor
  | V128Bitselect | V128AnyTrue

section \<open>Operators of the shared-everything-threads proposal\<close>

datatype (plugins only: size) global_atomic_op = GlobalAtomicGet | GlobalAtomicSet
  | GlobalAtomicRmwAdd | GlobalAtomicRmwSub | GlobalAtomicRmwAnd | GlobalAtomicRmwOr
  | GlobalAtomicRmwXor | GlobalAtomicRmwXchg | GlobalAtomicRmwCmpxchg

datatype (plugins only: size) table_atomic_op = TableAtomicGet | TableAtomicSet
  | TableAtomicRmwXchg | TableAtomicRmwCmpxchg

datatype (plugins only: size) struct_atomic_op = StructAtomicGet | StructAtomicGetS
  | StructAtomicGetU | StructAtomicSet | StructAtomicRmwAdd | StructAtomicRmwSub
  | StructAtomicRmwAnd | StructAtomicRmwOr | StructAtomicRmwXor | StructAtomicRmwXchg
  | StructAtomicRmwCmpxchg

datatype (plugins only: size) array_atomic_op = ArrayAtomicGet | ArrayAtomicGetS | ArrayAtomicGetU
  | ArrayAtomicSet | ArrayAtomicRmwAdd | ArrayAtomicRmwSub | ArrayAtomicRmwAnd | ArrayAtomicRmwOr
  | ArrayAtomicRmwXor | ArrayAtomicRmwXchg | ArrayAtomicRmwCmpxchg

section \<open>Control, references, exceptions, garbage collection\<close>

datatype (plugins only: size) (dead 'b, dead 't) control_op = Unreachable | Nop | Block 'b
  | Loop 'b | OpIf 'b | Else | End | Br u32 | BrIf u32 | BrTable 't | Return | Call u32
  | CallIndirect u32 u32 | Drop | Select | LocalGet u32 | LocalSet u32 | LocalTee u32
  | GlobalGet u32 | GlobalSet u32 | MemorySize u32 | MemoryGrow u32 | I32Const i32 | I64Const i64
  | F32Const ieee32 | F64Const ieee64

datatype (plugins only: size) (dead 'v, dead 'h) ref_op = MemoryInit u32 u32 | DataDrop u32
  | MemoryCopy u32 u32 | MemoryFill u32 | TableInit u32 u32 | ElemDrop u32 | TableCopy u32 u32
  | TypedSelect 'v | RefNull 'h | RefIsNull | RefFunc u32 | TableFill u32 | TableGet u32
  | TableSet u32 | TableGrow u32 | TableSize u32 | ReturnCall u32 | ReturnCallIndirect u32 u32
  | MemoryDiscard u32 | CallRef u32 | ReturnCallRef u32 | RefAsNonNull | BrOnNull u32
  | BrOnNonNull u32

datatype (plugins only: size) (dead 'b) exn_op = TryTable "'b try_table" | Throw u32 | ThrowRef
  | Try 'b | Catch u32 | Rethrow u32 | Delegate u32 | CatchAll | ContNew u32 | ContBind u32 u32
  | Suspend u32 | Resume u32 "handle list" | ResumeThrow u32 u32 "handle list" | Switch u32 u32

datatype (plugins only: size) (dead 'h, dead 'r) gc_op = RefEq | StructNew u32
  | StructNewDefault u32 | StructGet u32 u32 | StructGetS u32 u32 | StructGetU u32 u32
  | StructSet u32 u32 | ArrayNew u32 | ArrayNewDefault u32 | ArrayNewFixed u32 u32
  | ArrayNewData u32 u32 | ArrayNewElem u32 u32 | ArrayGet u32 | ArrayGetS u32 | ArrayGetU u32
  | ArraySet u32 | ArrayLen | ArrayFill u32 | ArrayCopy u32 u32 | ArrayInitData u32 u32
  | ArrayInitElem u32 u32 | RefTestNonNull 'h | RefTestNullable 'h | RefCastNonNull 'h
  | RefCastNullable 'h | BrOnCast u32 'r 'r | BrOnCastFail u32 'r 'r | AnyConvertExtern
  | ExternConvertAny | RefI31 | I31GetS | I31GetU

section \<open>All operators\<close>

datatype (plugins only: size) (dead 'b, dead 'v, dead 'h, dead 'r, dead 'm, dead 't) op =
    Control "('b, 't) control_op"
  | Reference "('v, 'h) ref_op"
  | Exception "'b exn_op"
  | Gc "('h, 'r) gc_op"
  | NumI32 i32_op
  | NumI64 i64_op
  | NumF32 f32_op
  | NumF64 f64_op
  | Load load_op 'm
  | Store store_op 'm
  | AtomicAccess atomic_access_op 'm
  | AtomicRmw atomic_rmw_op 'm
  | AtomicFence
  | GlobalAtomic global_atomic_op ordering u32
  | TableAtomic table_atomic_op ordering u32
  | StructAtomic struct_atomic_op ordering u32 u32
  | ArrayAtomic array_atomic_op ordering u32
  | RefI31Shared
  | V128Mem v128_mem_op 'm
  | V128LaneMem v128_lane_mem_op 'm u8
  | V128Const "u8 list"
  | I8x16Shuffle "u8 list"
  | Lane lane_op u8
  | SimdI8x16 i8x16_op
  | SimdI16x8 i16x8_op
  | SimdI32x4 i32x4_op
  | SimdI64x2 i64x2_op
  | SimdF32x4 f32x4_op
  | SimdF64x2 f64x2_op
  | SimdV128 v128_op

type_synonym operator =
  "(block_type, val_type, heap_type, ref_type, mem_arg, br_table) op"

end
