(* ===== verification/Op_Reader.thy ===== *)
theory Op_Reader
  imports Operators
begin

text \<open>
  The decoder of instructions: \<open>visit_operator\<close> and its four prefixed families, of
  crates/wasmparser/src/binary_reader.rs and binary_reader/simd.rs, with the readers of the
  immediates (binary_reader.rs and readers/core/operators.rs).

  The source calls the visitor's method for each opcode; \<open>read_operator\<close> uses the visitor
  \<open>OperatorFactory\<close>, whose methods return the operator, and so do the definitions here. The arms
  of one shape are tables, from the opcode to the operator and to the constants that the arm
  passes to the readers of the immediates; the others are the arms of a conditional.
\<close>

unbundle bit_operations_syntax

section \<open>Immediates\<close>

definition if_feature :: "wasm_feature \<Rightarrow> 'a rd \<Rightarrow> 'a rd \<Rightarrow> 'a rd" where
  "if_feature f m m' r = (if f \<in> features r then m r else m' r)"

definition read_memarg :: "u8 \<Rightarrow> mem_arg rd" where
  "read_memarg max_align = with_pos (\<lambda>flags_pos. bind_rd read_var_u32 (\<lambda>flags.
     bind_rd
       (if_feature MULTI_MEMORY
         (if flags AND push_bit 6 1 \<noteq> 0
          then bind_rd read_var_u32 (\<lambda>memory. return_rd (flags XOR push_bit 6 1, memory))
          else return_rd (flags, 0))
         (return_rd (flags, 0)))
       (\<lambda>(flags, memory).
          if flags \<ge> push_bit 6 1
          then fail_rd (\<lambda>_. error_new ''malformed memop alignment: alignment too large'' flags_pos)
          else bind_rd
            (if_feature MEMORY64 read_var_u64
              (bind_rd read_var_u32 (\<lambda>offset. return_rd (ucast offset))))
            (\<lambda>offset. return_rd \<lparr>ma_align = ucast flags, ma_max_align = max_align,
               ma_offset = offset, ma_memory = memory\<rparr>))))"

definition read_ordering :: "ordering rd" where
  "read_ordering = bind_rd read_var_u32 (\<lambda>byte.
     if byte = 0 then return_rd SeqCst
     else if byte = 1 then return_rd AcqRel
     else fail_rd (\<lambda>r. error_new
       (''invalid atomic consistency ordering '' @ fmt_dec (unat byte)) (original_position r - 1)))"

definition read_br_table :: "br_table rd" where
  "read_br_table = bind_rd (read_size MAX_WASM_BR_TABLE_SIZE ''br_table'') (\<lambda>cnt.
     bind_rd (skip (bind_rd (read_items read_var_u32 cnt) (\<lambda>_. return_rd ()))) (\<lambda>reader.
     bind_rd read_var_u32 (\<lambda>default.
       return_rd \<lparr>bt_reader = reader, bt_cnt = of_nat cnt, bt_default = default\<rparr>)))"

text \<open>\<open>BrTableTargets\<close>, collected.\<close>

definition br_table_targets :: "br_table \<Rightarrow> u32 list result" where
  "br_table_targets t =
     (case read_items read_var_u32 (unat (bt_cnt t)) (bt_reader t) of
        Inl e \<Rightarrow> Inl e
      | Inr (xs, r) \<Rightarrow>
          (if \<not> eof r then Inl (error_new ''trailing data in br_table'' (original_position r))
           else Inr xs))"

definition read_block_type :: "block_type rd" where
  "read_block_type = bind_rd peek (\<lambda>b.
     if b AND 0x80 = 0 \<and> b AND 0x40 \<noteq> 0
     then (if b = 0x40 then (\<lambda>r. Inr (BlockEmpty, r\<lparr>position := position r + 1\<rparr>))
           else bind_rd read_val_type (\<lambda>ty. return_rd (BlockResult ty)))
     else bind_rd read_var_s33 (\<lambda>idx.
       case u32_try_from_i64 idx of
         Some idx \<Rightarrow> return_rd (BlockFuncType idx)
       | None \<Rightarrow> fail_rd (\<lambda>r. error_new ''invalid function type'' (original_position r))))"

definition read_catch :: "catch rd" where
  "read_catch = bind_rd read_u8 (\<lambda>b.
     if b = 0x00
     then bind_rd read_var_u32 (\<lambda>tag. bind_rd read_var_u32 (\<lambda>label. return_rd (CatchOne tag label)))
     else if b = 0x01
     then bind_rd read_var_u32 (\<lambda>tag. bind_rd read_var_u32 (\<lambda>label. return_rd (CatchOneRef tag label)))
     else if b = 0x02 then bind_rd read_var_u32 (\<lambda>label. return_rd (CatchAllTo label))
     else if b = 0x03 then bind_rd read_var_u32 (\<lambda>label. return_rd (CatchAllRef label))
     else invalid_leading_byte b ''catch'')"

definition read_try_table :: "block_type try_table rd" where
  "read_try_table = bind_rd read_block_type (\<lambda>ty.
     bind_rd (read_iter MAX_WASM_CATCHES ''catches'' read_catch) (\<lambda>catches.
       return_rd (MkTryTable ty catches)))"

definition read_handle :: "handle rd" where
  "read_handle = bind_rd read_u8 (\<lambda>b.
     if b = 0x00
     then bind_rd read_var_u32 (\<lambda>tag. bind_rd read_var_u32 (\<lambda>label. return_rd (OnLabel tag label)))
     else if b = 0x01 then bind_rd read_var_u32 (\<lambda>tag. return_rd (OnSwitch tag))
     else invalid_leading_byte b ''on clause'')"

definition read_resume_table :: "handle list rd" where
  "read_resume_table = read_iter MAX_WASM_HANDLERS ''resume table'' read_handle"

definition read_lane_index :: "u8 \<Rightarrow> u8 rd" where
  "read_lane_index max' = bind_rd read_u8 (\<lambda>index.
     if index \<ge> max'
     then fail_rd (\<lambda>r. error_new ''invalid lane index'' (original_position r - 1))
     else return_rd index)"

definition read_memory_index_or_zero_if_not_multi_memory :: "u32 rd" where
  "read_memory_index_or_zero_if_not_multi_memory =
     if_feature MULTI_MEMORY read_var_u32 (bind_rd read_u8 (\<lambda>b.
       if b = 0 then return_rd 0
       else fail_rd (\<lambda>r. error_new ''zero byte expected'' (original_position r - 1))))"

definition read_table_index_or_zero_if_not_reference_types :: "u32 rd" where
  "read_table_index_or_zero_if_not_reference_types =
     if_feature REFERENCE_TYPES read_var_u32 (bind_rd read_u8 (\<lambda>b.
       if b = 0 then return_rd 0
       else fail_rd (\<lambda>r. error_new ''zero byte expected'' (original_position r - 1))))"

text \<open>The format \<open>{:08b}\<close>.\<close>

definition fmt_bin8 :: "u8 \<Rightarrow> string" where
  "fmt_bin8 b = (let s = fmt_radix 2 (unat b) in replicate (8 - length s) (CHR ''0'') @ s)"

definition ok_or_implementation_error :: "usize \<Rightarrow> ref_type option \<Rightarrow> ref_type rd" where
  "ok_or_implementation_error pos rt =
     (case rt of
        Some x \<Rightarrow> return_rd x
      | None \<Rightarrow> fail_rd (\<lambda>_. error_new ''implementation error: type index too large'' pos))"

text \<open>The arms \<open>br_on_cast\<close> and \<open>br_on_cast_fail\<close>.\<close>

definition read_br_on_cast :: "(u32 \<Rightarrow> ref_type \<Rightarrow> ref_type \<Rightarrow> 'a) \<Rightarrow> 'a rd" where
  "read_br_on_cast visit = with_pos (\<lambda>pos.
     bind_rd read_u8 (\<lambda>cast_flags.
     bind_rd read_var_u32 (\<lambda>relative_depth.
     if cast_flags \<notin> {0b00, 0b01, 0b10, 0b11}
     then fail_rd (\<lambda>_. error_new (''invalid cast flags: '' @ fmt_bin8 cast_flags) pos)
     else
       (let from_type_nullable = (cast_flags = 0b01 \<or> cast_flags = 0b11);
            to_type_nullable = (cast_flags = 0b10 \<or> cast_flags = 0b11) in
        bind_rd read_heap_type (\<lambda>from_heap_type.
        bind_rd (ok_or_implementation_error pos (ref_new from_type_nullable from_heap_type))
          (\<lambda>from_ref_type.
        bind_rd read_heap_type (\<lambda>to_heap_type.
        bind_rd (ok_or_implementation_error pos (ref_new to_type_nullable to_heap_type))
          (\<lambda>to_ref_type. return_rd (visit relative_depth from_ref_type to_ref_type)))))))))"

section \<open>Opcodes\<close>

definition numeric_opcodes :: "(nat \<times> operator) list" where
  "numeric_opcodes = [
     (0x45, NumI32 I32Eqz), (0x46, NumI32 I32Eq), (0x47, NumI32 I32Ne), (0x48, NumI32 I32LtS),
     (0x49, NumI32 I32LtU), (0x4a, NumI32 I32GtS), (0x4b, NumI32 I32GtU), (0x4c, NumI32 I32LeS),
     (0x4d, NumI32 I32LeU), (0x4e, NumI32 I32GeS), (0x4f, NumI32 I32GeU), (0x50, NumI64 I64Eqz),
     (0x51, NumI64 I64Eq), (0x52, NumI64 I64Ne), (0x53, NumI64 I64LtS), (0x54, NumI64 I64LtU),
     (0x55, NumI64 I64GtS), (0x56, NumI64 I64GtU), (0x57, NumI64 I64LeS), (0x58, NumI64 I64LeU),
     (0x59, NumI64 I64GeS), (0x5a, NumI64 I64GeU), (0x5b, NumF32 F32Eq), (0x5c, NumF32 F32Ne),
     (0x5d, NumF32 F32Lt), (0x5e, NumF32 F32Gt), (0x5f, NumF32 F32Le), (0x60, NumF32 F32Ge),
     (0x61, NumF64 F64Eq), (0x62, NumF64 F64Ne), (0x63, NumF64 F64Lt), (0x64, NumF64 F64Gt),
     (0x65, NumF64 F64Le), (0x66, NumF64 F64Ge), (0x67, NumI32 I32Clz), (0x68, NumI32 I32Ctz),
     (0x69, NumI32 I32Popcnt), (0x6a, NumI32 I32Add), (0x6b, NumI32 I32Sub),
     (0x6c, NumI32 I32Mul), (0x6d, NumI32 I32DivS), (0x6e, NumI32 I32DivU),
     (0x6f, NumI32 I32RemS), (0x70, NumI32 I32RemU), (0x71, NumI32 I32And), (0x72, NumI32 I32Or),
     (0x73, NumI32 I32Xor), (0x74, NumI32 I32Shl), (0x75, NumI32 I32ShrS),
     (0x76, NumI32 I32ShrU), (0x77, NumI32 I32Rotl), (0x78, NumI32 I32Rotr),
     (0x79, NumI64 I64Clz), (0x7a, NumI64 I64Ctz), (0x7b, NumI64 I64Popcnt),
     (0x7c, NumI64 I64Add), (0x7d, NumI64 I64Sub), (0x7e, NumI64 I64Mul), (0x7f, NumI64 I64DivS),
     (0x80, NumI64 I64DivU), (0x81, NumI64 I64RemS), (0x82, NumI64 I64RemU),
     (0x83, NumI64 I64And), (0x84, NumI64 I64Or), (0x85, NumI64 I64Xor), (0x86, NumI64 I64Shl),
     (0x87, NumI64 I64ShrS), (0x88, NumI64 I64ShrU), (0x89, NumI64 I64Rotl),
     (0x8a, NumI64 I64Rotr), (0x8b, NumF32 F32Abs), (0x8c, NumF32 F32Neg),
     (0x8d, NumF32 F32Ceil), (0x8e, NumF32 F32Floor), (0x8f, NumF32 F32Trunc),
     (0x90, NumF32 F32Nearest), (0x91, NumF32 F32Sqrt), (0x92, NumF32 F32Add),
     (0x93, NumF32 F32Sub), (0x94, NumF32 F32Mul), (0x95, NumF32 F32Div), (0x96, NumF32 F32Min),
     (0x97, NumF32 F32Max), (0x98, NumF32 F32Copysign), (0x99, NumF64 F64Abs),
     (0x9a, NumF64 F64Neg), (0x9b, NumF64 F64Ceil), (0x9c, NumF64 F64Floor),
     (0x9d, NumF64 F64Trunc), (0x9e, NumF64 F64Nearest), (0x9f, NumF64 F64Sqrt),
     (0xa0, NumF64 F64Add), (0xa1, NumF64 F64Sub), (0xa2, NumF64 F64Mul), (0xa3, NumF64 F64Div),
     (0xa4, NumF64 F64Min), (0xa5, NumF64 F64Max), (0xa6, NumF64 F64Copysign),
     (0xa7, NumI32 I32WrapI64), (0xa8, NumI32 I32TruncF32S), (0xa9, NumI32 I32TruncF32U),
     (0xaa, NumI32 I32TruncF64S), (0xab, NumI32 I32TruncF64U), (0xac, NumI64 I64ExtendI32S),
     (0xad, NumI64 I64ExtendI32U), (0xae, NumI64 I64TruncF32S), (0xaf, NumI64 I64TruncF32U),
     (0xb0, NumI64 I64TruncF64S), (0xb1, NumI64 I64TruncF64U), (0xb2, NumF32 F32ConvertI32S),
     (0xb3, NumF32 F32ConvertI32U), (0xb4, NumF32 F32ConvertI64S), (0xb5, NumF32 F32ConvertI64U),
     (0xb6, NumF32 F32DemoteF64), (0xb7, NumF64 F64ConvertI32S), (0xb8, NumF64 F64ConvertI32U),
     (0xb9, NumF64 F64ConvertI64S), (0xba, NumF64 F64ConvertI64U), (0xbb, NumF64 F64PromoteF32),
     (0xbc, NumI32 I32ReinterpretF32), (0xbd, NumI64 I64ReinterpretF64),
     (0xbe, NumF32 F32ReinterpretI32), (0xbf, NumF64 F64ReinterpretI64),
     (0xc0, NumI32 I32Extend8S), (0xc1, NumI32 I32Extend16S), (0xc2, NumI64 I64Extend8S),
     (0xc3, NumI64 I64Extend16S), (0xc4, NumI64 I64Extend32S)]"

definition load_opcodes :: "(nat \<times> load_op \<times> u8) list" where
  "load_opcodes = [
     (0x28, I32Load, 2), (0x29, I64Load, 3), (0x2a, F32Load, 2), (0x2b, F64Load, 3),
     (0x2c, I32Load8S, 0), (0x2d, I32Load8U, 0), (0x2e, I32Load16S, 1), (0x2f, I32Load16U, 1),
     (0x30, I64Load8S, 0), (0x31, I64Load8U, 0), (0x32, I64Load16S, 1), (0x33, I64Load16U, 1),
     (0x34, I64Load32S, 2), (0x35, I64Load32U, 2)]"

definition store_opcodes :: "(nat \<times> store_op \<times> u8) list" where
  "store_opcodes = [
     (0x36, I32Store, 2), (0x37, I64Store, 3), (0x38, F32Store, 2), (0x39, F64Store, 3),
     (0x3a, I32Store8, 0), (0x3b, I32Store16, 1), (0x3c, I64Store8, 0), (0x3d, I64Store16, 1),
     (0x3e, I64Store32, 2)]"

definition fc_numeric_opcodes :: "(nat \<times> operator) list" where
  "fc_numeric_opcodes = [
     (0x00, NumI32 I32TruncSatF32S), (0x01, NumI32 I32TruncSatF32U),
     (0x02, NumI32 I32TruncSatF64S), (0x03, NumI32 I32TruncSatF64U),
     (0x04, NumI64 I64TruncSatF32S), (0x05, NumI64 I64TruncSatF32U),
     (0x06, NumI64 I64TruncSatF64S), (0x07, NumI64 I64TruncSatF64U), (0x13, NumI64 I64Add128),
     (0x14, NumI64 I64Sub128), (0x15, NumI64 I64MulWideS), (0x16, NumI64 I64MulWideU)]"

definition atomic_access_opcodes :: "(nat \<times> atomic_access_op \<times> u8) list" where
  "atomic_access_opcodes = [
     (0x00, MemoryAtomicNotify, 2), (0x01, MemoryAtomicWait32, 2), (0x02, MemoryAtomicWait64, 3),
     (0x10, I32AtomicLoad, 2), (0x11, I64AtomicLoad, 3), (0x12, I32AtomicLoad8U, 0),
     (0x13, I32AtomicLoad16U, 1), (0x14, I64AtomicLoad8U, 0), (0x15, I64AtomicLoad16U, 1),
     (0x16, I64AtomicLoad32U, 2), (0x17, I32AtomicStore, 2), (0x18, I64AtomicStore, 3),
     (0x19, I32AtomicStore8, 0), (0x1a, I32AtomicStore16, 1), (0x1b, I64AtomicStore8, 0),
     (0x1c, I64AtomicStore16, 1), (0x1d, I64AtomicStore32, 2)]"

definition atomic_rmw_opcodes :: "(nat \<times> atomic_rmw_op \<times> u8) list" where
  "atomic_rmw_opcodes = [
     (0x1e, I32AtomicRmwAdd, 2), (0x1f, I64AtomicRmwAdd, 3), (0x20, I32AtomicRmw8AddU, 0),
     (0x21, I32AtomicRmw16AddU, 1), (0x22, I64AtomicRmw8AddU, 0), (0x23, I64AtomicRmw16AddU, 1),
     (0x24, I64AtomicRmw32AddU, 2), (0x25, I32AtomicRmwSub, 2), (0x26, I64AtomicRmwSub, 3),
     (0x27, I32AtomicRmw8SubU, 0), (0x28, I32AtomicRmw16SubU, 1), (0x29, I64AtomicRmw8SubU, 0),
     (0x2a, I64AtomicRmw16SubU, 1), (0x2b, I64AtomicRmw32SubU, 2), (0x2c, I32AtomicRmwAnd, 2),
     (0x2d, I64AtomicRmwAnd, 3), (0x2e, I32AtomicRmw8AndU, 0), (0x2f, I32AtomicRmw16AndU, 1),
     (0x30, I64AtomicRmw8AndU, 0), (0x31, I64AtomicRmw16AndU, 1), (0x32, I64AtomicRmw32AndU, 2),
     (0x33, I32AtomicRmwOr, 2), (0x34, I64AtomicRmwOr, 3), (0x35, I32AtomicRmw8OrU, 0),
     (0x36, I32AtomicRmw16OrU, 1), (0x37, I64AtomicRmw8OrU, 0), (0x38, I64AtomicRmw16OrU, 1),
     (0x39, I64AtomicRmw32OrU, 2), (0x3a, I32AtomicRmwXor, 2), (0x3b, I64AtomicRmwXor, 3),
     (0x3c, I32AtomicRmw8XorU, 0), (0x3d, I32AtomicRmw16XorU, 1), (0x3e, I64AtomicRmw8XorU, 0),
     (0x3f, I64AtomicRmw16XorU, 1), (0x40, I64AtomicRmw32XorU, 2), (0x41, I32AtomicRmwXchg, 2),
     (0x42, I64AtomicRmwXchg, 3), (0x43, I32AtomicRmw8XchgU, 0), (0x44, I32AtomicRmw16XchgU, 1),
     (0x45, I64AtomicRmw8XchgU, 0), (0x46, I64AtomicRmw16XchgU, 1),
     (0x47, I64AtomicRmw32XchgU, 2), (0x48, I32AtomicRmwCmpxchg, 2),
     (0x49, I64AtomicRmwCmpxchg, 3), (0x4a, I32AtomicRmw8CmpxchgU, 0),
     (0x4b, I32AtomicRmw16CmpxchgU, 1), (0x4c, I64AtomicRmw8CmpxchgU, 0),
     (0x4d, I64AtomicRmw16CmpxchgU, 1), (0x4e, I64AtomicRmw32CmpxchgU, 2)]"

definition global_atomic_opcodes :: "(nat \<times> global_atomic_op) list" where
  "global_atomic_opcodes = [
     (0x4f, GlobalAtomicGet), (0x50, GlobalAtomicSet), (0x51, GlobalAtomicRmwAdd),
     (0x52, GlobalAtomicRmwSub), (0x53, GlobalAtomicRmwAnd), (0x54, GlobalAtomicRmwOr),
     (0x55, GlobalAtomicRmwXor), (0x56, GlobalAtomicRmwXchg), (0x57, GlobalAtomicRmwCmpxchg)]"

definition table_atomic_opcodes :: "(nat \<times> table_atomic_op) list" where
  "table_atomic_opcodes = [
     (0x58, TableAtomicGet), (0x59, TableAtomicSet), (0x5a, TableAtomicRmwXchg),
     (0x5b, TableAtomicRmwCmpxchg)]"

definition struct_atomic_opcodes :: "(nat \<times> struct_atomic_op) list" where
  "struct_atomic_opcodes = [
     (0x5c, StructAtomicGet), (0x5d, StructAtomicGetS), (0x5e, StructAtomicGetU),
     (0x5f, StructAtomicSet), (0x60, StructAtomicRmwAdd), (0x61, StructAtomicRmwSub),
     (0x62, StructAtomicRmwAnd), (0x63, StructAtomicRmwOr), (0x64, StructAtomicRmwXor),
     (0x65, StructAtomicRmwXchg), (0x66, StructAtomicRmwCmpxchg)]"

definition array_atomic_opcodes :: "(nat \<times> array_atomic_op) list" where
  "array_atomic_opcodes = [
     (0x67, ArrayAtomicGet), (0x68, ArrayAtomicGetS), (0x69, ArrayAtomicGetU),
     (0x6a, ArrayAtomicSet), (0x6b, ArrayAtomicRmwAdd), (0x6c, ArrayAtomicRmwSub),
     (0x6d, ArrayAtomicRmwAnd), (0x6e, ArrayAtomicRmwOr), (0x6f, ArrayAtomicRmwXor),
     (0x70, ArrayAtomicRmwXchg), (0x71, ArrayAtomicRmwCmpxchg)]"

definition v128_mem_opcodes :: "(nat \<times> v128_mem_op \<times> u8) list" where
  "v128_mem_opcodes = [
     (0x00, V128Load, 4), (0x01, V128Load8x8S, 3), (0x02, V128Load8x8U, 3),
     (0x03, V128Load16x4S, 3), (0x04, V128Load16x4U, 3), (0x05, V128Load32x2S, 3),
     (0x06, V128Load32x2U, 3), (0x07, V128Load8Splat, 0), (0x08, V128Load16Splat, 1),
     (0x09, V128Load32Splat, 2), (0x0a, V128Load64Splat, 3), (0x0b, V128Store, 4),
     (0x5c, V128Load32Zero, 2), (0x5d, V128Load64Zero, 3)]"

definition v128_lane_mem_opcodes :: "(nat \<times> v128_lane_mem_op \<times> u8 \<times> u8) list" where
  "v128_lane_mem_opcodes = [
     (0x54, V128Load8Lane, 0, 16), (0x55, V128Load16Lane, 1, 8), (0x56, V128Load32Lane, 2, 4),
     (0x57, V128Load64Lane, 3, 2), (0x58, V128Store8Lane, 0, 16), (0x59, V128Store16Lane, 1, 8),
     (0x5a, V128Store32Lane, 2, 4), (0x5b, V128Store64Lane, 3, 2)]"

definition lane_opcodes :: "(nat \<times> lane_op \<times> u8) list" where
  "lane_opcodes = [
     (0x15, I8x16ExtractLaneS, 16), (0x16, I8x16ExtractLaneU, 16), (0x17, I8x16ReplaceLane, 16),
     (0x18, I16x8ExtractLaneS, 8), (0x19, I16x8ExtractLaneU, 8), (0x1a, I16x8ReplaceLane, 8),
     (0x1b, I32x4ExtractLane, 4), (0x1c, I32x4ReplaceLane, 4), (0x1d, I64x2ExtractLane, 2),
     (0x1e, I64x2ReplaceLane, 2), (0x1f, F32x4ExtractLane, 4), (0x20, F32x4ReplaceLane, 4),
     (0x21, F64x2ExtractLane, 2), (0x22, F64x2ReplaceLane, 2)]"

definition simd_opcodes :: "(nat \<times> operator) list" where
  "simd_opcodes = [
     (0x0e, SimdI8x16 I8x16Swizzle), (0x0f, SimdI8x16 I8x16Splat), (0x10, SimdI16x8 I16x8Splat),
     (0x11, SimdI32x4 I32x4Splat), (0x12, SimdI64x2 I64x2Splat), (0x13, SimdF32x4 F32x4Splat),
     (0x14, SimdF64x2 F64x2Splat), (0x23, SimdI8x16 I8x16Eq), (0x24, SimdI8x16 I8x16Ne),
     (0x25, SimdI8x16 I8x16LtS), (0x26, SimdI8x16 I8x16LtU), (0x27, SimdI8x16 I8x16GtS),
     (0x28, SimdI8x16 I8x16GtU), (0x29, SimdI8x16 I8x16LeS), (0x2a, SimdI8x16 I8x16LeU),
     (0x2b, SimdI8x16 I8x16GeS), (0x2c, SimdI8x16 I8x16GeU), (0x2d, SimdI16x8 I16x8Eq),
     (0x2e, SimdI16x8 I16x8Ne), (0x2f, SimdI16x8 I16x8LtS), (0x30, SimdI16x8 I16x8LtU),
     (0x31, SimdI16x8 I16x8GtS), (0x32, SimdI16x8 I16x8GtU), (0x33, SimdI16x8 I16x8LeS),
     (0x34, SimdI16x8 I16x8LeU), (0x35, SimdI16x8 I16x8GeS), (0x36, SimdI16x8 I16x8GeU),
     (0x37, SimdI32x4 I32x4Eq), (0x38, SimdI32x4 I32x4Ne), (0x39, SimdI32x4 I32x4LtS),
     (0x3a, SimdI32x4 I32x4LtU), (0x3b, SimdI32x4 I32x4GtS), (0x3c, SimdI32x4 I32x4GtU),
     (0x3d, SimdI32x4 I32x4LeS), (0x3e, SimdI32x4 I32x4LeU), (0x3f, SimdI32x4 I32x4GeS),
     (0x40, SimdI32x4 I32x4GeU), (0x41, SimdF32x4 F32x4Eq), (0x42, SimdF32x4 F32x4Ne),
     (0x43, SimdF32x4 F32x4Lt), (0x44, SimdF32x4 F32x4Gt), (0x45, SimdF32x4 F32x4Le),
     (0x46, SimdF32x4 F32x4Ge), (0x47, SimdF64x2 F64x2Eq), (0x48, SimdF64x2 F64x2Ne),
     (0x49, SimdF64x2 F64x2Lt), (0x4a, SimdF64x2 F64x2Gt), (0x4b, SimdF64x2 F64x2Le),
     (0x4c, SimdF64x2 F64x2Ge), (0x4d, SimdV128 V128Not), (0x4e, SimdV128 V128And),
     (0x4f, SimdV128 V128AndNot), (0x50, SimdV128 V128Or), (0x51, SimdV128 V128Xor),
     (0x52, SimdV128 V128Bitselect), (0x53, SimdV128 V128AnyTrue),
     (0x5e, SimdF32x4 F32x4DemoteF64x2Zero), (0x5f, SimdF64x2 F64x2PromoteLowF32x4),
     (0x60, SimdI8x16 I8x16Abs), (0x61, SimdI8x16 I8x16Neg), (0x62, SimdI8x16 I8x16Popcnt),
     (0x63, SimdI8x16 I8x16AllTrue), (0x64, SimdI8x16 I8x16Bitmask),
     (0x65, SimdI8x16 I8x16NarrowI16x8S), (0x66, SimdI8x16 I8x16NarrowI16x8U),
     (0x67, SimdF32x4 F32x4Ceil), (0x68, SimdF32x4 F32x4Floor), (0x69, SimdF32x4 F32x4Trunc),
     (0x6a, SimdF32x4 F32x4Nearest), (0x6b, SimdI8x16 I8x16Shl), (0x6c, SimdI8x16 I8x16ShrS),
     (0x6d, SimdI8x16 I8x16ShrU), (0x6e, SimdI8x16 I8x16Add), (0x6f, SimdI8x16 I8x16AddSatS),
     (0x70, SimdI8x16 I8x16AddSatU), (0x71, SimdI8x16 I8x16Sub), (0x72, SimdI8x16 I8x16SubSatS),
     (0x73, SimdI8x16 I8x16SubSatU), (0x74, SimdF64x2 F64x2Ceil), (0x75, SimdF64x2 F64x2Floor),
     (0x76, SimdI8x16 I8x16MinS), (0x77, SimdI8x16 I8x16MinU), (0x78, SimdI8x16 I8x16MaxS),
     (0x79, SimdI8x16 I8x16MaxU), (0x7a, SimdF64x2 F64x2Trunc), (0x7b, SimdI8x16 I8x16AvgrU),
     (0x7c, SimdI16x8 I16x8ExtAddPairwiseI8x16S), (0x7d, SimdI16x8 I16x8ExtAddPairwiseI8x16U),
     (0x7e, SimdI32x4 I32x4ExtAddPairwiseI16x8S), (0x7f, SimdI32x4 I32x4ExtAddPairwiseI16x8U),
     (0x80, SimdI16x8 I16x8Abs), (0x81, SimdI16x8 I16x8Neg), (0x82, SimdI16x8 I16x8Q15MulrSatS),
     (0x83, SimdI16x8 I16x8AllTrue), (0x84, SimdI16x8 I16x8Bitmask),
     (0x85, SimdI16x8 I16x8NarrowI32x4S), (0x86, SimdI16x8 I16x8NarrowI32x4U),
     (0x87, SimdI16x8 I16x8ExtendLowI8x16S), (0x88, SimdI16x8 I16x8ExtendHighI8x16S),
     (0x89, SimdI16x8 I16x8ExtendLowI8x16U), (0x8a, SimdI16x8 I16x8ExtendHighI8x16U),
     (0x8b, SimdI16x8 I16x8Shl), (0x8c, SimdI16x8 I16x8ShrS), (0x8d, SimdI16x8 I16x8ShrU),
     (0x8e, SimdI16x8 I16x8Add), (0x8f, SimdI16x8 I16x8AddSatS), (0x90, SimdI16x8 I16x8AddSatU),
     (0x91, SimdI16x8 I16x8Sub), (0x92, SimdI16x8 I16x8SubSatS), (0x93, SimdI16x8 I16x8SubSatU),
     (0x94, SimdF64x2 F64x2Nearest), (0x95, SimdI16x8 I16x8Mul), (0x96, SimdI16x8 I16x8MinS),
     (0x97, SimdI16x8 I16x8MinU), (0x98, SimdI16x8 I16x8MaxS), (0x99, SimdI16x8 I16x8MaxU),
     (0x9b, SimdI16x8 I16x8AvgrU), (0x9c, SimdI16x8 I16x8ExtMulLowI8x16S),
     (0x9d, SimdI16x8 I16x8ExtMulHighI8x16S), (0x9e, SimdI16x8 I16x8ExtMulLowI8x16U),
     (0x9f, SimdI16x8 I16x8ExtMulHighI8x16U), (0xa0, SimdI32x4 I32x4Abs),
     (0xa1, SimdI32x4 I32x4Neg), (0xa3, SimdI32x4 I32x4AllTrue), (0xa4, SimdI32x4 I32x4Bitmask),
     (0xa7, SimdI32x4 I32x4ExtendLowI16x8S), (0xa8, SimdI32x4 I32x4ExtendHighI16x8S),
     (0xa9, SimdI32x4 I32x4ExtendLowI16x8U), (0xaa, SimdI32x4 I32x4ExtendHighI16x8U),
     (0xab, SimdI32x4 I32x4Shl), (0xac, SimdI32x4 I32x4ShrS), (0xad, SimdI32x4 I32x4ShrU),
     (0xae, SimdI32x4 I32x4Add), (0xb1, SimdI32x4 I32x4Sub), (0xb5, SimdI32x4 I32x4Mul),
     (0xb6, SimdI32x4 I32x4MinS), (0xb7, SimdI32x4 I32x4MinU), (0xb8, SimdI32x4 I32x4MaxS),
     (0xb9, SimdI32x4 I32x4MaxU), (0xba, SimdI32x4 I32x4DotI16x8S),
     (0xbc, SimdI32x4 I32x4ExtMulLowI16x8S), (0xbd, SimdI32x4 I32x4ExtMulHighI16x8S),
     (0xbe, SimdI32x4 I32x4ExtMulLowI16x8U), (0xbf, SimdI32x4 I32x4ExtMulHighI16x8U),
     (0xc0, SimdI64x2 I64x2Abs), (0xc1, SimdI64x2 I64x2Neg), (0xc3, SimdI64x2 I64x2AllTrue),
     (0xc4, SimdI64x2 I64x2Bitmask), (0xc7, SimdI64x2 I64x2ExtendLowI32x4S),
     (0xc8, SimdI64x2 I64x2ExtendHighI32x4S), (0xc9, SimdI64x2 I64x2ExtendLowI32x4U),
     (0xca, SimdI64x2 I64x2ExtendHighI32x4U), (0xcb, SimdI64x2 I64x2Shl),
     (0xcc, SimdI64x2 I64x2ShrS), (0xcd, SimdI64x2 I64x2ShrU), (0xce, SimdI64x2 I64x2Add),
     (0xd1, SimdI64x2 I64x2Sub), (0xd5, SimdI64x2 I64x2Mul), (0xd6, SimdI64x2 I64x2Eq),
     (0xd7, SimdI64x2 I64x2Ne), (0xd8, SimdI64x2 I64x2LtS), (0xd9, SimdI64x2 I64x2GtS),
     (0xda, SimdI64x2 I64x2LeS), (0xdb, SimdI64x2 I64x2GeS),
     (0xdc, SimdI64x2 I64x2ExtMulLowI32x4S), (0xdd, SimdI64x2 I64x2ExtMulHighI32x4S),
     (0xde, SimdI64x2 I64x2ExtMulLowI32x4U), (0xdf, SimdI64x2 I64x2ExtMulHighI32x4U),
     (0xe0, SimdF32x4 F32x4Abs), (0xe1, SimdF32x4 F32x4Neg), (0xe3, SimdF32x4 F32x4Sqrt),
     (0xe4, SimdF32x4 F32x4Add), (0xe5, SimdF32x4 F32x4Sub), (0xe6, SimdF32x4 F32x4Mul),
     (0xe7, SimdF32x4 F32x4Div), (0xe8, SimdF32x4 F32x4Min), (0xe9, SimdF32x4 F32x4Max),
     (0xea, SimdF32x4 F32x4PMin), (0xeb, SimdF32x4 F32x4PMax), (0xec, SimdF64x2 F64x2Abs),
     (0xed, SimdF64x2 F64x2Neg), (0xef, SimdF64x2 F64x2Sqrt), (0xf0, SimdF64x2 F64x2Add),
     (0xf1, SimdF64x2 F64x2Sub), (0xf2, SimdF64x2 F64x2Mul), (0xf3, SimdF64x2 F64x2Div),
     (0xf4, SimdF64x2 F64x2Min), (0xf5, SimdF64x2 F64x2Max), (0xf6, SimdF64x2 F64x2PMin),
     (0xf7, SimdF64x2 F64x2PMax), (0xf8, SimdI32x4 I32x4TruncSatF32x4S),
     (0xf9, SimdI32x4 I32x4TruncSatF32x4U), (0xfa, SimdF32x4 F32x4ConvertI32x4S),
     (0xfb, SimdF32x4 F32x4ConvertI32x4U), (0xfc, SimdI32x4 I32x4TruncSatF64x2SZero),
     (0xfd, SimdI32x4 I32x4TruncSatF64x2UZero), (0xfe, SimdF64x2 F64x2ConvertLowI32x4S),
     (0xff, SimdF64x2 F64x2ConvertLowI32x4U), (0x100, SimdI8x16 I8x16RelaxedSwizzle),
     (0x101, SimdI32x4 I32x4RelaxedTruncF32x4S), (0x102, SimdI32x4 I32x4RelaxedTruncF32x4U),
     (0x103, SimdI32x4 I32x4RelaxedTruncF64x2SZero),
     (0x104, SimdI32x4 I32x4RelaxedTruncF64x2UZero), (0x105, SimdF32x4 F32x4RelaxedMadd),
     (0x106, SimdF32x4 F32x4RelaxedNmadd), (0x107, SimdF64x2 F64x2RelaxedMadd),
     (0x108, SimdF64x2 F64x2RelaxedNmadd), (0x109, SimdI8x16 I8x16RelaxedLaneselect),
     (0x10a, SimdI16x8 I16x8RelaxedLaneselect), (0x10b, SimdI32x4 I32x4RelaxedLaneselect),
     (0x10c, SimdI64x2 I64x2RelaxedLaneselect), (0x10d, SimdF32x4 F32x4RelaxedMin),
     (0x10e, SimdF32x4 F32x4RelaxedMax), (0x10f, SimdF64x2 F64x2RelaxedMin),
     (0x110, SimdF64x2 F64x2RelaxedMax), (0x111, SimdI16x8 I16x8RelaxedQ15mulrS),
     (0x112, SimdI16x8 I16x8RelaxedDotI8x16I7x16S),
     (0x113, SimdI32x4 I32x4RelaxedDotI8x16I7x16AddS)]"

section \<open>Decoding\<close>

definition visit_0xfb_operator :: "usize \<Rightarrow> operator rd" where
  "visit_0xfb_operator pos = bind_rd read_var_u32 (\<lambda>code.
     if code = 0x00 then bind_rd read_var_u32 (\<lambda>struct_type_index. return_rd (Gc (StructNew struct_type_index)))
     else if code = 0x01 then bind_rd read_var_u32 (\<lambda>struct_type_index. return_rd (Gc (StructNewDefault struct_type_index)))
     else if code = 0x02 then bind_rd read_var_u32 (\<lambda>struct_type_index.
         bind_rd read_var_u32 (\<lambda>field_index.
           return_rd (Gc (StructGet struct_type_index field_index))))
     else if code = 0x03 then bind_rd read_var_u32 (\<lambda>struct_type_index.
         bind_rd read_var_u32 (\<lambda>field_index.
           return_rd (Gc (StructGetS struct_type_index field_index))))
     else if code = 0x04 then bind_rd read_var_u32 (\<lambda>struct_type_index.
         bind_rd read_var_u32 (\<lambda>field_index.
           return_rd (Gc (StructGetU struct_type_index field_index))))
     else if code = 0x05 then bind_rd read_var_u32 (\<lambda>struct_type_index.
         bind_rd read_var_u32 (\<lambda>field_index.
           return_rd (Gc (StructSet struct_type_index field_index))))
     else if code = 0x06 then bind_rd read_var_u32 (\<lambda>array_type_index. return_rd (Gc (ArrayNew array_type_index)))
     else if code = 0x07 then bind_rd read_var_u32 (\<lambda>array_type_index. return_rd (Gc (ArrayNewDefault array_type_index)))
     else if code = 0x08 then bind_rd read_var_u32 (\<lambda>array_type_index.
         bind_rd read_var_u32 (\<lambda>array_size.
           return_rd (Gc (ArrayNewFixed array_type_index array_size))))
     else if code = 0x09 then bind_rd read_var_u32 (\<lambda>array_type_index.
         bind_rd read_var_u32 (\<lambda>array_data_index.
           return_rd (Gc (ArrayNewData array_type_index array_data_index))))
     else if code = 0x0a then bind_rd read_var_u32 (\<lambda>array_type_index.
         bind_rd read_var_u32 (\<lambda>array_elem_index.
           return_rd (Gc (ArrayNewElem array_type_index array_elem_index))))
     else if code = 0x0b then bind_rd read_var_u32 (\<lambda>array_type_index. return_rd (Gc (ArrayGet array_type_index)))
     else if code = 0x0c then bind_rd read_var_u32 (\<lambda>array_type_index. return_rd (Gc (ArrayGetS array_type_index)))
     else if code = 0x0d then bind_rd read_var_u32 (\<lambda>array_type_index. return_rd (Gc (ArrayGetU array_type_index)))
     else if code = 0x0e then bind_rd read_var_u32 (\<lambda>array_type_index. return_rd (Gc (ArraySet array_type_index)))
     else if code = 0x0f then return_rd (Gc ArrayLen)
     else if code = 0x10 then bind_rd read_var_u32 (\<lambda>array_type_index. return_rd (Gc (ArrayFill array_type_index)))
     else if code = 0x11 then bind_rd read_var_u32 (\<lambda>array_type_index_dst.
         bind_rd read_var_u32 (\<lambda>array_type_index_src.
           return_rd (Gc (ArrayCopy array_type_index_dst array_type_index_src))))
     else if code = 0x12 then bind_rd read_var_u32 (\<lambda>array_type_index.
         bind_rd read_var_u32 (\<lambda>array_data_index.
           return_rd (Gc (ArrayInitData array_type_index array_data_index))))
     else if code = 0x13 then bind_rd read_var_u32 (\<lambda>array_type_index.
         bind_rd read_var_u32 (\<lambda>array_elem_index.
           return_rd (Gc (ArrayInitElem array_type_index array_elem_index))))
     else if code = 0x14 then bind_rd read_heap_type (\<lambda>hty. return_rd (Gc (RefTestNonNull hty)))
     else if code = 0x15 then bind_rd read_heap_type (\<lambda>hty. return_rd (Gc (RefTestNullable hty)))
     else if code = 0x16 then bind_rd read_heap_type (\<lambda>hty. return_rd (Gc (RefCastNonNull hty)))
     else if code = 0x17 then bind_rd read_heap_type (\<lambda>hty. return_rd (Gc (RefCastNullable hty)))
     else if code = 0x18 then read_br_on_cast (\<lambda>depth from_ty to_ty. Gc (BrOnCast depth from_ty to_ty))
     else if code = 0x19 then read_br_on_cast (\<lambda>depth from_ty to_ty. Gc (BrOnCastFail depth from_ty to_ty))
     else if code = 0x1a then return_rd (Gc AnyConvertExtern)
     else if code = 0x1b then return_rd (Gc ExternConvertAny)
     else if code = 0x1c then return_rd (Gc RefI31)
     else if code = 0x1d then return_rd (Gc I31GetS)
     else if code = 0x1e then return_rd (Gc I31GetU)
     else fail_rd (\<lambda>_. error_new (''unknown 0xfb subopcode: 0x'' @ fmt_hex (unat code)) pos))"

definition visit_0xfc_operator :: "usize \<Rightarrow> operator rd" where
  "visit_0xfc_operator pos = bind_rd read_var_u32 (\<lambda>code.
     if code = 0x08 then bind_rd read_var_u32 (\<lambda>data_index.
         bind_rd read_var_u32 (\<lambda>mem.
           return_rd (Reference (MemoryInit data_index mem))))
     else if code = 0x09 then bind_rd read_var_u32 (\<lambda>data_index. return_rd (Reference (DataDrop data_index)))
     else if code = 0x0a then bind_rd read_var_u32 (\<lambda>dst_mem.
         bind_rd read_var_u32 (\<lambda>src_mem.
           return_rd (Reference (MemoryCopy dst_mem src_mem))))
     else if code = 0x0b then bind_rd read_var_u32 (\<lambda>mem. return_rd (Reference (MemoryFill mem)))
     else if code = 0x0c then bind_rd read_var_u32 (\<lambda>elem_index.
         bind_rd read_var_u32 (\<lambda>table.
           return_rd (Reference (TableInit elem_index table))))
     else if code = 0x0d then bind_rd read_var_u32 (\<lambda>elem_index. return_rd (Reference (ElemDrop elem_index)))
     else if code = 0x0e then bind_rd read_var_u32 (\<lambda>dst_table.
         bind_rd read_var_u32 (\<lambda>src_table.
           return_rd (Reference (TableCopy dst_table src_table))))
     else if code = 0x0f then bind_rd read_var_u32 (\<lambda>table. return_rd (Reference (TableGrow table)))
     else if code = 0x10 then bind_rd read_var_u32 (\<lambda>table. return_rd (Reference (TableSize table)))
     else if code = 0x11 then bind_rd read_var_u32 (\<lambda>table. return_rd (Reference (TableFill table)))
     else if code = 0x12 then bind_rd read_var_u32 (\<lambda>mem. return_rd (Reference (MemoryDiscard mem)))
     else case map_of fc_numeric_opcodes (unat code) of
       Some op \<Rightarrow> return_rd op
     | None \<Rightarrow>
         fail_rd (\<lambda>_. error_new (''unknown 0xfc subopcode: 0x'' @ fmt_hex (unat code)) pos))"

definition visit_0xfd_operator :: "usize \<Rightarrow> operator rd" where
  "visit_0xfd_operator pos = bind_rd read_var_u32 (\<lambda>code.
     if code = 0x0c then bind_rd (read_bytes 16) (\<lambda>bytes. return_rd (V128Const bytes))
     else if code = 0x0d
     then bind_rd (read_items (read_lane_index 32) 16) (\<lambda>lanes. return_rd (I8x16Shuffle lanes))
     else case map_of v128_mem_opcodes (unat code) of
       Some (op, max_align) \<Rightarrow> bind_rd (read_memarg max_align) (\<lambda>memarg. return_rd (V128Mem op memarg))
     | None \<Rightarrow>
     (case map_of v128_lane_mem_opcodes (unat code) of
       Some (op, max_align, lanes) \<Rightarrow> bind_rd (read_memarg max_align) (\<lambda>memarg.
         bind_rd (read_lane_index lanes) (\<lambda>lane. return_rd (V128LaneMem op memarg lane)))
     | None \<Rightarrow>
     (case map_of lane_opcodes (unat code) of
       Some (op, lanes) \<Rightarrow> bind_rd (read_lane_index lanes) (\<lambda>lane. return_rd (Lane op lane))
     | None \<Rightarrow>
     (case map_of simd_opcodes (unat code) of
       Some op \<Rightarrow> return_rd op
     | None \<Rightarrow>
         fail_rd (\<lambda>_. error_new (''unknown 0xfd subopcode: 0x'' @ fmt_hex (unat code)) pos)))))"

definition visit_0xfe_operator :: "usize \<Rightarrow> operator rd" where
  "visit_0xfe_operator pos = bind_rd read_var_u32 (\<lambda>code.
     if code = 0x03
     then bind_rd read_u8 (\<lambda>b.
       if b \<noteq> 0 then fail_rd (\<lambda>_. error_new ''nonzero byte after `atomic.fence`'' pos)
       else return_rd AtomicFence)
     else if code = 0x72 then return_rd RefI31Shared
     else case map_of atomic_access_opcodes (unat code) of
       Some (op, max_align) \<Rightarrow>
         bind_rd (read_memarg max_align) (\<lambda>memarg. return_rd (AtomicAccess op memarg))
     | None \<Rightarrow>
     (case map_of atomic_rmw_opcodes (unat code) of
       Some (op, max_align) \<Rightarrow>
         bind_rd (read_memarg max_align) (\<lambda>memarg. return_rd (AtomicRmw op memarg))
     | None \<Rightarrow>
     (case map_of global_atomic_opcodes (unat code) of
       Some op \<Rightarrow> bind_rd read_ordering (\<lambda>ordering. bind_rd read_var_u32 (\<lambda>global_index.
         return_rd (GlobalAtomic op ordering global_index)))
     | None \<Rightarrow>
     (case map_of table_atomic_opcodes (unat code) of
       Some op \<Rightarrow> bind_rd read_ordering (\<lambda>ordering. bind_rd read_var_u32 (\<lambda>table_index.
         return_rd (TableAtomic op ordering table_index)))
     | None \<Rightarrow>
     (case map_of struct_atomic_opcodes (unat code) of
       Some op \<Rightarrow> bind_rd read_ordering (\<lambda>ordering. bind_rd read_var_u32 (\<lambda>struct_type_index.
         bind_rd read_var_u32 (\<lambda>field_index.
         return_rd (StructAtomic op ordering struct_type_index field_index))))
     | None \<Rightarrow>
     (case map_of array_atomic_opcodes (unat code) of
       Some op \<Rightarrow> bind_rd read_ordering (\<lambda>ordering. bind_rd read_var_u32 (\<lambda>array_type_index.
         return_rd (ArrayAtomic op ordering array_type_index)))
     | None \<Rightarrow>
         fail_rd (\<lambda>_. error_new (''unknown 0xfe subopcode: 0x'' @ fmt_hex (unat code)) pos)))))))"

text \<open>The arms of \<open>match code\<close>; \<open>pos\<close> is the offset of the opcode.\<close>

definition visit_code :: "usize \<Rightarrow> u8 \<Rightarrow> operator rd" where
  "visit_code pos code =
    (if code = 0x00 then return_rd (Control Unreachable)
     else if code = 0x01 then return_rd (Control Nop)
     else if code = 0x02 then bind_rd read_block_type (\<lambda>b. return_rd (Control (Block b)))
     else if code = 0x03 then bind_rd read_block_type (\<lambda>b. return_rd (Control (Loop b)))
     else if code = 0x04 then bind_rd read_block_type (\<lambda>b. return_rd (Control (OpIf b)))
     else if code = 0x05 then return_rd (Control Else)
     else if code = 0x06 then bind_rd read_block_type (\<lambda>b. return_rd (Exception (Try b)))
     else if code = 0x07 then bind_rd read_var_u32 (\<lambda>tag_index. return_rd (Exception (Catch tag_index)))
     else if code = 0x08 then bind_rd read_var_u32 (\<lambda>tag_index. return_rd (Exception (Throw tag_index)))
     else if code = 0x09 then bind_rd read_var_u32 (\<lambda>relative_depth. return_rd (Exception (Rethrow relative_depth)))
     else if code = 0x0a then return_rd (Exception ThrowRef)
     else if code = 0x0b then return_rd (Control End)
     else if code = 0x0c then bind_rd read_var_u32 (\<lambda>relative_depth. return_rd (Control (Br relative_depth)))
     else if code = 0x0d then bind_rd read_var_u32 (\<lambda>relative_depth. return_rd (Control (BrIf relative_depth)))
     else if code = 0x0e then bind_rd read_br_table (\<lambda>t. return_rd (Control (BrTable t)))
     else if code = 0x0f then return_rd (Control Return)
     else if code = 0x10 then bind_rd read_var_u32 (\<lambda>function_index. return_rd (Control (Call function_index)))
     else if code = 0x11 then bind_rd read_var_u32 (\<lambda>type_index.
         bind_rd read_table_index_or_zero_if_not_reference_types (\<lambda>table_index.
           return_rd (Control (CallIndirect type_index table_index))))
     else if code = 0x12 then bind_rd read_var_u32 (\<lambda>function_index. return_rd (Reference (ReturnCall function_index)))
     else if code = 0x13 then bind_rd read_var_u32 (\<lambda>type_index.
         bind_rd read_var_u32 (\<lambda>table_index.
           return_rd (Reference (ReturnCallIndirect type_index table_index))))
     else if code = 0x14 then bind_rd read_var_u32 (\<lambda>type_index. return_rd (Reference (CallRef type_index)))
     else if code = 0x15 then bind_rd read_var_u32 (\<lambda>type_index. return_rd (Reference (ReturnCallRef type_index)))
     else if code = 0x18 then bind_rd read_var_u32 (\<lambda>relative_depth. return_rd (Exception (Delegate relative_depth)))
     else if code = 0x19 then return_rd (Exception CatchAll)
     else if code = 0x1a then return_rd (Control Drop)
     else if code = 0x1b then return_rd (Control Select)
     else if code = 0x1c then bind_rd read_var_u32 (\<lambda>results.
         if results \<noteq> 1 then fail_rd (\<lambda>r. error_new ''invalid result arity'' (position r))
         else bind_rd read_val_type (\<lambda>ty. return_rd (Reference (TypedSelect ty))))
     else if code = 0x1f then bind_rd read_try_table (\<lambda>t. return_rd (Exception (TryTable t)))
     else if code = 0x20 then bind_rd read_var_u32 (\<lambda>local_index. return_rd (Control (LocalGet local_index)))
     else if code = 0x21 then bind_rd read_var_u32 (\<lambda>local_index. return_rd (Control (LocalSet local_index)))
     else if code = 0x22 then bind_rd read_var_u32 (\<lambda>local_index. return_rd (Control (LocalTee local_index)))
     else if code = 0x23 then bind_rd read_var_u32 (\<lambda>global_index. return_rd (Control (GlobalGet global_index)))
     else if code = 0x24 then bind_rd read_var_u32 (\<lambda>global_index. return_rd (Control (GlobalSet global_index)))
     else if code = 0x25 then bind_rd read_var_u32 (\<lambda>table. return_rd (Reference (TableGet table)))
     else if code = 0x26 then bind_rd read_var_u32 (\<lambda>table. return_rd (Reference (TableSet table)))
     else if code = 0x3f then bind_rd read_memory_index_or_zero_if_not_multi_memory (\<lambda>mem. return_rd (Control (MemorySize mem)))
     else if code = 0x40 then bind_rd read_memory_index_or_zero_if_not_multi_memory (\<lambda>mem. return_rd (Control (MemoryGrow mem)))
     else if code = 0x41 then bind_rd read_var_i32 (\<lambda>v. return_rd (Control (I32Const v)))
     else if code = 0x42 then bind_rd read_var_i64 (\<lambda>v. return_rd (Control (I64Const v)))
     else if code = 0x43 then bind_rd read_f32 (\<lambda>v. return_rd (Control (F32Const v)))
     else if code = 0x44 then bind_rd read_f64 (\<lambda>v. return_rd (Control (F64Const v)))
     else if code = 0xd0 then bind_rd read_heap_type (\<lambda>hty. return_rd (Reference (RefNull hty)))
     else if code = 0xd1 then return_rd (Reference RefIsNull)
     else if code = 0xd2 then bind_rd read_var_u32 (\<lambda>function_index. return_rd (Reference (RefFunc function_index)))
     else if code = 0xd3 then return_rd (Gc RefEq)
     else if code = 0xd4 then return_rd (Reference RefAsNonNull)
     else if code = 0xd5 then bind_rd read_var_u32 (\<lambda>relative_depth. return_rd (Reference (BrOnNull relative_depth)))
     else if code = 0xd6 then bind_rd read_var_u32 (\<lambda>relative_depth. return_rd (Reference (BrOnNonNull relative_depth)))
     else if code = 0xe0 then bind_rd read_var_u32 (\<lambda>cont_type_index. return_rd (Exception (ContNew cont_type_index)))
     else if code = 0xe1 then bind_rd read_var_u32 (\<lambda>argument_index.
         bind_rd read_var_u32 (\<lambda>result_index.
           return_rd (Exception (ContBind argument_index result_index))))
     else if code = 0xe2 then bind_rd read_var_u32 (\<lambda>tag_index. return_rd (Exception (Suspend tag_index)))
     else if code = 0xe3 then bind_rd read_var_u32 (\<lambda>cont_type_index.
         bind_rd read_resume_table (\<lambda>table.
           return_rd (Exception (Resume cont_type_index table))))
     else if code = 0xe4 then bind_rd read_var_u32 (\<lambda>cont_type_index.
         bind_rd read_var_u32 (\<lambda>tag_index.
         bind_rd read_resume_table (\<lambda>table.
           return_rd (Exception (ResumeThrow cont_type_index tag_index table)))))
     else if code = 0xe5 then bind_rd read_var_u32 (\<lambda>cont_type_index.
         bind_rd read_var_u32 (\<lambda>tag_index.
           return_rd (Exception (Switch cont_type_index tag_index))))
     else if code = 0xfb then visit_0xfb_operator pos
     else if code = 0xfc then visit_0xfc_operator pos
     else if code = 0xfd then visit_0xfd_operator pos
     else if code = 0xfe then visit_0xfe_operator pos
     else case map_of load_opcodes (unat code) of
       Some (op, max_align) \<Rightarrow> bind_rd (read_memarg max_align) (\<lambda>memarg. return_rd (Load op memarg))
     | None \<Rightarrow>
     (case map_of store_opcodes (unat code) of
       Some (op, max_align) \<Rightarrow> bind_rd (read_memarg max_align) (\<lambda>memarg. return_rd (Store op memarg))
     | None \<Rightarrow>
     (case map_of numeric_opcodes (unat code) of
       Some op \<Rightarrow> return_rd op
     | None \<Rightarrow>
         fail_rd (\<lambda>_. error_new (''illegal opcode: 0x'' @ fmt_hex (unat code)) pos))))"

definition visit_operator :: "operator rd" where
  "visit_operator = with_pos (\<lambda>pos. bind_rd read_u8 (visit_code pos))"

abbreviation read_operator :: "operator rd" where
  "read_operator \<equiv> visit_operator"

definition is_end_then_eof :: "binary_reader \<Rightarrow> bool" where
  "is_end_then_eof r \<longleftrightarrow> remaining_buffer r = [0x0b]"

end
