(* ===== verification/Op_Laws.thy ===== *)
theory Op_Laws
  imports Op_Reader
begin

text \<open>
  The instruction decoder keeps the reader contract, with one exception: the error
  \<open>invalid result arity\<close> of a typed \<open>select\<close> is reported at \<open>self.position\<close>, the offset in the
  reader's own buffer, where all other errors are reported at offsets in the original file.
\<close>

unbundle bit_operations_syntax

section \<open>Immediates\<close>

lemma rd_ok_if_feature [rd_intro]:
  assumes "rd_ok k p m" "rd_ok k p m'"
  shows "rd_ok k p (if_feature f m m')"
proof (rule rd_okI)
  fix r e
  assume wf: "rd_wf r" "p + k \<le> original_position r" and err: "if_feature f m m' r = Inl e"
  show "p \<le> err_offset e \<and> err_offset e \<le> end_position r"
  proof (cases "f \<in> features r")
    case True
    with err have "m r = Inl e" by (simp add: if_feature_def)
    from rd_ok_errD [OF assms(1) wf this] show ?thesis ..
  next
    case False
    with err have "m' r = Inl e" by (simp add: if_feature_def)
    from rd_ok_errD [OF assms(2) wf this] show ?thesis ..
  qed
next
  fix r x r'
  assume wf: "rd_wf r" "p + k \<le> original_position r" and ok: "if_feature f m m' r = Inr (x, r')"
  show "same_input r r' \<and> position r \<le> position r' \<and> rd_wf r' \<and>
      (\<forall>ys. if_feature f m m' (extend_input ys r) = Inr (x, extend_input ys r'))"
  proof (cases "f \<in> features r")
    case True
    with ok have "m r = Inr (x, r')" by (simp add: if_feature_def)
    from rd_okD [OF assms(1) wf this] show ?thesis using True by (simp add: if_feature_def)
  next
    case False
    with ok have "m' r = Inr (x, r')" by (simp add: if_feature_def)
    from rd_okD [OF assms(2) wf this] show ?thesis using False by (simp add: if_feature_def)
  qed
qed

lemma rd_ok_prod [rd_intro]:
  "(\<And>a b. v = (a, b) \<Longrightarrow> rd_ok k p (f a b)) \<Longrightarrow> rd_ok k p (case v of (a, b) \<Rightarrow> f a b)"
  by (cases v) simp

lemma rd_ok_read_items [rd_intro]: "(\<And>q. rd_ok 0 q m) \<Longrightarrow> rd_ok k p (read_items m n)"
  by (rule from_reader.rd_ok_items [OF from_readerI])

lemma rd_ok_read_memarg [rd_intro]: "rd_ok k p (read_memarg a)"
  unfolding read_memarg_def by (rule rd_intro rd_ok_bind_same)+

lemma rd_ok_read_ordering [rd_intro]: "rd_ok k p read_ordering"
  unfolding read_ordering_def One_nat_def by (rule rd_intro)+

lemma rd_ok_read_br_table [rd_intro]: "rd_ok k p read_br_table"
  unfolding read_br_table_def by (rule rd_intro rd_ok_bind0)+

lemma rd_ok_step_over_peeked [rd_intro]:
  assumes "\<And>b. b \<noteq> c \<Longrightarrow> rd_ok k p (f b)"
  shows "rd_ok k p (bind_rd peek (\<lambda>b. if b = c then (\<lambda>r. Inr (x, r\<lparr>position := position r + 1\<rparr>)) else f b))"
proof -
  have "bind_rd peek (\<lambda>b. if b = c then (\<lambda>r. Inr (x, r\<lparr>position := position r + 1\<rparr>)) else f b) =
      bind_rd peek (\<lambda>b. if b = c then bind_rd read_u8 (\<lambda>_. return_rd x) else f b)"
    by (auto simp: fun_eq_iff bind_rd_def peek_def ensure_has_byte_def read_u8_def return_rd_def)
  moreover have "rd_ok k p (bind_rd peek (\<lambda>b. if b = c then bind_rd read_u8 (\<lambda>_. return_rd x) else f b))"
    using assms by (intro rd_intro rd_ok_bind_same)
  ultimately show ?thesis by simp
qed

lemma read_block_type_alt:
  "read_block_type = bind_rd peek (\<lambda>b.
     if b = 0x40 then (\<lambda>r. Inr (BlockEmpty, r\<lparr>position := position r + 1\<rparr>))
     else if b AND 0x80 = 0 \<and> b AND 0x40 \<noteq> 0
     then bind_rd read_val_type (\<lambda>ty. return_rd (BlockResult ty))
     else bind_rd read_var_s33 (\<lambda>idx.
       case u32_try_from_i64 idx of
         Some idx \<Rightarrow> return_rd (BlockFuncType idx)
       | None \<Rightarrow> fail_rd (\<lambda>r. error_new ''invalid function type'' (original_position r))))"
  unfolding read_block_type_def by (rule arg_cong [where f = "bind_rd peek"]) (auto simp: fun_eq_iff)

lemma rd_ok_read_block_type [rd_intro]: "rd_ok k p read_block_type"
  unfolding read_block_type_alt by (rule rd_intro rd_ok_bind_same)+

lemma rd_ok_read_catch [rd_intro]: "rd_ok k p read_catch"
  unfolding read_catch_def by (rule rd_intro)+

lemma rd_ok_read_try_table [rd_intro]: "rd_ok k p read_try_table"
  unfolding read_try_table_def by (rule rd_intro rd_ok_bind0)+

lemma rd_ok_read_handle [rd_intro]: "rd_ok k p read_handle"
  unfolding read_handle_def by (rule rd_intro)+

lemma rd_ok_read_resume_table [rd_intro]: "rd_ok k p read_resume_table"
  unfolding read_resume_table_def by (rule rd_intro)+

lemma rd_ok_read_lane_index [rd_intro]: "rd_ok k p (read_lane_index n)"
  unfolding read_lane_index_def One_nat_def by (rule rd_intro)+

lemma rd_ok_read_memory_index [rd_intro]: "rd_ok k p read_memory_index_or_zero_if_not_multi_memory"
  unfolding read_memory_index_or_zero_if_not_multi_memory_def One_nat_def by (rule rd_intro)+

lemma rd_ok_read_table_index [rd_intro]: "rd_ok k p read_table_index_or_zero_if_not_reference_types"
  unfolding read_table_index_or_zero_if_not_reference_types_def One_nat_def by (rule rd_intro)+

lemma rd_ok_read_br_on_cast [rd_intro]: "rd_ok k p (read_br_on_cast visit)"
  unfolding read_br_on_cast_def ok_or_implementation_error_def Let_def
  by (rule rd_intro rd_ok_bind_same)+

section \<open>Prefixed opcodes\<close>

lemma rd_ok_0xfb [rd_intro]: "rd_ok k p (visit_0xfb_operator p)"
  unfolding visit_0xfb_operator_def by (rule rd_intro rd_ok_bind_same)+

lemma rd_ok_0xfc [rd_intro]: "rd_ok k p (visit_0xfc_operator p)"
  unfolding visit_0xfc_operator_def by (rule rd_intro rd_ok_bind_same)+

lemma rd_ok_0xfd [rd_intro]: "rd_ok k p (visit_0xfd_operator p)"
  unfolding visit_0xfd_operator_def by (rule rd_intro rd_ok_bind_same)+

lemma rd_ok_0xfe [rd_intro]: "rd_ok k p (visit_0xfe_operator p)"
  unfolding visit_0xfe_operator_def by (rule rd_intro rd_ok_bind_same)+

section \<open>All opcodes\<close>

text \<open>
  The contract with an exception: errors that satisfy \<open>L\<close> may be reported anywhere. It is
  what \<open>rd_ok\<close> says when \<open>L\<close> holds of no error.
\<close>

definition rd_ok_but :: "(binary_reader_error \<Rightarrow> bool) \<Rightarrow> nat \<Rightarrow> usize \<Rightarrow> 'a rd \<Rightarrow> bool" where
  "rd_ok_but L k p m \<longleftrightarrow> (\<forall>r. rd_wf r \<longrightarrow> p + k \<le> original_position r \<longrightarrow>
     (case m r of
        Inl e \<Rightarrow> L e \<or> p \<le> err_offset e \<and> err_offset e \<le> end_position r
      | Inr (x, r') \<Rightarrow> same_input r r' \<and> position r \<le> position r' \<and> rd_wf r' \<and>
          (\<forall>ys. m (extend_input ys r) = Inr (x, extend_input ys r'))))"

lemma rd_ok_but_rd_ok:
  assumes "rd_ok k p m"
  shows "rd_ok_but L k p m"
  unfolding rd_ok_but_def
proof (intro allI impI)
  fix r
  assume "rd_wf r" "p + k \<le> original_position r"
  note assms [unfolded rd_ok_def, rule_format, OF this]
  then show "case m r of Inl e \<Rightarrow> L e \<or> p \<le> err_offset e \<and> err_offset e \<le> end_position r
      | Inr (x, r') \<Rightarrow> same_input r r' \<and> position r \<le> position r' \<and> rd_wf r' \<and>
          (\<forall>ys. m (extend_input ys r) = Inr (x, extend_input ys r'))"
    by (cases "m r") simp_all
qed

lemma rd_ok_but_fail: "(\<And>r. L (e r)) \<Longrightarrow> rd_ok_but L k p (fail_rd e)"
  unfolding rd_ok_but_def fail_rd_def by simp

lemma rd_ok_but_if:
  "rd_ok_but L k p m \<Longrightarrow> rd_ok_but L k p m' \<Longrightarrow> rd_ok_but L k p (if b then m else m')"
  by simp

lemma rd_ok_but_bind:
  assumes m: "rd_ok k p m" and f: "\<And>x. rd_ok_but L k p (f x)"
  shows "rd_ok_but L k p (bind_rd m f)"
  unfolding rd_ok_but_def
proof (intro allI impI)
  fix r
  assume wf: "rd_wf r" "p + k \<le> original_position r"
  show "case bind_rd m f r of Inl e \<Rightarrow> L e \<or> p \<le> err_offset e \<and> err_offset e \<le> end_position r
      | Inr (x, r') \<Rightarrow> same_input r r' \<and> position r \<le> position r' \<and> rd_wf r' \<and>
          (\<forall>ys. bind_rd m f (extend_input ys r) = Inr (x, extend_input ys r'))"
  proof (cases "m r")
    case (Inl e)
    then show ?thesis using rd_ok_errD [OF m wf Inl] by (simp add: bind_rd_def)
  next
    case (Inr q)
    then obtain x r1 where r1: "m r = Inr (x, r1)" by (cases q) auto
    note 1 = rd_okD [OF m wf r1]
    have "p + k \<le> original_position r1"
      using 1(1,2) wf(2) by (simp add: same_input_def original_position_def)
    with f 1(3) have "case f x r1 of Inl e \<Rightarrow> L e \<or> p \<le> err_offset e \<and> err_offset e \<le> end_position r1
      | Inr (y, r') \<Rightarrow> same_input r1 r' \<and> position r1 \<le> position r' \<and> rd_wf r' \<and>
          (\<forall>ys. f x (extend_input ys r1) = Inr (y, extend_input ys r'))"
      unfolding rd_ok_but_def by blast
    then show ?thesis
      using r1 1 same_input_end [OF 1(1)]
      by (auto simp: bind_rd_def intro: same_input_trans split: sum.splits)
  qed
qed

definition misplaced_error :: "binary_reader_error \<Rightarrow> bool" where
  "misplaced_error e \<longleftrightarrow> err_message e = ''invalid result arity''"

lemma rd_ok_but_with_pos:
  assumes "\<And>q. rd_ok_but L 0 q (f q)"
  shows "rd_ok_but L k p (with_pos f)"
  unfolding rd_ok_but_def
proof (intro allI impI)
  fix r
  assume wf: "rd_wf r" "p + k \<le> original_position r"
  have "case f (original_position r) r of
      Inl e \<Rightarrow> L e \<or> original_position r \<le> err_offset e \<and> err_offset e \<le> end_position r
    | Inr (x, r') \<Rightarrow> same_input r r' \<and> position r \<le> position r' \<and> rd_wf r' \<and>
        (\<forall>ys. f (original_position r) (extend_input ys r) = Inr (x, extend_input ys r'))"
    using assms [of "original_position r"] wf unfolding rd_ok_but_def by simp
  then show "case with_pos f r of Inl e \<Rightarrow> L e \<or> p \<le> err_offset e \<and> err_offset e \<le> end_position r
      | Inr (x, r') \<Rightarrow> same_input r r' \<and> position r \<le> position r' \<and> rd_wf r' \<and>
          (\<forall>ys. with_pos f (extend_input ys r) = Inr (x, extend_input ys r'))"
    using wf by (cases "f (original_position r) r") (auto simp: with_pos_def)
qed

lemma rd_ok_but_select:
  "rd_ok_but misplaced_error k p (bind_rd read_var_u32 (\<lambda>results.
     if results \<noteq> 1 then fail_rd (\<lambda>r. error_new ''invalid result arity'' (position r))
     else bind_rd read_val_type (\<lambda>ty. return_rd (Reference (TypedSelect ty)))))"
proof (intro rd_ok_but_bind rd_ok_but_if rd_ok_but_fail)
  show "rd_ok k p read_var_u32" by (rule rd_intro)
  show "misplaced_error (error_new ''invalid result arity'' (position r))" for r
    by (simp add: misplaced_error_def error_new_def)
  show "rd_ok k p read_val_type" by (rule rd_intro)
  show "rd_ok_but misplaced_error k p (return_rd (Reference (TypedSelect ty)))" for ty
    by (rule rd_ok_but_rd_ok) (rule rd_intro)
qed

lemma rd_ok_but_visit_code: "rd_ok_but misplaced_error k pos (visit_code pos b)"
  unfolding visit_code_def
  by (rule rd_ok_but_if rd_ok_but_select
      | (rule rd_ok_but_rd_ok, (rule rd_intro rd_ok_bind_same)+))+

lemma rd_ok_but_visit_operator: "rd_ok_but misplaced_error k p visit_operator"
  unfolding visit_operator_def
  by (rule rd_ok_but_with_pos, rule rd_ok_but_bind, rule rd_intro, rule rd_ok_but_visit_code)

text \<open>An operator has at least one byte.\<close>

lemma read_operator_progress:
  assumes "rd_wf r" "read_operator r = Inr (op, r')"
  shows "position r < position r'"
proof -
  from assms(2) obtain b r1 where b: "read_u8 r = Inr (b, r1)"
    and op: "visit_code (original_position r) b r1 = Inr (op, r')"
    by (auto simp: visit_operator_def with_pos_def bind_rd_def split: sum.splits)
  have r1: "r1 = advance 1 r" "position r < length (buffer r)"
    using b assms(1) by (auto simp: read_u8_alt rd_wf_def split: if_splits)
  then have "rd_wf r1" "original_position r + 0 \<le> original_position r1"
    by (simp_all add: rd_wf_def original_position_def)
  then have "position r1 \<le> position r'"
    using rd_ok_but_visit_code [of 0 "original_position r" b] op unfolding rd_ok_but_def by fastforce
  then show ?thesis using r1(1) by simp
qed

section \<open>Properties\<close>

text \<open>
  C1. Reading an operator from a well-formed reader changes only the position, moves forward by at
  least one byte within the buffer and does not depend on the bytes behind the operator. Every error but the one about
  the arity of a typed \<open>select\<close> is reported inside the range the reader was asked to read.
\<close>

theorem read_operator_contract:
  assumes "rd_wf r"
  shows "case read_operator r of
      Inr (op, r') \<Rightarrow> same_input r r' \<and> position r < position r' \<and> rd_wf r' \<and>
        (\<forall>ys. read_operator (extend_input ys r) = Inr (op, extend_input ys r'))
    | Inl e \<Rightarrow> err_message e = ''invalid result arity'' \<or>
        original_position r \<le> err_offset e \<and> err_offset e \<le> end_position r"
  using rd_ok_but_visit_operator [of 0 "original_position r"] assms
    read_operator_progress [OF assms]
  unfolding rd_ok_but_def misplaced_error_def
  by (cases "read_operator r") fastforce+

theorem read_operator_contract_witness:
  "rd_wf (reader_new [0x0B] 7) \<and> (case read_operator (reader_new [0x0B] 7) of
      Inr (op, r') \<Rightarrow> same_input (reader_new [0x0B] 7) r' \<and> position (reader_new [0x0B] 7) < position r'
        \<and> rd_wf r' \<and> (\<forall>ys. read_operator (extend_input ys (reader_new [0x0B] 7)) = Inr (op, extend_input ys r'))
    | Inl e \<Rightarrow> err_message e = ''invalid result arity'' \<or>
        original_position (reader_new [0x0B] 7) \<le> err_offset e
        \<and> err_offset e \<le> end_position (reader_new [0x0B] 7))"
proof -
  have "rd_wf (reader_new [0x0B] 7)" by (simp add: rd_wf_def reader_new_def)
  then show ?thesis using read_operator_contract by blast
qed

text \<open>
  C24. The misplaced error: whenever the opcode \<open>0x1c\<close> of a typed \<open>select\<close> is followed by a number of
  result types other than one, the operator is rejected at the position in the buffer behind that
  number. The position in the file, which every other error has, is larger by the offset of the buffer
  in the file; if that offset is more than the six bytes read at most, the reported position is before
  the operator.
\<close>

theorem typed_select_error_misplaced:
  assumes "read_u8 r = Inr (0x1C, r1)" "read_var_u32 r1 = Inr (n, r2)" "n \<noteq> 1"
  shows "\<exists>e. read_operator r = Inl e \<and> err_message e = ''invalid result arity''
    \<and> err_offset e = position r2 \<and> err_offset e + original_offset r = original_position r2
    \<and> (6 < original_offset r \<longrightarrow> err_offset e < original_position r)"
proof -
  have "read_operator r = Inl (error_new ''invalid result arity'' (position r2))"
    using assms by (simp add: visit_operator_def visit_code_def with_pos_def bind_rd_def fail_rd_def)
  moreover have r1: "r1 = advance 1 r"
    using assms(1) by (auto simp: read_u8_alt split: if_splits)
  moreover obtain k where "k \<le> 5" "r2 = advance k r1"
    using assms(2) by (auto simp: read_var_u32_iff)
  ultimately show ?thesis
    by (simp add: error_new_def original_position_def)
qed

theorem typed_select_error_misplaced_witness:
  "\<exists>r1 r2. read_u8 (reader_new [0x1C, 0x02] 100) = Inr (0x1C, r1) \<and> read_var_u32 r1 = Inr (2, r2)
    \<and> (2 :: u32) \<noteq> 1 \<and> 6 < original_offset (reader_new [0x1C, 0x02] 100)
    \<and> (\<exists>e. read_operator (reader_new [0x1C, 0x02] 100) = Inl e \<and> err_offset e < 100)"
proof -
  let ?r = "reader_new [0x1C, 0x02] 100"
  have "read_u8 ?r = Inr (0x1C, advance 1 ?r)"
    by (simp add: read_u8_alt reader_new_def)
  moreover have "read_var_u32 (advance 1 ?r) = Inr (2, advance 2 ?r)"
    unfolding read_var_u32_iff
    by (intro exI [of _ "[2]"] exI [of _ "[]"]) (simp add: remaining_buffer_def reader_new_def)
  moreover have "original_offset ?r = 100" "original_position ?r = 100"
    by (simp_all add: reader_new_def original_position_def)
  ultimately show ?thesis
    using typed_select_error_misplaced [of ?r "advance 1 ?r" 2 "advance 2 ?r"] by auto
qed

end
