(* ===== verification/Reader_Results.thy ===== *)
theory Reader_Results
  imports Reader_Items
begin

text \<open>
  What a reader can return: \<open>returns fs m P\<close> says that whatever \<open>m\<close> reads under the features \<open>fs\<close>
  satisfies \<open>P\<close>. The rules follow the sequencing of the readers.
\<close>

definition returns :: "wasm_features \<Rightarrow> 'a rd \<Rightarrow> ('a \<Rightarrow> bool) \<Rightarrow> bool" where
  "returns fs m P \<longleftrightarrow>
     (\<forall>r x r'. features r = fs \<longrightarrow> m r = Inr (x, r') \<longrightarrow> P x \<and> features r' = fs)"

named_theorems ret_intro \<open>what readers return\<close>

lemma returnsD: "returns fs m P \<Longrightarrow> features r = fs \<Longrightarrow> m r = Inr (x, r') \<Longrightarrow> P x"
  unfolding returns_def by blast

lemma returns_features: "returns fs m P \<Longrightarrow> features r = fs \<Longrightarrow> m r = Inr (x, r') \<Longrightarrow> features r' = fs"
  unfolding returns_def by blast

lemma returnsI:
  "(\<And>r x r'. features r = fs \<Longrightarrow> m r = Inr (x, r') \<Longrightarrow> P x \<and> features r' = fs) \<Longrightarrow> returns fs m P"
  unfolding returns_def by blast

lemma returns_mono: "returns fs m P \<Longrightarrow> (\<And>x. P x \<Longrightarrow> Q x) \<Longrightarrow> returns fs m Q"
  unfolding returns_def by blast

lemma returns_return [ret_intro]: "P x \<Longrightarrow> returns fs (return_rd x) P"
  by (simp add: returns_def return_rd_def)

lemma returns_fail [ret_intro]: "returns fs (fail_rd e) P"
  by (simp add: returns_def fail_rd_def)

lemma returns_bind:
  assumes "returns fs m Q" "\<And>x. Q x \<Longrightarrow> returns fs (f x) P"
  shows "returns fs (bind_rd m f) P"
proof (rule returnsI)
  fix r y r'
  assume fs: "features r = fs" and y: "bind_rd m f r = Inr (y, r')"
  then obtain x r1 where x: "m r = Inr (x, r1)" and "f x r1 = Inr (y, r')"
    by (auto simp: bind_rd_def split: sum.splits)
  moreover have "Q x" "features r1 = fs"
    using returnsD [OF assms(1) fs x] returns_features [OF assms(1) fs x] .
  ultimately show "P y \<and> features r' = fs"
    using returnsD [OF assms(2)] returns_features [OF assms(2)] by blast
qed

lemma returns_with_pos [ret_intro]: "(\<And>p. returns fs (f p) P) \<Longrightarrow> returns fs (with_pos f) P"
  unfolding returns_def with_pos_def by blast

lemma returns_map_err [ret_intro]: "returns fs m P \<Longrightarrow> returns fs (map_err_rd g m) P"
  unfolding returns_def map_err_rd_def by (metis sum.case_eq_if sum.disc(1,2) sum.collapse(2) sum.sel(2))

lemma returns_if [ret_intro]:
  "(b \<Longrightarrow> returns fs m P) \<Longrightarrow> (\<not> b \<Longrightarrow> returns fs m' P) \<Longrightarrow> returns fs (if b then m else m') P"
  by simp

lemma returns_option [ret_intro]:
  "(v = None \<Longrightarrow> returns fs a P) \<Longrightarrow> (\<And>x. v = Some x \<Longrightarrow> returns fs (b x) P) \<Longrightarrow>
   returns fs (case v of None \<Rightarrow> a | Some x \<Rightarrow> b x) P"
  by (cases v) simp_all

lemma returns_list:
  "(v = [] \<Longrightarrow> returns fs a P) \<Longrightarrow> (\<And>x xs. v = x # xs \<Longrightarrow> returns fs (b x xs) P) \<Longrightarrow>
   returns fs (case v of [] \<Rightarrow> a | x # xs \<Rightarrow> b x xs) P"
  by (cases v) simp_all

lemma returns_u8 [ret_intro]: "returns fs read_u8 (\<lambda>_. True)"
  by (rule returnsI) (auto simp: read_u8_def split: if_splits)

lemma returns_peek [ret_intro]: "returns fs peek (\<lambda>_. True)"
  by (rule returnsI) (auto simp: peek_def bind_rd_def ensure_has_byte_def split: if_splits)

lemma returns_read_bytes [ret_intro]: "returns fs (read_bytes n) (\<lambda>bs. length bs = n)"
  by (rule returnsI)
    (auto simp: read_bytes_def bind_rd_def ensure_has_bytes_def split: if_splits)

lemma returns_u32 [ret_intro]: "returns fs read_var_u32 (\<lambda>_. True)"
  by (rule returnsI, simp only: read_var_u32_iff, elim exE conjE) simp

lemma returns_u64 [ret_intro]: "returns fs read_var_u64 (\<lambda>_. True)"
  by (rule returnsI, simp only: read_var_u64_iff, elim exE conjE) simp

lemma returns_i32 [ret_intro]: "returns fs read_var_i32 (\<lambda>_. True)"
  by (rule returnsI, simp only: read_var_i32_iff, elim exE conjE) simp

lemma returns_i64 [ret_intro]: "returns fs read_var_i64 (\<lambda>_. True)"
  by (rule returnsI, simp only: read_var_i64_iff, elim exE conjE) simp

lemma returns_s33 [ret_intro]: "returns fs read_var_s33 (\<lambda>_. True)"
  by (rule returnsI, simp only: read_var_s33_iff, elim exE conjE) simp

lemma returns_f32 [ret_intro]: "returns fs read_f32 (\<lambda>_. True)"
  by (rule returnsI) (auto simp: read_f32_def read_u32_def bind_rd_def ensure_has_bytes_def return_rd_def
      split: if_splits)

lemma returns_f64 [ret_intro]: "returns fs read_f64 (\<lambda>_. True)"
  by (rule returnsI) (auto simp: read_f64_def read_u64_def bind_rd_def ensure_has_bytes_def return_rd_def
      split: if_splits)

lemma returns_items:
  assumes "returns fs item P"
  shows "returns fs (read_items item n) (\<lambda>xs. length xs = n \<and> list_all P xs)"
proof (induction n)
  case (Suc n)
  show ?case
    unfolding read_items.simps
    by (rule returns_bind [OF assms], rule returns_bind [OF Suc], rule returns_return) simp
qed (simp add: returns_return)

lemma returns_size [ret_intro]: "returns fs (read_size limit desc) (\<lambda>n. n \<le> limit)"
  unfolding read_size_def
  by (rule returns_with_pos, rule returns_bind [OF returns_u32]) (auto intro: ret_intro)

lemma returns_iter:
  assumes "returns fs item P"
  shows "returns fs (read_iter limit desc item) (\<lambda>xs. length xs \<le> limit \<and> list_all P xs)"
  unfolding read_iter_def
  by (rule returns_bind [OF returns_size], rule returns_mono [OF returns_items [OF assms]]) simp

end
