(* ===== verification/Encode.thy ===== *)
theory Encode
  imports Reader_Results
begin

text \<open>
  The trait \<open>Encode\<close> of crates/wasm-encoder/src/lib.rs and its implementations for integers,
  floats, lists and strings.

  The source appends to a vector \<open>sink\<close> and never reads from it, so the model of an \<open>encode\<close> is
  the bytes that it appends; an \<open>assert!\<close> or \<open>unwrap\<close> that panics is \<open>None\<close>. The integers are
  written by the crate \<open>leb128\<close>, which is a parameter of the definitions. What is relied on is its
  documented behaviour: the bytes form a LEB128 encoding of the value, in the shortest form.
\<close>

unbundle bit_operations_syntax

section \<open>The crate leb128\<close>

record leb128 =
  write_unsigned :: "u64 \<Rightarrow> u8 list"
  write_signed :: "i64 \<Rightarrow> u8 list"

definition writes_unsigned :: "(u64 \<Rightarrow> u8 list) \<Rightarrow> bool" where
  "writes_unsigned w \<longleftrightarrow>
     (\<forall>v. leb_bytes (w v) \<and> uleb_value (w v) = unat v
        \<and> (\<forall>n > 0. unat v < 2 ^ (7 * n) \<longrightarrow> length (w v) \<le> n))"

definition writes_signed :: "(i64 \<Rightarrow> u8 list) \<Rightarrow> bool" where
  "writes_signed w \<longleftrightarrow>
     (\<forall>v. leb_bytes (w v) \<and> sleb_value (w v) = sint v
        \<and> (\<forall>n > 0. - (2 ^ (7 * n - 1)) \<le> sint v \<and> sint v < 2 ^ (7 * n - 1) \<longrightarrow> length (w v) \<le> n))"

definition leb128_ok :: "leb128 \<Rightarrow> bool" where
  "leb128_ok L \<longleftrightarrow> writes_unsigned (write_unsigned L) \<and> writes_signed (write_signed L)"

section \<open>Encoders\<close>

type_synonym enc = "u8 list option"

definition push :: "u8 \<Rightarrow> enc" where
  "push b = Some [b]"

definition extend_sink :: "u8 list \<Rightarrow> enc" where
  "extend_sink bs = Some bs"

text \<open>Statements in sequence; a panic stops.\<close>

fun encs :: "enc list \<Rightarrow> enc" where
  "encs [] = Some []"
| "encs (e # es) =
     (case e of None \<Rightarrow> None | Some bs \<Rightarrow> (case encs es of None \<Rightarrow> None | Some cs \<Rightarrow> Some (bs @ cs)))"

definition assert_enc :: "bool \<Rightarrow> enc" where
  "assert_enc b = (if b then Some [] else None)"

definition encode_u32 :: "leb128 \<Rightarrow> u32 \<Rightarrow> enc" where
  "encode_u32 L v = extend_sink (write_unsigned L (ucast v))"

definition encode_i32 :: "leb128 \<Rightarrow> i32 \<Rightarrow> enc" where
  "encode_i32 L v = extend_sink (write_signed L (scast v))"

definition encode_u64 :: "leb128 \<Rightarrow> u64 \<Rightarrow> enc" where
  "encode_u64 L v = extend_sink (write_unsigned L v)"

definition encode_i64 :: "leb128 \<Rightarrow> i64 \<Rightarrow> enc" where
  "encode_i64 L v = extend_sink (write_signed L v)"

definition encode_usize :: "leb128 \<Rightarrow> usize \<Rightarrow> enc" where
  "encode_usize L n = encs [assert_enc (n \<le> 2 ^ 32 - 1), encode_u32 L (of_nat n)]"

fun encode_f32 :: "ieee32 \<Rightarrow> enc" where
  "encode_f32 (Ieee32 bits) = extend_sink (to_le_bytes 4 (unat bits))"

fun encode_f64 :: "ieee64 \<Rightarrow> enc" where
  "encode_f64 (Ieee64 bits) = extend_sink (to_le_bytes 8 (unat bits))"

definition encode_list :: "leb128 \<Rightarrow> ('a \<Rightarrow> enc) \<Rightarrow> 'a list \<Rightarrow> enc" where
  "encode_list L e xs = encs [encode_usize L (length xs), encs (map e xs)]"

definition encode_bytes :: "leb128 \<Rightarrow> u8 list \<Rightarrow> enc" where
  "encode_bytes L bs = encs [encode_usize L (length bs), extend_sink bs]"

fun encode_option :: "('a \<Rightarrow> enc) \<Rightarrow> 'a option \<Rightarrow> enc" where
  "encode_option e (Some v) = encs [push 0x01, e v]"
| "encode_option e None = push 0x00"

text \<open>\<open>u32::try_from(..).unwrap()\<close> panics exactly when the length does not fit.\<close>

definition encode_vec :: "leb128 \<Rightarrow> ('a \<Rightarrow> enc) \<Rightarrow> 'a list \<Rightarrow> enc" where
  "encode_vec L e xs =
     encs [assert_enc (length xs < 2 ^ 32), encode_u32 L (of_nat (length xs)), encs (map e xs)]"

text \<open>The bytes are written to a buffer of length five; the number written is returned.\<close>

definition encoding_size :: "leb128 \<Rightarrow> u32 \<Rightarrow> usize option" where
  "encoding_size L n =
     (let bs = write_unsigned L (ucast n) in if length bs \<le> 5 then Some (length bs) else None)"

definition encode_section :: "leb128 \<Rightarrow> u32 \<Rightarrow> u8 list \<Rightarrow> enc" where
  "encode_section L count bs =
     (case encoding_size L count of
        None \<Rightarrow> None
      | Some k \<Rightarrow> encs [encode_usize L (k + length bs), encode_u32 L count, extend_sink bs])"

section \<open>What encoders and readers have to do with each other\<close>

text \<open>Whatever the encoder writes, the reader reads as the given value.\<close>

definition reads_back :: "wasm_features \<Rightarrow> 'a rd \<Rightarrow> enc \<Rightarrow> 'a \<Rightarrow> bool" where
  "reads_back fs m e x \<longleftrightarrow> (\<forall>bs. e = Some bs \<longrightarrow> decodes fs m bs x)"

lemma reads_backI: "(\<And>bs. e = Some bs \<Longrightarrow> decodes fs m bs x) \<Longrightarrow> reads_back fs m e x"
  by (simp add: reads_back_def)

lemma reads_backD: "reads_back fs m e x \<Longrightarrow> e = Some bs \<Longrightarrow> decodes fs m bs x"
  by (simp add: reads_back_def)

lemma reads_back_extend: "reads_back fs m (extend_sink bs) x \<longleftrightarrow> decodes fs m bs x"
  by (simp add: reads_back_def extend_sink_def)

lemma encs_Cons_Some:
  "encs (e # es) = Some bs \<longleftrightarrow> (\<exists>b c. e = Some b \<and> encs es = Some c \<and> bs = b @ c)"
  by (auto split: option.splits)

lemma encs_single [simp]: "encs [e] = e"
  by (cases e) simp_all

lemma encs_None_iff: "encs es = None \<longleftrightarrow> None \<in> set es"
  by (induction es) (auto split: option.splits)

declare encs.simps(2) [simp del]

definition no_panic :: "enc \<Rightarrow> bool" where
  "no_panic e \<longleftrightarrow> e \<noteq> None"

lemma no_panic_simps [simp]:
  "no_panic (Some bs)" "no_panic (push b)" "no_panic (extend_sink bs)" "no_panic (assert_enc c) \<longleftrightarrow> c"
  "no_panic (encs es) \<longleftrightarrow> list_all no_panic es"
  by (simp_all add: no_panic_def push_def extend_sink_def assert_enc_def encs_None_iff list_all_iff del: not_None_eq)
    metis

lemma no_panic_if [simp]: "no_panic (if b then e else e') \<longleftrightarrow> (if b then no_panic e else no_panic e')"
  by simp

lemma encs_append_Some:
  "encs (es @ es') = Some bs \<longleftrightarrow> (\<exists>b c. encs es = Some b \<and> encs es' = Some c \<and> bs = b @ c)"
  by (induction es arbitrary: bs) (auto simp: encs_Cons_Some)

lemma encs_map_Some:
  "encs (map e xs) = Some bs \<longleftrightarrow> (\<forall>x \<in> set xs. e x \<noteq> None) \<and> bs = concat (map (\<lambda>x. the (e x)) xs)"
  by (induction xs arbitrary: bs) (auto simp: encs_Cons_Some)

named_theorems rb_intro \<open>readers that read an encoding back\<close>

lemma reads_back_bind:
  assumes "reads_back fs m e x" "reads_back fs (f x) (encs es) y"
  shows "reads_back fs (bind_rd m f) (encs (e # es)) y"
  unfolding reads_back_def encs_Cons_Some
  using decodes_bind [where f = f, OF reads_backD [OF assms(1)] reads_backD [OF assms(2)]] by blast

lemma reads_back_bind_last:
  assumes "reads_back fs m e x" "reads_back fs (f x) (encs []) y"
  shows "reads_back fs (bind_rd m f) e y"
  using reads_back_bind [where f = f, OF assms] by (simp only: encs_single)

lemma reads_back_bind_Nil:
  assumes "decodes fs m [] x" "reads_back fs (f x) e y"
  shows "reads_back fs (bind_rd m f) e y"
  using assms decodes_bind_Nil [of fs m x f] by (auto simp: reads_back_def)

lemma reads_back_push:
  assumes "reads_back fs (f b) (encs es) y"
  shows "reads_back fs (bind_rd read_u8 f) (encs (push b # es)) y"
  by (rule reads_back_bind [where x = b and f = f, OF _ assms]) (simp add: reads_back_def push_def decodes_u8)

lemma reads_back_push_last:
  assumes "reads_back fs (f b) (encs []) y"
  shows "reads_back fs (bind_rd read_u8 f) (push b) y"
  using reads_back_push [where f = f, OF assms] by (simp only: encs_single)

lemma reads_back_peek:
  assumes "reads_back fs (f b) (encs (push b # es)) y"
  shows "reads_back fs (bind_rd peek f) (encs (push b # es)) y"
  using assms decodes_peek_bind [of fs f b] by (auto simp: reads_back_def push_def encs_Cons_Some)

lemma reads_back_return [rb_intro]: "reads_back fs (return_rd x) (encs []) x"
  by (simp add: reads_back_def decodes_return)

lemma reads_back_with_pos:
  "(\<And>p. reads_back fs (f p) e x) \<Longrightarrow> reads_back fs (with_pos f) e x"
  by (simp add: reads_back_def decodes_with_pos)

lemma reads_back_map_err: "reads_back fs m e x \<Longrightarrow> reads_back fs (map_err_rd g m) e x"
  by (simp add: reads_back_def decodes_map_err)

lemma reads_back_assert:
  "(b \<Longrightarrow> reads_back fs m (encs es) x) \<Longrightarrow> reads_back fs m (encs (assert_enc b # es)) x"
  by (auto simp: reads_back_def assert_enc_def encs_Cons_Some split: if_splits)

lemma reads_back_assoc:
  "reads_back fs m (encs (es @ es')) x \<Longrightarrow> reads_back fs m (encs (encs es # es')) x"
  by (auto simp: reads_back_def encs_Cons_Some encs_append_Some)

text \<open>A nested reader gets the bytes that were written for it.\<close>

lemma skip_decodes:
  assumes "decodes fs m bs x" "rd_wf r" "features r = fs" "remaining_buffer r = bs @ rest"
  shows "skip (bind_rd m (\<lambda>_. return_rd ())) r = Inr
    (\<lparr>buffer = bs, position = 0, original_offset = original_offset r + position r, features = fs\<rparr>,
     advance (length bs) r)"
proof -
  have "take (length bs) (drop (position r) (buffer r)) = bs"
    using assms(4) by (simp add: remaining_buffer_def)
  then show ?thesis
    using decodesD [OF assms] assms(3) by (cases r) (simp add: skip_def bind_rd_def return_rd_def advance_def)
qed

lemma reads_back_skip:
  assumes "reads_back fs m e x"
    and "\<And>bs off. e = Some bs \<Longrightarrow>
      reads_back fs (f \<lparr>buffer = bs, position = 0, original_offset = off, features = fs\<rparr>) (encs es) y"
  shows "reads_back fs (bind_rd (skip (bind_rd m (\<lambda>_. return_rd ()))) f) (encs (e # es)) y"
proof (rule reads_backI)
  fix bs
  assume "encs (e # es) = Some bs"
  then obtain b c where b: "e = Some b" "encs es = Some c" "bs = b @ c" by (auto simp: encs_Cons_Some)
  note m = reads_backD [OF assms(1) b(1)]
  show "decodes fs (bind_rd (skip (bind_rd m (\<lambda>_. return_rd ()))) f) bs y"
    unfolding decodes_def b(3)
  proof (intro allI impI)
    fix r rest
    assume r: "rd_wf r" "features r = fs" "remaining_buffer r = (b @ c) @ rest"
    then have "remaining_buffer r = b @ c @ rest" by simp
    note s = skip_decodes [OF m r(1,2) this]
    have "f \<lparr>buffer = b, position = 0, original_offset = original_offset r + position r, features = fs\<rparr> (advance (length b) r)
        = Inr (y, advance (length c) (advance (length b) r))"
      using r by (intro decodesD [OF reads_backD [OF assms(2) [OF b(1)] b(2)]])
        (auto simp: remaining_advance intro: rd_wf_advance)
    then show "bind_rd (skip (bind_rd m (\<lambda>_. return_rd ()))) f r = Inr (y, advance (length (b @ c)) r)"
      by (simp add: bind_rd_def s add.commute)
  qed
qed

section \<open>Integers\<close>

lemma leb128_unsigned:
  assumes "leb128_ok L"
  shows "leb_bytes (write_unsigned L v)" "uleb_value (write_unsigned L v) = unat v"
    and "0 < n \<Longrightarrow> unat v < 2 ^ (7 * n) \<Longrightarrow> length (write_unsigned L v) \<le> n"
  using assms by (auto simp: leb128_ok_def writes_unsigned_def)

lemma leb128_signed:
  assumes "leb128_ok L"
  shows "leb_bytes (write_signed L v)" "sleb_value (write_signed L v) = sint v"
    and "0 < n \<Longrightarrow> - (2 ^ (7 * n - 1)) \<le> sint v \<Longrightarrow> sint v < 2 ^ (7 * n - 1) \<Longrightarrow>
      length (write_signed L v) \<le> n"
  using assms by (auto simp: leb128_ok_def writes_signed_def)

lemma unat_ucast_u32: "unat (ucast (v :: u32) :: u64) = unat v"
proof -
  have "unat v < 2 ^ LENGTH(32)" by (rule unsigned_less)
  then show ?thesis by (simp add: unsigned_ucast_eq take_bit_nat_eq_self)
qed

lemma decodes_write_u32:
  assumes "leb128_ok L"
  shows "decodes fs read_var_u32 (write_unsigned L (ucast (v :: u32))) v"
proof (rule decodes_var_u32)
  have less: "unat v < 2 ^ 32" using unsigned_less [of v] by simp
  then show "length (write_unsigned L (ucast v)) \<le> 5"
    by (intro leb128_unsigned(3) [OF assms]) (simp_all add: unat_ucast_u32)
  show "uleb_value (write_unsigned L (ucast v)) < 2 ^ 32"
    using less by (simp add: leb128_unsigned [OF assms] unat_ucast_u32)
qed (simp_all add: leb128_unsigned [OF assms] unat_ucast_u32)

lemma decodes_write_u64:
  assumes "leb128_ok L"
  shows "decodes fs read_var_u64 (write_unsigned L v) v"
proof (rule decodes_var_u64)
  have less: "unat v < 2 ^ 64" using unsigned_less [of v] by simp
  then show "length (write_unsigned L v) \<le> 10"
    by (intro leb128_unsigned(3) [OF assms]) simp_all
  show "uleb_value (write_unsigned L v) < 2 ^ 64" using less by (simp add: leb128_unsigned [OF assms])
qed (simp_all add: leb128_unsigned [OF assms])

lemma decodes_write_i32:
  assumes "leb128_ok L"
  shows "decodes fs read_var_i32 (write_signed L (scast (v :: i32))) v"
proof (rule decodes_var_i32)
  have range: "- (2 ^ 31) \<le> sint v" "sint v < 2 ^ 31"
    using sint_greater_eq [of v] sint_less [of v] by simp_all
  have s: "sint (scast v :: i64) = sint v" using range by (simp add: signed_scast_eq signed_take_bit_int_eq_self)
  show "length (write_signed L (scast v)) \<le> 5"
    using range by (intro leb128_signed(3) [OF assms]) (simp_all add: s)
  show "- (2 ^ 31) \<le> sleb_value (write_signed L (scast v))" "sleb_value (write_signed L (scast v)) < 2 ^ 31"
    "v = word_of_int (sleb_value (write_signed L (scast v)))"
    using range by (simp_all add: leb128_signed [OF assms] s)
qed (simp add: leb128_signed [OF assms])

lemma decodes_write_i64:
  assumes "leb128_ok L"
  shows "decodes fs read_var_i64 (write_signed L v) v"
proof (rule decodes_var_i64)
  have range: "- (2 ^ 63) \<le> sint v" "sint v < 2 ^ 63"
    using sint_greater_eq [of v] sint_less [of v] by simp_all
  then show "length (write_signed L v) \<le> 10"
    by (intro leb128_signed(3) [OF assms]) simp_all
  show "- (2 ^ 63) \<le> sleb_value (write_signed L v)" "sleb_value (write_signed L v) < 2 ^ 63"
    "v = word_of_int (sleb_value (write_signed L v))"
    using range by (simp_all add: leb128_signed [OF assms])
qed (simp add: leb128_signed [OF assms])

lemma reads_back_u32 [rb_intro]: "leb128_ok L \<Longrightarrow> reads_back fs read_var_u32 (encode_u32 L v) v"
  by (simp add: encode_u32_def reads_back_extend decodes_write_u32)

lemma reads_back_u64 [rb_intro]: "leb128_ok L \<Longrightarrow> reads_back fs read_var_u64 (encode_u64 L v) v"
  by (simp add: encode_u64_def reads_back_extend decodes_write_u64)

lemma reads_back_i32 [rb_intro]: "leb128_ok L \<Longrightarrow> reads_back fs read_var_i32 (encode_i32 L v) v"
  by (simp add: encode_i32_def reads_back_extend decodes_write_i32)

lemma reads_back_i64 [rb_intro]: "leb128_ok L \<Longrightarrow> reads_back fs read_var_i64 (encode_i64 L v) v"
  by (simp add: encode_i64_def reads_back_extend decodes_write_i64)

section \<open>Type indices\<close>

text \<open>A type index is written as a signed integer and read by \<open>read_var_s33\<close>.\<close>

lemma sint_ucast_u32: "sint (ucast (v :: u32) :: i64) = uint v"
proof -
  have less: "uint v < 2 ^ LENGTH(32)" "0 \<le> uint v" by (rule unsigned_less) simp
  have "- (2 ^ 63) \<le> uint v" "uint v < 2 ^ 63"
    by (rule order_trans [OF _ less(2)], simp, rule order_less_le_trans [OF less(1)], simp)
  then show ?thesis by (simp add: signed_ucast_eq signed_take_bit_int_eq_self)
qed

lemma write_index:
  assumes "leb128_ok L"
  shows "leb_bytes (write_signed L (ucast (v :: u32)))"
    and "sleb_value (write_signed L (ucast v)) = uint v"
    and "length (write_signed L (ucast v)) \<le> 5"
proof -
  have less: "uint v < 2 ^ LENGTH(32)" "0 \<le> uint v" by (rule unsigned_less) simp
  show "length (write_signed L (ucast v)) \<le> 5"
  proof (rule leb128_signed(3) [OF assms], unfold sint_ucast_u32)
    show "- (2 ^ (7 * 5 - 1)) \<le> uint v" by (rule order_trans [OF _ less(2)]) simp
    show "uint v < 2 ^ (7 * 5 - 1)" by (rule order_less_le_trans [OF less(1)]) simp
  qed simp
qed (simp_all add: leb128_signed [OF assms] sint_ucast_u32)

lemma decodes_write_index:
  assumes "leb128_ok L"
  shows "decodes fs read_var_s33 (write_signed L (ucast (v :: u32))) (ucast v)"
proof -
  define bs where "bs = write_signed L (ucast v)"
  note bs = write_index [OF assms, of v, folded bs_def]
  have less: "uint v < 2 ^ LENGTH(32)" "0 \<le> uint v" by (rule unsigned_less) simp
  have ge: "- (2 ^ 32) \<le> uint v" by (rule order_trans [OF _ less(2)]) simp
  have "bs \<noteq> []" using bs(1) by auto
  from uleb_sleb_eq [OF this] have u: "int (uleb_value bs) = uint v" by (simp add: bs)
  have v: "(ucast v :: i64) = word_of_int (uint v)" by (rule ucast_eq)
  have "read_var_s33 r = Inr (word_of_int (uint v), advance (length bs) r)"
    if "remaining_buffer r = bs @ rest" for r rest
    unfolding read_var_s33_iff using that bs less(1) ge u
    by (intro exI [of _ bs] exI [of _ rest]) simp
  then show ?thesis unfolding v decodes_def bs_def by blast
qed

lemma reads_back_index: "leb128_ok L \<Longrightarrow> reads_back fs read_var_s33 (encode_i64 L (ucast (v :: u32))) (ucast v)"
  by (simp add: encode_i64_def reads_back_extend decodes_write_index)

lemma u32_try_from_ucast [simp]: "u32_try_from_i64 (ucast (v :: u32)) = Some v"
proof -
  have less: "uint v < 2 ^ LENGTH(32)" "0 \<le> uint v" by (rule unsigned_less) simp
  then have "uint (ucast v :: i64) = uint v" by (simp add: unsigned_ucast_eq take_bit_int_eq_self)
  then have "ucast (ucast v :: i64) = v" by (simp add: ucast_eq [where w = "ucast v :: i64"])
  with less show ?thesis by (simp add: u32_try_from_i64_def sint_ucast_u32)
qed

text \<open>The first byte of an index is told apart from the bytes of the other types.\<close>

lemma write_index_first:
  assumes "leb128_ok L" "write_signed L (ucast (v :: u32)) = b # bs"
  shows "128 \<le> unat b \<or> unat b < 64"
proof (cases bs)
  case Nil
  have "unat b < 128" "0 \<le> sleb_value [b]"
    using write_index [OF assms(1), of v] assms(2) Nil by auto
  then show ?thesis by (simp del: of_nat_unat split: if_splits)
next
  case Cons
  then show ?thesis using write_index(1) [OF assms(1), of v] assms(2) by simp
qed

section \<open>Floats\<close>

lemma decodes_le:
  assumes "length bs = k"
    and "\<And>r. m r = bind_rd (ensure_has_bytes k) (\<lambda>_ r.
           Inr (f (take k (drop (position r) (buffer r))), r\<lparr>position := position r + k\<rparr>)) r"
  shows "decodes fs m bs (f bs)"
proof -
  have "m = (\<lambda>r. bind_rd (read_bytes k) (\<lambda>bs. return_rd (f bs)) r)"
    by (rule ext) (simp add: assms(2) read_bytes_def bind_rd_def return_rd_def split: sum.split)
  then have "m = bind_rd (read_bytes k) (\<lambda>bs. return_rd (f bs))" by simp
  then show ?thesis
    using decodes_bind [where f = "\<lambda>bs. return_rd (f bs)", OF decodes_read_bytes [OF assms(1)] decodes_return]
    by simp
qed

lemma reads_back_f32 [rb_intro]: "reads_back fs read_f32 (encode_f32 x) x"
proof (cases x)
  case (Ieee32 bits)
  have "unat bits < 2 ^ LENGTH(32)" by (rule unsigned_less)
  then have "of_nat (nat_from_le_bytes (to_le_bytes 4 (unat bits))) = bits"
    by (simp add: nat_from_to_le_bytes)
  moreover have "decodes fs read_u32 (to_le_bytes 4 (unat bits))
      (of_nat (nat_from_le_bytes (to_le_bytes 4 (unat bits))))"
    by (rule decodes_le [where k = 4]) (simp_all add: read_u32_def)
  ultimately have "decodes fs read_u32 (to_le_bytes 4 (unat bits)) bits" by simp
  from decodes_bind [where f = "\<lambda>value. return_rd (Ieee32 value)", OF this decodes_return]
  show ?thesis by (simp add: Ieee32 reads_back_extend read_f32_def)
qed

lemma reads_back_f64 [rb_intro]: "reads_back fs read_f64 (encode_f64 x) x"
proof (cases x)
  case (Ieee64 bits)
  have "unat bits < 2 ^ LENGTH(64)" by (rule unsigned_less)
  then have "of_nat (nat_from_le_bytes (to_le_bytes 8 (unat bits))) = bits"
    by (simp add: nat_from_to_le_bytes)
  moreover have "decodes fs read_u64 (to_le_bytes 8 (unat bits))
      (of_nat (nat_from_le_bytes (to_le_bytes 8 (unat bits))))"
    by (rule decodes_le [where k = 8]) (simp_all add: read_u64_def)
  ultimately have "decodes fs read_u64 (to_le_bytes 8 (unat bits)) bits" by simp
  from decodes_bind [where f = "\<lambda>value. return_rd (Ieee64 value)", OF this decodes_return]
  show ?thesis by (simp add: Ieee64 reads_back_extend read_f64_def)
qed

section \<open>Lists\<close>

lemma reads_back_size:
  assumes "leb128_ok L" "n \<le> limit"
  shows "reads_back fs (read_size limit desc) (encode_usize L n) n"
proof (rule reads_backI)
  fix bs
  assume "encode_usize L n = Some bs"
  then have "n < 2 ^ 32" "bs = write_unsigned L (ucast (of_nat n :: u32))"
    by (auto simp: encode_usize_def encs_Cons_Some assert_enc_def encode_u32_def extend_sink_def
        split: if_splits)
  then show "decodes fs (read_size limit desc) bs n"
    using decodes_size [OF decodes_write_u32 [where v = "of_nat n", OF assms(1)], where limit = limit and desc = desc] assms(2)
    by simp
qed

lemma reads_back_items:
  assumes "list_all2 (\<lambda>z x. reads_back fs item (e z) x) zs xs"
  shows "reads_back fs (read_items item (length zs)) (encs (map e zs)) xs"
  using assms
proof (induction zs xs)
  case (Cons z zs x xs)
  have "reads_back fs (bind_rd (read_items item (length zs)) (\<lambda>xs. return_rd (x # xs))) (encs (map e zs)) (x # xs)"
    by (rule reads_back_bind_last [OF Cons(3)]) (rule reads_back_return)
  with Cons(1) show ?case
    unfolding length_Cons read_items.simps list.map by (rule reads_back_bind)
qed (simp add: reads_back_return [unfolded encs.simps])

lemma reads_back_iter:
  assumes "leb128_ok L" "length zs \<le> limit" "list_all2 (\<lambda>z x. reads_back fs item (e z) x) zs xs"
  shows "reads_back fs (read_iter limit desc item) (encode_list L e zs) xs"
proof -
  have "reads_back fs (read_items item (length zs)) (encs [encs (map e zs)]) xs"
    using reads_back_items [OF assms(3)] by (simp only: encs_single)
  then show ?thesis
    unfolding read_iter_def encode_list_def by (rule reads_back_bind [OF reads_back_size [OF assms(1,2)]])
qed

section \<open>A reference implementation of the crate leb128\<close>

fun uleb_encode :: "nat \<Rightarrow> u8 list" where
  "uleb_encode n =
     (if n < 128 then [of_nat n] else of_nat (128 + n mod 128) # uleb_encode (n div 128))"

function sleb_encode :: "int \<Rightarrow> u8 list" where
  "sleb_encode v =
     (if - 64 \<le> v \<and> v < 64 then [word_of_int (v mod 128)]
      else word_of_int (128 + v mod 128) # sleb_encode (v div 128))"
  by pat_completeness auto
termination
  by (relation "measure (\<lambda>v. nat \<bar>v\<bar>)") (auto simp: abs_if)

declare uleb_encode.simps [simp del] sleb_encode.simps [simp del]

definition leb128_reference :: leb128 where
  "leb128_reference = \<lparr>write_unsigned = \<lambda>v. uleb_encode (unat v), write_signed = \<lambda>v. sleb_encode (sint v)\<rparr>"

lemma uleb_encode_correct: "leb_bytes (uleb_encode n) \<and> uleb_value (uleb_encode n) = n"
proof (induction n rule: uleb_encode.induct)
  case (1 n)
  have "uleb_encode m \<noteq> []" for m by (subst uleb_encode.simps) simp
  moreover have "unat (of_nat (128 + n mod 128) :: u8) = 128 + n mod 128"
    by (simp only: unat_of_nat) simp
  moreover have "unat (of_nat n :: u8) = n" if "n < 128" using that by (simp add: unat_of_nat)
  ultimately show ?case
    using 1 by (subst (1 2) uleb_encode.simps) (simp add: mod_mult_div_eq)
qed

lemma uleb_encode_length: "0 < k \<Longrightarrow> n < 2 ^ (7 * k) \<Longrightarrow> length (uleb_encode n) \<le> k"
proof (induction n arbitrary: k rule: uleb_encode.induct)
  case (1 n)
  show ?case
  proof (cases "n < 128")
    case False
    then have "k \<noteq> 1" using 1(3) by auto
    with 1(2) obtain j where j: "k = Suc j" "0 < j" by (cases k) auto
    then have "n div 128 < 2 ^ (7 * j)" using 1(3) by (simp add: power_add less_mult_imp_div_less)
    with False j 1(1) show ?thesis by (subst uleb_encode.simps) simp
  qed (use 1(2) in \<open>subst uleb_encode.simps, simp\<close>)
qed

lemma sleb_encode_correct: "leb_bytes (sleb_encode v) \<and> sleb_value (sleb_encode v) = v"
proof (induction v rule: sleb_encode.induct)
  case (1 v)
  define m where "m = v mod 128"
  define b c where "b = (word_of_int m :: u8)" and "c = (word_of_int (128 + m) :: u8)"
  have m: "0 \<le> m" "m < 128" by (simp_all add: m_def)
  have "take_bit 8 m = m" "take_bit 8 (128 + m) = 128 + m"
    using m by (intro take_bit_int_eq_self; simp)+
  then have u: "unat b = nat m" "unat c = nat (128 + m)"
    unfolding b_def c_def by (simp_all only: unsigned_of_int) simp_all
  have ne: "sleb_encode w \<noteq> []" for w by (subst sleb_encode.simps) simp
  show ?case
  proof (cases "- 64 \<le> v \<and> v < 64")
    case True
    then have e: "sleb_encode v = [b]"
      by (subst sleb_encode.simps) (simp add: b_def m_def)
    have "v mod 128 = (if 0 \<le> v then v else v + 128)"
      using True by presburger
    with True have "m = (if 0 \<le> v then v else v + 128)" by (simp add: m_def)
    with True m show ?thesis unfolding e by (auto simp: u nat_less_iff)
  next
    case False
    then have e: "sleb_encode v = c # sleb_encode (v div 128)"
      by (subst sleb_encode.simps) (simp only: c_def m_def if_False)
    have "nat (128 + m) mod 128 = nat m" using m by (simp add: nat_add_distrib)
    moreover have "128 * (v div 128) + m = v" by (simp add: m_def)
    ultimately show ?thesis
      unfolding e using 1 False ne m by (simp add: u)
  qed
qed

lemma sleb_encode_length:
  "0 < k \<Longrightarrow> - (2 ^ (7 * k - 1)) \<le> v \<Longrightarrow> v < 2 ^ (7 * k - 1) \<Longrightarrow> length (sleb_encode v) \<le> k"
proof (induction v arbitrary: k rule: sleb_encode.induct)
  case (1 v)
  show ?case
  proof (cases "- 64 \<le> v \<and> v < 64")
    case False
    then have "k \<noteq> 1" using 1(3,4) by auto
    with 1(2) obtain j where j: "k = Suc j" "0 < j" by (cases k) auto
    define p where "p = (2 :: int) ^ (7 * j - 1)"
    have "(2 :: int) ^ (7 * k - 1) = 128 * p"
      using j by (cases j) (simp_all add: p_def power_add)
    then have "- p \<le> v div 128" "v div 128 < p" using 1(3,4) by simp_all
    with False j 1(1) show ?thesis by (subst sleb_encode.simps) (simp add: p_def)
  qed (use 1(2) in \<open>subst sleb_encode.simps, simp\<close>)
qed

lemma leb128_reference_ok: "leb128_ok leb128_reference"
  by (simp add: leb128_ok_def writes_unsigned_def writes_signed_def leb128_reference_def
      uleb_encode_correct uleb_encode_length sleb_encode_correct sleb_encode_length)

section \<open>What can be read can be encoded again\<close>

text \<open>
  The contract between a reader of wasmparser, the translation \<open>re\<close> of what it read into the types
  of wasm-encoder, and the encoder \<open>enc\<close> of those types. \<open>ok\<close> characterises what the reader returns
  under given features, and \<open>view\<close> is what has to be preserved: values that remember the place they
  were read from are compared without it.
\<close>

locale reencodable =
  fixes read :: "'a rd"
    and ok :: "wasm_features \<Rightarrow> 'a \<Rightarrow> bool"
    and re :: "'a \<Rightarrow> 'e + 'b"
    and enc :: "leb128 \<Rightarrow> 'b \<Rightarrow> enc"
    and view :: "'a \<Rightarrow> 'v"
  assumes read_ok: "returns fs read (ok fs)"
    and re_total: "ok fs x \<Longrightarrow> \<exists>y. re x = Inr y"
    and enc_total: "ok fs x \<Longrightarrow> re x = Inr y \<Longrightarrow> no_panic (enc L y)"
    and read_back: "leb128_ok L \<Longrightarrow> ok fs x \<Longrightarrow> re x = Inr y \<Longrightarrow>
      reads_back fs (bind_rd read (\<lambda>x. return_rd (view x))) (enc L y) (view x)"
begin

lemma round_trip:
  assumes "leb128_ok L" "read r = Inr (x, r')"
  shows "\<exists>y bs. re x = Inr y \<and> enc L y = Some bs \<and>
    (\<forall>r2 rest. rd_wf r2 \<and> features r2 = features r \<and> remaining_buffer r2 = bs @ rest \<longrightarrow>
      (\<exists>x2. read r2 = Inr (x2, advance (length bs) r2) \<and> view x2 = view x))"
proof -
  have ok: "ok (features r) x" by (rule returnsD [OF read_ok refl assms(2)])
  from re_total [OF this] obtain y where y: "re x = Inr y" ..
  from enc_total [OF ok y] obtain bs where bs: "enc L y = Some bs" by (auto simp: no_panic_def)
  have "\<exists>x2. read r2 = Inr (x2, advance (length bs) r2) \<and> view x2 = view x"
    if "rd_wf r2" "features r2 = features r" "remaining_buffer r2 = bs @ rest" for r2 rest
    using decodesD [OF reads_backD [OF read_back [OF assms(1) ok y] bs] that]
    by (auto simp: bind_rd_def return_rd_def split: sum.splits)
  with y bs show ?thesis by blast
qed

end

lemma reads_back_u8_cong:
  assumes "reads_back fs (bind_rd read_u8 g) e x" "\<And>b bs. e = Some (b # bs) \<Longrightarrow> f b = g b" "e \<noteq> Some []"
  shows "reads_back fs (bind_rd read_u8 f) e x"
proof (rule reads_backI)
  fix bs
  assume e: "e = Some bs"
  with assms(3) obtain b cs where bs: "bs = b # cs" by (cases bs) auto
  have "decodes fs (bind_rd read_u8 g) bs x" using assms(1) e by (rule reads_backD)
  moreover have "bind_rd read_u8 f r = bind_rd read_u8 g r" if "remaining_buffer r = bs @ rest" for r rest
    using that assms(2) e by (simp add: bs bind_rd_def remaining_Cons_read_u8)
  ultimately show "decodes fs (bind_rd read_u8 f) bs x" by (simp add: decodes_def)
qed

lemma encs_assoc: "encs (encs es # es') = encs (es @ es')"
proof (induction es)
  case (Cons e es)
  then show ?case by (cases e; cases "encs es"; cases "encs es'") (simp_all add: encs.simps(2) flip: Cons)
qed (cases "encs es'"; simp add: encs.simps(2))

lemma encs_nested: "encs (es @ encs es' # es'') = encs (es @ es' @ es'')"
proof (induction es)
  case (Cons e es)
  show ?case by (simp only: append_Cons encs.simps(2) Cons)
qed (simp add: encs_assoc)

lemma encs_Nil_Cons [simp]: "encs (Some [] # es) = encs es"
  by (cases "encs es") (simp_all add: encs.simps(2))

lemma reads_back_peek_first:
  assumes "\<And>b bs. e = Some (b # bs) \<Longrightarrow> reads_back fs (f b) e x" "e \<noteq> Some []"
  shows "reads_back fs (bind_rd peek f) e x"
proof (rule reads_backI)
  fix bs
  assume e: "e = Some bs"
  with assms(2) obtain b cs where bs: "bs = b # cs" by (cases bs) auto
  with e assms(1) have "decodes fs (f b) (b # cs) x" by (auto simp: reads_back_def)
  then show "decodes fs (bind_rd peek f) bs x" unfolding bs by (rule decodes_peek_bind)
qed

lemma no_panic_ints [simp]:
  "no_panic (encode_u32 L v)" "no_panic (encode_i32 L v)" "no_panic (encode_u64 L w)" "no_panic (encode_i64 L w)"
  by (simp_all add: encode_u32_def encode_i32_def encode_u64_def encode_i64_def)

lemma no_panic_floats [simp]: "no_panic (encode_f32 x)" "no_panic (encode_f64 y)"
  by (cases x, simp) (cases y, simp)

lemma no_panic_usize [simp]: "no_panic (encode_usize L n) \<longleftrightarrow> n < 2 ^ 32"
  by (auto simp: encode_usize_def)

lemma no_panic_list [simp]:
  "no_panic (encode_list L e xs) \<longleftrightarrow> length xs < 2 ^ 32 \<and> list_all (\<lambda>x. no_panic (e x)) xs"
  by (auto simp: encode_list_def list_all_iff)

lemma no_panic_option [simp]: "(\<And>x. no_panic (e x)) \<Longrightarrow> no_panic (encode_option e v)"
  by (cases v) simp_all

end
