(* ===== verification/Enc_Types.thy ===== *)
theory Enc_Types
  imports Encode Type_Readers
begin

text \<open>
  The types of crates/wasm-encoder/src/core/types.rs with their implementations of \<open>Encode\<close>, and
  the translation of wasmparser's types into them, of crates/wasm-encoder/src/reencode.rs.

  The functions of the trait \<open>Reencode\<close> are hooks; the model has their defaults, which the type
  \<open>RoundtripReencoder\<close> uses and which map every index to itself.
\<close>

section \<open>Types\<close>

datatype enc_abstract_heap_type = EFunc | EExtern | EAny | ENone | ENoExtern | ENoFunc | EEq
  | EStruct | EArray | EI31 | EExn | ENoExn | ECont | ENoCont

datatype enc_heap_type = EAbstract bool enc_abstract_heap_type | EConcrete u32

record enc_ref_type =
  er_nullable :: bool
  er_heap_type :: enc_heap_type

datatype enc_val_type = EI32 | EI64 | EF32 | EF64 | EV128 | ERef enc_ref_type

datatype enc_storage_type = EStorageI8 | EStorageI16 | EVal enc_val_type

record enc_field_type =
  ef_element_type :: enc_storage_type
  ef_mutable :: bool

record enc_func_type =
  efn_params_results :: "enc_val_type list"
  efn_len_params :: usize

definition enc_func_params :: "enc_func_type \<Rightarrow> enc_val_type list" where
  "enc_func_params ft = take (efn_len_params ft) (efn_params_results ft)"

definition enc_func_results :: "enc_func_type \<Rightarrow> enc_val_type list" where
  "enc_func_results ft = drop (efn_len_params ft) (efn_params_results ft)"

datatype enc_array_type = EArrayType enc_field_type
datatype enc_struct_type = EStructType "enc_field_type list"
datatype enc_cont_type = EContType u32

datatype enc_composite_inner_type =
    ECompFunc enc_func_type | ECompArray enc_array_type | ECompStruct enc_struct_type
  | ECompCont enc_cont_type

record enc_composite_type =
  ec_inner :: enc_composite_inner_type
  ec_shared :: bool

record enc_sub_type =
  es_is_final :: bool
  es_supertype_idx :: "u32 option"
  es_composite_type :: enc_composite_type

section \<open>Encoding\<close>

fun encode_abstract_heap_type :: "enc_abstract_heap_type \<Rightarrow> enc" where
  "encode_abstract_heap_type EFunc = push 0x70"
| "encode_abstract_heap_type EExtern = push 0x6F"
| "encode_abstract_heap_type EAny = push 0x6E"
| "encode_abstract_heap_type ENone = push 0x71"
| "encode_abstract_heap_type ENoExtern = push 0x72"
| "encode_abstract_heap_type ENoFunc = push 0x73"
| "encode_abstract_heap_type EEq = push 0x6D"
| "encode_abstract_heap_type EStruct = push 0x6B"
| "encode_abstract_heap_type EArray = push 0x6A"
| "encode_abstract_heap_type EI31 = push 0x6C"
| "encode_abstract_heap_type EExn = push 0x69"
| "encode_abstract_heap_type ENoExn = push 0x74"
| "encode_abstract_heap_type ECont = push 0x68"
| "encode_abstract_heap_type ENoCont = push 0x75"

fun encode_heap_type :: "leb128 \<Rightarrow> enc_heap_type \<Rightarrow> enc" where
  "encode_heap_type L (EAbstract shared ty) =
     (if shared then encs [push 0x65, encode_abstract_heap_type ty] else encode_abstract_heap_type ty)"
| "encode_heap_type L (EConcrete i) = encode_i64 L (ucast i)"

definition encode_ref_type :: "leb128 \<Rightarrow> enc_ref_type \<Rightarrow> enc" where
  "encode_ref_type L rt =
     (case (er_nullable rt, er_heap_type rt) of
        (True, EAbstract shared ty) \<Rightarrow> encode_heap_type L (EAbstract shared ty)
      | (True, heap_type) \<Rightarrow> encs [push 0x63, encode_heap_type L heap_type]
      | (False, heap_type) \<Rightarrow> encs [push 0x64, encode_heap_type L heap_type])"

fun encode_val_type :: "leb128 \<Rightarrow> enc_val_type \<Rightarrow> enc" where
  "encode_val_type L EI32 = push 0x7F"
| "encode_val_type L EI64 = push 0x7E"
| "encode_val_type L EF32 = push 0x7D"
| "encode_val_type L EF64 = push 0x7C"
| "encode_val_type L EV128 = push 0x7B"
| "encode_val_type L (ERef rt) = encode_ref_type L rt"

fun encode_storage_type :: "leb128 \<Rightarrow> enc_storage_type \<Rightarrow> enc" where
  "encode_storage_type L EStorageI8 = push 0x78"
| "encode_storage_type L EStorageI16 = push 0x77"
| "encode_storage_type L (EVal vt) = encode_val_type L vt"

definition encode_field :: "leb128 \<Rightarrow> enc_field_type \<Rightarrow> enc" where
  "encode_field L f = encs [encode_storage_type L (ef_element_type f), push (of_bool (ef_mutable f))]"

definition encode_function :: "leb128 \<Rightarrow> enc_val_type list \<Rightarrow> enc_val_type list \<Rightarrow> enc" where
  "encode_function L params results = encs
     [push 0x60, encode_usize L (length params), encs (map (encode_val_type L) params),
      encode_usize L (length results), encs (map (encode_val_type L) results)]"

fun encode_array :: "leb128 \<Rightarrow> enc_array_type \<Rightarrow> enc" where
  "encode_array L (EArrayType ty) = encs [push 0x5e, encode_field L ty]"

fun encode_struct :: "leb128 \<Rightarrow> enc_struct_type \<Rightarrow> enc" where
  "encode_struct L (EStructType flds) =
     encs [push 0x5f, encode_usize L (length flds), encs (map (encode_field L) flds)]"

fun encode_cont :: "leb128 \<Rightarrow> enc_cont_type \<Rightarrow> enc" where
  "encode_cont L (EContType ty) = encs [push 0x5d, encode_i64 L (ucast ty)]"

fun encode_composite_inner :: "leb128 \<Rightarrow> enc_composite_inner_type \<Rightarrow> enc" where
  "encode_composite_inner L (ECompFunc ty) = encode_function L (enc_func_params ty) (enc_func_results ty)"
| "encode_composite_inner L (ECompArray ty) = encode_array L ty"
| "encode_composite_inner L (ECompStruct ty) = encode_struct L ty"
| "encode_composite_inner L (ECompCont ty) = encode_cont L ty"

text \<open>
  \<open>CoreTypeEncoder::encode_subtype\<close>; the flag \<open>prefix\<close> is the field
  \<open>push_prefix_if_component_core_type\<close>, which a \<open>TypeSection\<close> sets to false.
\<close>

definition encode_subtype :: "leb128 \<Rightarrow> bool \<Rightarrow> enc_sub_type \<Rightarrow> enc" where
  "encode_subtype L prefix ty = encs
     [if es_supertype_idx ty \<noteq> None \<or> \<not> es_is_final ty
      then encs
        [if es_is_final ty then push 0x4f
         else encs [if prefix then push 0x00 else encs [], push 0x50],
         encode_option (encode_u32 L) (es_supertype_idx ty)]
      else encs [],
      if ec_shared (es_composite_type ty) then push 0x65 else encs [],
      encode_composite_inner L (ec_inner (es_composite_type ty))]"

definition encode_rec :: "leb128 \<Rightarrow> enc_sub_type list \<Rightarrow> enc" where
  "encode_rec L types =
     encs [push 0x4e, encode_usize L (length types), encs (map (encode_subtype L False) types)]"

section \<open>Re-encoding\<close>

text \<open>\<open>reencode::Error\<close>; its variant \<open>UserError\<close> carries an \<open>Infallible\<close> by default.\<close>

datatype reencode_error = CanonicalizedHeapTypeReference | InvalidConstExpr | InvalidCodeSectionSize
  | UnexpectedNonCoreModuleSection | UnexpectedNonComponentSection | UnsupportedCoreTypeInComponent
  | ParseError binary_reader_error

definition type_index_unpacked :: "unpacked_index \<Rightarrow> reencode_error + u32" where
  "type_index_unpacked ty = ok_or CanonicalizedHeapTypeReference (as_module_index ty)"

fun re_abstract_heap_type :: "abstract_heap_type \<Rightarrow> enc_abstract_heap_type" where
  "re_abstract_heap_type AFunc = EFunc"
| "re_abstract_heap_type AExtern = EExtern"
| "re_abstract_heap_type AAny = EAny"
| "re_abstract_heap_type ANone = ENone"
| "re_abstract_heap_type ANoExtern = ENoExtern"
| "re_abstract_heap_type ANoFunc = ENoFunc"
| "re_abstract_heap_type AEq = EEq"
| "re_abstract_heap_type AStruct = EStruct"
| "re_abstract_heap_type AArray = EArray"
| "re_abstract_heap_type AI31 = EI31"
| "re_abstract_heap_type AExn = EExn"
| "re_abstract_heap_type ANoExn = ENoExn"
| "re_abstract_heap_type ACont = ECont"
| "re_abstract_heap_type ANoCont = ENoCont"

fun re_heap_type :: "heap_type \<Rightarrow> reencode_error + enc_heap_type" where
  "re_heap_type (Concrete i) = bind_res (type_index_unpacked i) (\<lambda>i. Inr (EConcrete i))"
| "re_heap_type (Abstract shared ty) = Inr (EAbstract shared (re_abstract_heap_type ty))"

definition re_ref_type :: "ref_type \<Rightarrow> reencode_error + enc_ref_type" where
  "re_ref_type rt = bind_res (re_heap_type (the (ref_heap_type rt)))
     (\<lambda>h. Inr \<lparr>er_nullable = is_nullable rt, er_heap_type = h\<rparr>)"

fun re_val_type :: "val_type \<Rightarrow> reencode_error + enc_val_type" where
  "re_val_type I32 = Inr EI32"
| "re_val_type I64 = Inr EI64"
| "re_val_type F32 = Inr EF32"
| "re_val_type F64 = Inr EF64"
| "re_val_type V128 = Inr EV128"
| "re_val_type (Ref r) = bind_res (re_ref_type r) (\<lambda>r. Inr (ERef r))"

fun re_storage_type :: "storage_type \<Rightarrow> reencode_error + enc_storage_type" where
  "re_storage_type StorageI8 = Inr EStorageI8"
| "re_storage_type StorageI16 = Inr EStorageI16"
| "re_storage_type (Val v) = bind_res (re_val_type v) (\<lambda>v. Inr (EVal v))"

definition re_field_type :: "field_type \<Rightarrow> reencode_error + enc_field_type" where
  "re_field_type f = bind_res (re_storage_type (element_type f))
     (\<lambda>ty. Inr \<lparr>ef_element_type = ty, ef_mutable = field_mutable f\<rparr>)"

definition re_func_type :: "func_type \<Rightarrow> reencode_error + enc_func_type" where
  "re_func_type ft = bind_res (collect_res re_val_type (func_params ft @ func_results ft))
     (\<lambda>buf. Inr \<lparr>efn_params_results = buf, efn_len_params = length (func_params ft)\<rparr>)"

fun re_array_type :: "array_type \<Rightarrow> reencode_error + enc_array_type" where
  "re_array_type (ArrayType f) = bind_res (re_field_type f) (\<lambda>f. Inr (EArrayType f))"

fun re_struct_type :: "struct_type \<Rightarrow> reencode_error + enc_struct_type" where
  "re_struct_type (StructType fs) = bind_res (collect_res re_field_type fs) (\<lambda>fs. Inr (EStructType fs))"

fun re_cont_type :: "cont_type \<Rightarrow> reencode_error + enc_cont_type" where
  "re_cont_type (ContType i) = bind_res (type_index_unpacked (the (unpack i))) (\<lambda>i. Inr (EContType i))"

fun re_composite_inner_type :: "composite_inner_type \<Rightarrow> reencode_error + enc_composite_inner_type" where
  "re_composite_inner_type (CompFunc f) = bind_res (re_func_type f) (\<lambda>f. Inr (ECompFunc f))"
| "re_composite_inner_type (CompArray a) = bind_res (re_array_type a) (\<lambda>a. Inr (ECompArray a))"
| "re_composite_inner_type (CompStruct s) = bind_res (re_struct_type s) (\<lambda>s. Inr (ECompStruct s))"
| "re_composite_inner_type (CompCont c) = bind_res (re_cont_type c) (\<lambda>c. Inr (ECompCont c))"

definition re_composite_type :: "composite_type \<Rightarrow> reencode_error + enc_composite_type" where
  "re_composite_type ty = bind_res (re_composite_inner_type (comp_inner ty))
     (\<lambda>i. Inr \<lparr>ec_inner = i, ec_shared = comp_shared ty\<rparr>)"

definition re_sub_type :: "sub_type \<Rightarrow> reencode_error + enc_sub_type" where
  "re_sub_type ty = bind_res
     (case supertype_idx ty of
        None \<Rightarrow> Inr None
      | Some i \<Rightarrow> bind_res (type_index_unpacked (the (unpack i))) (\<lambda>i. Inr (Some i)))
     (\<lambda>super. bind_res (re_composite_type (composite_type ty))
     (\<lambda>ct. Inr \<lparr>es_is_final = is_final ty, es_supertype_idx = super, es_composite_type = ct\<rparr>))"

text \<open>What \<open>parse_recursive_type_group\<close> appends to the bytes of the type section.\<close>

definition parse_recursive_type_group :: "leb128 \<Rightarrow> rec_group \<Rightarrow> reencode_error + enc" where
  "parse_recursive_type_group L rec_group =
     (if is_explicit_rec_group rec_group
      then bind_res (collect_res re_sub_type (rec_group_types rec_group)) (\<lambda>tys. Inr (encode_rec L tys))
      else bind_res (re_sub_type (hd (rec_group_types rec_group))) (\<lambda>ty. Inr (encode_subtype L False ty)))"

end
