(* ===== verification/Enc_Code.thy ===== *)
theory Enc_Code
  imports Enc_Types Op_Reader
begin

text \<open>
  The instructions of crates/wasm-encoder/src/core/code.rs with their implementation of \<open>Encode\<close>,
  and their translation from wasmparser's operators, \<open>instruction\<close> of
  crates/wasm-encoder/src/reencode.rs.

  \<open>wasm_encoder::Instruction\<close> has the variants of \<open>wasmparser::Operator\<close>, so it is the datatype \<open>op\<close>
  with the encoder's types for the immediates. The numbers of the operators of one shape are given
  by one function per enumeration; a vector constant, an \<open>i128\<close> in the source, is kept as its bytes.
\<close>

unbundle bit_operations_syntax

section \<open>Immediates\<close>

record enc_mem_arg =
  em_offset :: u64
  em_align :: u32
  em_memory_index :: u32

definition encode_mem_arg :: "leb128 \<Rightarrow> enc_mem_arg \<Rightarrow> enc" where
  "encode_mem_arg L m =
     (if em_memory_index m = 0 then encs [encode_u32 L (em_align m), encode_u64 L (em_offset m)]
      else encs [encode_u32 L (em_align m OR push_bit 6 1), encode_u32 L (em_memory_index m),
             encode_u64 L (em_offset m)])"

fun encode_ordering :: "ordering \<Rightarrow> enc" where
  "encode_ordering SeqCst = push 0"
| "encode_ordering AcqRel = push 1"

datatype enc_block_type = EBlockEmpty | EBlockResult enc_val_type | EBlockFunctionType u32

fun encode_block_type :: "leb128 \<Rightarrow> enc_block_type \<Rightarrow> enc" where
  "encode_block_type L EBlockEmpty = push 0x40"
| "encode_block_type L (EBlockResult ty) = encode_val_type L ty"
| "encode_block_type L (EBlockFunctionType f) = encode_i64 L (ucast f)"

fun encode_catch :: "leb128 \<Rightarrow> catch \<Rightarrow> enc" where
  "encode_catch L (CatchOne tag label) = encs [push 0x00, encode_u32 L tag, encode_u32 L label]"
| "encode_catch L (CatchOneRef tag label) = encs [push 0x01, encode_u32 L tag, encode_u32 L label]"
| "encode_catch L (CatchAllTo label) = encs [push 0x02, encode_u32 L label]"
| "encode_catch L (CatchAllRef label) = encs [push 0x03, encode_u32 L label]"

fun encode_handle :: "leb128 \<Rightarrow> handle \<Rightarrow> enc" where
  "encode_handle L (OnLabel tag label) = encs [push 0x00, encode_u32 L tag, encode_u32 L label]"
| "encode_handle L (OnSwitch tag) = encs [push 0x01, encode_u32 L tag]"

fun encode_try_table :: "leb128 \<Rightarrow> enc_block_type try_table \<Rightarrow> enc" where
  "encode_try_table L (MkTryTable ty catches) =
     encs [encode_block_type L ty, encode_list L (encode_catch L) catches]"

definition encode_br_on_cast :: "leb128 \<Rightarrow> u8 \<Rightarrow> u32 \<Rightarrow> enc_ref_type \<Rightarrow> enc_ref_type \<Rightarrow> enc" where
  "encode_br_on_cast L code relative_depth from_ref_type to_ref_type =
     (let cast_flags = of_bool (er_nullable from_ref_type) OR push_bit 1 (of_bool (er_nullable to_ref_type))
      in encs [push 0xfb, push code, push cast_flags, encode_u32 L relative_depth,
           encode_heap_type L (er_heap_type from_ref_type), encode_heap_type L (er_heap_type to_ref_type)])"

section \<open>Numeric instructions\<close>

primrec encode_i32_op :: "i32_op \<Rightarrow> enc" where
  "encode_i32_op I32Eqz = push 0x45" | "encode_i32_op I32Eq = push 0x46"
| "encode_i32_op I32Ne = push 0x47" | "encode_i32_op I32LtS = push 0x48"
| "encode_i32_op I32LtU = push 0x49" | "encode_i32_op I32GtS = push 0x4a"
| "encode_i32_op I32GtU = push 0x4b" | "encode_i32_op I32LeS = push 0x4c"
| "encode_i32_op I32LeU = push 0x4d" | "encode_i32_op I32GeS = push 0x4e"
| "encode_i32_op I32GeU = push 0x4f" | "encode_i32_op I32Clz = push 0x67"
| "encode_i32_op I32Ctz = push 0x68" | "encode_i32_op I32Popcnt = push 0x69"
| "encode_i32_op I32Add = push 0x6a" | "encode_i32_op I32Sub = push 0x6b"
| "encode_i32_op I32Mul = push 0x6c" | "encode_i32_op I32DivS = push 0x6d"
| "encode_i32_op I32DivU = push 0x6e" | "encode_i32_op I32RemS = push 0x6f"
| "encode_i32_op I32RemU = push 0x70" | "encode_i32_op I32And = push 0x71"
| "encode_i32_op I32Or = push 0x72" | "encode_i32_op I32Xor = push 0x73"
| "encode_i32_op I32Shl = push 0x74" | "encode_i32_op I32ShrS = push 0x75"
| "encode_i32_op I32ShrU = push 0x76" | "encode_i32_op I32Rotl = push 0x77"
| "encode_i32_op I32Rotr = push 0x78" | "encode_i32_op I32WrapI64 = push 0xa7"
| "encode_i32_op I32TruncF32S = push 0xa8" | "encode_i32_op I32TruncF32U = push 0xa9"
| "encode_i32_op I32TruncF64S = push 0xaa" | "encode_i32_op I32TruncF64U = push 0xab"
| "encode_i32_op I32ReinterpretF32 = push 0xbc" | "encode_i32_op I32Extend8S = push 0xc0"
| "encode_i32_op I32Extend16S = push 0xc1"
| "encode_i32_op I32TruncSatF32S = encs [push 0xfc, push 0x00]"
| "encode_i32_op I32TruncSatF32U = encs [push 0xfc, push 0x01]"
| "encode_i32_op I32TruncSatF64S = encs [push 0xfc, push 0x02]"
| "encode_i32_op I32TruncSatF64U = encs [push 0xfc, push 0x03]"

primrec encode_i64_op :: "leb128 \<Rightarrow> i64_op \<Rightarrow> enc" where
  "encode_i64_op L I64Eqz = push 0x50" | "encode_i64_op L I64Eq = push 0x51"
| "encode_i64_op L I64Ne = push 0x52" | "encode_i64_op L I64LtS = push 0x53"
| "encode_i64_op L I64LtU = push 0x54" | "encode_i64_op L I64GtS = push 0x55"
| "encode_i64_op L I64GtU = push 0x56" | "encode_i64_op L I64LeS = push 0x57"
| "encode_i64_op L I64LeU = push 0x58" | "encode_i64_op L I64GeS = push 0x59"
| "encode_i64_op L I64GeU = push 0x5a" | "encode_i64_op L I64Clz = push 0x79"
| "encode_i64_op L I64Ctz = push 0x7a" | "encode_i64_op L I64Popcnt = push 0x7b"
| "encode_i64_op L I64Add = push 0x7c" | "encode_i64_op L I64Sub = push 0x7d"
| "encode_i64_op L I64Mul = push 0x7e" | "encode_i64_op L I64DivS = push 0x7f"
| "encode_i64_op L I64DivU = push 0x80" | "encode_i64_op L I64RemS = push 0x81"
| "encode_i64_op L I64RemU = push 0x82" | "encode_i64_op L I64And = push 0x83"
| "encode_i64_op L I64Or = push 0x84" | "encode_i64_op L I64Xor = push 0x85"
| "encode_i64_op L I64Shl = push 0x86" | "encode_i64_op L I64ShrS = push 0x87"
| "encode_i64_op L I64ShrU = push 0x88" | "encode_i64_op L I64Rotl = push 0x89"
| "encode_i64_op L I64Rotr = push 0x8a" | "encode_i64_op L I64ExtendI32S = push 0xac"
| "encode_i64_op L I64ExtendI32U = push 0xad" | "encode_i64_op L I64TruncF32S = push 0xae"
| "encode_i64_op L I64TruncF32U = push 0xaf" | "encode_i64_op L I64TruncF64S = push 0xb0"
| "encode_i64_op L I64TruncF64U = push 0xb1" | "encode_i64_op L I64ReinterpretF64 = push 0xbd"
| "encode_i64_op L I64Extend8S = push 0xc2" | "encode_i64_op L I64Extend16S = push 0xc3"
| "encode_i64_op L I64Extend32S = push 0xc4"
| "encode_i64_op L I64TruncSatF32S = encs [push 0xfc, push 0x04]"
| "encode_i64_op L I64TruncSatF32U = encs [push 0xfc, push 0x05]"
| "encode_i64_op L I64TruncSatF64S = encs [push 0xfc, push 0x06]"
| "encode_i64_op L I64TruncSatF64U = encs [push 0xfc, push 0x07]"
| "encode_i64_op L I64Add128 = encs [push 0xfc, encode_u32 L 19]"
| "encode_i64_op L I64Sub128 = encs [push 0xfc, encode_u32 L 20]"
| "encode_i64_op L I64MulWideS = encs [push 0xfc, encode_u32 L 21]"
| "encode_i64_op L I64MulWideU = encs [push 0xfc, encode_u32 L 22]"

primrec encode_f32_op :: "f32_op \<Rightarrow> enc" where
  "encode_f32_op F32Eq = push 0x5b" | "encode_f32_op F32Ne = push 0x5c"
| "encode_f32_op F32Lt = push 0x5d" | "encode_f32_op F32Gt = push 0x5e"
| "encode_f32_op F32Le = push 0x5f" | "encode_f32_op F32Ge = push 0x60"
| "encode_f32_op F32Abs = push 0x8b" | "encode_f32_op F32Neg = push 0x8c"
| "encode_f32_op F32Ceil = push 0x8d" | "encode_f32_op F32Floor = push 0x8e"
| "encode_f32_op F32Trunc = push 0x8f" | "encode_f32_op F32Nearest = push 0x90"
| "encode_f32_op F32Sqrt = push 0x91" | "encode_f32_op F32Add = push 0x92"
| "encode_f32_op F32Sub = push 0x93" | "encode_f32_op F32Mul = push 0x94"
| "encode_f32_op F32Div = push 0x95" | "encode_f32_op F32Min = push 0x96"
| "encode_f32_op F32Max = push 0x97" | "encode_f32_op F32Copysign = push 0x98"
| "encode_f32_op F32ConvertI32S = push 0xb2" | "encode_f32_op F32ConvertI32U = push 0xb3"
| "encode_f32_op F32ConvertI64S = push 0xb4" | "encode_f32_op F32ConvertI64U = push 0xb5"
| "encode_f32_op F32DemoteF64 = push 0xb6" | "encode_f32_op F32ReinterpretI32 = push 0xbe"

primrec encode_f64_op :: "f64_op \<Rightarrow> enc" where
  "encode_f64_op F64Eq = push 0x61" | "encode_f64_op F64Ne = push 0x62"
| "encode_f64_op F64Lt = push 0x63" | "encode_f64_op F64Gt = push 0x64"
| "encode_f64_op F64Le = push 0x65" | "encode_f64_op F64Ge = push 0x66"
| "encode_f64_op F64Abs = push 0x99" | "encode_f64_op F64Neg = push 0x9a"
| "encode_f64_op F64Ceil = push 0x9b" | "encode_f64_op F64Floor = push 0x9c"
| "encode_f64_op F64Trunc = push 0x9d" | "encode_f64_op F64Nearest = push 0x9e"
| "encode_f64_op F64Sqrt = push 0x9f" | "encode_f64_op F64Add = push 0xa0"
| "encode_f64_op F64Sub = push 0xa1" | "encode_f64_op F64Mul = push 0xa2"
| "encode_f64_op F64Div = push 0xa3" | "encode_f64_op F64Min = push 0xa4"
| "encode_f64_op F64Max = push 0xa5" | "encode_f64_op F64Copysign = push 0xa6"
| "encode_f64_op F64ConvertI32S = push 0xb7" | "encode_f64_op F64ConvertI32U = push 0xb8"
| "encode_f64_op F64ConvertI64S = push 0xb9" | "encode_f64_op F64ConvertI64U = push 0xba"
| "encode_f64_op F64PromoteF32 = push 0xbb" | "encode_f64_op F64ReinterpretI64 = push 0xbf"

section \<open>Memory instructions\<close>

primrec load_code :: "load_op \<Rightarrow> u8" where
  "load_code I32Load = 0x28" | "load_code I64Load = 0x29" | "load_code F32Load = 0x2a"
| "load_code F64Load = 0x2b" | "load_code I32Load8S = 0x2c" | "load_code I32Load8U = 0x2d"
| "load_code I32Load16S = 0x2e" | "load_code I32Load16U = 0x2f" | "load_code I64Load8S = 0x30"
| "load_code I64Load8U = 0x31" | "load_code I64Load16S = 0x32" | "load_code I64Load16U = 0x33"
| "load_code I64Load32S = 0x34" | "load_code I64Load32U = 0x35"

primrec store_code :: "store_op \<Rightarrow> u8" where
  "store_code I32Store = 0x36" | "store_code I64Store = 0x37" | "store_code F32Store = 0x38"
| "store_code F64Store = 0x39" | "store_code I32Store8 = 0x3a" | "store_code I32Store16 = 0x3b"
| "store_code I64Store8 = 0x3c" | "store_code I64Store16 = 0x3d" | "store_code I64Store32 = 0x3e"

primrec atomic_access_code :: "atomic_access_op \<Rightarrow> u8" where
  "atomic_access_code MemoryAtomicNotify = 0x00" | "atomic_access_code MemoryAtomicWait32 = 0x01"
| "atomic_access_code MemoryAtomicWait64 = 0x02" | "atomic_access_code I32AtomicLoad = 0x10"
| "atomic_access_code I64AtomicLoad = 0x11" | "atomic_access_code I32AtomicLoad8U = 0x12"
| "atomic_access_code I32AtomicLoad16U = 0x13" | "atomic_access_code I64AtomicLoad8U = 0x14"
| "atomic_access_code I64AtomicLoad16U = 0x15" | "atomic_access_code I64AtomicLoad32U = 0x16"
| "atomic_access_code I32AtomicStore = 0x17" | "atomic_access_code I64AtomicStore = 0x18"
| "atomic_access_code I32AtomicStore8 = 0x19" | "atomic_access_code I32AtomicStore16 = 0x1a"
| "atomic_access_code I64AtomicStore8 = 0x1b" | "atomic_access_code I64AtomicStore16 = 0x1c"
| "atomic_access_code I64AtomicStore32 = 0x1d"

primrec atomic_rmw_code :: "atomic_rmw_op \<Rightarrow> u8" where
  "atomic_rmw_code I32AtomicRmwAdd = 0x1e" | "atomic_rmw_code I64AtomicRmwAdd = 0x1f"
| "atomic_rmw_code I32AtomicRmw8AddU = 0x20" | "atomic_rmw_code I32AtomicRmw16AddU = 0x21"
| "atomic_rmw_code I64AtomicRmw8AddU = 0x22" | "atomic_rmw_code I64AtomicRmw16AddU = 0x23"
| "atomic_rmw_code I64AtomicRmw32AddU = 0x24" | "atomic_rmw_code I32AtomicRmwSub = 0x25"
| "atomic_rmw_code I64AtomicRmwSub = 0x26" | "atomic_rmw_code I32AtomicRmw8SubU = 0x27"
| "atomic_rmw_code I32AtomicRmw16SubU = 0x28" | "atomic_rmw_code I64AtomicRmw8SubU = 0x29"
| "atomic_rmw_code I64AtomicRmw16SubU = 0x2a" | "atomic_rmw_code I64AtomicRmw32SubU = 0x2b"
| "atomic_rmw_code I32AtomicRmwAnd = 0x2c" | "atomic_rmw_code I64AtomicRmwAnd = 0x2d"
| "atomic_rmw_code I32AtomicRmw8AndU = 0x2e" | "atomic_rmw_code I32AtomicRmw16AndU = 0x2f"
| "atomic_rmw_code I64AtomicRmw8AndU = 0x30" | "atomic_rmw_code I64AtomicRmw16AndU = 0x31"
| "atomic_rmw_code I64AtomicRmw32AndU = 0x32" | "atomic_rmw_code I32AtomicRmwOr = 0x33"
| "atomic_rmw_code I64AtomicRmwOr = 0x34" | "atomic_rmw_code I32AtomicRmw8OrU = 0x35"
| "atomic_rmw_code I32AtomicRmw16OrU = 0x36" | "atomic_rmw_code I64AtomicRmw8OrU = 0x37"
| "atomic_rmw_code I64AtomicRmw16OrU = 0x38" | "atomic_rmw_code I64AtomicRmw32OrU = 0x39"
| "atomic_rmw_code I32AtomicRmwXor = 0x3a" | "atomic_rmw_code I64AtomicRmwXor = 0x3b"
| "atomic_rmw_code I32AtomicRmw8XorU = 0x3c" | "atomic_rmw_code I32AtomicRmw16XorU = 0x3d"
| "atomic_rmw_code I64AtomicRmw8XorU = 0x3e" | "atomic_rmw_code I64AtomicRmw16XorU = 0x3f"
| "atomic_rmw_code I64AtomicRmw32XorU = 0x40" | "atomic_rmw_code I32AtomicRmwXchg = 0x41"
| "atomic_rmw_code I64AtomicRmwXchg = 0x42" | "atomic_rmw_code I32AtomicRmw8XchgU = 0x43"
| "atomic_rmw_code I32AtomicRmw16XchgU = 0x44" | "atomic_rmw_code I64AtomicRmw8XchgU = 0x45"
| "atomic_rmw_code I64AtomicRmw16XchgU = 0x46" | "atomic_rmw_code I64AtomicRmw32XchgU = 0x47"
| "atomic_rmw_code I32AtomicRmwCmpxchg = 0x48" | "atomic_rmw_code I64AtomicRmwCmpxchg = 0x49"
| "atomic_rmw_code I32AtomicRmw8CmpxchgU = 0x4a" | "atomic_rmw_code I32AtomicRmw16CmpxchgU = 0x4b"
| "atomic_rmw_code I64AtomicRmw8CmpxchgU = 0x4c" | "atomic_rmw_code I64AtomicRmw16CmpxchgU = 0x4d"
| "atomic_rmw_code I64AtomicRmw32CmpxchgU = 0x4e"

primrec global_atomic_code :: "global_atomic_op \<Rightarrow> u8" where
  "global_atomic_code GlobalAtomicGet = 0x4f" | "global_atomic_code GlobalAtomicSet = 0x50"
| "global_atomic_code GlobalAtomicRmwAdd = 0x51" | "global_atomic_code GlobalAtomicRmwSub = 0x52"
| "global_atomic_code GlobalAtomicRmwAnd = 0x53" | "global_atomic_code GlobalAtomicRmwOr = 0x54"
| "global_atomic_code GlobalAtomicRmwXor = 0x55" | "global_atomic_code GlobalAtomicRmwXchg = 0x56"
| "global_atomic_code GlobalAtomicRmwCmpxchg = 0x57"

primrec table_atomic_code :: "table_atomic_op \<Rightarrow> u8" where
  "table_atomic_code TableAtomicGet = 0x58" | "table_atomic_code TableAtomicSet = 0x59"
| "table_atomic_code TableAtomicRmwXchg = 0x5a" | "table_atomic_code TableAtomicRmwCmpxchg = 0x5b"

primrec struct_atomic_code :: "struct_atomic_op \<Rightarrow> u8" where
  "struct_atomic_code StructAtomicGet = 0x5c" | "struct_atomic_code StructAtomicGetS = 0x5d"
| "struct_atomic_code StructAtomicGetU = 0x5e" | "struct_atomic_code StructAtomicSet = 0x5f"
| "struct_atomic_code StructAtomicRmwAdd = 0x60" | "struct_atomic_code StructAtomicRmwSub = 0x61"
| "struct_atomic_code StructAtomicRmwAnd = 0x62" | "struct_atomic_code StructAtomicRmwOr = 0x63"
| "struct_atomic_code StructAtomicRmwXor = 0x64" | "struct_atomic_code StructAtomicRmwXchg = 0x65"
| "struct_atomic_code StructAtomicRmwCmpxchg = 0x66"

primrec array_atomic_code :: "array_atomic_op \<Rightarrow> u8" where
  "array_atomic_code ArrayAtomicGet = 0x67" | "array_atomic_code ArrayAtomicGetS = 0x68"
| "array_atomic_code ArrayAtomicGetU = 0x69" | "array_atomic_code ArrayAtomicSet = 0x6a"
| "array_atomic_code ArrayAtomicRmwAdd = 0x6b" | "array_atomic_code ArrayAtomicRmwSub = 0x6c"
| "array_atomic_code ArrayAtomicRmwAnd = 0x6d" | "array_atomic_code ArrayAtomicRmwOr = 0x6e"
| "array_atomic_code ArrayAtomicRmwXor = 0x6f" | "array_atomic_code ArrayAtomicRmwXchg = 0x70"
| "array_atomic_code ArrayAtomicRmwCmpxchg = 0x71"

section \<open>Vector instructions\<close>

primrec v128_mem_code :: "v128_mem_op \<Rightarrow> u32" where
  "v128_mem_code V128Load = 0x00" | "v128_mem_code V128Load8x8S = 0x01"
| "v128_mem_code V128Load8x8U = 0x02" | "v128_mem_code V128Load16x4S = 0x03"
| "v128_mem_code V128Load16x4U = 0x04" | "v128_mem_code V128Load32x2S = 0x05"
| "v128_mem_code V128Load32x2U = 0x06" | "v128_mem_code V128Load8Splat = 0x07"
| "v128_mem_code V128Load16Splat = 0x08" | "v128_mem_code V128Load32Splat = 0x09"
| "v128_mem_code V128Load64Splat = 0x0a" | "v128_mem_code V128Load32Zero = 0x5c"
| "v128_mem_code V128Load64Zero = 0x5d" | "v128_mem_code V128Store = 0x0b"

primrec i8x16_code :: "i8x16_op \<Rightarrow> u32" where
  "i8x16_code I8x16Swizzle = 0x0e" | "i8x16_code I8x16Splat = 0x0f" | "i8x16_code I8x16Eq = 0x23"
| "i8x16_code I8x16Ne = 0x24" | "i8x16_code I8x16LtS = 0x25" | "i8x16_code I8x16LtU = 0x26"
| "i8x16_code I8x16GtS = 0x27" | "i8x16_code I8x16GtU = 0x28" | "i8x16_code I8x16LeS = 0x29"
| "i8x16_code I8x16LeU = 0x2a" | "i8x16_code I8x16GeS = 0x2b" | "i8x16_code I8x16GeU = 0x2c"
| "i8x16_code I8x16Abs = 0x60" | "i8x16_code I8x16Neg = 0x61" | "i8x16_code I8x16Popcnt = 0x62"
| "i8x16_code I8x16AllTrue = 0x63" | "i8x16_code I8x16Bitmask = 0x64"
| "i8x16_code I8x16NarrowI16x8S = 0x65" | "i8x16_code I8x16NarrowI16x8U = 0x66"
| "i8x16_code I8x16Shl = 0x6b" | "i8x16_code I8x16ShrS = 0x6c" | "i8x16_code I8x16ShrU = 0x6d"
| "i8x16_code I8x16Add = 0x6e" | "i8x16_code I8x16AddSatS = 0x6f"
| "i8x16_code I8x16AddSatU = 0x70" | "i8x16_code I8x16Sub = 0x71"
| "i8x16_code I8x16SubSatS = 0x72" | "i8x16_code I8x16SubSatU = 0x73"
| "i8x16_code I8x16MinS = 0x76" | "i8x16_code I8x16MinU = 0x77" | "i8x16_code I8x16MaxS = 0x78"
| "i8x16_code I8x16MaxU = 0x79" | "i8x16_code I8x16AvgrU = 0x7b"
| "i8x16_code I8x16RelaxedSwizzle = 0x100" | "i8x16_code I8x16RelaxedLaneselect = 0x109"

primrec i16x8_code :: "i16x8_op \<Rightarrow> u32" where
  "i16x8_code I16x8Splat = 0x10" | "i16x8_code I16x8Eq = 0x2d" | "i16x8_code I16x8Ne = 0x2e"
| "i16x8_code I16x8LtS = 0x2f" | "i16x8_code I16x8LtU = 0x30" | "i16x8_code I16x8GtS = 0x31"
| "i16x8_code I16x8GtU = 0x32" | "i16x8_code I16x8LeS = 0x33" | "i16x8_code I16x8LeU = 0x34"
| "i16x8_code I16x8GeS = 0x35" | "i16x8_code I16x8GeU = 0x36"
| "i16x8_code I16x8ExtAddPairwiseI8x16S = 0x7c" | "i16x8_code I16x8ExtAddPairwiseI8x16U = 0x7d"
| "i16x8_code I16x8Abs = 0x80" | "i16x8_code I16x8Neg = 0x81"
| "i16x8_code I16x8Q15MulrSatS = 0x82" | "i16x8_code I16x8AllTrue = 0x83"
| "i16x8_code I16x8Bitmask = 0x84" | "i16x8_code I16x8NarrowI32x4S = 0x85"
| "i16x8_code I16x8NarrowI32x4U = 0x86" | "i16x8_code I16x8ExtendLowI8x16S = 0x87"
| "i16x8_code I16x8ExtendHighI8x16S = 0x88" | "i16x8_code I16x8ExtendLowI8x16U = 0x89"
| "i16x8_code I16x8ExtendHighI8x16U = 0x8a" | "i16x8_code I16x8Shl = 0x8b"
| "i16x8_code I16x8ShrS = 0x8c" | "i16x8_code I16x8ShrU = 0x8d" | "i16x8_code I16x8Add = 0x8e"
| "i16x8_code I16x8AddSatS = 0x8f" | "i16x8_code I16x8AddSatU = 0x90"
| "i16x8_code I16x8Sub = 0x91" | "i16x8_code I16x8SubSatS = 0x92"
| "i16x8_code I16x8SubSatU = 0x93" | "i16x8_code I16x8Mul = 0x95" | "i16x8_code I16x8MinS = 0x96"
| "i16x8_code I16x8MinU = 0x97" | "i16x8_code I16x8MaxS = 0x98" | "i16x8_code I16x8MaxU = 0x99"
| "i16x8_code I16x8AvgrU = 0x9b" | "i16x8_code I16x8ExtMulLowI8x16S = 0x9c"
| "i16x8_code I16x8ExtMulHighI8x16S = 0x9d" | "i16x8_code I16x8ExtMulLowI8x16U = 0x9e"
| "i16x8_code I16x8ExtMulHighI8x16U = 0x9f" | "i16x8_code I16x8RelaxedLaneselect = 0x10a"
| "i16x8_code I16x8RelaxedQ15mulrS = 0x111" | "i16x8_code I16x8RelaxedDotI8x16I7x16S = 0x112"

primrec i32x4_code :: "i32x4_op \<Rightarrow> u32" where
  "i32x4_code I32x4Splat = 0x11" | "i32x4_code I32x4Eq = 0x37" | "i32x4_code I32x4Ne = 0x38"
| "i32x4_code I32x4LtS = 0x39" | "i32x4_code I32x4LtU = 0x3a" | "i32x4_code I32x4GtS = 0x3b"
| "i32x4_code I32x4GtU = 0x3c" | "i32x4_code I32x4LeS = 0x3d" | "i32x4_code I32x4LeU = 0x3e"
| "i32x4_code I32x4GeS = 0x3f" | "i32x4_code I32x4GeU = 0x40"
| "i32x4_code I32x4ExtAddPairwiseI16x8S = 0x7e" | "i32x4_code I32x4ExtAddPairwiseI16x8U = 0x7f"
| "i32x4_code I32x4Abs = 0xa0" | "i32x4_code I32x4Neg = 0xa1" | "i32x4_code I32x4AllTrue = 0xa3"
| "i32x4_code I32x4Bitmask = 0xa4" | "i32x4_code I32x4ExtendLowI16x8S = 0xa7"
| "i32x4_code I32x4ExtendHighI16x8S = 0xa8" | "i32x4_code I32x4ExtendLowI16x8U = 0xa9"
| "i32x4_code I32x4ExtendHighI16x8U = 0xaa" | "i32x4_code I32x4Shl = 0xab"
| "i32x4_code I32x4ShrS = 0xac" | "i32x4_code I32x4ShrU = 0xad" | "i32x4_code I32x4Add = 0xae"
| "i32x4_code I32x4Sub = 0xb1" | "i32x4_code I32x4Mul = 0xb5" | "i32x4_code I32x4MinS = 0xb6"
| "i32x4_code I32x4MinU = 0xb7" | "i32x4_code I32x4MaxS = 0xb8" | "i32x4_code I32x4MaxU = 0xb9"
| "i32x4_code I32x4DotI16x8S = 0xba" | "i32x4_code I32x4ExtMulLowI16x8S = 0xbc"
| "i32x4_code I32x4ExtMulHighI16x8S = 0xbd" | "i32x4_code I32x4ExtMulLowI16x8U = 0xbe"
| "i32x4_code I32x4ExtMulHighI16x8U = 0xbf" | "i32x4_code I32x4TruncSatF32x4S = 0xf8"
| "i32x4_code I32x4TruncSatF32x4U = 0xf9" | "i32x4_code I32x4TruncSatF64x2SZero = 0xfc"
| "i32x4_code I32x4TruncSatF64x2UZero = 0xfd" | "i32x4_code I32x4RelaxedTruncF32x4S = 0x101"
| "i32x4_code I32x4RelaxedTruncF32x4U = 0x102" | "i32x4_code I32x4RelaxedTruncF64x2SZero = 0x103"
| "i32x4_code I32x4RelaxedTruncF64x2UZero = 0x104" | "i32x4_code I32x4RelaxedLaneselect = 0x10b"
| "i32x4_code I32x4RelaxedDotI8x16I7x16AddS = 0x113"

primrec i64x2_code :: "i64x2_op \<Rightarrow> u32" where
  "i64x2_code I64x2Splat = 0x12" | "i64x2_code I64x2Eq = 0xd6" | "i64x2_code I64x2Ne = 0xd7"
| "i64x2_code I64x2LtS = 0xd8" | "i64x2_code I64x2GtS = 0xd9" | "i64x2_code I64x2LeS = 0xda"
| "i64x2_code I64x2GeS = 0xdb" | "i64x2_code I64x2Abs = 0xc0" | "i64x2_code I64x2Neg = 0xc1"
| "i64x2_code I64x2AllTrue = 0xc3" | "i64x2_code I64x2Bitmask = 0xc4"
| "i64x2_code I64x2ExtendLowI32x4S = 0xc7" | "i64x2_code I64x2ExtendHighI32x4S = 0xc8"
| "i64x2_code I64x2ExtendLowI32x4U = 0xc9" | "i64x2_code I64x2ExtendHighI32x4U = 0xca"
| "i64x2_code I64x2Shl = 0xcb" | "i64x2_code I64x2ShrS = 0xcc" | "i64x2_code I64x2ShrU = 0xcd"
| "i64x2_code I64x2Add = 0xce" | "i64x2_code I64x2Sub = 0xd1" | "i64x2_code I64x2Mul = 0xd5"
| "i64x2_code I64x2ExtMulLowI32x4S = 0xdc" | "i64x2_code I64x2ExtMulHighI32x4S = 0xdd"
| "i64x2_code I64x2ExtMulLowI32x4U = 0xde" | "i64x2_code I64x2ExtMulHighI32x4U = 0xdf"
| "i64x2_code I64x2RelaxedLaneselect = 0x10c"

primrec f32x4_code :: "f32x4_op \<Rightarrow> u32" where
  "f32x4_code F32x4Splat = 0x13" | "f32x4_code F32x4Eq = 0x41" | "f32x4_code F32x4Ne = 0x42"
| "f32x4_code F32x4Lt = 0x43" | "f32x4_code F32x4Gt = 0x44" | "f32x4_code F32x4Le = 0x45"
| "f32x4_code F32x4Ge = 0x46" | "f32x4_code F32x4Ceil = 0x67" | "f32x4_code F32x4Floor = 0x68"
| "f32x4_code F32x4Trunc = 0x69" | "f32x4_code F32x4Nearest = 0x6a" | "f32x4_code F32x4Abs = 0xe0"
| "f32x4_code F32x4Neg = 0xe1" | "f32x4_code F32x4Sqrt = 0xe3" | "f32x4_code F32x4Add = 0xe4"
| "f32x4_code F32x4Sub = 0xe5" | "f32x4_code F32x4Mul = 0xe6" | "f32x4_code F32x4Div = 0xe7"
| "f32x4_code F32x4Min = 0xe8" | "f32x4_code F32x4Max = 0xe9" | "f32x4_code F32x4PMin = 0xea"
| "f32x4_code F32x4PMax = 0xeb" | "f32x4_code F32x4ConvertI32x4S = 0xfa"
| "f32x4_code F32x4ConvertI32x4U = 0xfb" | "f32x4_code F32x4DemoteF64x2Zero = 0x5e"
| "f32x4_code F32x4RelaxedMadd = 0x105" | "f32x4_code F32x4RelaxedNmadd = 0x106"
| "f32x4_code F32x4RelaxedMin = 0x10d" | "f32x4_code F32x4RelaxedMax = 0x10e"

primrec f64x2_code :: "f64x2_op \<Rightarrow> u32" where
  "f64x2_code F64x2Splat = 0x14" | "f64x2_code F64x2Eq = 0x47" | "f64x2_code F64x2Ne = 0x48"
| "f64x2_code F64x2Lt = 0x49" | "f64x2_code F64x2Gt = 0x4a" | "f64x2_code F64x2Le = 0x4b"
| "f64x2_code F64x2Ge = 0x4c" | "f64x2_code F64x2Ceil = 0x74" | "f64x2_code F64x2Floor = 0x75"
| "f64x2_code F64x2Trunc = 0x7a" | "f64x2_code F64x2Nearest = 0x94" | "f64x2_code F64x2Abs = 0xec"
| "f64x2_code F64x2Neg = 0xed" | "f64x2_code F64x2Sqrt = 0xef" | "f64x2_code F64x2Add = 0xf0"
| "f64x2_code F64x2Sub = 0xf1" | "f64x2_code F64x2Mul = 0xf2" | "f64x2_code F64x2Div = 0xf3"
| "f64x2_code F64x2Min = 0xf4" | "f64x2_code F64x2Max = 0xf5" | "f64x2_code F64x2PMin = 0xf6"
| "f64x2_code F64x2PMax = 0xf7" | "f64x2_code F64x2ConvertLowI32x4S = 0xfe"
| "f64x2_code F64x2ConvertLowI32x4U = 0xff" | "f64x2_code F64x2PromoteLowF32x4 = 0x5f"
| "f64x2_code F64x2RelaxedMadd = 0x107" | "f64x2_code F64x2RelaxedNmadd = 0x108"
| "f64x2_code F64x2RelaxedMin = 0x10f" | "f64x2_code F64x2RelaxedMax = 0x110"

primrec v128_code :: "v128_op \<Rightarrow> u32" where
  "v128_code V128Not = 0x4d" | "v128_code V128And = 0x4e" | "v128_code V128AndNot = 0x4f"
| "v128_code V128Or = 0x50" | "v128_code V128Xor = 0x51" | "v128_code V128Bitselect = 0x52"
| "v128_code V128AnyTrue = 0x53"

primrec v128_lane_mem_code :: "v128_lane_mem_op \<Rightarrow> u32 \<times> u8" where
  "v128_lane_mem_code V128Load8Lane = (0x54, 16)" | "v128_lane_mem_code V128Load16Lane = (0x55, 8)"
| "v128_lane_mem_code V128Load32Lane = (0x56, 4)" | "v128_lane_mem_code V128Load64Lane = (0x57, 2)"
| "v128_lane_mem_code V128Store8Lane = (0x58, 16)"
| "v128_lane_mem_code V128Store16Lane = (0x59, 8)"
| "v128_lane_mem_code V128Store32Lane = (0x5a, 4)"
| "v128_lane_mem_code V128Store64Lane = (0x5b, 2)"

primrec lane_code :: "lane_op \<Rightarrow> u32 \<times> u8" where
  "lane_code I8x16ExtractLaneS = (0x15, 16)" | "lane_code I8x16ExtractLaneU = (0x16, 16)"
| "lane_code I8x16ReplaceLane = (0x17, 16)" | "lane_code I16x8ExtractLaneS = (0x18, 8)"
| "lane_code I16x8ExtractLaneU = (0x19, 8)" | "lane_code I16x8ReplaceLane = (0x1a, 8)"
| "lane_code I32x4ExtractLane = (0x1b, 4)" | "lane_code I32x4ReplaceLane = (0x1c, 4)"
| "lane_code I64x2ExtractLane = (0x1d, 2)" | "lane_code I64x2ReplaceLane = (0x1e, 2)"
| "lane_code F32x4ExtractLane = (0x1f, 4)" | "lane_code F32x4ReplaceLane = (0x20, 4)"
| "lane_code F64x2ExtractLane = (0x21, 2)" | "lane_code F64x2ReplaceLane = (0x22, 2)"

section \<open>Control, references, exceptions, garbage collection\<close>

primrec encode_control_op :: "leb128 \<Rightarrow> (enc_block_type, u32 list \<times> u32) control_op \<Rightarrow> enc" where
  "encode_control_op L Unreachable = push 0x00"
| "encode_control_op L Nop = push 0x01"
| "encode_control_op L (Block bt) = encs [push 0x02, encode_block_type L bt]"
| "encode_control_op L (Loop bt) = encs [push 0x03, encode_block_type L bt]"
| "encode_control_op L (OpIf bt) = encs [push 0x04, encode_block_type L bt]"
| "encode_control_op L Else = push 0x05"
| "encode_control_op L End = push 0x0b"
| "encode_control_op L (Br l) = encs [push 0x0c, encode_u32 L l]"
| "encode_control_op L (BrIf l) = encs [push 0x0d, encode_u32 L l]"
| "encode_control_op L (BrTable t) = encs [push 0x0e, encode_list L (encode_u32 L) (fst t), encode_u32 L (snd t)]"
| "encode_control_op L Return = push 0x0f"
| "encode_control_op L (Call f) = encs [push 0x10, encode_u32 L f]"
| "encode_control_op L (CallIndirect type_idx table_index) = encs [push 0x11, encode_u32 L type_idx, encode_u32 L table_index]"
| "encode_control_op L Drop = push 0x1a"
| "encode_control_op L Select = push 0x1b"
| "encode_control_op L (LocalGet l) = encs [push 0x20, encode_u32 L l]"
| "encode_control_op L (LocalSet l) = encs [push 0x21, encode_u32 L l]"
| "encode_control_op L (LocalTee l) = encs [push 0x22, encode_u32 L l]"
| "encode_control_op L (GlobalGet g) = encs [push 0x23, encode_u32 L g]"
| "encode_control_op L (GlobalSet g) = encs [push 0x24, encode_u32 L g]"
| "encode_control_op L (MemorySize i) = encs [push 0x3f, encode_u32 L i]"
| "encode_control_op L (MemoryGrow i) = encs [push 0x40, encode_u32 L i]"
| "encode_control_op L (I32Const x) = encs [push 0x41, encode_i32 L x]"
| "encode_control_op L (I64Const x) = encs [push 0x42, encode_i64 L x]"
| "encode_control_op L (F32Const x) = encs [push 0x43, encode_f32 x]"
| "encode_control_op L (F64Const x) = encs [push 0x44, encode_f64 x]"

primrec encode_ref_op :: "leb128 \<Rightarrow> (enc_val_type, enc_heap_type) ref_op \<Rightarrow> enc" where
  "encode_ref_op L (MemoryInit data_index mem) = encs [push 0xfc, push 0x08, encode_u32 L data_index, encode_u32 L mem]"
| "encode_ref_op L (DataDrop data) = encs [push 0xfc, push 0x09, encode_u32 L data]"
| "encode_ref_op L (MemoryCopy dst_mem src_mem) = encs [push 0xfc, push 0x0a, encode_u32 L dst_mem, encode_u32 L src_mem]"
| "encode_ref_op L (MemoryFill mem) = encs [push 0xfc, push 0x0b, encode_u32 L mem]"
| "encode_ref_op L (TableInit elem_index table) = encs [push 0xfc, push 0x0c, encode_u32 L elem_index, encode_u32 L table]"
| "encode_ref_op L (ElemDrop segment) = encs [push 0xfc, push 0x0d, encode_u32 L segment]"
| "encode_ref_op L (TableCopy dst_table src_table) = encs [push 0xfc, push 0x0e, encode_u32 L dst_table, encode_u32 L src_table]"
| "encode_ref_op L (TypedSelect ty) = encs [push 0x1c, encode_list L (encode_val_type L) [ty]]"
| "encode_ref_op L (RefNull ty) = encs [push 0xd0, encode_heap_type L ty]"
| "encode_ref_op L RefIsNull = push 0xd1"
| "encode_ref_op L (RefFunc f) = encs [push 0xd2, encode_u32 L f]"
| "encode_ref_op L (TableFill table) = encs [push 0xfc, push 0x11, encode_u32 L table]"
| "encode_ref_op L (TableGet table) = encs [push 0x25, encode_u32 L table]"
| "encode_ref_op L (TableSet table) = encs [push 0x26, encode_u32 L table]"
| "encode_ref_op L (TableGrow table) = encs [push 0xfc, push 0x0f, encode_u32 L table]"
| "encode_ref_op L (TableSize table) = encs [push 0xfc, push 0x10, encode_u32 L table]"
| "encode_ref_op L (ReturnCall f) = encs [push 0x12, encode_u32 L f]"
| "encode_ref_op L (ReturnCallIndirect type_idx table_index) = encs [push 0x13, encode_u32 L type_idx, encode_u32 L table_index]"
| "encode_ref_op L (MemoryDiscard mem) = encs [push 0xfc, push 0x12, encode_u32 L mem]"
| "encode_ref_op L (CallRef ty) = encs [push 0x14, encode_u32 L ty]"
| "encode_ref_op L (ReturnCallRef ty) = encs [push 0x15, encode_u32 L ty]"
| "encode_ref_op L RefAsNonNull = push 0xd4"
| "encode_ref_op L (BrOnNull l) = encs [push 0xd5, encode_u32 L l]"
| "encode_ref_op L (BrOnNonNull l) = encs [push 0xd6, encode_u32 L l]"

primrec encode_exn_op :: "leb128 \<Rightarrow> enc_block_type exn_op \<Rightarrow> enc" where
  "encode_exn_op L (TryTable t) = encs [push 0x1f, encode_try_table L t]"
| "encode_exn_op L (Throw t) = encs [push 0x08, encode_u32 L t]"
| "encode_exn_op L ThrowRef = push 0x0a"
| "encode_exn_op L (Try bt) = encs [push 0x06, encode_block_type L bt]"
| "encode_exn_op L (Catch t) = encs [push 0x07, encode_u32 L t]"
| "encode_exn_op L (Rethrow l) = encs [push 0x09, encode_u32 L l]"
| "encode_exn_op L (Delegate l) = encs [push 0x18, encode_u32 L l]"
| "encode_exn_op L CatchAll = push 0x19"
| "encode_exn_op L (ContNew type_idx) = encs [push 0xe0, encode_u32 L type_idx]"
| "encode_exn_op L (ContBind argument_index result_index) = encs [push 0xe1, encode_u32 L argument_index, encode_u32 L result_index]"
| "encode_exn_op L (Suspend tag_index) = encs [push 0xe2, encode_u32 L tag_index]"
| "encode_exn_op L (Resume cont_type_index resume_table) = encs [push 0xe3, encode_u32 L cont_type_index, encode_list L (encode_handle L) resume_table]"
| "encode_exn_op L (ResumeThrow cont_type_index tag_index resume_table) = encs [push 0xe4, encode_u32 L cont_type_index, encode_u32 L tag_index, encode_list L (encode_handle L) resume_table]"
| "encode_exn_op L (Switch cont_type_index tag_index) = encs [push 0xe5, encode_u32 L cont_type_index, encode_u32 L tag_index]"

primrec encode_gc_op :: "leb128 \<Rightarrow> (enc_heap_type, enc_ref_type) gc_op \<Rightarrow> enc" where
  "encode_gc_op L RefEq = push 0xd3"
| "encode_gc_op L (StructNew type_idx) = encs [push 0xfb, push 0x00, encode_u32 L type_idx]"
| "encode_gc_op L (StructNewDefault type_idx) = encs [push 0xfb, push 0x01, encode_u32 L type_idx]"
| "encode_gc_op L (StructGet struct_type_index field_index) = encs [push 0xfb, push 0x02, encode_u32 L struct_type_index, encode_u32 L field_index]"
| "encode_gc_op L (StructGetS struct_type_index field_index) = encs [push 0xfb, push 0x03, encode_u32 L struct_type_index, encode_u32 L field_index]"
| "encode_gc_op L (StructGetU struct_type_index field_index) = encs [push 0xfb, push 0x04, encode_u32 L struct_type_index, encode_u32 L field_index]"
| "encode_gc_op L (StructSet struct_type_index field_index) = encs [push 0xfb, push 0x05, encode_u32 L struct_type_index, encode_u32 L field_index]"
| "encode_gc_op L (ArrayNew type_idx) = encs [push 0xfb, push 0x06, encode_u32 L type_idx]"
| "encode_gc_op L (ArrayNewDefault type_idx) = encs [push 0xfb, push 0x07, encode_u32 L type_idx]"
| "encode_gc_op L (ArrayNewFixed array_type_index array_size) = encs [push 0xfb, push 0x08, encode_u32 L array_type_index, encode_u32 L array_size]"
| "encode_gc_op L (ArrayNewData array_type_index array_data_index) = encs [push 0xfb, push 0x09, encode_u32 L array_type_index, encode_u32 L array_data_index]"
| "encode_gc_op L (ArrayNewElem array_type_index array_elem_index) = encs [push 0xfb, push 0x0a, encode_u32 L array_type_index, encode_u32 L array_elem_index]"
| "encode_gc_op L (ArrayGet type_idx) = encs [push 0xfb, push 0x0b, encode_u32 L type_idx]"
| "encode_gc_op L (ArrayGetS type_idx) = encs [push 0xfb, push 0x0c, encode_u32 L type_idx]"
| "encode_gc_op L (ArrayGetU type_idx) = encs [push 0xfb, push 0x0d, encode_u32 L type_idx]"
| "encode_gc_op L (ArraySet type_idx) = encs [push 0xfb, push 0x0e, encode_u32 L type_idx]"
| "encode_gc_op L ArrayLen = encs [push 0xfb, push 0x0f]"
| "encode_gc_op L (ArrayFill type_idx) = encs [push 0xfb, push 0x10, encode_u32 L type_idx]"
| "encode_gc_op L (ArrayCopy array_type_index_dst array_type_index_src) = encs [push 0xfb, push 0x11, encode_u32 L array_type_index_dst, encode_u32 L array_type_index_src]"
| "encode_gc_op L (ArrayInitData array_type_index array_data_index) = encs [push 0xfb, push 0x12, encode_u32 L array_type_index, encode_u32 L array_data_index]"
| "encode_gc_op L (ArrayInitElem array_type_index array_elem_index) = encs [push 0xfb, push 0x13, encode_u32 L array_type_index, encode_u32 L array_elem_index]"
| "encode_gc_op L (RefTestNonNull heap_type) = encs [push 0xfb, push 0x14, encode_heap_type L heap_type]"
| "encode_gc_op L (RefTestNullable heap_type) = encs [push 0xfb, push 0x15, encode_heap_type L heap_type]"
| "encode_gc_op L (RefCastNonNull heap_type) = encs [push 0xfb, push 0x16, encode_heap_type L heap_type]"
| "encode_gc_op L (RefCastNullable heap_type) = encs [push 0xfb, push 0x17, encode_heap_type L heap_type]"
| "encode_gc_op L (BrOnCast relative_depth from_ref_type to_ref_type) = encode_br_on_cast L 0x18 relative_depth from_ref_type to_ref_type"
| "encode_gc_op L (BrOnCastFail relative_depth from_ref_type to_ref_type) = encode_br_on_cast L 0x19 relative_depth from_ref_type to_ref_type"
| "encode_gc_op L AnyConvertExtern = encs [push 0xfb, push 0x1a]"
| "encode_gc_op L ExternConvertAny = encs [push 0xfb, push 0x1b]"
| "encode_gc_op L RefI31 = encs [push 0xfb, push 0x1c]"
| "encode_gc_op L I31GetS = encs [push 0xfb, push 0x1d]"
| "encode_gc_op L I31GetU = encs [push 0xfb, push 0x1e]"

section \<open>All instructions\<close>

type_synonym instruction =
  "(enc_block_type, enc_val_type, enc_heap_type, enc_ref_type, enc_mem_arg, u32 list \<times> u32) op"

definition encode_simd :: "leb128 \<Rightarrow> u32 \<Rightarrow> enc" where
  "encode_simd L code = encs [push 0xfd, encode_u32 L code]"

primrec encode_instruction :: "leb128 \<Rightarrow> instruction \<Rightarrow> enc" where
  "encode_instruction L (Control c) = encode_control_op L c"
| "encode_instruction L (Reference c) = encode_ref_op L c"
| "encode_instruction L (Exception c) = encode_exn_op L c"
| "encode_instruction L (Gc c) = encode_gc_op L c"
| "encode_instruction L (NumI32 op) = encode_i32_op op"
| "encode_instruction L (NumI64 op) = encode_i64_op L op"
| "encode_instruction L (NumF32 op) = encode_f32_op op"
| "encode_instruction L (NumF64 op) = encode_f64_op op"
| "encode_instruction L (Load op m) = encs [push (load_code op), encode_mem_arg L m]"
| "encode_instruction L (Store op m) = encs [push (store_code op), encode_mem_arg L m]"
| "encode_instruction L (AtomicAccess op m) = encs [push 0xfe, push (atomic_access_code op), encode_mem_arg L m]"
| "encode_instruction L (AtomicRmw op m) = encs [push 0xfe, push (atomic_rmw_code op), encode_mem_arg L m]"
| "encode_instruction L AtomicFence = encs [push 0xfe, push 0x03, push 0x00]"
| "encode_instruction L (GlobalAtomic op ord i) =
     encs [push 0xfe, push (global_atomic_code op), encode_ordering ord, encode_u32 L i]"
| "encode_instruction L (TableAtomic op ord i) =
     encs [push 0xfe, push (table_atomic_code op), encode_ordering ord, encode_u32 L i]"
| "encode_instruction L (StructAtomic op ord i j) =
     encs [push 0xfe, push (struct_atomic_code op), encode_ordering ord, encode_u32 L i, encode_u32 L j]"
| "encode_instruction L (ArrayAtomic op ord i) =
     encs [push 0xfe, push (array_atomic_code op), encode_ordering ord, encode_u32 L i]"
| "encode_instruction L RefI31Shared = encs [push 0xfe, push 0x72]"
| "encode_instruction L (V128Mem op m) = encs [encode_simd L (v128_mem_code op), encode_mem_arg L m]"
| "encode_instruction L (V128LaneMem op m lane) =
     encs [encode_simd L (fst (v128_lane_mem_code op)), encode_mem_arg L m,
       assert_enc (lane < snd (v128_lane_mem_code op)), push lane]"
| "encode_instruction L (V128Const x) = encs [encode_simd L 0x0c, extend_sink x]"
| "encode_instruction L (I8x16Shuffle lanes) =
     encs [encode_simd L 0x0d, assert_enc (list_all (\<lambda>l. l < 32) lanes), extend_sink lanes]"
| "encode_instruction L (Lane op lane) =
     encs [encode_simd L (fst (lane_code op)), assert_enc (lane < snd (lane_code op)), push lane]"
| "encode_instruction L (SimdI8x16 op) = encode_simd L (i8x16_code op)"
| "encode_instruction L (SimdI16x8 op) = encode_simd L (i16x8_code op)"
| "encode_instruction L (SimdI32x4 op) = encode_simd L (i32x4_code op)"
| "encode_instruction L (SimdI64x2 op) = encode_simd L (i64x2_code op)"
| "encode_instruction L (SimdF32x4 op) = encode_simd L (f32x4_code op)"
| "encode_instruction L (SimdF64x2 op) = encode_simd L (f64x2_code op)"
| "encode_instruction L (SimdV128 op) = encode_simd L (v128_code op)"

section \<open>Re-encoding\<close>

definition re_mem_arg :: "mem_arg \<Rightarrow> enc_mem_arg" where
  "re_mem_arg arg = \<lparr>em_offset = ma_offset arg, em_align = ucast (ma_align arg), em_memory_index = ma_memory arg\<rparr>"

fun re_block_type :: "block_type \<Rightarrow> reencode_error + enc_block_type" where
  "re_block_type BlockEmpty = Inr EBlockEmpty"
| "re_block_type (BlockFuncType n) = Inr (EBlockFunctionType n)"
| "re_block_type (BlockResult t) = bind_res (re_val_type t) (\<lambda>t. Inr (EBlockResult t))"

text \<open>The targets of a branch table are read here, by its iterator.\<close>

definition re_br_table :: "br_table \<Rightarrow> reencode_error + u32 list \<times> u32" where
  "re_br_table t =
     (case br_table_targets t of
        Inl e \<Rightarrow> Inl (ParseError e)
      | Inr targets \<Rightarrow> Inr (targets, bt_default t))"

fun re_try_table :: "block_type try_table \<Rightarrow> reencode_error + enc_block_type try_table" where
  "re_try_table (MkTryTable ty catches) = bind_res (re_block_type ty) (\<lambda>ty. Inr (MkTryTable ty catches))"

primrec re_control_op :: "(block_type, br_table) control_op \<Rightarrow> reencode_error + (enc_block_type, u32 list \<times> u32) control_op" where
  "re_control_op Unreachable = Inr Unreachable"
| "re_control_op Nop = Inr Nop"
| "re_control_op (Block blockty) = bind_res (re_block_type blockty) (\<lambda>blockty. Inr (Block blockty))"
| "re_control_op (Loop blockty) = bind_res (re_block_type blockty) (\<lambda>blockty. Inr (Loop blockty))"
| "re_control_op (OpIf blockty) = bind_res (re_block_type blockty) (\<lambda>blockty. Inr (OpIf blockty))"
| "re_control_op Else = Inr Else"
| "re_control_op End = Inr End"
| "re_control_op (Br relative_depth) = Inr (Br relative_depth)"
| "re_control_op (BrIf relative_depth) = Inr (BrIf relative_depth)"
| "re_control_op (BrTable t) = bind_res (re_br_table t) (\<lambda>t. Inr (BrTable t))"
| "re_control_op Return = Inr Return"
| "re_control_op (Call function_index) = Inr (Call function_index)"
| "re_control_op (CallIndirect type_idx table_index) = Inr (CallIndirect type_idx table_index)"
| "re_control_op Drop = Inr Drop"
| "re_control_op Select = Inr Select"
| "re_control_op (LocalGet local_index) = Inr (LocalGet local_index)"
| "re_control_op (LocalSet local_index) = Inr (LocalSet local_index)"
| "re_control_op (LocalTee local_index) = Inr (LocalTee local_index)"
| "re_control_op (GlobalGet global_index) = Inr (GlobalGet global_index)"
| "re_control_op (GlobalSet global_index) = Inr (GlobalSet global_index)"
| "re_control_op (MemorySize mem) = Inr (MemorySize mem)"
| "re_control_op (MemoryGrow mem) = Inr (MemoryGrow mem)"
| "re_control_op (I32Const x) = Inr (I32Const x)"
| "re_control_op (I64Const x) = Inr (I64Const x)"
| "re_control_op (F32Const x) = Inr (F32Const x)"
| "re_control_op (F64Const x) = Inr (F64Const x)"

primrec re_ref_op :: "(val_type, heap_type) ref_op \<Rightarrow> reencode_error + (enc_val_type, enc_heap_type) ref_op" where
  "re_ref_op (MemoryInit data_index mem) = Inr (MemoryInit data_index mem)"
| "re_ref_op (DataDrop data_index) = Inr (DataDrop data_index)"
| "re_ref_op (MemoryCopy dst_mem src_mem) = Inr (MemoryCopy dst_mem src_mem)"
| "re_ref_op (MemoryFill mem) = Inr (MemoryFill mem)"
| "re_ref_op (TableInit elem_index table) = Inr (TableInit elem_index table)"
| "re_ref_op (ElemDrop elem_index) = Inr (ElemDrop elem_index)"
| "re_ref_op (TableCopy dst_table src_table) = Inr (TableCopy dst_table src_table)"
| "re_ref_op (TypedSelect ty) = bind_res (re_val_type ty) (\<lambda>ty. Inr (TypedSelect ty))"
| "re_ref_op (RefNull hty) = bind_res (re_heap_type hty) (\<lambda>hty. Inr (RefNull hty))"
| "re_ref_op RefIsNull = Inr RefIsNull"
| "re_ref_op (RefFunc function_index) = Inr (RefFunc function_index)"
| "re_ref_op (TableFill table) = Inr (TableFill table)"
| "re_ref_op (TableGet table) = Inr (TableGet table)"
| "re_ref_op (TableSet table) = Inr (TableSet table)"
| "re_ref_op (TableGrow table) = Inr (TableGrow table)"
| "re_ref_op (TableSize table) = Inr (TableSize table)"
| "re_ref_op (ReturnCall function_index) = Inr (ReturnCall function_index)"
| "re_ref_op (ReturnCallIndirect type_idx table_index) = Inr (ReturnCallIndirect type_idx table_index)"
| "re_ref_op (MemoryDiscard mem) = Inr (MemoryDiscard mem)"
| "re_ref_op (CallRef type_idx) = Inr (CallRef type_idx)"
| "re_ref_op (ReturnCallRef type_idx) = Inr (ReturnCallRef type_idx)"
| "re_ref_op RefAsNonNull = Inr RefAsNonNull"
| "re_ref_op (BrOnNull relative_depth) = Inr (BrOnNull relative_depth)"
| "re_ref_op (BrOnNonNull relative_depth) = Inr (BrOnNonNull relative_depth)"

primrec re_exn_op :: "block_type exn_op \<Rightarrow> reencode_error + enc_block_type exn_op" where
  "re_exn_op (TryTable t) = bind_res (re_try_table t) (\<lambda>t. Inr (TryTable t))"
| "re_exn_op (Throw tag_index) = Inr (Throw tag_index)"
| "re_exn_op ThrowRef = Inr ThrowRef"
| "re_exn_op (Try blockty) = bind_res (re_block_type blockty) (\<lambda>blockty. Inr (Try blockty))"
| "re_exn_op (Catch tag_index) = Inr (Catch tag_index)"
| "re_exn_op (Rethrow relative_depth) = Inr (Rethrow relative_depth)"
| "re_exn_op (Delegate relative_depth) = Inr (Delegate relative_depth)"
| "re_exn_op CatchAll = Inr CatchAll"
| "re_exn_op (ContNew cont_type_index) = Inr (ContNew cont_type_index)"
| "re_exn_op (ContBind argument_index result_index) = Inr (ContBind argument_index result_index)"
| "re_exn_op (Suspend tag_index) = Inr (Suspend tag_index)"
| "re_exn_op (Resume cont_type_index resume_table) = Inr (Resume cont_type_index resume_table)"
| "re_exn_op (ResumeThrow cont_type_index tag_index resume_table) = Inr (ResumeThrow cont_type_index tag_index resume_table)"
| "re_exn_op (Switch cont_type_index tag_index) = Inr (Switch cont_type_index tag_index)"

primrec re_gc_op :: "(heap_type, ref_type) gc_op \<Rightarrow> reencode_error + (enc_heap_type, enc_ref_type) gc_op" where
  "re_gc_op RefEq = Inr RefEq"
| "re_gc_op (StructNew struct_type_index) = Inr (StructNew struct_type_index)"
| "re_gc_op (StructNewDefault struct_type_index) = Inr (StructNewDefault struct_type_index)"
| "re_gc_op (StructGet struct_type_index field_index) = Inr (StructGet struct_type_index field_index)"
| "re_gc_op (StructGetS struct_type_index field_index) = Inr (StructGetS struct_type_index field_index)"
| "re_gc_op (StructGetU struct_type_index field_index) = Inr (StructGetU struct_type_index field_index)"
| "re_gc_op (StructSet struct_type_index field_index) = Inr (StructSet struct_type_index field_index)"
| "re_gc_op (ArrayNew array_type_index) = Inr (ArrayNew array_type_index)"
| "re_gc_op (ArrayNewDefault array_type_index) = Inr (ArrayNewDefault array_type_index)"
| "re_gc_op (ArrayNewFixed array_type_index array_size) = Inr (ArrayNewFixed array_type_index array_size)"
| "re_gc_op (ArrayNewData array_type_index array_data_index) = Inr (ArrayNewData array_type_index array_data_index)"
| "re_gc_op (ArrayNewElem array_type_index array_elem_index) = Inr (ArrayNewElem array_type_index array_elem_index)"
| "re_gc_op (ArrayGet array_type_index) = Inr (ArrayGet array_type_index)"
| "re_gc_op (ArrayGetS array_type_index) = Inr (ArrayGetS array_type_index)"
| "re_gc_op (ArrayGetU array_type_index) = Inr (ArrayGetU array_type_index)"
| "re_gc_op (ArraySet array_type_index) = Inr (ArraySet array_type_index)"
| "re_gc_op ArrayLen = Inr ArrayLen"
| "re_gc_op (ArrayFill array_type_index) = Inr (ArrayFill array_type_index)"
| "re_gc_op (ArrayCopy array_type_index_dst array_type_index_src) = Inr (ArrayCopy array_type_index_dst array_type_index_src)"
| "re_gc_op (ArrayInitData array_type_index array_data_index) = Inr (ArrayInitData array_type_index array_data_index)"
| "re_gc_op (ArrayInitElem array_type_index array_elem_index) = Inr (ArrayInitElem array_type_index array_elem_index)"
| "re_gc_op (RefTestNonNull hty) = bind_res (re_heap_type hty) (\<lambda>hty. Inr (RefTestNonNull hty))"
| "re_gc_op (RefTestNullable hty) = bind_res (re_heap_type hty) (\<lambda>hty. Inr (RefTestNullable hty))"
| "re_gc_op (RefCastNonNull hty) = bind_res (re_heap_type hty) (\<lambda>hty. Inr (RefCastNonNull hty))"
| "re_gc_op (RefCastNullable hty) = bind_res (re_heap_type hty) (\<lambda>hty. Inr (RefCastNullable hty))"
| "re_gc_op (BrOnCast relative_depth from_ref_type to_ref_type) = bind_res (re_ref_type from_ref_type) (\<lambda>from_ref_type. bind_res (re_ref_type to_ref_type) (\<lambda>to_ref_type. Inr (BrOnCast relative_depth from_ref_type to_ref_type)))"
| "re_gc_op (BrOnCastFail relative_depth from_ref_type to_ref_type) = bind_res (re_ref_type from_ref_type) (\<lambda>from_ref_type. bind_res (re_ref_type to_ref_type) (\<lambda>to_ref_type. Inr (BrOnCastFail relative_depth from_ref_type to_ref_type)))"
| "re_gc_op AnyConvertExtern = Inr AnyConvertExtern"
| "re_gc_op ExternConvertAny = Inr ExternConvertAny"
| "re_gc_op RefI31 = Inr RefI31"
| "re_gc_op I31GetS = Inr I31GetS"
| "re_gc_op I31GetU = Inr I31GetU"

primrec re_instruction :: "operator \<Rightarrow> reencode_error + instruction" where
  "re_instruction (Control c) = bind_res (re_control_op c) (\<lambda>c. Inr (Control c))"
| "re_instruction (Reference c) = bind_res (re_ref_op c) (\<lambda>c. Inr (Reference c))"
| "re_instruction (Exception c) = bind_res (re_exn_op c) (\<lambda>c. Inr (Exception c))"
| "re_instruction (Gc c) = bind_res (re_gc_op c) (\<lambda>c. Inr (Gc c))"
| "re_instruction (NumI32 op) = Inr (NumI32 op)"
| "re_instruction (NumI64 op) = Inr (NumI64 op)"
| "re_instruction (NumF32 op) = Inr (NumF32 op)"
| "re_instruction (NumF64 op) = Inr (NumF64 op)"
| "re_instruction (Load op memarg) = Inr (Load op (re_mem_arg memarg))"
| "re_instruction (Store op memarg) = Inr (Store op (re_mem_arg memarg))"
| "re_instruction (AtomicAccess op memarg) = Inr (AtomicAccess op (re_mem_arg memarg))"
| "re_instruction (AtomicRmw op memarg) = Inr (AtomicRmw op (re_mem_arg memarg))"
| "re_instruction AtomicFence = Inr AtomicFence"
| "re_instruction (GlobalAtomic op ord i) = Inr (GlobalAtomic op ord i)"
| "re_instruction (TableAtomic op ord i) = Inr (TableAtomic op ord i)"
| "re_instruction (StructAtomic op ord i j) = Inr (StructAtomic op ord i j)"
| "re_instruction (ArrayAtomic op ord i) = Inr (ArrayAtomic op ord i)"
| "re_instruction RefI31Shared = Inr RefI31Shared"
| "re_instruction (V128Mem op memarg) = Inr (V128Mem op (re_mem_arg memarg))"
| "re_instruction (V128LaneMem op memarg lane) = Inr (V128LaneMem op (re_mem_arg memarg) lane)"
| "re_instruction (V128Const x) = Inr (V128Const x)"
| "re_instruction (I8x16Shuffle lanes) = Inr (I8x16Shuffle lanes)"
| "re_instruction (Lane op lane) = Inr (Lane op lane)"
| "re_instruction (SimdI8x16 op) = Inr (SimdI8x16 op)"
| "re_instruction (SimdI16x8 op) = Inr (SimdI16x8 op)"
| "re_instruction (SimdI32x4 op) = Inr (SimdI32x4 op)"
| "re_instruction (SimdI64x2 op) = Inr (SimdI64x2 op)"
| "re_instruction (SimdF32x4 op) = Inr (SimdF32x4 op)"
| "re_instruction (SimdF64x2 op) = Inr (SimdF64x2 op)"
| "re_instruction (SimdV128 op) = Inr (SimdV128 op)"

end
