(* ===== verification/Sections.thy ===== *)
theory Sections
  imports Enc_Types
begin

text \<open>
  Sections that are a list of items: \<open>SectionLimited\<close> of wasmparser's readers.rs, the section
  builders of wasm-encoder, which all hold the bytes and the number of their items, and the loops of
  reencode.rs that copy one into the other.
\<close>

section \<open>Reading\<close>

record section_limited =
  sl_reader :: binary_reader
  sl_count :: u32

definition section_limited_new :: "binary_reader \<Rightarrow> section_limited result" where
  "section_limited_new reader =
     (case read_var_u32 reader of
        Inl e \<Rightarrow> Inl e
      | Inr (count, reader) \<Rightarrow> Inr \<lparr>sl_reader = reader, sl_count = count\<rparr>)"

record section_iter =
  si_section :: section_limited
  si_remaining :: u32
  si_end :: bool

definition section_into_iter :: "section_limited \<Rightarrow> section_iter" where
  "section_into_iter sec = \<lparr>si_section = sec, si_remaining = sl_count sec, si_end = False\<rparr>"

definition section_next :: "'a rd \<Rightarrow> section_iter \<Rightarrow> 'a result option \<times> section_iter" where
  "section_next read it =
     (if si_end it then (None, it)
      else if si_remaining it = 0
      then (let it' = it\<lparr>si_end := True\<rparr>; reader = sl_reader (si_section it) in
        if eof reader then (None, it')
        else (Some (Inl (error_new ''section size mismatch: unexpected data at the end of the section''
               (original_position reader))), it'))
      else case read (sl_reader (si_section it)) of
          Inl e \<Rightarrow> (Some (Inl e), it\<lparr>si_remaining := si_remaining it - 1, si_end := True\<rparr>)
        | Inr (x, reader) \<Rightarrow>
            (Some (Inr x), it\<lparr>si_section := (si_section it)\<lparr>sl_reader := reader\<rparr>, si_remaining := si_remaining it - 1\<rparr>))"

lemma section_next_decreases:
  "section_next read it = (Some (Inr x), it') \<Longrightarrow> unat (si_remaining it') < unat (si_remaining it)"
  by (auto simp: section_next_def unat_minus_one unat_gt_0 Let_def split: if_splits sum.splits)

text \<open>The items of a section, up to the first error.\<close>

function collect_section :: "'a rd \<Rightarrow> section_iter \<Rightarrow> 'a list result" where
  "collect_section read it =
     (case section_next read it of
        (None, _) \<Rightarrow> Inr []
      | (Some (Inl e), _) \<Rightarrow> Inl e
      | (Some (Inr x), it') \<Rightarrow> (case collect_section read it' of Inl e \<Rightarrow> Inl e | Inr xs \<Rightarrow> Inr (x # xs)))"
  by pat_completeness auto
termination
  by (relation "measure (\<lambda>(_, it). unat (si_remaining it))") (auto dest: section_next_decreases [OF sym])

declare collect_section.simps [simp del]

definition section_items :: "'a rd \<Rightarrow> section_limited \<Rightarrow> 'a list result" where
  "section_items read sec = collect_section read (section_into_iter sec)"

section \<open>Writing\<close>

record enc_section =
  es_bytes :: "u8 list"
  es_num_added :: u32

definition enc_section_new :: enc_section where
  "enc_section_new = \<lparr>es_bytes = [], es_num_added = 0\<rparr>"

definition enc_section_encode :: "leb128 \<Rightarrow> enc_section \<Rightarrow> enc" where
  "enc_section_encode L s = encode_section L (es_num_added s) (es_bytes s)"

text \<open>Adding an item whose bytes are \<open>e\<close>; the count comes first or last, which cannot be observed.\<close>

definition enc_section_add :: "enc_section \<Rightarrow> enc \<Rightarrow> enc_section option" where
  "enc_section_add s e =
     (case e of
        None \<Rightarrow> None
      | Some bs \<Rightarrow> Some (s\<lparr>es_bytes := es_bytes s @ bs, es_num_added := es_num_added s + 1\<rparr>))"

section \<open>Copying\<close>

text \<open>
  The loop \<open>for item in section { reencoder.parse_item(builder, item?)?; }\<close>. The result is an error,
  \<open>Inr None\<close> for a panic of the encoder, or the builder.
\<close>

function parse_items ::
  "'a rd \<Rightarrow> ('s \<Rightarrow> 'a \<Rightarrow> reencode_error + 's option) \<Rightarrow> 's \<Rightarrow> section_iter \<Rightarrow> reencode_error + 's option" where
  "parse_items read step s it =
     (case section_next read it of
        (None, _) \<Rightarrow> Inr (Some s)
      | (Some (Inl e), _) \<Rightarrow> Inl (ParseError e)
      | (Some (Inr x), it') \<Rightarrow>
          (case step s x of
             Inl e \<Rightarrow> Inl e
           | Inr None \<Rightarrow> Inr None
           | Inr (Some s') \<Rightarrow> parse_items read step s' it'))"
  by pat_completeness auto
termination
  by (relation "measure (\<lambda>(_, _, _, it). unat (si_remaining it))") (auto dest: section_next_decreases [OF sym])

declare parse_items.simps [simp del]

definition parse_section ::
  "'a rd \<Rightarrow> ('s \<Rightarrow> 'a \<Rightarrow> reencode_error + 's option) \<Rightarrow> 's \<Rightarrow> section_limited \<Rightarrow> reencode_error + 's option" where
  "parse_section read step s sec = parse_items read step s (section_into_iter sec)"

text \<open>An item that is translated to the bytes \<open>item_bytes x\<close> and added to the builder.\<close>

definition add_item :: "('a \<Rightarrow> 'e + enc) \<Rightarrow> enc_section \<Rightarrow> 'a \<Rightarrow> 'e + enc_section option" where
  "add_item item_bytes s x = bind_res (item_bytes x) (\<lambda>e. Inr (enc_section_add s e))"

section \<open>The items as one read\<close>

lemma collect_section_read_items:
  "\<not> si_end it \<Longrightarrow> collect_section read it =
     (case read_items read (unat (si_remaining it)) (sl_reader (si_section it)) of
        Inl e \<Rightarrow> Inl e
      | Inr (xs, r) \<Rightarrow>
          if eof r then Inr xs
          else Inl (error_new ''section size mismatch: unexpected data at the end of the section'' (original_position r)))"
proof (induction read it rule: collect_section.induct)
  case (1 read it)
  show ?case
  proof (cases "si_remaining it = 0")
    case True
    then show ?thesis using 1(2) by (subst collect_section.simps) (simp add: section_next_def return_rd_def)
  next
    case False
    then obtain n where n: "unat (si_remaining it) = Suc n" by (metis not0_implies_Suc unat_eq_0)
    then have n': "unat (si_remaining it - 1) = n" using False by (simp add: unat_minus_one)
    show ?thesis
    proof (cases "read (sl_reader (si_section it))")
      case (Inl e)
      then show ?thesis
        using False 1(2) by (subst collect_section.simps) (simp add: section_next_def n bind_rd_def)
    next
      case (Inr q)
      then obtain x r where r: "read (sl_reader (si_section it)) = Inr (x, r)" by (cases q) auto
      define it' where
        "it' = it\<lparr>si_section := (si_section it)\<lparr>sl_reader := r\<rparr>, si_remaining := si_remaining it - 1\<rparr>"
      have next': "section_next read it = (Some (Inr x), it')" using r False 1(2) by (simp add: section_next_def it'_def)
      have "collect_section read it' = (case read_items read n r of
          Inl e \<Rightarrow> Inl e
        | Inr (xs, r) \<Rightarrow> if eof r then Inr xs
            else Inl (error_new ''section size mismatch: unexpected data at the end of the section'' (original_position r)))"
        using 1(1) [OF next' [symmetric] refl refl] 1(2) by (simp add: it'_def n')
      then show ?thesis
        by (subst collect_section.simps) (auto simp: next' n bind_rd_def r return_rd_def split: sum.split)
    qed
  qed
qed

fun steps :: "('s \<Rightarrow> 'a \<Rightarrow> 'e + 's option) \<Rightarrow> 's \<Rightarrow> 'a list \<Rightarrow> 'e + 's option" where
  "steps step s [] = Inr (Some s)"
| "steps step s (x # xs) =
     (case step s x of Inl e \<Rightarrow> Inl e | Inr None \<Rightarrow> Inr None | Inr (Some s') \<Rightarrow> steps step s' xs)"

lemma parse_items_iff:
  "parse_items read step s it = Inr (Some s') \<longleftrightarrow>
     (\<exists>xs. collect_section read it = Inr xs \<and> steps step s xs = Inr (Some s'))"
proof (induction read step s it rule: parse_items.induct)
  case (1 read step s it)
  show ?case
    by (subst parse_items.simps, subst collect_section.simps)
      (auto simp: 1 split: prod.split option.split sum.split)
qed

lemma parse_section_iff:
  "parse_section read step s sec = Inr (Some s') \<longleftrightarrow>
     (\<exists>xs. section_items read sec = Inr xs \<and> steps step s xs = Inr (Some s'))"
  by (simp add: parse_section_def section_items_def parse_items_iff)

lemma steps_add_item:
  "steps (add_item item_bytes) s xs = Inr (Some s') \<longleftrightarrow>
     (\<exists>bss. list_all2 (\<lambda>x bs. item_bytes x = Inr (Some bs)) xs bss
        \<and> s' = s\<lparr>es_bytes := es_bytes s @ concat bss, es_num_added := es_num_added s + of_nat (length xs)\<rparr>)"
proof (induction xs arbitrary: s)
  case Nil
  show ?case by auto
next
  case (Cons x xs)
  show ?case
    by (auto simp: add_item_def [of item_bytes s x] enc_section_add_def bind_res_def Cons list_all2_Cons1 add.assoc split: sum.splits option.splits)
qed

lemma section_items_length: "section_items read sec = Inr xs \<Longrightarrow> length xs < 2 ^ 32"
proof -
  assume "section_items read sec = Inr xs"
  then obtain r where "read_items read (unat (sl_count sec)) (sl_reader sec) = Inr (xs, r)"
    by (auto simp: section_items_def section_into_iter_def collect_section_read_items split: sum.splits if_splits)
  then have "length xs = unat (sl_count sec)" by (rule read_items_length)
  moreover have "unat (sl_count sec) < 2 ^ LENGTH(32)" by (rule unsigned_less)
  ultimately show ?thesis by simp
qed

lemma list_all2_choice: "\<forall>x \<in> set xs. \<exists>y. P x y \<Longrightarrow> \<exists>ys. list_all2 P xs ys"
  by (induction xs) (auto simp: list_all2_Cons1)

section \<open>Round trip of a section\<close>

text \<open>The payload that is read back from an encoded section.\<close>

lemma enc_section_payload:
  assumes "leb128_ok L" "enc_section_encode L s = Some bs"
    and r: "rd_wf r" "remaining_buffer r = bs @ rest"
  shows "\<exists>off. read_reader r = Inr (\<lparr>buffer = write_unsigned L (ucast (es_num_added s)) @ es_bytes s, position = 0,
      original_offset = off, features = features r\<rparr>, advance (length bs) r)"
proof -
  define c where "c = write_unsigned L (ucast (es_num_added s)) @ es_bytes s"
  from assms(2) have len: "length c < 2 ^ 32" and bs: "encs [encode_usize L (length c), extend_sink c] = Some bs"
    by (auto simp: enc_section_encode_def encode_section_def encoding_size_def Let_def encode_u32_def extend_sink_def
        encode_usize_def assert_enc_def encs_Cons_Some c_def split: if_splits option.splits)
  obtain b where b: "encode_usize L (length c) = Some b" "bs = b @ c"
    using bs by (auto simp: encs_Cons_Some extend_sink_def)
  have n: "unat (of_nat (length c) :: u32) = length c" using len by (simp add: unat_of_nat)
  have "decodes (features r) read_var_u32 b (of_nat (length c))"
    using b(1) len decodes_write_u32 [OF assms(1), of "features r" "of_nat (length c)"]
    by (auto simp: encode_usize_def assert_enc_def encode_u32_def extend_sink_def split: if_splits)
  from decodesD [OF this r(1) refl, of "c @ rest"] r(2) b(2)
  have size: "read_var_u32 r = Inr (of_nat (length c), advance (length b) r)" by simp
  have "rd_wf (advance (length b) r)" "remaining_buffer (advance (length b) r) = c @ rest"
    using r b(2) by (auto intro: rd_wf_advance remaining_advance)
  from skip_decodes [OF decodes_read_bytes [OF refl] this(1) refl this(2)]
  show ?thesis
    by (intro exI) (simp add: read_reader_def bind_rd_def [of read_var_u32] size n b(2) flip: c_def)
qed

text \<open>
  The contract of an item of a section: what it is written as is read as an item with the same
  \<open>view\<close>. \<open>ok\<close> characterises the items concerned.
\<close>

locale section_item =
  fixes read :: "'a rd"
    and ok :: "wasm_features \<Rightarrow> 'a \<Rightarrow> bool"
    and item_bytes :: "leb128 \<Rightarrow> 'a \<Rightarrow> 'e + enc"
    and view :: "'a \<Rightarrow> 'v"
  assumes written: "leb128_ok L \<Longrightarrow> ok fs x \<Longrightarrow> item_bytes L x = Inr (Some bs) \<Longrightarrow>
      decodes fs (bind_rd read (\<lambda>x. return_rd (view x))) bs (view x)"
begin

lemma written_items:
  assumes "leb128_ok L" "list_all2 (\<lambda>x bs. ok fs x \<and> item_bytes L x = Inr (Some bs)) xs bss"
  shows "decodes fs (bind_rd (read_items read (length xs)) (\<lambda>xs. return_rd (map view xs))) (concat bss) (map view xs)"
  using assms(2)
proof (induction xs bss)
  case (Cons x xs bs bss)
  let ?v = "bind_rd read (\<lambda>x. return_rd (view x))"
  let ?vs = "\<lambda>n. bind_rd (read_items read n) (\<lambda>xs. return_rd (map view xs))"
  have eq: "?vs (Suc n) = bind_rd ?v (\<lambda>v. bind_rd (?vs n) (\<lambda>vs. return_rd (v # vs)))" for n
    by (simp add: bind_assoc)
  have "decodes fs ?v bs (view x)" using written [OF assms(1)] Cons(1) by blast
  moreover have "decodes fs (bind_rd (?vs (length xs)) (\<lambda>vs. return_rd (view x # vs))) (concat bss @ []) (view x # map view xs)"
    by (rule decodes_bind [OF Cons(3) decodes_return])
  ultimately have "decodes fs (bind_rd ?v (\<lambda>v. bind_rd (?vs (length xs)) (\<lambda>vs. return_rd (v # vs)))) (bs @ concat bss) (view x # map view xs)"
    using decodes_bind [where f = "\<lambda>v. bind_rd (?vs (length xs)) (\<lambda>vs. return_rd (v # vs))"] by simp
  then show ?case by (simp add: eq del: read_items.simps)
qed (simp add: decodes_return)

text \<open>The contents of a section written with these items, as the reader of its payload sees them.\<close>

lemma content_round_trip:
  assumes "leb128_ok L" "list_all2 (\<lambda>x bs. ok (features r) x \<and> item_bytes L x = Inr (Some bs)) xs bss" "length xs < 2 ^ 32"
    and r: "rd_wf r" "remaining_buffer r = write_unsigned L (of_nat (length xs)) @ concat bss"
  shows "\<exists>sec xs2. section_limited_new r = Inr sec \<and> section_items read sec = Inr xs2 \<and> map view xs2 = map view xs"
proof -
  define n :: u32 where "n = of_nat (length xs)"
  define c where "c = write_unsigned L (ucast n)"
  define r1 where "r1 = advance (length c) r"
  have n: "unat n = length xs" "ucast n = (of_nat (length xs) :: u64)"
    using assms(3) by (simp_all add: n_def unat_of_nat word_unat_eq_iff unsigned_ucast_eq take_bit_nat_eq_self)
  have rem: "remaining_buffer r = c @ concat bss" using r(2) n(2) by (simp add: c_def)
  have count: "read_var_u32 r = Inr (n, r1)"
    using decodesD [OF decodes_write_u32 [OF assms(1)] r(1) refl rem [unfolded c_def]] by (simp add: r1_def c_def)
  have r1: "rd_wf r1" "features r1 = features r" "remaining_buffer r1 = concat bss @ []"
    using r(1) rem by (auto simp: r1_def intro: rd_wf_advance remaining_advance)
  from decodesD [OF written_items [OF assms(1,2)] r1] obtain xs2 where
    items: "read_items read (length xs) r1 = Inr (xs2, advance (length (concat bss)) r1)" "map view xs2 = map view xs"
    by (auto simp: bind_rd_def return_rd_def split: sum.splits)
  have "eof (advance (length (concat bss)) r1)"
    using arg_cong [OF r1(3), of length] by (simp add: eof_def remaining_buffer_def)
  then have "section_items read \<lparr>sl_reader = r1, sl_count = n\<rparr> = Inr xs2"
    by (simp add: section_items_def section_into_iter_def collect_section_read_items n items(1))
  moreover have "section_limited_new r = Inr \<lparr>sl_reader = r1, sl_count = n\<rparr>"
    by (simp add: section_limited_new_def count)
  ultimately show ?thesis using items(2) by blast
qed

text \<open>A section that was copied from \<open>sec\<close>, encoded, and read again.\<close>

lemma section_round_trip:
  assumes "leb128_ok L" "section_items read sec = Inr xs" "list_all (ok (features r)) xs"
    and "steps (add_item (item_bytes L)) enc_section_new xs = Inr (Some s)" "enc_section_encode L s = Some bs"
    and r: "rd_wf r" "remaining_buffer r = bs @ rest"
  shows "\<exists>payload sec2 xs2. read_reader r = Inr (payload, advance (length bs) r) \<and>
    section_limited_new payload = Inr sec2 \<and> section_items read sec2 = Inr xs2 \<and> map view xs2 = map view xs"
proof -
  from assms(4) obtain bss where bss: "list_all2 (\<lambda>x bs. item_bytes L x = Inr (Some bs)) xs bss"
    and s: "es_bytes s = concat bss" "es_num_added s = of_nat (length xs)"
    by (auto simp: steps_add_item enc_section_new_def)
  note len = section_items_length [OF assms(2)]
  have n: "ucast (of_nat (length xs) :: u32) = (of_nat (length xs) :: u64)"
    using len by (simp add: word_unat_eq_iff unsigned_ucast_eq unat_of_nat take_bit_nat_eq_self)
  obtain off where payload: "read_reader r = Inr (\<lparr>buffer = write_unsigned L (of_nat (length xs)) @ concat bss, position = 0,
      original_offset = off, features = features r\<rparr>, advance (length bs) r)"
    using enc_section_payload [OF assms(1,5) r] by (auto simp: s n)
  have "list_all2 (\<lambda>x bs. ok (features r) x \<and> item_bytes L x = Inr (Some bs)) xs bss"
    using bss assms(3) by (auto simp: list_all2_conv_all_nth list_all_length)
  from content_round_trip [OF assms(1) _ len, of "\<lparr>buffer = write_unsigned L (of_nat (length xs)) @ concat bss, position = 0,
      original_offset = off, features = features r\<rparr>" bss] this
  show ?thesis unfolding payload by (auto simp: rd_wf_def remaining_buffer_def)
qed

end

text \<open>Whatever survives a round trip alone survives it as an item.\<close>

sublocale reencodable \<subseteq> item: section_item read ok "\<lambda>L x. bind_res (re x) (\<lambda>y. Inr (enc L y))" view
proof
  fix L fs x bs
  assume "leb128_ok L" "ok fs x" "bind_res (re x) (\<lambda>y. Inr (enc L y)) = Inr (Some bs)"
  then show "decodes fs (bind_rd read (\<lambda>x. return_rd (view x))) bs (view x)"
    by (auto simp: bind_res_Inr_iff intro: reads_backD [OF read_back])
qed

end
