(* ===== verification/Type_Round_Trip.thy ===== *)
theory Type_Round_Trip
  imports Sections
begin

text \<open>
  The types that wasmparser reads are translated and encoded by wasm-encoder without a failure, and
  are read back as the same types.
\<close>

section \<open>What the readers return\<close>

fun index_readable :: "unpacked_index \<Rightarrow> bool" where
  "index_readable (Module i) \<longleftrightarrow> unat i < 2 ^ 20"
| "index_readable _ \<longleftrightarrow> False"

fun heap_type_readable :: "heap_type \<Rightarrow> bool" where
  "heap_type_readable (Concrete u) \<longleftrightarrow> index_readable u"
| "heap_type_readable (Abstract shared ty) \<longleftrightarrow> True"

definition ref_type_readable :: "ref_type \<Rightarrow> bool" where
  "ref_type_readable rt \<longleftrightarrow> (\<exists>n h. ref_new n h = Some rt \<and> heap_type_readable h)"

fun val_type_readable :: "val_type \<Rightarrow> bool" where
  "val_type_readable (Ref rt) \<longleftrightarrow> ref_type_readable rt"
| "val_type_readable _ \<longleftrightarrow> True"

fun storage_type_readable :: "storage_type \<Rightarrow> bool" where
  "storage_type_readable (Val ty) \<longleftrightarrow> val_type_readable ty"
| "storage_type_readable _ \<longleftrightarrow> True"

abbreviation field_type_readable :: "field_type \<Rightarrow> bool" where
  "field_type_readable f \<equiv> storage_type_readable (element_type f)"

definition func_type_readable :: "func_type \<Rightarrow> bool" where
  "func_type_readable ft \<longleftrightarrow> len_params ft \<le> length (params_results ft)
     \<and> length (func_params ft) \<le> MAX_WASM_FUNCTION_PARAMS
     \<and> length (func_results ft) \<le> MAX_WASM_FUNCTION_RETURNS
     \<and> list_all val_type_readable (params_results ft)"

definition packed_readable :: "packed_index \<Rightarrow> bool" where
  "packed_readable p \<longleftrightarrow> (\<exists>i. from_module_index i = Some p)"

fun inner_readable :: "composite_inner_type \<Rightarrow> bool" where
  "inner_readable (CompFunc ft) \<longleftrightarrow> func_type_readable ft"
| "inner_readable (CompArray (ArrayType f)) \<longleftrightarrow> field_type_readable f"
| "inner_readable (CompStruct (StructType fs)) \<longleftrightarrow>
     length fs \<le> MAX_WASM_STRUCT_FIELDS \<and> list_all field_type_readable fs"
| "inner_readable (CompCont (ContType p)) \<longleftrightarrow> packed_readable p"

abbreviation composite_readable :: "composite_type \<Rightarrow> bool" where
  "composite_readable ct \<equiv> inner_readable (comp_inner ct)"

definition sub_type_readable :: "sub_type \<Rightarrow> bool" where
  "sub_type_readable ty \<longleftrightarrow> composite_readable (composite_type ty)
     \<and> (case supertype_idx ty of None \<Rightarrow> True | Some p \<Rightarrow> packed_readable p)"

lemma from_module_index_readable:
  assumes "from_module_index i = Some p"
  shows "unpack p = Some (Module i)" "unat i < 2 ^ 20"
proof -
  have "pack (Module i) = Some p" using assms by simp
  then show "unpack p = Some (Module i)" by (rule unpack_pack)
  show "unat i < 2 ^ 20"
    using assms by (simp add: from_module_index_def can_represent_index_iff split: if_splits)
qed

lemma from_module_index_Some: "unat i < 2 ^ 20 \<Longrightarrow> \<exists>p. from_module_index i = Some p"
  by (simp add: from_module_index_def can_represent_index_iff)

lemma returns_abstract_heap_type: "returns fs read_abstract_heap_type (\<lambda>_. True)"
  unfolding read_abstract_heap_type_def
  by (rule returns_bind [OF returns_u8], rule returns_option) (auto intro: ret_intro)

lemma returns_lookahead: "returns fs m P \<Longrightarrow> returns fs (lookahead m) P"
  by (rule returnsI) (auto simp: lookahead_def dest: returnsD split: sum.splits)

lemma returns_heap_type: "returns fs read_heap_type heap_type_readable"
  unfolding read_heap_type_alt
proof (rule returns_bind [OF returns_lookahead [OF returns_s33]], rule returns_option)
  fix x
  show "returns fs (bind_rd peek (\<lambda>b. if b = 0x65
      then bind_rd read_u8 (\<lambda>_. bind_rd read_abstract_heap_type (\<lambda>ty. return_rd (Abstract True ty)))
      else bind_rd (map_err_rd (reclassify ''invalid heap type'') read_abstract_heap_type)
        (\<lambda>ty. return_rd (Abstract False ty)))) heap_type_readable"
    by (rule returns_bind [OF returns_peek], rule returns_if)
      (rule returns_bind ret_intro returns_abstract_heap_type | simp)+
next
  fix x idx
  show "returns fs (bind_rd read_var_s33 (\<lambda>_.
      case from_module_index idx of
        None \<Rightarrow> fail_rd (\<lambda>r. error_new ''type index greater than implementation limits'' (original_position r))
      | Some p \<Rightarrow> return_rd (Concrete (the (unpack p))))) heap_type_readable"
    by (rule returns_bind [OF returns_s33], rule returns_option)
      (auto intro!: ret_intro simp: from_module_index_readable(1) dest: from_module_index_readable(2))
qed

lemma returns_ref_type: "returns fs read_ref_type ref_type_readable"
proof -
  have ok: "returns fs (ok_or_too_large pos (ref_new n h)) ref_type_readable"
    if "heap_type_readable h" for pos n h
    unfolding ok_or_too_large_def
    by (rule returns_option, rule returns_fail, rule returns_return)
      (use that in \<open>auto simp: ref_type_readable_def\<close>)
  show ?thesis
    unfolding read_ref_type_def
    by (rule returns_with_pos, rule returns_bind [OF returns_peek], rule returns_if)
      (rule returns_bind ret_intro returns_heap_type ok | assumption)+
qed

lemma returns_val_type: "returns fs read_val_type val_type_readable"
  unfolding read_val_type_def
  by (rule returns_bind [OF returns_peek])
    (rule returns_if returns_bind [OF returns_u8] returns_bind [OF returns_map_err [OF returns_ref_type]]
      returns_return | simp)+

lemma returns_storage_type: "returns fs read_storage_type storage_type_readable"
  unfolding read_storage_type_def
  by (rule returns_bind [OF returns_peek])
    (rule returns_if returns_bind [OF returns_u8] returns_bind [OF returns_val_type] returns_return | simp)+

lemma returns_field_type: "returns fs read_field_type field_type_readable"
  unfolding read_field_type_def
  by (rule returns_bind [OF returns_storage_type])
    (rule returns_if returns_bind [OF returns_u8] returns_return returns_fail | simp)+

lemma returns_func_type: "returns fs read_func_type func_type_readable"
  unfolding read_func_type_def
  by (rule returns_bind [OF returns_iter [OF returns_val_type]])+
    (rule returns_return, simp add: func_type_readable_def from_raw_parts_def func_params_def func_results_def)

lemma returns_cont_type: "returns fs read_cont_type (\<lambda>(ContType p) \<Rightarrow> packed_readable p)"
  unfolding read_cont_type_def
  by (rule returns_bind [OF returns_s33])
    (rule returns_option ret_intro | force simp: packed_readable_def)+

lemma returns_array_type: "returns fs read_array_type (\<lambda>t. inner_readable (CompArray t))"
  unfolding read_array_type_def by (rule returns_bind [OF returns_field_type], rule returns_return) simp

lemma returns_struct_type: "returns fs read_struct_type (\<lambda>t. inner_readable (CompStruct t))"
  unfolding read_struct_type_def
  by (rule returns_bind [OF returns_iter [OF returns_field_type]], rule returns_return) simp

lemma returns_composite_inner: "returns fs (read_composite_inner shared opcode) composite_readable"
  unfolding read_composite_inner_def invalid_leading_byte_def
  by (rule returns_if returns_bind [OF returns_func_type] returns_bind [OF returns_array_type]
      returns_bind [OF returns_struct_type] returns_bind [OF returns_cont_type] ret_intro
      | (simp split: cont_type.splits))+

lemma returns_composite_type: "returns fs (read_composite_type opcode) composite_readable"
  unfolding read_composite_type_def
  by (rule returns_if returns_bind [OF returns_u8] returns_composite_inner)+

lemma returns_sub_type: "returns fs read_sub_type sub_type_readable"
  unfolding read_sub_type_def
proof (rule returns_with_pos, rule returns_bind [OF returns_u8], rule returns_if)
  fix pos and opcode :: u8
  assume "\<not> (opcode = 0x4f \<or> opcode = 0x50)"
  show "returns fs (bind_rd (read_composite_type opcode) (\<lambda>ct.
      return_rd \<lparr>is_final = True, supertype_idx = None, composite_type = ct\<rparr>)) sub_type_readable"
    by (rule returns_bind [OF returns_composite_type], rule returns_return) (simp add: sub_type_readable_def)
next
  fix pos and opcode :: u8
  have super: "returns fs
      (case idxs of
         [] \<Rightarrow> return_rd None
       | idx # _ \<Rightarrow>
           (case from_module_index idx of
              None \<Rightarrow> fail_rd (\<lambda>r. error_new ''type index greater than implementation limits'' (original_position r))
            | Some p \<Rightarrow> return_rd (Some p)))
      (\<lambda>s. case s of None \<Rightarrow> True | Some p \<Rightarrow> packed_readable p)" for idxs :: "u32 list"
    by (rule returns_list returns_option ret_intro | force simp: packed_readable_def)+
  show "returns fs (bind_rd (read_iter MAX_WASM_SUPERTYPES ''supertype idxs'' read_var_u32) (\<lambda>idxs.
      if length idxs > 1 then fail_rd (\<lambda>_. error_new ''multiple supertypes not supported'' pos)
      else bind_rd
        (case idxs of
           [] \<Rightarrow> return_rd None
         | idx # _ \<Rightarrow>
             (case from_module_index idx of
                None \<Rightarrow> fail_rd (\<lambda>r. error_new ''type index greater than implementation limits'' (original_position r))
              | Some p \<Rightarrow> return_rd (Some p)))
        (\<lambda>super. bind_rd read_u8 (\<lambda>op2. bind_rd (read_composite_type op2) (\<lambda>ct.
           return_rd \<lparr>is_final = (opcode = 0x4f), supertype_idx = super, composite_type = ct\<rparr>)))))
      sub_type_readable"
    by (rule returns_bind [OF returns_iter [OF returns_u32]])
      (rule returns_if returns_fail returns_bind [OF super] returns_bind [OF returns_u8]
        returns_bind [OF returns_composite_type] returns_return | simp add: sub_type_readable_def)+
qed

section \<open>Heap types, reference types and value types\<close>

lemma ref_type_readableE:
  assumes "ref_type_readable rt"
  obtains h where "ref_new (is_nullable rt) h = Some rt" "ref_heap_type rt = Some h" "heap_type_readable h"
proof -
  from assms obtain n h where h: "ref_new n h = Some rt" "heap_type_readable h"
    by (auto simp: ref_type_readable_def)
  with ref_new_correct [OF h(1)] that show thesis by auto
qed

lemma re_heap_type_total: "heap_type_readable h \<Longrightarrow> \<exists>y. re_heap_type h = Inr y"
proof (cases h)
  case (Concrete u)
  assume "heap_type_readable h"
  with Concrete show ?thesis by (cases u) (simp_all add: type_index_unpacked_def bind_res_Inr_iff)
qed simp

lemma re_ref_type_total: "ref_type_readable rt \<Longrightarrow> \<exists>y. re_ref_type rt = Inr y"
  by (erule ref_type_readableE) (auto simp: re_ref_type_def bind_res_Inr_iff dest: re_heap_type_total)

lemma re_val_type_total: "val_type_readable ty \<Longrightarrow> \<exists>y. re_val_type ty = Inr y"
  by (cases ty) (auto simp: bind_res_Inr_iff dest: re_ref_type_total)

lemma no_panic_abstract_heap_type [simp]: "no_panic (encode_abstract_heap_type ty)"
  by (cases ty) simp_all

lemma no_panic_heap_type [simp]: "no_panic (encode_heap_type L h)"
  by (cases h) simp_all

lemma no_panic_ref_type [simp]: "no_panic (encode_ref_type L rt)"
  by (simp add: encode_ref_type_def split: bool.split enc_heap_type.split)

lemma no_panic_val_type [simp]: "no_panic (encode_val_type L ty)"
  by (cases ty) simp_all

text \<open>The first byte decides how the rest is read.\<close>

lemma abstract_heap_type_byte_inverse:
  obtains b where "encode_abstract_heap_type (re_abstract_heap_type ty) = push b"
    "abstract_heap_type_byte b = Some ty" "0x68 \<le> unat b" "unat b \<le> 0x75"
  by (cases ty) (simp_all add: abstract_heap_type_byte_def)

lemma read_negative_s33:
  assumes "remaining_buffer r = b # rest" "64 \<le> unat b" "unat b < 128"
  obtains v where "read_var_s33 r = Inr (v, advance 1 r)" "u32_try_from_i64 v = None"
proof -
  define w where "w = int (unat b) - 128"
  have w: "- 64 \<le> w" "w < 0" using assms(2,3) by (simp_all add: w_def del: of_nat_unat)
  have s: "sleb_value [b] = w" using assms(2,3) by (simp add: w_def del: of_nat_unat)
  have "read_var_s33 r = Inr (word_of_int w, advance 1 r)"
    unfolding read_var_s33_iff using assms s w
    by (intro exI [of _ "[b]"] exI [of _ rest]) simp
  moreover have "sint (word_of_int w :: i64) = w"
    using w by (simp add: signed_of_int signed_take_bit_int_eq_self)
  then have "u32_try_from_i64 (word_of_int w) = None"
    using w by (simp add: u32_try_from_i64_def)
  ultimately show thesis by (rule that)
qed

lemma reads_back_abstract_heap_type:
  "reads_back fs read_abstract_heap_type (encode_abstract_heap_type (re_abstract_heap_type ty)) ty"
proof -
  obtain b where b: "encode_abstract_heap_type (re_abstract_heap_type ty) = push b"
    "abstract_heap_type_byte b = Some ty"
    by (rule abstract_heap_type_byte_inverse)
  show ?thesis
    unfolding b(1) read_abstract_heap_type_def
    by (rule reads_back_push_last) (simp only: b(2) option.case, rule reads_back_return)
qed

text \<open>A negative number starts an abstract heap type.\<close>

lemma decodes_heap_type_negative:
  assumes "64 \<le> unat b" "unat b < 128"
    and "decodes fs (bind_rd peek (\<lambda>b. if b = 0x65
      then bind_rd read_u8 (\<lambda>_. bind_rd read_abstract_heap_type (\<lambda>ty. return_rd (Abstract True ty)))
      else bind_rd (map_err_rd (reclassify ''invalid heap type'') read_abstract_heap_type)
        (\<lambda>ty. return_rd (Abstract False ty)))) (b # bs) h"
  shows "decodes fs read_heap_type (b # bs) h"
  unfolding decodes_def
proof (intro allI impI)
  fix r rest
  assume r: "rd_wf r" "features r = fs" "remaining_buffer r = (b # bs) @ rest"
  then obtain v where v: "read_var_s33 r = Inr (v, advance 1 r)" "u32_try_from_i64 v = None"
    using read_negative_s33 [of r b "bs @ rest"] assms(1,2) by auto
  show "read_heap_type r = Inr (h, advance (length (b # bs)) r)"
    unfolding read_heap_type_def using decodesD [OF assms(3) r] by (simp add: v)
qed

lemma reads_back_heap_type:
  assumes "leb128_ok L" "heap_type_readable h" "re_heap_type h = Inr e"
  shows "reads_back fs read_heap_type (encode_heap_type L e) h"
proof (cases h)
  case (Concrete u)
  with assms(2) obtain i where u: "u = Module i" "unat i < 2 ^ 20" by (cases u) auto
  with from_module_index_Some obtain p where p: "from_module_index i = Some p" by blast
  have "decodes fs read_heap_type (write_signed L (ucast i)) h"
    unfolding decodes_def
    using decodesD [OF decodes_write_index [OF assms(1)]] from_module_index_readable [OF p]
    by (simp add: read_heap_type_def p Concrete u(1))
  with assms(3) Concrete u(1) show ?thesis
    by (auto simp: type_index_unpacked_def reads_back_def encode_i64_def extend_sink_def ok_or_def)
next
  case (Abstract shared ty)
  obtain b where b: "encode_abstract_heap_type (re_abstract_heap_type ty) = push b"
    "abstract_heap_type_byte b = Some ty" "0x68 \<le> unat b" "unat b \<le> 0x75"
    by (rule abstract_heap_type_byte_inverse)
  then have ne: "b \<noteq> 0x65" by auto
  have d: "decodes fs read_abstract_heap_type [b] ty"
    using reads_back_abstract_heap_type [of fs ty] by (simp add: b(1) reads_back_def push_def)
  show ?thesis
  proof (cases shared)
    case True
    have "decodes fs read_heap_type [0x65, b] (Abstract True ty)"
      by (rule decodes_heap_type_negative, simp, simp, rule decodes_peek_bind)
        (simp, rule decodes_u8_bind, use decodes_bind [OF d decodes_return] in simp)
    with assms(3) Abstract True show ?thesis
      by (auto simp: reads_back_def b(1) push_def encs_Cons_Some)
  next
    case False
    have "decodes fs read_heap_type [b] (Abstract False ty)"
      by (rule decodes_heap_type_negative, use b in simp, use b in simp, rule decodes_peek_bind)
        (simp add: ne, use decodes_bind [OF decodes_map_err [OF d] decodes_return] in simp)
    with assms(3) Abstract False show ?thesis
      by (auto simp: reads_back_def b(1) push_def)
  qed
qed

lemma encode_abstract_first:
  "encode_abstract_heap_type ty = Some bs \<Longrightarrow> \<exists>b. bs = [b] \<and> 0x68 \<le> unat b \<and> unat b \<le> 0x75"
  by (cases ty) (auto simp: push_def)

lemma encode_ref_type_first:
  assumes "encode_ref_type L e = Some bs"
  shows "\<exists>b cs. bs = b # cs \<and> 0x63 \<le> unat b \<and> unat b \<le> 0x75"
  using assms
  by (auto simp: encode_ref_type_def push_def encs_Cons_Some dest!: encode_abstract_first
      split: bool.splits enc_heap_type.splits if_splits)

lemma reads_back_ref_type:
  assumes "leb128_ok L" "ref_type_readable rt" "re_ref_type rt = Inr e"
  shows "reads_back fs read_ref_type (encode_ref_type L e) rt"
proof -
  obtain h where h: "ref_new (is_nullable rt) h = Some rt" "ref_heap_type rt = Some h" "heap_type_readable h"
    using assms(2) by (rule ref_type_readableE)
  then obtain y where y: "re_heap_type h = Inr y" and e: "e = \<lparr>er_nullable = is_nullable rt, er_heap_type = y\<rparr>"
    using assms(3) by (auto simp: re_ref_type_def bind_res_Inr_iff)
  note rb = reads_back_heap_type [OF assms(1) h(3) y, of fs]
  have long: "reads_back fs (bind_rd read_u8 (\<lambda>b. bind_rd read_heap_type (\<lambda>hty. ok_or_too_large pos (ref_new (b = 0x63) hty))))
      (encs [push b, encode_heap_type L y]) rt" if "b = (if is_nullable rt then 0x63 else 0x64)" for pos b
  proof (rule reads_back_push, rule reads_back_bind [OF rb])
    have "(b = 0x63) = is_nullable rt" using that by simp
    then show "reads_back fs (ok_or_too_large pos (ref_new (b = 0x63) h)) (encs []) rt"
      by (simp only: h(1) ok_or_too_large_def option.case reads_back_return)
  qed
  show ?thesis
  proof (cases "is_nullable rt \<and> (\<exists>shared ty. y = EAbstract shared ty)")
    case True
    then have enc: "encode_ref_type L e = encode_heap_type L y" by (auto simp: encode_ref_type_def e)
    have first: "b \<noteq> 0x63" "b \<noteq> 0x64" if "encode_heap_type L y = Some (b # cs)" for b cs
      using that True encode_abstract_first by (fastforce simp: push_def encs_Cons_Some split: if_splits)+
    have "encode_heap_type L y \<noteq> Some []"
      using encode_ref_type_first [of L e "[]"] by (auto simp: enc)
    moreover have "ref_new True h = Some rt" using True h(1) by simp
    then have "reads_back fs (bind_rd (map_err_rd (reclassify ''malformed reference type'') read_heap_type)
        (\<lambda>hty. ok_or_too_large pos (ref_new True hty))) (encode_heap_type L y) rt" for pos
      by (intro reads_back_bind_last [OF reads_back_map_err [OF rb]])
        (simp only: ok_or_too_large_def option.case reads_back_return)
    ultimately show ?thesis
      unfolding enc read_ref_type_def
      by (intro reads_back_with_pos reads_back_peek_first) (simp_all add: first)
  next
    case False
    then have enc: "encode_ref_type L e = encs [push (if is_nullable rt then 0x63 else 0x64), encode_heap_type L y]"
      by (auto simp: encode_ref_type_def e split: enc_heap_type.splits)
    show ?thesis
      unfolding enc read_ref_type_def
      by (intro reads_back_with_pos, rule reads_back_peek) (use long in \<open>auto simp del: encs.simps\<close>)
  qed
qed

lemma encode_val_type_first:
  "encode_val_type L e = Some bs \<Longrightarrow>
   \<exists>b cs. bs = b # cs \<and> (0x63 \<le> unat b \<and> unat b \<le> 0x75 \<or> 0x7B \<le> unat b \<and> unat b \<le> 0x7F)"
  by (cases e) (auto simp: push_def dest!: encode_ref_type_first)

lemma reads_back_val_type:
  assumes "leb128_ok L" "val_type_readable ty" "re_val_type ty = Inr e"
  shows "reads_back fs read_val_type (encode_val_type L e) ty"
proof (cases ty)
  case (Ref rt)
  then obtain y where y: "re_ref_type rt = Inr y" "e = ERef y"
    using assms(3) by (auto simp: bind_res_Inr_iff)
  have rb: "reads_back fs read_ref_type (encode_ref_type L y) rt"
    using assms(1,2) y(1) Ref by (intro reads_back_ref_type) simp_all
  show ?thesis
    unfolding y(2) encode_val_type.simps read_val_type_def Ref
  proof (rule reads_back_peek_first)
    fix b bs
    assume "encode_ref_type L y = Some (b # bs)"
    then have "unat b \<le> 0x75" using encode_ref_type_first by fastforce
    then have "b \<noteq> 0x7F" "b \<noteq> 0x7E" "b \<noteq> 0x7D" "b \<noteq> 0x7C" "b \<noteq> 0x7B" by auto
    then show "reads_back fs (if b = 0x7F then bind_rd read_u8 (\<lambda>_. return_rd I32)
        else if b = 0x7E then bind_rd read_u8 (\<lambda>_. return_rd I64)
        else if b = 0x7D then bind_rd read_u8 (\<lambda>_. return_rd F32)
        else if b = 0x7C then bind_rd read_u8 (\<lambda>_. return_rd F64)
        else if b = 0x7B then bind_rd read_u8 (\<lambda>_. return_rd V128)
        else bind_rd (map_err_rd (reclassify ''invalid value type'') read_ref_type)
          (\<lambda>refty. return_rd (Ref refty))) (encode_ref_type L y) (Ref rt)"
      by simp (rule reads_back_bind_last [OF reads_back_map_err [OF rb]], rule reads_back_return)
  qed (use encode_ref_type_first in fastforce)
qed (use assms in \<open>auto simp: read_val_type_def reads_back_def push_def
      intro!: decodes_peek_bind decodes_u8_bind decodes_return\<close>)

section \<open>Composite types\<close>

lemma no_panic_storage_type [simp]: "no_panic (encode_storage_type L ty)"
  by (cases ty) simp_all

lemma no_panic_field [simp]: "no_panic (encode_field L f)"
  by (simp add: encode_field_def)

lemma re_storage_type_total: "storage_type_readable ty \<Longrightarrow> \<exists>y. re_storage_type ty = Inr y"
  by (cases ty) (auto simp: bind_res_Inr_iff dest: re_val_type_total)

lemma re_field_type_total: "field_type_readable f \<Longrightarrow> \<exists>y. re_field_type f = Inr y"
  by (auto simp: re_field_type_def bind_res_Inr_iff dest: re_storage_type_total)

lemma reads_back_storage_type:
  assumes "leb128_ok L" "storage_type_readable ty" "re_storage_type ty = Inr e"
  shows "reads_back fs read_storage_type (encode_storage_type L e) ty"
proof (cases ty)
  case (Val v)
  then obtain y where y: "re_val_type v = Inr y" "e = EVal y"
    using assms(3) by (auto simp: bind_res_Inr_iff)
  have rb: "reads_back fs read_val_type (encode_val_type L y) v"
    using assms(1,2) y(1) Val by (intro reads_back_val_type) simp_all
  show ?thesis
    unfolding y(2) encode_storage_type.simps read_storage_type_def Val
  proof (rule reads_back_peek_first)
    fix b bs
    assume "encode_val_type L y = Some (b # bs)"
    then have "b \<noteq> 0x78 \<and> b \<noteq> 0x77" using encode_val_type_first by fastforce
    then show "reads_back fs (if b = 0x78 then bind_rd read_u8 (\<lambda>_. return_rd StorageI8)
        else if b = 0x77 then bind_rd read_u8 (\<lambda>_. return_rd StorageI16)
        else bind_rd read_val_type (\<lambda>ty. return_rd (Val ty))) (encode_val_type L y) (Val v)"
      by simp (rule reads_back_bind_last [OF rb], rule reads_back_return)
  qed (use encode_val_type_first in fastforce)
qed (use assms in \<open>auto simp: read_storage_type_def reads_back_def push_def
      intro!: decodes_peek_bind decodes_u8_bind decodes_return\<close>)

lemma reads_back_field_type:
  assumes "leb128_ok L" "field_type_readable f" "re_field_type f = Inr e"
  shows "reads_back fs read_field_type (encode_field L e) f"
proof -
  obtain y where y: "re_storage_type (element_type f) = Inr y"
    "e = \<lparr>ef_element_type = y, ef_mutable = field_mutable f\<rparr>"
    using assms(3) by (auto simp: re_field_type_def bind_res_Inr_iff)
  have "reads_back fs (bind_rd read_u8 (\<lambda>m.
      if m = 0 then return_rd \<lparr>element_type = element_type f, field_mutable = False\<rparr>
      else if m = 1 then return_rd \<lparr>element_type = element_type f, field_mutable = True\<rparr>
      else fail_rd (\<lambda>r. error_new ''malformed mutability byte for field type'' (original_position r))))
     (encs [push (of_bool (field_mutable f))]) f"
    by (rule reads_back_push)
      (cases "field_mutable f"; cases f; simp add: reads_back_return [unfolded encs.simps])
  then show ?thesis
    unfolding read_field_type_def encode_field_def y(2) enc_field_type.simps
    by (rule reads_back_bind [OF reads_back_storage_type [OF assms(1,2) y(1)]])
qed

lemma re_func_type_total: "func_type_readable ft \<Longrightarrow> \<exists>y. re_func_type ft = Inr y"
  using collect_res_total [of "params_results ft" re_val_type] re_val_type_total
  by (auto simp: re_func_type_def func_type_readable_def func_params_def func_results_def bind_res_Inr_iff
      list_all_iff)

text \<open>The limits on lists are below \<open>2 ^ 32\<close>, so their lengths are written without a panic.\<close>

lemmas list_limits = MAX_WASM_FUNCTION_PARAMS_def MAX_WASM_FUNCTION_RETURNS_def MAX_WASM_STRUCT_FIELDS_def
  MAX_WASM_SUPERTYPES_def MAX_WASM_TYPES_def

lemma reads_back_func_type:
  assumes "leb128_ok L" "func_type_readable ft" "re_func_type ft = Inr e"
  shows "reads_back fs read_func_type
    (encs [encode_list L (encode_val_type L) (enc_func_params e), encode_list L (encode_val_type L) (enc_func_results e)]) ft"
proof -
  let ?E = "encode_list L (encode_val_type L)"
  have ft: "func_params ft @ func_results ft = params_results ft" "length (func_params ft) = len_params ft"
    using assms(2) by (simp_all add: func_params_def func_results_def func_type_readable_def)
  obtain buf where buf: "list_all2 (\<lambda>x y. re_val_type x = Inr y) (params_results ft) buf"
    and e: "e = \<lparr>efn_params_results = buf, efn_len_params = len_params ft\<rparr>"
    using assms(3) ft by (auto simp: re_func_type_def bind_res_Inr_iff collect_res_Inr_iff)
  have "list_all2 (\<lambda>y x. reads_back fs read_val_type (encode_val_type L y) x) buf (params_results ft)"
    using buf assms(2) reads_back_val_type [OF assms(1)]
    by (auto simp: list_all2_conv_all_nth func_type_readable_def list_all_length)
  then have *: "list_all2 (\<lambda>y x. reads_back fs read_val_type (encode_val_type L y) x) (enc_func_params e) (func_params ft)"
    "list_all2 (\<lambda>y x. reads_back fs read_val_type (encode_val_type L y) x) (enc_func_results e) (func_results ft)"
    by (simp_all add: e enc_func_params_def enc_func_results_def func_params_def func_results_def
        list_all2_takeI list_all2_dropI)
  then have len: "length (enc_func_params e) \<le> MAX_WASM_FUNCTION_PARAMS"
    "length (enc_func_results e) \<le> MAX_WASM_FUNCTION_RETURNS"
    using assms(2) by (simp_all add: func_type_readable_def list_all2_lengthD)
  have "the (from_raw_parts (func_params ft @ func_results ft) (length (func_params ft))) = ft"
    using assms(2) ft by (cases ft) (simp add: from_raw_parts_def func_type_readable_def)
  then have ret: "reads_back fs (return_rd (the (from_raw_parts (func_params ft @ func_results ft) (length (func_params ft)))))
      (encs []) ft" by (simp only: reads_back_return)
  show ?thesis
    unfolding read_func_type_def
    by (rule reads_back_bind [OF reads_back_iter [OF assms(1) len(1) *(1)]],
        rule reads_back_bind [OF reads_back_iter [OF assms(1) len(2) *(2)]], rule ret)
qed

lemma encode_function_alt:
  "encode_function L ps rs =
     encs [push 0x60, encs [encode_list L (encode_val_type L) ps, encode_list L (encode_val_type L) rs]]"
  using encs_nested [of "[push 0x60]"] encs_nested [of "[push 0x60, encode_usize L (length ps), encs (map (encode_val_type L) ps)]"]
  by (simp add: encode_function_def encode_list_def encs_assoc)

lemma encode_struct_alt: "encode_struct L (EStructType fs) = encs [push 0x5f, encode_list L (encode_field L) fs]"
  using encs_nested [of "[push 0x5f]"] by (simp add: encode_list_def)

lemma re_inner_total: "inner_readable ty \<Longrightarrow> \<exists>y. re_composite_inner_type ty = Inr y"
proof (cases ty rule: inner_readable.cases)
  case (3 fs)
  assume "inner_readable ty"
  with 3 have "\<exists>ys. collect_res re_field_type fs = Inr ys"
    by (intro collect_res_total re_field_type_total) (auto simp: list_all_iff)
  with 3 show ?thesis by (auto simp: bind_res_Inr_iff)
next
  case (4 p)
  assume "inner_readable ty"
  with 4 show ?thesis
    by (auto simp: packed_readable_def type_index_unpacked_def from_module_index_readable bind_res_Inr_iff)
qed (auto simp: bind_res_Inr_iff dest: re_func_type_total re_field_type_total)

lemma reads_back_inner:
  assumes "leb128_ok L" "inner_readable ty" "re_composite_inner_type ty = Inr e"
  shows "reads_back fs (bind_rd read_u8 (read_composite_inner shared)) (encode_composite_inner L e)
    \<lparr>comp_inner = ty, comp_shared = shared\<rparr>"
proof (cases ty rule: inner_readable.cases)
  case (1 ft)
  with assms(3) obtain y where y: "re_func_type ft = Inr y" "e = ECompFunc y" by (auto simp: bind_res_Inr_iff)
  have rb: "reads_back fs (bind_rd read_func_type (\<lambda>t. return_rd \<lparr>comp_inner = CompFunc t, comp_shared = shared\<rparr>))
      (encs [encs [encode_list L (encode_val_type L) (enc_func_params y), encode_list L (encode_val_type L) (enc_func_results y)]])
      \<lparr>comp_inner = ty, comp_shared = shared\<rparr>"
    unfolding 1
    by (rule reads_back_bind [OF reads_back_func_type [OF assms(1) _ y(1)]], use assms(2) 1 in simp)
      (rule reads_back_return)
  show ?thesis
    unfolding y(2) encode_composite_inner.simps encode_function_alt
    by (rule reads_back_push) (use rb in \<open>simp add: read_composite_inner_def\<close>)
next
  case (2 f)
  with assms(3) obtain y where y: "re_field_type f = Inr y" "e = ECompArray (EArrayType y)"
    by (auto simp: bind_res_Inr_iff)
  have rb: "reads_back fs (bind_rd read_array_type (\<lambda>t. return_rd \<lparr>comp_inner = CompArray t, comp_shared = shared\<rparr>))
      (encs [encode_field L y]) \<lparr>comp_inner = ty, comp_shared = shared\<rparr>"
    unfolding 2 read_array_type_def
    by (rule reads_back_bind [OF reads_back_bind_last [OF reads_back_field_type [OF assms(1) _ y(1)]]],
        use assms(2) 2 in simp) (rule reads_back_return)+
  show ?thesis
    unfolding y(2) encode_composite_inner.simps encode_array.simps
    by (rule reads_back_push) (use rb in \<open>simp add: read_composite_inner_def\<close>)
next
  case (3 fields')
  with assms(3) obtain ys where ys: "list_all2 (\<lambda>x y. re_field_type x = Inr y) fields' ys"
      "e = ECompStruct (EStructType ys)"
    by (auto simp: bind_res_Inr_iff collect_res_Inr_iff)
  have all: "list_all2 (\<lambda>y x. reads_back fs read_field_type (encode_field L y) x) ys fields'"
    using ys(1) assms(2) 3 reads_back_field_type [OF assms(1)]
    by (auto simp: list_all2_conv_all_nth list_all_length)
  have len: "length ys \<le> MAX_WASM_STRUCT_FIELDS"
    using ys(1) assms(2) 3 by (simp add: list_all2_lengthD)
  have rb: "reads_back fs (bind_rd read_struct_type (\<lambda>t. return_rd \<lparr>comp_inner = CompStruct t, comp_shared = shared\<rparr>))
      (encs [encode_list L (encode_field L) ys]) \<lparr>comp_inner = ty, comp_shared = shared\<rparr>"
    unfolding 3 read_struct_type_def
    by (rule reads_back_bind [OF reads_back_bind_last [OF reads_back_iter [OF assms(1) len all]]])
      (rule reads_back_return)+
  show ?thesis
    unfolding ys(2) encode_composite_inner.simps encode_struct_alt
    by (rule reads_back_push) (use rb in \<open>simp add: read_composite_inner_def\<close>)
next
  case (4 p)
  with assms(2) obtain i where i: "from_module_index i = Some p" by (auto simp: packed_readable_def)
  have e: "e = ECompCont (EContType i)"
    using assms(3) 4 from_module_index_readable [OF i]
    by (auto simp: type_index_unpacked_def bind_res_Inr_iff ok_or_def)
  have "reads_back fs read_cont_type (encode_i64 L (ucast i)) (ContType p)"
    unfolding read_cont_type_def
    by (rule reads_back_bind_last [OF reads_back_index [OF assms(1)]])
      (simp only: u32_try_from_ucast option.case i reads_back_return)
  then have rb: "reads_back fs (bind_rd read_cont_type (\<lambda>t. return_rd \<lparr>comp_inner = CompCont t, comp_shared = shared\<rparr>))
      (encs [encode_i64 L (ucast i)]) \<lparr>comp_inner = ty, comp_shared = shared\<rparr>"
    unfolding 4 by (rule reads_back_bind) (rule reads_back_return)
  show ?thesis
    unfolding e encode_composite_inner.simps encode_cont.simps
    by (rule reads_back_push) (use rb in \<open>simp add: read_composite_inner_def\<close>)
qed

lemma no_panic_inner:
  assumes "inner_readable ty" "re_composite_inner_type ty = Inr e"
  shows "no_panic (encode_composite_inner L e)"
proof (cases ty rule: inner_readable.cases)
  case (1 ft)
  with assms(2) obtain y where y: "re_func_type ft = Inr y" "e = ECompFunc y" by (auto simp: bind_res_Inr_iff)
  then obtain buf where buf: "list_all2 (\<lambda>x z. re_val_type x = Inr z) (func_params ft @ func_results ft) buf"
    "y = \<lparr>efn_params_results = buf, efn_len_params = length (func_params ft)\<rparr>"
    by (auto simp: re_func_type_def bind_res_Inr_iff collect_res_Inr_iff)
  then have "length buf = length (func_params ft) + length (func_results ft)" by (auto dest: list_all2_lengthD)
  then have "length (enc_func_params y) < 2 ^ 32" "length (enc_func_results y) < 2 ^ 32"
    using assms(1) 1 by (simp_all add: buf(2) enc_func_params_def enc_func_results_def func_type_readable_def list_limits)
  then show ?thesis by (simp add: y(2) encode_function_alt list_all_iff)
next
  case (3 fs)
  with assms(2) obtain ys where ys: "list_all2 (\<lambda>x y. re_field_type x = Inr y) fs ys"
      "e = ECompStruct (EStructType ys)"
    by (auto simp: bind_res_Inr_iff collect_res_Inr_iff)
  then have "length ys < 2 ^ 32" using assms(1) 3 by (simp add: list_all2_lengthD list_limits)
  then show ?thesis by (simp add: ys(2) encode_struct_alt list_all_iff del: encode_struct.simps)
qed (use assms in \<open>auto simp: bind_res_Inr_iff\<close>)

abbreviation encode_composite :: "leb128 \<Rightarrow> enc_composite_type \<Rightarrow> enc" where
  "encode_composite L ct \<equiv> encs [if ec_shared ct then push 0x65 else encs [], encode_composite_inner L (ec_inner ct)]"

lemma encode_inner_first:
  assumes "encode_composite_inner L e = Some bs"
  shows "\<exists>b cs. bs = b # cs \<and> 0x5d \<le> unat b \<and> unat b \<le> 0x60"
  using assms
  by (cases e)
    (auto simp: encode_function_def push_def encs_Cons_Some eq_commute [of "Some bs"]
      elim!: encode_array.elims encode_struct.elims encode_cont.elims)

lemma encode_composite_first:
  assumes "encode_composite L ct = Some bs"
  shows "\<exists>b cs. bs = b # cs \<and> 0x5d \<le> unat b \<and> unat b \<le> 0x65"
  using assms by (auto simp: encs_Cons_Some push_def dest!: encode_inner_first split: if_splits)

lemma reads_back_composite_type:
  assumes "leb128_ok L" "composite_readable ct" "re_composite_type ct = Inr e"
  shows "reads_back fs composite_type_from_reader (encode_composite L e) ct"
proof -
  obtain i where i: "re_composite_inner_type (comp_inner ct) = Inr i"
    "e = \<lparr>ec_inner = i, ec_shared = comp_shared ct\<rparr>"
    using assms(3) by (auto simp: re_composite_type_def bind_res_Inr_iff)
  note rb = reads_back_inner [OF assms(1,2) i(1), of fs]
  show ?thesis
  proof (cases "comp_shared ct")
    case True
    have "reads_back fs (bind_rd read_u8 read_composite_type) (encs [push 0x65, encode_composite_inner L i]) ct"
      by (rule reads_back_push) (use rb [of True] True in \<open>cases ct, simp add: read_composite_type_def\<close>)
    with i True show ?thesis by (simp add: composite_type_from_reader_def)
  next
    case False
    have "reads_back fs (bind_rd read_u8 read_composite_type) (encode_composite_inner L i) ct"
    proof (rule reads_back_u8_cong)
      show "reads_back fs (bind_rd read_u8 (read_composite_inner False)) (encode_composite_inner L i) ct"
        using rb [of False] False by (cases ct) simp
      show "encode_composite_inner L i \<noteq> Some []" using encode_inner_first by fastforce
      fix b bs
      assume "encode_composite_inner L i = Some (b # bs)"
      then have "unat b \<le> 0x60" using encode_inner_first by fastforce
      then have "b \<noteq> 0x65" by auto
      then show "read_composite_type b = read_composite_inner False b"
        by (simp add: read_composite_type_def)
    qed
    with i False show ?thesis by (simp add: composite_type_from_reader_def)
  qed
qed

lemma re_composite_type_total: "composite_readable ct \<Longrightarrow> \<exists>y. re_composite_type ct = Inr y"
  by (auto simp: re_composite_type_def bind_res_Inr_iff dest: re_inner_total)

section \<open>Subtypes and recursion groups\<close>

lemma decodes_small_u32: "unat b < 128 \<Longrightarrow> decodes fs read_var_u32 [b] (ucast b)"
  by (rule decodes_var_u32) simp_all

text \<open>The supertype is written as an \<open>Option\<close> and read as a list.\<close>

lemma reads_back_supertypes:
  assumes "leb128_ok L"
  shows "reads_back fs (read_iter MAX_WASM_SUPERTYPES desc read_var_u32) (encode_option (encode_u32 L) super)
    (case super of None \<Rightarrow> [] | Some i \<Rightarrow> [i])"
proof (cases super)
  case None
  have "decodes fs (read_iter MAX_WASM_SUPERTYPES desc read_var_u32) ([0] @ concat (map (\<lambda>i. []) ([] :: u32 list))) []"
    by (rule decodes_iter) (use decodes_small_u32 [of 0 fs] in \<open>simp_all add: list_limits\<close>)
  with None show ?thesis by (simp add: reads_back_def push_def)
next
  case (Some i)
  have "decodes fs (read_iter MAX_WASM_SUPERTYPES desc read_var_u32)
      ([1] @ concat (map (\<lambda>i. write_unsigned L (ucast i)) [i])) [i]"
    by (rule decodes_iter)
      (use decodes_small_u32 [of 1 fs] decodes_write_u32 [OF assms] in \<open>simp_all add: list_limits\<close>)
  with Some show ?thesis
    by (simp add: reads_back_def push_def encode_u32_def extend_sink_def encs.simps(2))
qed

lemma encode_subtype_alt:
  "encode_subtype L False ty =
     (if es_supertype_idx ty \<noteq> None \<or> \<not> es_is_final ty
      then encs [push (if es_is_final ty then 0x4f else 0x50), encode_option (encode_u32 L) (es_supertype_idx ty),
        encode_composite L (es_composite_type ty)]
      else encode_composite L (es_composite_type ty))"
  using encs_nested [of "[push (if es_is_final ty then 0x4f else 0x50), encode_option (encode_u32 L) (es_supertype_idx ty)]"]
  by (simp add: encode_subtype_def encs_assoc)

lemma packed_readableE:
  assumes "packed_readable p"
  obtains i where "from_module_index i = Some p" "type_index_unpacked (the (unpack p)) = Inr i"
  using assms from_module_index_readable(1)
  by (fastforce simp: packed_readable_def type_index_unpacked_def)

lemma re_sub_type_total: "sub_type_readable ty \<Longrightarrow> \<exists>y. re_sub_type ty = Inr y"
  by (auto simp: sub_type_readable_def re_sub_type_def bind_res_Inr_iff split: option.splits
      dest!: re_composite_type_total elim!: packed_readableE)

lemma reads_back_sub_type:
  assumes "leb128_ok L" "sub_type_readable ty" "re_sub_type ty = Inr e"
  shows "reads_back fs read_sub_type (encode_subtype L False e) ty"
proof -
  obtain super ct where super: "(case supertype_idx ty of None \<Rightarrow> Inr None
        | Some i \<Rightarrow> bind_res (type_index_unpacked (the (unpack i))) (\<lambda>i. Inr (Some i))) = Inr super"
    and ct: "re_composite_type (composite_type ty) = Inr ct"
    and e: "e = \<lparr>es_is_final = is_final ty, es_supertype_idx = super, es_composite_type = ct\<rparr>"
    using assms(3) by (auto simp: re_sub_type_def bind_res_Inr_iff)
  have rb: "reads_back fs composite_type_from_reader (encode_composite L ct) (composite_type ty)"
    using assms(2) by (intro reads_back_composite_type [OF assms(1) _ ct]) (simp add: sub_type_readable_def)
  have bind_comp: "bind_rd read_u8 (\<lambda>op2. bind_rd (read_composite_type op2) f) = bind_rd composite_type_from_reader f"
    for f :: "composite_type \<Rightarrow> sub_type rd"
    by (simp add: composite_type_from_reader_def bind_assoc)
  show ?thesis
  proof (cases "super \<noteq> None \<or> \<not> is_final ty")
    case True
    have idx: "(case (case super of None \<Rightarrow> [] | Some i \<Rightarrow> [i]) of
           [] \<Rightarrow> return_rd None
         | idx # _ \<Rightarrow>
             (case from_module_index idx of
                None \<Rightarrow> fail_rd (\<lambda>r. error_new ''type index greater than implementation limits'' (original_position r))
              | Some p \<Rightarrow> return_rd (Some p))) = return_rd (supertype_idx ty)"
      using super assms(2)
      by (auto simp: sub_type_readable_def bind_res_Inr_iff split: option.splits elim!: packed_readableE)
    let ?op = "if is_final ty then 0x4f else 0x50 :: u8"
    have op: "?op = 0x4f \<or> ?op = 0x50" "(?op = 0x4f) = is_final ty" by simp_all
    have len: "\<not> length (case super of None \<Rightarrow> [] | Some i \<Rightarrow> [i]) > 1" by (simp split: option.split)
    have enc: "encode_subtype L False e = encs [push ?op, encode_option (encode_u32 L) super, encode_composite L ct]"
      using True by (simp add: encode_subtype_alt e)
    show ?thesis
      unfolding enc read_sub_type_def
    proof (rule reads_back_with_pos, rule reads_back_push, unfold if_P [OF op(1)],
        rule reads_back_bind [OF reads_back_supertypes [OF assms(1)]], unfold if_not_P [OF len] idx op(2))
      show "reads_back fs (bind_rd (return_rd (supertype_idx ty)) (\<lambda>super. bind_rd read_u8 (\<lambda>op2.
          bind_rd (read_composite_type op2) (\<lambda>ct.
            return_rd \<lparr>is_final = is_final ty, supertype_idx = super, composite_type = ct\<rparr>))))
          (encs [encode_composite L ct]) ty"
        by (rule reads_back_bind_Nil [OF decodes_return], unfold bind_comp, rule reads_back_bind [OF rb])
          (cases ty, simp add: reads_back_return [unfolded encs.simps])
    qed
  next
    case False
    then have enc: "encode_subtype L False e = encode_composite L ct" and ty: "is_final ty" "supertype_idx ty = None"
      using super by (auto simp: encode_subtype_alt e bind_res_Inr_iff split: option.splits)
    have "reads_back fs (bind_rd read_u8 (\<lambda>opcode. bind_rd (read_composite_type opcode) (\<lambda>ct.
        return_rd \<lparr>is_final = True, supertype_idx = None, composite_type = ct\<rparr>))) (encode_composite L ct) ty"
      unfolding bind_comp using ty
      by (intro reads_back_bind_last [OF rb]) (cases ty, simp add: reads_back_return [unfolded encs.simps])
    then show ?thesis
      unfolding enc read_sub_type_def
    proof (intro reads_back_with_pos, elim reads_back_u8_cong)
      show "encode_composite L ct \<noteq> Some []" using encode_composite_first by fastforce
      fix b bs
      assume "encode_composite L ct = Some (b # bs)"
      then have "0x5d \<le> unat b" using encode_composite_first by fastforce
      then have "\<not> (b = 0x4f \<or> b = 0x50)" by auto
      then show "(if b = 0x4f \<or> b = 0x50 then A else B) = B" for A B :: "sub_type rd"
        by (rule if_not_P)
    qed
  qed
qed

text \<open>
  A group remembers the offsets of its types; the types and the kind of the group are what is
  encoded.
\<close>

definition rec_group_view :: "rec_group \<Rightarrow> bool \<times> sub_type list" where
  "rec_group_view g = (is_explicit_rec_group g, rec_group_types g)"

fun rec_group_readable :: "rec_group \<Rightarrow> bool" where
  "rec_group_readable (Implicit (_, ty)) \<longleftrightarrow> sub_type_readable ty"
| "rec_group_readable (Explicit tys) \<longleftrightarrow> length tys \<le> MAX_WASM_TYPES \<and> list_all (\<lambda>(_, ty). sub_type_readable ty) tys"

definition re_rec_group :: "rec_group \<Rightarrow> reencode_error + bool \<times> enc_sub_type list" where
  "re_rec_group g = bind_res (collect_res re_sub_type (rec_group_types g)) (\<lambda>tys. Inr (is_explicit_rec_group g, tys))"

fun encode_rec_group :: "leb128 \<Rightarrow> bool \<times> enc_sub_type list \<Rightarrow> enc" where
  "encode_rec_group L (explicit, tys) = (if explicit then encode_rec L tys else encode_subtype L False (hd tys))"

lemma parse_recursive_type_group_alt:
  "parse_recursive_type_group L g = bind_res (re_rec_group g) (\<lambda>y. Inr (encode_rec_group L y))"
proof (cases g)
  case (Implicit x)
  then show ?thesis
    by (cases x; cases "re_sub_type (snd x)")
      (simp_all add: parse_recursive_type_group_def re_rec_group_def rec_group_types_def)
next
  case (Explicit xs)
  then show ?thesis
    by (cases "collect_res re_sub_type (map snd xs)")
      (simp_all add: parse_recursive_type_group_def re_rec_group_def rec_group_types_def)
qed

lemma erase_offset:
  "bind_rd (with_pos (\<lambda>off. bind_rd m (\<lambda>x. return_rd (off, x)))) (\<lambda>y. f (snd y)) = bind_rd m f"
  by (rule ext) (simp add: bind_rd_def with_pos_def return_rd_def split: sum.split)

lemma erase_offsets:
  "bind_rd (read_items (with_pos (\<lambda>off. bind_rd m (\<lambda>x. return_rd (off, x)))) n) (\<lambda>ys. f (map snd ys))
   = bind_rd (read_items m n) f"
proof (induction n arbitrary: f)
  case 0
  show ?case by (rule ext) (simp add: bind_rd_def return_rd_def)
next
  case (Suc n)
  show ?case
    by (simp add: bind_assoc Suc [where f = "\<lambda>xs. f (_ # xs)"] erase_offset [where f = "\<lambda>x. bind_rd (read_items m n) (\<lambda>xs. f (x # xs))"])
qed

lemma returns_rec_group: "returns fs read_rec_group rec_group_readable"
proof -
  have item: "returns fs (with_pos (\<lambda>off. bind_rd read_sub_type (\<lambda>ty. return_rd (off, ty))))
      (\<lambda>(_, ty). sub_type_readable ty)"
    by (rule returns_with_pos, rule returns_bind [OF returns_sub_type], rule returns_return) simp
  show ?thesis
    unfolding read_rec_group_def
    by (rule returns_bind [OF returns_peek], rule returns_if)
      (rule returns_bind [OF returns_u8] returns_bind [OF returns_iter [OF item]] returns_with_pos
        returns_bind [OF returns_sub_type] returns_return | simp)+
qed

lemma rec_group_readable_iff:
  "rec_group_readable g \<longleftrightarrow> list_all sub_type_readable (rec_group_types g)
     \<and> (is_explicit_rec_group g \<longrightarrow> length (rec_group_types g) \<le> MAX_WASM_TYPES)"
  by (cases g rule: rec_group_readable.cases) (auto simp: rec_group_types_def list_all_iff)

lemma encode_subtype_first:
  "encode_subtype L False e = Some (b # bs) \<Longrightarrow> b \<noteq> 0x4e"
  by (auto simp: encode_subtype_alt encs_Cons_Some push_def dest!: encode_composite_first encode_inner_first split: if_splits)

lemma encode_subtype_ne: "encode_subtype L False e \<noteq> Some []"
  by (auto simp: encode_subtype_alt encs_Cons_Some push_def dest!: encode_composite_first encode_inner_first
      split: if_splits)

lemma no_panic_sub_type:
  "sub_type_readable ty \<Longrightarrow> re_sub_type ty = Inr e \<Longrightarrow> no_panic (encode_subtype L False e)"
  by (auto simp: sub_type_readable_def re_sub_type_def re_composite_type_def bind_res_Inr_iff encode_subtype_def
      no_panic_inner split: option.splits)

lemma re_rec_group_Inr:
  assumes "re_rec_group g = Inr y"
  obtains tys where "list_all2 (\<lambda>x z. re_sub_type x = Inr z) (rec_group_types g) tys"
    "y = (is_explicit_rec_group g, tys)"
  using assms by (auto simp: re_rec_group_def bind_res_Inr_iff collect_res_Inr_iff)

lemma reads_back_rec_group:
  assumes "leb128_ok L" "rec_group_readable g" "re_rec_group g = Inr y"
  shows "reads_back fs (bind_rd read_rec_group (\<lambda>g. return_rd (rec_group_view g))) (encode_rec_group L y)
    (rec_group_view g)"
proof -
  obtain tys where tys: "list_all2 (\<lambda>x z. re_sub_type x = Inr z) (rec_group_types g) tys"
    and y: "y = (is_explicit_rec_group g, tys)"
    using assms(3) by (rule re_rec_group_Inr)
  have all: "list_all2 (\<lambda>z x. reads_back fs read_sub_type (encode_subtype L False z) x) tys (rec_group_types g)"
    using tys assms(2) reads_back_sub_type [OF assms(1)]
    by (auto simp: list_all2_conv_all_nth rec_group_readable_iff list_all_length)
  show ?thesis
  proof (cases g)
    case (Explicit xs)
    have len: "length tys \<le> MAX_WASM_TYPES"
      using tys assms(2) Explicit by (simp add: rec_group_readable_iff list_all2_lengthD)
    have enc: "encode_rec_group L y = encs [push 0x4e, encode_list L (encode_subtype L False) tys]"
      using encs_nested [of "[push 0x4e]"] by (simp add: y Explicit encode_rec_def encode_list_def)
    have "reads_back fs (bind_rd (read_iter MAX_WASM_TYPES desc read_sub_type) (\<lambda>tys. return_rd (True, tys)))
        (encs [encode_list L (encode_subtype L False) tys]) (True, rec_group_types g)" for desc
      by (rule reads_back_bind [OF reads_back_iter [OF assms(1) len all]]) (rule reads_back_return)
    moreover have "bind_rd (read_iter MAX_WASM_TYPES desc read_sub_type) (\<lambda>tys. return_rd (True, tys)) =
        bind_rd (read_iter MAX_WASM_TYPES desc (with_pos (\<lambda>off. bind_rd read_sub_type (\<lambda>ty. return_rd (off, ty)))))
          (\<lambda>tys. return_rd (rec_group_view (Explicit tys)))" for desc
      using erase_offsets [where f = "\<lambda>tys. return_rd (True, tys)" and m = read_sub_type]
      by (simp add: read_iter_def bind_assoc rec_group_view_def rec_group_types_def)
    ultimately show ?thesis
      unfolding enc read_rec_group_def bind_assoc
      by (intro reads_back_peek)
        (simp add: bind_assoc, rule reads_back_push, simp add: rec_group_view_def Explicit bind_return_left)
  next
    case (Implicit x)
    then obtain z where z: "tys = [z]" "reads_back fs read_sub_type (encode_subtype L False z) (snd x)"
      using all by (auto simp: rec_group_types_def list_all2_Cons2)
    have "reads_back fs (bind_rd read_sub_type (\<lambda>ty. return_rd (False, [ty]))) (encode_subtype L False z) (False, [snd x])"
      by (rule reads_back_bind_last [OF z(2)]) (rule reads_back_return)
    moreover have "bind_rd read_sub_type (\<lambda>ty. return_rd (False, [ty])) =
        bind_rd (with_pos (\<lambda>off. bind_rd read_sub_type (\<lambda>ty. return_rd (Implicit (off, ty)))))
          (\<lambda>g. return_rd (rec_group_view g))"
      by (rule ext) (simp add: bind_rd_def with_pos_def return_rd_def rec_group_view_def rec_group_types_def
          split: sum.split)
    ultimately show ?thesis
      unfolding read_rec_group_def bind_assoc y encode_rec_group.simps z(1)
      using Implicit encode_subtype_first [of L z] encode_subtype_ne [of L z]
      by (intro reads_back_peek_first) (auto simp: rec_group_view_def rec_group_types_def)
  qed
qed

section \<open>The contract of re-encoding\<close>

interpretation re_heap_type: reencodable read_heap_type "\<lambda>_. heap_type_readable" re_heap_type encode_heap_type "\<lambda>x. x"
  by unfold_locales (simp_all add: returns_heap_type re_heap_type_total reads_back_heap_type)

interpretation re_ref_type: reencodable read_ref_type "\<lambda>_. ref_type_readable" re_ref_type encode_ref_type "\<lambda>x. x"
  by unfold_locales (simp_all add: returns_ref_type re_ref_type_total reads_back_ref_type)

interpretation re_val_type: reencodable read_val_type "\<lambda>_. val_type_readable" re_val_type encode_val_type "\<lambda>x. x"
  by unfold_locales (simp_all add: returns_val_type re_val_type_total reads_back_val_type)

interpretation re_field_type: reencodable read_field_type "\<lambda>_. field_type_readable" re_field_type encode_field "\<lambda>x. x"
  by unfold_locales (simp_all add: returns_field_type re_field_type_total reads_back_field_type)

interpretation re_sub_type: reencodable read_sub_type "\<lambda>_. sub_type_readable" re_sub_type
    "\<lambda>L. encode_subtype L False" "\<lambda>x. x"
  by unfold_locales (simp_all add: returns_sub_type re_sub_type_total reads_back_sub_type no_panic_sub_type)

interpretation re_rec_group: reencodable read_rec_group "\<lambda>_. rec_group_readable" re_rec_group encode_rec_group
    rec_group_view
proof
  fix fs x and y :: "bool \<times> enc_sub_type list" and L
  show "returns fs read_rec_group rec_group_readable" by (rule returns_rec_group)
  assume ok: "rec_group_readable x"
  show "\<exists>y. re_rec_group x = Inr y"
    using collect_res_total [of "rec_group_types x" re_sub_type] ok
    by (auto simp: re_rec_group_def bind_res_Inr_iff rec_group_readable_iff list_all_iff dest: re_sub_type_total)
  assume "re_rec_group x = Inr y"
  then show "no_panic (encode_rec_group L y)"
  proof (rule re_rec_group_Inr)
    fix tys
    assume tys: "list_all2 (\<lambda>x z. re_sub_type x = Inr z) (rec_group_types x) tys" "y = (is_explicit_rec_group x, tys)"
    have np: "list_all (\<lambda>z. no_panic (encode_subtype L False z)) tys"
      using tys(1) ok no_panic_sub_type
      by (auto simp: list_all2_conv_all_nth rec_group_readable_iff list_all_length)
    have "length tys = length (rec_group_types x)" using tys(1) by (simp add: list_all2_lengthD)
    moreover from this have "tys \<noteq> []" if "\<not> is_explicit_rec_group x"
      using that by (cases x) (auto simp: rec_group_types_def)
    ultimately show ?thesis
      using np ok tys(2) by (cases tys) (auto simp: encode_rec_def rec_group_readable_iff list_limits list_all_iff)
  qed
qed (rule reads_back_rec_group)

text \<open>Two concrete inputs: the type \<open>i32\<close>, and a function type without parameters and results.\<close>

lemma read_i32_type: "read_val_type (reader_new [0x7F] 0) = Inr (I32, advance 1 (reader_new [0x7F] 0))"
  by (simp add: read_val_type_def peek_def ensure_has_byte_def bind_rd_def reader_new_def read_u8_def
      return_rd_def advance_def)

lemma read_func_group:
  "read_rec_group (reader_new [0x60, 0, 0] 0) =
     Inr (Implicit (0, sub_type_func (func_type_new [] []) False), advance 3 (reader_new [0x60, 0, 0] 0))"
  by (simp add: read_rec_group_def read_sub_type_def read_composite_type_def read_composite_inner_def
      read_func_type_def read_iter_def read_size_def read_var_u32_def with_pos_def peek_def ensure_has_byte_def
      bind_rd_def reader_new_def read_u8_def return_rd_def advance_def original_position_def
      sub_type_func_def func_type_new_def from_raw_parts_def)

section \<open>Properties\<close>

text \<open>
  C25. Round trip of value types: every value type that \<open>read_val_type\<close> returns is translated by the
  re-encoder without the error \<open>CanonicalizedHeapTypeReference\<close>, its encoding does not panic, and
  reading the encoded bytes, whatever follows them, gives the same type and consumes just them.
\<close>

theorem val_type_round_trip:
  assumes "leb128_ok L" "read_val_type r = Inr (ty, r')"
  shows "\<exists>e bs. re_val_type ty = Inr e \<and> encode_val_type L e = Some bs \<and>
    (\<forall>r2 rest. rd_wf r2 \<and> features r2 = features r \<and> remaining_buffer r2 = bs @ rest \<longrightarrow>
      read_val_type r2 = Inr (ty, advance (length bs) r2))"
  using re_val_type.round_trip [OF assms] by blast

theorem val_type_round_trip_witness:
  "leb128_ok leb128_reference
   \<and> read_val_type (reader_new [0x7F] 0) = Inr (I32, advance 1 (reader_new [0x7F] 0))
   \<and> (\<exists>e bs. re_val_type I32 = Inr e \<and> encode_val_type leb128_reference e = Some bs \<and>
      (\<forall>r2 rest. rd_wf r2 \<and> features r2 = features (reader_new [0x7F] 0) \<and> remaining_buffer r2 = bs @ rest \<longrightarrow>
        read_val_type r2 = Inr (I32, advance (length bs) r2)))"
  using leb128_reference_ok read_i32_type val_type_round_trip [OF leb128_reference_ok read_i32_type] by blast

text \<open>
  C7. Round trip of type definitions: every recursion group that \<open>read_rec_group\<close> returns is
  re-encoded by \<open>parse_recursive_type_group\<close> without an error or a panic, and reading the bytes gives
  a group of the same kind with the same types, in order.
\<close>

theorem rec_group_round_trip:
  assumes "leb128_ok L" "read_rec_group r = Inr (g, r')"
  shows "\<exists>bs. parse_recursive_type_group L g = Inr (Some bs) \<and>
    (\<forall>r2 rest. rd_wf r2 \<and> features r2 = features r \<and> remaining_buffer r2 = bs @ rest \<longrightarrow>
      (\<exists>g2. read_rec_group r2 = Inr (g2, advance (length bs) r2)
        \<and> is_explicit_rec_group g2 = is_explicit_rec_group g \<and> rec_group_eq g2 g))"
proof -
  from re_rec_group.round_trip [OF assms] obtain y bs where y: "re_rec_group g = Inr y" "encode_rec_group L y = Some bs"
    and rt: "\<And>r2 rest. rd_wf r2 \<and> features r2 = features r \<and> remaining_buffer r2 = bs @ rest \<Longrightarrow>
      \<exists>g2. read_rec_group r2 = Inr (g2, advance (length bs) r2) \<and> rec_group_view g2 = rec_group_view g"
    by blast
  have "parse_recursive_type_group L g = Inr (Some bs)"
    by (simp add: parse_recursive_type_group_alt y)
  moreover have "rec_group_view g2 = rec_group_view g \<Longrightarrow>
      is_explicit_rec_group g2 = is_explicit_rec_group g \<and> rec_group_eq g2 g" for g2
    by (simp add: rec_group_view_def rec_group_eq_def list_all_length)
  ultimately show ?thesis using rt by blast
qed

theorem rec_group_round_trip_witness:
  "leb128_ok leb128_reference
   \<and> read_rec_group (reader_new [0x60, 0, 0] 0) =
      Inr (Implicit (0, sub_type_func (func_type_new [] []) False), advance 3 (reader_new [0x60, 0, 0] 0))
   \<and> (\<exists>bs. parse_recursive_type_group leb128_reference (Implicit (0, sub_type_func (func_type_new [] []) False)) = Inr (Some bs))"
  using leb128_reference_ok read_func_group rec_group_round_trip [OF leb128_reference_ok read_func_group] by blast

end
