(* ===== verification/Op_Results.thy ===== *)
theory Op_Results
  imports Enc_Code Type_Round_Trip
begin

text \<open>
  What \<open>read_operator\<close> returns: the conditions on the immediates that decoding establishes, under
  the features it was given. They are what re-encoding an operator relies on.
\<close>

unbundle bit_operations_syntax

section \<open>Immediates\<close>

definition mem_arg_ok :: "wasm_features \<Rightarrow> u8 \<Rightarrow> mem_arg \<Rightarrow> bool" where
  "mem_arg_ok fs max_align m \<longleftrightarrow> ma_max_align m = max_align \<and> unat (ma_align m) < 64
     \<and> (MULTI_MEMORY \<notin> fs \<longrightarrow> ma_memory m = 0) \<and> (MEMORY64 \<notin> fs \<longrightarrow> unat (ma_offset m) < 2 ^ 32)"

definition br_table_ok :: "br_table \<Rightarrow> bool" where
  "br_table_ok t \<longleftrightarrow> (\<exists>xs. br_table_targets t = Inr xs \<and> length xs \<le> MAX_WASM_BR_TABLE_SIZE)"

fun block_type_ok :: "block_type \<Rightarrow> bool" where
  "block_type_ok (BlockResult ty) \<longleftrightarrow> val_type_readable ty"
| "block_type_ok _ \<longleftrightarrow> True"

fun try_table_ok :: "block_type try_table \<Rightarrow> bool" where
  "try_table_ok (MkTryTable ty catches) \<longleftrightarrow> block_type_ok ty \<and> length catches \<le> MAX_WASM_CATCHES"

lemma returns_if_feature [ret_intro]:
  "(f \<in> fs \<Longrightarrow> returns fs m P) \<Longrightarrow> (f \<notin> fs \<Longrightarrow> returns fs m' P) \<Longrightarrow> returns fs (if_feature f m m') P"
  unfolding returns_def if_feature_def by (metis (full_types))

lemma returns_memarg: "returns fs (read_memarg max_align) (mem_arg_ok fs max_align)"
proof -
  have flags: "returns fs
      (if_feature MULTI_MEMORY
         (if flags AND push_bit 6 1 \<noteq> 0
          then bind_rd read_var_u32 (\<lambda>memory. return_rd (flags XOR push_bit 6 1, memory))
          else return_rd (flags, 0))
         (return_rd (flags, 0)))
      (\<lambda>(_, memory). MULTI_MEMORY \<notin> fs \<longrightarrow> memory = 0)" for flags :: u32
    by (rule returns_if_feature returns_if returns_bind [OF returns_u32] returns_return | simp)+
  have offset: "returns fs
      (if_feature MEMORY64 read_var_u64 (bind_rd read_var_u32 (\<lambda>offset. return_rd (ucast offset))))
      (\<lambda>offset :: u64. MEMORY64 \<notin> fs \<longrightarrow> unat offset < 2 ^ 32)"
  proof (rule returns_if_feature)
    show "returns fs read_var_u64 (\<lambda>offset. MEMORY64 \<notin> fs \<longrightarrow> unat offset < 2 ^ 32)" if "MEMORY64 \<in> fs"
      by (rule returns_mono [OF returns_u64]) (simp add: that)
    have "unat v < 2 ^ LENGTH(32)" for v :: u32 by (rule unsigned_less)
    then show "returns fs (bind_rd read_var_u32 (\<lambda>offset. return_rd (ucast offset)))
        (\<lambda>offset :: u64. MEMORY64 \<notin> fs \<longrightarrow> unat offset < 2 ^ 32)"
      by (intro returns_bind [OF returns_u32] returns_return) (simp add: unat_ucast_u32)
  qed
  have small: "unat (ucast flags :: u8) < 64" if "\<not> flags \<ge> push_bit 6 1" for flags :: u32
  proof -
    have "unat flags < 64" using that by (simp add: not_le word_less_nat_alt)
    then show ?thesis by (simp add: unsigned_ucast_eq take_bit_nat_eq_self)
  qed
  show ?thesis
    unfolding read_memarg_def
    by (rule returns_with_pos, rule returns_bind [OF returns_u32], rule returns_bind [OF flags], clarify)
      (rule returns_if returns_fail returns_bind [OF offset] returns_return
        | simp add: mem_arg_ok_def small)+
qed

lemma returns_block_type: "returns fs read_block_type block_type_ok"
  unfolding read_block_type_def
  by (rule returns_bind [OF returns_peek], rule returns_if, rule returns_if)
    (rule returns_bind [OF returns_val_type] returns_bind [OF returns_s33] returns_option ret_intro
      | simp add: returns_def)+

lemma returns_ordering: "returns fs read_ordering (\<lambda>_. True)"
  unfolding read_ordering_def
  by (rule returns_bind [OF returns_u32]) (rule returns_if ret_intro | simp)+

lemma returns_catch: "returns fs read_catch (\<lambda>_. True)"
  unfolding read_catch_def invalid_leading_byte_def
  by (rule returns_bind [OF returns_u8]) (rule returns_if returns_bind [OF returns_u32] ret_intro | simp)+

lemma returns_handle: "returns fs read_handle (\<lambda>_. True)"
  unfolding read_handle_def invalid_leading_byte_def
  by (rule returns_bind [OF returns_u8]) (rule returns_if returns_bind [OF returns_u32] ret_intro | simp)+

lemma returns_try_table: "returns fs read_try_table try_table_ok"
  unfolding read_try_table_def
  by (rule returns_bind [OF returns_block_type], rule returns_bind [OF returns_iter [OF returns_catch]],
      rule returns_return) simp

lemma returns_resume_table: "returns fs read_resume_table (\<lambda>hs. length hs \<le> MAX_WASM_HANDLERS)"
  unfolding read_resume_table_def by (rule returns_mono [OF returns_iter [OF returns_handle]]) simp

lemma returns_lane_index: "returns fs (read_lane_index lanes) (\<lambda>lane. lane < lanes)"
  unfolding read_lane_index_def
  by (rule returns_bind [OF returns_u8]) (rule returns_if ret_intro | simp)+

lemma returns_memory_index:
  "returns fs read_memory_index_or_zero_if_not_multi_memory (\<lambda>i. MULTI_MEMORY \<notin> fs \<longrightarrow> i = 0)"
  unfolding read_memory_index_or_zero_if_not_multi_memory_def
proof (rule returns_if_feature)
  show "returns fs read_var_u32 (\<lambda>i. MULTI_MEMORY \<notin> fs \<longrightarrow> i = 0)" if "MULTI_MEMORY \<in> fs"
    by (rule returns_mono [OF returns_u32]) (simp add: that)
qed (rule returns_bind [OF returns_u8] returns_if ret_intro | simp)+

lemma returns_table_index:
  "returns fs read_table_index_or_zero_if_not_reference_types (\<lambda>i. REFERENCE_TYPES \<notin> fs \<longrightarrow> i = 0)"
  unfolding read_table_index_or_zero_if_not_reference_types_def
proof (rule returns_if_feature)
  show "returns fs read_var_u32 (\<lambda>i. REFERENCE_TYPES \<notin> fs \<longrightarrow> i = 0)" if "REFERENCE_TYPES \<in> fs"
    by (rule returns_mono [OF returns_u32]) (simp add: that)
qed (rule returns_bind [OF returns_u8] returns_if ret_intro | simp)+

lemma returns_br_on_cast:
  assumes "\<And>d a b. ref_type_readable a \<Longrightarrow> ref_type_readable b \<Longrightarrow> P (visit d a b)"
  shows "returns fs (read_br_on_cast visit) P"
proof -
  have ok: "returns fs (ok_or_implementation_error pos (ref_new n h)) ref_type_readable"
    if "heap_type_readable h" for pos n h
    unfolding ok_or_implementation_error_def
    by (rule returns_option, rule returns_fail, rule returns_return)
      (use that in \<open>auto simp: ref_type_readable_def\<close>)
  show ?thesis
    unfolding read_br_on_cast_def Let_def
    by (rule returns_with_pos, rule returns_bind [OF returns_u8], rule returns_bind [OF returns_u32])
      (rule returns_if returns_fail returns_bind [OF returns_heap_type] returns_bind [OF ok] returns_return assms
        | assumption)+
qed

text \<open>A reader whose result depends on the bytes it consumed only.\<close>

definition delimited :: "'a rd \<Rightarrow> bool" where
  "delimited m \<longleftrightarrow> (\<forall>r x r'. m r = Inr (x, r') \<longrightarrow>
     (\<exists>bs rest. remaining_buffer r = bs @ rest \<and> r' = advance (length bs) r \<and> decodes (features r) m bs x))"

lemma delimitedE:
  assumes "delimited m" "m r = Inr (x, r')"
  obtains bs rest where "remaining_buffer r = bs @ rest" "r' = advance (length bs) r" "decodes (features r) m bs x"
  using assms unfolding delimited_def by blast

lemma delimited_u32: "delimited read_var_u32"
  unfolding delimited_def
proof (intro allI impI)
  fix r r' and x :: u32
  assume "read_var_u32 r = Inr (x, r')"
  then obtain bs rest where "remaining_buffer r = bs @ rest" "leb_bytes bs" "length bs \<le> 5"
      "uleb_value bs < 2 ^ 32" "x = of_nat (uleb_value bs)" "r' = advance (length bs) r"
    unfolding read_var_u32_iff by blast
  then show "\<exists>bs rest. remaining_buffer r = bs @ rest \<and> r' = advance (length bs) r \<and> decodes (features r) read_var_u32 bs x"
    using decodes_var_u32 [of bs x "features r"] by blast
qed

lemma delimited_return: "delimited (return_rd x)"
  unfolding delimited_def
  by (intro allI impI, rule exI [of _ "[]"]) (auto simp: return_rd_def decodes_def)

lemma delimited_bind:
  assumes "delimited m" "\<And>x. delimited (f x)"
  shows "delimited (bind_rd m f)"
  unfolding delimited_def
proof (intro allI impI)
  fix r y r'
  assume "bind_rd m f r = Inr (y, r')"
  then obtain x r1 where x: "m r = Inr (x, r1)" "f x r1 = Inr (y, r')"
    by (auto simp: bind_rd_def split: sum.splits)
  from assms(1) x(1) obtain bs rest where bs: "remaining_buffer r = bs @ rest" "r1 = advance (length bs) r"
    "decodes (features r) m bs x" by (rule delimitedE)
  from assms(2) x(2) obtain cs rest' where cs: "remaining_buffer r1 = cs @ rest'" "r' = advance (length cs) r1"
    "decodes (features r1) (f x) cs y" by (rule delimitedE)
  have "rest = cs @ rest'" using remaining_advance [OF bs(1)] cs(1) bs(2) by simp
  moreover have "decodes (features r) (bind_rd m f) (bs @ cs) y"
    by (rule decodes_bind [OF bs(3)]) (use cs(3) bs(2) in simp)
  ultimately show "\<exists>bs rest. remaining_buffer r = bs @ rest \<and> r' = advance (length bs) r
      \<and> decodes (features r) (bind_rd m f) bs y"
    using bs(1,2) cs(2) by (intro exI [of _ "bs @ cs"] exI [of _ rest']) (simp add: add.commute)
qed

lemma delimited_items: "delimited m \<Longrightarrow> delimited (read_items m n)"
  by (induction n) (simp_all add: delimited_return delimited_bind)

lemma br_table_targets_delimited:
  assumes "decodes fs (read_items read_var_u32 n) bs xs" "unat (bt_cnt t) = n"
    and "bt_reader t = \<lparr>buffer = bs, position = 0, original_offset = off, features = fs\<rparr>"
  shows "br_table_targets t = Inr xs"
  using decodesD [OF assms(1), of "bt_reader t" "[]"] assms(2,3)
  by (simp add: br_table_targets_def rd_wf_def remaining_buffer_def eof_def advance_def)

lemma returns_br_table: "returns fs read_br_table br_table_ok"
proof (rule returnsI)
  fix r t r'
  assume fs: "features r = fs" and "read_br_table r = Inr (t, r')"
  then obtain cnt r1 reader r2 d where cnt: "read_size MAX_WASM_BR_TABLE_SIZE ''br_table'' r = Inr (cnt, r1)"
    and skip: "skip (bind_rd (read_items read_var_u32 cnt) (\<lambda>_. return_rd ())) r1 = Inr (reader, r2)"
    and d: "read_var_u32 r2 = Inr (d, r')"
    and t: "t = \<lparr>bt_reader = reader, bt_cnt = of_nat cnt, bt_default = d\<rparr>"
    by (auto simp: read_br_table_def bind_rd_def return_rd_def split: sum.splits)
  have "cnt \<le> MAX_WASM_BR_TABLE_SIZE" "features r1 = fs"
    using returnsD [OF returns_size fs cnt] returns_features [OF returns_size fs cnt] by simp_all
  from skip obtain xs where xs: "read_items read_var_u32 cnt r1 = Inr (xs, r2)"
    by (auto simp: skip_def bind_rd_def return_rd_def split: sum.splits)
  from delimited_items [OF delimited_u32] xs obtain bs rest where bs: "remaining_buffer r1 = bs @ rest"
    "r2 = advance (length bs) r1" "decodes (features r1) (read_items read_var_u32 cnt) bs xs"
    by (rule delimitedE)
  have "take (length bs) (drop (position r1) (buffer r1)) = bs"
    using bs(1) by (simp add: remaining_buffer_def)
  then have reader: "reader = \<lparr>buffer = bs, position = 0, original_offset = original_offset r1 + position r1, features = fs\<rparr>"
    using skip xs bs(2) \<open>features r1 = fs\<close>
    by (cases r1) (auto simp: skip_def bind_rd_def return_rd_def advance_def)
  have "unat (of_nat cnt :: u32) = cnt"
    using \<open>cnt \<le> MAX_WASM_BR_TABLE_SIZE\<close> by (simp add: unat_of_nat MAX_WASM_BR_TABLE_SIZE_def MAX_WASM_FUNCTION_SIZE_def)
  then have "br_table_targets t = Inr xs"
    using bs(3) \<open>features r1 = fs\<close> by (intro br_table_targets_delimited) (simp_all add: t reader)
  moreover have "length xs = cnt"
    using returnsD [OF returns_items [OF returns_u32] refl xs] by simp
  moreover have "features r' = fs"
    using returns_features [OF returns_u32 _ d] bs(2) \<open>features r1 = fs\<close> by simp
  ultimately show "br_table_ok t \<and> features r' = fs"
    using \<open>cnt \<le> MAX_WASM_BR_TABLE_SIZE\<close> by (simp add: br_table_ok_def)
qed

section \<open>Operators\<close>

definition control_ok :: "wasm_features \<Rightarrow> (block_type, br_table) control_op \<Rightarrow> bool" where
  "control_ok fs c \<longleftrightarrow>
     (case c of
        Block b \<Rightarrow> block_type_ok b
      | Loop b \<Rightarrow> block_type_ok b
      | OpIf b \<Rightarrow> block_type_ok b
      | BrTable t \<Rightarrow> br_table_ok t
      | MemorySize m \<Rightarrow> MULTI_MEMORY \<notin> fs \<longrightarrow> m = 0
      | MemoryGrow m \<Rightarrow> MULTI_MEMORY \<notin> fs \<longrightarrow> m = 0
      | CallIndirect _ table \<Rightarrow> REFERENCE_TYPES \<notin> fs \<longrightarrow> table = 0
      | _ \<Rightarrow> True)"

definition reference_ok :: "(val_type, heap_type) ref_op \<Rightarrow> bool" where
  "reference_ok c \<longleftrightarrow>
     (case c of
        TypedSelect ty \<Rightarrow> val_type_readable ty
      | RefNull h \<Rightarrow> heap_type_readable h
      | _ \<Rightarrow> True)"

definition exception_ok :: "block_type exn_op \<Rightarrow> bool" where
  "exception_ok c \<longleftrightarrow>
     (case c of
        TryTable t \<Rightarrow> try_table_ok t
      | Try b \<Rightarrow> block_type_ok b
      | Resume _ hs \<Rightarrow> length hs \<le> MAX_WASM_HANDLERS
      | ResumeThrow _ _ hs \<Rightarrow> length hs \<le> MAX_WASM_HANDLERS
      | _ \<Rightarrow> True)"

definition gc_ok :: "(heap_type, ref_type) gc_op \<Rightarrow> bool" where
  "gc_ok c \<longleftrightarrow>
     (case c of
        RefTestNonNull h \<Rightarrow> heap_type_readable h
      | RefTestNullable h \<Rightarrow> heap_type_readable h
      | RefCastNonNull h \<Rightarrow> heap_type_readable h
      | RefCastNullable h \<Rightarrow> heap_type_readable h
      | BrOnCast _ a b \<Rightarrow> ref_type_readable a \<and> ref_type_readable b
      | BrOnCastFail _ a b \<Rightarrow> ref_type_readable a \<and> ref_type_readable b
      | _ \<Rightarrow> True)"

text \<open>The operators without immediates are the entries of three tables.\<close>

definition plain_op :: "operator \<Rightarrow> bool" where
  "plain_op op \<longleftrightarrow>
     (\<exists>c. map_of numeric_opcodes c = Some op \<or> map_of fc_numeric_opcodes c = Some op \<or> map_of simd_opcodes c = Some op)"

definition op_ok :: "wasm_features \<Rightarrow> operator \<Rightarrow> bool" where
  "op_ok fs op \<longleftrightarrow> plain_op op \<or>
     (case op of
        Control c \<Rightarrow> control_ok fs c
      | Reference c \<Rightarrow> reference_ok c
      | Exception c \<Rightarrow> exception_ok c
      | Gc c \<Rightarrow> gc_ok c
      | Load op m \<Rightarrow> (\<exists>c a. map_of load_opcodes c = Some (op, a) \<and> mem_arg_ok fs a m)
      | Store op m \<Rightarrow> (\<exists>c a. map_of store_opcodes c = Some (op, a) \<and> mem_arg_ok fs a m)
      | AtomicAccess op m \<Rightarrow> (\<exists>c a. map_of atomic_access_opcodes c = Some (op, a) \<and> mem_arg_ok fs a m)
      | AtomicRmw op m \<Rightarrow> (\<exists>c a. map_of atomic_rmw_opcodes c = Some (op, a) \<and> mem_arg_ok fs a m)
      | GlobalAtomic op _ _ \<Rightarrow> (\<exists>c. map_of global_atomic_opcodes c = Some op)
      | TableAtomic op _ _ \<Rightarrow> (\<exists>c. map_of table_atomic_opcodes c = Some op)
      | StructAtomic op _ _ _ \<Rightarrow> (\<exists>c. map_of struct_atomic_opcodes c = Some op)
      | ArrayAtomic op _ _ \<Rightarrow> (\<exists>c. map_of array_atomic_opcodes c = Some op)
      | AtomicFence \<Rightarrow> True
      | RefI31Shared \<Rightarrow> True
      | V128Mem op m \<Rightarrow> (\<exists>c a. map_of v128_mem_opcodes c = Some (op, a) \<and> mem_arg_ok fs a m)
      | V128LaneMem op m lane \<Rightarrow>
          (\<exists>c a lanes. map_of v128_lane_mem_opcodes c = Some (op, a, lanes) \<and> mem_arg_ok fs a m \<and> lane < lanes)
      | V128Const x \<Rightarrow> length x = 16
      | I8x16Shuffle lanes \<Rightarrow> length lanes = 16 \<and> list_all (\<lambda>l. l < 32) lanes
      | Lane op lane \<Rightarrow> (\<exists>c lanes. map_of lane_opcodes c = Some (op, lanes) \<and> lane < lanes)
      | _ \<Rightarrow> False)"

lemmas op_ok_defs = op_ok_def control_ok_def reference_ok_def exception_ok_def gc_ok_def

text \<open>The rules that take the decoder apart.\<close>

lemmas returns_steps = returns_if returns_fail returns_return returns_option
  returns_bind [OF returns_u32] returns_bind [OF returns_u8] returns_bind [OF returns_i32]
  returns_bind [OF returns_i64] returns_bind [OF returns_f32] returns_bind [OF returns_f64]
  returns_bind [OF returns_block_type] returns_bind [OF returns_val_type] returns_bind [OF returns_heap_type]
  returns_bind [OF returns_try_table] returns_bind [OF returns_resume_table] returns_bind [OF returns_br_table]
  returns_bind [OF returns_memory_index] returns_bind [OF returns_table_index] returns_bind [OF returns_ordering]
  returns_bind [OF returns_read_bytes] returns_bind [OF returns_memarg] returns_bind [OF returns_lane_index]
  returns_bind [OF returns_items [OF returns_lane_index]] returns_br_on_cast

lemma returns_prod: "(\<And>a b. p = (a, b) \<Longrightarrow> returns fs (f a b) P) \<Longrightarrow> returns fs (case p of (a, b) \<Rightarrow> f a b) P"
  by (cases p) simp

lemma returns_0xfb: "returns fs (visit_0xfb_operator pos) (op_ok fs)"
  unfolding visit_0xfb_operator_def
  by (rule returns_steps | simp add: op_ok_def gc_ok_def)+

lemma plain_ok:
  "map_of numeric_opcodes c = Some op \<Longrightarrow> op_ok fs op"
  "map_of fc_numeric_opcodes c = Some op \<Longrightarrow> op_ok fs op"
  "map_of simd_opcodes c = Some op \<Longrightarrow> op_ok fs op"
  unfolding op_ok_def plain_op_def by blast+

lemma returns_0xfc: "returns fs (visit_0xfc_operator pos) (op_ok fs)"
  unfolding visit_0xfc_operator_def
  by (rule returns_steps | (rule plain_ok, assumption) | simp add: op_ok_def reference_ok_def)+

lemma returns_0xfd: "returns fs (visit_0xfd_operator pos) (op_ok fs)"
  unfolding visit_0xfd_operator_def
  by (rule returns_steps returns_prod | (rule plain_ok, assumption)
      | (simp add: op_ok_def; blast))+

lemma returns_0xfe: "returns fs (visit_0xfe_operator pos) (op_ok fs)"
  unfolding visit_0xfe_operator_def
  by (rule returns_steps returns_prod | (simp add: op_ok_def; blast))+

lemma returns_operator: "returns fs read_operator (op_ok fs)"
  unfolding visit_operator_def
  by (rule returns_with_pos, rule returns_bind [OF returns_u8], unfold visit_code_def)
    (rule returns_steps returns_prod returns_0xfb returns_0xfc returns_0xfd returns_0xfe
      | (rule plain_ok, assumption) | (simp add: op_ok_defs; blast))+

end
