(* ===== verification/Op_Immediates.thy ===== *)
theory Op_Immediates
  imports Op_Results
begin

text \<open>
  Every operator that wasmparser decodes is translated and encoded by wasm-encoder without an error
  or a panic, and the bytes are decoded as the same operator.
\<close>

unbundle bit_operations_syntax

section \<open>Immediates\<close>

lemma bit_small: "unat (w :: 'a::len word) < 2 ^ k \<Longrightarrow> bit w n \<Longrightarrow> n < k"
  by (metis bit_take_bit_iff take_bit_word_self_iff)

lemma align_flag:
  assumes "unat (w :: u32) < 64"
  shows "w AND 64 = 0" "(w OR 64) AND 64 \<noteq> 0" "(w OR 64) XOR 64 = w"
proof -
  have s: "bit w n \<Longrightarrow> n < 6" for n using bit_small [of w 6] assms by simp
  have b: "bit (64 :: u32) n \<longleftrightarrow> n = 6" for n
    using bit_exp_iff [of 6 n, where 'a = u32] by (auto simp: possible_bit_word)
  show "w AND 64 = 0" by (rule bit_eqI) (metis b bit_0_eq bit_and_iff bot_apply bot_bool_def less_irrefl s)
  have "bit ((w OR 64) AND 64) 6" by (simp add: bit_and_iff bit_or_iff b)
  then show "(w OR 64) AND 64 \<noteq> 0" by auto
  show "(w OR 64) XOR 64 = w" by (rule bit_eqI) (metis b bit_or_iff bit_xor_iff less_irrefl s)
qed

lemma reads_back_if_feature:
  "(f \<in> fs \<Longrightarrow> reads_back fs m e x) \<Longrightarrow> (f \<notin> fs \<Longrightarrow> reads_back fs m' e x) \<Longrightarrow>
   reads_back fs (if_feature f m m') e x"
  unfolding reads_back_def decodes_def if_feature_def by (cases "f \<in> fs") auto

lemma decodes_if_feature:
  "(f \<in> fs \<Longrightarrow> decodes fs m bs x) \<Longrightarrow> (f \<notin> fs \<Longrightarrow> decodes fs m' bs x) \<Longrightarrow>
   decodes fs (if_feature f m m') bs x"
  unfolding decodes_def if_feature_def by (cases "f \<in> fs") auto

lemma reads_back_offset:
  assumes "leb128_ok L" "MEMORY64 \<notin> fs \<Longrightarrow> unat offset < 2 ^ 32"
  shows "reads_back fs (if_feature MEMORY64 read_var_u64 (bind_rd read_var_u32 (\<lambda>offset. return_rd (ucast offset))))
    (encode_u64 L offset) offset"
proof (rule reads_back_if_feature)
  show "reads_back fs read_var_u64 (encode_u64 L offset) offset" by (rule reads_back_u64 [OF assms(1)])
  assume "MEMORY64 \<notin> fs"
  then have "unat offset < 2 ^ 32" by (rule assms(2))
  then have "ucast (ucast offset :: u32) = offset"
    using take_bit_word_self_iff [of 32 offset] by (simp add: unsigned_ucast_eq)
  then have "encode_u64 L offset = encode_u32 L (ucast offset)"
    and "reads_back fs (return_rd (ucast (ucast offset :: u32))) (encs []) offset"
    by (simp_all add: encode_u64_def encode_u32_def reads_back_return [unfolded encs.simps])
  then show "reads_back fs (bind_rd read_var_u32 (\<lambda>offset. return_rd (ucast offset))) (encode_u64 L offset) offset"
    by (simp only:) (rule reads_back_bind_last [OF reads_back_u32 [OF assms(1)]])
qed

lemma reads_back_mem_arg:
  assumes "leb128_ok L" "mem_arg_ok fs a m"
  shows "reads_back fs (read_memarg a) (encode_mem_arg L (re_mem_arg m)) m"
proof -
  define w where "w = (ucast (ma_align m) :: u32)"
  have m: "ma_max_align m = a" "unat (ma_align m) < 64" "MULTI_MEMORY \<notin> fs \<Longrightarrow> ma_memory m = 0"
    "MEMORY64 \<notin> fs \<Longrightarrow> unat (ma_offset m) < 2 ^ 32"
    using assms(2) by (simp_all add: mem_arg_ok_def)
  have w: "unat w < 64" using m(2) by (simp add: w_def unsigned_ucast_eq take_bit_nat_eq_self)
  have al: "ucast w = ma_align m" by (simp add: w_def unsigned_ucast_eq take_bit_word_eq_self)
  have le: "\<not> w \<ge> 64" using w by (simp add: not_le word_less_nat_alt)
  note bits = align_flag [OF w]
  have ret: "reads_back fs (return_rd \<lparr>ma_align = ucast w, ma_max_align = a, ma_offset = ma_offset m, ma_memory = ma_memory m\<rparr>)
      (encs []) m"
    by (cases m) (use al m(1) in \<open>simp add: reads_back_return [unfolded encs.simps]\<close>)
  have offset: "reads_back fs (bind_rd
      (if_feature MEMORY64 read_var_u64 (bind_rd read_var_u32 (\<lambda>offset. return_rd (ucast offset))))
      (\<lambda>offset. return_rd \<lparr>ma_align = ucast w, ma_max_align = a, ma_offset = offset, ma_memory = ma_memory m\<rparr>))
      (encs [encode_u64 L (ma_offset m)]) m"
    by (rule reads_back_bind [OF reads_back_offset [OF assms(1) m(4)]]) (assumption, rule ret)
  show ?thesis
  proof (cases "ma_memory m = 0")
    case True
    have flags: "decodes fs (if_feature MULTI_MEMORY
        (if w AND push_bit 6 1 \<noteq> 0 then bind_rd read_var_u32 (\<lambda>memory. return_rd (w XOR push_bit 6 1, memory))
         else return_rd (w, 0)) (return_rd (w, 0))) [] (w, ma_memory m)"
      by (rule decodes_if_feature) (simp_all add: bits True decodes_return)
    have "encode_mem_arg L (re_mem_arg m) = encs [encode_u32 L w, encode_u64 L (ma_offset m)]"
      by (simp add: encode_mem_arg_def re_mem_arg_def True w_def)
    then show ?thesis
      unfolding read_memarg_def using offset le
      by (simp only:) (rule reads_back_with_pos, rule reads_back_bind [OF reads_back_u32 [OF assms(1)]],
        rule reads_back_bind_Nil [OF flags], simp)
  next
    case False
    then have mm: "MULTI_MEMORY \<in> fs" using m(3) by blast
    have flags: "reads_back fs (if_feature MULTI_MEMORY
        (if (w OR push_bit 6 1) AND push_bit 6 1 \<noteq> 0
         then bind_rd read_var_u32 (\<lambda>memory. return_rd ((w OR push_bit 6 1) XOR push_bit 6 1, memory))
         else return_rd (w OR push_bit 6 1, 0)) (return_rd (w OR push_bit 6 1, 0)))
        (encode_u32 L (ma_memory m)) (w, ma_memory m)"
      by (rule reads_back_if_feature)
        (use bits mm reads_back_bind_last [OF reads_back_u32 [OF assms(1)] reads_back_return] in \<open>simp_all\<close>)
    have "encode_mem_arg L (re_mem_arg m) =
        encs [encode_u32 L (w OR push_bit 6 1), encode_u32 L (ma_memory m), encode_u64 L (ma_offset m)]"
      by (simp add: encode_mem_arg_def re_mem_arg_def False w_def)
    then show ?thesis
      unfolding read_memarg_def using offset le
      by (simp only:) (rule reads_back_with_pos, rule reads_back_bind [OF reads_back_u32 [OF assms(1)]],
        rule reads_back_bind [OF flags], simp)
  qed
qed

lemma reads_back_small_u32:
  assumes "unat b < 128" "reads_back fs (f (ucast b)) (encs es) y"
  shows "reads_back fs (bind_rd read_var_u32 f) (encs (push b # es)) y"
  by (rule reads_back_bind [where x = "ucast b" and f = f, OF _ assms(2)])
    (simp add: reads_back_def push_def decodes_small_u32 [OF assms(1)])

lemma reads_back_ordering: "reads_back fs read_ordering (encode_ordering ord) ord"
proof (cases ord)
  case AcqRel
  have "reads_back fs read_ordering (encs [push 1]) AcqRel"
    unfolding read_ordering_def by (rule reads_back_small_u32) (simp_all add: reads_back_return [unfolded encs.simps])
  then show ?thesis by (simp add: AcqRel)
next
  case SeqCst
  have "reads_back fs read_ordering (encs [push 0]) SeqCst"
    unfolding read_ordering_def by (rule reads_back_small_u32) (simp_all add: reads_back_return [unfolded encs.simps])
  then show ?thesis by (simp add: SeqCst)
qed

lemma byte_and_40_iff: "unat (b :: u8) < 128 \<Longrightarrow> b AND 0x40 = 0 \<longleftrightarrow> unat b < 64"
proof -
  assume b: "unat b < 128"
  have 6: "bit (0x40 :: u8) n \<longleftrightarrow> n = 6" for n
    using bit_exp_iff [of 6 n, where 'a = u8] by (auto simp: possible_bit_word)
  have "b AND 0x40 = 0 \<longleftrightarrow> \<not> bit b 6"
  proof
    assume "b AND 0x40 = 0"
    then have "\<not> bit (b AND 0x40) 6" by simp
    then show "\<not> bit b 6" by (simp add: bit_and_iff 6)
  next
    assume "\<not> bit b 6"
    then show "b AND 0x40 = 0" by (intro bit_eqI) (metis 6 bit_0_eq bit_and_iff bot_apply bot_bool_def)
  qed
  also have "bit b 6 \<longleftrightarrow> bit (unat b) 6" by (simp add: bit_unsigned_iff)
  also have "bit (unat b) 6 \<longleftrightarrow> odd (unat b div 64)" by (simp add: bit_iff_odd)
  also have "odd (unat b div 64) \<longleftrightarrow> 64 \<le> unat b"
  proof -
    have "unat b div 64 < 2" using b by simp
    then show ?thesis by (cases "unat b div 64 = 0") (auto simp: less_2_cases_iff)
  qed
  finally show ?thesis by (simp only: not_le)
qed

lemma reads_back_block_type:
  assumes "leb128_ok L" "block_type_ok b" "re_block_type b = Inr e"
  shows "reads_back fs read_block_type (encode_block_type L e) b"
proof (cases b)
  case BlockEmpty
  with assms(3) show ?thesis
    by (auto simp: read_block_type_def reads_back_def push_def advance_def intro!: decodes_peek_bind)
      (simp add: decodes_def advance_def)
next
  case (BlockResult ty)
  with assms(3) obtain y where y: "re_val_type ty = Inr y" "e = EBlockResult y"
    by (auto simp: bind_res_Inr_iff)
  have rb: "reads_back fs read_val_type (encode_val_type L y) ty"
    using assms(1,2) y(1) BlockResult by (intro reads_back_val_type) simp_all
  show ?thesis
    unfolding y(2) encode_block_type.simps read_block_type_def BlockResult
  proof (rule reads_back_peek_first)
    fix c cs
    assume "encode_val_type L y = Some (c # cs)"
    then have "unat c < 128" "64 \<le> unat c" "c \<noteq> 0x40" using encode_val_type_first by fastforce+
    then have c: "c AND 0x80 = 0 \<and> c AND 0x40 \<noteq> 0" "c \<noteq> 0x40"
      by (simp_all add: byte_and_80_iff byte_and_40_iff)
    have "reads_back fs (bind_rd read_val_type (\<lambda>ty. return_rd (BlockResult ty))) (encode_val_type L y) (BlockResult ty)"
      by (rule reads_back_bind_last [OF rb]) (rule reads_back_return)
    then show "reads_back fs (if c AND 0x80 = 0 \<and> c AND 0x40 \<noteq> 0
        then (if c = 0x40 then (\<lambda>r. Inr (BlockEmpty, r\<lparr>position := position r + 1\<rparr>))
           else bind_rd read_val_type (\<lambda>ty. return_rd (BlockResult ty)))
        else bind_rd read_var_s33 (\<lambda>idx.
          case u32_try_from_i64 idx of
            Some idx \<Rightarrow> return_rd (BlockFuncType idx)
          | None \<Rightarrow> fail_rd (\<lambda>r. error_new ''invalid function type'' (original_position r))))
       (encode_val_type L y) (BlockResult ty)"
      by (simp only: c simp_thms if_True if_False)
  qed (use encode_val_type_first in fastforce)
next
  case (BlockFuncType f)
  with assms(3) have e: "e = EBlockFunctionType f" by simp
  have rb: "reads_back fs (bind_rd read_var_s33 (\<lambda>idx.
        case u32_try_from_i64 idx of
          Some idx \<Rightarrow> return_rd (BlockFuncType idx)
        | None \<Rightarrow> fail_rd (\<lambda>r. error_new ''invalid function type'' (original_position r))))
      (encode_i64 L (ucast f)) (BlockFuncType f)"
    by (rule reads_back_bind_last [OF reads_back_index [OF assms(1)]])
      (simp only: u32_try_from_ucast option.case reads_back_return)
  show ?thesis
    unfolding e encode_block_type.simps read_block_type_def BlockFuncType
  proof (rule reads_back_peek_first)
    show "encode_i64 L (ucast f) \<noteq> Some []"
      using write_index(1) [OF assms(1), of f] by (auto simp: encode_i64_def extend_sink_def)
    fix c cs
    assume "encode_i64 L (ucast f) = Some (c # cs)"
    then have "128 \<le> unat c \<or> unat c < 64"
      using write_index_first [OF assms(1)] by (simp add: encode_i64_def extend_sink_def)
    then have c: "\<not> (c AND 0x80 = 0 \<and> c AND 0x40 \<noteq> 0)" by (auto simp: byte_and_80_iff byte_and_40_iff)
    show "reads_back fs (if c AND 0x80 = 0 \<and> c AND 0x40 \<noteq> 0
        then (if c = 0x40 then (\<lambda>r. Inr (BlockEmpty, r\<lparr>position := position r + 1\<rparr>))
           else bind_rd read_val_type (\<lambda>ty. return_rd (BlockResult ty)))
        else bind_rd read_var_s33 (\<lambda>idx.
          case u32_try_from_i64 idx of
            Some idx \<Rightarrow> return_rd (BlockFuncType idx)
          | None \<Rightarrow> fail_rd (\<lambda>r. error_new ''invalid function type'' (original_position r))))
       (encode_i64 L (ucast f)) (BlockFuncType f)"
      unfolding if_not_P [OF c] by (rule rb)
  qed
qed

lemma reads_back_catch: "leb128_ok L \<Longrightarrow> reads_back fs read_catch (encode_catch L c) c"
  unfolding read_catch_def
  by (cases c; simp only: encode_catch.simps; rule reads_back_push)
    (simp del: encs_single; (rule reads_back_bind [OF reads_back_u32] reads_back_return | assumption)+)+

lemma reads_back_handle: "leb128_ok L \<Longrightarrow> reads_back fs read_handle (encode_handle L c) c"
  unfolding read_handle_def
  by (cases c; simp only: encode_handle.simps; rule reads_back_push)
    (simp del: encs_single; (rule reads_back_bind [OF reads_back_u32] reads_back_return | assumption)+)+

lemma reads_back_iter_same:
  assumes "leb128_ok L" "length xs \<le> limit" "\<And>x. reads_back fs item (e x) x"
  shows "reads_back fs (read_iter limit desc item) (encode_list L e xs) xs"
  using assms by (intro reads_back_iter) (simp_all add: list_all2_same)

lemma reads_back_try_table:
  assumes "leb128_ok L" "try_table_ok t" "re_try_table t = Inr e"
  shows "reads_back fs read_try_table (encode_try_table L e) t"
proof (cases t)
  case (MkTryTable b catches)
  with assms(3) obtain y where y: "re_block_type b = Inr y" "e = MkTryTable y catches"
    by (auto simp: bind_res_Inr_iff)
  have ok: "block_type_ok b" "length catches \<le> MAX_WASM_CATCHES" using assms(2) MkTryTable by simp_all
  show ?thesis
    unfolding y(2) encode_try_table.simps read_try_table_def MkTryTable
    by (rule reads_back_bind [OF reads_back_block_type [OF assms(1) ok(1) y(1)]],
        rule reads_back_bind [OF reads_back_iter_same [OF assms(1) ok(2) reads_back_catch [OF assms(1)]]],
        rule reads_back_return)
qed

lemma reads_back_resume_table:
  "leb128_ok L \<Longrightarrow> length hs \<le> MAX_WASM_HANDLERS \<Longrightarrow>
   reads_back fs read_resume_table (encode_list L (encode_handle L) hs) hs"
  unfolding read_resume_table_def by (intro reads_back_iter_same reads_back_handle)

lemma reads_back_lane:
  assumes "lane < lanes" "reads_back fs (f lane) (encs es) x"
  shows "reads_back fs (bind_rd (read_lane_index lanes) f) (encs (push lane # es)) x"
  unfolding read_lane_index_def bind_assoc
  by (rule reads_back_push) (use assms in \<open>simp add: not_le [symmetric]\<close>)

text \<open>Zero is written as the byte zero, which is what the readers without the feature expect.\<close>

lemma write_zero:
  assumes "leb128_ok L"
  shows "write_unsigned L 0 = [0]"
proof -
  have l: "leb_bytes (write_unsigned L 0)" "uleb_value (write_unsigned L 0) = 0" "length (write_unsigned L 0) \<le> 1"
    using leb128_unsigned(1,2) [OF assms, of 0] leb128_unsigned(3) [OF assms, of 1 0] by simp_all
  then obtain b where b: "write_unsigned L 0 = [b]" by (cases "write_unsigned L 0") auto
  with l have "unat b mod 128 = 0" "unat b < 128" by simp_all
  then have "unat b = 0" by simp
  then show ?thesis using b by (simp add: unat_eq_0)
qed

lemma reads_back_memory_index:
  assumes "leb128_ok L" "MULTI_MEMORY \<notin> fs \<Longrightarrow> i = 0"
  shows "reads_back fs read_memory_index_or_zero_if_not_multi_memory (encode_u32 L i) i"
  unfolding read_memory_index_or_zero_if_not_multi_memory_def
proof (rule reads_back_if_feature [OF reads_back_u32 [OF assms(1)]])
  assume "MULTI_MEMORY \<notin> fs"
  then have "i = 0" by (rule assms(2))
  then show "reads_back fs (bind_rd read_u8 (\<lambda>b. if b = 0 then return_rd 0
      else fail_rd (\<lambda>r. error_new ''zero byte expected'' (original_position r - 1)))) (encode_u32 L i) i"
    by (auto simp: reads_back_def encode_u32_def extend_sink_def write_zero [OF assms(1)]
        intro!: decodes_u8_bind decodes_return)
qed

lemma reads_back_table_index:
  assumes "leb128_ok L" "REFERENCE_TYPES \<notin> fs \<Longrightarrow> i = 0"
  shows "reads_back fs read_table_index_or_zero_if_not_reference_types (encode_u32 L i) i"
  unfolding read_table_index_or_zero_if_not_reference_types_def
proof (rule reads_back_if_feature [OF reads_back_u32 [OF assms(1)]])
  assume "REFERENCE_TYPES \<notin> fs"
  then have "i = 0" by (rule assms(2))
  then show "reads_back fs (bind_rd read_u8 (\<lambda>b. if b = 0 then return_rd 0
      else fail_rd (\<lambda>r. error_new ''zero byte expected'' (original_position r - 1)))) (encode_u32 L i) i"
    by (auto simp: reads_back_def encode_u32_def extend_sink_def write_zero [OF assms(1)]
        intro!: decodes_u8_bind decodes_return)
qed

lemma reads_back_typed_select:
  assumes "leb128_ok L" "val_type_readable ty" "re_val_type ty = Inr e"
  shows "reads_back fs (bind_rd read_var_u32 (\<lambda>results.
      if results \<noteq> 1 then fail_rd err else bind_rd read_val_type (\<lambda>ty. return_rd (f ty))))
    (encode_list L (encode_val_type L) [e]) (f ty)"
proof -
  have enc: "encode_list L (encode_val_type L) [e] = encs [encode_u32 L 1, encode_val_type L e]"
    by (simp add: encode_list_def encode_usize_def assert_enc_def)
  show ?thesis
    unfolding enc
    by (rule reads_back_bind [OF reads_back_u32 [OF assms(1)]])
      (simp del: encs_single, rule reads_back_bind [OF reads_back_val_type [OF assms]], rule reads_back_return)
qed

lemma reads_back_br_on_cast:
  assumes "leb128_ok L" "ref_type_readable a" "ref_type_readable b" "re_ref_type a = Inr x" "re_ref_type b = Inr y"
  shows "reads_back fs (read_br_on_cast visit)
    (encs [push (of_bool (er_nullable x) OR push_bit 1 (of_bool (er_nullable y))), encode_u32 L d,
      encode_heap_type L (er_heap_type x), encode_heap_type L (er_heap_type y)]) (visit d a b)"
proof -
  obtain h where h: "ref_new (is_nullable a) h = Some a" "ref_heap_type a = Some h" "heap_type_readable h"
    using assms(2) by (rule ref_type_readableE)
  obtain k where k: "ref_new (is_nullable b) k = Some b" "ref_heap_type b = Some k" "heap_type_readable k"
    using assms(3) by (rule ref_type_readableE)
  obtain u where u: "re_heap_type h = Inr u" "x = \<lparr>er_nullable = is_nullable a, er_heap_type = u\<rparr>"
    using assms(4) h(2) by (auto simp: re_ref_type_def bind_res_Inr_iff)
  obtain v where v: "re_heap_type k = Inr v" "y = \<lparr>er_nullable = is_nullable b, er_heap_type = v\<rparr>"
    using assms(5) k(2) by (auto simp: re_ref_type_def bind_res_Inr_iff)
  define c :: u8 where "c = of_bool (is_nullable a) OR push_bit 1 (of_bool (is_nullable b))"
  have c: "\<not> c \<notin> {0b00, 0b01, 0b10, 0b11}" "(c = 0b01 \<or> c = 0b11) = is_nullable a" "(c = 0b10 \<or> c = 0b11) = is_nullable b"
    by (cases "is_nullable a"; cases "is_nullable b"; simp add: c_def)+
  have ok: "reads_back fs (bind_rd (ok_or_implementation_error pos (Some rt)) g) e z" if "reads_back fs (g rt) e z"
    for pos rt e z and g :: "ref_type \<Rightarrow> 'a rd"
    using that by (simp add: ok_or_implementation_error_def)
  have "reads_back fs (read_br_on_cast visit)
      (encs [push c, encode_u32 L d, encode_heap_type L u, encode_heap_type L v]) (visit d a b)"
    unfolding read_br_on_cast_def Let_def
    by (rule reads_back_with_pos, rule reads_back_push, rule reads_back_bind [OF reads_back_u32 [OF assms(1)]],
        unfold if_not_P [OF c(1)] c(2,3), rule reads_back_bind [OF reads_back_heap_type [OF assms(1) h(3) u(1)]],
        unfold h(1), rule ok, rule reads_back_bind [OF reads_back_heap_type [OF assms(1) k(3) v(1)]],
        unfold k(1), rule ok, rule reads_back_return)
  then show ?thesis by (simp add: u(2) v(2) c_def)
qed

end
