(* ===== verification/Op_Round_Trip.thy ===== *)
theory Op_Round_Trip
  imports Op_Immediates
begin

text \<open>
  Every operator that wasmparser decodes is translated and encoded by wasm-encoder without an error
  or a panic, and the bytes are decoded as the same operator.
\<close>

section \<open>Opcodes\<close>

lemma reads_back_return_Nil: "reads_back fs (return_rd x) (Some []) x"
  using reads_back_return [of fs x] by simp

lemma reads_back_code:
  "(\<And>pos. reads_back fs (visit_code pos b) (encs es) x) \<Longrightarrow> reads_back fs read_operator (encs (push b # es)) x"
  "(\<And>pos. reads_back fs (visit_code pos b) (encs []) x) \<Longrightarrow> reads_back fs read_operator (push b) x"
  unfolding visit_operator_def
  by (rule reads_back_with_pos, rule reads_back_push reads_back_push_last, simp)+

lemma reads_back_prefix:
  "(\<And>pos. reads_back fs (visit_0xfb_operator pos) (encs es) x) \<Longrightarrow> reads_back fs read_operator (encs (push 0xfb # es)) x"
  "(\<And>pos. reads_back fs (visit_0xfc_operator pos) (encs es) x) \<Longrightarrow> reads_back fs read_operator (encs (push 0xfc # es)) x"
  "(\<And>pos. reads_back fs (visit_0xfd_operator pos) (encs es) x) \<Longrightarrow> reads_back fs read_operator (encs (push 0xfd # es)) x"
  "(\<And>pos. reads_back fs (visit_0xfe_operator pos) (encs es) x) \<Longrightarrow> reads_back fs read_operator (encs (push 0xfe # es)) x"
  by (rule reads_back_code, simp add: visit_code_def)+

lemma map_of_entry: "list_all (\<lambda>(c, x). P c x) t \<Longrightarrow> map_of t c = Some x \<Longrightarrow> P c x"
  by (induction t) (auto split: if_splits)

lemma map_of_no_entry: "list_all (\<lambda>(c, x). P c x) t \<Longrightarrow> (\<And>x. \<not> P c x) \<Longrightarrow> map_of t c = None"
  by (cases "map_of t c") (auto dest: map_of_entry)

section \<open>The tables of the reader and the numbers of the encoder\<close>

text \<open>Each table lists the operators under the number that the encoder writes, in a range of its own.\<close>

lemma memory_tables:
  "list_all (\<lambda>(c, op, _). c = unat (load_code op) \<and> 0x28 \<le> c \<and> c \<le> 0x35) load_opcodes"
  "list_all (\<lambda>(c, op, _). c = unat (store_code op) \<and> 0x36 \<le> c \<and> c \<le> 0x3e) store_opcodes"
  by (simp_all add: load_opcodes_def store_opcodes_def)

lemma atomic_tables:
  "list_all (\<lambda>(c, op, _). c = unat (atomic_access_code op) \<and> c \<noteq> 0x03 \<and> c \<le> 0x1d) atomic_access_opcodes"
  "list_all (\<lambda>(c, op, _). c = unat (atomic_rmw_code op) \<and> 0x1e \<le> c \<and> c \<le> 0x4e) atomic_rmw_opcodes"
  "list_all (\<lambda>(c, op). c = unat (global_atomic_code op) \<and> 0x4f \<le> c \<and> c \<le> 0x57) global_atomic_opcodes"
  "list_all (\<lambda>(c, op). c = unat (table_atomic_code op) \<and> 0x58 \<le> c \<and> c \<le> 0x5b) table_atomic_opcodes"
  "list_all (\<lambda>(c, op). c = unat (struct_atomic_code op) \<and> 0x5c \<le> c \<and> c \<le> 0x66) struct_atomic_opcodes"
  "list_all (\<lambda>(c, op). c = unat (array_atomic_code op) \<and> 0x67 \<le> c \<and> c \<le> 0x71) array_atomic_opcodes"
  by (simp_all add: atomic_access_opcodes_def atomic_rmw_opcodes_def global_atomic_opcodes_def
      table_atomic_opcodes_def struct_atomic_opcodes_def array_atomic_opcodes_def)

lemma vector_tables:
  "list_all (\<lambda>(c, op, _). c = unat (v128_mem_code op) \<and> c \<noteq> 0x0c \<and> c \<noteq> 0x0d
     \<and> (c < 0x0c \<or> c = 0x5c \<or> c = 0x5d)) v128_mem_opcodes"
  "list_all (\<lambda>(c, op, _, n). c = unat (fst (v128_lane_mem_code op)) \<and> snd (v128_lane_mem_code op) = n
     \<and> 0x54 \<le> c \<and> c \<le> 0x5b) v128_lane_mem_opcodes"
  "list_all (\<lambda>(c, op, n). c = unat (fst (lane_code op)) \<and> snd (lane_code op) = n \<and> 0x15 \<le> c \<and> c \<le> 0x22) lane_opcodes"
  by (simp_all add: v128_mem_opcodes_def v128_lane_mem_opcodes_def lane_opcodes_def)

definition encoded_as :: "leb128 \<Rightarrow> operator \<Rightarrow> enc \<Rightarrow> bool" where
  "encoded_as L op e \<longleftrightarrow> (\<exists>i. re_instruction op = Inr i \<and> encode_instruction L i = e)"

lemma plain_tables:
  "list_all (\<lambda>(c, op). encoded_as L op (push (of_nat c)) \<and> 0x45 \<le> c \<and> c \<le> 0xc4) numeric_opcodes"
  "list_all (\<lambda>(c, op). (encoded_as L op (encs [push 0xfc, push (of_nat c)])
     \<or> encoded_as L op (encs [push 0xfc, encode_u32 L (of_nat c)])) \<and> (c < 0x08 \<or> 0x13 \<le> c \<and> c \<le> 0x16)) fc_numeric_opcodes"
  "list_all (\<lambda>(c, op). encoded_as L op (encode_simd L (of_nat c))
     \<and> 0x0d < c \<and> (c < 0x15 \<or> 0x22 < c \<and> (c < 0x54 \<or> 0x5d < c)) \<and> c < 0x114) simd_opcodes"
  by (simp_all add: numeric_opcodes_def fc_numeric_opcodes_def simd_opcodes_def encoded_as_def)

section \<open>Decoding through the tables\<close>

lemma visit_code_tables:
  assumes "0x28 \<le> unat c \<and> unat c \<le> 0x3e \<or> 0x45 \<le> unat c \<and> unat c \<le> 0xc4"
  shows "visit_code pos c =
    (case map_of load_opcodes (unat c) of
       Some (op, max_align) \<Rightarrow> bind_rd (read_memarg max_align) (\<lambda>memarg. return_rd (Load op memarg))
     | None \<Rightarrow>
     (case map_of store_opcodes (unat c) of
       Some (op, max_align) \<Rightarrow> bind_rd (read_memarg max_align) (\<lambda>memarg. return_rd (Store op memarg))
     | None \<Rightarrow>
     (case map_of numeric_opcodes (unat c) of
       Some op \<Rightarrow> return_rd op
     | None \<Rightarrow>
         fail_rd (\<lambda>_. error_new (''illegal opcode: 0x'' @ fmt_hex (unat c)) pos))))"
proof -
  have ne: "c \<noteq> k" if "unat k < 0x28 \<or> 0x3e < unat k \<and> unat k < 0x45 \<or> 0xc4 < unat k" for k
    using assms that by auto
  show ?thesis unfolding visit_code_def by (simp add: ne)
qed

lemma visit_code_memory:
  "map_of load_opcodes c = Some (op, a) \<Longrightarrow>
     visit_code pos (load_code op) = bind_rd (read_memarg a) (\<lambda>memarg. return_rd (Load op memarg))"
  "map_of store_opcodes c = Some (op', a) \<Longrightarrow>
     visit_code pos (store_code op') = bind_rd (read_memarg a) (\<lambda>memarg. return_rd (Store op' memarg))"
proof -
  assume e: "map_of load_opcodes c = Some (op, a)"
  with map_of_entry [OF memory_tables(1) e]
  show "visit_code pos (load_code op) = bind_rd (read_memarg a) (\<lambda>memarg. return_rd (Load op memarg))"
    by (subst visit_code_tables) auto
next
  assume e: "map_of store_opcodes c = Some (op', a)"
  note c = map_of_entry [OF memory_tables(2) e]
  from c have "map_of load_opcodes c = None" by (intro map_of_no_entry [OF memory_tables(1)]) auto
  with e c show "visit_code pos (store_code op') = bind_rd (read_memarg a) (\<lambda>memarg. return_rd (Store op' memarg))"
    by (subst visit_code_tables) auto
qed

lemma visit_code_numeric:
  assumes e: "map_of numeric_opcodes c = Some op"
  shows "visit_code pos (of_nat c) = return_rd op"
proof -
  have c: "0x45 \<le> c" "c \<le> 0xc4" using map_of_entry [OF plain_tables(1) e] by auto
  then have "map_of load_opcodes c = None" "map_of store_opcodes c = None"
    by (auto intro!: map_of_no_entry [OF memory_tables(1)] map_of_no_entry [OF memory_tables(2)])
  moreover have "unat (of_nat c :: u8) = c" using c by (simp add: unsigned_of_nat take_bit_nat_eq_self)
  ultimately show ?thesis using e c by (subst visit_code_tables) auto
qed

text \<open>The same for the opcodes with a prefix.\<close>

lemma ucast_byte_eq: "(ucast (b :: u8) :: u32) = k \<longleftrightarrow> unat b = unat k"
  by (simp add: word_unat_eq_iff unsigned_ucast_eq take_bit_nat_eq_self less_trans [OF unsigned_less])

lemma unat_ucast_byte: "unat (ucast (b :: u8) :: u32) = unat b"
  by (simp add: unsigned_ucast_eq take_bit_nat_eq_self less_trans [OF unsigned_less])

lemma atomic_below:
  "0x1e \<le> c \<Longrightarrow> map_of atomic_access_opcodes c = None"
  "0x4f \<le> c \<Longrightarrow> map_of atomic_rmw_opcodes c = None"
  "0x58 \<le> c \<Longrightarrow> map_of global_atomic_opcodes c = None"
  "0x5c \<le> c \<Longrightarrow> map_of table_atomic_opcodes c = None"
  "0x67 \<le> c \<Longrightarrow> map_of struct_atomic_opcodes c = None"
  by (rule atomic_tables [THEN map_of_no_entry]; auto)+

lemmas rb_steps = reads_back_bind [OF reads_back_u32] reads_back_bind [OF reads_back_i32]
  reads_back_bind [OF reads_back_i64] reads_back_bind [OF reads_back_f32] reads_back_bind [OF reads_back_f64]
  reads_back_bind [OF reads_back_block_type] reads_back_bind [OF reads_back_heap_type]
  reads_back_bind [OF reads_back_memory_index] reads_back_bind [OF reads_back_table_index]
  reads_back_bind [OF reads_back_try_table] reads_back_bind [OF reads_back_resume_table]
  reads_back_bind [OF reads_back_ordering] reads_back_bind [OF reads_back_mem_arg]
  reads_back_return reads_back_return_Nil

lemmas fe_simps = ucast_byte_eq unat_ucast_byte atomic_below

lemma reads_back_memory:
  assumes "leb128_ok L" "mem_arg_ok fs a m"
  shows "map_of load_opcodes c = Some (op, a) \<Longrightarrow>
      reads_back fs read_operator (encs [push (load_code op), encode_mem_arg L (re_mem_arg m)]) (Load op m)"
    "map_of store_opcodes c = Some (op', a) \<Longrightarrow>
      reads_back fs read_operator (encs [push (store_code op'), encode_mem_arg L (re_mem_arg m)]) (Store op' m)"
  by (rule reads_back_code, simp add: visit_code_memory del: encs_single, intro rb_steps assms)+

lemma reads_back_fence:
  "reads_back fs read_operator (encs [push 0xfe, push 0x03, push 0x00]) AtomicFence"
  "reads_back fs read_operator (encs [push 0xfe, push 0x72]) RefI31Shared"
  by (rule reads_back_prefix, unfold visit_0xfe_operator_def, rule reads_back_small_u32, simp,
      simp del: encs_single, (rule reads_back_push, simp)?, rule reads_back_return reads_back_return_Nil)+

lemma reads_back_atomic_memory:
  assumes "leb128_ok L" "mem_arg_ok fs a m"
  shows "map_of atomic_access_opcodes c = Some (op, a) \<Longrightarrow>
      reads_back fs read_operator (encs [push 0xfe, push (atomic_access_code op), encode_mem_arg L (re_mem_arg m)]) (AtomicAccess op m)"
    "map_of atomic_rmw_opcodes c = Some (op', a) \<Longrightarrow>
      reads_back fs read_operator (encs [push 0xfe, push (atomic_rmw_code op'), encode_mem_arg L (re_mem_arg m)]) (AtomicRmw op' m)"
  by (rule reads_back_prefix, unfold visit_0xfe_operator_def, rule reads_back_small_u32,
      (drule atomic_tables [THEN map_of_entry], auto)[],
      frule atomic_tables [THEN map_of_entry], clarsimp simp: fe_simps simp del: encs_single;
      (intro rb_steps assms))+

lemma reads_back_atomic_index:
  assumes "leb128_ok L"
  shows "map_of global_atomic_opcodes c = Some op \<Longrightarrow>
      reads_back fs read_operator (encs [push 0xfe, push (global_atomic_code op), encode_ordering ord, encode_u32 L i]) (GlobalAtomic op ord i)"
    "map_of table_atomic_opcodes c = Some op2 \<Longrightarrow>
      reads_back fs read_operator (encs [push 0xfe, push (table_atomic_code op2), encode_ordering ord, encode_u32 L i]) (TableAtomic op2 ord i)"
    "map_of struct_atomic_opcodes c = Some op3 \<Longrightarrow>
      reads_back fs read_operator (encs [push 0xfe, push (struct_atomic_code op3), encode_ordering ord, encode_u32 L i, encode_u32 L j])
        (StructAtomic op3 ord i j)"
    "map_of array_atomic_opcodes c = Some op4 \<Longrightarrow>
      reads_back fs read_operator (encs [push 0xfe, push (array_atomic_code op4), encode_ordering ord, encode_u32 L i]) (ArrayAtomic op4 ord i)"
  by (rule reads_back_prefix, unfold visit_0xfe_operator_def, rule reads_back_small_u32,
      (drule atomic_tables [THEN map_of_entry], auto)[],
      frule atomic_tables [THEN map_of_entry], clarsimp simp: fe_simps simp del: encs_single;
      (intro rb_steps assms))+

lemma vector_disjoint:
  "0x0d < c \<Longrightarrow> c \<noteq> 0x5c \<Longrightarrow> c \<noteq> 0x5d \<Longrightarrow> map_of v128_mem_opcodes c = None"
  "c < 0x54 \<or> 0x5b < c \<Longrightarrow> map_of v128_lane_mem_opcodes c = None"
  "c < 0x15 \<or> 0x22 < c \<Longrightarrow> map_of lane_opcodes c = None"
  by (rule vector_tables [THEN map_of_no_entry]; auto)+

lemma reads_back_0xfd:
  assumes "leb128_ok L" "unat c \<noteq> 0x0c" "unat c \<noteq> 0x0d"
    and "\<And>pos. reads_back fs
      (case map_of v128_mem_opcodes (unat c) of
       Some (op, max_align) \<Rightarrow> bind_rd (read_memarg max_align) (\<lambda>memarg. return_rd (V128Mem op memarg))
     | None \<Rightarrow>
     (case map_of v128_lane_mem_opcodes (unat c) of
       Some (op, max_align, lanes) \<Rightarrow> bind_rd (read_memarg max_align) (\<lambda>memarg.
         bind_rd (read_lane_index lanes) (\<lambda>lane. return_rd (V128LaneMem op memarg lane)))
     | None \<Rightarrow>
     (case map_of lane_opcodes (unat c) of
       Some (op, lanes) \<Rightarrow> bind_rd (read_lane_index lanes) (\<lambda>lane. return_rd (Lane op lane))
     | None \<Rightarrow>
     (case map_of simd_opcodes (unat c) of
       Some op \<Rightarrow> return_rd op
     | None \<Rightarrow>
         fail_rd (\<lambda>_. error_new (''unknown 0xfd subopcode: 0x'' @ fmt_hex (unat c)) pos))))) (encs es) x"
  shows "reads_back fs read_operator (encs (encode_simd L c # es)) x"
proof -
  have ne: "c \<noteq> 0x0c" "c \<noteq> 0x0d" using assms(2,3) by auto
  have "reads_back fs read_operator (encs (push 0xfd # encode_u32 L c # es)) x"
    by (rule reads_back_prefix, unfold visit_0xfd_operator_def, rule reads_back_bind [OF reads_back_u32 [OF assms(1)]])
      (simp add: ne assms(4) del: encs.simps)
  then show ?thesis by (simp add: encode_simd_def encs_assoc)
qed

lemma reads_back_vector_memory:
  assumes "leb128_ok L" "map_of v128_mem_opcodes c = Some (op, a)" "mem_arg_ok fs a m"
  shows "reads_back fs read_operator (encs [encode_simd L (v128_mem_code op), encode_mem_arg L (re_mem_arg m)]) (V128Mem op m)"
  using map_of_entry [OF vector_tables(1) assms(2)] assms
  by (intro reads_back_0xfd) (auto simp del: encs_single intro!: rb_steps)

lemma reads_back_vector_lane_memory:
  assumes "leb128_ok L" "map_of v128_lane_mem_opcodes c = Some (op, a, lanes)" "mem_arg_ok fs a m" "lane < lanes"
  shows "reads_back fs read_operator
    (encs [encode_simd L (fst (v128_lane_mem_code op)), encode_mem_arg L (re_mem_arg m),
      assert_enc (lane < snd (v128_lane_mem_code op)), push lane]) (V128LaneMem op m lane)"
  using map_of_entry [OF vector_tables(2) assms(2)] assms
  by (intro reads_back_0xfd) (auto simp: vector_disjoint simp del: encs_single intro!: rb_steps reads_back_assert reads_back_lane)

lemma reads_back_vector_lane:
  assumes "leb128_ok L" "map_of lane_opcodes c = Some (op, lanes)" "lane < lanes"
  shows "reads_back fs read_operator
    (encs [encode_simd L (fst (lane_code op)), assert_enc (lane < snd (lane_code op)), push lane]) (Lane op lane)"
  using map_of_entry [OF vector_tables(3) assms(2)] assms
  by (intro reads_back_0xfd) (auto simp: vector_disjoint simp del: encs_single intro!: rb_steps reads_back_assert reads_back_lane)

lemma reads_back_fc_numeric:
  assumes "reads_back fs read_var_u32 e w" "map_of fc_numeric_opcodes (unat w) = Some op"
  shows "reads_back fs read_operator (encs [push 0xfc, e]) op"
proof -
  have "unat w < 8 \<or> 18 < unat w" using map_of_entry [OF plain_tables(2) assms(2)] by auto
  then have ne: "w \<noteq> k" if "8 \<le> unat k \<and> unat k \<le> 18" for k using that by auto
  show ?thesis
    by (rule reads_back_prefix, unfold visit_0xfc_operator_def, rule reads_back_bind [OF assms(1)])
      (simp add: ne assms(2) reads_back_return_Nil)
qed

lemma reads_back_plain:
  assumes "leb128_ok L" "plain_op op" "re_instruction op = Inr i"
  shows "reads_back fs read_operator (encode_instruction L i) op"
proof -
  have enc: "encode_instruction L i = e" if "encoded_as L op e" for e
    using that assms(3) by (auto simp: encoded_as_def)
  from assms(2) consider c where "map_of numeric_opcodes c = Some op" | c where "map_of fc_numeric_opcodes c = Some op"
    | c where "map_of simd_opcodes c = Some op"
    by (auto simp: plain_op_def)
  then show ?thesis
  proof cases
    case (1 c)
    then have "encode_instruction L i = push (of_nat c)" using map_of_entry [OF plain_tables(1)] enc by auto
    with 1 show ?thesis by (auto simp: visit_code_numeric intro!: reads_back_code reads_back_return_Nil)
  next
    case (2 c)
    note e = map_of_entry [OF plain_tables(2) [of L] 2]
    then have c: "unat (of_nat c :: u32) = c" "unat (of_nat c :: u8) = c" "c < 128"
      by (auto simp: unsigned_of_nat take_bit_nat_eq_self)
    then have "(ucast (of_nat c :: u8) :: u32) = of_nat c" by (simp add: ucast_byte_eq)
    then have "reads_back fs read_var_u32 (push (of_nat c)) (of_nat c)"
      using decodes_small_u32 [of "of_nat c"] c by (simp add: reads_back_def push_def)
    then have "reads_back fs read_operator (encs [push 0xfc, push (of_nat c)]) op"
      "reads_back fs read_operator (encs [push 0xfc, encode_u32 L (of_nat c)]) op"
      using 2 c(1) reads_back_u32 [OF assms(1)] by (auto intro!: reads_back_fc_numeric [where w = "of_nat c"])
    then show ?thesis using e enc by auto
  next
    case (3 c)
    note e = map_of_entry [OF plain_tables(3) [of L] 3]
    then have c: "unat (of_nat c :: u32) = c" by (simp add: unsigned_of_nat take_bit_nat_eq_self)
    have "reads_back fs read_operator (encs [encode_simd L (of_nat c)]) op"
      using e 3 assms(1) by (intro reads_back_0xfd) (auto simp: c vector_disjoint intro: reads_back_return_Nil)
    then show ?thesis using e enc by auto
  qed
qed

section \<open>The other groups of operators\<close>


lemma reads_back_control:
  assumes "leb128_ok L" "control_ok fs c" "re_control_op c = Inr e" "\<forall>t. c \<noteq> BrTable t"
  shows "reads_back fs read_operator (encode_control_op L e) (Control c)"
  by (insert assms, cases c; clarsimp simp: control_ok_def bind_res_Inr_iff simp del: encs_single;
      (rule reads_back_code, simp add: visit_code_def del: encs_single, (rule rb_steps | assumption | simp)+)?)

lemma reads_back_exception:
  assumes "leb128_ok L" "exception_ok c" "re_exn_op c = Inr e"
  shows "reads_back fs read_operator (encode_exn_op L e) (Exception c)"
  by (insert assms, cases c; clarsimp simp: exception_ok_def bind_res_Inr_iff simp del: encs_single encode_try_table.simps;
      (rule reads_back_code, simp add: visit_code_def del: encs_single, (rule rb_steps | assumption | simp)+)?)

lemma reads_back_reference:
  assumes "leb128_ok L" "reference_ok c" "re_ref_op c = Inr e"
  shows "reads_back fs read_operator (encode_ref_op L e) (Reference c)"
  by (insert assms, cases c; clarsimp simp: reference_ok_def bind_res_Inr_iff simp del: encs_single;
      (rule reads_back_prefix reads_back_code,
        ((unfold visit_0xfc_operator_def, rule reads_back_small_u32, simp)?), simp add: visit_code_def del: encs_single,
        (rule rb_steps reads_back_typed_select | assumption | simp only: encs_single)+)?)

lemma reads_back_cast:
  assumes "leb128_ok L" "ref_type_readable a" "ref_type_readable b" "re_ref_type a = Inr x" "re_ref_type b = Inr y"
  shows "reads_back fs read_operator (encode_br_on_cast L 0x18 d x y) (Gc (BrOnCast d a b))"
    and "reads_back fs read_operator (encode_br_on_cast L 0x19 d x y) (Gc (BrOnCastFail d a b))"
  unfolding encode_br_on_cast_def Let_def
  by (rule reads_back_prefix, unfold visit_0xfb_operator_def, rule reads_back_small_u32, simp,
      use reads_back_br_on_cast [OF assms, of fs "\<lambda>d a b. Gc (BrOnCast d a b)" d]
        reads_back_br_on_cast [OF assms, of fs "\<lambda>d a b. Gc (BrOnCastFail d a b)" d]
      in \<open>cases "er_nullable x"; cases "er_nullable y"; simp\<close>)+

lemma reads_back_gc:
  assumes "leb128_ok L" "gc_ok c" "re_gc_op c = Inr e"
  shows "reads_back fs read_operator (encode_gc_op L e) (Gc c)"
  by (insert assms, cases c; clarsimp simp: gc_ok_def bind_res_Inr_iff reads_back_cast simp del: encs_single;
      (rule reads_back_prefix reads_back_code,
        ((unfold visit_0xfb_operator_def, rule reads_back_small_u32, simp)?), simp add: visit_code_def del: encs_single,
        (rule rb_steps reads_back_cast | assumption | simp only: encs_single)+)?)

lemma reads_back_lane_index: "lane < lanes \<Longrightarrow> reads_back fs (read_lane_index lanes) (push lane) lane"
  using reads_back_lane [of lane lanes fs return_rd "[]" lane, OF _ reads_back_return] by simp

lemma encs_push_bytes: "encs (map push bs) = Some bs"
  by (induction bs) (simp_all add: encs.simps(2) push_def)

lemma reads_back_vector_const:
  assumes "leb128_ok L"
  shows "length x = 16 \<Longrightarrow> reads_back fs read_operator (encs [encode_simd L 0x0c, extend_sink x]) (V128Const x)"
    and "length lanes = 16 \<Longrightarrow> list_all (\<lambda>l. l < 32) lanes \<Longrightarrow>
      reads_back fs read_operator
        (encs [encode_simd L 0x0d, assert_enc b, extend_sink lanes]) (I8x16Shuffle lanes)"
proof -
  assume l: "length x = 16"
  then have "reads_back fs (read_bytes 16) (extend_sink x) x"
    by (simp add: reads_back_extend decodes_read_bytes)
  then show "reads_back fs read_operator (encs [encode_simd L 0x0c, extend_sink x]) (V128Const x)"
    unfolding encode_simd_def encs_assoc append.simps
    by - (rule reads_back_prefix, unfold visit_0xfd_operator_def, rule reads_back_bind [OF reads_back_u32 [OF assms]],
       simp del: encs_single, rule reads_back_bind, assumption, rule reads_back_return)
next
  assume l: "length lanes = 16" "list_all (\<lambda>l. l < 32) lanes"
  have "reads_back fs (read_items (read_lane_index 32) (length lanes)) (extend_sink lanes) lanes"
    unfolding extend_sink_def encs_push_bytes [symmetric]
    by (rule reads_back_items) (use l(2) in \<open>auto simp: list_all2_conv_all_nth list_all_length intro!: reads_back_lane_index\<close>)
  with l(1) have "reads_back fs (read_items (read_lane_index 32) 16) (extend_sink lanes) lanes" by simp
  then show "reads_back fs read_operator (encs [encode_simd L 0x0d,
      assert_enc b, extend_sink lanes]) (I8x16Shuffle lanes)"
    unfolding encode_simd_def encs_assoc append.simps
    by - (rule reads_back_prefix, unfold visit_0xfd_operator_def, rule reads_back_bind [OF reads_back_u32 [OF assms]],
       rule reads_back_assert, simp del: encs_single, rule reads_back_bind, assumption, rule reads_back_return)
qed

section \<open>Branch tables\<close>

text \<open>
  A \<open>BrTable\<close> holds the reader of its targets, which remembers the place in the file. Operators are
  compared up to that: a branch table counts as its targets and its default.
\<close>

definition op_view :: "operator \<Rightarrow> operator + u32 list result \<times> u32" where
  "op_view op =
     (case op of
        Control c \<Rightarrow> (case c of BrTable t \<Rightarrow> Inr (br_table_targets t, bt_default t) | _ \<Rightarrow> Inl op)
      | _ \<Rightarrow> Inl op)"

lemma op_view_BrTable [simp]: "op_view (Control (BrTable t)) = Inr (br_table_targets t, bt_default t)"
  by (simp add: op_view_def)

lemma op_view_other: "(\<forall>t. op \<noteq> Control (BrTable t)) \<Longrightarrow> op_view op = Inl op"
  by (auto simp: op_view_def split: op.split control_op.split)

lemma reads_back_br_table:
  assumes "leb128_ok L" "length xs \<le> MAX_WASM_BR_TABLE_SIZE"
  shows "reads_back fs (bind_rd read_br_table (\<lambda>t. return_rd (br_table_targets t, bt_default t)))
    (encs [encode_list L (encode_u32 L) xs, encode_u32 L d]) (Inr xs, d)"
proof -
  have items: "reads_back fs (read_items read_var_u32 (length xs)) (encs (map (encode_u32 L) xs)) xs"
    by (rule reads_back_items) (simp add: list_all2_same reads_back_u32 [OF assms(1)])
  have n: "unat (of_nat (length xs) :: u32) = length xs"
    using assms(2) by (simp add: unat_of_nat MAX_WASM_BR_TABLE_SIZE_def MAX_WASM_FUNCTION_SIZE_def)
  have targets: "br_table_targets \<lparr>bt_reader = \<lparr>buffer = bs, position = 0, original_offset = off, features = fs\<rparr>,
      bt_cnt = of_nat (length xs), bt_default = d\<rparr> = Inr xs" if "encs (map (encode_u32 L) xs) = Some bs" for bs off
    by (rule br_table_targets_delimited [OF reads_backD [OF items that]]) (simp_all add: n)
  have "reads_back fs (bind_rd read_br_table (\<lambda>t. return_rd (br_table_targets t, bt_default t)))
      (encs [encode_usize L (length xs), encs (map (encode_u32 L) xs), encode_u32 L d]) (Inr xs, d)"
    unfolding read_br_table_def bind_assoc
    by (rule reads_back_bind [OF reads_back_size [OF assms]], rule reads_back_skip [OF items],
        rule reads_back_bind [OF reads_back_u32 [OF assms(1)]])
      (simp add: targets reads_back_return_Nil)
  then show ?thesis by (simp add: encode_list_def encs_assoc)
qed

section \<open>All operators\<close>

lemma re_block_type_total: "block_type_ok b \<Longrightarrow> \<exists>y. re_block_type b = Inr y"
  by (cases b) (auto simp: bind_res_Inr_iff dest: re_val_type_total)

lemma re_try_table_total: "try_table_ok t \<Longrightarrow> \<exists>y. re_try_table t = Inr y"
  by (cases t) (auto simp: bind_res_Inr_iff dest: re_block_type_total)

lemma re_control_total: "control_ok fs c \<Longrightarrow> \<exists>y. re_control_op c = Inr y"
  by (cases c; force simp: control_ok_def bind_res_Inr_iff br_table_ok_def re_br_table_def dest: re_block_type_total)

lemma re_ref_total: "reference_ok c \<Longrightarrow> \<exists>y. re_ref_op c = Inr y"
  by (cases c; force simp: reference_ok_def bind_res_Inr_iff dest: re_val_type_total re_heap_type_total)

lemma re_exn_total: "exception_ok c \<Longrightarrow> \<exists>y. re_exn_op c = Inr y"
  by (cases c; force simp: exception_ok_def bind_res_Inr_iff dest: re_block_type_total re_try_table_total)

lemma re_gc_total: "gc_ok c \<Longrightarrow> \<exists>y. re_gc_op c = Inr y"
  by (cases c; force simp: gc_ok_def bind_res_Inr_iff dest: re_heap_type_total re_ref_type_total)

lemma no_panic_block_type [simp]: "no_panic (encode_block_type L b)"
  by (cases b) simp_all

lemma no_panic_ordering [simp]: "no_panic (encode_ordering ord)"
  by (cases ord) simp_all

lemma no_panic_catch [simp]: "no_panic (encode_catch L c)"
  by (cases c) simp_all

lemma no_panic_handle [simp]: "no_panic (encode_handle L h)"
  by (cases h) simp_all

lemma no_panic_immediates [simp]:
  "no_panic (encode_mem_arg L m)" "no_panic (encode_simd L c)" "no_panic (encode_br_on_cast L k d x y)"
  by (simp_all add: encode_mem_arg_def encode_simd_def encode_br_on_cast_def Let_def)

lemma plain_total: "plain_op op \<Longrightarrow> \<exists>i. re_instruction op = Inr i \<and> no_panic (encode_instruction L i)"
  unfolding plain_op_def by (elim exE disjE; drule map_of_entry [OF plain_tables(1) [of L]]
      map_of_entry [OF plain_tables(2) [of L]] map_of_entry [OF plain_tables(3) [of L]];
      auto simp: encoded_as_def; metis no_panic_simps(2,5) no_panic_ints(1) no_panic_immediates(2) list.pred_inject)

lemma re_instruction_total: "op_ok fs op \<Longrightarrow> \<exists>y. re_instruction op = Inr y"
proof (cases "plain_op op")
  assume "op_ok fs op" "\<not> plain_op op"
  then show ?thesis
    by (cases op) (auto simp: op_ok_def bind_res_Inr_iff
        dest: re_control_total re_ref_total re_exn_total re_gc_total)
qed (blast dest: plain_total)

lemma no_panic_control: "control_ok fs c \<Longrightarrow> re_control_op c = Inr e \<Longrightarrow> no_panic (encode_control_op L e)"
  by (cases c) (auto simp: control_ok_def bind_res_Inr_iff br_table_ok_def re_br_table_def list_all_iff
      MAX_WASM_BR_TABLE_SIZE_def MAX_WASM_FUNCTION_SIZE_def)

lemma no_panic_reference: "re_ref_op c = Inr e \<Longrightarrow> no_panic (encode_ref_op L e)"
  by (cases c) (auto simp: bind_res_Inr_iff)

lemma no_panic_exception:
  assumes "exception_ok c" "re_exn_op c = Inr e"
  shows "no_panic (encode_exn_op L e)"
proof (cases c)
  case (TryTable t)
  with assms show ?thesis
    by (cases t) (auto simp: exception_ok_def bind_res_Inr_iff list_all_iff MAX_WASM_CATCHES_def)
qed (use assms in \<open>auto simp: exception_ok_def bind_res_Inr_iff list_all_iff MAX_WASM_HANDLERS_def\<close>)

lemma no_panic_gc: "re_gc_op c = Inr e \<Longrightarrow> no_panic (encode_gc_op L e)"
  by (cases c) (auto simp: bind_res_Inr_iff)

lemma no_panic_instruction:
  assumes "op_ok fs op" "re_instruction op = Inr i"
  shows "no_panic (encode_instruction L i)"
proof (cases "plain_op op")
  case True
  then show ?thesis using plain_total [of op L] assms(2) by auto
next
  case False
  with assms show ?thesis
    by (cases op)
      (auto simp: op_ok_def bind_res_Inr_iff intro: no_panic_control no_panic_reference no_panic_exception no_panic_gc
        dest!: map_of_entry [OF vector_tables(2)] map_of_entry [OF vector_tables(3)])
qed

lemma reads_back_instruction:
  assumes "leb128_ok L" "op_ok fs op" "re_instruction op = Inr i" "\<forall>t. op \<noteq> Control (BrTable t)"
  shows "reads_back fs read_operator (encode_instruction L i) op"
proof (cases "plain_op op")
  case False
  with assms show ?thesis
    by (cases op)
      (auto simp: op_ok_def bind_res_Inr_iff simp del: encs_single
        intro!: reads_back_control reads_back_reference reads_back_exception reads_back_gc reads_back_memory
          reads_back_fence reads_back_atomic_memory reads_back_atomic_index
          reads_back_vector_memory reads_back_vector_lane_memory reads_back_vector_lane reads_back_vector_const)
qed (rule reads_back_plain [OF assms(1) _ assms(3)])

lemma plain_not_control: "plain_op op \<Longrightarrow> op \<noteq> Control c"
proof -
  have "list_all (\<lambda>(_, op). op \<noteq> Control c) numeric_opcodes" "list_all (\<lambda>(_, op). op \<noteq> Control c) fc_numeric_opcodes"
    "list_all (\<lambda>(_, op). op \<noteq> Control c) simd_opcodes"
    by (simp_all add: numeric_opcodes_def fc_numeric_opcodes_def simd_opcodes_def)
  then show "plain_op op \<Longrightarrow> op \<noteq> Control c" unfolding plain_op_def by (blast dest: map_of_entry)
qed

lemma reads_back_code_bind:
  assumes "\<And>pos. reads_back fs (bind_rd (visit_code pos b) g) (encs es) x"
  shows "reads_back fs (bind_rd read_operator g) (encs (push b # es)) x"
proof -
  have "bind_rd read_operator g = with_pos (\<lambda>pos. bind_rd read_u8 (\<lambda>c. bind_rd (visit_code pos c) g))"
    by (rule ext) (simp add: visit_operator_def with_pos_def bind_rd_def split: sum.split)
  then show ?thesis using assms by (auto intro!: reads_back_with_pos reads_back_push)
qed

lemma reads_back_operator_view:
  assumes "leb128_ok L" "op_ok fs op" "re_instruction op = Inr i"
  shows "reads_back fs (bind_rd read_operator (\<lambda>op. return_rd (op_view op))) (encode_instruction L i) (op_view op)"
proof (cases "\<exists>t. op = Control (BrTable t)")
  case True
  then obtain t where t: "op = Control (BrTable t)" ..
  then have "\<not> plain_op op" using plain_not_control by blast
  with assms(2) obtain xs where xs: "br_table_targets t = Inr xs" "length xs \<le> MAX_WASM_BR_TABLE_SIZE"
    by (auto simp: t op_ok_def control_ok_def br_table_ok_def)
  have i: "encode_instruction L i = encs [push 0x0e, encode_list L (encode_u32 L) xs, encode_u32 L (bt_default t)]"
    using assms(3) by (auto simp: t xs re_br_table_def bind_res_def)
  have "reads_back fs (bind_rd read_br_table (\<lambda>t. return_rd (op_view (Control (BrTable t)))))
      (encs [encode_list L (encode_u32 L) xs, encode_u32 L (bt_default t)]) (op_view op)"
    using reads_back_bind_last [OF reads_back_br_table [OF assms(1) xs(2), of fs "bt_default t"],
      where f = "\<lambda>x. return_rd (Inr x)", OF reads_back_return]
    by (simp add: t xs(1) bind_assoc)
  then show ?thesis
    unfolding i by (intro reads_back_code_bind) (simp add: visit_code_def bind_assoc)
next
  case False
  then show ?thesis
    by (intro reads_back_bind_last [OF reads_back_instruction [OF assms]]) (simp_all add: op_view_other reads_back_return_Nil)
qed

interpretation re_operator: reencodable read_operator op_ok re_instruction encode_instruction op_view
  by unfold_locales (rule returns_operator re_instruction_total no_panic_instruction reads_back_operator_view; assumption)+

section \<open>Property\<close>

lemma read_i32_const:
  "read_operator (reader_new [0x41, 7, 0x0b] 0) =
     Inr (Control (I32Const 7), advance 2 (reader_new [0x41, 7, 0x0b] 0))"
  by (simp add: visit_operator_def visit_code_def read_var_i32_def with_pos_def bind_rd_def reader_new_def read_u8_def
      return_rd_def advance_def original_position_def)

text \<open>
  C6. Round trip of operators: every operator that \<open>read_operator\<close> returns, whatever the features, is
  translated by the re-encoder without an error, its encoding does not panic, and reading the encoded
  bytes under the same features, whatever follows them, consumes just these bytes and gives the same
  operator; a branch table has the same targets and default, read from its new place.
\<close>

theorem operator_round_trip:
  assumes "leb128_ok L" "read_operator r = Inr (op, r')"
  shows "\<exists>i bs. re_instruction op = Inr i \<and> encode_instruction L i = Some bs \<and>
    (\<forall>r2 rest. rd_wf r2 \<and> features r2 = features r \<and> remaining_buffer r2 = bs @ rest \<longrightarrow>
      (\<exists>op2. read_operator r2 = Inr (op2, advance (length bs) r2) \<and> op_view op2 = op_view op))"
  by (rule re_operator.round_trip [OF assms])

theorem operator_round_trip_witness:
  "leb128_ok leb128_reference
   \<and> read_operator (reader_new [0x41, 7, 0x0b] 0) =
       Inr (Control (I32Const 7), advance 2 (reader_new [0x41, 7, 0x0b] 0))
   \<and> (\<exists>i bs. re_instruction (Control (I32Const 7)) = Inr i \<and> encode_instruction leb128_reference i = Some bs \<and>
      (\<forall>r2 rest. rd_wf r2 \<and> features r2 = features (reader_new [0x41, 7, 0x0b] 0) \<and> remaining_buffer r2 = bs @ rest \<longrightarrow>
        (\<exists>op2. read_operator r2 = Inr (op2, advance (length bs) r2) \<and> op_view op2 = op_view (Control (I32Const 7)))))"
  using leb128_reference_ok read_i32_const operator_round_trip [OF leb128_reference_ok read_i32_const] by blast

end
