(* ===== verification/Function_Bodies.thy ===== *)
theory Function_Bodies
  imports Op_Round_Trip Op_Laws Sections "HOL-Library.Sublist"
begin

text \<open>
  Function bodies: readers/core/code.rs and the class \<open>OperatorsReader\<close> of wasmparser, \<open>Function\<close> of
  wasm-encoder's core/code.rs, and the translation \<open>parse_function_body\<close> of reencode.rs between them.

  The iterators of the source are modelled with their state and their \<open>next\<close>; collecting them stops
  at the first error.
\<close>

section \<open>Reading function bodies\<close>

record function_body =
  fb_reader :: binary_reader

definition read_function_body :: "function_body rd" where
  "read_function_body = bind_rd read_reader (\<lambda>reader. return_rd \<lparr>fb_reader = reader\<rparr>)"

definition skip_locals :: "unit rd" where
  "skip_locals = bind_rd read_var_u32 (\<lambda>count.
     bind_rd (read_items (bind_rd read_var_u32 (\<lambda>_. bind_rd read_val_type (\<lambda>_. return_rd ()))) (unat count))
       (\<lambda>_. return_rd ()))"

record locals_reader =
  lr_reader :: binary_reader
  lr_count :: u32

definition get_locals_reader :: "function_body \<Rightarrow> locals_reader result" where
  "get_locals_reader func =
     (case read_var_u32 (fb_reader func) of
        Inl e \<Rightarrow> Inl e
      | Inr (count, reader) \<Rightarrow> Inr \<lparr>lr_reader = reader, lr_count = count\<rparr>)"

definition get_operators_reader :: "function_body \<Rightarrow> binary_reader result" where
  "get_operators_reader func =
     (case skip_locals (fb_reader func) of Inl e \<Rightarrow> Inl e | Inr (_, reader) \<Rightarrow> Inr reader)"

definition read_local :: "(u32 \<times> val_type) rd" where
  "read_local = bind_rd read_var_u32 (\<lambda>count. bind_rd read_val_type (\<lambda>value_type. return_rd (count, value_type)))"

record locals_iterator =
  li_reader :: locals_reader
  li_left :: u32
  li_err :: bool

definition locals_into_iter :: "locals_reader \<Rightarrow> locals_iterator" where
  "locals_into_iter lr = \<lparr>li_reader = lr, li_left = lr_count lr, li_err = False\<rparr>"

definition locals_next :: "locals_iterator \<Rightarrow> (u32 \<times> val_type) result option \<times> locals_iterator" where
  "locals_next it =
     (if li_err it \<or> li_left it = 0 then (None, it)
      else case read_local (lr_reader (li_reader it)) of
          Inl e \<Rightarrow> (Some (Inl e), it\<lparr>li_left := li_left it - 1, li_err := True\<rparr>)
        | Inr (x, reader) \<Rightarrow>
            (Some (Inr x), it\<lparr>li_reader := (li_reader it)\<lparr>lr_reader := reader\<rparr>, li_left := li_left it - 1\<rparr>))"

lemma locals_next_left:
  "locals_next it = (Some x, it') \<Longrightarrow> unat (li_left it') < unat (li_left it)"
  by (auto simp: locals_next_def unat_minus_one unat_gt_0 split: if_splits sum.splits)

function collect_locals :: "locals_iterator \<Rightarrow> (u32 \<times> val_type) list result" where
  "collect_locals it =
     (case locals_next it of
        (None, _) \<Rightarrow> Inr []
      | (Some (Inl e), _) \<Rightarrow> Inl e
      | (Some (Inr x), it') \<Rightarrow> (case collect_locals it' of Inl e \<Rightarrow> Inl e | Inr xs \<Rightarrow> Inr (x # xs)))"
  by pat_completeness auto
termination by (relation "measure (\<lambda>it. unat (li_left it))") (auto dest: locals_next_left [OF sym] locals_next_left)

declare collect_locals.simps [simp del]

text \<open>
  \<open>OperatorsReader\<close> is its \<open>BinaryReader\<close>; its iterator reads operators until the end of the buffer.
\<close>

definition ensure_end :: "binary_reader \<Rightarrow> unit result" where
  "ensure_end reader =
     (if eof reader then Inr ()
      else Inl (error_new ''unexpected data at the end of operators'' (original_position reader)))"

record operators_iterator =
  oi_reader :: binary_reader
  oi_err :: bool

definition operators_next :: "operators_iterator \<Rightarrow> operator result option \<times> operators_iterator" where
  "operators_next it =
     (if oi_err it \<or> eof (oi_reader it) then (None, it)
      else case read_operator (oi_reader it) of
          Inl e \<Rightarrow> (Some (Inl e), it\<lparr>oi_err := True\<rparr>)
        | Inr (op, reader) \<Rightarrow> (Some (Inr op), it\<lparr>oi_reader := reader\<rparr>))"

lemma bytes_remaining_decreases:
  assumes "\<not> eof r" "read_operator r = Inr (op, r')"
  shows "bytes_remaining r' < bytes_remaining r"
proof -
  have wf: "rd_wf r" using assms(1) by (simp add: eof_def rd_wf_def)
  have "same_input r r'" using rd_ok_but_visit_operator [of 0 "original_position r"] wf assms(2)
    unfolding rd_ok_but_def by fastforce
  then show ?thesis
    using read_operator_progress [OF wf assms(2)] assms(1)
    by (auto simp: same_input_def bytes_remaining_def eof_def)
qed

lemma operators_next_decreases:
  "operators_next it = (Some (Inr x), it') \<Longrightarrow> bytes_remaining (oi_reader it') < bytes_remaining (oi_reader it)"
  by (auto simp: operators_next_def bytes_remaining_decreases split: if_splits sum.splits)

function collect_operators :: "operators_iterator \<Rightarrow> operator list result" where
  "collect_operators it =
     (case operators_next it of
        (None, _) \<Rightarrow> Inr []
      | (Some (Inl e), _) \<Rightarrow> Inl e
      | (Some (Inr x), it') \<Rightarrow> (case collect_operators it' of Inl e \<Rightarrow> Inl e | Inr xs \<Rightarrow> Inr (x # xs)))"
  by pat_completeness auto
termination
  by (relation "measure (\<lambda>it. bytes_remaining (oi_reader it))") (auto dest: operators_next_decreases [OF sym])

declare collect_operators.simps [simp del]

section \<open>Writing function bodies\<close>

text \<open>\<open>Function\<close> is the vector of its bytes. \<open>Function::new\<close> starts it with the local declarations.\<close>

definition function_new :: "leb128 \<Rightarrow> (u32 \<times> enc_val_type) list \<Rightarrow> enc" where
  "function_new L locals = encs
     [encode_usize L (length locals), encs (map (\<lambda>(count, ty). encs [encode_u32 L count, encode_val_type L ty]) locals)]"




definition function_instruction :: "leb128 \<Rightarrow> u8 list \<Rightarrow> instruction \<Rightarrow> enc" where
  "function_instruction L f instruction = encs [Some f, encode_instruction L instruction]"

text \<open>\<open>CodeSection::function\<close> and \<open>CodeSection::raw\<close> add the bytes of a body with their length.\<close>

definition code_section_function :: "leb128 \<Rightarrow> enc_section \<Rightarrow> u8 list \<Rightarrow> enc_section option" where
  "code_section_function L code f = enc_section_add code (encode_bytes L f)"

section \<open>Re-encoding function bodies\<close>

text \<open>The result of these is an error, \<open>Inr None\<close> for a panic of the encoder, or the bytes.\<close>

function parse_locals :: "locals_iterator \<Rightarrow> reencode_error + (u32 \<times> enc_val_type) list" where
  "parse_locals it =
     (case locals_next it of
        (None, _) \<Rightarrow> Inr []
      | (Some (Inl e), _) \<Rightarrow> Inl (ParseError e)
      | (Some (Inr (cnt, ty)), it') \<Rightarrow>
          (case re_val_type ty of
             Inl e \<Rightarrow> Inl e
           | Inr ty \<Rightarrow> (case parse_locals it' of Inl e \<Rightarrow> Inl e | Inr locals \<Rightarrow> Inr ((cnt, ty) # locals))))"
  by pat_completeness auto
termination by (relation "measure (\<lambda>it. unat (li_left it))") (auto dest: locals_next_left [OF sym])

definition new_function_with_parsed_locals :: "leb128 \<Rightarrow> function_body \<Rightarrow> reencode_error + enc" where
  "new_function_with_parsed_locals L func =
     (case get_locals_reader func of
        Inl e \<Rightarrow> Inl (ParseError e)
      | Inr reader \<Rightarrow> bind_res (parse_locals (locals_into_iter reader)) (\<lambda>locals. Inr (function_new L locals)))"

definition parse_instruction :: "binary_reader \<Rightarrow> reencode_error + instruction \<times> binary_reader" where
  "parse_instruction reader =
     (case read_operator reader of
        Inl e \<Rightarrow> Inl (ParseError e)
      | Inr (op, reader) \<Rightarrow> bind_res (re_instruction op) (\<lambda>i. Inr (i, reader)))"

lemma parse_instruction_decreases:
  "\<not> eof r \<Longrightarrow> parse_instruction r = Inr (i, r') \<Longrightarrow> bytes_remaining r' < bytes_remaining r"
  by (auto simp: parse_instruction_def bind_res_Inr_iff bytes_remaining_decreases split: sum.splits)

text \<open>The loop of \<open>parse_function_body\<close>; \<open>f\<close> holds the bytes of the function so far.\<close>

function parse_instructions :: "leb128 \<Rightarrow> u8 list \<Rightarrow> binary_reader \<Rightarrow> reencode_error + enc" where
  "parse_instructions L f reader =
     (if eof reader then Inr (Some f)
      else case parse_instruction reader of
          Inl e \<Rightarrow> Inl e
        | Inr (i, reader') \<Rightarrow>
            (case function_instruction L f i of
               None \<Rightarrow> Inr None
             | Some f' \<Rightarrow> parse_instructions L f' reader'))"
  by pat_completeness auto
termination
  by (relation "measure (\<lambda>(_, _, r). bytes_remaining r)") (auto dest: parse_instruction_decreases)

declare parse_locals.simps [simp del] parse_instructions.simps [simp del]

definition parse_function_body :: "leb128 \<Rightarrow> enc_section \<Rightarrow> function_body \<Rightarrow> reencode_error + enc_section option" where
  "parse_function_body L code func = bind_res (new_function_with_parsed_locals L func) (\<lambda>f.
     case f of
       None \<Rightarrow> Inr None
     | Some f \<Rightarrow>
         (case get_operators_reader func of
            Inl e \<Rightarrow> Inl (ParseError e)
          | Inr reader \<Rightarrow> bind_res (parse_instructions L f reader) (\<lambda>f.
              case f of None \<Rightarrow> Inr None | Some f \<Rightarrow> Inr (code_section_function L code f))))"

definition parse_code_section :: "leb128 \<Rightarrow> enc_section \<Rightarrow> section_limited \<Rightarrow> reencode_error + enc_section option" where
  "parse_code_section L code sec = parse_section read_function_body (parse_function_body L) code sec"

section \<open>Bodies in one pass\<close>

text \<open>What the two readers of a body deliver, and the locals as one read.\<close>

definition body_locals :: "function_body \<Rightarrow> (u32 \<times> val_type) list result" where
  "body_locals func =
     (case get_locals_reader func of Inl e \<Rightarrow> Inl e | Inr reader \<Rightarrow> collect_locals (locals_into_iter reader))"

definition body_operators :: "function_body \<Rightarrow> operator list result" where
  "body_operators func =
     (case get_operators_reader func of
        Inl e \<Rightarrow> Inl e
      | Inr reader \<Rightarrow> collect_operators \<lparr>oi_reader = reader, oi_err = False\<rparr>)"

definition read_locals :: "(u32 \<times> val_type) list rd" where
  "read_locals = bind_rd read_var_u32 (\<lambda>count. read_items read_local (unat count))"

lemma collect_locals_read_items:
  "\<not> li_err it \<Longrightarrow> collect_locals it =
     (case read_items read_local (unat (li_left it)) (lr_reader (li_reader it)) of Inl e \<Rightarrow> Inl e | Inr (xs, _) \<Rightarrow> Inr xs)"
proof (induction it rule: collect_locals.induct)
  case (1 it)
  show ?case
  proof (cases "li_left it = 0")
    case True
    then show ?thesis by (simp add: collect_locals.simps locals_next_def return_rd_def)
  next
    case False
    then obtain n where n: "unat (li_left it) = Suc n" by (metis not0_implies_Suc unat_eq_0)
    then have n': "unat (li_left it - 1) = n" using False by (simp add: unat_minus_one)
    show ?thesis
    proof (cases "read_local (lr_reader (li_reader it))")
      case (Inl e)
      then show ?thesis
        using False 1(2) by (simp add: collect_locals.simps [of it] locals_next_def n bind_rd_def)
    next
      case (Inr q)
      then obtain x r where r: "read_local (lr_reader (li_reader it)) = Inr (x, r)" by (cases q) auto
      define it' where "it' = it\<lparr>li_reader := (li_reader it)\<lparr>lr_reader := r\<rparr>, li_left := li_left it - 1\<rparr>"
      have next': "locals_next it = (Some (Inr x), it')" using r False 1(2) by (simp add: locals_next_def it'_def)
      have "collect_locals it' = (case read_items read_local n r of Inl e \<Rightarrow> Inl e | Inr (xs, _) \<Rightarrow> Inr xs)"
        using 1(1) [OF next' [symmetric] refl refl] 1(2) by (simp add: it'_def n')
      then show ?thesis
        by (simp add: collect_locals.simps [of it] next' n bind_rd_def r return_rd_def split: sum.split)
    qed
  qed
qed

lemma read_items_discard:
  "bind_rd (read_items (bind_rd m (\<lambda>_. return_rd ())) n) (\<lambda>_. return_rd ()) = bind_rd (read_items m n) (\<lambda>_. return_rd ())"
proof (induction n)
  case (Suc n)
  have "bind_rd (read_items (bind_rd m (\<lambda>_. return_rd ())) (Suc n)) (\<lambda>_. return_rd ())
      = bind_rd m (\<lambda>_. bind_rd (read_items (bind_rd m (\<lambda>_. return_rd ())) n) (\<lambda>_. return_rd ()))"
    by (simp add: bind_assoc)
  then show ?case by (simp add: Suc bind_assoc)
qed simp

lemma skip_locals_read_locals: "skip_locals = bind_rd read_locals (\<lambda>_. return_rd ())"
proof -
  have "bind_rd read_var_u32 (\<lambda>_. bind_rd read_val_type (\<lambda>_. return_rd ())) = bind_rd read_local (\<lambda>_. return_rd ())"
    by (simp add: read_local_def bind_assoc)
  then show ?thesis by (simp add: skip_locals_def read_locals_def bind_assoc read_items_discard)
qed

lemma body_locals_read:
  "body_locals func = (case read_locals (fb_reader func) of Inl e \<Rightarrow> Inl e | Inr (ls, _) \<Rightarrow> Inr ls)"
  by (simp add: body_locals_def get_locals_reader_def read_locals_def bind_rd_def locals_into_iter_def
      collect_locals_read_items split: sum.split)

lemma body_operators_read:
  "body_operators func = (case read_locals (fb_reader func) of
      Inl e \<Rightarrow> Inl e | Inr (_, reader) \<Rightarrow> collect_operators \<lparr>oi_reader = reader, oi_err = False\<rparr>)"
  by (simp add: body_operators_def get_operators_reader_def skip_locals_read_locals bind_rd_def return_rd_def split: sum.split)

section \<open>Round trip of a body\<close>

lemma returns_local: "returns fs read_local (\<lambda>(_, ty). val_type_readable ty)"
  unfolding read_local_def by (rule returns_bind [OF returns_u32], rule returns_bind [OF returns_val_type], rule returns_return) simp

lemma returns_locals: "returns fs read_locals (\<lambda>ls. length ls < 2 ^ 32 \<and> list_all (\<lambda>(_, ty). val_type_readable ty) ls)"
  unfolding read_locals_def
proof (rule returns_bind [OF returns_u32], rule returns_mono [OF returns_items [OF returns_local]])
  fix count :: u32 and ls :: "(u32 \<times> val_type) list"
  have "unat count < 2 ^ LENGTH(32)" by (rule unsigned_less)
  then show "length ls = unat count \<and> list_all (\<lambda>(_, ty). val_type_readable ty) ls \<Longrightarrow>
      length ls < 2 ^ 32 \<and> list_all (\<lambda>(_, ty). val_type_readable ty) ls" by simp
qed

lemma parse_locals_collect:
  "collect_locals it = Inr ls \<Longrightarrow>
     parse_locals it = collect_res (\<lambda>(cnt, ty). bind_res (re_val_type ty) (\<lambda>ty. Inr (cnt, ty))) ls"
proof (induction it arbitrary: ls rule: collect_locals.induct)
  case (1 it)
  then show ?case
    by (auto simp: collect_locals.simps [of it] parse_locals.simps [of it] bind_res_def split: prod.splits option.splits sum.splits)
qed

lemma reads_back_locals:
  assumes "leb128_ok L" "length ls < 2 ^ 32" "list_all2 (\<lambda>(c, e) (c', ty). c = c' \<and> val_type_readable ty \<and> re_val_type ty = Inr e) es ls"
  shows "reads_back fs read_locals (function_new L es) ls"
proof -
  let ?e = "\<lambda>(count, ty). encs [encode_u32 L count, encode_val_type L ty]"
  have "reads_back fs (read_items read_local (length es)) (encs (map ?e es)) ls"
  proof (rule reads_back_items, rule list_all2_mono [OF assms(3)])
    fix z :: "u32 \<times> enc_val_type" and x :: "u32 \<times> val_type"
    assume "(case z of (c, e) \<Rightarrow> \<lambda>(c', ty). c = c' \<and> val_type_readable ty \<and> re_val_type ty = Inr e) x"
    then show "reads_back fs read_local (?e z) x"
      unfolding read_local_def
      by (auto intro!: reads_back_bind [OF reads_back_u32 [OF assms(1)]] reads_back_bind [OF reads_back_val_type [OF assms(1)]]
          reads_back_return simp del: encs_single split: prod.splits)
  qed
  moreover have len: "length es = length ls" using assms(3) by (rule list_all2_lengthD)
  moreover have "unat (of_nat (length ls) :: u32) = length ls" using assms(2) by (simp add: unat_of_nat)
  moreover have "encode_usize L (length es) = encode_u32 L (of_nat (length ls))"
    using assms(2) len by (simp add: encode_usize_def assert_enc_def)
  ultimately show ?thesis
    unfolding read_locals_def function_new_def
    using reads_back_bind [OF reads_back_u32 [OF assms(1)], where es = "[encs (map ?e es)]" and f = "\<lambda>count. read_items read_local (unat count)"]
    by simp
qed

lemma collect_operators_eof: "eof r \<Longrightarrow> collect_operators \<lparr>oi_reader = r, oi_err = False\<rparr> = Inr []"
  by (simp add: collect_operators.simps operators_next_def)

lemma collect_operators_step:
  "\<not> eof r \<Longrightarrow> collect_operators \<lparr>oi_reader = r, oi_err = False\<rparr> =
     (case read_operator r of
        Inl e \<Rightarrow> Inl e
      | Inr (op, r') \<Rightarrow> (case collect_operators \<lparr>oi_reader = r', oi_err = False\<rparr> of Inl e \<Rightarrow> Inl e | Inr ops \<Rightarrow> Inr (op # ops)))"
  by (subst collect_operators.simps) (simp add: operators_next_def split: sum.splits prod.splits)

text \<open>The bytes that the loop appends are read as the operators it has read.\<close>

lemma instructions_round_trip:
  assumes "leb128_ok L" "collect_operators \<lparr>oi_reader = r, oi_err = False\<rparr> = Inr ops"
  shows "\<exists>bs. (\<forall>f. parse_instructions L f r = Inr (Some (f @ bs))) \<and>
    (\<forall>r2. rd_wf r2 \<and> features r2 = features r \<and> remaining_buffer r2 = bs \<longrightarrow>
      (\<exists>ops2. collect_operators \<lparr>oi_reader = r2, oi_err = False\<rparr> = Inr ops2 \<and> map op_view ops2 = map op_view ops))"
  using assms(2)
proof (induction ops arbitrary: r)
  case Nil
  then have "eof r" by (cases "eof r") (auto simp: collect_operators_step split: sum.splits prod.splits)
  then show ?case
    by (intro exI [of _ "[]"]) (simp add: parse_instructions.simps collect_operators_eof remaining_buffer_def eof_def)
next
  case (Cons op ops)
  then have ne: "\<not> eof r" by (auto simp: collect_operators_eof)
  with Cons.prems obtain r' where op: "read_operator r = Inr (op, r')"
    and ops: "collect_operators \<lparr>oi_reader = r', oi_err = False\<rparr> = Inr ops"
    by (auto simp: collect_operators_step split: sum.splits)
  from re_operator.round_trip [OF assms(1) op] obtain i b where i: "re_instruction op = Inr i" "encode_instruction L i = Some b"
    and b: "\<And>r2 rest. rd_wf r2 \<and> features r2 = features r \<and> remaining_buffer r2 = b @ rest \<Longrightarrow>
      \<exists>op2. read_operator r2 = Inr (op2, advance (length b) r2) \<and> op_view op2 = op_view op"
    by blast
  have fs: "features r' = features r" using returns_features [OF returns_operator refl op] .
  from Cons.IH [OF ops] obtain bs where bs: "\<And>f. parse_instructions L f r' = Inr (Some (f @ bs))"
    and again: "\<And>r2. rd_wf r2 \<and> features r2 = features r' \<and> remaining_buffer r2 = bs \<Longrightarrow>
      \<exists>ops2. collect_operators \<lparr>oi_reader = r2, oi_err = False\<rparr> = Inr ops2 \<and> map op_view ops2 = map op_view ops"
    by blast
  have "parse_instructions L f r = Inr (Some (f @ b @ bs))" for f
    using ne op i bs by (subst parse_instructions.simps) (simp add: parse_instruction_def bind_res_def function_instruction_def encs.simps)
  moreover have "\<exists>ops2. collect_operators \<lparr>oi_reader = r2, oi_err = False\<rparr> = Inr ops2 \<and> map op_view ops2 = map op_view (op # ops)"
    if r2: "rd_wf r2" "features r2 = features r" "remaining_buffer r2 = b @ bs" for r2
  proof -
    from b r2 obtain op2 where op2: "read_operator r2 = Inr (op2, advance (length b) r2)" "op_view op2 = op_view op" by blast
    have "\<not> eof r2"
      using read_operator_progress [OF r2(1) op2(1)] r2(3) by (auto simp: eof_def remaining_buffer_def)
    moreover have "rd_wf (advance (length b) r2)" "remaining_buffer (advance (length b) r2) = bs"
      using r2 by (auto intro: rd_wf_advance simp: remaining_advance)
    ultimately show ?thesis
      using again [of "advance (length b) r2"] r2(2) fs op2 by (auto simp: collect_operators_step)
  qed
  ultimately show ?case by (intro exI [of _ "b @ bs"]) auto
qed

lemma re_locals_total:
  assumes "list_all (\<lambda>(_, ty). val_type_readable ty) ls"
  obtains es where "collect_res (\<lambda>(cnt, ty). bind_res (re_val_type ty) (\<lambda>ty. Inr (cnt, ty))) ls = Inr es"
    "list_all2 (\<lambda>(c, e) (c', ty). c = c' \<and> val_type_readable ty \<and> re_val_type ty = Inr e) es ls"
  using assms
proof (induction ls arbitrary: thesis)
  case (Cons l ls)
  obtain c ty where l: "l = (c, ty)" by (cases l)
  with Cons.prems(2) obtain e where e: "re_val_type ty = Inr e" using re_val_type_total by auto
  from Cons.IH Cons.prems(2) obtain es where
    "collect_res (\<lambda>(cnt, ty). bind_res (re_val_type ty) (\<lambda>ty. Inr (cnt, ty))) ls = Inr es"
    "list_all2 (\<lambda>(c, e) (c', ty). c = c' \<and> val_type_readable ty \<and> re_val_type ty = Inr e) es ls" by auto
  with e l Cons.prems show ?case by (intro Cons.prems(1) [of "(c, e) # es"]) (simp_all add: bind_res_def)
qed simp

lemma body_round_trip:
  assumes L: "leb128_ok L" and ls: "body_locals func = Inr ls" and ops: "body_operators func = Inr ops"
  shows "\<exists>f. (\<forall>code. parse_function_body L code func = Inr (code_section_function L code f)) \<and>
    (\<forall>r2. rd_wf r2 \<and> features r2 = features (fb_reader func) \<and> remaining_buffer r2 = f \<longrightarrow>
      body_locals \<lparr>fb_reader = r2\<rparr> = Inr ls \<and>
      (\<exists>ops2. body_operators \<lparr>fb_reader = r2\<rparr> = Inr ops2 \<and> map op_view ops2 = map op_view ops))"
proof -
  from ls obtain r where r: "read_locals (fb_reader func) = Inr (ls, r)"
    by (auto simp: body_locals_read split: sum.splits)
  have c: "collect_operators \<lparr>oi_reader = r, oi_err = False\<rparr> = Inr ops"
    using ops by (simp add: body_operators_read r)
  have ok: "length ls < 2 ^ 32" "list_all (\<lambda>(_, ty). val_type_readable ty) ls" "features r = features (fb_reader func)"
    using returnsD [OF returns_locals refl r] returns_features [OF returns_locals refl r] by auto
  from re_locals_total [OF ok(2)] obtain es where
    es: "collect_res (\<lambda>(cnt, ty). bind_res (re_val_type ty) (\<lambda>ty. Inr (cnt, ty))) ls = Inr es"
      "list_all2 (\<lambda>(c, e) (c', ty). c = c' \<and> val_type_readable ty \<and> re_val_type ty = Inr e) es ls" .
  have "no_panic (function_new L es)"
    using list_all2_lengthD [OF es(2)] ok(1) by (auto simp: function_new_def list_all_iff)
  then obtain f0 where f0: "function_new L es = Some f0" by (auto simp: no_panic_def)
  from instructions_round_trip [OF L c] obtain bs where bs: "\<And>f. parse_instructions L f r = Inr (Some (f @ bs))"
    and again: "\<And>r2. rd_wf r2 \<and> features r2 = features r \<and> remaining_buffer r2 = bs \<Longrightarrow>
      \<exists>ops2. collect_operators \<lparr>oi_reader = r2, oi_err = False\<rparr> = Inr ops2 \<and> map op_view ops2 = map op_view ops"
    by blast
  have "new_function_with_parsed_locals L func = Inr (Some f0)"
    using ls es(1) f0 by (auto simp: new_function_with_parsed_locals_def body_locals_def parse_locals_collect bind_res_def split: sum.splits)
  moreover have "get_operators_reader func = Inr r"
    by (simp add: get_operators_reader_def skip_locals_read_locals bind_rd_def r return_rd_def)
  ultimately have "parse_function_body L code func = Inr (code_section_function L code (f0 @ bs))" for code
    by (simp add: parse_function_body_def bind_res_def bs)
  moreover have "body_locals \<lparr>fb_reader = r2\<rparr> = Inr ls \<and>
      (\<exists>ops2. body_operators \<lparr>fb_reader = r2\<rparr> = Inr ops2 \<and> map op_view ops2 = map op_view ops)"
    if r2: "rd_wf r2" "features r2 = features (fb_reader func)" "remaining_buffer r2 = f0 @ bs" for r2
  proof -
    have "read_locals r2 = Inr (ls, advance (length f0) r2)"
      using decodesD [OF reads_backD [OF reads_back_locals [OF L ok(1) es(2)] f0] r2(1) refl r2(3)] .
    moreover have "rd_wf (advance (length f0) r2)" "remaining_buffer (advance (length f0) r2) = bs"
      using r2 by (auto intro: rd_wf_advance simp: remaining_advance)
    ultimately show ?thesis using again [of "advance (length f0) r2"] r2(2) ok(3) by (simp add: body_locals_read body_operators_read)
  qed
  ultimately show ?thesis by (intro exI [of _ "f0 @ bs"]) blast
qed

text \<open>Conversely, a body that was re-encoded has been read without an error.\<close>

lemma parse_locals_read: "parse_locals it = Inr es \<Longrightarrow> \<exists>ls. collect_locals it = Inr ls"
proof (induction it arbitrary: es rule: parse_locals.induct)
  case (1 it)
  then show ?case
    by (fastforce simp: collect_locals.simps [of it] parse_locals.simps [of it] split: prod.splits option.splits sum.splits)
qed

lemma parse_instructions_read:
  "parse_instructions L f r = Inr (Some f') \<Longrightarrow> \<exists>ops. collect_operators \<lparr>oi_reader = r, oi_err = False\<rparr> = Inr ops"
proof (induction L f r rule: parse_instructions.induct)
  case (1 L f r)
  show ?case
  proof (cases "eof r")
    case False
    with 1 show ?thesis
      by (subst (asm) parse_instructions.simps)
        (fastforce simp: collect_operators_step parse_instruction_def bind_res_def split: sum.splits option.splits prod.splits)
  qed (simp add: collect_operators_eof)
qed

lemma parse_function_body_read:
  assumes "parse_function_body L code func = Inr (Some code')"
  shows "\<exists>ls ops. body_locals func = Inr ls \<and> body_operators func = Inr ops"
  using assms
  by (auto simp: parse_function_body_def new_function_with_parsed_locals_def body_locals_def body_operators_def bind_res_def
      split: sum.splits option.splits dest: parse_locals_read parse_instructions_read)

section \<open>Run lengths of locals\<close>















end
