(* ===== verification/Section_Round_Trip.thy ===== *)
theory Section_Round_Trip
  imports Function_Bodies
begin

text \<open>
  The type section and the code section: what reencode.rs copies from a section that wasmparser has
  read, wasmparser reads again from the encoded bytes.
\<close>

section \<open>The type section\<close>

definition parse_type_section :: "leb128 \<Rightarrow> enc_section \<Rightarrow> section_limited \<Rightarrow> reencode_error + enc_section option" where
  "parse_type_section L types sec = parse_section read_rec_group (add_item (parse_recursive_type_group L)) types sec"

section \<open>The code section\<close>

definition body_view ::
  "function_body \<Rightarrow> (u32 \<times> val_type) list result \<times> (operator + u32 list result \<times> u32) list result" where
  "body_view func = (body_locals func, map_sum id (map op_view) (body_operators func))"

definition body_bytes :: "leb128 \<Rightarrow> function_body \<Rightarrow> reencode_error + enc" where
  "body_bytes L func = bind_res (parse_function_body L enc_section_new func) (\<lambda>s. Inr (map_option es_bytes s))"

lemma parse_function_body_add_item: "parse_function_body L s func = add_item (body_bytes L) s func"
  by (simp add: parse_function_body_def body_bytes_def add_item_def bind_res_def code_section_function_def
      enc_section_add_def enc_section_new_def split: sum.split option.split)

lemma reads_back_reader:
  assumes "leb128_ok L" "encode_bytes L bs = Some cs"
    and "\<And>off. decodes fs (f \<lparr>buffer = bs, position = 0, original_offset = off, features = fs\<rparr>) [] x"
  shows "decodes fs (bind_rd read_reader f) cs x"
proof -
  have "no_panic (encode_bytes L bs)" using assms(2) by (simp add: no_panic_def)
  then have len: "length bs < 2 ^ 32" by (simp add: encode_bytes_def)
  then have cs: "encs [encode_u32 L (of_nat (length bs)), extend_sink bs] = Some cs"
    using assms(2) by (simp add: encode_bytes_def encode_usize_def assert_enc_def encs_assoc)
  have n: "unat (of_nat (length bs) :: u32) = length bs" using len by (simp add: unat_of_nat)
  have "reads_back fs (bind_rd read_reader f) (encs [encode_u32 L (of_nat (length bs)), extend_sink bs]) x"
    unfolding read_reader_def bind_assoc
    by (rule reads_back_bind [OF reads_back_u32 [OF assms(1)]], rule reads_back_skip)
      (auto simp: n reads_back_extend extend_sink_def reads_back_def assms(3) intro: decodes_read_bytes)
  then show ?thesis using cs by (rule reads_backD)
qed

interpretation code_item: section_item read_function_body "\<lambda>fs func. features (fb_reader func) = fs" body_bytes body_view
proof
  fix L fs func bs
  assume L: "leb128_ok L" and fs: "features (fb_reader func) = fs" and bs: "body_bytes L func = Inr (Some bs)"
  from bs obtain s where s: "parse_function_body L enc_section_new func = Inr (Some s)" "es_bytes s = bs"
    by (auto simp: body_bytes_def bind_res_Inr_iff)
  from parse_function_body_read [OF s(1)] obtain ls ops where v: "body_locals func = Inr ls" "body_operators func = Inr ops"
    by blast
  from body_round_trip [OF L v] obtain f where
    f: "parse_function_body L enc_section_new func = Inr (code_section_function L enc_section_new f)"
    and again: "\<And>r2. rd_wf r2 \<and> features r2 = features (fb_reader func) \<and> remaining_buffer r2 = f \<Longrightarrow>
      body_locals \<lparr>fb_reader = r2\<rparr> = Inr ls \<and>
      (\<exists>ops2. body_operators \<lparr>fb_reader = r2\<rparr> = Inr ops2 \<and> map op_view ops2 = map op_view ops)"
    by blast
  have "encode_bytes L f = Some bs"
    using f s by (auto simp: code_section_function_def enc_section_add_def enc_section_new_def split: option.splits)
  then show "decodes fs (bind_rd read_function_body (\<lambda>x. return_rd (body_view x))) bs (body_view func)"
    unfolding read_function_body_def bind_assoc
  proof (rule reads_back_reader [OF L])
    fix off
    let ?r = "\<lparr>buffer = f, position = 0, original_offset = off, features = fs\<rparr>"
    have "rd_wf ?r \<and> features ?r = features (fb_reader func) \<and> remaining_buffer ?r = f"
      using fs by (simp add: rd_wf_def remaining_buffer_def)
    then have "body_view \<lparr>fb_reader = ?r\<rparr> = body_view func" using again v by (fastforce simp: body_view_def)
    then show "decodes fs (bind_rd (return_rd \<lparr>fb_reader = ?r\<rparr>) (\<lambda>x. return_rd (body_view x))) [] (body_view func)"
      by (simp add: decodes_return)
  qed
qed

section \<open>Properties\<close>

lemma items_features:
  assumes "section_items read_function_body sec = Inr bodies"
  shows "list_all (\<lambda>func. features (fb_reader func) = features (sl_reader sec)) bodies"
proof -
  have "returns fs read_reader (\<lambda>reader. features reader = fs)" for fs
    unfolding read_reader_def
    by (rule returns_bind [OF returns_u32], rule returnsI)
      (auto simp: skip_def bind_rd_def return_rd_def read_bytes_def ensure_has_bytes_def split: sum.splits if_splits)
  then have "returns fs read_function_body (\<lambda>func. features (fb_reader func) = fs)" for fs
    unfolding read_function_body_def by (rule returns_bind) (simp add: returns_return)
  from returnsD [OF returns_items [OF this] refl, of "unat (sl_count sec)" "sl_reader sec"] assms
  show ?thesis
    by (auto simp: section_items_def section_into_iter_def collect_section_read_items split: sum.splits if_splits)
qed

lemma items_readable:
  assumes "section_items read_rec_group sec = Inr gs"
  shows "list_all rec_group_readable gs"
  using returnsD [OF returns_items [OF returns_rec_group] refl, of "unat (sl_count sec)" "sl_reader sec"] assms
  by (auto simp: section_items_def section_into_iter_def collect_section_read_items split: sum.splits if_splits)

text \<open>A code section with the body \<open>i32.const 7; end\<close>.\<close>

definition example_code :: section_limited where
  "example_code = \<lparr>sl_reader = reader_new [4, 0, 0x41, 7, 0x0b] 0, sl_count = 1\<rparr>"

lemmas eval_simps = bind_rd_def reader_new_def read_u8_def return_rd_def advance_def with_pos_def original_position_def
  read_var_u32_def read_var_i32_def eof_def ensure_has_bytes_def read_bytes_def skip_def

abbreviation example_body :: "nat \<Rightarrow> binary_reader" where
  "example_body p \<equiv> \<lparr>buffer = [0, 0x41, 7, 0x0b], position = p, original_offset = 1, features = features_all\<rparr>"

lemma example_code_items: "section_items read_function_body example_code = Inr [\<lparr>fb_reader = example_body 0\<rparr>]"
  by (simp add: section_items_def example_code_def section_into_iter_def collect_section.simps section_next_def
      read_function_body_def read_reader_def eval_simps)

lemma reference_numbers:
  "write_unsigned leb128_reference 0 = [0]" "write_unsigned leb128_reference 4 = [4]" "write_signed leb128_reference 7 = [7]"
  "write_unsigned leb128_reference 1 = [1]" "write_unsigned leb128_reference 6 = [6]"
  by (simp_all add: leb128_reference_def uleb_encode.simps sleb_encode.simps)

lemma example_parsed:
  "function_new leb128_reference [] = Some [0]"
  "get_locals_reader \<lparr>fb_reader = example_body 0\<rparr> = Inr \<lparr>lr_reader = example_body 1, lr_count = 0\<rparr>"
  "get_operators_reader \<lparr>fb_reader = example_body 0\<rparr> = Inr (example_body 1)"
  "read_operator (example_body 1) = Inr (Control (I32Const 7), example_body 3)"
  "read_operator (example_body 3) = Inr (Control End, example_body 4)"
  "parse_instruction (example_body 1) = Inr (Control (I32Const 7), example_body 3)"
  "parse_instruction (example_body 3) = Inr (Control End, example_body 4)"
  "function_instruction leb128_reference [0] (Control (I32Const 7)) = Some [0, 0x41, 7]"
  "function_instruction leb128_reference [0, 0x41, 7] (Control End) = Some [0, 0x41, 7, 0x0b]"
  by (simp_all add: function_new_def encode_usize_def encode_u32_def encode_i32_def extend_sink_def assert_enc_def reference_numbers encs.simps push_def
      get_locals_reader_def get_operators_reader_def skip_locals_def parse_instruction_def visit_operator_def visit_code_def
      bind_res_def function_instruction_def eval_simps)

lemma example_code_parsed:
  "parse_code_section leb128_reference enc_section_new example_code =
     Inr (Some \<lparr>es_bytes = [4, 0, 0x41, 7, 0x0b], es_num_added = 1\<rparr>)"
proof -
  have "parse_instructions leb128_reference [0] (example_body 1) = Inr (Some [0, 0x41, 7, 0x0b])"
    by (simp add: parse_instructions.simps example_parsed eof_def del: One_nat_def)
  moreover have "parse_locals (locals_into_iter \<lparr>lr_reader = example_body 1, lr_count = 0\<rparr>) = Inr []"
    by (simp add: parse_locals.simps locals_into_iter_def locals_next_def)
  ultimately have "parse_function_body leb128_reference enc_section_new \<lparr>fb_reader = example_body 0\<rparr> =
      Inr (Some \<lparr>es_bytes = [4, 0, 0x41, 7, 0x0b], es_num_added = 1\<rparr>)"
    by (simp add: parse_function_body_def new_function_with_parsed_locals_def example_parsed bind_res_def
        code_section_function_def enc_section_add_def enc_section_new_def encode_bytes_def encode_usize_def encode_u32_def
        assert_enc_def extend_sink_def encs.simps reference_numbers del: One_nat_def)
  then show ?thesis using example_code_items by (auto simp: parse_code_section_def parse_section_iff)
qed

lemma example_code_encoded:
  "enc_section_encode leb128_reference \<lparr>es_bytes = [4, 0, 0x41, 7, 0x0b], es_num_added = 1\<rparr> = Some [6, 1, 4, 0, 0x41, 7, 0x0b]"
  by (simp add: enc_section_encode_def encode_section_def encoding_size_def encode_usize_def encode_u32_def assert_enc_def
      extend_sink_def encs.simps reference_numbers)

text \<open>
  C3. Round trip of the code section: if \<open>parse_code_section\<close> copies a code section into a builder, then
  every body of the section was read without an error; and if the builder is encoded, reading the bytes gives
  a code section with as many bodies, which have the same locals and the same operators, in order.
\<close>

theorem code_section_round_trip:
  assumes "leb128_ok L" "parse_code_section L enc_section_new sec = Inr (Some s)" "enc_section_encode L s = Some bs"
    and "rd_wf r" "features r = features (sl_reader sec)" "remaining_buffer r = bs @ rest"
  shows "\<exists>bodies payload sec2 bodies2. section_items read_function_body sec = Inr bodies \<and>
    list_all (\<lambda>func. \<exists>ls ops. body_locals func = Inr ls \<and> body_operators func = Inr ops) bodies \<and>
    read_reader r = Inr (payload, advance (length bs) r) \<and> section_limited_new payload = Inr sec2 \<and>
    section_items read_function_body sec2 = Inr bodies2 \<and> map body_view bodies2 = map body_view bodies"
proof -
  from assms(2) obtain bodies where bodies: "section_items read_function_body sec = Inr bodies"
    and s: "steps (add_item (body_bytes L)) enc_section_new bodies = Inr (Some s)"
    by (auto simp: parse_code_section_def parse_section_iff parse_function_body_add_item [abs_def])
  have "list_all (\<lambda>func. features (fb_reader func) = features r) bodies"
    using items_features [OF bodies] assms(5) by simp
  note rt = code_item.section_round_trip [OF assms(1) bodies this s assms(3,4,6)]
  have "\<exists>ls ops. body_locals func = Inr ls \<and> body_operators func = Inr ops" if "func \<in> set bodies" for func
  proof -
    from s that obtain b where "body_bytes L func = Inr (Some b)"
      by (auto simp: steps_add_item list_all2_conv_all_nth in_set_conv_nth)
    then show ?thesis by (auto simp: body_bytes_def bind_res_Inr_iff dest: parse_function_body_read)
  qed
  with rt bodies show ?thesis by (auto simp: list_all_iff)
qed

theorem code_section_round_trip_witness:
  "leb128_ok leb128_reference
   \<and> parse_code_section leb128_reference enc_section_new example_code =
       Inr (Some \<lparr>es_bytes = [4, 0, 0x41, 7, 0x0b], es_num_added = 1\<rparr>)
   \<and> (\<exists>payload sec2 bodies2. read_reader (reader_new [6, 1, 4, 0, 0x41, 7, 0x0b] 9) =
        Inr (payload, advance 7 (reader_new [6, 1, 4, 0, 0x41, 7, 0x0b] 9))
      \<and> section_limited_new payload = Inr sec2 \<and> section_items read_function_body sec2 = Inr bodies2
      \<and> map body_view bodies2 = [body_view \<lparr>fb_reader = example_body 0\<rparr>])"
  using code_section_round_trip [OF leb128_reference_ok example_code_parsed example_code_encoded,
      of "reader_new [6, 1, 4, 0, 0x41, 7, 0x0b] 9" "[]"] leb128_reference_ok example_code_parsed example_code_items
  by (simp add: rd_wf_def reader_new_def remaining_buffer_def example_code_def numeral_eq_Suc)

text \<open>
  C4. Round trip of function bodies: if the locals and the operators of a body are read without an error, then
  \<open>parse_function_body\<close> adds a body to the builder without an error (it panics only if the new body is
  longer than a \<open>u32\<close> can say), and a reader of the new body gets the same locals and operators.
\<close>

theorem function_body_round_trip:
  assumes "leb128_ok L" "body_locals func = Inr ls" "body_operators func = Inr ops"
  shows "\<exists>f. (\<forall>s. parse_function_body L s func = Inr (code_section_function L s f)) \<and>
    (\<forall>s. code_section_function L s f = None \<longleftrightarrow> length f \<ge> 2 ^ 32) \<and>
    (\<forall>r2. rd_wf r2 \<and> features r2 = features (fb_reader func) \<and> remaining_buffer r2 = f \<longrightarrow>
      body_locals \<lparr>fb_reader = r2\<rparr> = Inr ls \<and>
      (\<exists>ops2. body_operators \<lparr>fb_reader = r2\<rparr> = Inr ops2 \<and> map op_view ops2 = map op_view ops))"
proof -
  have "code_section_function L s f = None \<longleftrightarrow> \<not> no_panic (encode_bytes L f)" for s f
    by (simp add: code_section_function_def enc_section_add_def no_panic_def split: option.split)
  then have "code_section_function L s f = None \<longleftrightarrow> length f \<ge> 2 ^ 32" for s f
    by (simp add: encode_bytes_def not_less)
  then show ?thesis using body_round_trip [OF assms] by blast
qed

lemma example_read:
  "body_locals \<lparr>fb_reader = example_body 0\<rparr> = Inr []"
  "body_operators \<lparr>fb_reader = example_body 0\<rparr> = Inr [Control (I32Const 7), Control End]"
  by (simp_all add: body_locals_def body_operators_def example_parsed locals_into_iter_def collect_locals.simps locals_next_def
      collect_operators_step collect_operators_eof eof_def del: One_nat_def)

theorem function_body_round_trip_witness:
  "body_locals \<lparr>fb_reader = example_body 0\<rparr> = Inr []
   \<and> body_operators \<lparr>fb_reader = example_body 0\<rparr> = Inr [Control (I32Const 7), Control End]
   \<and> (\<exists>f. (\<forall>s. parse_function_body leb128_reference s \<lparr>fb_reader = example_body 0\<rparr> = Inr (code_section_function leb128_reference s f)))"
  using function_body_round_trip [OF leb128_reference_ok example_read] example_read by blast

text \<open>
  C5. Round trip of the type section: copying a type section that wasmparser has read never fails or panics;
  encoded and read again, it has as many recursion groups, of the same kinds and with the same types, in
  order.
\<close>

theorem type_section_round_trip:
  assumes "leb128_ok L" "section_items read_rec_group sec = Inr gs"
  shows "\<exists>s. parse_type_section L enc_section_new sec = Inr (Some s) \<and>
    (\<forall>bs r rest. enc_section_encode L s = Some bs \<and> rd_wf r \<and> features r = features (sl_reader sec)
        \<and> remaining_buffer r = bs @ rest \<longrightarrow>
      (\<exists>payload sec2 gs2. read_reader r = Inr (payload, advance (length bs) r) \<and>
        section_limited_new payload = Inr sec2 \<and> section_items read_rec_group sec2 = Inr gs2 \<and>
        list_all2 (\<lambda>g2 g. is_explicit_rec_group g2 = is_explicit_rec_group g \<and> rec_group_eq g2 g) gs2 gs))"
proof -
  have eq: "parse_recursive_type_group L = (\<lambda>g. bind_res (re_rec_group g) (\<lambda>y. Inr (encode_rec_group L y)))"
    by (rule ext) (simp add: parse_recursive_type_group_alt bind_res_def split: sum.split)
  have ok: "list_all rec_group_readable gs" by (rule items_readable [OF assms(2)])
  have "\<exists>bs. parse_recursive_type_group L g = Inr (Some bs)" if "g \<in> set gs" for g
    using that ok re_rec_group.re_total [of g] re_rec_group.enc_total [of g]
    by (auto simp: eq list_all_iff no_panic_def bind_res_def)
  then obtain bss where bss: "list_all2 (\<lambda>g bs. parse_recursive_type_group L g = Inr (Some bs)) gs bss"
    using list_all2_choice [of gs "\<lambda>g bs. parse_recursive_type_group L g = Inr (Some bs)"] by blast
  define s where "s = \<lparr>es_bytes = concat bss, es_num_added = (of_nat (length gs) :: u32)\<rparr>"
  have steps: "steps (add_item (parse_recursive_type_group L)) enc_section_new gs = Inr (Some s)"
    using bss by (auto simp: steps_add_item s_def enc_section_new_def)
  have "parse_type_section L enc_section_new sec = Inr (Some s)"
    using assms(2) steps by (auto simp: parse_type_section_def parse_section_iff)
  moreover have "list_all2 (\<lambda>g2 g. is_explicit_rec_group g2 = is_explicit_rec_group g \<and> rec_group_eq g2 g) gs2 gs"
    if "map rec_group_view gs2 = map rec_group_view gs" for gs2
  proof (rule list_all2_mono)
    show "list_all2 (\<lambda>g2 g. rec_group_view g2 = rec_group_view g) gs2 gs"
      using that by (simp add: list_all2_map1 list_all2_map2 list.rel_eq flip: list.rel_eq)
  qed (simp add: rec_group_view_def rec_group_eq_def list_all_length)
  moreover note re_rec_group.item.section_round_trip [OF assms(1,2) ok steps [unfolded eq]]
  ultimately show ?thesis by blast
qed

lemma example_types:
  "section_items read_rec_group \<lparr>sl_reader = reader_new [0x60, 0, 0] 0, sl_count = 1\<rparr> =
     Inr [Implicit (0, sub_type_func (func_type_new [] []) False)]"
  by (simp add: section_items_def section_into_iter_def collect_section.simps section_next_def read_func_group)
    (simp add: eof_def reader_new_def)

theorem type_section_round_trip_witness:
  "leb128_ok leb128_reference
   \<and> section_items read_rec_group \<lparr>sl_reader = reader_new [0x60, 0, 0] 0, sl_count = 1\<rparr> =
       Inr [Implicit (0, sub_type_func (func_type_new [] []) False)]
   \<and> (\<exists>s. parse_type_section leb128_reference enc_section_new \<lparr>sl_reader = reader_new [0x60, 0, 0] 0, sl_count = 1\<rparr> =
       Inr (Some s))"
  using leb128_reference_ok example_types type_section_round_trip [OF leb128_reference_ok example_types] by blast

end
