(* ===== verification/Binary_Search.thy ===== *)
theory Binary_Search
  imports Wasm_Prelude
begin

text \<open>
  \<open>slice::binary_search_by_key\<close> of Rust's standard library, which the validator uses to find a
  local variable (\<open>Locals::get_bsearch\<close>) and a snapshot of the type list (\<open>SnapshotList::get\<close>).
  The result \<open>Ok(i)\<close> is \<open>Inr i\<close>, the result \<open>Err(i)\<close> with the point of insertion is \<open>Inl i\<close>.
  The loop keeps a window of the slice that starts at \<open>base\<close> and halves its size.
\<close>

function bsearch_loop :: "('a \<Rightarrow> 'k::linorder) \<Rightarrow> 'k \<Rightarrow> 'a list \<Rightarrow> nat \<Rightarrow> nat \<Rightarrow> nat" where
  "bsearch_loop f k xs base sz =
     (if sz \<le> 1 then base
      else let half = sz div 2; mid = base + half in
        bsearch_loop f k xs (if f (xs ! mid) > k then base else mid) (sz - half))"
  by pat_completeness auto
termination
  by (relation "measure (\<lambda>(_, _, _, _, sz). sz)") auto

declare bsearch_loop.simps [simp del]

definition binary_search_by_key :: "'k::linorder \<Rightarrow> ('a \<Rightarrow> 'k) \<Rightarrow> 'a list \<Rightarrow> nat + nat" where
  "binary_search_by_key k f xs =
     (if xs = [] then Inl 0
      else let base = bsearch_loop f k xs 0 (length xs) in
        if f (xs ! base) = k then Inr base
        else Inl (base + of_bool (f (xs ! base) < k)))"

lemma bsearch_loop_window:
  assumes "sorted_wrt (<) (map f xs)" "1 \<le> sz" "base + sz \<le> length xs"
    and "\<And>j. j < base \<Longrightarrow> f (xs ! j) < k"
    and "\<And>j. base + sz \<le> j \<Longrightarrow> j < length xs \<Longrightarrow> k < f (xs ! j)"
  shows "bsearch_loop f k xs base sz < length xs
    \<and> (\<forall>j < bsearch_loop f k xs base sz. f (xs ! j) < k)
    \<and> (\<forall>j. bsearch_loop f k xs base sz < j \<and> j < length xs \<longrightarrow> k < f (xs ! j))"
  using assms
proof (induction f k xs base sz rule: bsearch_loop.induct)
  case (1 f k xs base sz)
  have mono: "f (xs ! i) < f (xs ! j)" if "i < j" "j < length xs" for i j
    using 1(2) that by (auto simp: sorted_wrt_iff_nth_less)
  show ?case
  proof (cases "sz \<le> 1")
    case True
    with 1(3) have "sz = 1" by simp
    then have "bsearch_loop f k xs base sz = base" by (simp add: bsearch_loop.simps)
    with 1(4,5,6) \<open>sz = 1\<close> show ?thesis by simp
  next
    case False
    define half mid where "half = sz div 2" and "mid = base + half"
    have bounds: "0 < half" "half < sz" "mid < length xs"
      using False 1(4) by (auto simp: half_def mid_def)
    let ?base = "if f (xs ! mid) > k then base else mid"
    have "bsearch_loop f k xs ?base (sz - half) < length xs
      \<and> (\<forall>j < bsearch_loop f k xs ?base (sz - half). f (xs ! j) < k)
      \<and> (\<forall>j. bsearch_loop f k xs ?base (sz - half) < j \<and> j < length xs \<longrightarrow> k < f (xs ! j))"
    proof (rule 1(1) [OF False half_def mid_def 1(2)])
      show "1 \<le> sz - half" "?base + (sz - half) \<le> length xs"
        using bounds 1(4) by (auto simp: mid_def)
      show "f (xs ! j) < k" if "j < ?base" for j
      proof (cases "f (xs ! mid) > k")
        case True
        with that 1(5) show ?thesis by simp
      next
        case False
        with that have "j < mid" by simp
        then have "f (xs ! j) < f (xs ! mid)" using bounds(3) by (rule mono)
        with False show ?thesis by simp
      qed
      show "k < f (xs ! j)" if "?base + (sz - half) \<le> j" "j < length xs" for j
      proof (cases "f (xs ! mid) > k")
        case True
        show ?thesis
        proof (cases "j = mid")
          case False
          have "half + half \<le> sz" by (simp add: half_def)
          with that(1) True have "mid \<le> j" by (simp add: mid_def)
          with False have "mid < j" by simp
          then have "f (xs ! mid) < f (xs ! j)" using that(2) by (rule mono)
          with True show ?thesis by simp
        qed (use True in simp)
      next
        case False
        with that 1(6) [of j] show ?thesis by (simp add: mid_def)
      qed
    qed
    moreover have "bsearch_loop f k xs base sz = bsearch_loop f k xs ?base (sz - half)"
      using False by (subst bsearch_loop.simps) (simp only: Let_def half_def mid_def if_False)
    ultimately show ?thesis by metis
  qed
qed

text \<open>What the search finds in a slice whose keys strictly increase.\<close>

lemma binary_search_by_key_cases:
  assumes "sorted_wrt (<) (map f xs)"
  obtains (found) i where "binary_search_by_key k f xs = Inr i" "i < length xs" "f (xs ! i) = k"
  | (absent) i where "binary_search_by_key k f xs = Inl i" "i \<le> length xs"
      "\<And>j. j < i \<Longrightarrow> f (xs ! j) < k" "\<And>j. i \<le> j \<Longrightarrow> j < length xs \<Longrightarrow> k < f (xs ! j)"
proof (cases "xs = []")
  case True
  show thesis by (rule absent [of 0]) (simp_all add: True binary_search_by_key_def)
next
  case False
  define i where "i = bsearch_loop f k xs 0 (length xs)"
  have i: "i < length xs" "\<And>j. j < i \<Longrightarrow> f (xs ! j) < k"
    "\<And>j. i < j \<Longrightarrow> j < length xs \<Longrightarrow> k < f (xs ! j)"
    using bsearch_loop_window [OF assms, of "length xs" 0 k] False
    by (auto simp: i_def Suc_le_eq)
  have res: "binary_search_by_key k f xs =
      (if f (xs ! i) = k then Inr i else Inl (i + of_bool (f (xs ! i) < k)))"
    using False by (simp add: binary_search_by_key_def i_def [symmetric] Let_def)
  consider "f (xs ! i) = k" | "f (xs ! i) < k" | "k < f (xs ! i)" by (rule linorder_cases) auto
  then show thesis
  proof cases
    case 1
    with res i(1) show thesis by (intro found [of i]) simp_all
  next
    case 2
    with res i show thesis
      by (intro absent [of "Suc i"]) (auto simp: less_Suc_eq Suc_le_eq)
  next
    case 3
    then have "f (xs ! i) \<noteq> k" "\<not> f (xs ! i) < k" by simp_all
    with res have "binary_search_by_key k f xs = Inl i" by simp
    moreover have "k < f (xs ! j)" if "i \<le> j" "j < length xs" for j
      using that 3 i(3) [of j] by (cases "i = j") auto
    ultimately show thesis using i by (intro absent [of i]) auto
  qed
qed

end
