(* ===== verification/Snapshot_List.thy ===== *)
theory Snapshot_List
  imports Binary_Search
begin

text \<open>
  \<open>SnapshotList\<close> of crates/wasmparser/src/validator/types.rs: a growable list kept as chunks, the
  committed ones shared and the last one still growing. It promises to behave as one long \<open>Vec\<close>;
  the list it stands for is \<open>snap_list\<close>, and the results below are the refinement.

  \<open>usize\<close> is a natural number. A panic (an index out of bounds, a subtraction below zero, a failed
  assertion) is the value \<open>None\<close>; so \<open>get\<close>, which itself returns an option, has two levels.
\<close>

section \<open>Operations\<close>

record 'a snapshot =
  prior_types :: usize
  snap_items :: "'a list"

record 'a snapshot_list =
  snapshots :: "'a snapshot list"
  snapshots_total :: usize
  snap_cur :: "'a list"

definition nth_opt :: "'a list \<Rightarrow> nat \<Rightarrow> 'a option" where
  "nth_opt xs i = (if i < length xs then Some (xs ! i) else None)"

text \<open>The bucket of an index: \<open>Ok(i) => i, Err(i) => i - 1\<close>.\<close>

definition snap_bucket :: "'a snapshot_list \<Rightarrow> usize \<Rightarrow> usize option" where
  "snap_bucket sl index =
     (case binary_search_by_key index prior_types (snapshots sl) of
        Inr i \<Rightarrow> Some i
      | Inl i \<Rightarrow> (if i = 0 then None else Some (i - 1)))"

definition snap_get :: "'a snapshot_list \<Rightarrow> usize \<Rightarrow> 'a option option" where
  "snap_get sl index =
     (if index \<ge> snapshots_total sl then Some (nth_opt (snap_cur sl) (index - snapshots_total sl))
      else
        Option.bind (snap_bucket sl index) (\<lambda>i.
        Option.bind (nth_opt (snapshots sl) i) (\<lambda>snapshot.
        if index < prior_types snapshot then None
        else map_option Some (nth_opt (snap_items snapshot) (index - prior_types snapshot)))))"

definition snap_push :: "'a \<Rightarrow> 'a snapshot_list \<Rightarrow> 'a snapshot_list" where
  "snap_push val sl = sl\<lparr>snap_cur := snap_cur sl @ [val]\<rparr>"

definition snap_len :: "'a snapshot_list \<Rightarrow> usize" where
  "snap_len sl = length (snap_cur sl) + snapshots_total sl"

definition snap_truncate :: "usize \<Rightarrow> 'a snapshot_list \<Rightarrow> 'a snapshot_list option" where
  "snap_truncate len sl =
     (if len \<ge> snapshots_total sl
      then Some (sl\<lparr>snap_cur := take (len - snapshots_total sl) (snap_cur sl)\<rparr>) else None)"

text \<open>The clone that is returned, and the list itself.\<close>

definition snap_commit :: "'a snapshot_list \<Rightarrow> 'a snapshot_list \<times> 'a snapshot_list" where
  "snap_commit sl =
     (let len = length (snap_cur sl);
          sl = (if len > 0
            then \<lparr>snapshots = snapshots sl @ [\<lparr>prior_types = snapshots_total sl, snap_items = snap_cur sl\<rparr>],
                  snapshots_total = snapshots_total sl + len, snap_cur = []\<rparr>
            else sl)
      in (\<lparr>snapshots = snapshots sl, snapshots_total = snapshots_total sl, snap_cur = []\<rparr>, sl))"

text \<open>\<open>list[index]\<close>\<close>

definition snap_index :: "'a snapshot_list \<Rightarrow> usize \<Rightarrow> 'a option" where
  "snap_index sl index = Option.bind (snap_get sl index) id"

definition snap_default :: "'a snapshot_list" where
  "snap_default = \<lparr>snapshots = [], snapshots_total = 0, snap_cur = []\<rparr>"

section \<open>The list it stands for\<close>

definition snap_list :: "'a snapshot_list \<Rightarrow> 'a list" where
  "snap_list sl = concat (map snap_items (snapshots sl)) @ snap_cur sl"

text \<open>The chunks follow one another without gaps, and none is empty.\<close>

fun chunks_from :: "nat \<Rightarrow> 'a snapshot list \<Rightarrow> bool" where
  "chunks_from n [] \<longleftrightarrow> True"
| "chunks_from n (s # ss) \<longleftrightarrow>
     prior_types s = n \<and> snap_items s \<noteq> [] \<and> chunks_from (n + length (snap_items s)) ss"

definition snap_wf :: "'a snapshot_list \<Rightarrow> bool" where
  "snap_wf sl \<longleftrightarrow> chunks_from 0 (snapshots sl)
     \<and> snapshots_total sl = length (concat (map snap_items (snapshots sl)))"

lemma chunks_from_append:
  "chunks_from n (xs @ ys) \<longleftrightarrow>
     chunks_from n xs \<and> chunks_from (n + length (concat (map snap_items xs))) ys"
  by (induction n xs rule: chunks_from.induct) (auto simp: add.assoc)

lemma chunks_from_le: "chunks_from n ss \<Longrightarrow> s \<in> set ss \<Longrightarrow> n \<le> prior_types s"
  by (induction n ss rule: chunks_from.induct) fastforce+

lemma chunks_from_sorted: "chunks_from n ss \<Longrightarrow> sorted_wrt (<) (map prior_types ss)"
proof (induction n ss rule: chunks_from.induct)
  case (2 n s ss)
  then have "prior_types s < prior_types s'" if "s' \<in> set ss" for s'
    using chunks_from_le [of "n + length (snap_items s)" ss s'] that by (cases "snap_items s") auto
  with 2 show ?case by simp
qed simp

text \<open>An index of the concatenation is an index of the last chunk that starts at or before it.\<close>

lemma chunks_from_nth:
  assumes "chunks_from n ss" "i < length ss" "prior_types (ss ! i) \<le> k"
    and "k < n + length (concat (map snap_items ss))"
    and "\<And>j. i < j \<Longrightarrow> j < length ss \<Longrightarrow> k < prior_types (ss ! j)"
  shows "k - prior_types (ss ! i) < length (snap_items (ss ! i))
    \<and> concat (map snap_items ss) ! (k - n) = snap_items (ss ! i) ! (k - prior_types (ss ! i))"
  using assms
proof (induction n ss arbitrary: i rule: chunks_from.induct)
  case (2 n s ss)
  show ?case
  proof (cases i)
    case 0
    have "k < n + length (snap_items s)"
    proof (cases ss)
      case (Cons s' ss')
      with 2(2) 2(6) [of 1] 0 show ?thesis by simp
    qed (use 2(5) in simp)
    then have "k - n < length (snap_items s)" using 0 2(2,4) by auto
    with 0 2(2,4) show ?thesis by (simp add: nth_append)
  next
    case (Suc i')
    have le: "n + length (snap_items s) \<le> k"
      using 2(2-4) Suc chunks_from_le [of "n + length (snap_items s)" ss "ss ! i'"] by simp
    have "k - prior_types (ss ! i') < length (snap_items (ss ! i'))
      \<and> concat (map snap_items ss) ! (k - (n + length (snap_items s)))
        = snap_items (ss ! i') ! (k - prior_types (ss ! i'))"
    proof (rule 2(1))
      show "k < prior_types (ss ! j)" if "i' < j" "j < length ss" for j
        using 2(6) [of "Suc j"] that Suc by simp
    qed (use 2(2-5) Suc in auto)
    moreover from le have "\<not> k - n < length (snap_items s)" by simp
    ultimately show ?thesis using Suc le by (simp add: nth_append)
  qed
qed simp

lemma snap_get_list:
  assumes "snap_wf sl"
  shows "snap_get sl i = Some (nth_opt (snap_list sl) i)"
proof (cases "snapshots_total sl \<le> i")
  case True
  with assms show ?thesis by (auto simp: snap_get_def snap_wf_def snap_list_def nth_opt_def nth_append)
next
  case False
  let ?ss = "snapshots sl"
  have chunks: "chunks_from 0 ?ss" and i: "i < length (concat (map snap_items ?ss))"
    using assms False by (simp_all add: snap_wf_def)
  obtain b where b: "snap_bucket sl i = Some b" "b < length ?ss" "prior_types (?ss ! b) \<le> i"
    "\<And>j. b < j \<Longrightarrow> j < length ?ss \<Longrightarrow> i < prior_types (?ss ! j)"
  proof (rule binary_search_by_key_cases [OF chunks_from_sorted [OF chunks], of i])
    fix b
    assume found: "binary_search_by_key i prior_types ?ss = Inr b" "b < length ?ss"
      "prior_types (?ss ! b) = i"
    have "i < prior_types (?ss ! j)" if "b < j" "j < length ?ss" for j
      using sorted_wrt_nth_less [OF chunks_from_sorted [OF chunks], of b j] that found(2,3) by simp
    with found show thesis by (intro that [of b]) (simp_all add: snap_bucket_def)
  next
    fix k
    assume absent: "binary_search_by_key i prior_types ?ss = Inl k" "k \<le> length ?ss"
      "\<And>j. j < k \<Longrightarrow> prior_types (?ss ! j) < i"
      "\<And>j. k \<le> j \<Longrightarrow> j < length ?ss \<Longrightarrow> i < prior_types (?ss ! j)"
    have "k \<noteq> 0"
    proof
      assume "k = 0"
      moreover from i have "?ss \<noteq> []" by auto
      ultimately show False using absent(4) [of 0] chunks by (cases ?ss) auto
    qed
    with absent show thesis by (intro that [of "k - 1"]) (auto simp: snap_bucket_def less_imp_le)
  qed
  have "i - prior_types (?ss ! b) < length (snap_items (?ss ! b))
      \<and> concat (map snap_items ?ss) ! (i - 0) = snap_items (?ss ! b) ! (i - prior_types (?ss ! b))"
    using chunks b(2,3) i b(4) by (intro chunks_from_nth) simp_all
  with b False i show ?thesis
    by (simp add: snap_get_def nth_opt_def snap_list_def nth_append)
qed

lemma snap_index_list: "snap_wf sl \<Longrightarrow> snap_index sl i = nth_opt (snap_list sl) i"
  by (simp add: snap_index_def snap_get_list)

lemma snap_len_list: "snap_wf sl \<Longrightarrow> snap_len sl = length (snap_list sl)"
  by (simp add: snap_len_def snap_wf_def snap_list_def)

lemma snap_default_list [simp]: "snap_wf snap_default" "snap_list snap_default = []"
  by (simp_all add: snap_wf_def snap_list_def snap_default_def)

lemma snap_push_list [simp]:
  "snap_wf sl \<Longrightarrow> snap_wf (snap_push x sl)" "snap_list (snap_push x sl) = snap_list sl @ [x]"
  by (simp_all add: snap_wf_def snap_list_def snap_push_def)

lemma snap_truncate_list:
  assumes "snap_wf sl" "snap_truncate n sl = Some sl'"
  shows "snap_wf sl' \<and> snap_list sl' = take n (snap_list sl)"
  using assms by (auto simp: snap_truncate_def snap_wf_def snap_list_def split: if_splits)

lemma snap_commit_list:
  assumes "snap_wf sl" "snap_commit sl = (clone, sl')"
  shows "snap_wf sl' \<and> snap_list sl' = snap_list sl \<and> snap_cur sl' = []
    \<and> snap_wf clone \<and> snap_list clone = snap_list sl"
  using assms
  by (auto simp: snap_commit_def snap_wf_def snap_list_def chunks_from_append Let_def split: if_splits)

section \<open>Refinement\<close>

text \<open>A run of operations on the list, and the same run on a plain vector. \<open>Committed\<close> goes on with
  the clone that \<open>commit\<close> returns instead of the list itself.\<close>

datatype 'a snap_op = Push 'a | Truncate usize | Commit | Committed

fun snap_step :: "'a snap_op \<Rightarrow> 'a snapshot_list \<Rightarrow> 'a snapshot_list option" where
  "snap_step (Push x) sl = Some (snap_push x sl)"
| "snap_step (Truncate n) sl = snap_truncate n sl"
| "snap_step Commit sl = Some (snd (snap_commit sl))"
| "snap_step Committed sl = Some (fst (snap_commit sl))"

fun vec_step :: "'a snap_op \<Rightarrow> 'a list \<Rightarrow> 'a list" where
  "vec_step (Push x) xs = xs @ [x]"
| "vec_step (Truncate n) xs = take n xs"
| "vec_step _ xs = xs"

fun snap_run :: "'a snap_op list \<Rightarrow> 'a snapshot_list \<Rightarrow> 'a snapshot_list option" where
  "snap_run [] sl = Some sl"
| "snap_run (op # ops) sl = Option.bind (snap_step op sl) (snap_run ops)"

lemma snap_step_list:
  assumes "snap_wf sl" "snap_step op sl = Some sl'"
  shows "snap_wf sl' \<and> snap_list sl' = vec_step op (snap_list sl)"
proof (cases op)
  case (Truncate n)
  with assms snap_truncate_list show ?thesis by auto
qed (use assms snap_commit_list [OF assms(1) prod.collapse [symmetric]] in auto)

lemma snap_run_list:
  assumes "snap_wf sl" "snap_run ops sl = Some sl'"
  shows "snap_wf sl' \<and> snap_list sl' = fold vec_step ops (snap_list sl)"
  using assms
proof (induction ops arbitrary: sl)
  case (Cons op ops)
  then obtain sl1 where "snap_step op sl = Some sl1" "snap_run ops sl1 = Some sl'"
    by (auto simp: bind_eq_Some_conv)
  with Cons.IH [of sl1] snap_step_list [OF Cons.prems(1), of op sl1] show ?case by simp
qed simp

text \<open>
  C27. A \<open>SnapshotList\<close> behaves as one \<open>Vec\<close>: after any run of \<open>push\<close>, \<open>truncate\<close> and \<open>commit\<close> from
  the default list, on the list itself or on a clone returned by \<open>commit\<close>, \<open>len\<close> and \<open>get\<close> return
  what they return on the vector on which the pushes and truncations of the run were done, and no
  index makes \<open>get\<close> panic.
\<close>

theorem snapshot_list_refines_vec:
  assumes "snap_run ops snap_default = Some sl"
  shows "snap_len sl = length (fold vec_step ops [])
    \<and> (\<forall>i. snap_get sl i = Some (nth_opt (fold vec_step ops []) i))"
proof -
  have "snap_wf sl" "snap_list sl = fold vec_step ops []"
    using snap_run_list [OF snap_default_list(1) assms] by simp_all
  then show ?thesis by (simp add: snap_len_list snap_get_list)
qed

theorem snapshot_list_refines_vec_witness:
  "\<exists>sl. snap_run [Push (5::nat), Commit, Push 6, Push 7, Truncate 2, Committed, Push 8] snap_default = Some sl
     \<and> snap_len sl = 3 \<and> snap_get sl 1 = Some (Some 6) \<and> snap_get sl 2 = Some (Some 8)
     \<and> snap_get sl 3 = Some None"
proof -
  let ?ops = "[Push (5::nat), Commit, Push 6, Push 7, Truncate 2, Committed, Push 8]"
  obtain sl where run: "snap_run ?ops snap_default = Some sl"
    by (simp add: snap_push_def snap_commit_def snap_truncate_def snap_default_def Let_def)
  show ?thesis
    using run snapshot_list_refines_vec [OF run] by (auto simp: nth_opt_def)
qed

end
