(* ===== verification/Module_Resources.thy ===== *)
theory Module_Resources
  imports Type_Packing
begin

text \<open>
  What the operator validator knows of the module around a function: the types of the entities of a
  module (crates/wasmparser/src/readers/core/types.rs), the check of a value type against the
  enabled proposals (crates/wasmparser/src/validator.rs) and the trait \<open>WasmModuleResources\<close>
  (crates/wasmparser/src/resources.rs).

  The trait is a record of its methods. A method that looks into the list of types can panic there;
  its result is then \<open>None\<close>. What the documentation of the trait promises, above all that every type
  it hands out is canonicalized, is the locale \<open>wasm_module_resources\<close>.
\<close>

section \<open>The types of the entities of a module\<close>

record table_type =
  table_element_type :: ref_type
  table64 :: bool
  table_initial :: u64
  table_maximum :: "u64 option"
  table_shared :: bool

definition table_index_type :: "table_type \<Rightarrow> val_type" where
  "table_index_type t = (if table64 t then I64 else I32)"

record memory_type =
  memory64 :: bool
  memory_shared :: bool
  memory_initial :: u64
  memory_maximum :: "u64 option"
  page_size_log2 :: "u32 option"

definition memory_index_type :: "memory_type \<Rightarrow> val_type" where
  "memory_index_type t = (if memory64 t then I64 else I32)"

record global_type =
  content_type :: val_type
  global_mutable :: bool
  global_shared :: bool

section \<open>Printing of types in error messages\<close>

definition packed_index_display :: "packed_index \<Rightarrow> string" where
  "packed_index_display p = unpacked_index_display (the (unpack p))"

definition composite_type_display :: "composite_type \<Rightarrow> string" where
  "composite_type_display c =
     (if comp_shared c then ''(shared '' else '''')
     @ (case comp_inner c of
          CompArray _ \<Rightarrow> ''(array ...)''
        | CompFunc _ \<Rightarrow> ''(func ...)''
        | CompStruct _ \<Rightarrow> ''(struct ...)''
        | CompCont _ \<Rightarrow> ''(cont ...)'')
     @ (if comp_shared c then '')'' else '''')"

definition sub_type_display :: "sub_type \<Rightarrow> string" where
  "sub_type_display ty =
     (if is_final ty \<and> supertype_idx ty = None then composite_type_display (composite_type ty)
      else ''(sub '' @ (if is_final ty then ''final '' else '''')
        @ (case supertype_idx ty of Some idx \<Rightarrow> packed_index_display idx @ '' '' | None \<Rightarrow> '''')
        @ composite_type_display (composite_type ty) @ '')'')"

fun storage_type_display :: "storage_type \<Rightarrow> string" where
  "storage_type_display StorageI8 = ''i8''"
| "storage_type_display StorageI16 = ''i16''"
| "storage_type_display (Val v) = val_type_display v"

section \<open>Types and enabled proposals\<close>

text \<open>The error is the message, as in the source; the caller adds the offset.\<close>

definition features_check_ref_type :: "wasm_features \<Rightarrow> ref_type \<Rightarrow> string + unit" where
  "features_check_ref_type fs rt =
     (if REFERENCE_TYPES \<notin> fs then Inl ''reference types support is not enabled''
      else case the (ref_heap_type rt) of
        Concrete _ \<Rightarrow>
          (if FUNCTION_REFERENCES \<in> fs \<or> GC \<in> fs then Inr ()
           else Inl ''function references required for index reference types'')
      | Abstract shared ty \<Rightarrow>
          (if shared \<and> SHARED_EVERYTHING_THREADS \<notin> fs
           then Inl ''shared reference types require the shared-everything-threads proposal''
           else if GC_TYPES \<notin> fs \<and> ty \<noteq> AFunc \<and> ty \<noteq> AExn
           then Inl ''gc types are disallowed but found type which requires gc''
           else if ty \<in> {AFunc, AExtern}
           then (if is_nullable rt \<or> FUNCTION_REFERENCES \<in> fs then Inr ()
                 else Inl ''function references required for non-nullable types'')
           else if ty \<in> {AAny, ANone, AEq, AStruct, AArray, AI31, ANoExtern, ANoFunc}
           then (if GC \<in> fs then Inr ()
                 else Inl ''heap types not supported without the gc feature'')
           else if ty \<in> {AExn, ANoExn}
           then (if EXCEPTIONS \<in> fs then Inr ()
                 else Inl ''exception refs not supported without the exception handling feature'')
           else (if STACK_SWITCHING \<in> fs then Inr ()
                 else Inl ''continuation refs not supported without the stack switching feature'')))"

fun features_check_value_type :: "wasm_features \<Rightarrow> val_type \<Rightarrow> string + unit" where
  "features_check_value_type fs I32 = Inr ()"
| "features_check_value_type fs I64 = Inr ()"
| "features_check_value_type fs F32 =
     (if FLOATS \<in> fs then Inr () else Inl ''floating-point support is disabled'')"
| "features_check_value_type fs F64 =
     (if FLOATS \<in> fs then Inr () else Inl ''floating-point support is disabled'')"
| "features_check_value_type fs (Ref r) = features_check_ref_type fs r"
| "features_check_value_type fs V128 =
     (if SIMD \<in> fs then Inr () else Inl ''SIMD support is not enabled'')"

section \<open>Failures\<close>

text \<open>Validation fails with an error of the input, or with a panic of the code.\<close>

datatype failure = Failed binary_reader_error | Panicked

section \<open>The trait\<close>

record module_resources =
  table_at :: "u32 \<Rightarrow> table_type option"
  memory_at :: "u32 \<Rightarrow> memory_type option"
  tag_at :: "u32 \<Rightarrow> func_type option option"
  global_at :: "u32 \<Rightarrow> global_type option"
  sub_type_at :: "u32 \<Rightarrow> sub_type option option"
  sub_type_at_id :: "u32 \<Rightarrow> sub_type option"
  type_id_of_function :: "u32 \<Rightarrow> u32 option"
  type_index_of_function :: "u32 \<Rightarrow> u32 option"
  element_type_at :: "u32 \<Rightarrow> ref_type option"
  is_subtype :: "val_type \<Rightarrow> val_type \<Rightarrow> bool option"
  is_shared :: "ref_type \<Rightarrow> bool option"
  check_heap_type :: "heap_type \<Rightarrow> usize \<Rightarrow> heap_type result option"
  top_type :: "heap_type \<Rightarrow> heap_type option"
  element_count :: u32
  data_count :: "u32 option"
  is_function_referenced :: "u32 \<Rightarrow> bool"

text \<open>The methods that the trait provides itself. The type is checked in place: the result is the
  canonicalized type.\<close>

definition check_ref_type :: "module_resources \<Rightarrow> ref_type \<Rightarrow> usize \<Rightarrow> ref_type result option" where
  "check_ref_type r rt off =
     (case ref_heap_type rt of
        None \<Rightarrow> None
      | Some heap_ty \<Rightarrow>
          (case check_heap_type r heap_ty off of
             None \<Rightarrow> None
           | Some (Inl e) \<Rightarrow> Some (Inl e)
           | Some (Inr heap_ty) \<Rightarrow> map_option Inr (ref_new (is_nullable rt) heap_ty)))"

definition check_value_type ::
  "module_resources \<Rightarrow> val_type \<Rightarrow> wasm_features \<Rightarrow> usize \<Rightarrow> val_type result option" where
  "check_value_type r t fs off =
     (case features_check_value_type fs t of
        Inl s \<Rightarrow> Some (Inl (error_new s off))
      | Inr _ \<Rightarrow>
          (case t of
             Ref rt \<Rightarrow> map_option (map_sum id Ref) (check_ref_type r rt off)
           | _ \<Rightarrow> Some (Inr t)))"

section \<open>Canonicalized types\<close>

text \<open>
  A type is canonicalized when it refers to other types by the identifiers of the type list, never
  by an index of the module or of a recursion group, and the identifiers exist: \<open>types\<close> looks an
  identifier up.
\<close>

fun canonical_heap :: "(u32 \<Rightarrow> sub_type option) \<Rightarrow> heap_type \<Rightarrow> bool" where
  "canonical_heap types (Abstract _ _) \<longleftrightarrow> True"
| "canonical_heap types (Concrete u) \<longleftrightarrow>
     (case u of CoreTypeId tid \<Rightarrow> types tid \<noteq> None | _ \<Rightarrow> False)"

definition canonical_ref :: "(u32 \<Rightarrow> sub_type option) \<Rightarrow> ref_type \<Rightarrow> bool" where
  "canonical_ref types rt \<longleftrightarrow> ref_ok rt \<and> canonical_heap types (the (ref_heap_type rt))"

fun canonical :: "(u32 \<Rightarrow> sub_type option) \<Rightarrow> val_type \<Rightarrow> bool" where
  "canonical types (Ref rt) \<longleftrightarrow> canonical_ref types rt"
| "canonical types _ \<longleftrightarrow> True"

fun canonical_storage :: "(u32 \<Rightarrow> sub_type option) \<Rightarrow> storage_type \<Rightarrow> bool" where
  "canonical_storage types (Val t) \<longleftrightarrow> canonical types t"
| "canonical_storage types _ \<longleftrightarrow> True"

definition canonical_func :: "(u32 \<Rightarrow> sub_type option) \<Rightarrow> func_type \<Rightarrow> bool" where
  "canonical_func types ft \<longleftrightarrow>
     list_all (canonical types) (params_results ft) \<and> len_params ft \<le> length (params_results ft)
     \<and> length (func_params ft) \<le> MAX_WASM_FUNCTION_PARAMS
     \<and> length (func_results ft) \<le> MAX_WASM_FUNCTION_RETURNS"

fun canonical_inner :: "(u32 \<Rightarrow> sub_type option) \<Rightarrow> composite_inner_type \<Rightarrow> bool" where
  "canonical_inner types (CompFunc ft) \<longleftrightarrow> canonical_func types ft"
| "canonical_inner types (CompArray (ArrayType f)) \<longleftrightarrow> canonical_storage types (element_type f)"
| "canonical_inner types (CompStruct (StructType fs)) \<longleftrightarrow>
     list_all (\<lambda>f. canonical_storage types (element_type f)) fs \<and> length fs \<le> MAX_WASM_STRUCT_FIELDS"
| "canonical_inner types (CompCont (ContType p)) \<longleftrightarrow>
     (case unpack p of
        Some (CoreTypeId tid) \<Rightarrow>
          packed_ok p \<and> (case types tid of
             Some st \<Rightarrow> (case comp_inner (composite_type st) of CompFunc _ \<Rightarrow> True | _ \<Rightarrow> False)
           | None \<Rightarrow> False)
      | _ \<Rightarrow> False)"

definition canonical_sub :: "(u32 \<Rightarrow> sub_type option) \<Rightarrow> sub_type \<Rightarrow> bool" where
  "canonical_sub types st \<longleftrightarrow> canonical_inner types (comp_inner (composite_type st))"

text \<open>A heap type as the binary format has it: abstract, or an index of the module.\<close>

fun fresh_heap :: "heap_type \<Rightarrow> bool" where
  "fresh_heap (Abstract _ _) \<longleftrightarrow> True"
| "fresh_heap (Concrete u) \<longleftrightarrow> (case u of Module _ \<Rightarrow> True | _ \<Rightarrow> False)"

definition fresh_ref :: "ref_type \<Rightarrow> bool" where
  "fresh_ref rt \<longleftrightarrow> (case ref_heap_type rt of Some h \<Rightarrow> fresh_heap h | None \<Rightarrow> False)"

fun fresh_val :: "val_type \<Rightarrow> bool" where
  "fresh_val (Ref rt) \<longleftrightarrow> fresh_ref rt"
| "fresh_val _ \<longleftrightarrow> True"

section \<open>The contract\<close>

locale wasm_module_resources =
  fixes r :: module_resources
  assumes table_canonical: "table_at r i = Some t \<Longrightarrow> canonical_ref (sub_type_at_id r) (table_element_type t)"
    and tag_canonical: "\<exists>x. tag_at r i = Some x \<and> (\<forall>ft. x = Some ft \<longrightarrow> canonical_func (sub_type_at_id r) ft)"
    and global_canonical: "global_at r i = Some g \<Longrightarrow> canonical (sub_type_at_id r) (content_type g)"
    and sub_type_canonical:
      "\<exists>x. sub_type_at r i = Some x \<and> (\<forall>st. x = Some st \<longrightarrow> canonical_sub (sub_type_at_id r) st)"
    and sub_type_id_canonical: "sub_type_at_id r tid = Some st \<Longrightarrow> canonical_sub (sub_type_at_id r) st"
    and function_type_id: "type_id_of_function r f = Some tid \<Longrightarrow> sub_type_at_id r tid \<noteq> None"
    and element_canonical: "element_type_at r i = Some rt \<Longrightarrow> canonical_ref (sub_type_at_id r) rt"
    and is_subtype_total:
      "canonical (sub_type_at_id r) a \<Longrightarrow> canonical (sub_type_at_id r) b \<Longrightarrow> \<exists>x. is_subtype r a b = Some x"
    and is_subtype_refl: "canonical (sub_type_at_id r) a \<Longrightarrow> is_subtype r a a = Some True"
    and is_shared_total: "canonical_ref (sub_type_at_id r) rt \<Longrightarrow> \<exists>x. is_shared r rt = Some x"
    and check_abstract: "check_heap_type r (Abstract s ty) off = Some (Inr (Abstract s ty))"
    and check_module_index:
      "(\<exists>e. check_heap_type r (Concrete (Module i)) off = Some (Inl e) \<and> err_offset e = off)
       \<or> (\<exists>tid st. check_heap_type r (Concrete (Module i)) off = Some (Inr (Concrete (CoreTypeId tid)))
            \<and> sub_type_at_id r tid = Some st \<and> sub_type_at r i = Some (Some st))"
    and top_type_total: "canonical_heap (sub_type_at_id r) h \<Longrightarrow> \<exists>s a. top_type r h = Some (Abstract s a)"
begin

lemma check_heap_type_cases:
  assumes "fresh_heap h"
  obtains e where "check_heap_type r h off = Some (Inl e)" "err_offset e = off"
  | h' where "check_heap_type r h off = Some (Inr h')" "canonical_heap (sub_type_at_id r) h'"
proof (cases h)
  case (Abstract s a)
  with check_abstract [of s a off] that(2) show thesis by auto
next
  case (Concrete u)
  with assms obtain i where "u = Module i" by (cases u) auto
  with Concrete check_module_index [of i off] that show thesis by auto
qed

lemma canonical_refI:
  assumes "ref_new n h = Some rt" "canonical_heap (sub_type_at_id r) h"
  shows "canonical_ref (sub_type_at_id r) rt"
  using assms ref_ok_new [OF assms(1)] ref_new_correct(2) [OF assms(1)]
  by (simp add: canonical_ref_def)

lemma canonical_ref_nullability:
  assumes "canonical_ref (sub_type_at_id r) rt"
  shows "canonical_ref (sub_type_at_id r) (as_non_null rt)" "canonical_ref (sub_type_at_id r) (ref_nullable rt)"
  using assms ref_ok_nullability [of rt]
  by (simp_all add: canonical_ref_def as_non_null_correct ref_nullable_correct)

lemma canonical_ref_difference:
  assumes "canonical_ref (sub_type_at_id r) a"
  obtains d where "ref_difference a b = Some d" "canonical_ref (sub_type_at_id r) d"
  using ref_difference_correct [of a b] assms by (auto simp: canonical_ref_def)

end

end
