(* ===== verification/Type_List.thy ===== *)
theory Type_List
  imports Snapshot_List Module_Resources
begin

text \<open>
  \<open>TypeList\<close> of crates/wasmparser/src/validator/types.rs, the list of all core types that validation
  has interned, and subtyping on it.

  A core type is named by its index in the list, its \<open>CoreTypeId\<close>, and a recursion group by its
  index, its \<open>RecGroupId\<close>; both are \<open>u32\<close>. A function that can only panic returns an option with
  \<open>None\<close> the panic. \<open>id_is_subtype\<close> is a loop along the supertypes that need not end on an
  arbitrary list, so \<open>None\<close> is also that it does not return. The map \<open>canonical_rec_groups\<close> is an
  association list searched with the equality of \<open>RecGroup\<close>; \<open>core_type_to_depth\<close> is an \<open>IndexMap\<close>, an
  association list in the order of insertion.
\<close>

section \<open>The list\<close>

record type_list =
  core_types :: "sub_type snapshot_list"
  core_type_to_rec_group :: "u32 snapshot_list"
  core_type_to_supertype :: "u32 option snapshot_list"
  core_type_to_depth :: "(u32 \<times> u8) list option"
  rec_group_elements :: "(u32 \<times> u32) snapshot_list"
  canonical_rec_groups :: "(rec_group \<times> u32) list option"

text \<open>\<open>TypeAlloc::default()\<close>\<close>

definition type_alloc_default :: type_list where
  "type_alloc_default =
     \<lparr>core_types = snap_default, core_type_to_rec_group = snap_default,
      core_type_to_supertype = snap_default, core_type_to_depth = Some [],
      rec_group_elements = snap_default, canonical_rec_groups = Some []\<rparr>"

text \<open>\<open>types[id]\<close>\<close>

definition type_at :: "type_list \<Rightarrow> u32 \<Rightarrow> sub_type option" where
  "type_at ts tid = snap_index (core_types ts) (unat tid)"

definition rec_group_at :: "type_list \<Rightarrow> u32 \<Rightarrow> (u32 \<times> u32) option" where
  "rec_group_at ts gid = snap_index (rec_group_elements ts) (unat gid)"

text \<open>\<open>u32::try_from(n).unwrap()\<close>, and the sum of two indices, which panics when it overflows.\<close>

definition try_u32 :: "usize \<Rightarrow> u32 option" where
  "try_u32 n = (if n < 2 ^ 32 then Some (of_nat n) else None)"

definition index_add :: "u32 \<Rightarrow> u32 \<Rightarrow> u32 option" where
  "index_add a b = try_u32 (unat a + unat b)"

section \<open>Remapping the indices in a type\<close>

text \<open>\<open>remap_indices\<close> of the types of crates/wasmparser/src/readers/core/types.rs: the indices are
  visited in the order of the source, up to the first failure.\<close>

fun val_type_remap :: "(packed_index \<Rightarrow> 'e + packed_index) \<Rightarrow> val_type \<Rightarrow> 'e + val_type" where
  "val_type_remap f (Ref r) =
     (case type_index r of
        Some idx \<Rightarrow> bind_res (f idx) (\<lambda>idx. Inr (Ref (ref_concrete (is_nullable r) idx)))
      | None \<Rightarrow> Inr (Ref r))"
| "val_type_remap f t = Inr t"

fun storage_type_remap :: "(packed_index \<Rightarrow> 'e + packed_index) \<Rightarrow> storage_type \<Rightarrow> 'e + storage_type" where
  "storage_type_remap f (Val t) = bind_res (val_type_remap f t) (\<lambda>t. Inr (Val t))"
| "storage_type_remap f t = Inr t"

definition field_type_remap :: "(packed_index \<Rightarrow> 'e + packed_index) \<Rightarrow> field_type \<Rightarrow> 'e + field_type" where
  "field_type_remap f ft =
     bind_res (storage_type_remap f (element_type ft)) (\<lambda>t. Inr (ft\<lparr>element_type := t\<rparr>))"

fun inner_type_remap ::
  "(packed_index \<Rightarrow> 'e + packed_index) \<Rightarrow> composite_inner_type \<Rightarrow> 'e + composite_inner_type" where
  "inner_type_remap f (CompFunc ft) =
     bind_res (collect_res (val_type_remap f) (func_params ft)) (\<lambda>ps.
     bind_res (collect_res (val_type_remap f) (func_results ft)) (\<lambda>rs.
     Inr (CompFunc (ft\<lparr>params_results := ps @ rs\<rparr>))))"
| "inner_type_remap f (CompArray (ArrayType ft)) =
     bind_res (field_type_remap f ft) (\<lambda>ft. Inr (CompArray (ArrayType ft)))"
| "inner_type_remap f (CompStruct (StructType fs)) =
     bind_res (collect_res (field_type_remap f) fs) (\<lambda>fs. Inr (CompStruct (StructType fs)))"
| "inner_type_remap f (CompCont (ContType p)) =
     bind_res (f p) (\<lambda>p. Inr (CompCont (ContType p)))"

definition sub_type_remap :: "(packed_index \<Rightarrow> 'e + packed_index) \<Rightarrow> sub_type \<Rightarrow> 'e + sub_type" where
  "sub_type_remap f st =
     bind_res (case supertype_idx st of
         Some idx \<Rightarrow> bind_res (f idx) (\<lambda>idx. Inr (Some idx))
       | None \<Rightarrow> Inr None) (\<lambda>super.
     bind_res (inner_type_remap f (comp_inner (composite_type st))) (\<lambda>inner.
     Inr (st\<lparr>supertype_idx := super, composite_type := (composite_type st)\<lparr>comp_inner := inner\<rparr>\<rparr>)))"

section \<open>Interning\<close>

definition interned_supertype :: "u32 \<Rightarrow> packed_index option \<Rightarrow> u32 option option" where
  "interned_supertype start super =
     (case super of
        None \<Rightarrow> Some None
      | Some idx \<Rightarrow>
          (case unpack idx of
             None \<Rightarrow> None
           | Some (RecGroupIndex off) \<Rightarrow> map_option Some (index_add start off)
           | Some (CoreTypeId tid) \<Rightarrow> Some (Some tid)
           | Some (Module _) \<Rightarrow> Some None))"

definition intern_index :: "u32 \<Rightarrow> packed_index \<Rightarrow> failure + packed_index" where
  "intern_index start idx =
     (case unpack idx of
        None \<Rightarrow> Inl Panicked
      | Some (RecGroupIndex off) \<Rightarrow>
          ok_or Panicked (Option.bind (index_add start off) (\<lambda>tid. pack (CoreTypeId tid)))
      | _ \<Rightarrow> Inr idx)"

definition intern_type :: "u32 \<Rightarrow> u32 \<Rightarrow> sub_type \<Rightarrow> type_list \<Rightarrow> failure + type_list" where
  "intern_type start gid ty ts =
     (if snap_len (core_types ts) \<noteq> snap_len (core_type_to_supertype ts)
        \<or> snap_len (core_types ts) \<noteq> snap_len (core_type_to_rec_group ts)
      then Inl Panicked
      else
        bind_res (ok_or Panicked (interned_supertype start (supertype_idx ty))) (\<lambda>super.
        bind_res (sub_type_remap (intern_index start) ty) (\<lambda>ty.
        Inr (ts\<lparr>core_type_to_supertype := snap_push super (core_type_to_supertype ts),
                core_types := snap_push ty (core_types ts),
                core_type_to_rec_group := snap_push gid (core_type_to_rec_group ts)\<rparr>))))"

fun intern_types :: "u32 \<Rightarrow> u32 \<Rightarrow> sub_type list \<Rightarrow> type_list \<Rightarrow> failure + type_list" where
  "intern_types start gid [] ts = Inr ts"
| "intern_types start gid (ty # tys) ts =
     bind_res (intern_type start gid ty ts) (intern_types start gid tys)"

definition lookup_rec_group :: "rec_group \<Rightarrow> (rec_group \<times> u32) list \<Rightarrow> u32 option" where
  "lookup_rec_group rg m = map_option snd (find (\<lambda>(key, _). rec_group_eq key rg) m)"

text \<open>The types of a group that is not there yet are appended.\<close>

definition intern_new_rec_group ::
  "u32 \<Rightarrow> rec_group \<Rightarrow> type_list \<Rightarrow> failure + ((bool \<times> u32) \<times> type_list)" where
  "intern_new_rec_group gid rg ts =
     bind_res (ok_or Panicked (try_u32 (snap_len (core_types ts)))) (\<lambda>start.
     bind_res (intern_types start gid (rec_group_types rg) ts) (\<lambda>ts.
     bind_res (ok_or Panicked (try_u32 (snap_len (core_types ts)))) (\<lambda>end.
     Inr ((True, gid), ts\<lparr>rec_group_elements := snap_push (start, end) (rec_group_elements ts)\<rparr>))))"

definition intern_canonical_rec_group ::
  "bool \<Rightarrow> rec_group \<Rightarrow> type_list \<Rightarrow> failure + ((bool \<times> u32) \<times> type_list)" where
  "intern_canonical_rec_group needs rg ts =
     bind_res (ok_or Panicked (try_u32 (snap_len (rec_group_elements ts)))) (\<lambda>gid.
     if needs then
       (case canonical_rec_groups ts of
          None \<Rightarrow> Inl Panicked
        | Some m \<Rightarrow>
            (case lookup_rec_group rg m of
               Some g \<Rightarrow> Inr ((False, g), ts)
             | None \<Rightarrow> intern_new_rec_group gid rg (ts\<lparr>canonical_rec_groups := Some ((rg, gid) # m)\<rparr>)))
     else intern_new_rec_group gid rg ts)"

definition intern_sub_type :: "sub_type \<Rightarrow> usize \<Rightarrow> type_list \<Rightarrow> failure + (u32 \<times> type_list)" where
  "intern_sub_type st off ts =
     bind_res (intern_canonical_rec_group False (Implicit (off, st)) ts) (\<lambda>((_, gid), ts).
     bind_res (ok_or Panicked (rec_group_at ts gid)) (\<lambda>range. Inr (fst range, ts)))"

definition intern_func_type :: "func_type \<Rightarrow> usize \<Rightarrow> type_list \<Rightarrow> failure + (u32 \<times> type_list)" where
  "intern_func_type ty off ts = intern_sub_type (sub_type_func ty False) off ts"

section \<open>Look-ups\<close>

definition rec_group_local_id :: "type_list \<Rightarrow> u32 \<Rightarrow> u32 \<Rightarrow> usize \<Rightarrow> failure + u32" where
  "rec_group_local_id ts gid index off =
     bind_res (ok_or Panicked (rec_group_at ts gid)) (\<lambda>(start, end).
     if end < start then Inl Panicked
     else if index < end - start then ok_or Panicked (index_add start index)
     else Inl (Failed (error_new (''unknown type '' @ fmt_dec (unat index)
       @ '': type index out of rec group bounds'') off)))"

definition rec_group_id_of :: "type_list \<Rightarrow> u32 \<Rightarrow> u32 option" where
  "rec_group_id_of ts tid = snap_index (core_type_to_rec_group ts) (unat tid)"

definition supertype_of :: "type_list \<Rightarrow> u32 \<Rightarrow> u32 option option" where
  "supertype_of ts tid = snap_index (core_type_to_supertype ts) (unat tid)"

definition MAX_WASM_SUBTYPING_DEPTH :: usize where "MAX_WASM_SUBTYPING_DEPTH = 63"

text \<open>The depth is looked up by position in the map, and inserted by key.\<close>

definition get_subtyping_depth :: "type_list \<Rightarrow> u32 \<Rightarrow> u8 option" where
  "get_subtyping_depth ts tid =
     Option.bind (core_type_to_depth ts) (\<lambda>m.
     Option.bind (nth_opt m (unat tid)) (\<lambda>(_, depth).
     if unat depth \<le> MAX_WASM_SUBTYPING_DEPTH then Some depth else None))"

definition set_subtyping_depth :: "u32 \<Rightarrow> u8 \<Rightarrow> type_list \<Rightarrow> type_list option" where
  "set_subtyping_depth tid depth ts =
     (if unat depth \<le> MAX_WASM_SUBTYPING_DEPTH
      then Option.bind (core_type_to_depth ts) (\<lambda>m.
        if tid \<in> set (map fst m) then None
        else Some (ts\<lparr>core_type_to_depth := Some (m @ [(tid, depth)])\<rparr>))
      else None)"

fun at_canonicalized_unpacked_index ::
  "type_list \<Rightarrow> u32 \<Rightarrow> unpacked_index \<Rightarrow> usize \<Rightarrow> failure + u32" where
  "at_canonicalized_unpacked_index ts gid (Module _) off = Inl Panicked"
| "at_canonicalized_unpacked_index ts gid (CoreTypeId tid) off = Inr tid"
| "at_canonicalized_unpacked_index ts gid (RecGroupIndex idx) off = rec_group_local_id ts gid idx off"

section \<open>Subtyping\<close>

partial_function (option) id_is_subtype :: "type_list \<Rightarrow> u32 \<Rightarrow> u32 \<Rightarrow> bool option" where
  "id_is_subtype ts a b =
     (if a = b then Some True
      else case supertype_of ts a of
        None \<Rightarrow> None
      | Some None \<Rightarrow> Some False
      | Some (Some a) \<Rightarrow> id_is_subtype ts a b)"

declare id_is_subtype.simps [code]

text \<open>The closures \<open>core_type_id\<close> and \<open>subtype\<close>.\<close>

definition core_type_id_in :: "type_list \<Rightarrow> u32 option \<Rightarrow> unpacked_index \<Rightarrow> u32 option" where
  "core_type_id_in ts grp index =
     (case as_core_type_id index of
        Some tid \<Rightarrow> Some tid
      | None \<Rightarrow>
          Option.bind grp (\<lambda>gid.
          case at_canonicalized_unpacked_index ts gid index (2 ^ 64 - 1) of
            Inl _ \<Rightarrow> None
          | Inr tid \<Rightarrow> Some tid))"

definition composite_type_in :: "type_list \<Rightarrow> u32 option \<Rightarrow> unpacked_index \<Rightarrow> composite_type option" where
  "composite_type_in ts grp index =
     map_option composite_type (Option.bind (core_type_id_in ts grp index) (type_at ts))"

fun is_struct_type :: "composite_inner_type \<Rightarrow> bool" where
  "is_struct_type (CompStruct _) \<longleftrightarrow> True" | "is_struct_type _ \<longleftrightarrow> False"

fun is_array_type :: "composite_inner_type \<Rightarrow> bool" where
  "is_array_type (CompArray _) \<longleftrightarrow> True" | "is_array_type _ \<longleftrightarrow> False"

fun is_func_type :: "composite_inner_type \<Rightarrow> bool" where
  "is_func_type (CompFunc _) \<longleftrightarrow> True" | "is_func_type _ \<longleftrightarrow> False"

fun is_cont_type :: "composite_inner_type \<Rightarrow> bool" where
  "is_cont_type (CompCont _) \<longleftrightarrow> True" | "is_cont_type _ \<longleftrightarrow> False"

fun concrete_below_abstract :: "composite_inner_type \<Rightarrow> abstract_heap_type \<Rightarrow> bool" where
  "concrete_below_abstract inner AAny \<longleftrightarrow> is_array_type inner \<or> is_struct_type inner"
| "concrete_below_abstract inner AEq \<longleftrightarrow> is_array_type inner \<or> is_struct_type inner"
| "concrete_below_abstract inner AStruct \<longleftrightarrow> is_struct_type inner"
| "concrete_below_abstract inner AArray \<longleftrightarrow> is_array_type inner"
| "concrete_below_abstract inner AFunc \<longleftrightarrow> is_func_type inner"
| "concrete_below_abstract inner ACont \<longleftrightarrow> is_cont_type inner"
| "concrete_below_abstract inner _ \<longleftrightarrow> False"

fun abstract_below_concrete :: "abstract_heap_type \<Rightarrow> composite_inner_type \<Rightarrow> bool" where
  "abstract_below_concrete ANone inner \<longleftrightarrow> is_array_type inner \<or> is_struct_type inner"
| "abstract_below_concrete ANoFunc inner \<longleftrightarrow> is_func_type inner"
| "abstract_below_concrete ANoCont inner \<longleftrightarrow> is_cont_type inner"
| "abstract_below_concrete _ inner \<longleftrightarrow> False"

fun heap_type_is_subtype ::
  "type_list \<Rightarrow> heap_type \<Rightarrow> u32 option \<Rightarrow> heap_type \<Rightarrow> u32 option \<Rightarrow> bool option" where
  "heap_type_is_subtype ts (Abstract a_shared a_ty) a_group (Abstract b_shared b_ty) b_group =
     Some (a_shared = b_shared \<and> is_subtype_of a_ty b_ty)"
| "heap_type_is_subtype ts (Concrete a) a_group (Abstract shared ty) b_group =
     map_option (\<lambda>c. comp_shared c = shared \<and> concrete_below_abstract (comp_inner c) ty)
       (composite_type_in ts a_group a)"
| "heap_type_is_subtype ts (Abstract shared ty) a_group (Concrete b) b_group =
     map_option (\<lambda>c. shared = comp_shared c \<and> abstract_below_concrete ty (comp_inner c))
       (composite_type_in ts b_group b)"
| "heap_type_is_subtype ts (Concrete a) a_group (Concrete b) b_group =
     Option.bind (core_type_id_in ts a_group a) (\<lambda>a.
     Option.bind (core_type_id_in ts b_group b) (\<lambda>b.
     id_is_subtype ts a b))"

definition reftype_is_subtype_impl ::
  "type_list \<Rightarrow> ref_type \<Rightarrow> u32 option \<Rightarrow> ref_type \<Rightarrow> u32 option \<Rightarrow> bool option" where
  "reftype_is_subtype_impl ts a a_group b b_group =
     (if a = b \<and> a_group = b_group then Some True
      else if is_nullable a \<and> \<not> is_nullable b then Some False
      else
        Option.bind (ref_heap_type a) (\<lambda>ha.
        Option.bind (ref_heap_type b) (\<lambda>hb.
        if ha = hb then Some True else heap_type_is_subtype ts ha a_group hb b_group)))"

definition reftype_is_subtype :: "type_list \<Rightarrow> ref_type \<Rightarrow> ref_type \<Rightarrow> bool option" where
  "reftype_is_subtype ts a b = reftype_is_subtype_impl ts a None b None"

definition valtype_is_subtype :: "type_list \<Rightarrow> val_type \<Rightarrow> val_type \<Rightarrow> bool option" where
  "valtype_is_subtype ts a b =
     (if a = b then Some True
      else case (a, b) of
        (Ref a, Ref b) \<Rightarrow> reftype_is_subtype ts a b
      | _ \<Rightarrow> Some False)"

definition reftype_is_shared :: "type_list \<Rightarrow> ref_type \<Rightarrow> bool option" where
  "reftype_is_shared ts rt =
     (case ref_heap_type rt of
        None \<Rightarrow> None
      | Some (Abstract shared _) \<Rightarrow> Some shared
      | Some (Concrete index) \<Rightarrow>
          Option.bind (as_core_type_id index) (\<lambda>tid.
          map_option (\<lambda>st. comp_shared (composite_type st)) (type_at ts tid)))"

fun valtype_is_shared :: "type_list \<Rightarrow> val_type \<Rightarrow> bool option" where
  "valtype_is_shared ts (Ref rt) = reftype_is_shared ts rt"
| "valtype_is_shared ts _ = Some True"

fun abstract_top :: "abstract_heap_type \<Rightarrow> abstract_heap_type" where
  "abstract_top AFunc = AFunc" | "abstract_top ANoFunc = AFunc"
| "abstract_top AExtern = AExtern" | "abstract_top ANoExtern = AExtern"
| "abstract_top AAny = AAny" | "abstract_top AEq = AAny" | "abstract_top AStruct = AAny"
| "abstract_top AArray = AAny" | "abstract_top AI31 = AAny" | "abstract_top ANone = AAny"
| "abstract_top AExn = AExn" | "abstract_top ANoExn = AExn"
| "abstract_top ACont = ACont" | "abstract_top ANoCont = ACont"

fun inner_top :: "composite_inner_type \<Rightarrow> abstract_heap_type" where
  "inner_top (CompFunc _) = AFunc" | "inner_top (CompArray _) = AAny"
| "inner_top (CompStruct _) = AAny" | "inner_top (CompCont _) = ACont"

fun types_top_type :: "type_list \<Rightarrow> heap_type \<Rightarrow> heap_type option" where
  "types_top_type ts (Concrete idx) =
     Option.bind (as_core_type_id idx) (\<lambda>tid.
     map_option (\<lambda>st. Abstract (comp_shared (composite_type st)) (inner_top (comp_inner (composite_type st))))
       (type_at ts tid))"
| "types_top_type ts (Abstract shared ty) = Some (Abstract shared (abstract_top ty))"

section \<open>Committing\<close>

definition type_list_commit :: "type_list \<Rightarrow> type_list \<times> type_list" where
  "type_list_commit ts =
     (let (cts, core_types') = snap_commit (core_types ts);
          (grs, rec_group') = snap_commit (core_type_to_rec_group ts);
          (sups, supertype') = snap_commit (core_type_to_supertype ts);
          (els, elements') = snap_commit (rec_group_elements ts)
      in (\<lparr>core_types = cts, core_type_to_rec_group = grs, core_type_to_supertype = sups,
           core_type_to_depth = None, rec_group_elements = els, canonical_rec_groups = None\<rparr>,
          ts\<lparr>core_types := core_types', core_type_to_rec_group := rec_group',
             core_type_to_supertype := supertype', rec_group_elements := elements'\<rparr>))"

end
