(* ===== verification/Type_Matches.thy ===== *)
theory Type_Matches
  imports Type_List
begin

text \<open>
  Structural matching of core types, crates/wasmparser/src/readers/core/types/matches.rs: does a type
  match the type that it declares as its supertype? Each instance of the trait \<open>Matches\<close> is one
  function; the context \<open>WithRecGroup\<close> is the argument with the identifier of the recursion group.
  \<open>None\<close> is a panic.
\<close>

text \<open>\<open>Iterator::all\<close>, which stops at the first \<open>false\<close>.\<close>

fun all_opt :: "('a \<Rightarrow> bool option) \<Rightarrow> 'a list \<Rightarrow> bool option" where
  "all_opt f [] = Some True"
| "all_opt f (x # xs) = Option.bind (f x) (\<lambda>b. if b then all_opt f xs else Some False)"

definition and_opt :: "bool option \<Rightarrow> bool option \<Rightarrow> bool option" where
  "and_opt x y = Option.bind x (\<lambda>b. if b then y else Some False)"

definition matches_ref :: "type_list \<Rightarrow> u32 \<Rightarrow> ref_type \<Rightarrow> u32 \<Rightarrow> ref_type \<Rightarrow> bool option" where
  "matches_ref ts ga a gb b = reftype_is_subtype_impl ts a (Some ga) b (Some gb)"

fun matches_val :: "type_list \<Rightarrow> u32 \<Rightarrow> val_type \<Rightarrow> u32 \<Rightarrow> val_type \<Rightarrow> bool option" where
  "matches_val ts ga (Ref ra) gb (Ref rb) = matches_ref ts ga ra gb rb"
| "matches_val ts ga (Ref _) gb _ = Some False"
| "matches_val ts ga a gb b = Some (a = b)"

fun matches_storage :: "type_list \<Rightarrow> u32 \<Rightarrow> storage_type \<Rightarrow> u32 \<Rightarrow> storage_type \<Rightarrow> bool option" where
  "matches_storage ts ga StorageI8 gb StorageI8 = Some True"
| "matches_storage ts ga StorageI16 gb StorageI16 = Some True"
| "matches_storage ts ga (Val va) gb (Val vb) = matches_val ts ga va gb vb"
| "matches_storage ts ga _ gb _ = Some False"

definition matches_field :: "type_list \<Rightarrow> u32 \<Rightarrow> field_type \<Rightarrow> u32 \<Rightarrow> field_type \<Rightarrow> bool option" where
  "matches_field ts ga a gb b =
     and_opt (matches_storage ts ga (element_type a) gb (element_type b))
       (if \<not> field_mutable a \<and> \<not> field_mutable b then Some True
        else if field_mutable a \<and> field_mutable b
        then matches_storage ts gb (element_type b) ga (element_type a)
        else Some False)"

definition matches_cont :: "type_list \<Rightarrow> u32 \<Rightarrow> packed_index \<Rightarrow> u32 \<Rightarrow> packed_index \<Rightarrow> bool option" where
  "matches_cont ts ga ca gb cb =
     (if ca = cb then Some True
      else reftype_is_subtype_impl ts (ref_concrete False ca) (Some ga) (ref_concrete False cb) (Some gb))"

text \<open>Parameters are contravariant, results are covariant.\<close>

definition matches_func :: "type_list \<Rightarrow> u32 \<Rightarrow> func_type \<Rightarrow> u32 \<Rightarrow> func_type \<Rightarrow> bool option" where
  "matches_func ts ga a gb b =
     (if length (func_params a) \<noteq> length (func_params b)
        \<or> length (func_results a) \<noteq> length (func_results b) then Some False
      else
        and_opt (all_opt (\<lambda>(pa, pb). matches_val ts gb pb ga pa) (zip (func_params a) (func_params b)))
          (all_opt (\<lambda>(ra, rb). matches_val ts ga ra gb rb) (zip (func_results a) (func_results b))))"

fun matches_inner ::
  "type_list \<Rightarrow> u32 \<Rightarrow> composite_inner_type \<Rightarrow> u32 \<Rightarrow> composite_inner_type \<Rightarrow> bool option" where
  "matches_inner ts ga (CompFunc fa) gb (CompFunc fb) = matches_func ts ga fa gb fb"
| "matches_inner ts ga (CompArray (ArrayType aa)) gb (CompArray (ArrayType ab)) =
     matches_field ts ga aa gb ab"
| "matches_inner ts ga (CompStruct (StructType sa)) gb (CompStruct (StructType sb)) =
     (if length sa \<ge> length sb then all_opt (\<lambda>(fa, fb). matches_field ts ga fa gb fb) (zip sa sb)
      else Some False)"
| "matches_inner ts ga (CompCont (ContType ca)) gb (CompCont (ContType cb)) =
     matches_cont ts ga ca gb cb"
| "matches_inner ts ga _ gb _ = Some False"

definition matches_composite ::
  "type_list \<Rightarrow> u32 \<Rightarrow> composite_type \<Rightarrow> u32 \<Rightarrow> composite_type \<Rightarrow> bool option" where
  "matches_composite ts ga a gb b =
     (if comp_shared a \<noteq> comp_shared b then Some False
      else matches_inner ts ga (comp_inner a) gb (comp_inner b))"

text \<open>\<open>TypeList::matches\<close>\<close>

definition types_matches :: "type_list \<Rightarrow> u32 \<Rightarrow> u32 \<Rightarrow> bool option" where
  "types_matches ts a b =
     Option.bind (rec_group_id_of ts a) (\<lambda>ga.
     Option.bind (type_at ts a) (\<lambda>ta.
     Option.bind (rec_group_id_of ts b) (\<lambda>gb.
     Option.bind (type_at ts b) (\<lambda>tb.
     matches_composite ts ga (composite_type ta) gb (composite_type tb)))))"

end
