(* ===== verification/Type_Canonical.thy ===== *)
theory Type_Canonical
  imports Type_Matches
begin

text \<open>
  Canonicalization and checking of the recursion groups of a type section,
  crates/wasmparser/src/validator/core/canonical.rs. The trait \<open>InternRecGroup\<close> is modelled for the
  implementation of a module, whose state is the vector \<open>ids\<close> of the identifiers of its types
  (\<open>Module::types\<close>). After a failure the state is not used again and the model drops it.
\<close>

definition fail_at :: "usize \<Rightarrow> string \<Rightarrow> failure + 'a" where
  "fail_at off msg = Inl (Failed (error_new msg off))"

definition require :: "usize \<Rightarrow> bool \<Rightarrow> string \<Rightarrow> failure + unit" where
  "require off b msg = (if b then Inr () else fail_at off msg)"

section \<open>The module as a list of type identifiers\<close>

definition type_id_at :: "u32 list \<Rightarrow> u32 \<Rightarrow> usize \<Rightarrow> failure + u32" where
  "type_id_at ids idx off =
     (case nth_opt ids (unat idx) of
        Some tid \<Rightarrow> Inr tid
      | None \<Rightarrow> fail_at off (''unknown type '' @ fmt_dec (unat idx) @ '': type index out of bounds''))"

definition types_len :: "u32 list \<Rightarrow> failure + u32" where
  "types_len ids = ok_or Panicked (try_u32 (length ids))"

section \<open>The canonicalizer\<close>

datatype canonicalization_mode = HashConsing | OnlyIds

record type_canonicalizer =
  cz_ids :: "u32 list"
  cz_features :: "wasm_features option"
  rec_group_start :: u32
  rec_group_len :: u32
  cz_offset :: usize
  cz_mode :: canonicalization_mode
  within_rec_group :: "(u32 \<times> u32) option"

definition canonicalizer_new :: "u32 list \<Rightarrow> usize \<Rightarrow> type_canonicalizer" where
  "canonicalizer_new ids off =
     \<lparr>cz_ids = ids, cz_features = None, rec_group_start = - 1, rec_group_len = 0, cz_offset = off,
      cz_mode = HashConsing, within_rec_group = None\<rparr>"

definition with_features :: "wasm_features \<Rightarrow> type_canonicalizer \<Rightarrow> type_canonicalizer" where
  "with_features fs cz = cz\<lparr>cz_features := Some fs\<rparr>"

definition allow_gc :: "type_canonicalizer \<Rightarrow> bool" where
  "allow_gc cz = (case cz_features cz of None \<Rightarrow> True | Some fs \<Rightarrow> GC \<in> fs)"

text \<open>The two arms of \<open>canonicalize_type_index\<close> that do something: an index of the module, and in the
  mode \<open>OnlyIds\<close> an index of the recursion group.\<close>

definition canonicalize_module_index :: "type_canonicalizer \<Rightarrow> u32 \<Rightarrow> failure + packed_index" where
  "canonicalize_module_index cz index =
     (if index < rec_group_start cz \<or> cz_mode cz = OnlyIds then
        bind_res (type_id_at (cz_ids cz) index (cz_offset cz)) (\<lambda>tid.
        case from_id tid of
          Some p \<Rightarrow> Inr p
        | None \<Rightarrow> fail_at (cz_offset cz) ''implementation limit: too many types in `TypeList`'')
      else if \<not> (allow_gc cz \<or> rec_group_len cz = 1) then Inl Panicked
      else
        let local = index - rec_group_start cz in
        if allow_gc cz \<and> local < rec_group_len cz then
          (case from_rec_group_index local of
             Some p \<Rightarrow> Inr p
           | None \<Rightarrow> fail_at (cz_offset cz)
               ''implementation limit: too many types in a recursion group'')
        else fail_at (cz_offset cz)
          (''unknown type '' @ fmt_dec (unat index) @ '': type index out of bounds''))"

definition canonicalize_local_index :: "type_canonicalizer \<Rightarrow> u32 \<Rightarrow> failure + packed_index" where
  "canonicalize_local_index cz local_index =
     bind_res (ok_or Panicked (within_rec_group cz)) (\<lambda>(start, end).
     if end < start \<or> \<not> local_index < end - start then Inl Panicked
     else ok_or Panicked (Option.bind (index_add start local_index) from_id))"

definition canonicalize_type_index :: "type_canonicalizer \<Rightarrow> packed_index \<Rightarrow> failure + packed_index" where
  "canonicalize_type_index cz ty =
     (case unpack ty of
        None \<Rightarrow> Inl Panicked
      | Some (CoreTypeId _) \<Rightarrow> Inr ty
      | Some (Module index) \<Rightarrow> canonicalize_module_index cz index
      | Some (RecGroupIndex local_index) \<Rightarrow>
          (case cz_mode cz of
             HashConsing \<Rightarrow> Inr ty
           | OnlyIds \<Rightarrow> canonicalize_local_index cz local_index))"

text \<open>The body of the loop over the types of a group, for the type at position \<open>k\<close>.\<close>

definition canonicalize_sub_type :: "type_canonicalizer \<Rightarrow> nat \<Rightarrow> sub_type \<Rightarrow> failure + sub_type" where
  "canonicalize_sub_type cz k ty =
     bind_res (ok_or Panicked (Option.bind (try_u32 k) (index_add (rec_group_start cz)))) (\<lambda>type_idx.
     bind_res (require (cz_offset cz)
       (case Option.bind (supertype_idx ty) packed_as_module_index of
          Some i \<Rightarrow> \<not> i \<ge> type_idx
        | None \<Rightarrow> True) ''supertypes must be defined before subtypes'') (\<lambda>_.
     sub_type_remap (canonicalize_type_index cz) ty))"

text \<open>\<open>types_mut().enumerate()\<close>\<close>

definition rec_group_map :: "(nat \<Rightarrow> sub_type \<Rightarrow> 'e + sub_type) \<Rightarrow> rec_group \<Rightarrow> 'e + rec_group" where
  "rec_group_map f rg =
     (case rg of
        Implicit (off, ty) \<Rightarrow> bind_res (f 0 ty) (\<lambda>ty. Inr (Implicit (off, ty)))
      | Explicit tys \<Rightarrow>
          bind_res (collect_res (\<lambda>(k, off, ty). bind_res (f k ty) (\<lambda>ty. Inr (off, ty))) (enumerate 0 tys))
            (\<lambda>tys. Inr (Explicit tys)))"

definition canonicalize_rec_group :: "type_canonicalizer \<Rightarrow> rec_group \<Rightarrow> failure + rec_group" where
  "canonicalize_rec_group cz rg =
     bind_res (types_len (cz_ids cz)) (\<lambda>start.
     bind_res (ok_or Panicked (try_u32 (length (rec_group_types rg)))) (\<lambda>len.
     rec_group_map (canonicalize_sub_type (cz\<lparr>rec_group_start := start, rec_group_len := len\<rparr>)) rg))"

section \<open>Checking the types of a new group\<close>

definition check_part :: "wasm_features \<Rightarrow> type_list \<Rightarrow> usize \<Rightarrow> bool \<Rightarrow> val_type \<Rightarrow> failure + unit" where
  "check_part fs ts off shared ty =
     bind_res (case features_check_value_type fs ty of
         Inl e \<Rightarrow> fail_at off e
       | Inr _ \<Rightarrow> Inr ()) (\<lambda>_.
     if shared then
       bind_res (ok_or Panicked (valtype_is_shared ts ty)) (\<lambda>ty_shared.
       require off ty_shared ''shared composite type must contain shared types'')
     else Inr ())"

fun check_storage_part ::
  "wasm_features \<Rightarrow> type_list \<Rightarrow> usize \<Rightarrow> bool \<Rightarrow> storage_type \<Rightarrow> failure + unit" where
  "check_storage_part fs ts off shared (Val ty) = check_part fs ts off shared ty"
| "check_storage_part fs ts off shared _ = Inr ()"

text \<open>Statements in sequence.\<close>

definition check_all :: "('a \<Rightarrow> failure + unit) \<Rightarrow> 'a list \<Rightarrow> failure + unit" where
  "check_all f xs = bind_res (collect_res f xs) (\<lambda>_. Inr ())"

fun check_inner_type ::
  "wasm_features \<Rightarrow> type_list \<Rightarrow> usize \<Rightarrow> bool \<Rightarrow> composite_inner_type \<Rightarrow> failure + unit" where
  "check_inner_type fs ts off shared (CompFunc t) =
     bind_res (check_all (check_part fs ts off shared) (func_params t @ func_results t)) (\<lambda>_.
     require off (\<not> (length (func_results t) > 1 \<and> MULTI_VALUE \<notin> fs))
       ''func type returns multiple values but the multi-value feature is not enabled'')"
| "check_inner_type fs ts off shared (CompArray (ArrayType t)) =
     bind_res (require off (GC \<in> fs) ''array indexed types not supported without the gc feature'') (\<lambda>_.
     bind_res (require off (GC_TYPES \<in> fs) ''cannot define array types when gc types are disabled'') (\<lambda>_.
     check_storage_part fs ts off shared (element_type t)))"
| "check_inner_type fs ts off shared (CompStruct (StructType flds)) =
     bind_res (require off (GC \<in> fs) ''struct indexed types not supported without the gc feature'') (\<lambda>_.
     bind_res (require off (GC_TYPES \<in> fs) ''cannot define struct types when gc types are disabled'') (\<lambda>_.
     check_all (\<lambda>ft. check_storage_part fs ts off shared (element_type ft)) flds))"
| "check_inner_type fs ts off shared (CompCont (ContType p)) =
     bind_res (require off (STACK_SWITCHING \<in> fs)
       ''cannot define continuation types when stack switching is disabled'') (\<lambda>_.
     bind_res (require off (GC_TYPES \<in> fs)
       ''cannot define continuation types when gc types are disabled'') (\<lambda>_.
     bind_res (ok_or Panicked (packed_as_core_type_id p)) (\<lambda>tid.
     bind_res (ok_or Panicked (type_at ts tid)) (\<lambda>st.
     require off (is_func_type (comp_inner (composite_type st)))
       (''non-function type '' @ fmt_dec (unat tid))))))"

definition check_composite_type ::
  "wasm_features \<Rightarrow> type_list \<Rightarrow> usize \<Rightarrow> composite_type \<Rightarrow> failure + unit" where
  "check_composite_type fs ts off ty =
     bind_res (require off (\<not> (SHARED_EVERYTHING_THREADS \<notin> fs \<and> comp_shared ty))
       ''shared composite types require the shared-everything-threads proposal'') (\<lambda>_.
     check_inner_type fs ts off (comp_shared ty) (comp_inner ty))"

definition at_packed_index ::
  "u32 list \<Rightarrow> type_list \<Rightarrow> u32 \<Rightarrow> packed_index \<Rightarrow> usize \<Rightarrow> failure + u32" where
  "at_packed_index ids ts gid index off =
     (case unpack index of
        None \<Rightarrow> Inl Panicked
      | Some (CoreTypeId tid) \<Rightarrow> Inr tid
      | Some (Module idx) \<Rightarrow> type_id_at ids idx off
      | Some (RecGroupIndex idx) \<Rightarrow> rec_group_local_id ts gid idx off)"

text \<open>The depth of a type that has a supertype.\<close>

definition check_supertype ::
  "u32 list \<Rightarrow> type_list \<Rightarrow> u32 \<Rightarrow> u32 \<Rightarrow> packed_index \<Rightarrow> usize \<Rightarrow> failure + u8" where
  "check_supertype ids ts gid tid super off =
     bind_res (if packed_is_canonical super = Some True then Inr () else Inl Panicked) (\<lambda>_.
     bind_res (at_packed_index ids ts gid super off) (\<lambda>sup_id.
     bind_res (ok_or Panicked (type_at ts sup_id)) (\<lambda>sup_ty.
     bind_res (require off (\<not> is_final sup_ty) ''sub type cannot have a final super type'') (\<lambda>_.
     bind_res (ok_or Panicked (types_matches ts tid sup_id)) (\<lambda>ok.
     bind_res (require off ok ''sub type must match super type'') (\<lambda>_.
     bind_res (ok_or Panicked (get_subtyping_depth ts sup_id)) (\<lambda>d.
     let depth = d + 1 in
     bind_res (require off (\<not> unat depth > MAX_WASM_SUBTYPING_DEPTH)
       (''sub type hierarchy too deep: found depth '' @ fmt_dec (unat depth)
        @ '', cannot exceed depth '' @ fmt_dec MAX_WASM_SUBTYPING_DEPTH)) (\<lambda>_.
     Inr depth))))))))"

definition check_subtype ::
  "u32 list \<Rightarrow> u32 \<Rightarrow> u32 \<Rightarrow> wasm_features \<Rightarrow> usize \<Rightarrow> type_list \<Rightarrow> failure + type_list" where
  "check_subtype ids gid tid fs off ts =
     bind_res (ok_or Panicked (type_at ts tid)) (\<lambda>ty.
     bind_res (require off (\<not> (GC \<notin> fs \<and> (\<not> is_final ty \<or> supertype_idx ty \<noteq> None)))
       ''gc proposal must be enabled to use subtypes'') (\<lambda>_.
     bind_res (check_composite_type fs ts off (composite_type ty)) (\<lambda>_.
     bind_res (case supertype_idx ty of
         Some super \<Rightarrow> check_supertype ids ts gid tid super off
       | None \<Rightarrow> Inr 0) (\<lambda>depth.
     ok_or Panicked (set_subtyping_depth tid depth ts)))))"

section \<open>A whole group\<close>

text \<open>The loop over \<open>start..end\<close>; \<open>n\<close> types are left.\<close>

fun add_type_ids ::
  "nat \<Rightarrow> nat \<Rightarrow> bool \<Rightarrow> u32 \<Rightarrow> wasm_features \<Rightarrow> usize \<Rightarrow> u32 list \<times> type_list
     \<Rightarrow> failure + (u32 list \<times> type_list)" where
  "add_type_ids i 0 is_new gid fs off (ids, ts) = Inr (ids, ts)"
| "add_type_ids i (Suc n) is_new gid fs off (ids, ts) =
     bind_res (ok_or Panicked (try_u32 i)) (\<lambda>tid.
     if type_at ts tid = None then Inl Panicked
     else
       let ids = ids @ [tid] in
       bind_res (if is_new then check_subtype ids gid tid fs off ts else Inr ts) (\<lambda>ts.
       add_type_ids (Suc i) n is_new gid fs off (ids, ts)))"

definition canonicalize_and_intern_rec_group ::
  "wasm_features \<Rightarrow> rec_group \<Rightarrow> usize \<Rightarrow> u32 list \<times> type_list \<Rightarrow> failure + (u32 list \<times> type_list)" where
  "canonicalize_and_intern_rec_group fs rg off st =
     (case st of (ids, ts) \<Rightarrow>
       if \<not> (is_explicit_rec_group rg \<or> length (rec_group_types rg) = 1) then Inl Panicked
       else
         bind_res (require off (\<not> (is_explicit_rec_group rg \<and> GC \<notin> fs))
           ''rec group usage requires `gc` proposal to be enabled'') (\<lambda>_.
         bind_res (if needs_type_canonicalization fs
           then canonicalize_rec_group (with_features fs (canonicalizer_new ids off)) rg
           else Inr rg) (\<lambda>rg.
         bind_res (intern_canonical_rec_group (needs_type_canonicalization fs) rg ts)
           (\<lambda>((is_new, gid), ts).
         bind_res (ok_or Panicked (rec_group_at ts gid)) (\<lambda>(start, end).
         add_type_ids (unat start) (unat end - unat start) is_new gid fs off (ids, ts))))))"

end
