(* ===== verification/Type_Subtyping.thy ===== *)
theory Type_Subtyping
  imports Type_Canonical
begin

text \<open>
  Subtyping on a well-formed list of types: the loop \<open>id_is_subtype\<close> ends and decides the declared
  subtype relation, and subtyping of canonicalized types is a preorder that never panics.
\<close>

section \<open>Well-formed lists\<close>

text \<open>The lists are snapshot lists with one entry for each type.\<close>

definition lists_wf :: "type_list \<Rightarrow> bool" where
  "lists_wf ts \<longleftrightarrow>
     snap_wf (core_types ts) \<and> snap_wf (core_type_to_rec_group ts)
     \<and> snap_wf (core_type_to_supertype ts) \<and> snap_wf (rec_group_elements ts)
     \<and> length (snap_list (core_type_to_rec_group ts)) = length (snap_list (core_types ts))
     \<and> length (snap_list (core_type_to_supertype ts)) = length (snap_list (core_types ts))
     \<and> length (snap_list (core_types ts)) < 2 ^ 32"

text \<open>The supertype of a type comes before it.\<close>

definition supers_wf :: "type_list \<Rightarrow> bool" where
  "supers_wf ts \<longleftrightarrow>
     (\<forall>i j. nth_opt (snap_list (core_type_to_supertype ts)) i = Some (Some j) \<longrightarrow> unat j < i)"

text \<open>The supertype of a type is of the same kind.\<close>

fun same_kind :: "composite_inner_type \<Rightarrow> composite_inner_type \<Rightarrow> bool" where
  "same_kind (CompFunc _) (CompFunc _) \<longleftrightarrow> True"
| "same_kind (CompArray _) (CompArray _) \<longleftrightarrow> True"
| "same_kind (CompStruct _) (CompStruct _) \<longleftrightarrow> True"
| "same_kind (CompCont _) (CompCont _) \<longleftrightarrow> True"
| "same_kind _ _ \<longleftrightarrow> False"

definition compatible :: "sub_type \<Rightarrow> sub_type \<Rightarrow> bool" where
  "compatible st super \<longleftrightarrow>
     comp_shared (composite_type st) = comp_shared (composite_type super)
     \<and> same_kind (comp_inner (composite_type st)) (comp_inner (composite_type super))"

definition kinds_wf :: "type_list \<Rightarrow> bool" where
  "kinds_wf ts \<longleftrightarrow>
     (\<forall>a b. supertype_of ts a = Some (Some b) \<longrightarrow>
        (\<exists>st super. type_at ts a = Some st \<and> type_at ts b = Some super \<and> compatible st super))"

lemma type_at_nth: "lists_wf ts \<Longrightarrow> type_at ts tid = nth_opt (snap_list (core_types ts)) (unat tid)"
  by (simp add: type_at_def lists_wf_def snap_index_list)

lemma supertype_of_nth:
  "lists_wf ts \<Longrightarrow> supertype_of ts tid = nth_opt (snap_list (core_type_to_supertype ts)) (unat tid)"
  by (simp add: supertype_of_def lists_wf_def snap_index_list)

lemma nth_opt_Some_iff: "nth_opt xs i = Some x \<longleftrightarrow> i < length xs \<and> xs ! i = x"
  by (simp add: nth_opt_def)

lemma nth_opt_None_iff [simp]: "nth_opt xs i = None \<longleftrightarrow> length xs \<le> i"
  by (simp add: nth_opt_def)

lemma nth_opt_append: "nth_opt (xs @ ys) i = (if i < length xs then nth_opt xs i else nth_opt ys (i - length xs))"
  by (auto simp: nth_opt_def nth_append)

lemma supertype_of_exists:
  assumes "lists_wf ts" "type_at ts a \<noteq> None"
  obtains super where "supertype_of ts a = Some super"
  using assms by (auto simp: type_at_nth supertype_of_nth lists_wf_def nth_opt_def split: if_splits)

lemma supertype_of_less:
  assumes "lists_wf ts" "supers_wf ts" "supertype_of ts a = Some (Some b)"
  shows "unat b < unat a" "type_at ts b \<noteq> None"
proof -
  from assms show "unat b < unat a" by (simp add: supers_wf_def supertype_of_nth)
  moreover from assms(1,3) have "unat a < length (snap_list (core_types ts))"
    by (simp add: supertype_of_nth nth_opt_Some_iff lists_wf_def)
  ultimately show "type_at ts b \<noteq> None" using assms(1) by (simp add: type_at_nth nth_opt_def)
qed

section \<open>The loop\<close>

definition super_rel :: "type_list \<Rightarrow> (u32 \<times> u32) set" where
  "super_rel ts = {(a, b). supertype_of ts a = Some (Some b)}"

lemma id_is_subtype_rtrancl:
  assumes "lists_wf ts" "supers_wf ts" "type_at ts a \<noteq> None"
  shows "id_is_subtype ts a b = Some ((a, b) \<in> (super_rel ts)\<^sup>*)"
  using assms(3)
proof (induction "unat a" arbitrary: a rule: less_induct)
  case less
  obtain super where super: "supertype_of ts a = Some super"
    using supertype_of_exists [OF assms(1) less(2)] .
  show ?case
  proof (cases "a = b")
    case False
    then have step: "(a, b) \<in> (super_rel ts)\<^sup>* \<longleftrightarrow>
        (\<exists>c. supertype_of ts a = Some (Some c) \<and> (c, b) \<in> (super_rel ts)\<^sup>*)"
      by (auto simp: super_rel_def elim: converse_rtranclE intro: converse_rtrancl_into_rtrancl)
    show ?thesis
    proof (cases super)
      case None
      with False super step show ?thesis by (subst id_is_subtype.simps) simp
    next
      case (Some c)
      with super have c: "supertype_of ts a = Some (Some c)" by simp
      from less(1) [OF supertype_of_less [OF assms(1,2) c]] c False step show ?thesis
        by (subst id_is_subtype.simps) simp
    qed
  qed (subst id_is_subtype.simps, simp)
qed

lemma super_rel_kind:
  assumes "lists_wf ts" "kinds_wf ts" "(a, b) \<in> (super_rel ts)\<^sup>*" "type_at ts a = Some st"
  shows "\<exists>super. type_at ts b = Some super \<and> compatible st super"
  using assms(3)
proof (induction rule: rtrancl_induct)
  case base
  have "compatible st st" by (cases "comp_inner (composite_type st)") (simp_all add: compatible_def)
  with assms(4) show ?case by simp
next
  case (step b c)
  have trans: "same_kind x y \<Longrightarrow> same_kind y z \<Longrightarrow> same_kind x z" for x y z
    by (cases x; cases y; cases z) simp_all
  from step(2,3) assms(2) obtain super where
    "type_at ts c = Some super" "\<And>st. type_at ts b = Some st \<Longrightarrow> compatible st super"
    unfolding super_rel_def kinds_wf_def by fastforce
  with step(3) trans show ?case by (auto simp: compatible_def)
qed

section \<open>Subtyping of canonicalized types\<close>

lemma canonical_refE:
  assumes "canonical_ref types rt"
  obtains (abstract) s a where "ref_heap_type rt = Some (Abstract s a)"
  | (concrete) tid st where "ref_heap_type rt = Some (Concrete (CoreTypeId tid))" "types tid = Some st"
proof -
  from assms obtain h where h: "ref_heap_type rt = Some h" "canonical_heap types h"
    by (auto simp: canonical_ref_def elim: ref_okE)
  show thesis
  proof (cases h)
    case (Concrete u)
    with h concrete show thesis by (cases u) auto
  qed (use h abstract in auto)
qed

text \<open>The relation that the code decides on canonicalized heap types.\<close>

definition heap_sub :: "type_list \<Rightarrow> heap_type \<Rightarrow> heap_type \<Rightarrow> bool" where
  "heap_sub ts a b \<longleftrightarrow> a = b \<or> heap_type_is_subtype ts a None b None = Some True"

lemma core_type_id_in_id [simp]: "core_type_id_in ts g (CoreTypeId tid) = Some tid"
  by (simp add: core_type_id_in_def)

lemma composite_type_in_id [simp]:
  "composite_type_in ts g (CoreTypeId tid) = map_option composite_type (type_at ts tid)"
  by (simp add: composite_type_in_def)

lemma heap_type_is_subtype_total:
  assumes "lists_wf ts" "supers_wf ts" "canonical_heap (type_at ts) a" "canonical_heap (type_at ts) b"
  shows "\<exists>x. heap_type_is_subtype ts a ga b gb = Some x"
proof (cases a)
  case a: (Abstract s t)
  show ?thesis
  proof (cases b)
    case (Concrete u)
    with assms(4) a show ?thesis by (cases u) auto
  qed (simp add: a)
next
  case (Concrete u)
  with assms(3) obtain tid where a: "a = Concrete (CoreTypeId tid)" "type_at ts tid \<noteq> None"
    by (cases u) auto
  show ?thesis
  proof (cases b)
    case (Concrete u)
    with assms(4) a id_is_subtype_rtrancl [OF assms(1,2) a(2)] show ?thesis by (cases u) auto
  qed (use a in auto)
qed

lemma reftype_is_subtype_eq:
  assumes "lists_wf ts" "supers_wf ts" "canonical_ref (type_at ts) a" "canonical_ref (type_at ts) b"
  shows "reftype_is_subtype ts a b = Some ((is_nullable a \<longrightarrow> is_nullable b)
    \<and> heap_sub ts (the (ref_heap_type a)) (the (ref_heap_type b)))"
proof -
  from assms(3,4) obtain ha hb where h: "ref_heap_type a = Some ha" "ref_heap_type b = Some hb"
    "canonical_heap (type_at ts) ha" "canonical_heap (type_at ts) hb"
    by (auto simp: canonical_ref_def elim!: ref_okE)
  obtain x where "heap_type_is_subtype ts ha None hb None = Some x"
    using heap_type_is_subtype_total [OF assms(1,2) h(3,4)] by blast
  with h show ?thesis
    by (auto simp: reftype_is_subtype_def reftype_is_subtype_impl_def heap_sub_def)
qed

lemma below_compatible:
  assumes "compatible st super"
  shows "concrete_below_abstract (comp_inner (composite_type super)) t \<Longrightarrow>
      concrete_below_abstract (comp_inner (composite_type st)) t"
    "abstract_below_concrete t (comp_inner (composite_type st)) \<Longrightarrow>
      abstract_below_concrete t (comp_inner (composite_type super))"
proof -
  have "same_kind x y \<Longrightarrow> concrete_below_abstract y t \<Longrightarrow> concrete_below_abstract x t"
    "same_kind x y \<Longrightarrow> abstract_below_concrete t x \<Longrightarrow> abstract_below_concrete t y" for x y
    by (cases x; cases y; cases t; simp)+
  with assms show "concrete_below_abstract (comp_inner (composite_type super)) t \<Longrightarrow>
      concrete_below_abstract (comp_inner (composite_type st)) t"
    "abstract_below_concrete t (comp_inner (composite_type st)) \<Longrightarrow>
      abstract_below_concrete t (comp_inner (composite_type super))"
    unfolding compatible_def by blast+
qed

lemma concrete_below_mono:
  "concrete_below_abstract x a \<Longrightarrow> is_subtype_of a b \<Longrightarrow> concrete_below_abstract x b"
  by (cases x; cases a; cases b; simp add: is_subtype_of_def)

lemma below_concrete_mono:
  "is_subtype_of a b \<Longrightarrow> abstract_below_concrete b x \<Longrightarrow> abstract_below_concrete a x"
  by (cases x; cases a; cases b; simp add: is_subtype_of_def)

lemma through_concrete:
  "abstract_below_concrete a x \<Longrightarrow> concrete_below_abstract x b \<Longrightarrow> is_subtype_of a b"
  by (cases x; cases a; cases b; simp add: is_subtype_of_def)

lemma through_abstract: "concrete_below_abstract x a \<Longrightarrow> abstract_below_concrete a y \<Longrightarrow> False"
  by (cases a; cases x; simp)

lemma heap_sub_trans:
  assumes wf: "lists_wf ts" "supers_wf ts" "kinds_wf ts"
    and can: "canonical_heap (type_at ts) a" "canonical_heap (type_at ts) b" "canonical_heap (type_at ts) c"
    and ab: "heap_sub ts a b" and bc: "heap_sub ts b c"
  shows "heap_sub ts a c"
proof (cases "a = b \<or> b = c")
  case False
  with ab bc have sub: "heap_type_is_subtype ts a None b None = Some True"
    "heap_type_is_subtype ts b None c None = Some True"
    by (auto simp: heap_sub_def)
  note idsub = id_is_subtype_rtrancl [OF wf(1,2)] and kind = super_rel_kind [OF wf(1,3)]
  have "heap_type_is_subtype ts a None c None = Some True"
  proof (cases b)
    case b: (Abstract s t)
    show ?thesis
    proof (cases a)
      case a: (Abstract s' t')
      with sub b show ?thesis
        by (cases c) (auto dest: is_subtype_of_trans below_concrete_mono)
    next
      case a: (Concrete u)
      with can(1) obtain tid st where u: "u = CoreTypeId tid" "type_at ts tid = Some st"
        by (auto split: unpacked_index.splits)
      from sub a b u show ?thesis
        by (cases c) (auto dest: concrete_below_mono through_abstract)
    qed
  next
    case (Concrete u)
    with can(2) obtain tb stb where b: "b = Concrete (CoreTypeId tb)" "type_at ts tb = Some stb"
      by (auto split: unpacked_index.splits)
    show ?thesis
    proof (cases a)
      case a: (Abstract s t)
      show ?thesis
      proof (cases c)
        case (Concrete u)
        with can(3) obtain tc stc where c: "c = Concrete (CoreTypeId tc)" "type_at ts tc = Some stc"
          by (auto split: unpacked_index.splits)
        with sub b have "compatible stb stc" using kind [of tb tc stb] by (simp add: idsub)
        with sub a b c show ?thesis by (auto simp: compatible_def dest: below_compatible(2) [rotated])
      qed (use sub a b in \<open>auto dest: through_concrete\<close>)
    next
      case (Concrete u)
      with can(1) obtain ta sta where a: "a = Concrete (CoreTypeId ta)" "type_at ts ta = Some sta"
        by (auto split: unpacked_index.splits)
      with sub b have rel: "(ta, tb) \<in> (super_rel ts)\<^sup>*" "compatible sta stb"
        using kind [of ta tb sta] by (simp_all add: idsub)
      show ?thesis
      proof (cases c)
        case (Abstract s t)
        with sub a b rel show ?thesis by (auto simp: compatible_def dest: below_compatible(1) [rotated])
      next
        case (Concrete u)
        with can(3) obtain tc where "c = Concrete (CoreTypeId tc)" by (auto split: unpacked_index.splits)
        with sub a b rel show ?thesis by (auto simp: idsub intro: rtrancl_trans)
      qed
    qed
  qed
  then show ?thesis by (simp add: heap_sub_def)
qed (use ab bc in auto)

end
