(* ===== verification/Type_Interning.thy ===== *)
theory Type_Interning
  imports Type_Subtyping
begin

text \<open>
  Adding a recursion group to a module: what \<open>canonicalize_and_intern_rec_group\<close> guarantees of the
  list of types and of the identifiers of the module when it succeeds.
\<close>

section \<open>The indices in a type\<close>

fun val_indices :: "val_type \<Rightarrow> packed_index list" where
  "val_indices (Ref r) = (case type_index r of Some p \<Rightarrow> [p] | None \<Rightarrow> [])"
| "val_indices _ = []"

fun storage_indices :: "storage_type \<Rightarrow> packed_index list" where
  "storage_indices (Val t) = val_indices t"
| "storage_indices _ = []"

fun inner_indices :: "composite_inner_type \<Rightarrow> packed_index list" where
  "inner_indices (CompFunc ft) = concat (map val_indices (params_results ft))"
| "inner_indices (CompArray (ArrayType f)) = storage_indices (element_type f)"
| "inner_indices (CompStruct (StructType fs)) = concat (map (\<lambda>f. storage_indices (element_type f)) fs)"
| "inner_indices (CompCont (ContType p)) = [p]"

text \<open>What a type read from a binary always satisfies: its reference types and indices are well-formed,
  and the limits are kept.\<close>

fun val_ok :: "val_type \<Rightarrow> bool" where
  "val_ok (Ref r) \<longleftrightarrow> ref_ok r"
| "val_ok _ \<longleftrightarrow> True"

fun storage_ok :: "storage_type \<Rightarrow> bool" where
  "storage_ok (Val t) \<longleftrightarrow> val_ok t"
| "storage_ok _ \<longleftrightarrow> True"

fun inner_ok :: "composite_inner_type \<Rightarrow> bool" where
  "inner_ok (CompFunc ft) \<longleftrightarrow>
     list_all val_ok (params_results ft) \<and> len_params ft \<le> length (params_results ft)
     \<and> length (func_params ft) \<le> MAX_WASM_FUNCTION_PARAMS
     \<and> length (func_results ft) \<le> MAX_WASM_FUNCTION_RETURNS"
| "inner_ok (CompArray (ArrayType f)) \<longleftrightarrow> storage_ok (element_type f)"
| "inner_ok (CompStruct (StructType fs)) \<longleftrightarrow>
     list_all (\<lambda>f. storage_ok (element_type f)) fs \<and> length fs \<le> MAX_WASM_STRUCT_FIELDS"
| "inner_ok (CompCont (ContType p)) \<longleftrightarrow> packed_ok p"

definition sub_ok :: "sub_type \<Rightarrow> bool" where
  "sub_ok st \<longleftrightarrow> (\<forall>p. supertype_idx st = Some p \<longrightarrow> packed_ok p)
     \<and> inner_ok (comp_inner (composite_type st))"

lemma type_index_ok:
  assumes "ref_ok r"
  shows "type_index r = Some p \<Longrightarrow> packed_ok p \<and> ref_heap_type r = map_option Concrete (unpack p)"
    "type_index r = None \<Longrightarrow> \<exists>s a. ref_heap_type r = Some (Abstract s a)"
proof -
  from assms obtain h where h: "ref_heap_type r = Some h" "ref_new (is_nullable r) h = Some r"
    by (rule ref_okE)
  have concrete: "\<exists>p. type_index r = Some p \<and> packed_ok p" if "h = Concrete u" for u
  proof -
    from h(2) that obtain p where p: "pack u = Some p" "r = ref_concrete (is_nullable r) p" by auto
    then have "packed_ok p" by (auto simp: packed_ok_def)
    with ref_concrete_parts(2) [OF this, of "is_nullable r"] p(2) show ?thesis by auto
  qed
  show "type_index r = Some p \<Longrightarrow> packed_ok p \<and> ref_heap_type r = map_option Concrete (unpack p)"
  proof (cases h)
    case (Abstract s a)
    assume "type_index r = Some p"
    moreover have "\<not> is_concrete_type_ref r"
      using h(2) Abstract ref_new_abstract ref_abstract_parts(1) by (metis option.inject)
    ultimately show ?thesis by (simp add: type_index_def)
  next
    case (Concrete u)
    assume "type_index r = Some p"
    with concrete [OF Concrete] show ?thesis by (simp add: ref_heap_type_def type_index_def split: if_splits)
  qed
  show "type_index r = None \<Longrightarrow> \<exists>s a. ref_heap_type r = Some (Abstract s a)"
    using h(1) concrete by (cases h) auto
qed

text \<open>A type is canonicalized when its indices are identifiers that exist.\<close>

definition index_known :: "(u32 \<Rightarrow> sub_type option) \<Rightarrow> packed_index \<Rightarrow> bool" where
  "index_known types p \<longleftrightarrow> (\<exists>tid. unpack p = Some (CoreTypeId tid) \<and> types tid \<noteq> None)"

lemma canonical_val_iff:
  "canonical types t \<longleftrightarrow> val_ok t \<and> list_all (index_known types) (val_indices t)"
proof (cases t)
  case (Ref r)
  show ?thesis
  proof (cases "ref_ok r")
    case True
    show ?thesis
    proof (cases "type_index r")
      case None
      with type_index_ok(2) [OF True] Ref True show ?thesis by (auto simp: canonical_ref_def)
    next
      case (Some p)
      with type_index_ok(1) [OF True Some] packed_ok_unpack [of p] Ref True show ?thesis
        by (auto simp: canonical_ref_def index_known_def split: unpacked_index.splits)
    qed
  qed (simp add: Ref canonical_ref_def)
qed simp_all

lemma canonical_storage_iff:
  "canonical_storage types t \<longleftrightarrow> storage_ok t \<and> list_all (index_known types) (storage_indices t)"
  by (cases t) (simp_all add: canonical_val_iff)

text \<open>The extra condition on a continuation type is that it is about a function.\<close>

fun cont_func :: "(u32 \<Rightarrow> sub_type option) \<Rightarrow> composite_inner_type \<Rightarrow> bool" where
  "cont_func types (CompCont (ContType p)) \<longleftrightarrow>
     (\<forall>tid st. unpack p = Some (CoreTypeId tid) \<longrightarrow> types tid = Some st \<longrightarrow>
        is_func_type (comp_inner (composite_type st)))"
| "cont_func types _ \<longleftrightarrow> True"

lemma is_func_type_case: "is_func_type t = (case t of CompFunc _ \<Rightarrow> True | _ \<Rightarrow> False)"
  by (cases t) simp_all

lemma canonical_inner_iff:
  "canonical_inner types t \<longleftrightarrow>
     inner_ok t \<and> list_all (index_known types) (inner_indices t) \<and> cont_func types t"
proof (cases "(types, t)" rule: canonical_inner.cases)
  case (1 types' ft)
  then show ?thesis
    by (auto simp: canonical_func_def canonical_val_iff list_all_iff)
next
  case (4 types' p)
  then show ?thesis
    by (auto simp: index_known_def is_func_type_case split: option.splits unpacked_index.splits)
qed (auto simp: canonical_storage_iff list_all_iff)

section \<open>Remapping\<close>

definition remaps :: "(packed_index \<Rightarrow> 'e + packed_index) \<Rightarrow> packed_index list \<Rightarrow> packed_index list \<Rightarrow> bool" where
  "remaps f ps qs \<longleftrightarrow> list_all2 (\<lambda>p q. f p = Inr q) ps qs"

definition keeps_ok :: "(packed_index \<Rightarrow> 'e + packed_index) \<Rightarrow> bool" where
  "keeps_ok f \<longleftrightarrow> (\<forall>p q. packed_ok p \<longrightarrow> f p = Inr q \<longrightarrow> packed_ok q)"

lemma ref_ok_concrete: "packed_ok p \<Longrightarrow> ref_ok (ref_concrete n p)"
proof -
  assume "packed_ok p"
  then obtain u where "pack u = Some p" by (auto simp: packed_ok_def)
  then have "ref_new n (Concrete u) = Some (ref_concrete n p)" by simp
  then show "ref_ok (ref_concrete n p)" by (rule ref_ok_new)
qed

lemma val_type_remap_ok:
  assumes "val_type_remap f t = Inr t'" "val_ok t" "keeps_ok f"
  shows "val_ok t' \<and> remaps f (val_indices t) (val_indices t')"
proof (cases t)
  case (Ref r)
  show ?thesis
  proof (cases "type_index r")
    case None
    with Ref assms(1,2) show ?thesis by (auto simp: remaps_def)
  next
    case (Some p)
    with Ref assms(1) obtain q where q: "f p = Inr q" "t' = Ref (ref_concrete (is_nullable r) q)"
      by (auto simp: bind_res_Inr_iff)
    have "packed_ok q"
      using type_index_ok(1) [OF _ Some] assms(2,3) Ref q(1) by (auto simp: keeps_ok_def)
    moreover from this have "ref_ok (ref_concrete (is_nullable r) q)"
      by (rule ref_ok_concrete)
    ultimately show ?thesis using q Ref Some by (simp add: remaps_def ref_concrete_parts)
  qed
qed (use assms(1) in \<open>auto simp: remaps_def\<close>)

lemma storage_type_remap_ok:
  assumes "storage_type_remap f t = Inr t'" "storage_ok t" "keeps_ok f"
  shows "storage_ok t' \<and> remaps f (storage_indices t) (storage_indices t')"
  using assms val_type_remap_ok [of f]
  by (cases t) (auto simp: bind_res_Inr_iff remaps_def)

lemma field_type_remap_ok:
  assumes "field_type_remap f t = Inr t'" "storage_ok (element_type t)" "keeps_ok f"
  shows "storage_ok (element_type t') \<and> remaps f (storage_indices (element_type t)) (storage_indices (element_type t'))"
  using assms storage_type_remap_ok [of f] by (auto simp: field_type_remap_def bind_res_Inr_iff)

lemma remaps_concat:
  assumes "list_all2 (\<lambda>x y. remaps f (g x) (g y)) xs ys"
  shows "remaps f (concat (map g xs)) (concat (map g ys))"
  using assms unfolding remaps_def
  by (induction rule: list_all2_induct) (auto intro: list_all2_appendI)

lemma collect_remap_ok:
  assumes "collect_res h xs = Inr ys" "list_all ok xs"
    and "\<And>x y. h x = Inr y \<Longrightarrow> ok x \<Longrightarrow> ok y \<and> remaps f (g x) (g y)"
  shows "list_all ok ys \<and> remaps f (concat (map g xs)) (concat (map g ys)) \<and> length ys = length xs"
proof -
  from assms(1) have all: "list_all2 (\<lambda>x y. h x = Inr y) xs ys" by (simp add: collect_res_Inr_iff)
  then have "list_all2 (\<lambda>x y. ok y \<and> remaps f (g x) (g y)) xs ys"
    using assms(2,3) by (induction rule: list_all2_induct) auto
  then have "list_all ok ys" "list_all2 (\<lambda>x y. remaps f (g x) (g y)) xs ys"
    by (auto simp: list_all_length list_all2_conv_all_nth)
  with remaps_concat list_all2_lengthD [OF all] show ?thesis by auto
qed

lemma func_parts: "func_params ft @ func_results ft = params_results ft"
  by (simp add: func_params_def func_results_def)

lemma inner_type_remap_ok:
  assumes "inner_type_remap f t = Inr t'" "inner_ok t" "keeps_ok f"
  shows "inner_ok t' \<and> remaps f (inner_indices t) (inner_indices t') \<and> same_kind t t'"
proof (cases "(f, t)" rule: inner_type_remap.cases)
  case (1 f' ft)
  with assms(1) obtain ps rs where run: "collect_res (val_type_remap f) (func_params ft) = Inr ps"
    "collect_res (val_type_remap f) (func_results ft) = Inr rs"
    "t' = CompFunc (ft\<lparr>params_results := ps @ rs\<rparr>)"
    by (auto simp: bind_res_Inr_iff)
  have ok: "list_all val_ok (func_params ft)" "list_all val_ok (func_results ft)"
    using assms(2) 1 by (auto simp: func_params_def func_results_def list_all_iff dest: in_set_takeD in_set_dropD)
  note p = collect_remap_ok [OF run(1) ok(1) val_type_remap_ok [OF _ _ assms(3)]]
  note r = collect_remap_ok [OF run(2) ok(2) val_type_remap_ok [OF _ _ assms(3)]]
  have "remaps f (concat (map val_indices (params_results ft))) (concat (map val_indices (ps @ rs)))"
    using p r unfolding func_parts [symmetric, of ft] by (auto simp: remaps_def intro: list_all2_appendI)
  moreover have "len_params ft = length ps" using p assms(2) 1 by (simp add: func_params_def)
  ultimately show ?thesis
    using p r run(3) 1 assms(2) by (auto simp: func_params_def func_results_def)
next
  case (3 f' fs)
  with assms(1) obtain gs where run: "collect_res (field_type_remap f) fs = Inr gs"
    "t' = CompStruct (StructType gs)"
    by (auto simp: bind_res_Inr_iff)
  have "list_all (\<lambda>t. storage_ok (element_type t)) gs
    \<and> remaps f (concat (map (\<lambda>t. storage_indices (element_type t)) fs))
        (concat (map (\<lambda>t. storage_indices (element_type t)) gs)) \<and> length gs = length fs"
    by (rule collect_remap_ok [OF run(1)]) (use 3 assms(2) field_type_remap_ok [OF _ _ assms(3)] in auto)
  with 3 run(2) assms(2) show ?thesis by simp
qed (use assms field_type_remap_ok [of f] in \<open>auto simp: bind_res_Inr_iff remaps_def keeps_ok_def\<close>)

lemma sub_type_remap_ok:
  assumes "sub_type_remap f st = Inr st'" "sub_ok st" "keeps_ok f"
  shows "sub_ok st'"
    "remaps f (inner_indices (comp_inner (composite_type st))) (inner_indices (comp_inner (composite_type st')))"
    "rel_option (\<lambda>p q. f p = Inr q) (supertype_idx st) (supertype_idx st')"
    "compatible st st'" "is_final st' = is_final st"
  using assms inner_type_remap_ok [of f "comp_inner (composite_type st)", OF _ _ assms(3)]
  by (auto simp: sub_type_remap_def bind_res_Inr_iff sub_ok_def keeps_ok_def compatible_def
    split: option.splits)

section \<open>Interning\<close>

lemma intern_type_InrE:
  assumes "intern_type start gid ty ts = Inr ts'"
  obtains super ty' where "interned_supertype start (supertype_idx ty) = Some super"
    "sub_type_remap (intern_index start) ty = Inr ty'"
    "ts' = ts\<lparr>core_type_to_supertype := snap_push super (core_type_to_supertype ts),
       core_types := snap_push ty' (core_types ts),
       core_type_to_rec_group := snap_push gid (core_type_to_rec_group ts)\<rparr>"
  using assms by (auto simp: intern_type_def bind_res_Inr_iff split: if_splits)

lemma intern_types_grow:
  assumes "intern_types start gid tys ts = Inr ts'"
  shows "length (snap_list (core_types ts')) = length (snap_list (core_types ts)) + length tys
    \<and> (snap_wf (core_types ts) \<longrightarrow> snap_wf (core_types ts'))"
  using assms
proof (induction tys arbitrary: ts)
  case (Cons ty tys)
  then obtain ts1 where run: "intern_type start gid ty ts = Inr ts1" "intern_types start gid tys ts1 = Inr ts'"
    by (auto simp: bind_res_Inr_iff)
  from run(1) have "length (snap_list (core_types ts1)) = Suc (length (snap_list (core_types ts)))
      \<and> (snap_wf (core_types ts) \<longrightarrow> snap_wf (core_types ts1))"
    by (rule intern_type_InrE) simp
  with Cons.IH [OF run(2)] show ?case by simp
qed simp

text \<open>What interning appends: the types with their local indices resolved, and their supertypes.\<close>

definition interned ::
  "u32 \<Rightarrow> sub_type list \<Rightarrow> type_list \<Rightarrow> type_list \<Rightarrow> sub_type list \<Rightarrow> u32 option list \<Rightarrow> bool" where
  "interned start tys ts ts' new sups \<longleftrightarrow>
     list_all2 (\<lambda>ty ty'. sub_type_remap (intern_index start) ty = Inr ty') tys new
     \<and> list_all2 (\<lambda>ty super. interned_supertype start (supertype_idx ty) = Some super) tys sups
     \<and> snap_list (core_types ts') = snap_list (core_types ts) @ new
     \<and> snap_list (core_type_to_supertype ts') = snap_list (core_type_to_supertype ts) @ sups
     \<and> rec_group_elements ts' = rec_group_elements ts
     \<and> canonical_rec_groups ts' = canonical_rec_groups ts \<and> core_type_to_depth ts' = core_type_to_depth ts"

lemma intern_types_lists:
  assumes "intern_types start gid tys ts = Inr ts'" "lists_wf ts"
    and "length (snap_list (core_types ts')) < 2 ^ 32"
  shows "lists_wf ts' \<and> (\<exists>new sups. interned start tys ts ts' new sups)"
  using assms
proof (induction tys arbitrary: ts)
  case (Cons ty tys)
  then obtain ts1 where run: "intern_type start gid ty ts = Inr ts1" "intern_types start gid tys ts1 = Inr ts'"
    by (auto simp: bind_res_Inr_iff)
  from run(1) obtain super ty' where ty': "interned_supertype start (supertype_idx ty) = Some super"
    "sub_type_remap (intern_index start) ty = Inr ty'"
    and ts1: "ts1 = ts\<lparr>core_type_to_supertype := snap_push super (core_type_to_supertype ts),
              core_types := snap_push ty' (core_types ts),
              core_type_to_rec_group := snap_push gid (core_type_to_rec_group ts)\<rparr>"
    by (rule intern_type_InrE)
  have "length (snap_list (core_types ts1)) < 2 ^ 32"
    using intern_types_grow [OF run(2)] Cons.prems(3) by simp
  then have "lists_wf ts1" using Cons.prems(2) by (simp add: lists_wf_def ts1)
  from Cons.IH [OF run(2) this Cons.prems(3)] obtain new sups
    where "lists_wf ts'" "interned start tys ts1 ts' new sups" by blast
  with ty' show ?case
    by (intro conjI exI [of _ "ty' # new"] exI [of _ "super # sups"]) (simp_all add: ts1 interned_def)
next
  case Nil
  then have "interned start [] ts ts' [] []" by (simp add: interned_def)
  with Nil show ?case by auto
qed

text \<open>Resolving a local index.\<close>

lemma try_u32_Some: "try_u32 n = Some x \<Longrightarrow> n < 2 ^ 32 \<and> x = of_nat n \<and> unat x = n"
  by (auto simp: try_u32_def unat_of_nat take_bit_nat_eq_self split: if_splits)

lemma index_add_Some: "index_add a b = Some c \<Longrightarrow> unat c = unat a + unat b"
  by (auto simp: index_add_def dest: try_u32_Some)

lemma pack_ok: "pack u = Some p \<Longrightarrow> packed_ok p"
  by (auto simp: packed_ok_def)

lemma from_index_Some:
  "from_id tid = Some q \<Longrightarrow> packed_ok q \<and> unpack q = Some (CoreTypeId tid)"
  "from_rec_group_index off = Some q \<Longrightarrow> packed_ok q \<and> unpack q = Some (RecGroupIndex off)"
  using pack_ok [of "CoreTypeId tid" q] unpack_pack [of "CoreTypeId tid" q]
    pack_ok [of "RecGroupIndex off" q] unpack_pack [of "RecGroupIndex off" q] by simp_all

lemma intern_index_Inr:
  assumes "intern_index start p = Inr q" "packed_ok p"
  shows "packed_ok q \<and> (case the (unpack p) of
      RecGroupIndex off \<Rightarrow> (\<exists>tid. index_add start off = Some tid \<and> unpack q = Some (CoreTypeId tid))
    | _ \<Rightarrow> q = p)"
proof -
  from packed_ok_unpack [OF assms(2)] obtain u where u: "unpack p = Some u" by blast
  show ?thesis
  proof (cases u)
    case (RecGroupIndex off)
    with assms(1) u obtain tid where "index_add start off = Some tid" "from_id tid = Some q"
      by (auto simp: intern_index_def bind_eq_Some_conv)
    with u RecGroupIndex from_index_Some(1) show ?thesis by auto
  qed (use assms u in \<open>auto simp: intern_index_def\<close>)
qed

lemma keeps_ok_intern_index: "keeps_ok (intern_index start)"
  using intern_index_Inr by (auto simp: keeps_ok_def)

section \<open>Canonicalization\<close>

text \<open>
  The indices of a type after canonicalization of a group of \<open>len\<close> types, in a module whose types
  have the identifiers \<open>ids\<close>: identifiers of the module, or indices in the group.
\<close>

definition index_canonical :: "u32 list \<Rightarrow> nat \<Rightarrow> packed_index \<Rightarrow> bool" where
  "index_canonical ids len p \<longleftrightarrow> packed_ok p \<and>
     (case the (unpack p) of
        CoreTypeId tid \<Rightarrow> tid \<in> set ids
      | RecGroupIndex off \<Rightarrow> unat off < len
      | Module _ \<Rightarrow> False)"

definition index_fresh :: "packed_index \<Rightarrow> bool" where
  "index_fresh p \<longleftrightarrow> packed_ok p \<and> (\<exists>i. unpack p = Some (Module i))"

definition group_canonicalizer :: "wasm_features \<Rightarrow> u32 list \<Rightarrow> usize \<Rightarrow> nat \<Rightarrow> type_canonicalizer" where
  "group_canonicalizer fs ids off len =
     (with_features fs (canonicalizer_new ids off))\<lparr>rec_group_start := of_nat (length ids),
       rec_group_len := of_nat len\<rparr>"

lemma canonicalize_type_index_ok:
  assumes "canonicalize_type_index (group_canonicalizer fs ids off len) p = Inr q" "index_fresh p"
    and "length ids < 2 ^ 32" "len < 2 ^ 32"
  shows "index_canonical ids len q"
    "\<And>i. unpack p = Some (Module i) \<Longrightarrow> unat i < length ids + k \<Longrightarrow> k \<le> len \<Longrightarrow>
       (case the (unpack q) of RecGroupIndex l \<Rightarrow> unat l < k | _ \<Rightarrow> True)"
proof -
  let ?cz = "group_canonicalizer fs ids off len"
  have cz: "cz_ids ?cz = ids" "unat (rec_group_start ?cz) = length ids" "unat (rec_group_len ?cz) = len"
    "cz_mode ?cz = HashConsing"
    using assms(3,4)
    by (simp_all add: group_canonicalizer_def with_features_def canonicalizer_new_def unat_of_nat
      take_bit_nat_eq_self)
  from assms(2) obtain i where i: "unpack p = Some (Module i)" by (auto simp: index_fresh_def)
  with assms(1) have "canonicalize_module_index ?cz i = Inr q" by (simp add: canonicalize_type_index_def)
  then consider (outer) tid where "type_id_at ids i (cz_offset ?cz) = Inr tid" "from_id tid = Some q"
    | (inner) "\<not> i < rec_group_start ?cz" "i - rec_group_start ?cz < rec_group_len ?cz"
        "from_rec_group_index (i - rec_group_start ?cz) = Some q"
    by (auto simp: canonicalize_module_index_def bind_res_Inr_iff fail_at_def cz Let_def
      split: if_splits option.splits)
  note cases = this
  have sub: "unat (i - rec_group_start ?cz) = unat i - length ids" if "\<not> i < rec_group_start ?cz"
    using that cz(2) by (simp add: unat_sub not_less)
  show "index_canonical ids len q"
  proof (cases rule: cases)
    case (outer tid)
    then have "tid \<in> set ids"
      by (auto simp: type_id_at_def fail_at_def nth_opt_def split: if_splits option.splits)
    with from_index_Some(1) [OF outer(2)] show ?thesis by (simp add: index_canonical_def)
  next
    case inner
    with from_index_Some(2) [OF inner(3)] cz(3) show ?thesis
      by (simp add: index_canonical_def word_less_nat_alt)
  qed
  show "case the (unpack q) of RecGroupIndex l \<Rightarrow> unat l < k | _ \<Rightarrow> True"
    if "unpack p = Some (Module i')" "unat i' < length ids + k" "k \<le> len" for i'
  proof (cases rule: cases)
    case (outer tid)
    from from_index_Some(1) [OF outer(2)] show ?thesis by simp
  next
    case inner
    have "length ids \<le> unat i" using inner(1) cz(2) by (simp add: not_less word_le_nat_alt)
    with that i sub [OF inner(1)] from_index_Some(2) [OF inner(3)] show ?thesis by simp
  qed
qed

definition sub_fresh :: "sub_type \<Rightarrow> bool" where
  "sub_fresh st \<longleftrightarrow> sub_ok st \<and> list_all index_fresh (inner_indices (comp_inner (composite_type st)))
     \<and> (\<forall>p. supertype_idx st = Some p \<longrightarrow> index_fresh p)"

definition sub_canonical :: "u32 list \<Rightarrow> nat \<Rightarrow> nat \<Rightarrow> sub_type \<Rightarrow> bool" where
  "sub_canonical ids len k st \<longleftrightarrow> sub_ok st
     \<and> list_all (index_canonical ids len) (inner_indices (comp_inner (composite_type st)))
     \<and> (\<forall>p. supertype_idx st = Some p \<longrightarrow> index_canonical ids len p
          \<and> (case the (unpack p) of RecGroupIndex l \<Rightarrow> unat l < k | _ \<Rightarrow> True))"

lemma keeps_ok_canonicalize: "keeps_ok (canonicalize_type_index (group_canonicalizer fs ids off len))"
proof -
  have "packed_ok q" if p: "packed_ok p"
    and q: "canonicalize_type_index (group_canonicalizer fs ids off len) p = Inr q" for p q
  proof -
    from packed_ok_unpack [OF p] obtain u where "unpack p = Some u" by blast
    with p q show ?thesis
      by (cases u)
        (auto simp: canonicalize_type_index_def canonicalize_module_index_def group_canonicalizer_def
          with_features_def canonicalizer_new_def bind_res_Inr_iff fail_at_def Let_def
          dest: from_index_Some split: if_splits option.splits)
  qed
  then show ?thesis by (auto simp: keeps_ok_def)
qed

lemma remaps_list_all:
  assumes "remaps f ps qs" "list_all P ps" "\<And>p q. f p = Inr q \<Longrightarrow> P p \<Longrightarrow> Q q"
  shows "list_all Q qs"
  using assms unfolding remaps_def by (induction rule: list_all2_induct) auto

lemma canonicalize_sub_type_ok:
  assumes "canonicalize_sub_type (group_canonicalizer fs ids off len) k st = Inr st'" "sub_fresh st"
    and "length ids < 2 ^ 32" "len < 2 ^ 32" "k < len"
  shows "sub_canonical ids len k st'"
proof -
  let ?cz = "group_canonicalizer fs ids off len"
  have start: "unat (rec_group_start ?cz) = length ids"
    using assms(3) by (simp add: group_canonicalizer_def unat_of_nat take_bit_nat_eq_self)
  from assms(1) obtain ti where ti: "Option.bind (try_u32 k) (index_add (rec_group_start ?cz)) = Some ti"
    and before: "case Option.bind (supertype_idx st) packed_as_module_index of Some i \<Rightarrow> \<not> i \<ge> ti | None \<Rightarrow> True"
    and run: "sub_type_remap (canonicalize_type_index ?cz) st = Inr st'"
    by (auto simp: canonicalize_sub_type_def bind_res_Inr_iff require_def fail_at_def split: if_splits)
  have ti': "unat ti = length ids + k"
    using ti start by (auto simp: bind_eq_Some_conv dest!: try_u32_Some index_add_Some)
  have ok: "sub_ok st" using assms(2) by (simp add: sub_fresh_def)
  note r = sub_type_remap_ok [OF run ok keeps_ok_canonicalize]
  note canon = canonicalize_type_index_ok [OF _ _ assms(3,4), of fs off]
  have "list_all (index_canonical ids len) (inner_indices (comp_inner (composite_type st')))"
    by (rule remaps_list_all [OF r(2), of index_fresh]) (use assms(2) canon(1) in \<open>auto simp: sub_fresh_def\<close>)
  moreover have "index_canonical ids len q \<and> (case the (unpack q) of RecGroupIndex l \<Rightarrow> unat l < k | _ \<Rightarrow> True)"
    if q: "supertype_idx st' = Some q" for q
  proof -
    from r(3) q obtain p where p: "supertype_idx st = Some p" "canonicalize_type_index ?cz p = Inr q"
      by (auto simp: option_rel_Some2)
    with assms(2) obtain i where i: "index_fresh p" "unpack p = Some (Module i)"
      by (auto simp: sub_fresh_def index_fresh_def)
    then have "packed_as_module_index p = Some i"
      by (auto simp: unpack_def packed_as_module_index_def split: if_splits)
    with before p(1) have "\<not> i \<ge> ti" by simp
    then have "unat i < length ids + k" using ti' by (simp add: not_le word_less_nat_alt)
    with canon [OF p(2) i(1)] i(2) assms(5) show ?thesis by simp
  qed
  ultimately show ?thesis using r(1) by (simp add: sub_canonical_def)
qed

lemma rec_group_map_types:
  assumes "rec_group_map f rg = Inr rg'"
  shows "length (rec_group_types rg') = length (rec_group_types rg)
    \<and> (\<forall>k < length (rec_group_types rg). f k (rec_group_types rg ! k) = Inr (rec_group_types rg' ! k))"
proof (cases rg)
  case (Implicit x)
  with assms show ?thesis by (cases x) (auto simp: rec_group_map_def rec_group_types_def bind_res_Inr_iff)
next
  case (Explicit tys)
  with assms obtain tys' where tys': "rg' = Explicit tys'"
    "list_all2 (\<lambda>(k, off, ty) y. bind_res (f k ty) (\<lambda>ty. Inr (off, ty)) = Inr y) (enumerate 0 tys) tys'"
    by (auto simp: rec_group_map_def bind_res_Inr_iff collect_res_Inr_iff case_prod_unfold)
  have "f k (snd (tys ! k)) = Inr (snd (tys' ! k))" if "k < length tys" for k
    using list_all2_nthD [OF tys'(2), of k] that
    by (auto simp: nth_enumerate_eq bind_res_Inr_iff case_prod_unfold) (metis snd_conv)
  with Explicit tys'(1) list_all2_lengthD [OF tys'(2)] show ?thesis by (simp add: rec_group_types_def)
qed

lemma canonicalize_rec_group_ok:
  assumes "canonicalize_rec_group (with_features fs (canonicalizer_new ids off)) rg = Inr rg'"
    and "list_all sub_fresh (rec_group_types rg)"
  shows "length (rec_group_types rg') = length (rec_group_types rg)"
    "\<And>k. k < length (rec_group_types rg') \<Longrightarrow>
       sub_canonical ids (length (rec_group_types rg')) k (rec_group_types rg' ! k)"
    "length ids < 2 ^ 32" "length (rec_group_types rg') < 2 ^ 32"
proof -
  let ?len = "length (rec_group_types rg)"
  from assms(1) obtain start len where "try_u32 (length ids) = Some start" "try_u32 ?len = Some len"
    and run: "rec_group_map (canonicalize_sub_type ((with_features fs (canonicalizer_new ids off))
      \<lparr>rec_group_start := start, rec_group_len := len\<rparr>)) rg = Inr rg'"
    by (auto simp: canonicalize_rec_group_def types_len_def bind_res_Inr_iff with_features_def
      canonicalizer_new_def)
  then have len: "length ids < 2 ^ 32" "?len < 2 ^ 32"
    and eq: "(with_features fs (canonicalizer_new ids off))\<lparr>rec_group_start := start, rec_group_len := len\<rparr>
      = group_canonicalizer fs ids off ?len"
    by (auto dest!: try_u32_Some simp: group_canonicalizer_def)
  note m = rec_group_map_types [OF run [unfolded eq]]
  show same: "length (rec_group_types rg') = ?len" using m by simp
  show "length ids < 2 ^ 32" "length (rec_group_types rg') < 2 ^ 32" using len same by simp_all
  show "sub_canonical ids (length (rec_group_types rg')) k (rec_group_types rg' ! k)"
    if "k < length (rec_group_types rg')" for k
    using that m assms(2) len unfolding same
    by (intro canonicalize_sub_type_ok [of fs ids off ?len k "rec_group_types rg ! k"])
      (auto simp: list_all_length)
qed

end
