(* ===== verification/Type_Groups.thy ===== *)
theory Type_Groups
  imports Type_Interning
begin

text \<open>
  The invariant of the list of types, and that a recursion group that is added without an error keeps
  it: \<open>add_rec_group_wf\<close>.
\<close>

section \<open>Extending the list\<close>

lemma canonical_inner_mono:
  assumes "canonical_inner types t" "\<And>tid st. types tid = Some st \<Longrightarrow> types' tid = Some st"
  shows "canonical_inner types' t"
proof -
  from assms(1) have ok: "inner_ok t" "list_all (index_known types) (inner_indices t)" "cont_func types t"
    by (simp_all add: canonical_inner_iff)
  have "list_all (index_known types') (inner_indices t)"
    using ok(2) assms(2) by (fastforce simp: list_all_iff index_known_def)
  moreover have "cont_func types' t"
  proof (cases "(types, t)" rule: cont_func.cases)
    case (1 types0 p)
    with ok(2,3) obtain tid st where "unpack p = Some (CoreTypeId tid)" "types tid = Some st"
      "is_func_type (comp_inner (composite_type st))"
      by (auto simp: index_known_def)
    with 1 assms(2) show ?thesis by simp
  qed auto
  ultimately show ?thesis using ok(1) by (simp add: canonical_inner_iff)
qed

text \<open>The depths are not read by the look-ups.\<close>

lemma update_depth [simp]:
  "type_at (ts\<lparr>core_type_to_depth := d\<rparr>) = type_at ts"
  "supertype_of (ts\<lparr>core_type_to_depth := d\<rparr>) = supertype_of ts"
  "rec_group_at (ts\<lparr>core_type_to_depth := d\<rparr>) = rec_group_at ts"
  "lists_wf (ts\<lparr>core_type_to_depth := d\<rparr>) = lists_wf ts"
  by (simp_all add: fun_eq_iff type_at_def supertype_of_def rec_group_at_def lists_wf_def)

lemma update_elements [simp]:
  "type_at (ts\<lparr>rec_group_elements := e\<rparr>) = type_at ts"
  "supertype_of (ts\<lparr>rec_group_elements := e\<rparr>) = supertype_of ts"
  by (simp_all add: fun_eq_iff type_at_def supertype_of_def)

lemma update_groups [simp]:
  "type_at (ts\<lparr>canonical_rec_groups := m\<rparr>) = type_at ts"
  "supertype_of (ts\<lparr>canonical_rec_groups := m\<rparr>) = supertype_of ts"
  "lists_wf (ts\<lparr>canonical_rec_groups := m\<rparr>) = lists_wf ts"
  by (simp_all add: fun_eq_iff type_at_def supertype_of_def lists_wf_def)

section \<open>What the checks of a type establish\<close>

lemma fast_no_indices:
  assumes "\<not> needs_type_canonicalization fs" "features_check_value_type fs t = Inr ()" "val_ok t"
  shows "val_indices t = []"
proof (cases t)
  case (Ref r)
  have "GC \<notin> fs" "FUNCTION_REFERENCES \<notin> fs"
    using assms(1) by (auto simp: needs_type_canonicalization_def feature_sets)
  moreover have "type_index r = Some p \<Longrightarrow> ref_heap_type r = map_option Concrete (unpack p)"
    "type_index r = Some p \<Longrightarrow> unpack p \<noteq> None" for p
    using type_index_ok(1) [of r p] packed_ok_unpack [of p] assms(3) Ref by auto
  ultimately show ?thesis
    using assms(2) Ref
    by (cases "type_index r") (auto simp: features_check_ref_type_def split: if_splits)
qed simp_all

lemma check_part_Inr: "check_part fs ts off shared t = Inr u \<Longrightarrow> features_check_value_type fs t = Inr ()"
  by (auto simp: check_part_def bind_res_Inr_iff fail_at_def split: sum.splits)

lemma check_all_Inr: "check_all f xs = Inr u \<Longrightarrow> x \<in> set xs \<Longrightarrow> f x = Inr ()"
  by (auto simp: check_all_def bind_res_Inr_iff collect_res_Inr_iff list_all2_conv_all_nth in_set_conv_nth)

lemma check_inner_fast:
  assumes "check_inner_type fs ts off shared t = Inr u" "\<not> needs_type_canonicalization fs" "inner_ok t"
  shows "inner_indices t = []" "cont_func types t"
proof -
  have no: "GC \<notin> fs" "STACK_SWITCHING \<notin> fs"
    using assms(2) by (auto simp: needs_type_canonicalization_def feature_sets)
  obtain ft where t: "t = CompFunc ft"
    using assms(1) no
    by (cases "(fs, ts, off, shared, t)" rule: check_inner_type.cases)
      (auto simp: bind_res_Inr_iff require_def fail_at_def)
  then show "cont_func types t" by simp
  from assms(1) t have "check_all (check_part fs ts off shared) (params_results ft) = Inr ()"
    by (auto simp: bind_res_Inr_iff func_parts)
  then have "\<forall>v \<in> set (params_results ft). val_indices v = []"
    using assms(2,3) t by (auto simp: list_all_iff intro!: fast_no_indices dest: check_all_Inr check_part_Inr)
  with t show "inner_indices t = []" by simp
qed

lemma check_inner_cont:
  assumes "check_inner_type fs ts off shared t = Inr u"
  shows "cont_func (type_at ts) t"
proof (cases "(type_at ts, t)" rule: cont_func.cases)
  case (1 types p)
  with assms obtain tid st where "packed_as_core_type_id p = Some tid" "type_at ts tid = Some st"
    "is_func_type (comp_inner (composite_type st))"
    by (auto simp: bind_res_Inr_iff require_def fail_at_def split: if_splits)
  moreover from this(1) have "unpack p = Some (CoreTypeId tid)"
    by (auto simp: packed_as_core_type_id_def unpack_def split: if_splits)
  ultimately show ?thesis using 1 by simp
qed auto

lemma types_matches_compatible:
  assumes "types_matches ts a b = Some True" "type_at ts a = Some sa" "type_at ts b = Some sb"
  shows "compatible sa sb"
proof -
  have "same_kind x y" if "matches_inner ts ga x gb y = Some True" for x y ga gb
    using that by (cases "(ts, ga, x, gb, y)" rule: matches_inner.cases) auto
  with assms show ?thesis
    by (auto simp: types_matches_def bind_eq_Some_conv matches_composite_def compatible_def split: if_splits)
qed

text \<open>\<open>type_checked fs ids ts tid\<close>: the facts that \<open>check_subtype\<close> has checked of a type.\<close>

definition type_checked :: "wasm_features \<Rightarrow> type_list \<Rightarrow> u32 \<Rightarrow> bool" where
  "type_checked fs ts tid \<longleftrightarrow>
     (\<exists>st off. type_at ts tid = Some st
        \<and> (\<exists>d. check_inner_type fs (ts\<lparr>core_type_to_depth := d\<rparr>) off (comp_shared (composite_type st))
             (comp_inner (composite_type st)) = Inr ())
        \<and> (GC \<notin> fs \<longrightarrow> supertype_idx st = None)
        \<and> (\<forall>p sid. supertype_idx st = Some p \<longrightarrow> unpack p = Some (CoreTypeId sid) \<longrightarrow>
             (\<exists>super. type_at ts sid = Some super \<and> compatible st super)))"

lemma check_subtype_checked:
  assumes "check_subtype ids gid tid fs off (ts\<lparr>core_type_to_depth := d\<rparr>) = Inr ts'"
  shows "type_checked fs ts tid" "\<exists>d'. ts' = ts\<lparr>core_type_to_depth := d'\<rparr>"
proof -
  let ?ts = "ts\<lparr>core_type_to_depth := d\<rparr>"
  from assms obtain st depth where st: "type_at ts tid = Some st" "GC \<notin> fs \<longrightarrow> supertype_idx st = None"
    and check: "check_composite_type fs ?ts off (composite_type st) = Inr ()"
    and super: "(case supertype_idx st of Some super \<Rightarrow> check_supertype ids ?ts gid tid super off
       | None \<Rightarrow> Inr 0) = Inr depth"
    and set: "set_subtyping_depth tid depth ?ts = Some ts'"
    by (auto simp: check_subtype_def bind_res_Inr_iff require_def fail_at_def split: if_splits)
  have "\<exists>super. type_at ts sid = Some super \<and> compatible st super"
    if p: "supertype_idx st = Some p" "unpack p = Some (CoreTypeId sid)" for p sid
  proof -
    from super p obtain sty where "type_at ts sid = Some sty" "types_matches ?ts tid sid = Some True"
      by (auto simp: check_supertype_def bind_res_Inr_iff at_packed_index_def require_def fail_at_def
        Let_def split: if_splits)
    with types_matches_compatible [of ?ts tid sid st sty] st show ?thesis by auto
  qed
  moreover have "check_inner_type fs ?ts off (comp_shared (composite_type st))
      (comp_inner (composite_type st)) = Inr ()"
    using check by (auto simp: check_composite_type_def bind_res_Inr_iff)
  ultimately show "type_checked fs ts tid" using st by (auto simp: type_checked_def)
  show "\<exists>d'. ts' = ts\<lparr>core_type_to_depth := d'\<rparr>"
    using set by (auto simp: set_subtyping_depth_def bind_eq_Some_conv split: if_splits)
qed

lemma type_checked_depth [simp]: "type_checked fs (ts\<lparr>core_type_to_depth := d\<rparr>) = type_checked fs ts"
  by (simp add: fun_eq_iff type_checked_def)

lemma add_type_ids_Inr:
  assumes "add_type_ids i n is_new gid fs off (ids, ts) = Inr (ids', ts')"
  shows "ids' = ids @ map of_nat [i..<i + n]" "\<exists>d. ts' = ts\<lparr>core_type_to_depth := d\<rparr>"
    "\<not> is_new \<Longrightarrow> ts' = ts"
    "is_new \<Longrightarrow> \<forall>k < n. type_checked fs ts (of_nat (i + k))"
proof -
  have "ids' = ids @ map of_nat [i..<i + n] \<and> (\<exists>d. ts' = ts\<lparr>core_type_to_depth := d\<rparr>)
    \<and> (\<not> is_new \<longrightarrow> ts' = ts) \<and> (is_new \<longrightarrow> (\<forall>k < n. type_checked fs ts (of_nat (i + k))))"
    using assms
  proof (induction n arbitrary: i ids ts)
    case (Suc n)
    then obtain tid ts1 where tid: "try_u32 i = Some tid"
      and check: "(if is_new then check_subtype (ids @ [tid]) gid tid fs off ts else Inr ts) = Inr ts1"
      and rest: "add_type_ids (Suc i) n is_new gid fs off (ids @ [tid], ts1) = Inr (ids', ts')"
      by (auto simp: bind_res_Inr_iff Let_def split: if_splits)
    have eq: "tid = of_nat i" using try_u32_Some [OF tid] by simp
    obtain d where d: "ts1 = ts\<lparr>core_type_to_depth := d\<rparr>" "is_new \<Longrightarrow> type_checked fs ts tid" "\<not> is_new \<Longrightarrow> ts1 = ts"
    proof (cases is_new)
      case True
      with check have run: "check_subtype (ids @ [tid]) gid tid fs off
          (ts\<lparr>core_type_to_depth := core_type_to_depth ts\<rparr>) = Inr ts1" by simp
      from check_subtype_checked(2) [OF run] obtain d where d: "ts1 = ts\<lparr>core_type_to_depth := d\<rparr>" ..
      show thesis by (rule that [OF d check_subtype_checked(1) [OF run]]) (use True in blast)
    next
      case False
      with check have "ts1 = ts" by simp
      with False show thesis by (intro that [of "core_type_to_depth ts"]) simp_all
    qed
    have all: "type_checked fs ts (of_nat (i + k))" if "is_new" "k < Suc n" for k
      using that d Suc.IH [OF rest] eq by (cases k) (auto simp del: of_nat_add of_nat_Suc)
    have "[i..<i + Suc n] = i # [Suc i..<Suc i + n]" by (simp add: upt_conv_Cons)
    then have "ids' = ids @ map of_nat [i..<i + Suc n]" using Suc.IH [OF rest] eq by simp
    with all d Suc.IH [OF rest] show ?case by auto
  next
    case 0
    then show ?case by simp (rule exI [of _ "core_type_to_depth ts'"], simp)
  qed
  then show "ids' = ids @ map of_nat [i..<i + n]" "\<exists>d. ts' = ts\<lparr>core_type_to_depth := d\<rparr>"
    "\<not> is_new \<Longrightarrow> ts' = ts" "is_new \<Longrightarrow> \<forall>k < n. type_checked fs ts (of_nat (i + k))"
    by simp_all
qed

section \<open>The invariant\<close>

text \<open>Every group is a range of types, and an interned group is the range of its types, with the local
  indices resolved from the start of the range. Interned groups have different identifiers.\<close>

definition group_types :: "type_list \<Rightarrow> rec_group \<Rightarrow> u32 \<Rightarrow> bool" where
  "group_types ts rg start \<longleftrightarrow>
     list_all2 (\<lambda>ty ty'. sub_type_remap (intern_index start) ty = Inr ty') (rec_group_types rg)
       (take (length (rec_group_types rg)) (drop (unat start) (snap_list (core_types ts))))"

definition groups_wf :: "type_list \<Rightarrow> bool" where
  "groups_wf ts \<longleftrightarrow>
     (\<forall>(start, end) \<in> set (snap_list (rec_group_elements ts)).
        unat start \<le> unat end \<and> unat end \<le> length (snap_list (core_types ts)))
     \<and> (\<forall>m rg gid. canonical_rec_groups ts = Some m \<longrightarrow> (rg, gid) \<in> set m \<longrightarrow>
          (\<exists>start end. rec_group_at ts gid = Some (start, end)
             \<and> unat end = unat start + length (rec_group_types rg) \<and> group_types ts rg start))
     \<and> (\<forall>m. canonical_rec_groups ts = Some m \<longrightarrow> distinct (map snd m))"

definition types_wf :: "type_list \<Rightarrow> bool" where
  "types_wf ts \<longleftrightarrow> lists_wf ts \<and> supers_wf ts \<and> kinds_wf ts \<and> groups_wf ts
     \<and> (\<forall>tid st. type_at ts tid = Some st \<longrightarrow> canonical_sub (type_at ts) st)"

definition ids_wf :: "type_list \<Rightarrow> u32 list \<Rightarrow> bool" where
  "ids_wf ts ids \<longleftrightarrow> (\<forall>tid \<in> set ids. type_at ts tid \<noteq> None)"

section \<open>The list after a new group\<close>

abbreviation type_count :: "type_list \<Rightarrow> nat" where
  "type_count ts \<equiv> length (snap_list (core_types ts))"

text \<open>\<open>grown fs tys new sups ts ts'\<close>: the types \<open>tys\<close> have been interned as \<open>new\<close> and checked.\<close>

definition grown ::
  "wasm_features \<Rightarrow> sub_type list \<Rightarrow> sub_type list \<Rightarrow> u32 option list \<Rightarrow> type_list \<Rightarrow> type_list \<Rightarrow> bool" where
  "grown fs tys new sups ts ts' \<longleftrightarrow> lists_wf ts \<and> lists_wf ts'
     \<and> list_all2 (\<lambda>ty ty'. sub_type_remap (intern_index (of_nat (type_count ts))) ty = Inr ty') tys new
     \<and> list_all2 (\<lambda>ty super. interned_supertype (of_nat (type_count ts)) (supertype_idx ty) = Some super)
         tys sups
     \<and> snap_list (core_types ts') = snap_list (core_types ts) @ new
     \<and> snap_list (core_type_to_supertype ts') = snap_list (core_type_to_supertype ts) @ sups
     \<and> (\<forall>k < length tys. type_checked fs ts' (of_nat (type_count ts + k)))"

lemma grown_sizes:
  assumes "grown fs tys new sups ts ts'"
  shows "unat (of_nat (type_count ts) :: u32) = type_count ts" "length new = length tys"
    "length sups = length tys" "type_count ts + length tys < 2 ^ 32"
  using assms
  by (auto simp: grown_def lists_wf_def unat_of_nat take_bit_nat_eq_self dest!: list_all2_lengthD)

lemma grown_type_at:
  assumes "grown fs tys new sups ts ts'"
  shows "type_at ts tid = Some st \<Longrightarrow> type_at ts' tid = Some st"
    "k < length tys \<Longrightarrow> type_at ts' (of_nat (type_count ts + k)) = Some (new ! k)"
  using assms grown_sizes [OF assms]
  by (auto simp: grown_def type_at_nth nth_append nth_opt_def unat_of_nat take_bit_nat_eq_self
    simp del: of_nat_add split: if_splits)

lemma grown_type_atE:
  assumes "grown fs tys new sups ts ts'" "type_at ts' tid = Some st"
  obtains (old) "type_at ts tid = Some st"
  | (new) k where "k < length tys" "tid = of_nat (type_count ts + k)" "st = new ! k"
proof (cases "unat tid < type_count ts")
  case True
  with assms old show thesis by (simp add: grown_def type_at_nth nth_opt_append)
next
  case False
  then have "tid = of_nat (type_count ts + (unat tid - type_count ts))" by simp
  with False assms grown_sizes(2) [OF assms(1)] that(2) [of "unat tid - type_count ts"] show thesis
    by (simp add: grown_def type_at_nth nth_opt_append nth_opt_Some_iff del: of_nat_add)
qed

lemma grown_supertype_ofE:
  assumes "grown fs tys new sups ts ts'" "supertype_of ts' tid = Some super"
  obtains (old) "supertype_of ts tid = Some super"
  | (new) k where "k < length tys" "tid = of_nat (type_count ts + k)" "super = sups ! k"
proof -
  have len: "length (snap_list (core_type_to_supertype ts)) = type_count ts"
    using assms(1) by (simp add: grown_def lists_wf_def)
  show thesis
  proof (cases "unat tid < type_count ts")
    case True
    with assms old len show thesis by (simp add: grown_def supertype_of_nth nth_opt_append)
  next
    case False
    then have "tid = of_nat (type_count ts + (unat tid - type_count ts))" by simp
    with False assms len grown_sizes(3) [OF assms(1)] that(2) [of "unat tid - type_count ts"] show thesis
      by (simp add: grown_def supertype_of_nth nth_opt_append nth_opt_Some_iff del: of_nat_add)
  qed
qed

text \<open>A type of the group at position \<open>k\<close> is ready for interning: its indices are canonical, or, when
  canonicalization is not needed, still indices of the module.\<close>

definition ready :: "wasm_features \<Rightarrow> u32 list \<Rightarrow> nat \<Rightarrow> nat \<Rightarrow> sub_type \<Rightarrow> bool" where
  "ready fs ids len k ty \<longleftrightarrow>
     (if needs_type_canonicalization fs then sub_canonical ids len k ty else sub_fresh ty)"

lemma ready_super:
  assumes "ready fs ids len k ty" "interned_supertype start (supertype_idx ty) = Some (Some b)"
    and "sub_type_remap (intern_index start) ty = Inr ty'"
  shows "(\<exists>l. unat b = unat start + l \<and> l < k) \<or> b \<in> set ids"
    "\<exists>q. supertype_idx ty' = Some q \<and> unpack q = Some (CoreTypeId b)"
proof -
  have ok: "sub_ok ty"
    using assms(1) by (auto simp: ready_def sub_canonical_def sub_fresh_def split: if_splits)
  from assms(2) obtain p where p: "supertype_idx ty = Some p" by (cases "supertype_idx ty") (auto simp: interned_supertype_def)
  with ok obtain u where u: "unpack p = Some u" "packed_ok p"
    using packed_ok_unpack by (auto simp: sub_ok_def)
  have canonical: "needs_type_canonicalization fs"
    using assms(1,2) p u by (auto simp: ready_def sub_fresh_def index_fresh_def interned_supertype_def split: if_splits)
  with assms(1) p have c: "index_canonical ids len p"
    "case the (unpack p) of RecGroupIndex l \<Rightarrow> unat l < k | _ \<Rightarrow> True"
    by (auto simp: ready_def sub_canonical_def)
  from sub_type_remap_ok(3) [OF assms(3) ok keeps_ok_intern_index] p
  obtain q where q: "supertype_idx ty' = Some q" "intern_index start p = Inr q"
    by (auto simp: option_rel_Some1)
  show "(\<exists>l. unat b = unat start + l \<and> l < k) \<or> b \<in> set ids"
    using c u p assms(2) by (cases u) (auto simp: interned_supertype_def index_canonical_def dest!: index_add_Some)
  show "\<exists>q. supertype_idx ty' = Some q \<and> unpack q = Some (CoreTypeId b)"
    using intern_index_Inr [OF q(2) u(2)] q(1) c u p assms(2)
    by (cases u) (auto simp: interned_supertype_def index_canonical_def)
qed

lemma ready_known:
  assumes "ready fs ids len k ty" "needs_type_canonicalization fs"
    and "sub_type_remap (intern_index start) ty = Inr ty'"
    and "\<And>tid. tid \<in> set ids \<Longrightarrow> types tid \<noteq> None"
    and "\<And>tid. unat start \<le> unat tid \<Longrightarrow> unat tid < unat start + len \<Longrightarrow> types tid \<noteq> None"
  shows "list_all (index_known types) (inner_indices (comp_inner (composite_type ty')))"
proof -
  have c: "sub_ok ty" "list_all (index_canonical ids len) (inner_indices (comp_inner (composite_type ty)))"
    using assms(1,2) by (simp_all add: ready_def sub_canonical_def)
  have "index_known types q" if "intern_index start p = Inr q" "index_canonical ids len p" for p q
  proof -
    from that(2) have p: "packed_ok p" by (simp add: index_canonical_def)
    with packed_ok_unpack obtain u where u: "unpack p = Some u" by blast
    from that(2) u intern_index_Inr [OF that(1) p] assms(4,5) show ?thesis
      by (cases u) (auto simp: index_canonical_def index_known_def dest!: index_add_Some)
  qed
  then show ?thesis
    by (rule remaps_list_all [OF sub_type_remap_ok(2) [OF assms(3) c(1) keeps_ok_intern_index] c(2)])
qed

lemma grown_supers_wf:
  assumes g: "grown fs tys new sups ts ts'" and "supers_wf ts" "ids_wf ts ids"
    and ready: "\<And>k. k < length tys \<Longrightarrow> ready fs ids (length tys) k (tys ! k)"
  shows "supers_wf ts'"
proof -
  have "unat b < unat a" if "supertype_of ts' a = Some (Some b)" for a b
    using g that
  proof (cases rule: grown_supertype_ofE)
    case old
    with assms(2) g show ?thesis by (simp add: supers_wf_def supertype_of_nth grown_def)
  next
    case (new k)
    note sizes = grown_sizes [OF g]
    have a: "unat a = type_count ts + k"
      using new(1,2) sizes(4) by (simp add: unat_of_nat take_bit_nat_eq_self del: of_nat_add)
    have "interned_supertype (of_nat (type_count ts)) (supertype_idx (tys ! k)) = Some (Some b)"
      "sub_type_remap (intern_index (of_nat (type_count ts))) (tys ! k) = Inr (new ! k)"
      using g new(1,3) by (auto simp: grown_def list_all2_conv_all_nth)
    from ready_super(1) [OF ready [OF new(1)] this]
    consider l where "unat b = type_count ts + l" "l < k" | "b \<in> set ids"
      using sizes(1) by auto
    then show ?thesis
    proof cases
      case 2
      with assms(3) g have "unat b < type_count ts" by (auto simp: ids_wf_def grown_def type_at_nth nth_opt_Some_iff)
      with a show ?thesis by simp
    qed (use a in simp)
  qed
  moreover have "lists_wf ts'" using g by (simp add: grown_def)
  moreover from this have "i = unat (of_nat i :: u32)"
    if "i < length (snap_list (core_type_to_supertype ts'))" for i
    using that by (simp add: lists_wf_def unat_of_nat take_bit_nat_eq_self)
  ultimately show ?thesis
    unfolding supers_wf_def by (metis nth_opt_Some_iff supertype_of_nth)
qed

lemma grown_kinds_wf:
  assumes g: "grown fs tys new sups ts ts'" and "kinds_wf ts"
    and ready: "\<And>k. k < length tys \<Longrightarrow> ready fs ids (length tys) k (tys ! k)"
  shows "kinds_wf ts'"
  unfolding kinds_wf_def
proof (intro allI impI)
  fix a b
  assume "supertype_of ts' a = Some (Some b)"
  with g show "\<exists>st super. type_at ts' a = Some st \<and> type_at ts' b = Some super \<and> compatible st super"
  proof (cases rule: grown_supertype_ofE)
    case old
    with assms(2) grown_type_at(1) [OF g] show ?thesis unfolding kinds_wf_def by blast
  next
    case (new k)
    have run: "interned_supertype (of_nat (type_count ts)) (supertype_idx (tys ! k)) = Some (Some b)"
      "sub_type_remap (intern_index (of_nat (type_count ts))) (tys ! k) = Inr (new ! k)"
      using g new(1,3) by (auto simp: grown_def list_all2_conv_all_nth)
    from ready_super(2) [OF ready [OF new(1)] this]
    obtain q where q: "supertype_idx (new ! k) = Some q" "unpack q = Some (CoreTypeId b)" by blast
    have "type_at ts' a = Some (new ! k)" "type_checked fs ts' a"
      using grown_type_at(2) [OF g new(1)] new(1,2) g by (simp_all add: grown_def)
    with q show ?thesis by (auto simp: type_checked_def)
  qed
qed

lemma grown_canonical:
  assumes g: "grown fs tys new sups ts ts'" and "ids_wf ts ids"
    and old: "\<And>tid st. type_at ts tid = Some st \<Longrightarrow> canonical_sub (type_at ts) st"
    and ready: "\<And>k. k < length tys \<Longrightarrow> ready fs ids (length tys) k (tys ! k)"
    and "type_at ts' tid = Some st"
  shows "canonical_sub (type_at ts') st"
  using g assms(5)
proof (cases rule: grown_type_atE)
  case old
  with assms(3) grown_type_at(1) [OF g] canonical_inner_mono show ?thesis
    unfolding canonical_sub_def by blast
next
  case (new k)
  let ?start = "of_nat (type_count ts) :: u32"
  have run: "sub_type_remap (intern_index ?start) (tys ! k) = Inr (new ! k)"
    using g new(1) by (auto simp: grown_def list_all2_conv_all_nth)
  have "sub_ok (tys ! k)"
    using ready [OF new(1)] by (auto simp: ready_def sub_canonical_def sub_fresh_def split: if_splits)
  then have ok: "inner_ok (comp_inner (composite_type st))"
    using sub_type_remap_ok(1) [OF run _ keeps_ok_intern_index] new(3) by (simp add: sub_ok_def)
  have "type_checked fs ts' tid" using g new(1,2) by (simp add: grown_def)
  with assms(5) obtain off d where check: "check_inner_type fs (ts'\<lparr>core_type_to_depth := d\<rparr>) off
      (comp_shared (composite_type st)) (comp_inner (composite_type st)) = Inr ()"
    by (auto simp: type_checked_def)
  have "list_all (index_known (type_at ts')) (inner_indices (comp_inner (composite_type st)))"
  proof (cases "needs_type_canonicalization fs")
    case True
    show ?thesis
      unfolding new(3)
    proof (rule ready_known [OF ready [OF new(1)] True run])
      show "type_at ts' tid \<noteq> None" if "tid \<in> set ids" for tid
        using that assms(2) grown_type_at(1) [OF g] by (auto simp: ids_wf_def)
      show "type_at ts' tid \<noteq> None"
        if "unat ?start \<le> unat tid" "unat tid < unat ?start + length tys" for tid
        using that grown_sizes [OF g] g by (simp add: grown_def type_at_nth)
    qed
  next
    case False
    from check_inner_fast(1) [OF check False ok] show ?thesis by simp
  qed
  with ok check_inner_cont [OF check] show ?thesis by (simp add: canonical_sub_def canonical_inner_iff)
qed

lemma grown_groups:
  assumes g: "grown fs tys new sups ts ts'"
  shows "group_types ts rg start \<Longrightarrow> unat start + length (rec_group_types rg) \<le> type_count ts \<Longrightarrow>
      group_types ts' rg start"
    "rec_group_types rg = tys \<Longrightarrow> group_types ts' rg (of_nat (type_count ts))"
  using g grown_sizes [OF g] by (auto simp: grown_def group_types_def take_append)

section \<open>Adding a group\<close>

lemma intern_new_rec_group_Inr:
  assumes "intern_new_rec_group gid rg ts = Inr ((b, g), ts')" "lists_wf ts"
  obtains ts1 new sups where "interned (of_nat (type_count ts)) (rec_group_types rg) ts ts1 new sups"
    "lists_wf ts1" "b" "g = gid" "type_count ts + length (rec_group_types rg) < 2 ^ 32"
    "ts' = ts1\<lparr>rec_group_elements := snap_push (of_nat (type_count ts),
        of_nat (type_count ts + length (rec_group_types rg))) (rec_group_elements ts1)\<rparr>"
proof -
  have len: "snap_len (core_types ts) = type_count ts" using assms(2) by (simp add: lists_wf_def snap_len_list)
  from assms(1) obtain start ts1 e where run: "try_u32 (type_count ts) = Some start"
    "intern_types start gid (rec_group_types rg) ts = Inr ts1" "try_u32 (snap_len (core_types ts1)) = Some e"
    and res: "b" "g = gid"
      "ts' = ts1\<lparr>rec_group_elements := snap_push (start, e) (rec_group_elements ts1)\<rparr>"
    by (auto simp: intern_new_rec_group_def bind_res_Inr_iff len)
  note grow = intern_types_grow [OF run(2)]
  have count: "type_count ts1 = type_count ts + length (rec_group_types rg)" using grow by simp
  have "snap_wf (core_types ts1)" using grow assms(2) by (simp add: lists_wf_def)
  then have small: "type_count ts1 < 2 ^ 32" "e = of_nat (type_count ts1)" "start = of_nat (type_count ts)"
    using run(1,3) by (auto simp: snap_len_list dest!: try_u32_Some)
  from intern_types_lists [OF run(2) assms(2) small(1)] obtain new sups
    where "lists_wf ts1" "interned start (rec_group_types rg) ts ts1 new sups" by blast
  with res small count show thesis by (intro that [of ts1 new sups]) simp_all
qed

lemma rec_group_at_nth:
  "lists_wf ts \<Longrightarrow> rec_group_at ts gid = nth_opt (snap_list (rec_group_elements ts)) (unat gid)"
  by (simp add: rec_group_at_def lists_wf_def snap_index_list)

lemma groups_wf_depth [simp]: "groups_wf (ts\<lparr>core_type_to_depth := d\<rparr>) = groups_wf ts"
  by (simp add: groups_wf_def group_types_def)

lemma grown_groups_wf:
  assumes g: "grown fs (rec_group_types rg) new sups ts ts'" and "groups_wf ts"
    and els: "snap_list (rec_group_elements ts') = snap_list (rec_group_elements ts) @
      [(of_nat (type_count ts), of_nat (type_count ts + length (rec_group_types rg)))]"
    and gid: "unat gid = length (snap_list (rec_group_elements ts))"
    and groups: "canonical_rec_groups ts' = canonical_rec_groups ts
      \<or> (\<exists>m. canonical_rec_groups ts = Some m \<and> canonical_rec_groups ts' = Some ((rg, gid) # m))"
  shows "groups_wf ts'"
proof -
  let ?len = "length (rec_group_types rg)"
  have wf: "lists_wf ts" "lists_wf ts'" using g by (simp_all add: grown_def)
  have unat: "unat (of_nat (type_count ts) :: u32) = type_count ts"
    "unat (of_nat (type_count ts + ?len) :: u32) = type_count ts + ?len"
    using grown_sizes(4) [OF g] by (simp_all add: unat_of_nat take_bit_nat_eq_self del: of_nat_add)
  have count: "type_count ts' = type_count ts + ?len"
    using g grown_sizes(2) [OF g] by (simp add: grown_def)
  have ranges: "unat start \<le> unat e \<and> unat e \<le> type_count ts'"
    if "(start, e) \<in> set (snap_list (rec_group_elements ts'))" for start e
    using that assms(2) els unat count by (auto simp: groups_wf_def)
  moreover have "\<exists>start e. rec_group_at ts' gid' = Some (start, e)
      \<and> unat e = unat start + length (rec_group_types rg') \<and> group_types ts' rg' start"
    if m: "canonical_rec_groups ts' = Some m" "(rg', gid') \<in> set m" for m rg' gid'
  proof -
    from m groups consider "rg' = rg" "gid' = gid"
      | old where "canonical_rec_groups ts = Some old" "(rg', gid') \<in> set old"
      by (metis option.inject prod.inject set_ConsD)
    then show ?thesis
    proof cases
      case 1
      with wf els gid unat grown_groups(2) [OF g] show ?thesis
        by (auto simp: rec_group_at_nth nth_opt_append nth_opt_def simp del: of_nat_add)
    next
      case 2
      with assms(2) obtain start e where old: "rec_group_at ts gid' = Some (start, e)"
        "unat e = unat start + length (rec_group_types rg')" "group_types ts rg' start"
        unfolding groups_wf_def by blast
      then have "unat e \<le> type_count ts" "rec_group_at ts' gid' = Some (start, e)"
        using wf assms(2) els nth_mem [of "unat gid'" "snap_list (rec_group_elements ts)"]
        by (auto simp: rec_group_at_nth nth_opt_append nth_opt_Some_iff groups_wf_def)
      with old grown_groups(1) [OF g old(3)] show ?thesis by simp
    qed
  qed
  moreover have "distinct (map snd m)" if "canonical_rec_groups ts' = Some m" for m
  proof -
    have "unat gid' < length (snap_list (rec_group_elements ts))"
      if "canonical_rec_groups ts = Some old" "(rg', gid') \<in> set old" for old rg' gid'
      using that assms(2) wf(1) unfolding groups_wf_def by (fastforce simp: rec_group_at_nth nth_opt_Some_iff)
    then have "gid \<notin> snd ` set old" if "canonical_rec_groups ts = Some old" for old
      using that gid by fastforce
    moreover have "distinct (map snd old)" if "canonical_rec_groups ts = Some old" for old
      using that assms(2) by (simp add: groups_wf_def)
    ultimately show ?thesis using groups that by auto
  qed
  ultimately show ?thesis by (auto simp: groups_wf_def)
qed

text \<open>The list and the range after interning a new group, before its types are checked.\<close>

lemma intern_new_group:
  assumes "intern_new_rec_group gid rg ts0 = Inr ((b, g), ts1)" "lists_wf ts"
    and "unat gid = length (snap_list (rec_group_elements ts))"
    and "ts0 = ts \<or> ts0 = ts\<lparr>canonical_rec_groups := Some ((rg, gid) # m)\<rparr> \<and> canonical_rec_groups ts = Some m"
  obtains new sups where "lists_wf ts1" "b" "g = gid"
    "rec_group_at ts1 gid = Some (of_nat (type_count ts), of_nat (type_count ts + length (rec_group_types rg)))"
    "type_count ts + length (rec_group_types rg) < 2 ^ 32"
    "\<forall>fs. (\<forall>k < length (rec_group_types rg). type_checked fs ts1 (of_nat (type_count ts + k))) \<longrightarrow>
       groups_wf ts \<longrightarrow> grown fs (rec_group_types rg) new sups ts ts1 \<and> groups_wf ts1"
proof -
  let ?len = "length (rec_group_types rg)" and ?start = "of_nat (type_count ts) :: u32"
  let ?finish = "of_nat (type_count ts + ?len) :: u32"
  have ts0: "lists_wf ts0" "type_count ts0 = type_count ts" using assms(2,4) by auto
  from intern_new_rec_group_Inr [OF assms(1) ts0(1)] obtain ts2 new sups
    where i: "interned ?start (rec_group_types rg) ts0 ts2 new sups" "lists_wf ts2" "b" "g = gid"
      "type_count ts + ?len < 2 ^ 32"
      and ts1: "ts1 = ts2\<lparr>rec_group_elements := snap_push (?start, ?finish) (rec_group_elements ts2)\<rparr>"
    unfolding ts0(2) by blast
  have els: "snap_list (rec_group_elements ts1) = snap_list (rec_group_elements ts) @ [(?start, ?finish)]"
    and cts: "core_types ts1 = core_types ts2" "core_type_to_supertype ts1 = core_type_to_supertype ts2"
      "canonical_rec_groups ts1 = canonical_rec_groups ts0"
    using i(1) assms(4) ts1 by (auto simp: interned_def)
  have wf1: "lists_wf ts1" using i(2) by (simp add: lists_wf_def ts1)
  have range: "rec_group_at ts1 gid = Some (?start, ?finish)"
    using wf1 els assms(3) by (simp add: rec_group_at_nth nth_opt_append nth_opt_def)
  have grown: "grown fs (rec_group_types rg) new sups ts ts1"
    if "\<And>k. k < ?len \<Longrightarrow> type_checked fs ts1 (of_nat (type_count ts + k))" for fs
    using that i(1) wf1 assms(2,4) cts by (auto simp: grown_def interned_def)
  have "canonical_rec_groups ts1 = canonical_rec_groups ts
      \<or> (\<exists>m. canonical_rec_groups ts = Some m \<and> canonical_rec_groups ts1 = Some ((rg, gid) # m))"
    using assms(4) cts(3) by auto
  note groups = grown_groups_wf [OF grown _ els assms(3) this]
  show thesis
    by (rule that [OF wf1 i(3,4) range i(5), of new sups]) (use grown groups in blast)
qed

lemma fresh_ready:
  assumes "(if needs_type_canonicalization fs
      then canonicalize_rec_group (with_features fs (canonicalizer_new ids off)) rg else Inr rg) = Inr rg'"
    and "list_all sub_fresh (rec_group_types rg)"
  shows "length (rec_group_types rg') = length (rec_group_types rg)"
    "k < length (rec_group_types rg') \<Longrightarrow>
       ready fs ids (length (rec_group_types rg')) k (rec_group_types rg' ! k)"
  using assms canonicalize_rec_group_ok [of fs ids off rg rg']
  by (auto simp: ready_def list_all_length split: if_splits)

lemma add_rec_group_new:
  assumes "intern_new_rec_group gid rg ts0 = Inr ((b, g), ts1)" "types_wf ts" "ids_wf ts ids"
    and "unat gid = length (snap_list (rec_group_elements ts))"
    and "ts0 = ts \<or> ts0 = ts\<lparr>canonical_rec_groups := Some ((rg, gid) # m)\<rparr> \<and> canonical_rec_groups ts = Some m"
    and "rec_group_at ts1 g = Some (start, e)"
    and "add_type_ids (unat start) (unat e - unat start) b g fs off (ids, ts1) = Inr (ids', ts')"
    and ready: "\<And>k. k < length (rec_group_types rg) \<Longrightarrow>
      ready fs ids (length (rec_group_types rg)) k (rec_group_types rg ! k)"
  shows "types_wf ts'" "ids' = ids @ map of_nat [unat start..<unat start + length (rec_group_types rg)]"
    "group_types ts' rg start" "\<And>tid st. type_at ts tid = Some st \<Longrightarrow> type_at ts' tid = Some st"
    "unat start = type_count ts" "type_count ts' = type_count ts + length (rec_group_types rg)"
proof -
  let ?len = "length (rec_group_types rg)"
  have wf: "lists_wf ts" "groups_wf ts" "supers_wf ts" "kinds_wf ts"
    "\<And>tid st. type_at ts tid = Some st \<Longrightarrow> canonical_sub (type_at ts) st"
    using assms(2) by (simp_all add: types_wf_def)
  from intern_new_group [OF assms(1) wf(1) assms(4,5)] obtain new sups where i: "lists_wf ts1" "b" "g = gid"
    "rec_group_at ts1 gid = Some (of_nat (type_count ts), of_nat (type_count ts + ?len))"
    "type_count ts + ?len < 2 ^ 32"
    and grown: "\<forall>fs. (\<forall>k < ?len. type_checked fs ts1 (of_nat (type_count ts + k))) \<longrightarrow>
       groups_wf ts \<longrightarrow> grown fs (rec_group_types rg) new sups ts ts1 \<and> groups_wf ts1" .
  have start: "unat start = type_count ts" "unat e - type_count ts = ?len"
    using i(3-5) assms(6) by (auto simp: unat_of_nat take_bit_nat_eq_self simp del: of_nat_add)
  note loop = add_type_ids_Inr [OF assms(7) [unfolded start]]
  from loop(2) obtain d where d: "ts' = ts1\<lparr>core_type_to_depth := d\<rparr>" by blast
  have g: "grown fs (rec_group_types rg) new sups ts ts1" "groups_wf ts1"
    using grown loop(4) [OF i(2)] wf(2) by blast+
  have "supers_wf ts1" by (rule grown_supers_wf [OF g(1) wf(3) assms(3) ready])
  moreover have "kinds_wf ts1" by (rule grown_kinds_wf [OF g(1) wf(4) ready])
  moreover have "canonical_sub (type_at ts1) st" if "type_at ts1 tid = Some st" for tid st
    by (rule grown_canonical [OF g(1) assms(3) wf(5) ready that])
  ultimately show "types_wf ts'"
    using i(1) g(2) by (simp add: d types_wf_def supers_wf_def kinds_wf_def)
  show "ids' = ids @ map of_nat [unat start..<unat start + ?len]" using loop(1) start by simp
  have "start = of_nat (type_count ts)" using start(1) by (metis of_nat_unat_id)
  then show "group_types ts' rg start" using grown_groups(2) [OF g(1)] by (simp add: d group_types_def)
  show "type_at ts' tid = Some st" if "type_at ts tid = Some st" for tid st
    using grown_type_at(1) [OF g(1) that] by (simp add: d)
  show "unat start = type_count ts" by (rule start)
  show "type_count ts' = type_count ts + ?len"
    using g(1) grown_sizes(2) [OF g(1)] by (simp add: d grown_def)
qed

lemma intern_canonical_rec_groupE:
  assumes "intern_canonical_rec_group needs rg ts = Inr ((b, g), ts1)" "lists_wf ts"
  obtains (old) m where "canonical_rec_groups ts = Some m" "lookup_rec_group rg m = Some g" "\<not> b" "ts1 = ts"
  | (new) gid ts0 m where "unat gid = length (snap_list (rec_group_elements ts))"
      "intern_new_rec_group gid rg ts0 = Inr ((b, g), ts1)"
      "ts0 = ts \<or> ts0 = ts\<lparr>canonical_rec_groups := Some ((rg, gid) # m)\<rparr> \<and> canonical_rec_groups ts = Some m"
proof -
  from assms(1) obtain gid where gid: "try_u32 (snap_len (rec_group_elements ts)) = Some gid"
    and run: "(if needs then
       (case canonical_rec_groups ts of
          None \<Rightarrow> Inl Panicked
        | Some m \<Rightarrow>
            (case lookup_rec_group rg m of
               Some g \<Rightarrow> Inr ((False, g), ts)
             | None \<Rightarrow> intern_new_rec_group gid rg (ts\<lparr>canonical_rec_groups := Some ((rg, gid) # m)\<rparr>)))
     else intern_new_rec_group gid rg ts) = Inr ((b, g), ts1)"
    by (auto simp: intern_canonical_rec_group_def bind_res_Inr_iff)
  have unat: "unat gid = length (snap_list (rec_group_elements ts))"
    using gid assms(2) by (auto simp: lists_wf_def snap_len_list dest: try_u32_Some)
  show thesis
  proof (cases needs)
    case False
    with run new [OF unat, of ts] show thesis by simp
  next
    case True
    with run obtain m where m: "canonical_rec_groups ts = Some m" by (cases "canonical_rec_groups ts") auto
    with True run unat old [OF m] new [OF unat, of "ts\<lparr>canonical_rec_groups := Some ((rg, gid) # m)\<rparr>" m]
    show thesis by (cases "lookup_rec_group rg m") auto
  qed
qed

text \<open>An interned group is the range of its types.\<close>

lemma lookup_rec_group_range:
  assumes "types_wf ts" "canonical_rec_groups ts = Some m" "lookup_rec_group rg m = Some g"
    and "rec_group_at ts g = Some (start, e)"
  shows "unat e = unat start + length (rec_group_types rg)" "group_types ts rg start"
    "unat e \<le> type_count ts"
proof -
  from assms(3) obtain i key where "i < length m" "m ! i = (key, g)" and eq: "rec_group_eq key rg"
    by (auto simp: lookup_rec_group_def find_Some_iff)
  then have key: "(key, g) \<in> set m" using nth_mem [of i m] by simp
  from eq have same: "rec_group_types key = rec_group_types rg"
    by (auto simp: rec_group_eq_def list_all_iff list_eq_iff_zip_eq)
  have wf: "lists_wf ts" "groups_wf ts" using assms(1) by (simp_all add: types_wf_def)
  from wf(2) assms(2,4) key show "unat e = unat start + length (rec_group_types rg)" "group_types ts rg start"
    unfolding groups_wf_def group_types_def same [symmetric] by fastforce+
  have "(start, e) \<in> set (snap_list (rec_group_elements ts))"
    using assms(4) wf(1) nth_mem [of "unat g" "snap_list (rec_group_elements ts)"]
    by (auto simp: rec_group_at_nth nth_opt_Some_iff)
  with wf(2) show "unat e \<le> type_count ts" by (auto simp: groups_wf_def)
qed

lemma ids_wf_range:
  assumes "types_wf ts" "i + len \<le> type_count ts" "ids_wf ts ids"
  shows "ids_wf ts (ids @ map of_nat [i..<i + len])"
proof -
  have "lists_wf ts" "type_count ts < 2 ^ 32" using assms(1) by (simp_all add: types_wf_def lists_wf_def)
  with assms(2,3) show ?thesis
    by (auto simp: ids_wf_def type_at_nth unat_of_nat take_bit_nat_eq_self)
qed

text \<open>The result for a group that is new and for one that is already there: the module gets one
  identifier for each type of the group, and the types there are the types of the group.\<close>

lemma add_rec_group_wf:
  assumes "canonicalize_and_intern_rec_group fs rg off (ids, ts) = Inr (ids', ts')"
    and "types_wf ts" "ids_wf ts ids" "list_all sub_fresh (rec_group_types rg)"
  obtains rg' start where "types_wf ts'" "ids_wf ts' ids'"
    "\<And>tid st. type_at ts tid = Some st \<Longrightarrow> type_at ts' tid = Some st"
    "(if needs_type_canonicalization fs
      then canonicalize_rec_group (with_features fs (canonicalizer_new ids off)) rg else Inr rg) = Inr rg'"
    "ids' = ids @ map of_nat [unat start..<unat start + length (rec_group_types rg)]"
    "group_types ts' rg' start"
proof -
  from assms(1) obtain rg' b g ts1 start e
    where rg': "(if needs_type_canonicalization fs
      then canonicalize_rec_group (with_features fs (canonicalizer_new ids off)) rg else Inr rg) = Inr rg'"
      and run: "intern_canonical_rec_group (needs_type_canonicalization fs) rg' ts = Inr ((b, g), ts1)"
      and range: "rec_group_at ts1 g = Some (start, e)"
      and loop: "add_type_ids (unat start) (unat e - unat start) b g fs off (ids, ts1) = Inr (ids', ts')"
    by (auto simp: canonicalize_and_intern_rec_group_def bind_res_Inr_iff split: if_splits prod.splits)
  note len = fresh_ready(1) [OF rg' assms(4)] and ready = fresh_ready(2) [OF rg' assms(4)]
  have "lists_wf ts" using assms(2) by (simp add: types_wf_def)
  with run show thesis
  proof (cases rule: intern_canonical_rec_groupE)
    case (old m)
    note r = lookup_rec_group_range [OF assms(2) old(1,2) range [unfolded old(4)]]
    have ids': "ids' = ids @ map of_nat [unat start..<unat start + length (rec_group_types rg)]" "ts' = ts"
      using add_type_ids_Inr(1,3) [OF loop] old(3,4) r(1) len by simp_all
    moreover have "ids_wf ts' ids'" using ids_wf_range [OF assms(2) _ assms(3)] ids' r len by simp
    ultimately show thesis using assms(2) rg' r(2) by (intro that [of rg' start]) simp_all
  next
    case (new gid ts0 m)
    note n = add_rec_group_new [OF new(2) assms(2,3) new(1,3) range loop ready]
    have "ids_wf ts' ids" using assms(3) n(4) by (fastforce simp: ids_wf_def)
    then have "ids_wf ts' ids'" using ids_wf_range [OF n(1)] n(2,5,6) by simp
    with n rg' len show thesis by (intro that [of rg' start]) simp_all
  qed
qed

end
