(* ===== verification/Item_Readers.thy ===== *)
theory Item_Readers
  imports Function_Bodies Module_Resources
begin

text \<open>
  The items of the sections of a module and their readers: the implementations of \<open>FromReader\<close> in
  crates/wasmparser/src/readers/core, files imports.rs, exports.rs, tables.rs, memories.rs, tags.rs,
  globals.rs, init.rs, elements.rs and data.rs.
\<close>

section \<open>External kinds, exports\<close>

text \<open>A Rust \<open>str\<close> is the list of its bytes, in UTF-8.\<close>

type_synonym str = "u8 list"

datatype external_kind = ExternalFunc | ExternalTable | ExternalMemory | ExternalGlobal | ExternalTag

definition external_kind_from_byte :: "u8 \<Rightarrow> usize \<Rightarrow> external_kind result" where
  "external_kind_from_byte byte off =
     (if byte = 0x00 then Inr ExternalFunc
      else if byte = 0x01 then Inr ExternalTable
      else if byte = 0x02 then Inr ExternalMemory
      else if byte = 0x03 then Inr ExternalGlobal
      else if byte = 0x04 then Inr ExternalTag
      else Inl (invalid_leading_byte_error byte ''external kind'' off))"

definition read_external_kind :: "external_kind rd" where
  "read_external_kind = with_pos (\<lambda>off. bind_rd read_u8 (\<lambda>byte.
     case external_kind_from_byte byte off of
       Inl e \<Rightarrow> fail_rd (\<lambda>_. e)
     | Inr kind \<Rightarrow> return_rd kind))"

record wasm_export =
  export_name :: str
  export_kind :: external_kind
  export_index :: u32

definition read_export :: "wasm_export rd" where
  "read_export = bind_rd read_string (\<lambda>name. bind_rd read_external_kind (\<lambda>kind.
     bind_rd read_var_u32 (\<lambda>index.
     return_rd \<lparr>export_name = name, export_kind = kind, export_index = index\<rparr>)))"

section \<open>Constant expressions\<close>

fun is_end :: "operator \<Rightarrow> bool" where
  "is_end (Control op) = (case op of End \<Rightarrow> True | _ \<Rightarrow> False)"
| "is_end _ = False"

lemma read_operator_not_eof: "read_operator r = Inr (op, r') \<Longrightarrow> \<not> eof r"
  by (auto simp: visit_operator_def with_pos_def bind_rd_def read_u8_def eof_def split: if_splits)

function skip_const_expr :: "unit rd" where
  "skip_const_expr r =
     (case read_operator r of
        Inl e \<Rightarrow> Inl e
      | Inr (op, r') \<Rightarrow> if is_end op then Inr ((), r') else skip_const_expr r')"
  by pat_completeness auto
termination
  by (relation "measure bytes_remaining")
    (auto dest: bytes_remaining_decreases [OF read_operator_not_eof] simp: eq_commute)

declare skip_const_expr.simps [simp del]

record const_expr =
  ce_reader :: binary_reader

definition read_const_expr :: "const_expr rd" where
  "read_const_expr = bind_rd (skip skip_const_expr) (\<lambda>reader. return_rd \<lparr>ce_reader = reader\<rparr>)"

section \<open>Tables, memories, tags, globals\<close>

text \<open>A limit is read as an \<open>u64\<close> or as an \<open>u32\<close> that is widened.\<close>

definition read_limit :: "bool \<Rightarrow> u64 rd" where
  "read_limit is64 =
     (if is64 then read_var_u64 else bind_rd read_var_u32 (\<lambda>x. return_rd (ucast x)))"

definition read_maximum :: "bool \<Rightarrow> bool \<Rightarrow> u64 option rd" where
  "read_maximum has_max is64 =
     (if \<not> has_max then return_rd None else bind_rd (read_limit is64) (\<lambda>x. return_rd (Some x)))"

definition read_table_type :: "table_type rd" where
  "read_table_type = bind_rd read_ref_type (\<lambda>element_type. with_pos (\<lambda>pos.
     bind_rd read_u8 (\<lambda>flags.
     if flags AND NOT 0b111 \<noteq> 0
     then fail_rd (\<lambda>_. error_new ''invalid table resizable limits flags'' pos)
     else
       let has_max = (flags AND 0b001 \<noteq> 0); shared = (flags AND 0b010 \<noteq> 0);
           table64 = (flags AND 0b100 \<noteq> 0) in
       bind_rd (read_limit table64) (\<lambda>initial.
       bind_rd (read_maximum has_max table64) (\<lambda>maximum.
       return_rd \<lparr>table_element_type = element_type, table64 = table64, table_initial = initial,
         table_maximum = maximum, table_shared = shared\<rparr>)))))"

datatype table_init = TableRefNull | TableExpr const_expr

record wasm_table =
  wt_ty :: table_type
  wt_init :: table_init

definition read_table :: "wasm_table rd" where
  "read_table = bind_rd peek (\<lambda>b.
     if b = 0x40 then
       bind_rd read_u8 (\<lambda>_. bind_rd read_u8 (\<lambda>z.
       if z \<noteq> 0x00 then fail_rd (\<lambda>r. error_new ''invalid table encoding'' (original_position r - 1))
       else bind_rd read_table_type (\<lambda>ty. bind_rd read_const_expr (\<lambda>expr.
         return_rd \<lparr>wt_ty = ty, wt_init = TableExpr expr\<rparr>))))
     else bind_rd read_table_type (\<lambda>ty. return_rd \<lparr>wt_ty = ty, wt_init = TableRefNull\<rparr>))"

definition read_memory_type :: "memory_type rd" where
  "read_memory_type = with_pos (\<lambda>pos. bind_rd read_u8 (\<lambda>flags.
     if flags AND NOT 0b1111 \<noteq> 0
     then fail_rd (\<lambda>_. error_new ''invalid memory limits flags'' pos)
     else
       let memory64 = (flags AND 0b0100 \<noteq> 0); shared = (flags AND 0b0010 \<noteq> 0);
           has_max = (flags AND 0b0001 \<noteq> 0); has_page_size = (flags AND 0b1000 \<noteq> 0) in
       bind_rd (read_limit memory64) (\<lambda>initial.
       bind_rd (read_maximum has_max memory64) (\<lambda>maximum.
       bind_rd (if has_page_size then bind_rd read_var_u32 (\<lambda>x. return_rd (Some x)) else return_rd None)
         (\<lambda>page_size_log2.
       return_rd \<lparr>memory64 = memory64, memory_shared = shared, memory_initial = initial,
         memory_maximum = maximum, page_size_log2 = page_size_log2\<rparr>)))))"

datatype tag_kind = TagException

record tag_type =
  tag_kind :: tag_kind
  func_type_idx :: u32

definition read_tag_type :: "tag_type rd" where
  "read_tag_type = bind_rd read_u8 (\<lambda>attribute.
     if attribute \<noteq> 0
     then fail_rd (\<lambda>r. error_new ''invalid tag attributes'' (original_position r - 1))
     else bind_rd read_var_u32 (\<lambda>idx.
       return_rd \<lparr>tag_kind = TagException, func_type_idx = idx\<rparr>))"

definition read_global_type :: "global_type rd" where
  "read_global_type = bind_rd read_val_type (\<lambda>content_type. bind_rd read_u8 (\<lambda>flags.
     bind_rd (if_feature SHARED_EVERYTHING_THREADS
       (if flags > 0b11
        then fail_rd (\<lambda>r. error_new ''malformed global flags'' (original_position r - 1))
        else return_rd ())
       (if flags > 0b1
        then fail_rd (\<lambda>r. error_new (''malformed mutability -- or shared globals ''
          @ ''require the shared-everything-threads proposal'') (original_position r - 1))
        else return_rd ())) (\<lambda>_.
     return_rd \<lparr>content_type = content_type, global_mutable = flags AND 0b01 > 0,
       global_shared = flags AND 0b10 > 0\<rparr>)))"

record wasm_global =
  wg_ty :: global_type
  wg_init_expr :: const_expr

definition read_global :: "wasm_global rd" where
  "read_global = bind_rd read_global_type (\<lambda>ty. bind_rd read_const_expr (\<lambda>init.
     return_rd \<lparr>wg_ty = ty, wg_init_expr = init\<rparr>))"

section \<open>Imports\<close>

datatype type_ref =
    TypeRefFunc u32 | TypeRefTable table_type | TypeRefMemory memory_type
  | TypeRefGlobal global_type | TypeRefTag tag_type

definition read_type_ref :: "type_ref rd" where
  "read_type_ref = bind_rd read_external_kind (\<lambda>kind.
     case kind of
       ExternalFunc \<Rightarrow> bind_rd read_var_u32 (\<lambda>x. return_rd (TypeRefFunc x))
     | ExternalTable \<Rightarrow> bind_rd read_table_type (\<lambda>x. return_rd (TypeRefTable x))
     | ExternalMemory \<Rightarrow> bind_rd read_memory_type (\<lambda>x. return_rd (TypeRefMemory x))
     | ExternalGlobal \<Rightarrow> bind_rd read_global_type (\<lambda>x. return_rd (TypeRefGlobal x))
     | ExternalTag \<Rightarrow> bind_rd read_tag_type (\<lambda>x. return_rd (TypeRefTag x)))"

record wasm_import =
  import_module :: str
  import_name :: str
  import_ty :: type_ref

definition read_import :: "wasm_import rd" where
  "read_import = bind_rd read_string (\<lambda>module. bind_rd read_string (\<lambda>name.
     bind_rd read_type_ref (\<lambda>ty.
     return_rd \<lparr>import_module = module, import_name = name, import_ty = ty\<rparr>)))"

section \<open>Element and data segments\<close>

datatype element_kind = ElementPassive | ElementActive "u32 option" const_expr | ElementDeclared

datatype element_items = ElementFunctions section_limited | ElementExpressions ref_type section_limited

record wasm_element =
  we_kind :: element_kind
  we_items :: element_items
  we_range :: "usize \<times> usize"

definition skip_items :: "bool \<Rightarrow> unit rd" where
  "skip_items exprs = bind_rd read_var_u32 (\<lambda>items_count.
     bind_rd (read_items (if exprs then skip_const_expr else bind_rd read_var_u32 (\<lambda>_. return_rd ()))
       (unat items_count)) (\<lambda>_. return_rd ()))"

text \<open>\<open>SectionLimited::new(data)?\<close> on a reader that is not the one of the segment.\<close>

definition nested_section :: "binary_reader \<Rightarrow> section_limited rd" where
  "nested_section data =
     (case section_limited_new data of Inl e \<Rightarrow> fail_rd (\<lambda>_. e) | Inr s \<Rightarrow> return_rd s)"

text \<open>The assertion that there is no type for a list of functions holds by the branch before it.\<close>

definition read_element :: "wasm_element rd" where
  "read_element = with_pos (\<lambda>elem_start. bind_rd read_var_u32 (\<lambda>flags.
     if flags AND NOT 0b111 \<noteq> 0
     then fail_rd (\<lambda>r. error_new ''invalid flags byte in element segment'' (original_position r - 1))
     else
       bind_rd (if flags AND 0b001 \<noteq> 0
         then return_rd (if flags AND 0b010 \<noteq> 0 then ElementDeclared else ElementPassive)
         else bind_rd (if flags AND 0b010 = 0 then return_rd None
           else bind_rd read_var_u32 (\<lambda>x. return_rd (Some x))) (\<lambda>table_index.
           bind_rd read_const_expr (\<lambda>offset_expr. return_rd (ElementActive table_index offset_expr)))) (\<lambda>kind.
       let exprs = (flags AND 0b100 \<noteq> 0) in
       bind_rd (if flags AND 0b011 \<noteq> 0
         then (if exprs then bind_rd read_ref_type (\<lambda>ty. return_rd (Some ty))
           else bind_rd read_external_kind (\<lambda>k.
             case k of
               ExternalFunc \<Rightarrow> return_rd None
             | _ \<Rightarrow> fail_rd (\<lambda>r. error_new
                 ''only the function external type is supported in elem segment'' (original_position r - 1))))
         else return_rd None) (\<lambda>ty.
       bind_rd (skip (skip_items exprs)) (\<lambda>data.
       bind_rd (nested_section data) (\<lambda>s.
       let items = (if exprs
         then ElementExpressions (case ty of Some t \<Rightarrow> t | None \<Rightarrow> FUNCREF) s
         else ElementFunctions s) in
       with_pos (\<lambda>elem_end.
       return_rd \<lparr>we_kind = kind, we_items = items, we_range = (elem_start, elem_end)\<rparr>)))))))"

datatype data_kind = DataPassive | DataActive u32 const_expr

record wasm_data =
  wd_kind :: data_kind
  wd_data :: "u8 list"
  wd_range :: "usize \<times> usize"

definition read_data :: "wasm_data rd" where
  "read_data = with_pos (\<lambda>segment_start. bind_rd read_var_u32 (\<lambda>flags.
     bind_rd (if flags = 1 then return_rd DataPassive
       else if flags = 0 \<or> flags = 2 then
         bind_rd (if flags = 0 then return_rd 0 else read_var_u32) (\<lambda>memory_index.
         bind_rd read_const_expr (\<lambda>offset_expr. return_rd (DataActive memory_index offset_expr)))
       else fail_rd (\<lambda>_. error_new ''invalid flags byte in data segment'' segment_start)) (\<lambda>kind.
     bind_rd read_reader (\<lambda>data.
     return_rd \<lparr>wd_kind = kind, wd_data = remaining_buffer data,
       wd_range = (segment_start, snd (reader_range data))\<rparr>))))"

section \<open>Items with their offsets\<close>

text \<open>\<open>SectionLimitedIntoIterWithOffsets::next\<close> on the reader of an item.\<close>

definition with_offset :: "'a rd \<Rightarrow> (usize \<times> 'a) rd" where
  "with_offset read = with_pos (\<lambda>pos. bind_rd read (\<lambda>x. return_rd (pos, x)))"

end
