(* ===== verification/Core_Module.thy ===== *)
theory Core_Module
  imports Type_Groups Item_Readers
begin

text \<open>
  The state of a module under validation: \<open>Module\<close> of crates/wasmparser/src/validator/core.rs with its
  methods, and \<open>ValidatorResources\<close>, its implementation of the trait \<open>WasmModuleResources\<close>. The
  helpers \<open>check_max\<close> and \<open>combine_type_sizes\<close> are of crates/wasmparser/src/validator.rs, \<open>EntityType\<close>
  of crates/wasmparser/src/validator/types.rs.

  A method with \<open>&mut self\<close> returns the new module; after a failure the module is not used again and
  the model drops it. The list of types is an argument, as in the code. \<open>IndexMap\<close>s are association
  lists in the order of insertion. Capacity reservations have no effect.
\<close>

section \<open>Limits\<close>

definition MAX_WASM_FUNCTIONS :: usize where "MAX_WASM_FUNCTIONS = 1000000"
definition MAX_WASM_IMPORTS :: usize where "MAX_WASM_IMPORTS = 1000000"
definition MAX_WASM_EXPORTS :: usize where "MAX_WASM_EXPORTS = 1000000"
definition MAX_WASM_GLOBALS :: usize where "MAX_WASM_GLOBALS = 1000000"
definition MAX_WASM_ELEMENT_SEGMENTS :: usize where "MAX_WASM_ELEMENT_SEGMENTS = 100000"
definition MAX_WASM_DATA_SEGMENTS :: usize where "MAX_WASM_DATA_SEGMENTS = 100000"
definition MAX_WASM_TABLE_ENTRIES :: usize where "MAX_WASM_TABLE_ENTRIES = 10000000"
definition MAX_WASM_TABLES :: usize where "MAX_WASM_TABLES = 100"
definition MAX_WASM_MEMORIES :: usize where "MAX_WASM_MEMORIES = 100"
definition MAX_WASM_TAGS :: usize where "MAX_WASM_TAGS = 1000000"
definition MAX_WASM_TYPE_SIZE :: u32 where "MAX_WASM_TYPE_SIZE = 1000000"

text \<open>\<open>max_wasm_memory32_pages\<close> and \<open>max_wasm_memory64_pages\<close> on the page sizes \<open>2 ^ log2\<close> that the caller
  passes. The quotient of the second is \<open>2 ^ 64\<close> for pages of one byte, which is not a \<open>u64\<close>.\<close>

definition max_wasm_memory32_pages :: "nat \<Rightarrow> nat" where
  "max_wasm_memory32_pages page_size = 2 ^ 32 div page_size"

definition max_wasm_memory64_pages :: "nat \<Rightarrow> nat" where
  "max_wasm_memory64_pages page_size =
     (if 2 ^ 64 div page_size < 2 ^ 64 then 2 ^ 64 div page_size else 2 ^ 64 - 1)"

definition check_max :: "usize \<Rightarrow> u32 \<Rightarrow> usize \<Rightarrow> string \<Rightarrow> usize \<Rightarrow> failure + unit" where
  "check_max cur_len amt_added limit desc off =
     (if cur_len \<le> limit \<and> unat amt_added \<le> limit - cur_len then Inr ()
      else if limit = 1 then fail_at off (''multiple '' @ desc)
      else fail_at off (desc @ '' count exceeds limit of '' @ fmt_dec limit))"

definition combine_type_sizes :: "u32 \<Rightarrow> u32 \<Rightarrow> usize \<Rightarrow> failure + u32" where
  "combine_type_sizes a b off =
     (if unat a + unat b < 2 ^ 32 \<and> a + b < MAX_WASM_TYPE_SIZE then Inr (a + b)
      else fail_at off (''effective type size exceeds the limit of ''
        @ fmt_dec (unat MAX_WASM_TYPE_SIZE)))"

section \<open>Entities\<close>

text \<open>The characters of a Rust string in a message.\<close>

definition fmt_str :: "str \<Rightarrow> string" where
  "fmt_str bytes = map (\<lambda>b. char_of (unat b)) bytes"

datatype entity_type =
    EntityFunc u32 | EntityTable table_type | EntityMemory memory_type
  | EntityGlobal global_type | EntityTag u32

definition sub_type_size :: "sub_type \<Rightarrow> u32" where
  "sub_type_size st =
     1 + (case comp_inner (composite_type st) of
            CompFunc ty \<Rightarrow> 1 + of_nat (length (func_params ty) + length (func_results ty))
          | CompArray _ \<Rightarrow> 2
          | CompStruct (StructType flds) \<Rightarrow> 1 + 2 * of_nat (length flds)
          | CompCont _ \<Rightarrow> 1)"

text \<open>\<open>entity.info(types).size()\<close>, with the assertion of \<open>TypeInfo::_new\<close>.\<close>

definition entity_size :: "type_list \<Rightarrow> entity_type \<Rightarrow> u32 option" where
  "entity_size ts entity =
     (case entity of
        EntityFunc tid \<Rightarrow> Option.bind (type_at ts tid) (\<lambda>st.
          if unat (sub_type_size st) < 2 ^ 24 then Some (sub_type_size st) else None)
      | EntityTag tid \<Rightarrow> Option.bind (type_at ts tid) (\<lambda>st.
          if unat (sub_type_size st) < 2 ^ 24 then Some (sub_type_size st) else None)
      | _ \<Rightarrow> Some 1)"

section \<open>The module\<close>

record core_module =
  module_snapshot :: "type_list option"
  module_types :: "u32 list"
  module_tables :: "table_type list"
  module_memories :: "memory_type list"
  module_globals :: "global_type list"
  module_element_types :: "ref_type list"
  module_data_count :: "u32 option"
  module_functions :: "u32 list"
  module_tags :: "u32 list"
  function_references :: "u32 set"
  module_imports :: "((str \<times> str) \<times> entity_type list) list"
  module_exports :: "(str \<times> entity_type) list"
  type_size :: u32
  num_imported_globals :: u32
  num_imported_functions :: u32

definition module_default :: core_module where
  "module_default =
     \<lparr>module_snapshot = None, module_types = [], module_tables = [], module_memories = [],
      module_globals = [], module_element_types = [], module_data_count = None,
      module_functions = [], module_tags = [], function_references = {}, module_imports = [],
      module_exports = [], type_size = 1, num_imported_globals = 0, num_imported_functions = 0\<rparr>"

definition add_types ::
  "rec_group \<Rightarrow> wasm_features \<Rightarrow> usize \<Rightarrow> bool \<Rightarrow> core_module \<times> type_list
     \<Rightarrow> failure + (core_module \<times> type_list)" where
  "add_types rg fs off check_limit st =
     (case st of (m, ts) \<Rightarrow>
       bind_res (if check_limit
         then check_max (length (module_types m)) (of_nat (length (rec_group_types rg))) MAX_WASM_TYPES ''types'' off
         else Inr ()) (\<lambda>_.
       bind_res (canonicalize_and_intern_rec_group fs rg off (module_types m, ts)) (\<lambda>(ids, ts).
       Inr (m\<lparr>module_types := ids\<rparr>, ts))))"

subsection \<open>Look-ups\<close>

definition module_sub_type_at :: "core_module \<Rightarrow> type_list \<Rightarrow> u32 \<Rightarrow> usize \<Rightarrow> failure + sub_type" where
  "module_sub_type_at m ts idx off =
     bind_res (type_id_at (module_types m) idx off) (\<lambda>tid. ok_or Panicked (type_at ts tid))"

definition module_func_type_at :: "core_module \<Rightarrow> type_list \<Rightarrow> u32 \<Rightarrow> usize \<Rightarrow> failure + func_type" where
  "module_func_type_at m ts type_idx off =
     bind_res (module_sub_type_at m ts type_idx off) (\<lambda>st.
     case comp_inner (composite_type st) of
       CompFunc f \<Rightarrow> Inr f
     | _ \<Rightarrow> fail_at off (''type index '' @ fmt_dec (unat type_idx) @ '' is not a function type''))"

definition get_func_type :: "core_module \<Rightarrow> type_list \<Rightarrow> u32 \<Rightarrow> usize \<Rightarrow> failure + func_type" where
  "get_func_type m ts func_idx off =
     (case nth_opt (module_functions m) (unat func_idx) of
        Some idx \<Rightarrow> module_func_type_at m ts idx off
      | None \<Rightarrow> fail_at off (''unknown function '' @ fmt_dec (unat func_idx)
          @ '': func index out of bounds''))"

definition module_global_at :: "core_module \<Rightarrow> u32 \<Rightarrow> usize \<Rightarrow> failure + global_type" where
  "module_global_at m idx off =
     (case nth_opt (module_globals m) (unat idx) of
        Some t \<Rightarrow> Inr t
      | None \<Rightarrow> fail_at off (''unknown global '' @ fmt_dec (unat idx) @ '': global index out of bounds''))"

definition module_table_at :: "core_module \<Rightarrow> u32 \<Rightarrow> usize \<Rightarrow> failure + table_type" where
  "module_table_at m idx off =
     (case nth_opt (module_tables m) (unat idx) of
        Some t \<Rightarrow> Inr t
      | None \<Rightarrow> fail_at off (''unknown table '' @ fmt_dec (unat idx) @ '': table index out of bounds''))"

definition module_memory_at :: "core_module \<Rightarrow> u32 \<Rightarrow> usize \<Rightarrow> failure + memory_type" where
  "module_memory_at m idx off =
     (case nth_opt (module_memories m) (unat idx) of
        Some t \<Rightarrow> Inr t
      | None \<Rightarrow> fail_at off (''unknown memory '' @ fmt_dec (unat idx) @ '': memory index out of bounds''))"

definition max_tables :: "wasm_features \<Rightarrow> usize" where
  "max_tables fs = (if REFERENCE_TYPES \<in> fs then MAX_WASM_TABLES else 1)"

definition max_memories :: "wasm_features \<Rightarrow> usize" where
  "max_memories fs = (if MULTI_MEMORY \<in> fs then MAX_WASM_MEMORIES else 1)"

subsection \<open>Checks of types\<close>

text \<open>The type is checked in place: the result is the canonicalized type.\<close>

definition module_check_heap_type :: "core_module \<Rightarrow> heap_type \<Rightarrow> usize \<Rightarrow> failure + heap_type" where
  "module_check_heap_type m ty off =
     (case ty of
        Abstract _ _ \<Rightarrow> Inr ty
      | Concrete (Module idx) \<Rightarrow>
          bind_res (type_id_at (module_types m) idx off) (\<lambda>tid. Inr (Concrete (CoreTypeId tid)))
      | Concrete _ \<Rightarrow> Inl Panicked)"

definition feature_error :: "usize \<Rightarrow> string + unit \<Rightarrow> failure + unit" where
  "feature_error off x = (case x of Inl e \<Rightarrow> fail_at off e | Inr _ \<Rightarrow> Inr ())"

definition module_check_ref_type :: "core_module \<Rightarrow> ref_type \<Rightarrow> wasm_features \<Rightarrow> usize \<Rightarrow> failure + ref_type" where
  "module_check_ref_type m ty fs off =
     bind_res (feature_error off (features_check_ref_type fs ty)) (\<lambda>_.
     bind_res (ok_or Panicked (ref_heap_type ty)) (\<lambda>hty.
     bind_res (module_check_heap_type m hty off) (\<lambda>hty.
     ok_or Panicked (ref_new (is_nullable ty) hty))))"

fun module_check_value_type :: "core_module \<Rightarrow> val_type \<Rightarrow> wasm_features \<Rightarrow> usize \<Rightarrow> failure + val_type" where
  "module_check_value_type m (Ref rt) fs off =
     bind_res (module_check_ref_type m rt fs off) (\<lambda>rt. Inr (Ref rt))"
| "module_check_value_type m ty fs off =
     bind_res (feature_error off (features_check_value_type fs ty)) (\<lambda>_. Inr ty)"

definition check_limits :: "u64 \<Rightarrow> u64 option \<Rightarrow> usize \<Rightarrow> failure + unit" where
  "check_limits initial maximum off =
     (case maximum of
        Some limit \<Rightarrow> require off (\<not> initial > limit) ''size minimum must not be greater than maximum''
      | None \<Rightarrow> Inr ())"

definition check_table_type ::
  "core_module \<Rightarrow> table_type \<Rightarrow> wasm_features \<Rightarrow> type_list \<Rightarrow> usize \<Rightarrow> failure + table_type" where
  "check_table_type m ty fs ts off =
     bind_res (if table_element_type ty \<noteq> FUNCREF
       then bind_res (module_check_ref_type m (table_element_type ty) fs off)
         (\<lambda>rt. Inr (ty\<lparr>table_element_type := rt\<rparr>))
       else Inr ty) (\<lambda>ty.
     bind_res (require off (\<not> (table64 ty \<and> MEMORY64 \<notin> fs))
       ''memory64 must be enabled for 64-bit tables'') (\<lambda>_.
     bind_res (check_limits (table_initial ty) (table_maximum ty) off) (\<lambda>_.
     bind_res (if table_shared ty then
         bind_res (require off (SHARED_EVERYTHING_THREADS \<in> fs)
           ''shared tables require the shared-everything-threads proposal'') (\<lambda>_.
         bind_res (ok_or Panicked (reftype_is_shared ts (table_element_type ty))) (\<lambda>shared.
         require off shared ''shared tables must have a shared element type''))
       else Inr ()) (\<lambda>_.
     Inr ty))))"

definition check_memory_type :: "memory_type \<Rightarrow> wasm_features \<Rightarrow> usize \<Rightarrow> failure + unit" where
  "check_memory_type ty fs off =
     bind_res (check_limits (memory_initial ty) (memory_maximum ty) off) (\<lambda>_.
     bind_res (case page_size_log2 ty of
         Some log2 \<Rightarrow>
           bind_res (require off (CUSTOM_PAGE_SIZES \<in> fs)
             (''the custom page sizes proposal must be enabled to '' @ ''customize a memory's page size'')) (\<lambda>_.
           bind_res (require off (\<not> (log2 \<noteq> 0 \<and> log2 \<noteq> 16)) ''invalid custom page size'') (\<lambda>_.
           Inr (unat log2)))
       | None \<Rightarrow> Inr 16) (\<lambda>log2.
     bind_res (if memory64 ty then
         bind_res (require off (MEMORY64 \<in> fs) ''memory64 must be enabled for 64-bit memories'') (\<lambda>_.
         Inr (max_wasm_memory64_pages (2 ^ log2),
           ''memory size must be at most 2**'' @ fmt_dec (64 - log2) @ '' pages''))
       else
         let limit = max_wasm_memory32_pages (2 ^ log2) in
         Inr (limit, ''memory size must be at most '' @ fmt_dec limit @ '' pages (4GiB)'')) (\<lambda>(true_maximum, err).
     bind_res (require off (\<not> unat (memory_initial ty) > true_maximum) err) (\<lambda>_.
     bind_res (case memory_maximum ty of
         Some maximum \<Rightarrow> require off (\<not> unat maximum > true_maximum) err
       | None \<Rightarrow> Inr ()) (\<lambda>_.
     if memory_shared ty then
       bind_res (require off (THREADS \<in> fs) ''threads must be enabled for shared memories'') (\<lambda>_.
       require off (memory_maximum ty \<noteq> None) ''shared memory must have maximum size'')
     else Inr ())))))"

definition check_tag_type ::
  "core_module \<Rightarrow> tag_type \<Rightarrow> wasm_features \<Rightarrow> type_list \<Rightarrow> usize \<Rightarrow> failure + unit" where
  "check_tag_type m ty fs ts off =
     bind_res (require off (EXCEPTIONS \<in> fs) ''exceptions proposal not enabled'') (\<lambda>_.
     bind_res (module_func_type_at m ts (func_type_idx ty) off) (\<lambda>ft.
     require off (\<not> (func_results ft \<noteq> [] \<and> STACK_SWITCHING \<notin> fs))
       ''invalid exception type: non-empty tag result type''))"

definition check_global_type ::
  "core_module \<Rightarrow> global_type \<Rightarrow> wasm_features \<Rightarrow> type_list \<Rightarrow> usize \<Rightarrow> failure + global_type" where
  "check_global_type m ty fs ts off =
     bind_res (module_check_value_type m (content_type ty) fs off) (\<lambda>t.
     let ty = ty\<lparr>content_type := t\<rparr> in
     bind_res (if global_shared ty then
         bind_res (require off (SHARED_EVERYTHING_THREADS \<in> fs)
           ''shared globals require the shared-everything-threads proposal'') (\<lambda>_.
         bind_res (ok_or Panicked (valtype_is_shared ts (content_type ty))) (\<lambda>shared.
         require off shared ''shared globals must have a shared value type''))
       else Inr ()) (\<lambda>_.
     Inr ty))"

text \<open>The entity, and the type reference with the types in it canonicalized.\<close>

fun check_type_ref ::
  "core_module \<Rightarrow> type_ref \<Rightarrow> wasm_features \<Rightarrow> type_list \<Rightarrow> usize \<Rightarrow> failure + (entity_type \<times> type_ref)" where
  "check_type_ref m (TypeRefFunc type_idx) fs ts off =
     bind_res (module_func_type_at m ts type_idx off) (\<lambda>_.
     bind_res (ok_or Panicked (nth_opt (module_types m) (unat type_idx))) (\<lambda>tid.
     Inr (EntityFunc tid, TypeRefFunc type_idx)))"
| "check_type_ref m (TypeRefTable t) fs ts off =
     bind_res (check_table_type m t fs ts off) (\<lambda>t. Inr (EntityTable t, TypeRefTable t))"
| "check_type_ref m (TypeRefMemory t) fs ts off =
     bind_res (check_memory_type t fs off) (\<lambda>_. Inr (EntityMemory t, TypeRefMemory t))"
| "check_type_ref m (TypeRefTag t) fs ts off =
     bind_res (check_tag_type m t fs ts off) (\<lambda>_.
     bind_res (ok_or Panicked (nth_opt (module_types m) (unat (func_type_idx t)))) (\<lambda>tid.
     Inr (EntityTag tid, TypeRefTag t)))"
| "check_type_ref m (TypeRefGlobal t) fs ts off =
     bind_res (check_global_type m t fs ts off) (\<lambda>t. Inr (EntityGlobal t, TypeRefGlobal t))"

subsection \<open>Imports and exports\<close>

text \<open>The new module, and the length, the limit and the description that are checked.\<close>

fun import_entity ::
  "type_ref \<Rightarrow> wasm_features \<Rightarrow> usize \<Rightarrow> core_module \<Rightarrow> failure + (core_module \<times> usize \<times> usize \<times> string)" where
  "import_entity (TypeRefFunc type_idx) fs off m =
     (let m = m\<lparr>module_functions := module_functions m @ [type_idx],
                num_imported_functions := num_imported_functions m + 1\<rparr>
      in Inr (m, length (module_functions m), MAX_WASM_FUNCTIONS, ''functions''))"
| "import_entity (TypeRefTable ty) fs off m =
     (let m = m\<lparr>module_tables := module_tables m @ [ty]\<rparr>
      in Inr (m, length (module_tables m), max_tables fs, ''tables''))"
| "import_entity (TypeRefMemory ty) fs off m =
     (let m = m\<lparr>module_memories := module_memories m @ [ty]\<rparr>
      in Inr (m, length (module_memories m), max_memories fs, ''memories''))"
| "import_entity (TypeRefTag ty) fs off m =
     bind_res (ok_or Panicked (nth_opt (module_types m) (unat (func_type_idx ty)))) (\<lambda>tid.
     let m = m\<lparr>module_tags := module_tags m @ [tid]\<rparr>
     in Inr (m, length (module_tags m), MAX_WASM_TAGS, ''tags''))"
| "import_entity (TypeRefGlobal ty) fs off m =
     bind_res (require off (\<not> (MUTABLE_GLOBAL \<notin> fs \<and> global_mutable ty))
       ''mutable global support is not enabled'') (\<lambda>_.
     let m = m\<lparr>module_globals := module_globals m @ [ty],
               num_imported_globals := num_imported_globals m + 1\<rparr>
     in Inr (m, length (module_globals m), MAX_WASM_GLOBALS, ''globals''))"

text \<open>\<open>entry(key).or_default().push(entity)\<close>\<close>

fun push_import :: "str \<times> str \<Rightarrow> entity_type \<Rightarrow> ((str \<times> str) \<times> entity_type list) list
    \<Rightarrow> ((str \<times> str) \<times> entity_type list) list" where
  "push_import key entity [] = [(key, [entity])]"
| "push_import key entity ((k, es) # is) =
     (if k = key then (k, es @ [entity]) # is else (k, es) # push_import key entity is)"

definition add_import ::
  "wasm_import \<Rightarrow> wasm_features \<Rightarrow> type_list \<Rightarrow> usize \<Rightarrow> core_module \<Rightarrow> failure + core_module" where
  "add_import import fs ts off m =
     bind_res (check_type_ref m (import_ty import) fs ts off) (\<lambda>(entity, ty).
     bind_res (import_entity ty fs off m) (\<lambda>(m, len, limit, desc).
     bind_res (check_max len 0 limit desc off) (\<lambda>_.
     bind_res (ok_or Panicked (entity_size ts entity)) (\<lambda>sz.
     bind_res (combine_type_sizes (type_size m) sz off) (\<lambda>type_sz.
     Inr (m\<lparr>type_size := type_sz,
            module_imports :=
              push_import (import_module import, import_name import) entity (module_imports m)\<rparr>))))))"

definition add_export ::
  "str \<Rightarrow> entity_type \<Rightarrow> wasm_features \<Rightarrow> usize \<Rightarrow> bool \<Rightarrow> type_list \<Rightarrow> core_module \<Rightarrow> failure + core_module" where
  "add_export name ty fs off check_limit ts m =
     bind_res (require off (\<not> (MUTABLE_GLOBAL \<notin> fs \<and> (case ty of EntityGlobal g \<Rightarrow> global_mutable g | _ \<Rightarrow> False)))
       ''mutable global support is not enabled'') (\<lambda>_.
     bind_res (if check_limit then check_max (length (module_exports m)) 1 MAX_WASM_EXPORTS ''exports'' off
       else Inr ()) (\<lambda>_.
     bind_res (ok_or Panicked (entity_size ts ty)) (\<lambda>sz.
     bind_res (combine_type_sizes (type_size m) sz off) (\<lambda>type_sz.
     if name \<in> fst ` set (module_exports m)
     then fail_at off (''duplicate export name `'' @ fmt_str name @ ''` already defined'')
     else Inr (m\<lparr>type_size := type_sz, module_exports := module_exports m @ [(name, ty)]\<rparr>)))))"

definition check_export_index :: "string \<Rightarrow> u32 \<Rightarrow> usize \<Rightarrow> usize \<Rightarrow> failure + unit" where
  "check_export_index ty index count off =
     require off (\<not> unat index \<ge> count)
       (''unknown '' @ ty @ '' '' @ fmt_dec (unat index) @ '': exported '' @ ty @ '' index out of bounds'')"

definition export_to_entity_type ::
  "wasm_export \<Rightarrow> usize \<Rightarrow> core_module \<Rightarrow> failure + (entity_type \<times> core_module)" where
  "export_to_entity_type export off m =
     (case export_kind export of
        ExternalFunc \<Rightarrow>
          bind_res (check_export_index ''function'' (export_index export) (length (module_functions m)) off) (\<lambda>_.
          bind_res (ok_or Panicked (Option.bind (nth_opt (module_functions m) (unat (export_index export)))
            (\<lambda>type_idx. nth_opt (module_types m) (unat type_idx)))) (\<lambda>tid.
          Inr (EntityFunc tid, m\<lparr>function_references := insert (export_index export) (function_references m)\<rparr>)))
      | ExternalTable \<Rightarrow>
          bind_res (check_export_index ''table'' (export_index export) (length (module_tables m)) off) (\<lambda>_.
          Inr (EntityTable (module_tables m ! unat (export_index export)), m))
      | ExternalMemory \<Rightarrow>
          bind_res (check_export_index ''memory'' (export_index export) (length (module_memories m)) off) (\<lambda>_.
          Inr (EntityMemory (module_memories m ! unat (export_index export)), m))
      | ExternalGlobal \<Rightarrow>
          bind_res (check_export_index ''global'' (export_index export) (length (module_globals m)) off) (\<lambda>_.
          Inr (EntityGlobal (module_globals m ! unat (export_index export)), m))
      | ExternalTag \<Rightarrow>
          bind_res (check_export_index ''tag'' (export_index export) (length (module_tags m)) off) (\<lambda>_.
          Inr (EntityTag (module_tags m ! unat (export_index export)), m)))"

definition imports_for_module_type ::
  "core_module \<Rightarrow> usize \<Rightarrow> failure + ((str \<times> str) \<times> entity_type) list" where
  "imports_for_module_type m off =
     collect_res (\<lambda>((module, name), types).
       if length types \<noteq> 1
       then fail_at off (''module has a duplicate import name `'' @ fmt_str module @ '':'' @ fmt_str name
         @ ''` that is not allowed in components'')
       else Inr ((module, name), hd types)) (module_imports m)"

subsection \<open>Functions, memories and tags\<close>

definition add_function :: "u32 \<Rightarrow> type_list \<Rightarrow> usize \<Rightarrow> core_module \<Rightarrow> failure + core_module" where
  "add_function type_idx ts off m =
     bind_res (module_func_type_at m ts type_idx off) (\<lambda>_.
     Inr (m\<lparr>module_functions := module_functions m @ [type_idx]\<rparr>))"

definition add_memory :: "memory_type \<Rightarrow> wasm_features \<Rightarrow> usize \<Rightarrow> core_module \<Rightarrow> failure + core_module" where
  "add_memory ty fs off m =
     bind_res (check_memory_type ty fs off) (\<lambda>_.
     Inr (m\<lparr>module_memories := module_memories m @ [ty]\<rparr>))"

definition add_tag ::
  "tag_type \<Rightarrow> wasm_features \<Rightarrow> type_list \<Rightarrow> usize \<Rightarrow> core_module \<Rightarrow> failure + core_module" where
  "add_tag ty fs ts off m =
     bind_res (check_tag_type m ty fs ts off) (\<lambda>_.
     bind_res (ok_or Panicked (nth_opt (module_types m) (unat (func_type_idx ty)))) (\<lambda>tid.
     Inr (m\<lparr>module_tags := module_tags m @ [tid]\<rparr>)))"

section \<open>The resources\<close>

text \<open>The methods that both implementations of the trait share; \<open>tys\<close> is the list of types, if there is
  one, and \<open>tag\<close> what is done with the type of a tag that is not a function type. A look-up in the list
  of types panics if there is none.\<close>

definition as_result :: "failure + 'a \<Rightarrow> 'a result option" where
  "as_result x = (case x of Inr y \<Rightarrow> Some (Inr y) | Inl (Failed e) \<Rightarrow> Some (Inl e) | Inl Panicked \<Rightarrow> None)"

definition module_resources_with ::
  "(sub_type \<Rightarrow> func_type option option) \<Rightarrow> type_list option \<Rightarrow> core_module \<Rightarrow> module_resources" where
  "module_resources_with tag tys m =
     \<lparr>table_at = (\<lambda>at. nth_opt (module_tables m) (unat at)),
      memory_at = (\<lambda>at. nth_opt (module_memories m) (unat at)),
      tag_at = (\<lambda>at. case nth_opt (module_tags m) (unat at) of
          None \<Rightarrow> Some None
        | Some tid \<Rightarrow> Option.bind (Option.bind tys (\<lambda>ts. type_at ts tid)) tag),
      global_at = (\<lambda>at. nth_opt (module_globals m) (unat at)),
      sub_type_at = (\<lambda>at. case nth_opt (module_types m) (unat at) of
          None \<Rightarrow> Some None
        | Some tid \<Rightarrow> map_option Some (Option.bind tys (\<lambda>ts. type_at ts tid))),
      sub_type_at_id = (\<lambda>tid. Option.bind tys (\<lambda>ts. type_at ts tid)),
      type_id_of_function = (\<lambda>at. Option.bind (nth_opt (module_functions m) (unat at))
        (\<lambda>type_idx. nth_opt (module_types m) (unat type_idx))),
      type_index_of_function = (\<lambda>at. nth_opt (module_functions m) (unat at)),
      element_type_at = (\<lambda>at. nth_opt (module_element_types m) (unat at)),
      is_subtype = (\<lambda>a b. Option.bind tys (\<lambda>ts. valtype_is_subtype ts a b)),
      is_shared = (\<lambda>ty. Option.bind tys (\<lambda>ts. reftype_is_shared ts ty)),
      check_heap_type = (\<lambda>t off. as_result (module_check_heap_type m t off)),
      top_type = (\<lambda>h. Option.bind tys (\<lambda>ts. types_top_type ts h)),
      element_count = of_nat (length (module_element_types m)),
      data_count = module_data_count m,
      is_function_referenced = (\<lambda>idx. idx \<in> function_references m)\<rparr>"

text \<open>\<open>OperatorValidatorResources\<close>, used for constant expressions, unwraps the function type of a tag;
  \<open>ValidatorResources\<close>, used for function bodies, returns \<open>None\<close> for another type.\<close>

fun tag_unwrap_func :: "sub_type \<Rightarrow> func_type option option" where
  "tag_unwrap_func st = (case comp_inner (composite_type st) of CompFunc f \<Rightarrow> Some (Some f) | _ \<Rightarrow> None)"

fun tag_func :: "sub_type \<Rightarrow> func_type option option" where
  "tag_func st = (case comp_inner (composite_type st) of CompFunc f \<Rightarrow> Some (Some f) | _ \<Rightarrow> Some None)"

definition operator_validator_resources :: "type_list \<Rightarrow> core_module \<Rightarrow> module_resources" where
  "operator_validator_resources ts m = module_resources_with tag_unwrap_func (Some ts) m"

text \<open>The types are \<open>self.0.snapshot.as_ref().unwrap()\<close>.\<close>

definition validator_resources :: "core_module \<Rightarrow> module_resources" where
  "validator_resources m = module_resources_with tag_func (module_snapshot m) m"

end
