(* ===== verification/Validator_Locals.thy ===== *)
theory Validator_Locals
  imports Binary_Search Wasm_Types
begin

text \<open>
  The local variables of the function under validation, crates/wasmparser/src/validator/operators.rs:
  \<open>Locals\<close>, a run-length table of the types of the locals searched by bisection, and \<open>LocalInits\<close>,
  the initialization state of the locals whose type has no default value.

  A panic (an index out of bounds, an arithmetic overflow in a debug build) is the value \<open>None\<close>.
  The table refines the plain list of the types of the locals, \<open>locals_list\<close>; the state of the
  initializations is restored when a control frame is popped, \<open>pop_ctrl_extends\<close>.
\<close>

section \<open>The table of the types of the locals\<close>

definition MAX_LOCALS_TO_TRACK :: usize where "MAX_LOCALS_TO_TRACK = 50"

record locals =
  num_locals :: u32
  first :: "val_type list"
  all :: "(u32 \<times> val_type) list"

definition locals_empty :: locals where
  "locals_empty = \<lparr>num_locals = 0, first = [], all = []\<rparr>"

definition checked_add :: "'w::len word \<Rightarrow> 'w word \<Rightarrow> 'w word option" where
  "checked_add a b = (if unat a + unat b < 2 ^ LENGTH('w) then Some (a + b) else None)"

text \<open>The loop over \<open>0..count\<close>, left by \<open>break\<close> when enough locals are tracked.\<close>

fun push_first :: "nat \<Rightarrow> val_type \<Rightarrow> val_type list \<Rightarrow> val_type list" where
  "push_first 0 ty fs = fs"
| "push_first (Suc n) ty fs =
     (if length fs \<ge> MAX_LOCALS_TO_TRACK then fs else push_first n ty (fs @ [ty]))"

definition locals_define :: "u32 \<Rightarrow> val_type \<Rightarrow> locals \<Rightarrow> (bool \<times> locals) option" where
  "locals_define count ty l =
     (case checked_add (num_locals l) count of
        None \<Rightarrow> Some (False, l)
      | Some n \<Rightarrow>
          (let l = l\<lparr>num_locals := n\<rparr> in
           if n > of_nat MAX_WASM_FUNCTION_LOCALS then Some (False, l)
           else if n = 0 then None
           else Some (True, l\<lparr>first := push_first (unat count) ty (first l),
                              all := all l @ [(n - 1, ty)]\<rparr>)))"

definition get_bsearch :: "locals \<Rightarrow> u32 \<Rightarrow> val_type option" where
  "get_bsearch l idx =
     (case binary_search_by_key idx fst (all l) of
        Inl i \<Rightarrow> (if i = length (all l) then None else Some (snd (all l ! i)))
      | Inr i \<Rightarrow> Some (snd (all l ! i)))"

definition locals_get :: "locals \<Rightarrow> u32 \<Rightarrow> val_type option" where
  "locals_get l idx =
     (if unat idx < length (first l) then Some (first l ! unat idx) else get_bsearch l idx)"

subsection \<open>The list the table stands for\<close>

fun expand_runs :: "nat \<Rightarrow> (u32 \<times> val_type) list \<Rightarrow> val_type list" where
  "expand_runs n [] = []"
| "expand_runs n ((e, t) # runs) = replicate (Suc (unat e) - n) t @ expand_runs (Suc (unat e)) runs"

definition locals_list :: "locals \<Rightarrow> val_type list" where
  "locals_list l = expand_runs 0 (all l)"

definition locals_wf :: "locals \<Rightarrow> bool" where
  "locals_wf l \<longleftrightarrow>
     sorted_wrt (<) (map fst (all l))
     \<and> unat (num_locals l) = length (locals_list l)
     \<and> (all l \<noteq> [] \<longrightarrow> unat (fst (last (all l))) + 1 = unat (num_locals l))
     \<and> first l = take MAX_LOCALS_TO_TRACK (locals_list l)
     \<and> length (locals_list l) \<le> MAX_WASM_FUNCTION_LOCALS"

lemma locals_wf_empty: "locals_wf locals_empty"
  by (simp add: locals_wf_def locals_empty_def locals_list_def)

lemma push_first_eq:
  "push_first n ty fs = fs @ replicate (min n (MAX_LOCALS_TO_TRACK - length fs)) ty"
proof (induction n arbitrary: fs)
  case (Suc n)
  show ?case
  proof (cases "length fs \<ge> MAX_LOCALS_TO_TRACK")
    case False
    then have "MAX_LOCALS_TO_TRACK - length fs = Suc (MAX_LOCALS_TO_TRACK - length (fs @ [ty]))"
      by simp
    with False Suc [of "fs @ [ty]"] show ?thesis by simp
  qed simp
qed simp

lemma expand_runs_append:
  "expand_runs n (runs @ [(e, t)]) = expand_runs n runs @
     replicate (Suc (unat e) - (if runs = [] then n else Suc (unat (fst (last runs))))) t"
  by (induction n runs rule: expand_runs.induct) auto

lemma expand_runs_nth:
  assumes "sorted_wrt (<) (map fst runs)" "i < length runs" "n \<le> x"
    and "n \<le> Suc (unat (fst (hd runs)))"
    and "\<And>j. j < i \<Longrightarrow> unat (fst (runs ! j)) < x" "x \<le> unat (fst (runs ! i))"
  shows "x - n < length (expand_runs n runs) \<and> expand_runs n runs ! (x - n) = snd (runs ! i)"
  using assms
proof (induction n runs arbitrary: i rule: expand_runs.induct)
  case (2 n e t runs)
  show ?case
  proof (cases i)
    case 0
    with 2(4,7) show ?thesis by (auto simp: nth_append)
  next
    case (Suc i')
    have less: "unat e < x" using 2(6) [of 0] Suc by simp
    have "x - Suc (unat e) < length (expand_runs (Suc (unat e)) runs)
      \<and> expand_runs (Suc (unat e)) runs ! (x - Suc (unat e)) = snd (runs ! i')"
    proof (rule 2(1))
      show "unat (fst (runs ! j)) < x" if "j < i'" for j
        using 2(6) [of "Suc j"] that Suc by simp
      show "Suc (unat e) \<le> Suc (unat (fst (hd runs)))"
        using 2(2,3) Suc by (cases runs) (auto simp: word_less_nat_alt)
    qed (use 2(2,3,7) Suc less in auto)
    moreover obtain d y where dy: "Suc (unat e) - n = d" "x - n = y" by simp
    moreover have "x - Suc (unat e) = y - d" "d \<le> y"
      using less 2(5) by (simp_all add: dy [symmetric])
    ultimately show ?thesis
      by (simp add: Suc nth_append) linarith
  qed
qed simp

lemma get_bsearch_locals_list:
  assumes "locals_wf l"
  shows "get_bsearch l idx =
    (if unat idx < length (locals_list l) then Some (locals_list l ! unat idx) else None)"
proof -
  have sorted: "sorted_wrt (<) (map fst (all l))" using assms by (simp add: locals_wf_def)
  have at: "get_bsearch l idx = Some (snd (all l ! i)) \<Longrightarrow> ?thesis"
    if "i < length (all l)" "\<And>j. j < i \<Longrightarrow> fst (all l ! j) < idx" "idx \<le> fst (all l ! i)" for i
    using expand_runs_nth [OF sorted that(1), of 0 "unat idx"] that(2,3)
    by (simp add: locals_list_def word_less_nat_alt word_le_nat_alt)
  from sorted show ?thesis
  proof (cases rule: binary_search_by_key_cases [where k = idx])
    case (found i)
    have "fst (all l ! j) < idx" if "j < i" for j
      using sorted found that by (auto simp: sorted_wrt_iff_nth_less)
    with found show ?thesis by (intro at [of i]) (auto simp: get_bsearch_def)
  next
    case (absent i)
    show ?thesis
    proof (cases "i = length (all l)")
      case False
      with absent show ?thesis by (intro at [of i]) (auto simp: get_bsearch_def less_imp_le)
    next
      case True
      have "length (locals_list l) \<le> unat idx"
      proof (cases "all l = []")
        case False
        then have "fst (last (all l)) < idx"
          using absent(3) [of "length (all l) - 1"] True by (simp add: last_conv_nth)
        with False assms show ?thesis by (simp add: locals_wf_def word_less_nat_alt)
      qed (simp add: locals_list_def)
      with absent True show ?thesis by (simp add: get_bsearch_def)
    qed
  qed
qed

lemma locals_get_locals_list:
  assumes "locals_wf l"
  shows "locals_get l idx =
    (if unat idx < length (locals_list l) then Some (locals_list l ! unat idx) else None)"
  using assms get_bsearch_locals_list [OF assms, of idx]
  by (auto simp: locals_get_def locals_wf_def)

lemma locals_wf_push:
  assumes "locals_wf l" "unat n = unat (num_locals l) + unat count" "0 < unat n"
    and "unat (num_locals l) + unat count \<le> MAX_WASM_FUNCTION_LOCALS" "0 < count"
  shows "locals_list (l\<lparr>num_locals := n, first := fs, all := all l @ [(n - 1, ty)]\<rparr>) =
      locals_list l @ replicate (unat count) ty" (is "?list")
    and "locals_wf (l\<lparr>num_locals := n, first := push_first (unat count) ty (first l),
      all := all l @ [(n - 1, ty)]\<rparr>)" (is "locals_wf ?l")
proof -
  have last: "Suc (unat (n - 1)) = unat n"
    using assms(3) by (cases "n = 0") (simp_all add: unat_minus_one)
  have wf: "sorted_wrt (<) (map fst (all l))" "unat (num_locals l) = length (locals_list l)"
    "all l \<noteq> [] \<Longrightarrow> Suc (unat (fst (last (all l)))) = unat (num_locals l)"
    "first l = take MAX_LOCALS_TO_TRACK (locals_list l)"
    using assms(1) by (simp_all add: locals_wf_def)
  have list: "locals_list (l\<lparr>num_locals := n, first := fs, all := all l @ [(n - 1, ty)]\<rparr>) =
      locals_list l @ replicate (unat count) ty" for fs
    using wf(2,3) last assms(2)
    by (cases "all l = []") (simp_all add: locals_list_def expand_runs_append)
  then show ?list .
  have less: "fst x < n - 1" if x: "x \<in> set (all l)" for x
  proof -
    obtain i where i: "i < length (all l)" "x = all l ! i"
      using x by (auto simp: in_set_conv_nth)
    then have "last (all l) = all l ! (length (all l) - 1)" by (intro last_conv_nth) auto
    with i wf(1) have "fst x \<le> fst (last (all l))"
      by (cases "i = length (all l) - 1") (auto simp: sorted_wrt_iff_nth_less intro: less_imp_le)
    moreover have "unat (fst (last (all l))) < unat (n - 1)"
      using wf(3) i(1) last assms(2,5) by (cases "all l = []") (auto simp: word_less_nat_alt)
    ultimately show ?thesis by (simp add: word_less_nat_alt word_le_nat_alt)
  qed
  have "push_first (unat count) ty (first l) =
      take MAX_LOCALS_TO_TRACK (locals_list l @ replicate (unat count) ty)"
    unfolding push_first_eq wf(4) by (simp add: min_def)
  then show "locals_wf ?l"
    using wf(1,2) less assms(2,4) last
    by (simp add: locals_wf_def list sorted_wrt_append)
qed

lemma locals_define_locals_list:
  assumes "locals_wf l" "0 < count"
  obtains l' where "locals_define count ty l = Some (True, l')" "locals_wf l'"
      "locals_list l' = locals_list l @ replicate (unat count) ty"
      "length (locals_list l) + unat count \<le> MAX_WASM_FUNCTION_LOCALS"
  | l' where "locals_define count ty l = Some (False, l')"
      "MAX_WASM_FUNCTION_LOCALS < length (locals_list l) + unat count"
proof -
  let ?n = "unat (num_locals l) + unat count"
  have len: "unat (num_locals l) = length (locals_list l)"
    using assms(1) by (simp add: locals_wf_def)
  have limit: "unat (of_nat MAX_WASM_FUNCTION_LOCALS :: u32) = MAX_WASM_FUNCTION_LOCALS"
    by (simp add: wasm_limits)
  show thesis
  proof (cases "?n \<le> MAX_WASM_FUNCTION_LOCALS")
    case False
    then have "\<exists>l'. locals_define count ty l = Some (False, l')"
      using limit
      by (auto simp: locals_define_def checked_add_def word_less_nat_alt unat_word_ariths Let_def)
    with False len that(2) show thesis by auto
  next
    case True
    define n where "n = num_locals l + count"
    have n: "unat n = ?n" "?n < 2 ^ 32"
      using True by (simp_all add: n_def unat_word_ariths wasm_limits)
    have pos: "0 < unat n" using assms(2) n by (simp add: word_less_nat_alt)
    then have "n \<noteq> 0" by auto
    have last: "Suc (unat (n - 1)) = unat n"
      using pos \<open>n \<noteq> 0\<close> by (simp add: unat_minus_one)
    define l' where "l' = l\<lparr>num_locals := n, first := push_first (unat count) ty (first l),
      all := all l @ [(n - 1, ty)]\<rparr>"
    have "locals_define count ty l = Some (True, l')"
      using True n limit \<open>n \<noteq> 0\<close>
      by (simp add: locals_define_def checked_add_def n_def [symmetric] l'_def word_less_nat_alt)
    moreover have "locals_wf l'" "locals_list l' = locals_list l @ replicate (unat count) ty"
      using locals_wf_push [OF assms(1) n(1) pos True assms(2), of ty] by (simp_all add: l'_def)
    ultimately show thesis using that(1) True len by auto
  qed
qed

section \<open>The initialization of the locals\<close>

record local_inits =
  init_flags :: "bool list"
  inits :: "u32 list"
  first_non_default_local :: u32

definition local_inits_default :: local_inits where
  "local_inits_default =
     \<lparr>init_flags = [], inits = [], first_non_default_local = - 1\<rparr>"

definition define_params :: "usize \<Rightarrow> local_inits \<Rightarrow> local_inits" where
  "define_params count li = li\<lparr>init_flags := init_flags li @ replicate count True\<rparr>"

definition inits_define_locals :: "u32 \<Rightarrow> val_type \<Rightarrow> local_inits \<Rightarrow> local_inits" where
  "inits_define_locals count ty li =
     (let len = length (init_flags li);
          li = (if \<not> is_defaultable ty \<and> first_non_default_local li = - 1
                then li\<lparr>first_non_default_local := of_nat len\<rparr> else li)
      in li\<lparr>init_flags := init_flags li @ replicate (unat count) (is_defaultable ty)\<rparr>)"

definition is_uninit :: "local_inits \<Rightarrow> u32 \<Rightarrow> bool option" where
  "is_uninit li idx =
     (if idx < first_non_default_local li then Some False
      else if unat idx < length (init_flags li) then Some (\<not> init_flags li ! unat idx)
      else None)"

definition set_init :: "u32 \<Rightarrow> local_inits \<Rightarrow> local_inits option" where
  "set_init idx li =
     (case is_uninit li idx of
        None \<Rightarrow> None
      | Some uninit \<Rightarrow>
          Some (if uninit
                then li\<lparr>init_flags := (init_flags li)[unat idx := True], inits := inits li @ [idx]\<rparr>
                else li))"

definition inits_push_ctrl :: "local_inits \<Rightarrow> usize" where
  "inits_push_ctrl li = length (inits li)"

fun uninit_all :: "u32 list \<Rightarrow> bool list \<Rightarrow> bool list option" where
  "uninit_all [] fs = Some fs"
| "uninit_all (i # is) fs =
     (if unat i < length fs then uninit_all is (fs[unat i := False]) else None)"

definition inits_pop_ctrl :: "usize \<Rightarrow> local_inits \<Rightarrow> local_inits option" where
  "inits_pop_ctrl h li =
     (if h \<le> length (inits li)
      then map_option (\<lambda>fs. li\<lparr>init_flags := fs, inits := take h (inits li)\<rparr>)
        (uninit_all (drop h (inits li)) (init_flags li))
      else None)"

subsection \<open>The invariant and the undo log\<close>

definition inits_wf :: "local_inits \<Rightarrow> bool" where
  "inits_wf li \<longleftrightarrow>
     length (init_flags li) < 2 ^ 32 - 1
     \<and> (\<forall>i < length (init_flags li). i < unat (first_non_default_local li) \<longrightarrow> init_flags li ! i)
     \<and> (\<forall>i \<in> set (inits li). unat i < length (init_flags li)
          \<and> \<not> i < first_non_default_local li \<and> init_flags li ! unat i)"

text \<open>
  \<open>inits_extend li li'\<close>: the state \<open>li'\<close> was reached from \<open>li\<close> by initializing locals, whose
  indices are the entries that the log of \<open>li'\<close> has in addition.
\<close>

definition inits_extend :: "local_inits \<Rightarrow> local_inits \<Rightarrow> bool" where
  "inits_extend li li' \<longleftrightarrow>
     (\<exists>new. inits li' = inits li @ new
        \<and> distinct new
        \<and> (\<forall>i \<in> set new. unat i < length (init_flags li) \<and> \<not> init_flags li ! unat i)
        \<and> init_flags li' = fold (\<lambda>i fs. fs[unat i := True]) new (init_flags li)
        \<and> first_non_default_local li' = first_non_default_local li)"

lemma is_uninit_flags:
  assumes "inits_wf li" "unat idx < length (init_flags li)"
  shows "is_uninit li idx = Some (\<not> init_flags li ! unat idx)"
  using assms by (auto simp: is_uninit_def inits_wf_def word_less_nat_alt)

lemma inits_wf_default: "inits_wf local_inits_default"
  by (simp add: inits_wf_def local_inits_default_def)

lemma inits_wf_define_params:
  assumes "inits_wf li" "first_non_default_local li = - 1" "length (init_flags li) + count < 2 ^ 32 - 1"
  shows "inits_wf (define_params count li)"
  using assms by (auto simp: inits_wf_def define_params_def nth_append)

lemma inits_wf_define_locals:
  assumes "inits_wf li" "length (init_flags li) + unat count < 2 ^ 32 - 1"
    and "first_non_default_local li \<noteq> - 1 \<Longrightarrow>
      unat (first_non_default_local li) \<le> length (init_flags li)"
  shows "inits_wf (inits_define_locals count ty li)"
    and "first_non_default_local (inits_define_locals count ty li) \<noteq> - 1 \<Longrightarrow>
      unat (first_non_default_local (inits_define_locals count ty li))
        \<le> length (init_flags (inits_define_locals count ty li))"
proof -
  let ?li = "inits_define_locals count ty li"
  have len: "unat (of_nat (length (init_flags li)) :: u32) = length (init_flags li)"
    using assms(2) by (simp add: unat_of_nat take_bit_nat_def)
  have flags: "init_flags ?li = init_flags li @ replicate (unat count) (is_defaultable ty)"
    by (simp add: inits_define_locals_def Let_def)
  have log: "inits ?li = inits li" by (simp add: inits_define_locals_def Let_def)
  have nd: "first_non_default_local ?li =
      (if \<not> is_defaultable ty \<and> first_non_default_local li = - 1
       then of_nat (length (init_flags li)) else first_non_default_local li)"
    by (simp add: inits_define_locals_def Let_def)
  have old: "\<not> i < first_non_default_local ?li" if "i \<in> set (inits li)" for i
  proof (cases "first_non_default_local li = - 1")
    case True
    with assms(1) that have False
      by (auto simp: inits_wf_def word_less_nat_alt unsigned_minus_1_eq_mask mask_eq_exp_minus_1)
    then show ?thesis ..
  next
    case False
    with that assms(1) nd show ?thesis by (simp add: inits_wf_def)
  qed
  show "inits_wf ?li"
    unfolding inits_wf_def log
  proof (intro conjI allI impI ballI)
    show "length (init_flags ?li) < 2 ^ 32 - 1" using assms(2) by (simp add: flags)
    fix i assume "i < length (init_flags ?li)" "i < unat (first_non_default_local ?li)"
    then show "init_flags ?li ! i"
      using assms(1,3) len
      by (auto simp: flags nd nth_append inits_wf_def unsigned_minus_1_eq_mask
        mask_eq_exp_minus_1 split: if_splits)
  next
    fix i assume i: "i \<in> set (inits li)"
    then show "unat i < length (init_flags ?li)" "init_flags ?li ! unat i"
      using assms(1) by (auto simp: flags inits_wf_def nth_append)
    show "\<not> i < first_non_default_local ?li" using i by (rule old)
  qed
  show "unat (first_non_default_local ?li) \<le> length (init_flags ?li)"
    if "first_non_default_local ?li \<noteq> - 1"
    using assms(3) that len by (auto simp: flags nd split: if_splits)
qed

lemma inits_extend_refl: "inits_extend li li"
  by (auto simp: inits_extend_def)

lemma fold_flags_nth:
  assumes "i < length fs"
  shows "fold (\<lambda>i fs. fs[unat i := True]) new fs ! i = (fs ! i \<or> i \<in> unat ` set new)"
  using assms
proof (induction new arbitrary: fs)
  case (Cons a new)
  then show ?case by (cases "unat a = i") (auto simp: Cons.IH)
qed simp

lemma fold_flags_length [simp]:
  "length (fold (\<lambda>i fs. fs[unat i := True]) new fs) = length fs"
  by (induction new arbitrary: fs) auto

lemma set_init_total:
  assumes "inits_wf li" "unat idx < length (init_flags li)"
  obtains li' where "set_init idx li = Some li'" "inits_wf li'" "inits_extend li li'"
    "length (init_flags li') = length (init_flags li)" "init_flags li' ! unat idx"
proof (cases "init_flags li ! unat idx")
  case True
  with assms is_uninit_flags [OF assms] show thesis
    by (intro that [of li]) (simp_all add: set_init_def inits_extend_refl)
next
  case False
  let ?li = "li\<lparr>init_flags := (init_flags li)[unat idx := True], inits := inits li @ [idx]\<rparr>"
  have "\<not> idx < first_non_default_local li"
    using assms False by (auto simp: inits_wf_def word_less_nat_alt)
  with assms have "inits_wf ?li"
    by (auto simp: inits_wf_def nth_list_update)
  moreover have "inits_extend li ?li"
    using assms(2) False by (auto simp: inits_extend_def)
  ultimately show thesis
    using is_uninit_flags [OF assms] False assms(2)
    by (intro that [of ?li]) (simp_all add: set_init_def)
qed

lemma inits_extend_trans:
  assumes "inits_extend a b" "inits_extend b c"
  shows "inits_extend a c"
proof -
  obtain new where new: "inits b = inits a @ new" "distinct new"
    "\<forall>i \<in> set new. unat i < length (init_flags a) \<and> \<not> init_flags a ! unat i"
    "init_flags b = fold (\<lambda>i fs. fs[unat i := True]) new (init_flags a)"
    "first_non_default_local b = first_non_default_local a"
    using assms(1) by (auto simp: inits_extend_def)
  obtain new' where new': "inits c = inits b @ new'" "distinct new'"
    "\<forall>i \<in> set new'. unat i < length (init_flags b) \<and> \<not> init_flags b ! unat i"
    "init_flags c = fold (\<lambda>i fs. fs[unat i := True]) new' (init_flags b)"
    "first_non_default_local c = first_non_default_local b"
    using assms(2) by (auto simp: inits_extend_def)
  have "unat i < length (init_flags a) \<and> \<not> init_flags a ! unat i \<and> i \<notin> set new"
    if "i \<in> set new'" for i
    using new'(3) that by (auto simp: new(4) fold_flags_nth)
  with new new' show ?thesis
    by (auto simp: inits_extend_def intro!: exI [of _ "new @ new'"])
qed

lemma uninit_all_flags:
  assumes "distinct is" "\<And>i. i \<in> set is \<Longrightarrow> unat i < length fs"
  shows "\<exists>fs'. uninit_all is fs = Some fs' \<and> length fs' = length fs
    \<and> (\<forall>j < length fs. fs' ! j = (fs ! j \<and> j \<notin> unat ` set is))"
  using assms
proof (induction "is" arbitrary: fs)
  case (Cons i "is")
  obtain fs' where "uninit_all is (fs[unat i := False]) = Some fs'"
    "length fs' = length fs"
    "\<forall>j < length fs. fs' ! j = (fs[unat i := False] ! j \<and> j \<notin> unat ` set is)"
    using Cons(1) [of "fs[unat i := False]"] Cons(2,3) by auto
  with Cons(3) [of i] show ?case by (auto simp: nth_list_update)
qed simp

text \<open>Popping a control frame undoes exactly the initializations made since it was pushed.\<close>

lemma pop_ctrl_extends:
  assumes "inits_extend li li'"
  shows "inits_pop_ctrl (inits_push_ctrl li) li' = Some li"
proof -
  obtain new where new: "inits li' = inits li @ new" "distinct new"
    "\<forall>i \<in> set new. unat i < length (init_flags li) \<and> \<not> init_flags li ! unat i"
    "init_flags li' = fold (\<lambda>i fs. fs[unat i := True]) new (init_flags li)"
    "first_non_default_local li' = first_non_default_local li"
    using assms by (auto simp: inits_extend_def)
  obtain fs where fs: "uninit_all new (init_flags li') = Some fs"
    "length fs = length (init_flags li)"
    "\<forall>j < length (init_flags li). fs ! j = (init_flags li' ! j \<and> j \<notin> unat ` set new)"
    using uninit_all_flags [OF new(2), of "init_flags li'"] new(3,4) by auto
  have "fs = init_flags li"
    using fs(2,3) new(3) by (intro nth_equalityI) (auto simp: new(4) fold_flags_nth)
  with fs(1) new(1,5) show ?thesis
    by (simp add: inits_pop_ctrl_def inits_push_ctrl_def)
qed

end
