(* ===== verification/Validator_State.thy ===== *)
theory Validator_State
  imports Module_Resources Validator_Locals Op_Reader
begin

text \<open>
  The state of the operator validator and its primitive operations,
  crates/wasmparser/src/validator/operators.rs: the operand stack, the control stack, and the
  look-ups in the module. The validator of each operator is in the theories \<open>Validator_Checks\<close> and
  \<open>Validator_Ops\<close>.

  A method \<open>fn(&mut self) -> Result<T>\<close> is a function of the state to a failure or to the value and
  the new state. A failure is an error of the input, or a panic of the code. After an error the
  state is not used again and the model drops it; so \<open>popped_types_tmp\<close>, which is empty between two
  operators, is a local variable here. Both stacks are lists with the top at the head. The model is
  of a debug build: debug assertions are checked, and pops and pushes are counted.
\<close>

section \<open>State\<close>

datatype frame_kind =
    FrameBlock | FrameIf | FrameElse | FrameLoop | FrameTryTable | FrameLegacyTry
  | FrameLegacyCatch | FrameLegacyCatchAll

record frame =
  fr_kind :: frame_kind
  fr_block_type :: block_type
  fr_height :: usize
  fr_unreachable :: bool
  fr_init_height :: usize

datatype 'a maybe_type = Bottom | UnknownRef "abstract_heap_type option" | Known 'a

record operator_validator =
  ov_locals :: locals
  ov_local_inits :: local_inits
  ov_features :: wasm_features
  control :: "frame list"
  operands :: "val_type maybe_type list"
  end_which_emptied_control :: "usize option"
  ov_shared :: bool
  pop_push_count :: "nat \<times> nat"

text \<open>\<open>OperatorValidatorTemp\<close> adds the offset of the operator and the resources of the module.\<close>

record op_cx =
  offset :: usize
  resources :: module_resources

fun maybe_val :: "ref_type maybe_type \<Rightarrow> val_type maybe_type" where
  "maybe_val Bottom = Bottom"
| "maybe_val (UnknownRef ty) = UnknownRef ty"
| "maybe_val (Known t) = Known (Ref t)"

fun maybe_as_non_null :: "ref_type maybe_type \<Rightarrow> ref_type maybe_type" where
  "maybe_as_non_null Bottom = Bottom"
| "maybe_as_non_null (UnknownRef ty) = UnknownRef ty"
| "maybe_as_non_null (Known ty) = Known (as_non_null ty)"

fun ty_to_str :: "val_type \<Rightarrow> string" where
  "ty_to_str I32 = ''i32''"
| "ty_to_str I64 = ''i64''"
| "ty_to_str F32 = ''f32''"
| "ty_to_str F64 = ''f64''"
| "ty_to_str V128 = ''v128''"
| "ty_to_str (Ref r) = wat r"

section \<open>Sequencing\<close>

type_synonym 'a ov = "operator_validator \<Rightarrow> failure + ('a \<times> operator_validator)"

definition return_ov :: "'a \<Rightarrow> 'a ov" where
  "return_ov x s = Inr (x, s)"

definition bind_ov :: "'a ov \<Rightarrow> ('a \<Rightarrow> 'b ov) \<Rightarrow> 'b ov" where
  "bind_ov m f s = (case m s of Inl e \<Rightarrow> Inl e | Inr (x, s') \<Rightarrow> f x s')"

definition panic_ov :: "'a ov" where
  "panic_ov s = Inl Panicked"

definition bail :: "op_cx \<Rightarrow> string \<Rightarrow> 'a ov" where
  "bail cx msg s = Inl (Failed (error_new msg (offset cx)))"

definition get_ov :: "(operator_validator \<Rightarrow> 'a) \<Rightarrow> 'a ov" where
  "get_ov f s = Inr (f s, s)"

definition modify_ov :: "(operator_validator \<Rightarrow> operator_validator) \<Rightarrow> unit ov" where
  "modify_ov f s = Inr ((), f s)"

text \<open>A call that may panic, and one that may also return an error.\<close>

definition call_ov :: "'a option \<Rightarrow> 'a ov" where
  "call_ov x = (case x of None \<Rightarrow> panic_ov | Some y \<Rightarrow> return_ov y)"

definition try_ov :: "'a result option \<Rightarrow> 'a ov" where
  "try_ov x = bind_ov (call_ov x) (\<lambda>y s.
     case y of Inl e \<Rightarrow> Inl (Failed e) | Inr v \<Rightarrow> Inr (v, s))"

text \<open>Statements in sequence, and a loop over a list.\<close>

fun steps :: "unit ov list \<Rightarrow> unit ov" where
  "steps [] = return_ov ()"
| "steps (m # ms) = bind_ov m (\<lambda>_. steps ms)"

definition ignore :: "'a ov \<Rightarrow> unit ov" where
  "ignore m = bind_ov m (\<lambda>_. return_ov ())"

definition ensure :: "op_cx \<Rightarrow> bool \<Rightarrow> string \<Rightarrow> unit ov" where
  "ensure cx b msg = (if b then return_ov () else bail cx msg)"

section \<open>The operand stack\<close>

definition err_beyond_end :: "usize \<Rightarrow> binary_reader_error" where
  "err_beyond_end off = error_new ''operators remaining after end of function'' off"

definition last_control :: "op_cx \<Rightarrow> frame ov" where
  "last_control cx s =
     (case control s of
        [] \<Rightarrow> Inl (Failed (err_beyond_end (offset cx)))
      | c # _ \<Rightarrow> Inr (c, s))"

definition record_pop :: "unit ov" where
  "record_pop = modify_ov (\<lambda>s. s\<lparr>pop_push_count := apfst Suc (pop_push_count s)\<rparr>)"

definition record_push :: "unit ov" where
  "record_push = modify_ov (\<lambda>s. s\<lparr>pop_push_count := apsnd Suc (pop_push_count s)\<rparr>)"

text \<open>The debug assertion that a concrete reference on the stack has a \<open>CoreTypeId\<close>.\<close>

fun indices_are_ids :: "val_type maybe_type \<Rightarrow> bool" where
  "indices_are_ids (Known (Ref r)) \<longleftrightarrow>
     (case ref_heap_type r of
        Some (Concrete (CoreTypeId _)) \<Rightarrow> True
      | Some (Abstract _ _) \<Rightarrow> True
      | _ \<Rightarrow> False)"
| "indices_are_ids _ \<longleftrightarrow> True"

definition debug_assert_type_indices_are_ids :: "val_type \<Rightarrow> unit ov" where
  "debug_assert_type_indices_are_ids ty =
     (if indices_are_ids (Known ty) then return_ov () else panic_ov)"

definition push_maybe :: "val_type maybe_type \<Rightarrow> unit ov" where
  "push_maybe ty =
     (if indices_are_ids ty
      then bind_ov (modify_ov (\<lambda>s. s\<lparr>operands := ty # operands s\<rparr>)) (\<lambda>_. record_push)
      else panic_ov)"

definition push_operand :: "val_type \<Rightarrow> unit ov" where
  "push_operand ty = push_maybe (Known ty)"

definition match_expected :: "op_cx \<Rightarrow> val_type maybe_type \<Rightarrow> val_type \<Rightarrow> unit ov" where
  "match_expected cx actual expected =
     (case actual of
        Bottom \<Rightarrow> return_ov ()
      | UnknownRef actual_ty \<Rightarrow>
          (case expected of
             Ref expected \<Rightarrow>
               (case actual_ty of
                  None \<Rightarrow> return_ov ()
                | Some actual \<Rightarrow>
                    bind_ov (call_ov (is_shared (resources cx) expected)) (\<lambda>expected_shared.
                    bind_ov (call_ov (ref_new False (Abstract expected_shared actual))) (\<lambda>actual.
                    bind_ov (call_ov (is_subtype (resources cx) (Ref actual) (Ref expected))) (\<lambda>ok.
                      ensure cx ok
                        (''type mismatch: expected '' @ ty_to_str (Ref expected) @ '', found ''
                         @ ty_to_str (Ref actual))))))
           | _ \<Rightarrow> bail cx
               (''type mismatch: expected '' @ ty_to_str expected @ '', found heap type''))
      | Known actual \<Rightarrow>
          bind_ov (call_ov (is_subtype (resources cx) actual expected)) (\<lambda>ok.
            ensure cx ok
              (''type mismatch: expected '' @ ty_to_str expected @ '', found ''
               @ ty_to_str actual)))"

text \<open>\<open>_pop_operand\<close>, the slow path: what was popped too early is pushed back first.\<close>

definition slow_pop_operand ::
  "op_cx \<Rightarrow> val_type option \<Rightarrow> val_type maybe_type option \<Rightarrow> val_type maybe_type ov" where
  "slow_pop_operand cx expected popped =
     bind_ov (modify_ov (\<lambda>s.
       case popped of None \<Rightarrow> s | Some ty \<Rightarrow> s\<lparr>operands := ty # operands s\<rparr>)) (\<lambda>_.
     bind_ov (last_control cx) (\<lambda>c.
     bind_ov (\<lambda>s.
       if length (operands s) = fr_height c \<and> fr_unreachable c then Inr (Bottom, s)
       else if length (operands s) = fr_height c
       then bail cx (''type mismatch: expected ''
         @ (case expected of Some ty \<Rightarrow> ty_to_str ty | None \<Rightarrow> ''a type'')
         @ '' but nothing on stack'') s
       else (case operands s of
               [] \<Rightarrow> Inl Panicked
             | ty # rest \<Rightarrow> Inr (ty, s\<lparr>operands := rest\<rparr>))) (\<lambda>actual.
     bind_ov (case expected of
         Some expected \<Rightarrow> match_expected cx actual expected
       | None \<Rightarrow> return_ov ()) (\<lambda>_.
     bind_ov record_pop (\<lambda>_. return_ov actual)))))"

definition pop_operand :: "op_cx \<Rightarrow> val_type option \<Rightarrow> val_type maybe_type ov" where
  "pop_operand cx expected s =
     (case operands s of
        [] \<Rightarrow> slow_pop_operand cx expected None s
      | ty # rest \<Rightarrow>
          (let s' = s\<lparr>operands := rest\<rparr> in
           case ty of
             Known actual_ty \<Rightarrow>
               (if Some actual_ty = expected \<and> control s' \<noteq> []
                   \<and> length rest \<ge> fr_height (hd (control s'))
                then bind_ov record_pop (\<lambda>_. return_ov (Known actual_ty)) s'
                else slow_pop_operand cx expected (Some ty) s')
           | _ \<Rightarrow> slow_pop_operand cx expected (Some ty) s'))"

definition pop :: "op_cx \<Rightarrow> val_type \<Rightarrow> unit ov" where
  "pop cx ty = ignore (pop_operand cx (Some ty))"

text \<open>The loops \<open>for ty in tys.rev() { self.pop_operand(Some(ty))?; }\<close> and
  \<open>for ty in tys { self.push_operand(ty)?; }\<close>.\<close>

definition pop_rev :: "op_cx \<Rightarrow> val_type list \<Rightarrow> unit ov" where
  "pop_rev cx tys = steps (map (pop cx) (rev tys))"

definition push_all :: "val_type list \<Rightarrow> unit ov" where
  "push_all tys = steps (map push_operand tys)"

definition pop_push_label_types :: "op_cx \<Rightarrow> val_type list \<Rightarrow> unit ov" where
  "pop_push_label_types cx label_types = steps [pop_rev cx label_types, push_all label_types]"

text \<open>\<open>let tmp = self.pop_push_count; ...; self.pop_push_count = tmp;\<close>\<close>

definition uncounted :: "unit ov \<Rightarrow> unit ov" where
  "uncounted m = bind_ov (get_ov pop_push_count) (\<lambda>tmp.
     bind_ov m (\<lambda>_. modify_ov (\<lambda>s. s\<lparr>pop_push_count := tmp\<rparr>)))"

definition match_operand :: "op_cx \<Rightarrow> val_type \<Rightarrow> val_type \<Rightarrow> unit ov" where
  "match_operand cx actual expected = uncounted (steps [push_operand actual, pop cx expected])"

fun pop_operands :: "op_cx \<Rightarrow> val_type list \<Rightarrow> val_type maybe_type list ov" where
  "pop_operands cx [] = return_ov []"
| "pop_operands cx (ty # tys) =
     bind_ov (pop_operand cx (Some ty)) (\<lambda>actual.
     bind_ov (pop_operands cx tys) (\<lambda>rest. return_ov (actual # rest)))"

definition match_stack_operands :: "op_cx \<Rightarrow> val_type list \<Rightarrow> unit ov" where
  "match_stack_operands cx expected_tys = uncounted (
     bind_ov (pop_operands cx (rev expected_tys)) (\<lambda>popped_types_tmp.
       modify_ov (\<lambda>s. s\<lparr>operands := fold Cons (rev popped_types_tmp) (operands s)\<rparr>)))"

definition pop_ref :: "op_cx \<Rightarrow> ref_type option \<Rightarrow> ref_type maybe_type ov" where
  "pop_ref cx expected = bind_ov (pop_operand cx (map_option Ref expected)) (\<lambda>actual.
     case actual of
       Bottom \<Rightarrow> return_ov (UnknownRef None)
     | UnknownRef ty \<Rightarrow> return_ov (UnknownRef ty)
     | Known (Ref rt) \<Rightarrow> return_ov (Known rt)
     | Known ty \<Rightarrow> bail cx (''type mismatch: expected ref but found '' @ ty_to_str ty))"

definition pop_maybe_shared_ref :: "op_cx \<Rightarrow> abstract_heap_type \<Rightarrow> ref_type maybe_type ov" where
  "pop_maybe_shared_ref cx expected = bind_ov (pop_ref cx None) (\<lambda>actual.
     case actual of
       Bottom \<Rightarrow> return_ov Bottom
     | UnknownRef None \<Rightarrow> return_ov (UnknownRef None)
     | UnknownRef (Some actual) \<Rightarrow>
         bind_ov (ensure cx (is_subtype_of actual expected)
           (''type mismatch: expected subtype of '' @ as_str False expected @ '', found ''
            @ as_str False actual)) (\<lambda>_.
         return_ov (UnknownRef (Some actual)))
     | Known actual \<Rightarrow>
         bind_ov (call_ov (is_shared (resources cx) actual)) (\<lambda>is_actual_shared.
         bind_ov (call_ov (ref_new True (Abstract is_actual_shared expected))) (\<lambda>expected.
         bind_ov (call_ov (is_subtype (resources cx) (Ref actual) (Ref expected))) (\<lambda>ok.
         bind_ov (ensure cx ok
           (''type mismatch: expected subtype of '' @ ref_display expected @ '', found ''
            @ ref_display actual)) (\<lambda>_.
         return_ov (Known actual))))))"

section \<open>Look-ups in the module\<close>

definition sub_type_at_ov :: "op_cx \<Rightarrow> u32 \<Rightarrow> sub_type ov" where
  "sub_type_at_ov cx at = bind_ov (call_ov (sub_type_at (resources cx) at)) (\<lambda>st.
     case st of
       None \<Rightarrow> bail cx ''unknown type: type index out of bounds''
     | Some st \<Rightarrow> return_ov st)"

text \<open>\<open>if self.inner.shared && !shared { bail!(..) }\<close>\<close>

definition ensure_shared :: "op_cx \<Rightarrow> bool \<Rightarrow> string \<Rightarrow> unit ov" where
  "ensure_shared cx shared msg = bind_ov (get_ov ov_shared) (\<lambda>s. ensure cx (\<not> (s \<and> \<not> shared)) msg)"

definition struct_type_at :: "op_cx \<Rightarrow> u32 \<Rightarrow> field_type list ov" where
  "struct_type_at cx at = bind_ov (sub_type_at_ov cx at) (\<lambda>sub_ty.
     case comp_inner (composite_type sub_ty) of
       CompStruct (StructType flds) \<Rightarrow>
         bind_ov (ensure_shared cx (comp_shared (composite_type sub_ty))
           ''shared functions cannot access unshared structs'') (\<lambda>_. return_ov flds)
     | _ \<Rightarrow> bail cx (''expected struct type at index '' @ fmt_dec (unat at) @ '', found ''
         @ sub_type_display sub_ty))"

definition struct_field_at :: "op_cx \<Rightarrow> u32 \<Rightarrow> u32 \<Rightarrow> field_type ov" where
  "struct_field_at cx struct_type_index field_index =
     bind_ov (struct_type_at cx struct_type_index) (\<lambda>flds.
       if unat field_index < length flds then return_ov (flds ! unat field_index)
       else bail cx ''unknown field: field index out of bounds'')"

definition mutable_struct_field_at :: "op_cx \<Rightarrow> u32 \<Rightarrow> u32 \<Rightarrow> field_type ov" where
  "mutable_struct_field_at cx struct_type_index field_index =
     bind_ov (struct_field_at cx struct_type_index field_index) (\<lambda>field.
     bind_ov (ensure cx (field_mutable field)
       ''invalid struct modification: struct field is immutable'') (\<lambda>_. return_ov field))"

definition array_type_at :: "op_cx \<Rightarrow> u32 \<Rightarrow> field_type ov" where
  "array_type_at cx at = bind_ov (sub_type_at_ov cx at) (\<lambda>sub_ty.
     case comp_inner (composite_type sub_ty) of
       CompArray (ArrayType field) \<Rightarrow>
         bind_ov (ensure_shared cx (comp_shared (composite_type sub_ty))
           ''shared functions cannot access unshared arrays'') (\<lambda>_. return_ov field)
     | _ \<Rightarrow> bail cx (''expected array type at index '' @ fmt_dec (unat at) @ '', found ''
         @ sub_type_display sub_ty))"

definition mutable_array_type_at :: "op_cx \<Rightarrow> u32 \<Rightarrow> field_type ov" where
  "mutable_array_type_at cx at = bind_ov (array_type_at cx at) (\<lambda>field.
     bind_ov (ensure cx (field_mutable field)
       ''invalid array modification: array is immutable'') (\<lambda>_. return_ov field))"

definition func_type_at :: "op_cx \<Rightarrow> u32 \<Rightarrow> func_type ov" where
  "func_type_at cx at = bind_ov (sub_type_at_ov cx at) (\<lambda>sub_ty.
     case comp_inner (composite_type sub_ty) of
       CompFunc func_ty \<Rightarrow>
         bind_ov (ensure_shared cx (comp_shared (composite_type sub_ty))
           ''shared functions cannot access unshared functions'') (\<lambda>_. return_ov func_ty)
     | _ \<Rightarrow> bail cx (''expected func type at index '' @ fmt_dec (unat at) @ '', found ''
         @ sub_type_display sub_ty))"

definition cont_type_at :: "op_cx \<Rightarrow> u32 \<Rightarrow> cont_type ov" where
  "cont_type_at cx at = bind_ov (sub_type_at_ov cx at) (\<lambda>sub_ty.
     case comp_inner (composite_type sub_ty) of
       CompCont cont_ty \<Rightarrow>
         bind_ov (ensure_shared cx (comp_shared (composite_type sub_ty))
           ''shared continuations cannot access unshared continuations'') (\<lambda>_. return_ov cont_ty)
     | _ \<Rightarrow> bail cx (''non-continuation type '' @ fmt_dec (unat at)))"

definition unwrap_func :: "sub_type \<Rightarrow> func_type option" where
  "unwrap_func st = (case comp_inner (composite_type st) of CompFunc f \<Rightarrow> Some f | _ \<Rightarrow> None)"

definition func_type_of_cont_type :: "op_cx \<Rightarrow> cont_type \<Rightarrow> func_type ov" where
  "func_type_of_cont_type cx cont_ty =
     (case cont_ty of ContType p \<Rightarrow>
        bind_ov (call_ov (packed_as_core_type_id p)) (\<lambda>func_id.
        bind_ov (call_ov (sub_type_at_id (resources cx) func_id)) (\<lambda>st.
        call_ov (unwrap_func st))))"

definition tag_at_ov :: "op_cx \<Rightarrow> u32 \<Rightarrow> func_type ov" where
  "tag_at_ov cx at = bind_ov (call_ov (tag_at (resources cx) at)) (\<lambda>ft.
     case ft of
       None \<Rightarrow> bail cx (''unknown tag '' @ fmt_dec (unat at) @ '': tag index out of bounds'')
     | Some ft \<Rightarrow> return_ov ft)"

definition exception_tag_at :: "op_cx \<Rightarrow> u32 \<Rightarrow> func_type ov" where
  "exception_tag_at cx at = bind_ov (tag_at_ov cx at) (\<lambda>func_ty.
     bind_ov (ensure cx (length (func_results func_ty) = 0)
       ''invalid exception type: non-empty tag result type'') (\<lambda>_. return_ov func_ty))"

definition global_type_at :: "op_cx \<Rightarrow> u32 \<Rightarrow> global_type ov" where
  "global_type_at cx at =
     (case global_at (resources cx) at of
        Some ty \<Rightarrow>
          bind_ov (ensure_shared cx (global_shared ty)
            ''shared functions cannot access unshared globals'') (\<lambda>_. return_ov ty)
      | None \<Rightarrow> bail cx ''unknown global: global index out of bounds'')"

definition table_type_at :: "op_cx \<Rightarrow> u32 \<Rightarrow> table_type ov" where
  "table_type_at cx table =
     (case table_at (resources cx) table of
        Some ty \<Rightarrow>
          bind_ov (ensure_shared cx (table_shared ty)
            ''shared functions cannot access unshared tables'') (\<lambda>_. return_ov ty)
      | None \<Rightarrow> bail cx
          (''unknown table '' @ fmt_dec (unat table) @ '': table index out of bounds''))"

definition element_type_at_ov :: "op_cx \<Rightarrow> u32 \<Rightarrow> ref_type ov" where
  "element_type_at_ov cx elem_index =
     (case element_type_at (resources cx) elem_index of
        Some ty \<Rightarrow> return_ov ty
      | None \<Rightarrow> bail cx (''unknown elem segment '' @ fmt_dec (unat elem_index)
          @ '': segment index out of bounds''))"

definition block_params :: "op_cx \<Rightarrow> block_type \<Rightarrow> val_type list ov" where
  "block_params cx ty =
     (case ty of
        BlockFuncType t \<Rightarrow> bind_ov (func_type_at cx t) (\<lambda>ft. return_ov (func_params ft))
      | _ \<Rightarrow> return_ov [])"

definition block_results :: "op_cx \<Rightarrow> block_type \<Rightarrow> val_type list ov" where
  "block_results cx ty =
     (case ty of
        BlockEmpty \<Rightarrow> return_ov []
      | BlockResult t \<Rightarrow> return_ov [t]
      | BlockFuncType t \<Rightarrow> bind_ov (func_type_at cx t) (\<lambda>ft. return_ov (func_results ft)))"

definition label_types :: "op_cx \<Rightarrow> block_type \<times> frame_kind \<Rightarrow> val_type list ov" where
  "label_types cx block =
     (case snd block of
        FrameLoop \<Rightarrow> block_params cx (fst block)
      | _ \<Rightarrow> block_results cx (fst block))"

definition check_data_segment :: "op_cx \<Rightarrow> u32 \<Rightarrow> unit ov" where
  "check_data_segment cx data_index =
     (case data_count (resources cx) of
        None \<Rightarrow> bail cx ''data count section required''
      | Some count \<Rightarrow>
          ensure cx (data_index < count)
            (''unknown data segment '' @ fmt_dec (unat data_index)))"

definition local_type :: "op_cx \<Rightarrow> u32 \<Rightarrow> val_type ov" where
  "local_type cx idx = bind_ov (get_ov (\<lambda>s. locals_get (ov_locals s) idx)) (\<lambda>ty.
     case ty of
       Some ty \<Rightarrow> return_ov ty
     | None \<Rightarrow> bail cx (''unknown local '' @ fmt_dec (unat idx)
         @ '': local index out of bounds''))"

section \<open>The control stack\<close>

definition unreachable :: "op_cx \<Rightarrow> unit ov" where
  "unreachable cx s =
     (case control s of
        [] \<Rightarrow> Inl (Failed (err_beyond_end (offset cx)))
      | c # cs \<Rightarrow> Inr ((), s\<lparr>control := c\<lparr>fr_unreachable := True\<rparr> # cs,
          operands := drop (length (operands s) - fr_height c) (operands s)\<rparr>))"

definition push_frame :: "frame_kind \<Rightarrow> block_type \<Rightarrow> unit ov" where
  "push_frame kind ty = modify_ov (\<lambda>s. s\<lparr>control :=
     \<lparr>fr_kind = kind, fr_block_type = ty, fr_height = length (operands s),
      fr_unreachable = False, fr_init_height = inits_push_ctrl (ov_local_inits s)\<rparr> # control s\<rparr>)"

definition push_ctrl :: "op_cx \<Rightarrow> frame_kind \<Rightarrow> block_type \<Rightarrow> unit ov" where
  "push_ctrl cx kind ty = bind_ov (push_frame kind ty) (\<lambda>_.
     bind_ov (block_params cx ty) (\<lambda>params. push_all params))"

definition reset_local_inits :: "usize \<Rightarrow> unit ov" where
  "reset_local_inits init_height s =
     (case inits_pop_ctrl init_height (ov_local_inits s) of
        None \<Rightarrow> Inl Panicked
      | Some li \<Rightarrow> Inr ((), s\<lparr>ov_local_inits := li\<rparr>))"

definition pop_ctrl :: "op_cx \<Rightarrow> frame ov" where
  "pop_ctrl cx = bind_ov (last_control cx) (\<lambda>frame.
     bind_ov (reset_local_inits (fr_init_height frame)) (\<lambda>_.
     bind_ov (block_results cx (fr_block_type frame)) (\<lambda>results.
     bind_ov (pop_rev cx results) (\<lambda>_.
     bind_ov (get_ov (\<lambda>s. length (operands s))) (\<lambda>len.
     bind_ov (ensure cx (len = fr_height frame)
       ''type mismatch: values remaining on stack at end of block'') (\<lambda>_.
     \<lambda>s. case control s of [] \<Rightarrow> Inl Panicked | c # cs \<Rightarrow> Inr (c, s\<lparr>control := cs\<rparr>)))))))"

definition jump :: "op_cx \<Rightarrow> u32 \<Rightarrow> (block_type \<times> frame_kind) ov" where
  "jump cx depth s =
     (if control s = [] then Inl (Failed (err_beyond_end (offset cx)))
      else if unat depth \<le> length (control s) - 1
      then (let frame = control s ! unat depth in Inr ((fr_block_type frame, fr_kind frame), s))
      else bail cx ''unknown label: branch depth too large'' s)"

section \<open>Construction, locals and the end of the function\<close>

definition operator_validator_new :: "wasm_features \<Rightarrow> operator_validator" where
  "operator_validator_new fs =
     \<lparr>ov_locals = locals_empty, ov_local_inits = local_inits_default, ov_features = fs,
      control = [], operands = [], end_which_emptied_control = None, ov_shared = False,
      pop_push_count = (0, 0)\<rparr>"

fun define_param_locals :: "val_type list \<Rightarrow> locals \<Rightarrow> locals option" where
  "define_param_locals [] l = Some l"
| "define_param_locals (ty # tys) l =
     (case locals_define 1 ty l of None \<Rightarrow> None | Some (_, l) \<Rightarrow> define_param_locals tys l)"

definition new_func ::
  "u32 \<Rightarrow> usize \<Rightarrow> wasm_features \<Rightarrow> module_resources \<Rightarrow> failure + operator_validator" where
  "new_func ty off fs res =
     (let cx = \<lparr>offset = off, resources = res\<rparr>;
          ret = operator_validator_new fs;
          ret = ret\<lparr>control := [\<lparr>fr_kind = FrameBlock, fr_block_type = BlockFuncType ty,
            fr_height = 0, fr_unreachable = False, fr_init_height = 0\<rparr>]\<rparr>
      in case sub_type_at_ov cx ty ret of
           Inl e \<Rightarrow> Inl e
         | Inr (sub_ty, ret) \<Rightarrow>
             (case comp_inner (composite_type sub_ty) of
                CompFunc func_ty \<Rightarrow>
                  (case define_param_locals (func_params func_ty) (ov_locals ret) of
                     None \<Rightarrow> Inl Panicked
                   | Some l \<Rightarrow>
                       Inr (ret\<lparr>ov_locals := l,
                         ov_local_inits :=
                           define_params (length (func_params func_ty)) (ov_local_inits ret),
                         ov_shared := comp_shared (composite_type sub_ty)\<rparr>))
              | _ \<Rightarrow> Inl (Failed (error_new (''expected func type at index '' @ fmt_dec (unat ty)
                  @ '', found '' @ sub_type_display sub_ty) off))))"

definition new_const_expr :: "wasm_features \<Rightarrow> val_type \<Rightarrow> operator_validator" where
  "new_const_expr fs ty =
     (operator_validator_new fs)\<lparr>control := [\<lparr>fr_kind = FrameBlock,
        fr_block_type = BlockResult ty, fr_height = 0, fr_unreachable = False,
        fr_init_height = 0\<rparr>]\<rparr>"

definition define_locals :: "op_cx \<Rightarrow> u32 \<Rightarrow> val_type \<Rightarrow> unit ov" where
  "define_locals cx count ty = bind_ov (get_ov ov_features) (\<lambda>fs.
     bind_ov (try_ov (check_value_type (resources cx) ty fs (offset cx))) (\<lambda>ty.
     if count = 0 then return_ov ()
     else (\<lambda>s. case locals_define count ty (ov_locals s) of
         None \<Rightarrow> Inl Panicked
       | Some (False, _) \<Rightarrow>
           Inl (Failed (error_new ''too many locals: locals exceed maximum'' (offset cx)))
       | Some (True, l) \<Rightarrow> Inr ((), s\<lparr>ov_locals := l,
           ov_local_inits := inits_define_locals count ty (ov_local_inits s)\<rparr>))))"

definition peek_operand_at :: "operator_validator \<Rightarrow> usize \<Rightarrow> val_type option option" where
  "peek_operand_at s depth =
     (if depth < length (operands s)
      then Some (case operands s ! depth of Known t \<Rightarrow> Some t | _ \<Rightarrow> None)
      else None)"

definition get_frame :: "operator_validator \<Rightarrow> usize \<Rightarrow> frame option" where
  "get_frame s depth = (if depth < length (control s) then Some (control s ! depth) else None)"

definition finish :: "usize \<Rightarrow> operator_validator \<Rightarrow> failure + unit" where
  "finish off s =
     (if control s \<noteq> []
      then Inl (Failed (error_new
        ''control frames remain at end of function: END opcode expected'' off))
      else case end_which_emptied_control s of
        None \<Rightarrow> Inl Panicked
      | Some e \<Rightarrow> (if off \<noteq> e + 1 then Inl (Failed (err_beyond_end off)) else Inr ()))"

end
