(* ===== verification/Validator_Checks.thy ===== *)
theory Validator_Checks
  imports Validator_State
begin

text \<open>
  The checks that the validators of several operators share:
  crates/wasmparser/src/validator/operators.rs, the methods \<open>check_*\<close> of \<open>OperatorValidatorTemp\<close>,
  and those of crates/wasmparser/src/validator/operators/simd.rs.
\<close>

section \<open>Memory and features\<close>

definition check_memory_index :: "op_cx \<Rightarrow> u32 \<Rightarrow> val_type ov" where
  "check_memory_index cx memory_index =
     (case memory_at (resources cx) memory_index of
        Some mem \<Rightarrow> return_ov (memory_index_type mem)
      | None \<Rightarrow> bail cx (''unknown memory '' @ fmt_dec (unat memory_index)))"

definition check_memarg :: "op_cx \<Rightarrow> mem_arg \<Rightarrow> val_type ov" where
  "check_memarg cx memarg = bind_ov (check_memory_index cx (ma_memory memarg)) (\<lambda>index_ty.
     bind_ov (ensure cx (\<not> ma_align memarg > ma_max_align memarg)
       ''malformed memop alignment: alignment must not be larger than natural'') (\<lambda>_.
     bind_ov (ensure cx (\<not> (index_ty = I32 \<and> ma_offset memarg > 0xFFFFFFFF))
       ''offset out of range: must be <= 2**32'') (\<lambda>_.
     return_ov index_ty)))"

definition check_feature :: "op_cx \<Rightarrow> wasm_feature \<Rightarrow> string \<Rightarrow> unit ov" where
  "check_feature cx f msg = bind_ov (get_ov ov_features) (\<lambda>fs. ensure cx (f \<in> fs) msg)"

definition check_floats_enabled :: "op_cx \<Rightarrow> unit ov" where
  "check_floats_enabled cx = check_feature cx FLOATS ''floating-point instruction disallowed''"

definition check_shared_memarg :: "op_cx \<Rightarrow> mem_arg \<Rightarrow> val_type ov" where
  "check_shared_memarg cx memarg =
     bind_ov (ensure cx (ma_align memarg = ma_max_align memarg)
       ''atomic instructions must always specify maximum alignment'') (\<lambda>_.
     check_memory_index cx (ma_memory memarg))"

section \<open>Blocks and calls\<close>

definition check_block_type :: "op_cx \<Rightarrow> block_type \<Rightarrow> block_type ov" where
  "check_block_type cx ty =
     (case ty of
        BlockEmpty \<Rightarrow> return_ov BlockEmpty
      | BlockResult t \<Rightarrow>
          bind_ov (get_ov ov_features) (\<lambda>fs.
          bind_ov (try_ov (check_value_type (resources cx) t fs (offset cx))) (\<lambda>t.
          return_ov (BlockResult t)))
      | BlockFuncType idx \<Rightarrow>
          bind_ov (check_feature cx MULTI_VALUE
            (''blocks, loops, and ifs may only produce a resulttype ''
             @ ''when multi-value is not enabled'')) (\<lambda>_.
          bind_ov (func_type_at cx idx) (\<lambda>_.
          return_ov (BlockFuncType idx))))"

definition type_of_function :: "op_cx \<Rightarrow> u32 \<Rightarrow> func_type ov" where
  "type_of_function cx function_index =
     (case type_index_of_function (resources cx) function_index of
        Some type_idx \<Rightarrow> func_type_at cx type_idx
      | None \<Rightarrow> bail cx (''unknown function '' @ fmt_dec (unat function_index)
          @ '': function index out of bounds''))"

text \<open>The loops over the parameters and results of a function type, with their assertions.\<close>

definition pop_params :: "op_cx \<Rightarrow> func_type \<Rightarrow> unit ov" where
  "pop_params cx ty = steps (map (\<lambda>ty.
     steps [debug_assert_type_indices_are_ids ty, pop cx ty]) (rev (func_params ty)))"

definition push_results :: "func_type \<Rightarrow> unit ov" where
  "push_results ty = steps (map (\<lambda>ty.
     steps [debug_assert_type_indices_are_ids ty, push_operand ty]) (func_results ty))"

definition check_call_ty :: "op_cx \<Rightarrow> func_type \<Rightarrow> unit ov" where
  "check_call_ty cx ty = steps [pop_params cx ty, push_results ty]"

text \<open>The type of the function's body is that of the outermost frame, \<open>self.control[0]\<close>.\<close>

definition outermost_results :: "op_cx \<Rightarrow> val_type list ov" where
  "outermost_results cx s =
     (if control s = [] then Inl (Failed (err_beyond_end (offset cx)))
      else block_results cx (fr_block_type (last (control s))) s)"

definition check_return :: "op_cx \<Rightarrow> unit ov" where
  "check_return cx = bind_ov (outermost_results cx) (\<lambda>tys.
     steps [pop_rev cx tys, unreachable cx])"

text \<open>\<open>all(..)\<close> over two lists in parallel, stopping at the first pair that is not related.\<close>

fun all_subtypes :: "op_cx \<Rightarrow> (val_type \<times> val_type) list \<Rightarrow> bool ov" where
  "all_subtypes cx [] = return_ov True"
| "all_subtypes cx ((a, b) # tys) =
     bind_ov (call_ov (is_subtype (resources cx) a b)) (\<lambda>ok.
       if ok then all_subtypes cx tys else return_ov False)"

fun join_types :: "val_type list \<Rightarrow> string" where
  "join_types [] = ''''"
| "join_types [ty] = val_type_display ty"
| "join_types (ty # tys) = val_type_display ty @ '' '' @ join_types tys"

definition check_func_type_same_results :: "op_cx \<Rightarrow> func_type \<Rightarrow> unit ov" where
  "check_func_type_same_results cx callee_ty = bind_ov (outermost_results cx) (\<lambda>caller_rets.
     bind_ov (if length (func_results callee_ty) \<noteq> length caller_rets then return_ov False
       else all_subtypes cx (zip (func_results callee_ty) caller_rets)) (\<lambda>ok.
     ensure cx ok (''type mismatch: current function requires result type [''
       @ join_types caller_rets @ ''] but callee returns ['' @ join_types (func_results callee_ty)
       @ '']'')))"

definition check_return_call_ty :: "op_cx \<Rightarrow> func_type \<Rightarrow> unit ov" where
  "check_return_call_ty cx ty = steps [check_func_type_same_results cx ty, pop_params cx ty,
     uncounted (steps [push_results ty, check_return cx])]"

definition check_heap_type_ov :: "op_cx \<Rightarrow> heap_type \<Rightarrow> heap_type ov" where
  "check_heap_type_ov cx hty = try_ov (check_heap_type (resources cx) hty (offset cx))"

definition check_call_ref_ty :: "op_cx \<Rightarrow> u32 \<Rightarrow> func_type ov" where
  "check_call_ref_ty cx type_idx =
     bind_ov (check_heap_type_ov cx (Concrete (Module type_idx))) (\<lambda>hty.
     bind_ov (call_ov (ref_new True hty)) (\<lambda>expected.
     bind_ov (pop_ref cx (Some expected)) (\<lambda>_.
     func_type_at cx type_idx)))"

definition check_call_indirect_ty :: "op_cx \<Rightarrow> u32 \<Rightarrow> u32 \<Rightarrow> func_type ov" where
  "check_call_indirect_ty cx type_idx table_index =
     bind_ov (table_type_at cx table_index) (\<lambda>tab.
     bind_ov (call_ov (is_subtype (resources cx) (Ref (table_element_type tab)) (Ref FUNCREF))) (\<lambda>ok.
     bind_ov (ensure cx ok
       ''type mismatch: indirect calls must go through a table with type <= funcref'') (\<lambda>_.
     bind_ov (pop cx (table_index_type tab)) (\<lambda>_.
     func_type_at cx type_idx))))"

section \<open>Numeric operators\<close>

definition check_cmp_op :: "op_cx \<Rightarrow> val_type \<Rightarrow> unit ov" where
  "check_cmp_op cx ty = steps [pop cx ty, pop cx ty, push_operand I32]"

definition check_fcmp_op :: "op_cx \<Rightarrow> val_type \<Rightarrow> unit ov" where
  "check_fcmp_op cx ty = steps [check_floats_enabled cx, check_cmp_op cx ty]"

definition check_unary_op :: "op_cx \<Rightarrow> val_type \<Rightarrow> unit ov" where
  "check_unary_op cx ty = steps [pop cx ty, push_operand ty]"

definition check_funary_op :: "op_cx \<Rightarrow> val_type \<Rightarrow> unit ov" where
  "check_funary_op cx ty = steps [check_floats_enabled cx, check_unary_op cx ty]"

definition check_conversion_op :: "op_cx \<Rightarrow> val_type \<Rightarrow> val_type \<Rightarrow> unit ov" where
  "check_conversion_op cx into from = steps [pop cx from, push_operand into]"

definition check_fconversion_op :: "op_cx \<Rightarrow> val_type \<Rightarrow> val_type \<Rightarrow> unit ov" where
  "check_fconversion_op cx into from = steps [check_floats_enabled cx, check_conversion_op cx into from]"

definition check_binary_op :: "op_cx \<Rightarrow> val_type \<Rightarrow> unit ov" where
  "check_binary_op cx ty = steps [pop cx ty, pop cx ty, push_operand ty]"

definition check_fbinary_op :: "op_cx \<Rightarrow> val_type \<Rightarrow> unit ov" where
  "check_fbinary_op cx ty = steps [check_floats_enabled cx, check_binary_op cx ty]"

definition check_binop128 :: "op_cx \<Rightarrow> unit ov" where
  "check_binop128 cx =
     steps [pop cx I64, pop cx I64, pop cx I64, pop cx I64, push_operand I64, push_operand I64]"

definition check_i64_mul_wide :: "op_cx \<Rightarrow> unit ov" where
  "check_i64_mul_wide cx = steps [pop cx I64, pop cx I64, push_operand I64, push_operand I64]"

section \<open>Atomic operators\<close>

definition check_atomic_load :: "op_cx \<Rightarrow> mem_arg \<Rightarrow> val_type \<Rightarrow> unit ov" where
  "check_atomic_load cx memarg load_ty = bind_ov (check_shared_memarg cx memarg) (\<lambda>ty.
     steps [pop cx ty, push_operand load_ty])"

definition check_atomic_store :: "op_cx \<Rightarrow> mem_arg \<Rightarrow> val_type \<Rightarrow> unit ov" where
  "check_atomic_store cx memarg store_ty = bind_ov (check_shared_memarg cx memarg) (\<lambda>ty.
     steps [pop cx store_ty, pop cx ty])"

definition check_atomic_binary_memory_op :: "op_cx \<Rightarrow> mem_arg \<Rightarrow> val_type \<Rightarrow> unit ov" where
  "check_atomic_binary_memory_op cx memarg op_ty = bind_ov (check_shared_memarg cx memarg) (\<lambda>ty.
     steps [pop cx op_ty, pop cx ty, push_operand op_ty])"

definition check_atomic_binary_memory_cmpxchg :: "op_cx \<Rightarrow> mem_arg \<Rightarrow> val_type \<Rightarrow> unit ov" where
  "check_atomic_binary_memory_cmpxchg cx memarg op_ty =
     bind_ov (check_shared_memarg cx memarg) (\<lambda>ty.
     steps [pop cx op_ty, pop cx op_ty, pop cx ty, push_operand op_ty])"

section \<open>References\<close>

definition implementation_limit :: "op_cx \<Rightarrow> ref_type option \<Rightarrow> ref_type ov" where
  "implementation_limit cx rt =
     (case rt of
        Some rt \<Rightarrow> return_ov rt
      | None \<Rightarrow> bail cx ''implementation limit: type index too large'')"

text \<open>The debug assertion of the two functions below.\<close>

definition debug_assert_concrete_id :: "heap_type \<Rightarrow> unit ov" where
  "debug_assert_concrete_id hty =
     (case hty of Concrete (CoreTypeId _) \<Rightarrow> return_ov () | _ \<Rightarrow> panic_ov)"

definition push_concrete_ref :: "op_cx \<Rightarrow> bool \<Rightarrow> u32 \<Rightarrow> unit ov" where
  "push_concrete_ref cx nullable type_idx =
     bind_ov (check_heap_type_ov cx (Concrete (Module type_idx))) (\<lambda>heap_ty.
     bind_ov (debug_assert_concrete_id heap_ty) (\<lambda>_.
     bind_ov (implementation_limit cx (ref_new nullable heap_ty)) (\<lambda>ref_ty.
     push_operand (Ref ref_ty))))"

definition pop_concrete_ref :: "op_cx \<Rightarrow> bool \<Rightarrow> u32 \<Rightarrow> unit ov" where
  "pop_concrete_ref cx nullable type_idx =
     bind_ov (check_heap_type_ov cx (Concrete (Module type_idx))) (\<lambda>heap_ty.
     bind_ov (debug_assert_concrete_id heap_ty) (\<lambda>_.
     bind_ov (implementation_limit cx (ref_new nullable heap_ty)) (\<lambda>ref_ty.
     pop cx (Ref ref_ty))))"

definition check_downcast :: "op_cx \<Rightarrow> bool \<Rightarrow> heap_type \<Rightarrow> ref_type ov" where
  "check_downcast cx nullable heap_type =
     bind_ov (check_heap_type_ov cx heap_type) (\<lambda>heap_type.
     bind_ov (implementation_limit cx (ref_new nullable heap_type)) (\<lambda>sub_ty.
     bind_ov (call_ov (top_type (resources cx) heap_type)) (\<lambda>top.
     bind_ov (call_ov (ref_new True top)) (\<lambda>sup_ty.
     bind_ov (pop_ref cx (Some sup_ty)) (\<lambda>_.
     return_ov sub_ty)))))"

definition check_ref_test :: "op_cx \<Rightarrow> bool \<Rightarrow> heap_type \<Rightarrow> unit ov" where
  "check_ref_test cx nullable heap_type =
     bind_ov (check_downcast cx nullable heap_type) (\<lambda>_. push_operand I32)"

definition check_ref_cast :: "op_cx \<Rightarrow> bool \<Rightarrow> heap_type \<Rightarrow> unit ov" where
  "check_ref_cast cx nullable heap_type =
     bind_ov (check_downcast cx nullable heap_type) (\<lambda>sub_ty. push_operand (Ref sub_ty))"

definition check_atomic_global_rmw_ty :: "op_cx \<Rightarrow> u32 \<Rightarrow> val_type ov" where
  "check_atomic_global_rmw_ty cx global_index =
     bind_ov (global_type_at cx global_index) (\<lambda>g.
     bind_ov (ensure cx (content_type g = I32 \<or> content_type g = I64)
       ''invalid type: `global.atomic.rmw.*` only allows `i32` and `i64`'') (\<lambda>_.
     return_ov (content_type g)))"

definition check_struct_atomic_rmw :: "op_cx \<Rightarrow> string \<Rightarrow> u32 \<Rightarrow> u32 \<Rightarrow> unit ov" where
  "check_struct_atomic_rmw cx op struct_type_index field_index =
     bind_ov (mutable_struct_field_at cx struct_type_index field_index) (\<lambda>field.
     bind_ov (case element_type field of
         Val I32 \<Rightarrow> return_ov I32
       | Val I64 \<Rightarrow> return_ov I64
       | _ \<Rightarrow> bail cx (''invalid type: `struct.atomic.rmw.'' @ op
           @ ''` only allows `i32` and `i64`'')) (\<lambda>field_ty.
     steps [pop cx field_ty, pop_concrete_ref cx True struct_type_index, push_operand field_ty]))"

definition check_array_atomic_rmw :: "op_cx \<Rightarrow> string \<Rightarrow> u32 \<Rightarrow> unit ov" where
  "check_array_atomic_rmw cx op type_idx =
     bind_ov (mutable_array_type_at cx type_idx) (\<lambda>field.
     bind_ov (case element_type field of
         Val I32 \<Rightarrow> return_ov I32
       | Val I64 \<Rightarrow> return_ov I64
       | _ \<Rightarrow> bail cx (''invalid type: `array.atomic.rmw.'' @ op
           @ ''` only allows `i32` and `i64`'')) (\<lambda>elem_ty.
     steps [pop cx elem_ty, pop cx I32, pop_concrete_ref cx True type_idx, push_operand elem_ty]))"

section \<open>Stack switching\<close>

text \<open>The debug assertion of \<open>is_subtype_many\<close> is that the lengths agree.\<close>

definition is_subtype_many :: "op_cx \<Rightarrow> val_type list \<Rightarrow> val_type list \<Rightarrow> bool ov" where
  "is_subtype_many cx ts1 ts2 =
     (if length ts1 = length ts2 then all_subtypes cx (zip ts1 ts2) else panic_ov)"

text \<open>\<open>a.len() == b.len() && self.is_subtype_many(a, b)\<close>\<close>

definition same_len_subtypes :: "op_cx \<Rightarrow> val_type list \<Rightarrow> val_type list \<Rightarrow> bool ov" where
  "same_len_subtypes cx ts1 ts2 =
     (if length ts1 \<noteq> length ts2 then return_ov False else is_subtype_many cx ts1 ts2)"

text \<open>The continuation type behind a concrete reference type, as two operators look it up.\<close>

definition cont_func_type_of_ref :: "op_cx \<Rightarrow> ref_type \<Rightarrow> func_type ov" where
  "cont_func_type_of_ref cx rt =
     bind_ov (call_ov (Option.bind (type_index rt) packed_as_core_type_id)) (\<lambda>tid.
     bind_ov (call_ov (sub_type_at_id (resources cx) tid)) (\<lambda>sub_ty.
     case comp_inner (composite_type sub_ty) of
       CompCont cont \<Rightarrow> func_type_of_cont_type cx cont
     | _ \<Rightarrow> bail cx ''non-continuation type''))"

definition check_resume_handle :: "op_cx \<Rightarrow> func_type \<Rightarrow> handle \<Rightarrow> unit ov" where
  "check_resume_handle cx old_func_ty handle =
     (case handle of
        OnLabel tag label \<Rightarrow>
          bind_ov (tag_at_ov cx tag) (\<lambda>tag_ty.
          bind_ov (jump cx label) (\<lambda>block.
          bind_ov (label_types cx block) (\<lambda>tys.
          if tys = [] then bail cx (''type mismatch: instruction requires continuation reference ''
            @ ''type but label has none'')
          else case last tys of
            Ref rt \<Rightarrow>
              (if is_concrete_type_ref rt
               then bind_ov (cont_func_type_of_ref cx rt) (\<lambda>new_func_ty.
                 bind_ov (same_len_subtypes cx (func_params new_func_ty) (func_results tag_ty)) (\<lambda>ok.
                 bind_ov (if ok
                   then same_len_subtypes cx (func_results old_func_ty) (func_results new_func_ty)
                   else return_ov False) (\<lambda>ok.
                 bind_ov (ensure cx ok ''type mismatch in continuation type'') (\<lambda>_.
                 bind_ov (ensure cx (length tys = length (func_params tag_ty) + 1)
                   (''type mismatch: expected '' @ fmt_dec (length (func_params tag_ty) + 1)
                    @ '' label result(s), but label is annotated with '' @ fmt_dec (length tys)
                    @ '' results'')) (\<lambda>_.
                 bind_ov (all_subtypes cx
                   (zip (func_params tag_ty) (take (length (func_params tag_ty)) tys))) (\<lambda>ok.
                 ensure cx ok ''type mismatch between tag type and label type''))))))
               else bail cx (''type mismatch: '' @ ty_to_str (Ref rt)))
          | ty \<Rightarrow> bail cx (''type mismatch: '' @ ty_to_str ty))))
      | OnSwitch tag \<Rightarrow>
          bind_ov (tag_at_ov cx tag) (\<lambda>tag_ty.
          ensure cx (length (func_params tag_ty) = 0)
            ''type mismatch: non-empty tag parameter type''))"

definition check_resume_table :: "op_cx \<Rightarrow> handle list \<Rightarrow> u32 \<Rightarrow> func_type ov" where
  "check_resume_table cx table type_idx =
     bind_ov (cont_type_at cx type_idx) (\<lambda>cont_ty.
     bind_ov (func_type_of_cont_type cx cont_ty) (\<lambda>old_func_ty.
     bind_ov (steps (map (check_resume_handle cx old_func_ty) table)) (\<lambda>_.
     return_ov old_func_ty)))"

section \<open>Vector operators\<close>

definition check_simd_lane_index :: "op_cx \<Rightarrow> u8 \<Rightarrow> u8 \<Rightarrow> unit ov" where
  "check_simd_lane_index cx index limit = ensure cx (\<not> index \<ge> limit) ''SIMD index out of bounds''"

definition check_v128_splat :: "op_cx \<Rightarrow> val_type \<Rightarrow> unit ov" where
  "check_v128_splat cx src_ty = steps [pop cx src_ty, push_operand V128]"

definition check_v128_binary_op :: "op_cx \<Rightarrow> unit ov" where
  "check_v128_binary_op cx = steps [pop cx V128, pop cx V128, push_operand V128]"

definition check_v128_fbinary_op :: "op_cx \<Rightarrow> unit ov" where
  "check_v128_fbinary_op cx = steps [check_floats_enabled cx, check_v128_binary_op cx]"

definition check_v128_unary_op :: "op_cx \<Rightarrow> unit ov" where
  "check_v128_unary_op cx = steps [pop cx V128, push_operand V128]"

definition check_v128_funary_op :: "op_cx \<Rightarrow> unit ov" where
  "check_v128_funary_op cx = steps [check_floats_enabled cx, check_v128_unary_op cx]"

definition check_v128_ternary_op :: "op_cx \<Rightarrow> unit ov" where
  "check_v128_ternary_op cx = steps [pop cx V128, pop cx V128, pop cx V128, push_operand V128]"

definition check_v128_bitmask_op :: "op_cx \<Rightarrow> unit ov" where
  "check_v128_bitmask_op cx = steps [pop cx V128, push_operand I32]"

definition check_v128_shift_op :: "op_cx \<Rightarrow> unit ov" where
  "check_v128_shift_op cx = steps [pop cx I32, pop cx V128, push_operand V128]"

definition check_v128_load_op :: "op_cx \<Rightarrow> mem_arg \<Rightarrow> unit ov" where
  "check_v128_load_op cx memarg = bind_ov (check_memarg cx memarg) (\<lambda>idx.
     steps [pop cx idx, push_operand V128])"

lemmas numeric_checks =
  check_cmp_op_def check_fcmp_op_def check_unary_op_def check_funary_op_def
  check_conversion_op_def check_fconversion_op_def check_binary_op_def check_fbinary_op_def
  check_binop128_def check_i64_mul_wide_def

lemmas vector_checks =
  check_v128_splat_def check_v128_binary_op_def check_v128_fbinary_op_def check_v128_unary_op_def
  check_v128_funary_op_def check_v128_ternary_op_def check_v128_bitmask_op_def
  check_v128_shift_op_def check_v128_load_op_def

end
