(* ===== verification/Validator_Numeric.thy ===== *)
theory Validator_Numeric
  imports Validator_Checks
begin

text \<open>
  The validators of the operators whose type is fixed by their name: numeric, memory access, atomic
  and vector operators. They are the methods \<open>visit_*\<close> of crates/wasmparser/src/validator/operators.rs
  and crates/wasmparser/src/validator/operators/simd.rs, one function for each group of the datatype
  of operators. Where a method calls its signed twin (\<open>visit_i32_load8_u\<close>), the body of the twin
  stands here.
\<close>

section \<open>Numeric operators\<close>

fun visit_i32 :: "op_cx \<Rightarrow> i32_op \<Rightarrow> unit ov" where
  "visit_i32 cx I32Eqz = steps [pop cx I32, push_operand I32]"
| "visit_i32 cx I32Eq = check_cmp_op cx I32"
| "visit_i32 cx I32Ne = check_cmp_op cx I32"
| "visit_i32 cx I32LtS = check_cmp_op cx I32"
| "visit_i32 cx I32LtU = check_cmp_op cx I32"
| "visit_i32 cx I32GtS = check_cmp_op cx I32"
| "visit_i32 cx I32GtU = check_cmp_op cx I32"
| "visit_i32 cx I32LeS = check_cmp_op cx I32"
| "visit_i32 cx I32LeU = check_cmp_op cx I32"
| "visit_i32 cx I32GeS = check_cmp_op cx I32"
| "visit_i32 cx I32GeU = check_cmp_op cx I32"
| "visit_i32 cx I32Clz = check_unary_op cx I32"
| "visit_i32 cx I32Ctz = check_unary_op cx I32"
| "visit_i32 cx I32Popcnt = check_unary_op cx I32"
| "visit_i32 cx I32Add = check_binary_op cx I32"
| "visit_i32 cx I32Sub = check_binary_op cx I32"
| "visit_i32 cx I32Mul = check_binary_op cx I32"
| "visit_i32 cx I32DivS = check_binary_op cx I32"
| "visit_i32 cx I32DivU = check_binary_op cx I32"
| "visit_i32 cx I32RemS = check_binary_op cx I32"
| "visit_i32 cx I32RemU = check_binary_op cx I32"
| "visit_i32 cx I32And = check_binary_op cx I32"
| "visit_i32 cx I32Or = check_binary_op cx I32"
| "visit_i32 cx I32Xor = check_binary_op cx I32"
| "visit_i32 cx I32Shl = check_binary_op cx I32"
| "visit_i32 cx I32ShrS = check_binary_op cx I32"
| "visit_i32 cx I32ShrU = check_binary_op cx I32"
| "visit_i32 cx I32Rotl = check_binary_op cx I32"
| "visit_i32 cx I32Rotr = check_binary_op cx I32"
| "visit_i32 cx I32WrapI64 = check_conversion_op cx I32 I64"
| "visit_i32 cx I32TruncF32S = check_conversion_op cx I32 F32"
| "visit_i32 cx I32TruncF32U = check_conversion_op cx I32 F32"
| "visit_i32 cx I32TruncF64S = check_conversion_op cx I32 F64"
| "visit_i32 cx I32TruncF64U = check_conversion_op cx I32 F64"
| "visit_i32 cx I32ReinterpretF32 = check_conversion_op cx I32 F32"
| "visit_i32 cx I32Extend8S = check_unary_op cx I32"
| "visit_i32 cx I32Extend16S = check_unary_op cx I32"
| "visit_i32 cx I32TruncSatF32S = check_conversion_op cx I32 F32"
| "visit_i32 cx I32TruncSatF32U = check_conversion_op cx I32 F32"
| "visit_i32 cx I32TruncSatF64S = check_conversion_op cx I32 F64"
| "visit_i32 cx I32TruncSatF64U = check_conversion_op cx I32 F64"

fun visit_i64 :: "op_cx \<Rightarrow> i64_op \<Rightarrow> unit ov" where
  "visit_i64 cx I64Eqz = steps [pop cx I64, push_operand I32]"
| "visit_i64 cx I64Eq = check_cmp_op cx I64"
| "visit_i64 cx I64Ne = check_cmp_op cx I64"
| "visit_i64 cx I64LtS = check_cmp_op cx I64"
| "visit_i64 cx I64LtU = check_cmp_op cx I64"
| "visit_i64 cx I64GtS = check_cmp_op cx I64"
| "visit_i64 cx I64GtU = check_cmp_op cx I64"
| "visit_i64 cx I64LeS = check_cmp_op cx I64"
| "visit_i64 cx I64LeU = check_cmp_op cx I64"
| "visit_i64 cx I64GeS = check_cmp_op cx I64"
| "visit_i64 cx I64GeU = check_cmp_op cx I64"
| "visit_i64 cx I64Clz = check_unary_op cx I64"
| "visit_i64 cx I64Ctz = check_unary_op cx I64"
| "visit_i64 cx I64Popcnt = check_unary_op cx I64"
| "visit_i64 cx I64Add = check_binary_op cx I64"
| "visit_i64 cx I64Sub = check_binary_op cx I64"
| "visit_i64 cx I64Mul = check_binary_op cx I64"
| "visit_i64 cx I64DivS = check_binary_op cx I64"
| "visit_i64 cx I64DivU = check_binary_op cx I64"
| "visit_i64 cx I64RemS = check_binary_op cx I64"
| "visit_i64 cx I64RemU = check_binary_op cx I64"
| "visit_i64 cx I64And = check_binary_op cx I64"
| "visit_i64 cx I64Or = check_binary_op cx I64"
| "visit_i64 cx I64Xor = check_binary_op cx I64"
| "visit_i64 cx I64Shl = check_binary_op cx I64"
| "visit_i64 cx I64ShrS = check_binary_op cx I64"
| "visit_i64 cx I64ShrU = check_binary_op cx I64"
| "visit_i64 cx I64Rotl = check_binary_op cx I64"
| "visit_i64 cx I64Rotr = check_binary_op cx I64"
| "visit_i64 cx I64ExtendI32S = check_conversion_op cx I64 I32"
| "visit_i64 cx I64ExtendI32U = check_conversion_op cx I64 I32"
| "visit_i64 cx I64TruncF32S = check_conversion_op cx I64 F32"
| "visit_i64 cx I64TruncF32U = check_conversion_op cx I64 F32"
| "visit_i64 cx I64TruncF64S = check_conversion_op cx I64 F64"
| "visit_i64 cx I64TruncF64U = check_conversion_op cx I64 F64"
| "visit_i64 cx I64ReinterpretF64 = check_conversion_op cx I64 F64"
| "visit_i64 cx I64Extend8S = check_unary_op cx I64"
| "visit_i64 cx I64Extend16S = check_unary_op cx I64"
| "visit_i64 cx I64Extend32S = check_unary_op cx I64"
| "visit_i64 cx I64TruncSatF32S = check_conversion_op cx I64 F32"
| "visit_i64 cx I64TruncSatF32U = check_conversion_op cx I64 F32"
| "visit_i64 cx I64TruncSatF64S = check_conversion_op cx I64 F64"
| "visit_i64 cx I64TruncSatF64U = check_conversion_op cx I64 F64"
| "visit_i64 cx I64Add128 = check_binop128 cx"
| "visit_i64 cx I64Sub128 = check_binop128 cx"
| "visit_i64 cx I64MulWideS = check_i64_mul_wide cx"
| "visit_i64 cx I64MulWideU = check_i64_mul_wide cx"

fun visit_f32 :: "op_cx \<Rightarrow> f32_op \<Rightarrow> unit ov" where
  "visit_f32 cx F32Eq = check_fcmp_op cx F32"
| "visit_f32 cx F32Ne = check_fcmp_op cx F32"
| "visit_f32 cx F32Lt = check_fcmp_op cx F32"
| "visit_f32 cx F32Gt = check_fcmp_op cx F32"
| "visit_f32 cx F32Le = check_fcmp_op cx F32"
| "visit_f32 cx F32Ge = check_fcmp_op cx F32"
| "visit_f32 cx F32Abs = check_funary_op cx F32"
| "visit_f32 cx F32Neg = check_funary_op cx F32"
| "visit_f32 cx F32Ceil = check_funary_op cx F32"
| "visit_f32 cx F32Floor = check_funary_op cx F32"
| "visit_f32 cx F32Trunc = check_funary_op cx F32"
| "visit_f32 cx F32Nearest = check_funary_op cx F32"
| "visit_f32 cx F32Sqrt = check_funary_op cx F32"
| "visit_f32 cx F32Add = check_fbinary_op cx F32"
| "visit_f32 cx F32Sub = check_fbinary_op cx F32"
| "visit_f32 cx F32Mul = check_fbinary_op cx F32"
| "visit_f32 cx F32Div = check_fbinary_op cx F32"
| "visit_f32 cx F32Min = check_fbinary_op cx F32"
| "visit_f32 cx F32Max = check_fbinary_op cx F32"
| "visit_f32 cx F32Copysign = check_fbinary_op cx F32"
| "visit_f32 cx F32ConvertI32S = check_fconversion_op cx F32 I32"
| "visit_f32 cx F32ConvertI32U = check_fconversion_op cx F32 I32"
| "visit_f32 cx F32ConvertI64S = check_fconversion_op cx F32 I64"
| "visit_f32 cx F32ConvertI64U = check_fconversion_op cx F32 I64"
| "visit_f32 cx F32DemoteF64 = check_fconversion_op cx F32 F64"
| "visit_f32 cx F32ReinterpretI32 = check_fconversion_op cx F32 I32"

fun visit_f64 :: "op_cx \<Rightarrow> f64_op \<Rightarrow> unit ov" where
  "visit_f64 cx F64Eq = check_fcmp_op cx F64"
| "visit_f64 cx F64Ne = check_fcmp_op cx F64"
| "visit_f64 cx F64Lt = check_fcmp_op cx F64"
| "visit_f64 cx F64Gt = check_fcmp_op cx F64"
| "visit_f64 cx F64Le = check_fcmp_op cx F64"
| "visit_f64 cx F64Ge = check_fcmp_op cx F64"
| "visit_f64 cx F64Abs = check_funary_op cx F64"
| "visit_f64 cx F64Neg = check_funary_op cx F64"
| "visit_f64 cx F64Ceil = check_funary_op cx F64"
| "visit_f64 cx F64Floor = check_funary_op cx F64"
| "visit_f64 cx F64Trunc = check_funary_op cx F64"
| "visit_f64 cx F64Nearest = check_funary_op cx F64"
| "visit_f64 cx F64Sqrt = check_funary_op cx F64"
| "visit_f64 cx F64Add = check_fbinary_op cx F64"
| "visit_f64 cx F64Sub = check_fbinary_op cx F64"
| "visit_f64 cx F64Mul = check_fbinary_op cx F64"
| "visit_f64 cx F64Div = check_fbinary_op cx F64"
| "visit_f64 cx F64Min = check_fbinary_op cx F64"
| "visit_f64 cx F64Max = check_fbinary_op cx F64"
| "visit_f64 cx F64Copysign = check_fbinary_op cx F64"
| "visit_f64 cx F64ConvertI32S = check_fconversion_op cx F64 I32"
| "visit_f64 cx F64ConvertI32U = check_fconversion_op cx F64 I32"
| "visit_f64 cx F64ConvertI64S = check_fconversion_op cx F64 I64"
| "visit_f64 cx F64ConvertI64U = check_fconversion_op cx F64 I64"
| "visit_f64 cx F64PromoteF32 = check_fconversion_op cx F64 F32"
| "visit_f64 cx F64ReinterpretI64 = check_fconversion_op cx F64 I64"

section \<open>Memory and atomic operators\<close>

fun visit_load :: "op_cx \<Rightarrow> load_op \<Rightarrow> mem_arg \<Rightarrow> unit ov" where
  "visit_load cx I32Load memarg =
     bind_ov (check_memarg cx memarg) (\<lambda>ty.
       steps [pop cx ty, push_operand I32])"
| "visit_load cx I64Load memarg =
     bind_ov (check_memarg cx memarg) (\<lambda>ty.
       steps [pop cx ty, push_operand I64])"
| "visit_load cx F32Load memarg =
     bind_ov (check_floats_enabled cx) (\<lambda>_.
     bind_ov (check_memarg cx memarg) (\<lambda>ty.
       steps [pop cx ty, push_operand F32]))"
| "visit_load cx F64Load memarg =
     bind_ov (check_floats_enabled cx) (\<lambda>_.
     bind_ov (check_memarg cx memarg) (\<lambda>ty.
       steps [pop cx ty, push_operand F64]))"
| "visit_load cx I32Load8S memarg =
     bind_ov (check_memarg cx memarg) (\<lambda>ty.
       steps [pop cx ty, push_operand I32])"
| "visit_load cx I32Load8U memarg =
     bind_ov (check_memarg cx memarg) (\<lambda>ty.
       steps [pop cx ty, push_operand I32])"
| "visit_load cx I32Load16S memarg =
     bind_ov (check_memarg cx memarg) (\<lambda>ty.
       steps [pop cx ty, push_operand I32])"
| "visit_load cx I32Load16U memarg =
     bind_ov (check_memarg cx memarg) (\<lambda>ty.
       steps [pop cx ty, push_operand I32])"
| "visit_load cx I64Load8S memarg =
     bind_ov (check_memarg cx memarg) (\<lambda>ty.
       steps [pop cx ty, push_operand I64])"
| "visit_load cx I64Load8U memarg =
     bind_ov (check_memarg cx memarg) (\<lambda>ty.
       steps [pop cx ty, push_operand I64])"
| "visit_load cx I64Load16S memarg =
     bind_ov (check_memarg cx memarg) (\<lambda>ty.
       steps [pop cx ty, push_operand I64])"
| "visit_load cx I64Load16U memarg =
     bind_ov (check_memarg cx memarg) (\<lambda>ty.
       steps [pop cx ty, push_operand I64])"
| "visit_load cx I64Load32S memarg =
     bind_ov (check_memarg cx memarg) (\<lambda>ty.
       steps [pop cx ty, push_operand I64])"
| "visit_load cx I64Load32U memarg =
     bind_ov (check_memarg cx memarg) (\<lambda>ty.
       steps [pop cx ty, push_operand I64])"

fun visit_store :: "op_cx \<Rightarrow> store_op \<Rightarrow> mem_arg \<Rightarrow> unit ov" where
  "visit_store cx I32Store memarg =
     bind_ov (check_memarg cx memarg) (\<lambda>ty.
       steps [pop cx I32, pop cx ty])"
| "visit_store cx I64Store memarg =
     bind_ov (check_memarg cx memarg) (\<lambda>ty.
       steps [pop cx I64, pop cx ty])"
| "visit_store cx F32Store memarg =
     bind_ov (check_floats_enabled cx) (\<lambda>_.
     bind_ov (check_memarg cx memarg) (\<lambda>ty.
       steps [pop cx F32, pop cx ty]))"
| "visit_store cx F64Store memarg =
     bind_ov (check_floats_enabled cx) (\<lambda>_.
     bind_ov (check_memarg cx memarg) (\<lambda>ty.
       steps [pop cx F64, pop cx ty]))"
| "visit_store cx I32Store8 memarg =
     bind_ov (check_memarg cx memarg) (\<lambda>ty.
       steps [pop cx I32, pop cx ty])"
| "visit_store cx I32Store16 memarg =
     bind_ov (check_memarg cx memarg) (\<lambda>ty.
       steps [pop cx I32, pop cx ty])"
| "visit_store cx I64Store8 memarg =
     bind_ov (check_memarg cx memarg) (\<lambda>ty.
       steps [pop cx I64, pop cx ty])"
| "visit_store cx I64Store16 memarg =
     bind_ov (check_memarg cx memarg) (\<lambda>ty.
       steps [pop cx I64, pop cx ty])"
| "visit_store cx I64Store32 memarg =
     bind_ov (check_memarg cx memarg) (\<lambda>ty.
       steps [pop cx I64, pop cx ty])"

fun visit_atomic_access :: "op_cx \<Rightarrow> atomic_access_op \<Rightarrow> mem_arg \<Rightarrow> unit ov" where
  "visit_atomic_access cx MemoryAtomicNotify memarg = check_atomic_binary_memory_op cx memarg I32"
| "visit_atomic_access cx MemoryAtomicWait32 memarg =
     bind_ov (check_shared_memarg cx memarg) (\<lambda>ty.
       steps [pop cx I64, pop cx I32, pop cx ty, push_operand I32])"
| "visit_atomic_access cx MemoryAtomicWait64 memarg =
     bind_ov (check_shared_memarg cx memarg) (\<lambda>ty.
       steps [pop cx I64, pop cx I64, pop cx ty, push_operand I32])"
| "visit_atomic_access cx I32AtomicLoad memarg = check_atomic_load cx memarg I32"
| "visit_atomic_access cx I64AtomicLoad memarg = check_atomic_load cx memarg I64"
| "visit_atomic_access cx I32AtomicLoad8U memarg = check_atomic_load cx memarg I32"
| "visit_atomic_access cx I32AtomicLoad16U memarg = check_atomic_load cx memarg I32"
| "visit_atomic_access cx I64AtomicLoad8U memarg = check_atomic_load cx memarg I64"
| "visit_atomic_access cx I64AtomicLoad16U memarg = check_atomic_load cx memarg I64"
| "visit_atomic_access cx I64AtomicLoad32U memarg = check_atomic_load cx memarg I64"
| "visit_atomic_access cx I32AtomicStore memarg = check_atomic_store cx memarg I32"
| "visit_atomic_access cx I64AtomicStore memarg = check_atomic_store cx memarg I64"
| "visit_atomic_access cx I32AtomicStore8 memarg = check_atomic_store cx memarg I32"
| "visit_atomic_access cx I32AtomicStore16 memarg = check_atomic_store cx memarg I32"
| "visit_atomic_access cx I64AtomicStore8 memarg = check_atomic_store cx memarg I64"
| "visit_atomic_access cx I64AtomicStore16 memarg = check_atomic_store cx memarg I64"
| "visit_atomic_access cx I64AtomicStore32 memarg = check_atomic_store cx memarg I64"

fun visit_atomic_rmw :: "op_cx \<Rightarrow> atomic_rmw_op \<Rightarrow> mem_arg \<Rightarrow> unit ov" where
  "visit_atomic_rmw cx I32AtomicRmwAdd memarg = check_atomic_binary_memory_op cx memarg I32"
| "visit_atomic_rmw cx I64AtomicRmwAdd memarg = check_atomic_binary_memory_op cx memarg I64"
| "visit_atomic_rmw cx I32AtomicRmw8AddU memarg = check_atomic_binary_memory_op cx memarg I32"
| "visit_atomic_rmw cx I32AtomicRmw16AddU memarg = check_atomic_binary_memory_op cx memarg I32"
| "visit_atomic_rmw cx I64AtomicRmw8AddU memarg = check_atomic_binary_memory_op cx memarg I64"
| "visit_atomic_rmw cx I64AtomicRmw16AddU memarg = check_atomic_binary_memory_op cx memarg I64"
| "visit_atomic_rmw cx I64AtomicRmw32AddU memarg = check_atomic_binary_memory_op cx memarg I64"
| "visit_atomic_rmw cx I32AtomicRmwSub memarg = check_atomic_binary_memory_op cx memarg I32"
| "visit_atomic_rmw cx I64AtomicRmwSub memarg = check_atomic_binary_memory_op cx memarg I64"
| "visit_atomic_rmw cx I32AtomicRmw8SubU memarg = check_atomic_binary_memory_op cx memarg I32"
| "visit_atomic_rmw cx I32AtomicRmw16SubU memarg = check_atomic_binary_memory_op cx memarg I32"
| "visit_atomic_rmw cx I64AtomicRmw8SubU memarg = check_atomic_binary_memory_op cx memarg I64"
| "visit_atomic_rmw cx I64AtomicRmw16SubU memarg = check_atomic_binary_memory_op cx memarg I64"
| "visit_atomic_rmw cx I64AtomicRmw32SubU memarg = check_atomic_binary_memory_op cx memarg I64"
| "visit_atomic_rmw cx I32AtomicRmwAnd memarg = check_atomic_binary_memory_op cx memarg I32"
| "visit_atomic_rmw cx I64AtomicRmwAnd memarg = check_atomic_binary_memory_op cx memarg I64"
| "visit_atomic_rmw cx I32AtomicRmw8AndU memarg = check_atomic_binary_memory_op cx memarg I32"
| "visit_atomic_rmw cx I32AtomicRmw16AndU memarg = check_atomic_binary_memory_op cx memarg I32"
| "visit_atomic_rmw cx I64AtomicRmw8AndU memarg = check_atomic_binary_memory_op cx memarg I64"
| "visit_atomic_rmw cx I64AtomicRmw16AndU memarg = check_atomic_binary_memory_op cx memarg I64"
| "visit_atomic_rmw cx I64AtomicRmw32AndU memarg = check_atomic_binary_memory_op cx memarg I64"
| "visit_atomic_rmw cx I32AtomicRmwOr memarg = check_atomic_binary_memory_op cx memarg I32"
| "visit_atomic_rmw cx I64AtomicRmwOr memarg = check_atomic_binary_memory_op cx memarg I64"
| "visit_atomic_rmw cx I32AtomicRmw8OrU memarg = check_atomic_binary_memory_op cx memarg I32"
| "visit_atomic_rmw cx I32AtomicRmw16OrU memarg = check_atomic_binary_memory_op cx memarg I32"
| "visit_atomic_rmw cx I64AtomicRmw8OrU memarg = check_atomic_binary_memory_op cx memarg I64"
| "visit_atomic_rmw cx I64AtomicRmw16OrU memarg = check_atomic_binary_memory_op cx memarg I64"
| "visit_atomic_rmw cx I64AtomicRmw32OrU memarg = check_atomic_binary_memory_op cx memarg I64"
| "visit_atomic_rmw cx I32AtomicRmwXor memarg = check_atomic_binary_memory_op cx memarg I32"
| "visit_atomic_rmw cx I64AtomicRmwXor memarg = check_atomic_binary_memory_op cx memarg I64"
| "visit_atomic_rmw cx I32AtomicRmw8XorU memarg = check_atomic_binary_memory_op cx memarg I32"
| "visit_atomic_rmw cx I32AtomicRmw16XorU memarg = check_atomic_binary_memory_op cx memarg I32"
| "visit_atomic_rmw cx I64AtomicRmw8XorU memarg = check_atomic_binary_memory_op cx memarg I64"
| "visit_atomic_rmw cx I64AtomicRmw16XorU memarg = check_atomic_binary_memory_op cx memarg I64"
| "visit_atomic_rmw cx I64AtomicRmw32XorU memarg = check_atomic_binary_memory_op cx memarg I64"
| "visit_atomic_rmw cx I32AtomicRmwXchg memarg = check_atomic_binary_memory_op cx memarg I32"
| "visit_atomic_rmw cx I64AtomicRmwXchg memarg = check_atomic_binary_memory_op cx memarg I64"
| "visit_atomic_rmw cx I32AtomicRmw8XchgU memarg = check_atomic_binary_memory_op cx memarg I32"
| "visit_atomic_rmw cx I32AtomicRmw16XchgU memarg = check_atomic_binary_memory_op cx memarg I32"
| "visit_atomic_rmw cx I64AtomicRmw8XchgU memarg = check_atomic_binary_memory_op cx memarg I64"
| "visit_atomic_rmw cx I64AtomicRmw16XchgU memarg = check_atomic_binary_memory_op cx memarg I64"
| "visit_atomic_rmw cx I64AtomicRmw32XchgU memarg = check_atomic_binary_memory_op cx memarg I64"
| "visit_atomic_rmw cx I32AtomicRmwCmpxchg memarg =
     check_atomic_binary_memory_cmpxchg cx memarg I32"
| "visit_atomic_rmw cx I64AtomicRmwCmpxchg memarg =
     check_atomic_binary_memory_cmpxchg cx memarg I64"
| "visit_atomic_rmw cx I32AtomicRmw8CmpxchgU memarg =
     check_atomic_binary_memory_cmpxchg cx memarg I32"
| "visit_atomic_rmw cx I32AtomicRmw16CmpxchgU memarg =
     check_atomic_binary_memory_cmpxchg cx memarg I32"
| "visit_atomic_rmw cx I64AtomicRmw8CmpxchgU memarg =
     check_atomic_binary_memory_cmpxchg cx memarg I64"
| "visit_atomic_rmw cx I64AtomicRmw16CmpxchgU memarg =
     check_atomic_binary_memory_cmpxchg cx memarg I64"
| "visit_atomic_rmw cx I64AtomicRmw32CmpxchgU memarg =
     check_atomic_binary_memory_cmpxchg cx memarg I64"

section \<open>Vector operators\<close>

fun visit_v128_mem :: "op_cx \<Rightarrow> v128_mem_op \<Rightarrow> mem_arg \<Rightarrow> unit ov" where
  "visit_v128_mem cx V128Load memarg =
     bind_ov (check_memarg cx memarg) (\<lambda>ty.
       steps [pop cx ty, push_operand V128])"
| "visit_v128_mem cx V128Load8x8S memarg = check_v128_load_op cx memarg"
| "visit_v128_mem cx V128Load8x8U memarg = check_v128_load_op cx memarg"
| "visit_v128_mem cx V128Load16x4S memarg = check_v128_load_op cx memarg"
| "visit_v128_mem cx V128Load16x4U memarg = check_v128_load_op cx memarg"
| "visit_v128_mem cx V128Load32x2S memarg = check_v128_load_op cx memarg"
| "visit_v128_mem cx V128Load32x2U memarg = check_v128_load_op cx memarg"
| "visit_v128_mem cx V128Load8Splat memarg =
     bind_ov (check_memarg cx memarg) (\<lambda>ty.
       steps [pop cx ty, push_operand V128])"
| "visit_v128_mem cx V128Load16Splat memarg =
     bind_ov (check_memarg cx memarg) (\<lambda>ty.
       steps [pop cx ty, push_operand V128])"
| "visit_v128_mem cx V128Load32Splat memarg =
     bind_ov (check_memarg cx memarg) (\<lambda>ty.
       steps [pop cx ty, push_operand V128])"
| "visit_v128_mem cx V128Load64Splat memarg = check_v128_load_op cx memarg"
| "visit_v128_mem cx V128Load32Zero memarg =
     bind_ov (check_memarg cx memarg) (\<lambda>ty.
       steps [pop cx ty, push_operand V128])"
| "visit_v128_mem cx V128Load64Zero memarg = check_v128_load_op cx memarg"
| "visit_v128_mem cx V128Store memarg =
     bind_ov (check_memarg cx memarg) (\<lambda>ty.
       steps [pop cx V128, pop cx ty])"

fun visit_v128_lane_mem :: "op_cx \<Rightarrow> v128_lane_mem_op \<Rightarrow> mem_arg \<Rightarrow> u8 \<Rightarrow> unit ov" where
  "visit_v128_lane_mem cx V128Load8Lane memarg lane =
     bind_ov (check_memarg cx memarg) (\<lambda>idx.
       steps [check_simd_lane_index cx lane 16, pop cx V128, pop cx idx, push_operand V128])"
| "visit_v128_lane_mem cx V128Load16Lane memarg lane =
     bind_ov (check_memarg cx memarg) (\<lambda>idx.
       steps [check_simd_lane_index cx lane 8, pop cx V128, pop cx idx, push_operand V128])"
| "visit_v128_lane_mem cx V128Load32Lane memarg lane =
     bind_ov (check_memarg cx memarg) (\<lambda>idx.
       steps [check_simd_lane_index cx lane 4, pop cx V128, pop cx idx, push_operand V128])"
| "visit_v128_lane_mem cx V128Load64Lane memarg lane =
     bind_ov (check_memarg cx memarg) (\<lambda>idx.
       steps [check_simd_lane_index cx lane 2, pop cx V128, pop cx idx, push_operand V128])"
| "visit_v128_lane_mem cx V128Store8Lane memarg lane =
     bind_ov (check_memarg cx memarg) (\<lambda>idx.
       steps [check_simd_lane_index cx lane 16, pop cx V128, pop cx idx])"
| "visit_v128_lane_mem cx V128Store16Lane memarg lane =
     bind_ov (check_memarg cx memarg) (\<lambda>idx.
       steps [check_simd_lane_index cx lane 8, pop cx V128, pop cx idx])"
| "visit_v128_lane_mem cx V128Store32Lane memarg lane =
     bind_ov (check_memarg cx memarg) (\<lambda>idx.
       steps [check_simd_lane_index cx lane 4, pop cx V128, pop cx idx])"
| "visit_v128_lane_mem cx V128Store64Lane memarg lane =
     bind_ov (check_memarg cx memarg) (\<lambda>idx.
       steps [check_simd_lane_index cx lane 2, pop cx V128, pop cx idx])"

fun visit_lane :: "op_cx \<Rightarrow> lane_op \<Rightarrow> u8 \<Rightarrow> unit ov" where
  "visit_lane cx I8x16ExtractLaneS lane =
     steps [check_simd_lane_index cx lane 16, pop cx V128, push_operand I32]"
| "visit_lane cx I8x16ExtractLaneU lane =
     steps [check_simd_lane_index cx lane 16, pop cx V128, push_operand I32]"
| "visit_lane cx I8x16ReplaceLane lane =
     steps [check_simd_lane_index cx lane 16, pop cx I32, pop cx V128, push_operand V128]"
| "visit_lane cx I16x8ExtractLaneS lane =
     steps [check_simd_lane_index cx lane 8, pop cx V128, push_operand I32]"
| "visit_lane cx I16x8ExtractLaneU lane =
     steps [check_simd_lane_index cx lane 8, pop cx V128, push_operand I32]"
| "visit_lane cx I16x8ReplaceLane lane =
     steps [check_simd_lane_index cx lane 8, pop cx I32, pop cx V128, push_operand V128]"
| "visit_lane cx I32x4ExtractLane lane =
     steps [check_simd_lane_index cx lane 4, pop cx V128, push_operand I32]"
| "visit_lane cx I32x4ReplaceLane lane =
     steps [check_simd_lane_index cx lane 4, pop cx I32, pop cx V128, push_operand V128]"
| "visit_lane cx I64x2ExtractLane lane =
     steps [check_simd_lane_index cx lane 2, pop cx V128, push_operand I64]"
| "visit_lane cx I64x2ReplaceLane lane =
     steps [check_simd_lane_index cx lane 2, pop cx I64, pop cx V128, push_operand V128]"
| "visit_lane cx F32x4ExtractLane lane =
     steps [check_floats_enabled cx, check_simd_lane_index cx lane 4, pop cx V128, push_operand F32]"
| "visit_lane cx F32x4ReplaceLane lane =
     steps [check_floats_enabled cx, check_simd_lane_index cx lane 4, pop cx F32, pop cx V128, push_operand V128]"
| "visit_lane cx F64x2ExtractLane lane =
     steps [check_floats_enabled cx, check_simd_lane_index cx lane 2, pop cx V128, push_operand F64]"
| "visit_lane cx F64x2ReplaceLane lane =
     steps [check_floats_enabled cx, check_simd_lane_index cx lane 2, pop cx F64, pop cx V128, push_operand V128]"

fun visit_i8x16 :: "op_cx \<Rightarrow> i8x16_op \<Rightarrow> unit ov" where
  "visit_i8x16 cx I8x16Swizzle = steps [pop cx V128, pop cx V128, push_operand V128]"
| "visit_i8x16 cx I8x16Splat = check_v128_splat cx I32"
| "visit_i8x16 cx I8x16Eq = check_v128_binary_op cx"
| "visit_i8x16 cx I8x16Ne = check_v128_binary_op cx"
| "visit_i8x16 cx I8x16LtS = check_v128_binary_op cx"
| "visit_i8x16 cx I8x16LtU = check_v128_binary_op cx"
| "visit_i8x16 cx I8x16GtS = check_v128_binary_op cx"
| "visit_i8x16 cx I8x16GtU = check_v128_binary_op cx"
| "visit_i8x16 cx I8x16LeS = check_v128_binary_op cx"
| "visit_i8x16 cx I8x16LeU = check_v128_binary_op cx"
| "visit_i8x16 cx I8x16GeS = check_v128_binary_op cx"
| "visit_i8x16 cx I8x16GeU = check_v128_binary_op cx"
| "visit_i8x16 cx I8x16Abs = check_v128_unary_op cx"
| "visit_i8x16 cx I8x16Neg = check_v128_unary_op cx"
| "visit_i8x16 cx I8x16Popcnt = check_v128_unary_op cx"
| "visit_i8x16 cx I8x16AllTrue = check_v128_bitmask_op cx"
| "visit_i8x16 cx I8x16Bitmask = check_v128_bitmask_op cx"
| "visit_i8x16 cx I8x16NarrowI16x8S = check_v128_binary_op cx"
| "visit_i8x16 cx I8x16NarrowI16x8U = check_v128_binary_op cx"
| "visit_i8x16 cx I8x16Shl = check_v128_shift_op cx"
| "visit_i8x16 cx I8x16ShrS = check_v128_shift_op cx"
| "visit_i8x16 cx I8x16ShrU = check_v128_shift_op cx"
| "visit_i8x16 cx I8x16Add = check_v128_binary_op cx"
| "visit_i8x16 cx I8x16AddSatS = check_v128_binary_op cx"
| "visit_i8x16 cx I8x16AddSatU = check_v128_binary_op cx"
| "visit_i8x16 cx I8x16Sub = check_v128_binary_op cx"
| "visit_i8x16 cx I8x16SubSatS = check_v128_binary_op cx"
| "visit_i8x16 cx I8x16SubSatU = check_v128_binary_op cx"
| "visit_i8x16 cx I8x16MinS = check_v128_binary_op cx"
| "visit_i8x16 cx I8x16MinU = check_v128_binary_op cx"
| "visit_i8x16 cx I8x16MaxS = check_v128_binary_op cx"
| "visit_i8x16 cx I8x16MaxU = check_v128_binary_op cx"
| "visit_i8x16 cx I8x16AvgrU = check_v128_binary_op cx"
| "visit_i8x16 cx I8x16RelaxedSwizzle = steps [pop cx V128, pop cx V128, push_operand V128]"
| "visit_i8x16 cx I8x16RelaxedLaneselect = check_v128_ternary_op cx"

fun visit_i16x8 :: "op_cx \<Rightarrow> i16x8_op \<Rightarrow> unit ov" where
  "visit_i16x8 cx I16x8Splat = check_v128_splat cx I32"
| "visit_i16x8 cx I16x8Eq = check_v128_binary_op cx"
| "visit_i16x8 cx I16x8Ne = check_v128_binary_op cx"
| "visit_i16x8 cx I16x8LtS = check_v128_binary_op cx"
| "visit_i16x8 cx I16x8LtU = check_v128_binary_op cx"
| "visit_i16x8 cx I16x8GtS = check_v128_binary_op cx"
| "visit_i16x8 cx I16x8GtU = check_v128_binary_op cx"
| "visit_i16x8 cx I16x8LeS = check_v128_binary_op cx"
| "visit_i16x8 cx I16x8LeU = check_v128_binary_op cx"
| "visit_i16x8 cx I16x8GeS = check_v128_binary_op cx"
| "visit_i16x8 cx I16x8GeU = check_v128_binary_op cx"
| "visit_i16x8 cx I16x8ExtAddPairwiseI8x16S = check_v128_unary_op cx"
| "visit_i16x8 cx I16x8ExtAddPairwiseI8x16U = check_v128_unary_op cx"
| "visit_i16x8 cx I16x8Abs = check_v128_unary_op cx"
| "visit_i16x8 cx I16x8Neg = check_v128_unary_op cx"
| "visit_i16x8 cx I16x8Q15MulrSatS = check_v128_binary_op cx"
| "visit_i16x8 cx I16x8AllTrue = check_v128_bitmask_op cx"
| "visit_i16x8 cx I16x8Bitmask = check_v128_bitmask_op cx"
| "visit_i16x8 cx I16x8NarrowI32x4S = check_v128_binary_op cx"
| "visit_i16x8 cx I16x8NarrowI32x4U = check_v128_binary_op cx"
| "visit_i16x8 cx I16x8ExtendLowI8x16S = check_v128_unary_op cx"
| "visit_i16x8 cx I16x8ExtendHighI8x16S = check_v128_unary_op cx"
| "visit_i16x8 cx I16x8ExtendLowI8x16U = check_v128_unary_op cx"
| "visit_i16x8 cx I16x8ExtendHighI8x16U = check_v128_unary_op cx"
| "visit_i16x8 cx I16x8Shl = check_v128_shift_op cx"
| "visit_i16x8 cx I16x8ShrS = check_v128_shift_op cx"
| "visit_i16x8 cx I16x8ShrU = check_v128_shift_op cx"
| "visit_i16x8 cx I16x8Add = check_v128_binary_op cx"
| "visit_i16x8 cx I16x8AddSatS = check_v128_binary_op cx"
| "visit_i16x8 cx I16x8AddSatU = check_v128_binary_op cx"
| "visit_i16x8 cx I16x8Sub = check_v128_binary_op cx"
| "visit_i16x8 cx I16x8SubSatS = check_v128_binary_op cx"
| "visit_i16x8 cx I16x8SubSatU = check_v128_binary_op cx"
| "visit_i16x8 cx I16x8Mul = check_v128_binary_op cx"
| "visit_i16x8 cx I16x8MinS = check_v128_binary_op cx"
| "visit_i16x8 cx I16x8MinU = check_v128_binary_op cx"
| "visit_i16x8 cx I16x8MaxS = check_v128_binary_op cx"
| "visit_i16x8 cx I16x8MaxU = check_v128_binary_op cx"
| "visit_i16x8 cx I16x8AvgrU = check_v128_binary_op cx"
| "visit_i16x8 cx I16x8ExtMulLowI8x16S = check_v128_binary_op cx"
| "visit_i16x8 cx I16x8ExtMulHighI8x16S = check_v128_binary_op cx"
| "visit_i16x8 cx I16x8ExtMulLowI8x16U = check_v128_binary_op cx"
| "visit_i16x8 cx I16x8ExtMulHighI8x16U = check_v128_binary_op cx"
| "visit_i16x8 cx I16x8RelaxedLaneselect = check_v128_ternary_op cx"
| "visit_i16x8 cx I16x8RelaxedQ15mulrS = check_v128_binary_op cx"
| "visit_i16x8 cx I16x8RelaxedDotI8x16I7x16S = check_v128_binary_op cx"

fun visit_i32x4 :: "op_cx \<Rightarrow> i32x4_op \<Rightarrow> unit ov" where
  "visit_i32x4 cx I32x4Splat = check_v128_splat cx I32"
| "visit_i32x4 cx I32x4Eq = check_v128_binary_op cx"
| "visit_i32x4 cx I32x4Ne = check_v128_binary_op cx"
| "visit_i32x4 cx I32x4LtS = check_v128_binary_op cx"
| "visit_i32x4 cx I32x4LtU = check_v128_binary_op cx"
| "visit_i32x4 cx I32x4GtS = check_v128_binary_op cx"
| "visit_i32x4 cx I32x4GtU = check_v128_binary_op cx"
| "visit_i32x4 cx I32x4LeS = check_v128_binary_op cx"
| "visit_i32x4 cx I32x4LeU = check_v128_binary_op cx"
| "visit_i32x4 cx I32x4GeS = check_v128_binary_op cx"
| "visit_i32x4 cx I32x4GeU = check_v128_binary_op cx"
| "visit_i32x4 cx I32x4ExtAddPairwiseI16x8S = check_v128_unary_op cx"
| "visit_i32x4 cx I32x4ExtAddPairwiseI16x8U = check_v128_unary_op cx"
| "visit_i32x4 cx I32x4Abs = check_v128_unary_op cx"
| "visit_i32x4 cx I32x4Neg = check_v128_unary_op cx"
| "visit_i32x4 cx I32x4AllTrue = check_v128_bitmask_op cx"
| "visit_i32x4 cx I32x4Bitmask = check_v128_bitmask_op cx"
| "visit_i32x4 cx I32x4ExtendLowI16x8S = check_v128_unary_op cx"
| "visit_i32x4 cx I32x4ExtendHighI16x8S = check_v128_unary_op cx"
| "visit_i32x4 cx I32x4ExtendLowI16x8U = check_v128_unary_op cx"
| "visit_i32x4 cx I32x4ExtendHighI16x8U = check_v128_unary_op cx"
| "visit_i32x4 cx I32x4Shl = check_v128_shift_op cx"
| "visit_i32x4 cx I32x4ShrS = check_v128_shift_op cx"
| "visit_i32x4 cx I32x4ShrU = check_v128_shift_op cx"
| "visit_i32x4 cx I32x4Add = check_v128_binary_op cx"
| "visit_i32x4 cx I32x4Sub = check_v128_binary_op cx"
| "visit_i32x4 cx I32x4Mul = check_v128_binary_op cx"
| "visit_i32x4 cx I32x4MinS = check_v128_binary_op cx"
| "visit_i32x4 cx I32x4MinU = check_v128_binary_op cx"
| "visit_i32x4 cx I32x4MaxS = check_v128_binary_op cx"
| "visit_i32x4 cx I32x4MaxU = check_v128_binary_op cx"
| "visit_i32x4 cx I32x4DotI16x8S = check_v128_binary_op cx"
| "visit_i32x4 cx I32x4ExtMulLowI16x8S = check_v128_binary_op cx"
| "visit_i32x4 cx I32x4ExtMulHighI16x8S = check_v128_binary_op cx"
| "visit_i32x4 cx I32x4ExtMulLowI16x8U = check_v128_binary_op cx"
| "visit_i32x4 cx I32x4ExtMulHighI16x8U = check_v128_binary_op cx"
| "visit_i32x4 cx I32x4TruncSatF32x4S = check_v128_funary_op cx"
| "visit_i32x4 cx I32x4TruncSatF32x4U = check_v128_funary_op cx"
| "visit_i32x4 cx I32x4TruncSatF64x2SZero = check_v128_funary_op cx"
| "visit_i32x4 cx I32x4TruncSatF64x2UZero = check_v128_funary_op cx"
| "visit_i32x4 cx I32x4RelaxedTruncF32x4S = check_v128_unary_op cx"
| "visit_i32x4 cx I32x4RelaxedTruncF32x4U = check_v128_unary_op cx"
| "visit_i32x4 cx I32x4RelaxedTruncF64x2SZero = check_v128_unary_op cx"
| "visit_i32x4 cx I32x4RelaxedTruncF64x2UZero = check_v128_unary_op cx"
| "visit_i32x4 cx I32x4RelaxedLaneselect = check_v128_ternary_op cx"
| "visit_i32x4 cx I32x4RelaxedDotI8x16I7x16AddS = check_v128_ternary_op cx"

fun visit_i64x2 :: "op_cx \<Rightarrow> i64x2_op \<Rightarrow> unit ov" where
  "visit_i64x2 cx I64x2Splat = check_v128_splat cx I64"
| "visit_i64x2 cx I64x2Eq = check_v128_binary_op cx"
| "visit_i64x2 cx I64x2Ne = check_v128_binary_op cx"
| "visit_i64x2 cx I64x2LtS = check_v128_binary_op cx"
| "visit_i64x2 cx I64x2GtS = check_v128_binary_op cx"
| "visit_i64x2 cx I64x2LeS = check_v128_binary_op cx"
| "visit_i64x2 cx I64x2GeS = check_v128_binary_op cx"
| "visit_i64x2 cx I64x2Abs = check_v128_unary_op cx"
| "visit_i64x2 cx I64x2Neg = check_v128_unary_op cx"
| "visit_i64x2 cx I64x2AllTrue = check_v128_bitmask_op cx"
| "visit_i64x2 cx I64x2Bitmask = check_v128_bitmask_op cx"
| "visit_i64x2 cx I64x2ExtendLowI32x4S = check_v128_unary_op cx"
| "visit_i64x2 cx I64x2ExtendHighI32x4S = check_v128_unary_op cx"
| "visit_i64x2 cx I64x2ExtendLowI32x4U = check_v128_unary_op cx"
| "visit_i64x2 cx I64x2ExtendHighI32x4U = check_v128_unary_op cx"
| "visit_i64x2 cx I64x2Shl = check_v128_shift_op cx"
| "visit_i64x2 cx I64x2ShrS = check_v128_shift_op cx"
| "visit_i64x2 cx I64x2ShrU = check_v128_shift_op cx"
| "visit_i64x2 cx I64x2Add = check_v128_binary_op cx"
| "visit_i64x2 cx I64x2Sub = check_v128_binary_op cx"
| "visit_i64x2 cx I64x2Mul = check_v128_binary_op cx"
| "visit_i64x2 cx I64x2ExtMulLowI32x4S = check_v128_binary_op cx"
| "visit_i64x2 cx I64x2ExtMulHighI32x4S = check_v128_binary_op cx"
| "visit_i64x2 cx I64x2ExtMulLowI32x4U = check_v128_binary_op cx"
| "visit_i64x2 cx I64x2ExtMulHighI32x4U = check_v128_binary_op cx"
| "visit_i64x2 cx I64x2RelaxedLaneselect = check_v128_ternary_op cx"

fun visit_f32x4 :: "op_cx \<Rightarrow> f32x4_op \<Rightarrow> unit ov" where
  "visit_f32x4 cx F32x4Splat = steps [check_floats_enabled cx, check_v128_splat cx F32]"
| "visit_f32x4 cx F32x4Eq = check_v128_fbinary_op cx"
| "visit_f32x4 cx F32x4Ne = check_v128_fbinary_op cx"
| "visit_f32x4 cx F32x4Lt = check_v128_fbinary_op cx"
| "visit_f32x4 cx F32x4Gt = check_v128_fbinary_op cx"
| "visit_f32x4 cx F32x4Le = check_v128_fbinary_op cx"
| "visit_f32x4 cx F32x4Ge = check_v128_fbinary_op cx"
| "visit_f32x4 cx F32x4Ceil = check_v128_funary_op cx"
| "visit_f32x4 cx F32x4Floor = check_v128_funary_op cx"
| "visit_f32x4 cx F32x4Trunc = check_v128_funary_op cx"
| "visit_f32x4 cx F32x4Nearest = check_v128_funary_op cx"
| "visit_f32x4 cx F32x4Abs = check_v128_funary_op cx"
| "visit_f32x4 cx F32x4Neg = check_v128_funary_op cx"
| "visit_f32x4 cx F32x4Sqrt = check_v128_funary_op cx"
| "visit_f32x4 cx F32x4Add = check_v128_fbinary_op cx"
| "visit_f32x4 cx F32x4Sub = check_v128_fbinary_op cx"
| "visit_f32x4 cx F32x4Mul = check_v128_fbinary_op cx"
| "visit_f32x4 cx F32x4Div = check_v128_fbinary_op cx"
| "visit_f32x4 cx F32x4Min = check_v128_fbinary_op cx"
| "visit_f32x4 cx F32x4Max = check_v128_fbinary_op cx"
| "visit_f32x4 cx F32x4PMin = check_v128_fbinary_op cx"
| "visit_f32x4 cx F32x4PMax = check_v128_fbinary_op cx"
| "visit_f32x4 cx F32x4ConvertI32x4S = check_v128_funary_op cx"
| "visit_f32x4 cx F32x4ConvertI32x4U = check_v128_funary_op cx"
| "visit_f32x4 cx F32x4DemoteF64x2Zero = check_v128_funary_op cx"
| "visit_f32x4 cx F32x4RelaxedMadd = check_v128_ternary_op cx"
| "visit_f32x4 cx F32x4RelaxedNmadd = check_v128_ternary_op cx"
| "visit_f32x4 cx F32x4RelaxedMin = check_v128_binary_op cx"
| "visit_f32x4 cx F32x4RelaxedMax = check_v128_binary_op cx"

fun visit_f64x2 :: "op_cx \<Rightarrow> f64x2_op \<Rightarrow> unit ov" where
  "visit_f64x2 cx F64x2Splat = steps [check_floats_enabled cx, check_v128_splat cx F64]"
| "visit_f64x2 cx F64x2Eq = check_v128_fbinary_op cx"
| "visit_f64x2 cx F64x2Ne = check_v128_fbinary_op cx"
| "visit_f64x2 cx F64x2Lt = check_v128_fbinary_op cx"
| "visit_f64x2 cx F64x2Gt = check_v128_fbinary_op cx"
| "visit_f64x2 cx F64x2Le = check_v128_fbinary_op cx"
| "visit_f64x2 cx F64x2Ge = check_v128_fbinary_op cx"
| "visit_f64x2 cx F64x2Ceil = check_v128_funary_op cx"
| "visit_f64x2 cx F64x2Floor = check_v128_funary_op cx"
| "visit_f64x2 cx F64x2Trunc = check_v128_funary_op cx"
| "visit_f64x2 cx F64x2Nearest = check_v128_funary_op cx"
| "visit_f64x2 cx F64x2Abs = check_v128_funary_op cx"
| "visit_f64x2 cx F64x2Neg = check_v128_funary_op cx"
| "visit_f64x2 cx F64x2Sqrt = check_v128_funary_op cx"
| "visit_f64x2 cx F64x2Add = check_v128_fbinary_op cx"
| "visit_f64x2 cx F64x2Sub = check_v128_fbinary_op cx"
| "visit_f64x2 cx F64x2Mul = check_v128_fbinary_op cx"
| "visit_f64x2 cx F64x2Div = check_v128_fbinary_op cx"
| "visit_f64x2 cx F64x2Min = check_v128_fbinary_op cx"
| "visit_f64x2 cx F64x2Max = check_v128_fbinary_op cx"
| "visit_f64x2 cx F64x2PMin = check_v128_fbinary_op cx"
| "visit_f64x2 cx F64x2PMax = check_v128_fbinary_op cx"
| "visit_f64x2 cx F64x2ConvertLowI32x4S = check_v128_funary_op cx"
| "visit_f64x2 cx F64x2ConvertLowI32x4U = check_v128_funary_op cx"
| "visit_f64x2 cx F64x2PromoteLowF32x4 = check_v128_funary_op cx"
| "visit_f64x2 cx F64x2RelaxedMadd = check_v128_ternary_op cx"
| "visit_f64x2 cx F64x2RelaxedNmadd = check_v128_ternary_op cx"
| "visit_f64x2 cx F64x2RelaxedMin = check_v128_binary_op cx"
| "visit_f64x2 cx F64x2RelaxedMax = check_v128_binary_op cx"

fun visit_v128 :: "op_cx \<Rightarrow> v128_op \<Rightarrow> unit ov" where
  "visit_v128 cx V128Not = check_v128_unary_op cx"
| "visit_v128 cx V128And = check_v128_binary_op cx"
| "visit_v128 cx V128AndNot = check_v128_binary_op cx"
| "visit_v128 cx V128Or = check_v128_binary_op cx"
| "visit_v128 cx V128Xor = check_v128_binary_op cx"
| "visit_v128 cx V128Bitselect = steps [pop cx V128, pop cx V128, pop cx V128, push_operand V128]"
| "visit_v128 cx V128AnyTrue = check_v128_bitmask_op cx"

end
