(* ===== verification/Validator_Ops.thy ===== *)
theory Validator_Ops
  imports Validator_Numeric
begin

text \<open>
  The validators of control flow, variables, memories, tables and references: methods \<open>visit_*\<close> of
  \<open>OperatorValidatorTemp\<close> in crates/wasmparser/src/validator/operators.rs.
\<close>

section \<open>Control flow\<close>

definition visit_unreachable :: "op_cx \<Rightarrow> unit ov" where
  "visit_unreachable cx = unreachable cx"

definition visit_block :: "op_cx \<Rightarrow> block_type \<Rightarrow> unit ov" where
  "visit_block cx ty = bind_ov (check_block_type cx ty) (\<lambda>ty.
     bind_ov (block_params cx ty) (\<lambda>params.
     steps [pop_rev cx params, push_ctrl cx FrameBlock ty]))"

definition visit_loop :: "op_cx \<Rightarrow> block_type \<Rightarrow> unit ov" where
  "visit_loop cx ty = bind_ov (check_block_type cx ty) (\<lambda>ty.
     bind_ov (block_params cx ty) (\<lambda>params.
     steps [pop_rev cx params, push_ctrl cx FrameLoop ty]))"

definition visit_if :: "op_cx \<Rightarrow> block_type \<Rightarrow> unit ov" where
  "visit_if cx ty = bind_ov (check_block_type cx ty) (\<lambda>ty.
     bind_ov (pop cx I32) (\<lambda>_.
     bind_ov (block_params cx ty) (\<lambda>params.
     steps [pop_rev cx params, push_ctrl cx FrameIf ty])))"

definition visit_else :: "op_cx \<Rightarrow> unit ov" where
  "visit_else cx = bind_ov (pop_ctrl cx) (\<lambda>frame.
     bind_ov (ensure cx (fr_kind frame = FrameIf) ''else found outside of an `if` block'') (\<lambda>_.
     push_ctrl cx FrameElse (fr_block_type frame)))"

definition set_end :: "op_cx \<Rightarrow> unit ov" where
  "set_end cx s =
     (if control s = [] \<and> end_which_emptied_control s = None
      then (if offset cx = 0 then Inl Panicked
            else Inr ((), s\<lparr>end_which_emptied_control := Some (offset cx)\<rparr>))
      else Inr ((), s))"

definition visit_end :: "op_cx \<Rightarrow> unit ov" where
  "visit_end cx = bind_ov (pop_ctrl cx) (\<lambda>frame.
     bind_ov (if fr_kind frame = FrameIf
       then bind_ov (push_ctrl cx FrameElse (fr_block_type frame)) (\<lambda>_. pop_ctrl cx)
       else return_ov frame) (\<lambda>frame.
     bind_ov (block_results cx (fr_block_type frame)) (\<lambda>results.
     steps [push_all results, set_end cx])))"

definition visit_br :: "op_cx \<Rightarrow> u32 \<Rightarrow> unit ov" where
  "visit_br cx relative_depth = bind_ov (jump cx relative_depth) (\<lambda>block.
     bind_ov (label_types cx block) (\<lambda>tys.
     steps [pop_rev cx tys, unreachable cx]))"

definition visit_br_if :: "op_cx \<Rightarrow> u32 \<Rightarrow> unit ov" where
  "visit_br_if cx relative_depth = bind_ov (pop cx I32) (\<lambda>_.
     bind_ov (jump cx relative_depth) (\<lambda>block.
     bind_ov (label_types cx block) (\<lambda>tys.
     pop_push_label_types cx tys)))"

text \<open>The iterator \<open>BrTableTargets\<close>. It is not asked for more after an error.\<close>

fun br_table_items :: "nat \<Rightarrow> binary_reader \<Rightarrow> u32 result list" where
  "br_table_items 0 r =
     (if \<not> eof r then [Inl (error_new ''trailing data in br_table'' (original_position r))]
      else [])"
| "br_table_items (Suc n) r =
     (case read_var_u32 r of Inl e \<Rightarrow> [Inl e] | Inr (x, r') \<Rightarrow> Inr x # br_table_items n r')"

definition check_br_table_target :: "op_cx \<Rightarrow> usize \<Rightarrow> u32 result \<Rightarrow> unit ov" where
  "check_br_table_target cx default_len element = bind_ov (try_ov (Some element)) (\<lambda>relative_depth.
     bind_ov (jump cx relative_depth) (\<lambda>block.
     bind_ov (label_types cx block) (\<lambda>label_tys.
     bind_ov (ensure cx (length label_tys = default_len)
       ''type mismatch: br_table target labels have different number of types'') (\<lambda>_.
     match_stack_operands cx label_tys))))"

definition visit_br_table :: "op_cx \<Rightarrow> br_table \<Rightarrow> unit ov" where
  "visit_br_table cx table = bind_ov (pop cx I32) (\<lambda>_.
     bind_ov (jump cx (bt_default table)) (\<lambda>default.
     bind_ov (label_types cx default) (\<lambda>default_types.
     bind_ov (steps (map (check_br_table_target cx (length default_types))
       (br_table_items (unat (bt_cnt table)) (bt_reader table)))) (\<lambda>_.
     steps [pop_rev cx default_types, unreachable cx]))))"

definition visit_return :: "op_cx \<Rightarrow> unit ov" where
  "visit_return cx = check_return cx"

definition visit_call :: "op_cx \<Rightarrow> u32 \<Rightarrow> unit ov" where
  "visit_call cx function_index =
     bind_ov (type_of_function cx function_index) (\<lambda>ty. check_call_ty cx ty)"

definition visit_return_call :: "op_cx \<Rightarrow> u32 \<Rightarrow> unit ov" where
  "visit_return_call cx function_index =
     bind_ov (type_of_function cx function_index) (\<lambda>ty. check_return_call_ty cx ty)"

definition visit_call_ref :: "op_cx \<Rightarrow> u32 \<Rightarrow> unit ov" where
  "visit_call_ref cx type_idx =
     bind_ov (check_call_ref_ty cx type_idx) (\<lambda>ty. check_call_ty cx ty)"

definition visit_return_call_ref :: "op_cx \<Rightarrow> u32 \<Rightarrow> unit ov" where
  "visit_return_call_ref cx type_idx =
     bind_ov (check_call_ref_ty cx type_idx) (\<lambda>ty. check_return_call_ty cx ty)"

definition visit_call_indirect :: "op_cx \<Rightarrow> u32 \<Rightarrow> u32 \<Rightarrow> unit ov" where
  "visit_call_indirect cx type_idx table_index =
     bind_ov (check_call_indirect_ty cx type_idx table_index) (\<lambda>ty. check_call_ty cx ty)"

definition visit_return_call_indirect :: "op_cx \<Rightarrow> u32 \<Rightarrow> u32 \<Rightarrow> unit ov" where
  "visit_return_call_indirect cx type_idx table_index =
     bind_ov (check_call_indirect_ty cx type_idx table_index) (\<lambda>ty. check_return_call_ty cx ty)"

section \<open>Parametric and variable operators\<close>

definition visit_drop :: "op_cx \<Rightarrow> unit ov" where
  "visit_drop cx = ignore (pop_operand cx None)"

fun is_heap_operand :: "val_type maybe_type \<Rightarrow> bool" where
  "is_heap_operand (UnknownRef _) = True"
| "is_heap_operand (Known (Ref _)) = True"
| "is_heap_operand _ = False"

definition visit_select :: "op_cx \<Rightarrow> unit ov" where
  "visit_select cx = bind_ov (pop cx I32) (\<lambda>_.
     bind_ov (pop_operand cx None) (\<lambda>ty1.
     bind_ov (pop_operand cx None) (\<lambda>ty2.
     bind_ov (if is_heap_operand ty1 \<or> is_heap_operand ty2
       then bail cx ''type mismatch: select only takes integral types''
       else case (ty1, ty2) of
         (Bottom, t) \<Rightarrow> return_ov t
       | (t, Bottom) \<Rightarrow> return_ov t
       | (t, t2) \<Rightarrow>
           (if t \<noteq> t2 then bail cx ''type mismatch: select operands have different types''
            else return_ov t)) (\<lambda>ty.
     push_maybe ty))))"

definition visit_typed_select :: "op_cx \<Rightarrow> val_type \<Rightarrow> unit ov" where
  "visit_typed_select cx ty = bind_ov (get_ov ov_features) (\<lambda>fs.
     bind_ov (try_ov (check_value_type (resources cx) ty fs (offset cx))) (\<lambda>ty.
     steps [pop cx I32, pop cx ty, pop cx ty, push_operand ty]))"

definition visit_local_get :: "op_cx \<Rightarrow> u32 \<Rightarrow> unit ov" where
  "visit_local_get cx local_index = bind_ov (local_type cx local_index) (\<lambda>ty.
     bind_ov (debug_assert_type_indices_are_ids ty) (\<lambda>_.
     bind_ov (get_ov (\<lambda>s. is_uninit (ov_local_inits s) local_index)) (\<lambda>u.
     bind_ov (call_ov u) (\<lambda>uninit.
     bind_ov (ensure cx (\<not> uninit) (''uninitialized local: '' @ fmt_dec (unat local_index))) (\<lambda>_.
     push_operand ty)))))"

definition init_local :: "u32 \<Rightarrow> unit ov" where
  "init_local local_index s =
     (case set_init local_index (ov_local_inits s) of
        None \<Rightarrow> Inl Panicked
      | Some li \<Rightarrow> Inr ((), s\<lparr>ov_local_inits := li\<rparr>))"

definition visit_local_set :: "op_cx \<Rightarrow> u32 \<Rightarrow> unit ov" where
  "visit_local_set cx local_index = bind_ov (local_type cx local_index) (\<lambda>ty.
     steps [pop cx ty, init_local local_index])"

definition visit_local_tee :: "op_cx \<Rightarrow> u32 \<Rightarrow> unit ov" where
  "visit_local_tee cx local_index = bind_ov (local_type cx local_index) (\<lambda>expected_ty.
     steps [pop cx expected_ty, init_local local_index, push_operand expected_ty])"

definition visit_global_get :: "op_cx \<Rightarrow> u32 \<Rightarrow> unit ov" where
  "visit_global_get cx global_index = bind_ov (global_type_at cx global_index) (\<lambda>g.
     steps [debug_assert_type_indices_are_ids (content_type g), push_operand (content_type g)])"

definition visit_global_set :: "op_cx \<Rightarrow> u32 \<Rightarrow> unit ov" where
  "visit_global_set cx global_index = bind_ov (global_type_at cx global_index) (\<lambda>ty.
     steps [ensure cx (global_mutable ty)
       ''global is immutable: cannot modify it with `global.set`'', pop cx (content_type ty)])"

text \<open>\<open>ty == I32 || ty == I64 || is_subtype(ty, supertype)\<close>\<close>

definition check_atomic_ty :: "op_cx \<Rightarrow> val_type \<Rightarrow> ref_type \<Rightarrow> string \<Rightarrow> unit ov" where
  "check_atomic_ty cx ty supertype msg =
     (if ty = I32 \<or> ty = I64 then return_ov ()
      else bind_ov (call_ov (is_subtype (resources cx) ty (Ref supertype))) (\<lambda>ok. ensure cx ok msg))"

fun visit_global_atomic :: "op_cx \<Rightarrow> global_atomic_op \<Rightarrow> u32 \<Rightarrow> unit ov" where
  "visit_global_atomic cx GlobalAtomicGet i = bind_ov (visit_global_get cx i) (\<lambda>_.
     bind_ov (global_type_at cx i) (\<lambda>g. check_atomic_ty cx (content_type g) ANYREF
       (''invalid type: `global.atomic.get` only allows `i32`, `i64` and subtypes of `anyref`'')))"
| "visit_global_atomic cx GlobalAtomicSet i = bind_ov (visit_global_set cx i) (\<lambda>_.
     bind_ov (global_type_at cx i) (\<lambda>g. check_atomic_ty cx (content_type g) ANYREF
       (''invalid type: `global.atomic.set` only allows `i32`, `i64` and subtypes of `anyref`'')))"
| "visit_global_atomic cx GlobalAtomicRmwAdd i =
     bind_ov (check_atomic_global_rmw_ty cx i) (check_unary_op cx)"
| "visit_global_atomic cx GlobalAtomicRmwSub i =
     bind_ov (check_atomic_global_rmw_ty cx i) (check_unary_op cx)"
| "visit_global_atomic cx GlobalAtomicRmwAnd i =
     bind_ov (check_atomic_global_rmw_ty cx i) (check_unary_op cx)"
| "visit_global_atomic cx GlobalAtomicRmwOr i =
     bind_ov (check_atomic_global_rmw_ty cx i) (check_unary_op cx)"
| "visit_global_atomic cx GlobalAtomicRmwXor i =
     bind_ov (check_atomic_global_rmw_ty cx i) (check_unary_op cx)"
| "visit_global_atomic cx GlobalAtomicRmwXchg i = bind_ov (global_type_at cx i) (\<lambda>g.
     steps [check_atomic_ty cx (content_type g) ANYREF
       (''invalid type: `global.atomic.rmw.xchg` only allows `i32`, `i64` ''
        @ ''and subtypes of `anyref`''),
       check_unary_op cx (content_type g)])"
| "visit_global_atomic cx GlobalAtomicRmwCmpxchg i = bind_ov (global_type_at cx i) (\<lambda>g.
     steps [check_atomic_ty cx (content_type g) EQREF
       (''invalid type: `global.atomic.rmw.cmpxchg` only allows `i32`, `i64` ''
        @ ''and subtypes of `eqref`''),
       check_binary_op cx (content_type g)])"

section \<open>Memories and tables\<close>

definition visit_memory_size :: "op_cx \<Rightarrow> u32 \<Rightarrow> unit ov" where
  "visit_memory_size cx mem = bind_ov (check_memory_index cx mem) (\<lambda>index_ty. push_operand index_ty)"

definition visit_memory_grow :: "op_cx \<Rightarrow> u32 \<Rightarrow> unit ov" where
  "visit_memory_grow cx mem = bind_ov (check_memory_index cx mem) (\<lambda>index_ty.
     steps [pop cx index_ty, push_operand index_ty])"

definition visit_memory_init :: "op_cx \<Rightarrow> u32 \<Rightarrow> u32 \<Rightarrow> unit ov" where
  "visit_memory_init cx segment mem = bind_ov (check_memory_index cx mem) (\<lambda>ty.
     steps [check_data_segment cx segment, pop cx I32, pop cx I32, pop cx ty])"

definition visit_memory_copy :: "op_cx \<Rightarrow> u32 \<Rightarrow> u32 \<Rightarrow> unit ov" where
  "visit_memory_copy cx dst src = bind_ov (check_memory_index cx dst) (\<lambda>dst_ty.
     bind_ov (check_memory_index cx src) (\<lambda>src_ty.
     steps [pop cx (if src_ty = I32 then I32 else dst_ty), pop cx src_ty, pop cx dst_ty]))"

definition visit_memory_fill :: "op_cx \<Rightarrow> u32 \<Rightarrow> unit ov" where
  "visit_memory_fill cx mem = bind_ov (check_memory_index cx mem) (\<lambda>ty.
     steps [pop cx ty, pop cx I32, pop cx ty])"

definition visit_memory_discard :: "op_cx \<Rightarrow> u32 \<Rightarrow> unit ov" where
  "visit_memory_discard cx mem = bind_ov (check_memory_index cx mem) (\<lambda>ty.
     steps [pop cx ty, pop cx ty])"

text \<open>\<open>if !self.resources.is_subtype(a, b) { bail!(..) }\<close>\<close>

definition check_subtype_or :: "op_cx \<Rightarrow> val_type \<Rightarrow> val_type \<Rightarrow> string \<Rightarrow> unit ov" where
  "check_subtype_or cx a b msg =
     bind_ov (call_ov (is_subtype (resources cx) a b)) (\<lambda>ok. ensure cx ok msg)"

definition visit_table_init :: "op_cx \<Rightarrow> u32 \<Rightarrow> u32 \<Rightarrow> unit ov" where
  "visit_table_init cx segment table = bind_ov (table_type_at cx table) (\<lambda>table.
     bind_ov (element_type_at_ov cx segment) (\<lambda>segment_ty.
     steps [check_subtype_or cx (Ref segment_ty) (Ref (table_element_type table)) ''type mismatch'',
       pop cx I32, pop cx I32, pop cx (table_index_type table)]))"

definition visit_elem_drop :: "op_cx \<Rightarrow> u32 \<Rightarrow> unit ov" where
  "visit_elem_drop cx segment = ignore (element_type_at_ov cx segment)"

definition visit_table_copy :: "op_cx \<Rightarrow> u32 \<Rightarrow> u32 \<Rightarrow> unit ov" where
  "visit_table_copy cx dst_table src_table = bind_ov (table_type_at cx src_table) (\<lambda>src.
     bind_ov (table_type_at cx dst_table) (\<lambda>dst.
     steps [check_subtype_or cx (Ref (table_element_type src)) (Ref (table_element_type dst))
         ''type mismatch'',
       pop cx (if table_index_type src = I32 then I32 else table_index_type dst),
       pop cx (table_index_type src), pop cx (table_index_type dst)]))"

definition visit_table_get :: "op_cx \<Rightarrow> u32 \<Rightarrow> unit ov" where
  "visit_table_get cx table = bind_ov (table_type_at cx table) (\<lambda>table.
     steps [debug_assert_type_indices_are_ids (Ref (table_element_type table)),
       pop cx (table_index_type table), push_operand (Ref (table_element_type table))])"

definition visit_table_set :: "op_cx \<Rightarrow> u32 \<Rightarrow> unit ov" where
  "visit_table_set cx table = bind_ov (table_type_at cx table) (\<lambda>table.
     steps [debug_assert_type_indices_are_ids (Ref (table_element_type table)),
       pop cx (Ref (table_element_type table)), pop cx (table_index_type table)])"

definition visit_table_grow :: "op_cx \<Rightarrow> u32 \<Rightarrow> unit ov" where
  "visit_table_grow cx table = bind_ov (table_type_at cx table) (\<lambda>table.
     steps [debug_assert_type_indices_are_ids (Ref (table_element_type table)),
       pop cx (table_index_type table), pop cx (Ref (table_element_type table)),
       push_operand (table_index_type table)])"

definition visit_table_size :: "op_cx \<Rightarrow> u32 \<Rightarrow> unit ov" where
  "visit_table_size cx table =
     bind_ov (table_type_at cx table) (\<lambda>table. push_operand (table_index_type table))"

definition visit_table_fill :: "op_cx \<Rightarrow> u32 \<Rightarrow> unit ov" where
  "visit_table_fill cx table = bind_ov (table_type_at cx table) (\<lambda>table.
     steps [debug_assert_type_indices_are_ids (Ref (table_element_type table)),
       pop cx (table_index_type table), pop cx (Ref (table_element_type table)),
       pop cx (table_index_type table)])"

text \<open>\<open>RefType::ANYREF.shared().unwrap()\<close>\<close>

definition shared_ov :: "ref_type \<Rightarrow> ref_type ov" where
  "shared_ov rt = call_ov (ref_shared rt)"

fun visit_table_atomic :: "op_cx \<Rightarrow> table_atomic_op \<Rightarrow> u32 \<Rightarrow> unit ov" where
  "visit_table_atomic cx TableAtomicGet table = bind_ov (visit_table_get cx table) (\<lambda>_.
     bind_ov (table_type_at cx table) (\<lambda>t.
     bind_ov (shared_ov ANYREF) (\<lambda>supertype.
     check_subtype_or cx (Ref (table_element_type t)) (Ref supertype)
       ''invalid type: `table.atomic.get` only allows subtypes of `anyref`'')))"
| "visit_table_atomic cx TableAtomicSet table = bind_ov (visit_table_set cx table) (\<lambda>_.
     bind_ov (table_type_at cx table) (\<lambda>t.
     bind_ov (shared_ov ANYREF) (\<lambda>supertype.
     check_subtype_or cx (Ref (table_element_type t)) (Ref supertype)
       ''invalid type: `table.atomic.set` only allows subtypes of `anyref`'')))"
| "visit_table_atomic cx TableAtomicRmwXchg table = bind_ov (table_type_at cx table) (\<lambda>t.
     bind_ov (debug_assert_type_indices_are_ids (Ref (table_element_type t))) (\<lambda>_.
     bind_ov (shared_ov ANYREF) (\<lambda>supertype.
     steps [check_subtype_or cx (Ref (table_element_type t)) (Ref supertype)
         ''invalid type: `table.atomic.rmw.xchg` only allows subtypes of `anyref`'',
       pop cx (Ref (table_element_type t)), pop cx (table_index_type t),
       push_operand (Ref (table_element_type t))])))"
| "visit_table_atomic cx TableAtomicRmwCmpxchg table = bind_ov (table_type_at cx table) (\<lambda>t.
     bind_ov (debug_assert_type_indices_are_ids (Ref (table_element_type t))) (\<lambda>_.
     bind_ov (shared_ov EQREF) (\<lambda>supertype.
     steps [check_subtype_or cx (Ref (table_element_type t)) (Ref supertype)
         ''invalid type: `table.atomic.rmw.cmpxchg` only allows subtypes of `eqref`'',
       pop cx (Ref (table_element_type t)), pop cx (Ref (table_element_type t)),
       pop cx (table_index_type t), push_operand (Ref (table_element_type t))])))"

section \<open>References\<close>

definition visit_ref_null :: "op_cx \<Rightarrow> heap_type \<Rightarrow> unit ov" where
  "visit_ref_null cx heap_type = bind_ov (get_ov ov_features) (\<lambda>fs.
     bind_ov (case ref_new True heap_type of
         Some ty \<Rightarrow> try_ov (Some (map_sum (\<lambda>e. error_new e (offset cx)) id
           (features_check_ref_type fs ty)))
       | None \<Rightarrow> return_ov ()) (\<lambda>_.
     bind_ov (check_heap_type_ov cx heap_type) (\<lambda>heap_type.
     bind_ov (call_ov (ref_new True heap_type)) (\<lambda>ty.
     push_operand (Ref ty)))))"

definition visit_ref_as_non_null :: "op_cx \<Rightarrow> unit ov" where
  "visit_ref_as_non_null cx = bind_ov (pop_ref cx None) (\<lambda>ty.
     push_maybe (maybe_val (maybe_as_non_null ty)))"

definition visit_br_on_null :: "op_cx \<Rightarrow> u32 \<Rightarrow> unit ov" where
  "visit_br_on_null cx relative_depth = bind_ov (pop_ref cx None) (\<lambda>ref_ty.
     bind_ov (jump cx relative_depth) (\<lambda>block.
     bind_ov (label_types cx block) (\<lambda>tys.
     steps [pop_push_label_types cx tys, push_maybe (maybe_val (maybe_as_non_null ref_ty))])))"

definition visit_br_on_non_null :: "op_cx \<Rightarrow> u32 \<Rightarrow> unit ov" where
  "visit_br_on_non_null cx relative_depth = bind_ov (jump cx relative_depth) (\<lambda>block.
     bind_ov (label_types cx block) (\<lambda>tys.
     if tys = [] then bail cx ''type mismatch: br_on_non_null target has no label types''
     else case last tys of
       Ref expected \<Rightarrow>
         bind_ov (pop_ref cx (Some (ref_nullable expected))) (\<lambda>_.
         pop_push_label_types cx (butlast tys))
     | _ \<Rightarrow> bail cx ''type mismatch: br_on_non_null target does not end with heap type''))"

definition visit_ref_is_null :: "op_cx \<Rightarrow> unit ov" where
  "visit_ref_is_null cx = bind_ov (pop_ref cx None) (\<lambda>_. push_operand I32)"

definition visit_ref_func :: "op_cx \<Rightarrow> u32 \<Rightarrow> unit ov" where
  "visit_ref_func cx function_index =
     (case type_id_of_function (resources cx) function_index of
        None \<Rightarrow> bail cx (''unknown function '' @ fmt_dec (unat function_index)
          @ '': function index out of bounds'')
      | Some type_id \<Rightarrow>
          bind_ov (ensure cx (is_function_referenced (resources cx) function_index)
            ''undeclared function reference'') (\<lambda>_.
          bind_ov (implementation_limit cx (ref_new False (Concrete (CoreTypeId type_id)))) (\<lambda>ty.
          push_operand (Ref ty))))"

text \<open>\<open>MaybeType::is_maybe_shared\<close>\<close>

definition is_maybe_shared :: "op_cx \<Rightarrow> ref_type maybe_type \<Rightarrow> bool option ov" where
  "is_maybe_shared cx ty =
     (case ty of
        Known ty \<Rightarrow> bind_ov (call_ov (is_shared (resources cx) ty)) (\<lambda>s. return_ov (Some s))
      | _ \<Rightarrow> return_ov None)"

definition visit_ref_eq :: "op_cx \<Rightarrow> unit ov" where
  "visit_ref_eq cx = bind_ov (pop_maybe_shared_ref cx AEq) (\<lambda>a.
     bind_ov (pop_maybe_shared_ref cx AEq) (\<lambda>b.
     bind_ov (is_maybe_shared cx a) (\<lambda>a_is_shared.
     bind_ov (is_maybe_shared cx b) (\<lambda>b_is_shared.
     bind_ov (case (a_is_shared, b_is_shared) of
         (Some is_a_shared, Some is_b_shared) \<Rightarrow>
           ensure cx (is_a_shared = is_b_shared)
             ''type mismatch: expected `ref.eq` types to match `shared`-ness''
       | _ \<Rightarrow> return_ov ()) (\<lambda>_.
     push_operand I32)))))"

definition visit_ref_i31 :: "op_cx \<Rightarrow> unit ov" where
  "visit_ref_i31 cx = steps [pop cx I32, push_operand (Ref ref_I31)]"

definition visit_ref_i31_shared :: "op_cx \<Rightarrow> unit ov" where
  "visit_ref_i31_shared cx = bind_ov (pop cx I32) (\<lambda>_.
     bind_ov (shared_ov ref_I31) (\<lambda>ty. push_operand (Ref ty)))"

definition visit_i31_get :: "op_cx \<Rightarrow> unit ov" where
  "visit_i31_get cx = bind_ov (pop_maybe_shared_ref cx AI31) (\<lambda>_. push_operand I32)"

text \<open>\<open>any.convert_extern\<close> and \<open>extern.convert_any\<close>.\<close>

definition visit_convert :: "op_cx \<Rightarrow> abstract_heap_type \<Rightarrow> abstract_heap_type \<Rightarrow> unit ov" where
  "visit_convert cx from into = bind_ov (pop_maybe_shared_ref cx from) (\<lambda>actual.
     bind_ov (case actual of
         Known ty \<Rightarrow>
           bind_ov (call_ov (is_shared (resources cx) ty)) (\<lambda>shared.
           bind_ov (call_ov (ref_new (is_nullable ty) (Abstract shared into))) (\<lambda>rt.
           return_ov (Known rt)))
       | _ \<Rightarrow> return_ov (UnknownRef (Some into))) (\<lambda>ty.
     push_maybe (maybe_val ty)))"

definition check_cast_types :: "op_cx \<Rightarrow> ref_type \<Rightarrow> ref_type \<Rightarrow> (ref_type \<times> ref_type) ov" where
  "check_cast_types cx from_ref_type to_ref_type =
     bind_ov (try_ov (check_ref_type (resources cx) from_ref_type (offset cx))) (\<lambda>from_ref_type.
     bind_ov (try_ov (check_ref_type (resources cx) to_ref_type (offset cx))) (\<lambda>to_ref_type.
     bind_ov (check_subtype_or cx (Ref to_ref_type) (Ref from_ref_type)
       (''type mismatch: expected '' @ ref_display from_ref_type @ '', found ''
        @ ref_display to_ref_type)) (\<lambda>_.
     return_ov (from_ref_type, to_ref_type))))"

definition visit_br_on_cast :: "op_cx \<Rightarrow> u32 \<Rightarrow> ref_type \<Rightarrow> ref_type \<Rightarrow> unit ov" where
  "visit_br_on_cast cx relative_depth from_ref_type to_ref_type =
     bind_ov (check_cast_types cx from_ref_type to_ref_type) (\<lambda>(from_ref_type, to_ref_type).
     bind_ov (jump cx relative_depth) (\<lambda>block.
     bind_ov (label_types cx block) (\<lambda>tys.
     bind_ov (if tys = []
       then bail cx (''type mismatch: br_on_cast to label with empty types, ''
         @ ''must have a reference type'')
       else steps [check_subtype_or cx (Ref to_ref_type) (last tys)
           (''type mismatch: casting to type '' @ ref_display to_ref_type
            @ '', but it does not match label result type '' @ val_type_display (last tys)),
         pop cx (Ref from_ref_type)]) (\<lambda>_.
     bind_ov (pop_push_label_types cx (butlast tys)) (\<lambda>_.
     bind_ov (call_ov (ref_difference from_ref_type to_ref_type)) (\<lambda>diff_ty.
     push_operand (Ref diff_ty)))))))"

definition visit_br_on_cast_fail :: "op_cx \<Rightarrow> u32 \<Rightarrow> ref_type \<Rightarrow> ref_type \<Rightarrow> unit ov" where
  "visit_br_on_cast_fail cx relative_depth from_ref_type to_ref_type =
     bind_ov (check_cast_types cx from_ref_type to_ref_type) (\<lambda>(from_ref_type, to_ref_type).
     bind_ov (jump cx relative_depth) (\<lambda>block.
     bind_ov (label_types cx block) (\<lambda>tys.
     bind_ov (call_ov (ref_difference from_ref_type to_ref_type)) (\<lambda>diff_ty.
     bind_ov (if tys = []
       then bail cx ''type mismatch: expected a reference type, found nothing''
       else steps [check_subtype_or cx (Ref diff_ty) (last tys)
           (''type mismatch: expected label result type '' @ val_type_display (last tys)
            @ '', found '' @ ref_display diff_ty),
         pop cx (Ref from_ref_type)]) (\<lambda>_.
     bind_ov (pop_push_label_types cx (butlast tys)) (\<lambda>_.
     push_operand (Ref to_ref_type)))))))"

end
