(* ===== verification/Validator_Gc.thy ===== *)
theory Validator_Gc
  imports Validator_Ops
begin

text \<open>
  The validators of the operators of the proposals for garbage collection, exceptions and stack
  switching: methods \<open>visit_*\<close> of \<open>OperatorValidatorTemp\<close> in
  crates/wasmparser/src/validator/operators.rs.
\<close>

section \<open>Structs\<close>

definition visit_struct_new :: "op_cx \<Rightarrow> u32 \<Rightarrow> unit ov" where
  "visit_struct_new cx struct_type_index = bind_ov (struct_type_at cx struct_type_index) (\<lambda>flds.
     steps [pop_rev cx (map (\<lambda>f. storage_unpack (element_type f)) flds),
       push_concrete_ref cx False struct_type_index])"

definition visit_struct_new_default :: "op_cx \<Rightarrow> u32 \<Rightarrow> unit ov" where
  "visit_struct_new_default cx type_idx = bind_ov (struct_type_at cx type_idx) (\<lambda>flds.
     steps [steps (map (\<lambda>f. ensure cx (is_defaultable (storage_unpack (element_type f)))
         (''invalid `struct.new_default`: '' @ val_type_display (storage_unpack (element_type f))
          @ '' field is not defaultable'')) flds),
       push_concrete_ref cx False type_idx])"

definition visit_struct_get :: "op_cx \<Rightarrow> u32 \<Rightarrow> u32 \<Rightarrow> unit ov" where
  "visit_struct_get cx struct_type_index field_index =
     bind_ov (struct_field_at cx struct_type_index field_index) (\<lambda>field_ty.
     steps [ensure cx (\<not> is_packed (element_type field_ty))
         ''can only use struct `get` with non-packed storage types'',
       pop_concrete_ref cx True struct_type_index,
       push_operand (storage_unpack (element_type field_ty))])"

definition visit_struct_get_s :: "op_cx \<Rightarrow> u32 \<Rightarrow> u32 \<Rightarrow> unit ov" where
  "visit_struct_get_s cx struct_type_index field_index =
     bind_ov (struct_field_at cx struct_type_index field_index) (\<lambda>field_ty.
     steps [ensure cx (is_packed (element_type field_ty))
         ''cannot use struct.get_s with non-packed storage types'',
       pop_concrete_ref cx True struct_type_index,
       push_operand (storage_unpack (element_type field_ty))])"

definition visit_struct_get_u :: "op_cx \<Rightarrow> u32 \<Rightarrow> u32 \<Rightarrow> unit ov" where
  "visit_struct_get_u cx struct_type_index field_index =
     bind_ov (struct_field_at cx struct_type_index field_index) (\<lambda>field_ty.
     steps [ensure cx (is_packed (element_type field_ty))
         ''cannot use struct.get_u with non-packed storage types'',
       pop_concrete_ref cx True struct_type_index,
       push_operand (storage_unpack (element_type field_ty))])"

definition visit_struct_set :: "op_cx \<Rightarrow> u32 \<Rightarrow> u32 \<Rightarrow> unit ov" where
  "visit_struct_set cx struct_type_index field_index =
     bind_ov (mutable_struct_field_at cx struct_type_index field_index) (\<lambda>field_ty.
     steps [pop cx (storage_unpack (element_type field_ty)),
       pop_concrete_ref cx True struct_type_index])"

text \<open>
  The match on a storage type that several atomic operators share: \<open>i32\<close>, \<open>i64\<close> and subtypes of a
  shared supertype are allowed, and \<open>packed\<close> says whether the packed types are.
\<close>

definition check_atomic_storage ::
  "op_cx \<Rightarrow> bool \<Rightarrow> storage_type \<Rightarrow> ref_type \<Rightarrow> string \<Rightarrow> unit ov" where
  "check_atomic_storage cx packed ty super msg =
     bind_ov (case ty of
         Val I32 \<Rightarrow> return_ov True
       | Val I64 \<Rightarrow> return_ov True
       | Val v \<Rightarrow> bind_ov (shared_ov super) (\<lambda>super.
           call_ov (is_subtype (resources cx) v (Ref super)))
       | _ \<Rightarrow> return_ov packed) (\<lambda>is_valid_type.
     ensure cx is_valid_type msg)"

text \<open>The debug assertion that the storage type is packed.\<close>

definition debug_assert_packed :: "field_type \<Rightarrow> unit ov" where
  "debug_assert_packed f = (if is_packed (element_type f) then return_ov () else panic_ov)"

text \<open>\<open>visit_struct_atomic_get_u\<close> calls \<open>visit_struct_get_s\<close>, as in the source.\<close>

fun visit_struct_atomic :: "op_cx \<Rightarrow> struct_atomic_op \<Rightarrow> u32 \<Rightarrow> u32 \<Rightarrow> unit ov" where
  "visit_struct_atomic cx StructAtomicGet t f = bind_ov (visit_struct_get cx t f) (\<lambda>_.
     bind_ov (struct_field_at cx t f) (\<lambda>field.
     check_atomic_storage cx False (element_type field) ANYREF
       (''invalid type: `struct.atomic.get` only allows `i32`, `i64` ''
        @ ''and subtypes of `anyref`'')))"
| "visit_struct_atomic cx StructAtomicGetS t f = bind_ov (visit_struct_get_s cx t f) (\<lambda>_.
     bind_ov (struct_field_at cx t f) debug_assert_packed)"
| "visit_struct_atomic cx StructAtomicGetU t f = bind_ov (visit_struct_get_s cx t f) (\<lambda>_.
     bind_ov (struct_field_at cx t f) debug_assert_packed)"
| "visit_struct_atomic cx StructAtomicSet t f = bind_ov (visit_struct_set cx t f) (\<lambda>_.
     bind_ov (struct_field_at cx t f) (\<lambda>field.
     check_atomic_storage cx True (element_type field) ANYREF
       (''invalid type: `struct.atomic.set` only allows `i8`, `i16`, `i32`, `i64` ''
        @ ''and subtypes of `anyref`'')))"
| "visit_struct_atomic cx StructAtomicRmwAdd t f = check_struct_atomic_rmw cx ''add'' t f"
| "visit_struct_atomic cx StructAtomicRmwSub t f = check_struct_atomic_rmw cx ''sub'' t f"
| "visit_struct_atomic cx StructAtomicRmwAnd t f = check_struct_atomic_rmw cx ''and'' t f"
| "visit_struct_atomic cx StructAtomicRmwOr t f = check_struct_atomic_rmw cx ''or'' t f"
| "visit_struct_atomic cx StructAtomicRmwXor t f = check_struct_atomic_rmw cx ''xor'' t f"
| "visit_struct_atomic cx StructAtomicRmwXchg t f =
     bind_ov (mutable_struct_field_at cx t f) (\<lambda>field.
     steps [check_atomic_storage cx False (element_type field) ANYREF
         (''invalid type: `struct.atomic.rmw.xchg` only allows `i32`, `i64` ''
          @ ''and subtypes of `anyref`''),
       pop cx (storage_unpack (element_type field)), pop_concrete_ref cx True t,
       push_operand (storage_unpack (element_type field))])"
| "visit_struct_atomic cx StructAtomicRmwCmpxchg t f =
     bind_ov (mutable_struct_field_at cx t f) (\<lambda>field.
     steps [check_atomic_storage cx False (element_type field) EQREF
         (''invalid type: `struct.atomic.rmw.cmpxchg` only allows `i32`, `i64` ''
          @ ''and subtypes of `eqref`''),
       pop cx (storage_unpack (element_type field)), pop cx (storage_unpack (element_type field)),
       pop_concrete_ref cx True t, push_operand (storage_unpack (element_type field))])"

section \<open>Arrays\<close>

definition visit_array_new :: "op_cx \<Rightarrow> u32 \<Rightarrow> unit ov" where
  "visit_array_new cx type_idx = bind_ov (array_type_at cx type_idx) (\<lambda>array_ty.
     steps [pop cx I32, pop cx (storage_unpack (element_type array_ty)),
       push_concrete_ref cx False type_idx])"

definition visit_array_new_default :: "op_cx \<Rightarrow> u32 \<Rightarrow> unit ov" where
  "visit_array_new_default cx type_idx = bind_ov (array_type_at cx type_idx) (\<lambda>ty.
     steps [ensure cx (is_defaultable (storage_unpack (element_type ty)))
         (''invalid `array.new_default`: '' @ val_type_display (storage_unpack (element_type ty))
          @ '' field is not defaultable''),
       pop cx I32, push_concrete_ref cx False type_idx])"

definition visit_array_new_fixed :: "op_cx \<Rightarrow> u32 \<Rightarrow> u32 \<Rightarrow> unit ov" where
  "visit_array_new_fixed cx type_idx n = bind_ov (array_type_at cx type_idx) (\<lambda>array_ty.
     steps [steps (replicate (unat n) (pop cx (storage_unpack (element_type array_ty)))),
       push_concrete_ref cx False type_idx])"

definition visit_array_new_data :: "op_cx \<Rightarrow> u32 \<Rightarrow> u32 \<Rightarrow> unit ov" where
  "visit_array_new_data cx type_idx data_index = bind_ov (array_type_at cx type_idx) (\<lambda>array_ty.
     steps [ensure cx (\<not> is_reference_type (storage_unpack (element_type array_ty)))
         (''type mismatch: array.new_data can only create arrays with numeric ''
          @ ''and vector elements''),
       check_data_segment cx data_index, pop cx I32, pop cx I32,
       push_concrete_ref cx False type_idx])"

text \<open>The element type of an array as a reference type.\<close>

definition array_ref_type :: "op_cx \<Rightarrow> field_type \<Rightarrow> string \<Rightarrow> ref_type ov" where
  "array_ref_type cx array_ty msg =
     (case storage_unpack (element_type array_ty) of
        Ref rt \<Rightarrow> return_ov rt
      | _ \<Rightarrow> bail cx msg)"

definition elem_mismatch :: "string \<Rightarrow> u32 \<Rightarrow> ref_type \<Rightarrow> ref_type \<Rightarrow> string" where
  "elem_mismatch instr elem_index array_ref_ty elem_ref_ty =
     ''invalid '' @ instr @ '' instruction: element segment '' @ fmt_dec (unat elem_index)
     @ '' type mismatch: expected '' @ ref_display array_ref_ty @ '', found ''
     @ ref_display elem_ref_ty"

definition visit_array_new_elem :: "op_cx \<Rightarrow> u32 \<Rightarrow> u32 \<Rightarrow> unit ov" where
  "visit_array_new_elem cx type_idx elem_index = bind_ov (array_type_at cx type_idx) (\<lambda>array_ty.
     bind_ov (array_ref_type cx array_ty
       ''type mismatch: array.new_elem can only create arrays with reference elements'') (\<lambda>array_ref_ty.
     bind_ov (element_type_at_ov cx elem_index) (\<lambda>elem_ref_ty.
     steps [check_subtype_or cx (Ref elem_ref_ty) (Ref array_ref_ty)
         (elem_mismatch ''array.new_elem'' elem_index array_ref_ty elem_ref_ty),
       pop cx I32, pop cx I32, push_concrete_ref cx False type_idx])))"

definition visit_array_get :: "op_cx \<Rightarrow> u32 \<Rightarrow> unit ov" where
  "visit_array_get cx type_idx = bind_ov (array_type_at cx type_idx) (\<lambda>array_ty.
     steps [ensure cx (\<not> is_packed (element_type array_ty))
         ''cannot use array.get with packed storage types'',
       pop cx I32, pop_concrete_ref cx True type_idx,
       push_operand (storage_unpack (element_type array_ty))])"

definition visit_array_get_s :: "op_cx \<Rightarrow> u32 \<Rightarrow> unit ov" where
  "visit_array_get_s cx type_idx = bind_ov (array_type_at cx type_idx) (\<lambda>array_ty.
     steps [ensure cx (is_packed (element_type array_ty))
         ''cannot use array.get_s with non-packed storage types'',
       pop cx I32, pop_concrete_ref cx True type_idx,
       push_operand (storage_unpack (element_type array_ty))])"

definition visit_array_get_u :: "op_cx \<Rightarrow> u32 \<Rightarrow> unit ov" where
  "visit_array_get_u cx type_idx = bind_ov (array_type_at cx type_idx) (\<lambda>array_ty.
     steps [ensure cx (is_packed (element_type array_ty))
         ''cannot use array.get_u with non-packed storage types'',
       pop cx I32, pop_concrete_ref cx True type_idx,
       push_operand (storage_unpack (element_type array_ty))])"

definition visit_array_set :: "op_cx \<Rightarrow> u32 \<Rightarrow> unit ov" where
  "visit_array_set cx type_idx = bind_ov (mutable_array_type_at cx type_idx) (\<lambda>array_ty.
     steps [pop cx (storage_unpack (element_type array_ty)), pop cx I32,
       pop_concrete_ref cx True type_idx])"

definition visit_array_len :: "op_cx \<Rightarrow> unit ov" where
  "visit_array_len cx = bind_ov (pop_maybe_shared_ref cx AArray) (\<lambda>_. push_operand I32)"

definition visit_array_fill :: "op_cx \<Rightarrow> u32 \<Rightarrow> unit ov" where
  "visit_array_fill cx type_idx = bind_ov (mutable_array_type_at cx type_idx) (\<lambda>array_ty.
     steps [pop cx I32, pop cx (storage_unpack (element_type array_ty)), pop cx I32,
       pop_concrete_ref cx True type_idx])"

definition array_mismatch :: "string \<Rightarrow> string \<Rightarrow> string" where
  "array_mismatch dst src = ''array types do not match: expected '' @ dst @ '', found '' @ src"

fun check_array_copy :: "op_cx \<Rightarrow> storage_type \<Rightarrow> storage_type \<Rightarrow> unit ov" where
  "check_array_copy cx StorageI8 src =
     ensure cx (src = StorageI8) (array_mismatch ''i8'' (storage_type_display src))"
| "check_array_copy cx StorageI16 src =
     ensure cx (src = StorageI16) (array_mismatch ''i16'' (storage_type_display src))"
| "check_array_copy cx (Val dst) (Val src) =
     check_subtype_or cx src dst (array_mismatch (val_type_display dst) (val_type_display src))"
| "check_array_copy cx (Val dst) src =
     bail cx (array_mismatch (val_type_display dst) (storage_type_display src))"

definition visit_array_copy :: "op_cx \<Rightarrow> u32 \<Rightarrow> u32 \<Rightarrow> unit ov" where
  "visit_array_copy cx dst src = bind_ov (mutable_array_type_at cx dst) (\<lambda>array_ty_dst.
     bind_ov (array_type_at cx src) (\<lambda>array_ty_src.
     steps [check_array_copy cx (element_type array_ty_dst) (element_type array_ty_src),
       pop cx I32, pop cx I32, pop_concrete_ref cx True src, pop cx I32,
       pop_concrete_ref cx True dst]))"

definition visit_array_init_data :: "op_cx \<Rightarrow> u32 \<Rightarrow> u32 \<Rightarrow> unit ov" where
  "visit_array_init_data cx type_idx data_index =
     bind_ov (mutable_array_type_at cx type_idx) (\<lambda>array_ty.
     steps [ensure cx (\<not> is_reference_type (storage_unpack (element_type array_ty)))
         ''invalid array.init_data: array type is not numeric or vector'',
       check_data_segment cx data_index, pop cx I32, pop cx I32, pop cx I32,
       pop_concrete_ref cx True type_idx])"

definition visit_array_init_elem :: "op_cx \<Rightarrow> u32 \<Rightarrow> u32 \<Rightarrow> unit ov" where
  "visit_array_init_elem cx type_idx elem_index =
     bind_ov (mutable_array_type_at cx type_idx) (\<lambda>array_ty.
     bind_ov (array_ref_type cx array_ty
       ''type mismatch: array.init_elem can only create arrays with reference elements'') (\<lambda>array_ref_ty.
     bind_ov (element_type_at_ov cx elem_index) (\<lambda>elem_ref_ty.
     steps [check_subtype_or cx (Ref elem_ref_ty) (Ref array_ref_ty)
         (elem_mismatch ''array.init_elem'' elem_index array_ref_ty elem_ref_ty),
       pop cx I32, pop cx I32, pop cx I32, pop_concrete_ref cx True type_idx])))"

fun visit_array_atomic :: "op_cx \<Rightarrow> array_atomic_op \<Rightarrow> u32 \<Rightarrow> unit ov" where
  "visit_array_atomic cx ArrayAtomicGet t = bind_ov (visit_array_get cx t) (\<lambda>_.
     bind_ov (array_type_at cx t) (\<lambda>field.
     check_atomic_storage cx False (element_type field) ANYREF
       (''invalid type: `array.atomic.get` only allows `i32`, `i64` ''
        @ ''and subtypes of `anyref`'')))"
| "visit_array_atomic cx ArrayAtomicGetS t = bind_ov (visit_array_get_s cx t) (\<lambda>_.
     bind_ov (array_type_at cx t) debug_assert_packed)"
| "visit_array_atomic cx ArrayAtomicGetU t = bind_ov (visit_array_get_u cx t) (\<lambda>_.
     bind_ov (array_type_at cx t) debug_assert_packed)"
| "visit_array_atomic cx ArrayAtomicSet t = bind_ov (visit_array_set cx t) (\<lambda>_.
     bind_ov (array_type_at cx t) (\<lambda>field.
     check_atomic_storage cx True (element_type field) ANYREF
       (''invalid type: `array.atomic.set` only allows `i8`, `i16`, `i32`, `i64` ''
        @ ''and subtypes of `anyref`'')))"
| "visit_array_atomic cx ArrayAtomicRmwAdd t = check_array_atomic_rmw cx ''add'' t"
| "visit_array_atomic cx ArrayAtomicRmwSub t = check_array_atomic_rmw cx ''sub'' t"
| "visit_array_atomic cx ArrayAtomicRmwAnd t = check_array_atomic_rmw cx ''and'' t"
| "visit_array_atomic cx ArrayAtomicRmwOr t = check_array_atomic_rmw cx ''or'' t"
| "visit_array_atomic cx ArrayAtomicRmwXor t = check_array_atomic_rmw cx ''xor'' t"
| "visit_array_atomic cx ArrayAtomicRmwXchg t = bind_ov (mutable_array_type_at cx t) (\<lambda>field.
     steps [check_atomic_storage cx False (element_type field) ANYREF
         (''invalid type: `array.atomic.rmw.xchg` only allows `i32`, `i64` ''
          @ ''and subtypes of `anyref`''),
       pop cx (storage_unpack (element_type field)), pop cx I32, pop_concrete_ref cx True t,
       push_operand (storage_unpack (element_type field))])"
| "visit_array_atomic cx ArrayAtomicRmwCmpxchg t = bind_ov (mutable_array_type_at cx t) (\<lambda>field.
     steps [check_atomic_storage cx False (element_type field) EQREF
         (''invalid type: `array.atomic.rmw.cmpxchg` only allows `i32`, `i64` ''
          @ ''and subtypes of `eqref`''),
       pop cx (storage_unpack (element_type field)), pop cx (storage_unpack (element_type field)),
       pop cx I32, pop_concrete_ref cx True t,
       push_operand (storage_unpack (element_type field))])"

section \<open>Exceptions\<close>

definition match_operands :: "op_cx \<Rightarrow> (val_type \<times> val_type) list \<Rightarrow> unit ov" where
  "match_operands cx tys = steps (map (\<lambda>(expected, actual). match_operand cx actual expected) tys)"

definition check_catch :: "op_cx \<Rightarrow> catch \<Rightarrow> unit ov" where
  "check_catch cx catch =
     (case catch of
        CatchOne tag label \<Rightarrow>
          bind_ov (exception_tag_at cx tag) (\<lambda>tag.
          bind_ov (jump cx label) (\<lambda>block.
          bind_ov (label_types cx block) (\<lambda>types.
          steps [ensure cx (length (func_params tag) = length types)
              ''type mismatch: catch label must have same number of types as tag'',
            match_operands cx (zip types (func_params tag))])))
      | CatchOneRef tag label \<Rightarrow>
          bind_ov (exception_tag_at cx tag) (\<lambda>tag.
          bind_ov (jump cx label) (\<lambda>block.
          bind_ov (label_types cx block) (\<lambda>types.
          steps [ensure cx (length (func_params tag) + 1 = length types)
              ''type mismatch: catch_ref label must have one more type than tag types'',
            match_operands cx (zip types (func_params tag @ [Ref ref_EXN]))])))
      | CatchAllTo label \<Rightarrow>
          bind_ov (jump cx label) (\<lambda>block.
          bind_ov (label_types cx block) (\<lambda>types.
          ensure cx (length types = 0)
            ''type mismatch: catch_all label must have no result types''))
      | CatchAllRef label \<Rightarrow>
          bind_ov (jump cx label) (\<lambda>block.
          bind_ov (label_types cx block) (\<lambda>types.
          case types of
            [ty] \<Rightarrow> check_subtype_or cx (Ref ref_EXN) ty
              ''type mismatch: catch_all_ref label must a subtype of (ref exn)''
          | _ \<Rightarrow> bail cx
              ''type mismatch: catch_all_ref label must have exactly one result type'')))"

definition visit_try_table :: "op_cx \<Rightarrow> block_type try_table \<Rightarrow> unit ov" where
  "visit_try_table cx table =
     (case table of MkTryTable ty catches \<Rightarrow>
        bind_ov (check_block_type cx ty) (\<lambda>ty.
        bind_ov (block_params cx ty) (\<lambda>params.
        steps [pop_rev cx params, steps (map (check_catch cx) catches),
          push_ctrl cx FrameTryTable ty])))"

text \<open>The debug assertion that the tag has no results.\<close>

definition visit_throw :: "op_cx \<Rightarrow> u32 \<Rightarrow> unit ov" where
  "visit_throw cx index = bind_ov (exception_tag_at cx index) (\<lambda>ty.
     steps [pop_rev cx (func_params ty),
       if func_results ty = [] then return_ov () else panic_ov, unreachable cx])"

definition visit_throw_ref :: "op_cx \<Rightarrow> unit ov" where
  "visit_throw_ref cx = steps [pop cx (Ref EXNREF), unreachable cx]"

definition visit_try :: "op_cx \<Rightarrow> block_type \<Rightarrow> unit ov" where
  "visit_try cx ty = bind_ov (check_block_type cx ty) (\<lambda>ty.
     bind_ov (block_params cx ty) (\<lambda>params.
     steps [pop_rev cx params, push_ctrl cx FrameLegacyTry ty]))"

definition visit_catch :: "op_cx \<Rightarrow> u32 \<Rightarrow> unit ov" where
  "visit_catch cx index = bind_ov (pop_ctrl cx) (\<lambda>frame.
     bind_ov (ensure cx (\<not> (fr_kind frame \<noteq> FrameLegacyTry \<and> fr_kind frame \<noteq> FrameLegacyCatch))
       ''catch found outside of an `try` block'') (\<lambda>_.
     bind_ov (push_frame FrameLegacyCatch (fr_block_type frame)) (\<lambda>_.
     bind_ov (exception_tag_at cx index) (\<lambda>ty.
     push_all (func_params ty)))))"

definition visit_rethrow :: "op_cx \<Rightarrow> u32 \<Rightarrow> unit ov" where
  "visit_rethrow cx relative_depth = bind_ov (jump cx relative_depth) (\<lambda>(_, kind).
     steps [ensure cx (\<not> (kind \<noteq> FrameLegacyCatch \<and> kind \<noteq> FrameLegacyCatchAll))
         ''invalid rethrow label: target was not a `catch` block'',
       unreachable cx])"

definition visit_delegate :: "op_cx \<Rightarrow> u32 \<Rightarrow> unit ov" where
  "visit_delegate cx relative_depth = bind_ov (pop_ctrl cx) (\<lambda>frame.
     bind_ov (ensure cx (\<not> fr_kind frame \<noteq> FrameLegacyTry)
       ''delegate found outside of an `try` block'') (\<lambda>_.
     bind_ov (jump cx relative_depth) (\<lambda>_.
     bind_ov (block_results cx (fr_block_type frame)) (\<lambda>results.
     push_all results))))"

definition visit_catch_all :: "op_cx \<Rightarrow> unit ov" where
  "visit_catch_all cx = bind_ov (pop_ctrl cx) (\<lambda>frame.
     bind_ov (if fr_kind frame = FrameLegacyCatchAll
       then bail cx ''only one catch_all allowed per `try` block''
       else ensure cx (\<not> (fr_kind frame \<noteq> FrameLegacyTry \<and> fr_kind frame \<noteq> FrameLegacyCatch))
         ''catch_all found outside of a `try` block'') (\<lambda>_.
     push_frame FrameLegacyCatchAll (fr_block_type frame)))"

section \<open>Stack switching\<close>

definition visit_cont_new :: "op_cx \<Rightarrow> u32 \<Rightarrow> unit ov" where
  "visit_cont_new cx type_idx = bind_ov (cont_type_at cx type_idx) (\<lambda>cont_ty.
     case cont_ty of ContType p \<Rightarrow>
       bind_ov (pop_ref cx (Some (ref_concrete True p))) (\<lambda>_.
       push_concrete_ref cx False type_idx))"

definition visit_cont_bind :: "op_cx \<Rightarrow> u32 \<Rightarrow> u32 \<Rightarrow> unit ov" where
  "visit_cont_bind cx argument_index result_index =
     bind_ov (cont_type_at cx argument_index) (\<lambda>arg_cont.
     bind_ov (func_type_of_cont_type cx arg_cont) (\<lambda>arg_func.
     bind_ov (cont_type_at cx result_index) (\<lambda>res_cont.
     bind_ov (func_type_of_cont_type cx res_cont) (\<lambda>res_func.
     bind_ov (ensure cx (\<not> length (func_params arg_func) < length (func_params res_func))
       ''type mismatch in continuation arguments'') (\<lambda>_.
     let argcnt = length (func_params arg_func) - length (func_params res_func) in
     bind_ov (is_subtype_many cx (func_params res_func) (drop argcnt (func_params arg_func))) (\<lambda>ok.
     bind_ov (if ok then same_len_subtypes cx (func_results arg_func) (func_results res_func)
       else return_ov False) (\<lambda>ok.
     steps [ensure cx ok ''type mismatch in continuation types'',
       pop_concrete_ref cx True argument_index,
       pop_rev cx (take argcnt (func_params arg_func)),
       push_concrete_ref cx False result_index])))))))"

definition visit_suspend :: "op_cx \<Rightarrow> u32 \<Rightarrow> unit ov" where
  "visit_suspend cx tag_index = bind_ov (tag_at_ov cx tag_index) (\<lambda>ft.
     steps [pop_rev cx (func_params ft), push_all (func_results ft)])"

definition visit_resume :: "op_cx \<Rightarrow> u32 \<Rightarrow> handle list \<Rightarrow> unit ov" where
  "visit_resume cx type_idx table = bind_ov (check_resume_table cx table type_idx) (\<lambda>ft.
     steps [pop_concrete_ref cx True type_idx, pop_rev cx (func_params ft),
       push_all (func_results ft)])"

definition visit_resume_throw :: "op_cx \<Rightarrow> u32 \<Rightarrow> u32 \<Rightarrow> handle list \<Rightarrow> unit ov" where
  "visit_resume_throw cx type_idx tag_index table =
     bind_ov (check_resume_table cx table type_idx) (\<lambda>ft.
     bind_ov (exception_tag_at cx tag_index) (\<lambda>tag_ty.
     steps [ensure cx (length (func_results tag_ty) = 0)
         ''type mismatch: non-empty tag result type'',
       pop_concrete_ref cx True type_idx, pop_rev cx (func_params tag_ty),
       push_all (func_results ft)]))"

definition visit_switch :: "op_cx \<Rightarrow> u32 \<Rightarrow> u32 \<Rightarrow> unit ov" where
  "visit_switch cx type_idx tag_index = bind_ov (cont_type_at cx type_idx) (\<lambda>cont_ty.
     bind_ov (func_type_of_cont_type cx cont_ty) (\<lambda>func_ty.
     bind_ov (tag_at_ov cx tag_index) (\<lambda>tag_ty.
     bind_ov (ensure cx (length (func_params tag_ty) = 0)
       ''type mismatch: non-empty tag parameter type'') (\<lambda>_.
     if func_params func_ty = []
     then bail cx ''type mismatch: instruction requires a continuation reference''
     else case last (func_params func_ty) of
       Ref rt \<Rightarrow>
         (if is_concrete_type_ref rt
          then bind_ov (cont_func_type_of_ref cx rt) (\<lambda>other_func_ty.
            bind_ov (same_len_subtypes cx (func_results func_ty) (func_results tag_ty)) (\<lambda>ok.
            bind_ov (if ok
              then same_len_subtypes cx (func_results tag_ty) (func_results other_func_ty)
              else return_ov False) (\<lambda>ok.
            steps [ensure cx ok ''type mismatch in continuation types'',
              pop_concrete_ref cx True type_idx,
              pop_rev cx (butlast (func_params func_ty)),
              push_all (func_params other_func_ty)])))
          else bail cx (''type mismatch: expected a continuation reference, found ''
            @ ty_to_str (Ref rt)))
     | ty \<Rightarrow> bail cx (''type mismatch: expected a continuation reference, found ''
         @ ty_to_str ty)))))"

end
