(* ===== verification/Operator_Table.thy ===== *)
theory Operator_Table
  imports Operators
begin

text \<open>
  The table of the operators: for each variant of \<open>Operator\<close>, the proposal it belongs to and the
  annotation of its arity, as the macro \<open>for_each_operator\<close> of crates/wasmparser/src/lib.rs lists
  them. The operators of the first specification, marked \<open>@mvp\<close> there, have no proposal here.
\<close>

section \<open>Annotations\<close>

text \<open>
  An annotation is one of the words with a fixed arity, or \<open>arity\<close> with two lists of tokens: a
  number, a category that is counted in the module, or one whose two counts are exchanged (\<open>~\<close>).
  The immediate that a category reads is its argument here; a \<open>try_table\<close> is counted as its block
  type, a \<open>br_table\<close> as a branch to its default target.
\<close>

datatype fixed_category =
    CatLoadLane | CatLoad | CatStore | CatTest | CatUnary | CatBinary | CatCmp | CatShift | CatSplat
  | CatTernary | CatConversion | CatPush | CatExtract | CatReplace | CatAtomicRmwArray
  | CatAtomicRmw | CatAtomicCmpxchg

datatype category =
    CatTag u32 | CatFunc u32 | CatType u32 | CatSwitch u32 | CatTypeDiff u32 u32 | CatSize u32
  | CatBr u32 | CatRet | CatBlock block_type | CatImplicitElse | CatEnd

datatype arity_token = Lit int | Cat category | Swap category

datatype annotation = Fixed fixed_category | Arity "arity_token list" "arity_token list"

type_synonym op_info = "wasm_feature option \<times> annotation"

section \<open>Control flow, variables, constants\<close>

fun control_info :: "(block_type, br_table) control_op \<Rightarrow> op_info" where
  "control_info Unreachable = (None, Arity [Lit 0] [Lit 0])"
| "control_info Nop = (None, Arity [Lit 0] [Lit 0])"
| "control_info (Block blockty) = (None, Arity [Cat (CatBlock blockty)] [Swap (CatBlock blockty)])"
| "control_info (Loop blockty) = (None, Arity [Cat (CatBlock blockty)] [Swap (CatBlock blockty)])"
| "control_info (OpIf blockty) =
     (None, Arity [Lit 1, Cat (CatBlock blockty)] [Swap (CatBlock blockty)])"
| "control_info Else = (None, Arity [Swap CatEnd] [Swap CatEnd])"
| "control_info End =
     (None, Arity [Cat CatImplicitElse, Swap CatEnd] [Cat CatImplicitElse, Cat CatEnd])"
| "control_info (Br depth) = (None, Arity [Cat (CatBr depth)] [Lit 0])"
| "control_info (BrIf depth) = (None, Arity [Lit 1, Cat (CatBr depth)] [Cat (CatBr depth)])"
| "control_info (BrTable targets) =
     (None, Arity [Lit 1, Cat (CatBr (bt_default targets))] [Lit 0])"
| "control_info Return = (None, Arity [Swap CatRet] [Lit 0])"
| "control_info (Call func) = (None, Arity [Cat (CatFunc func)] [Cat (CatFunc func)])"
| "control_info (CallIndirect ty table) =
     (None, Arity [Lit 1, Cat (CatType ty)] [Cat (CatType ty)])"
| "control_info Drop = (None, Arity [Lit 1] [Lit 0])"
| "control_info Select = (None, Arity [Lit 3] [Lit 1])"
| "control_info (LocalGet _) = (None, Arity [Lit 0] [Lit 1])"
| "control_info (LocalSet _) = (None, Arity [Lit 1] [Lit 0])"
| "control_info (LocalTee _) = (None, Arity [Lit 1] [Lit 1])"
| "control_info (GlobalGet _) = (None, Arity [Lit 0] [Lit 1])"
| "control_info (GlobalSet _) = (None, Arity [Lit 1] [Lit 0])"
| "control_info (MemorySize _) = (None, Arity [Lit 0] [Lit 1])"
| "control_info (MemoryGrow _) = (None, Arity [Lit 1] [Lit 1])"
| "control_info (I32Const _) = (None, Fixed CatPush)"
| "control_info (I64Const _) = (None, Fixed CatPush)"
| "control_info (F32Const _) = (None, Fixed CatPush)"
| "control_info (F64Const _) = (None, Fixed CatPush)"

section \<open>Bulk memory, references, tail calls\<close>

fun ref_info :: "(val_type, heap_type) ref_op \<Rightarrow> op_info" where
  "ref_info (MemoryInit _ _) = (Some BULK_MEMORY, Arity [Lit 3] [Lit 0])"
| "ref_info (DataDrop _) = (Some BULK_MEMORY, Arity [Lit 0] [Lit 0])"
| "ref_info (MemoryCopy _ _) = (Some BULK_MEMORY, Arity [Lit 3] [Lit 0])"
| "ref_info (MemoryFill _) = (Some BULK_MEMORY, Arity [Lit 3] [Lit 0])"
| "ref_info (TableInit _ _) = (Some BULK_MEMORY, Arity [Lit 3] [Lit 0])"
| "ref_info (ElemDrop _) = (Some BULK_MEMORY, Arity [Lit 0] [Lit 0])"
| "ref_info (TableCopy _ _) = (Some BULK_MEMORY, Arity [Lit 3] [Lit 0])"
| "ref_info (TypedSelect _) = (Some REFERENCE_TYPES, Arity [Lit 3] [Lit 1])"
| "ref_info (RefNull _) = (Some REFERENCE_TYPES, Arity [Lit 0] [Lit 1])"
| "ref_info RefIsNull = (Some REFERENCE_TYPES, Arity [Lit 1] [Lit 1])"
| "ref_info (RefFunc _) = (Some REFERENCE_TYPES, Arity [Lit 0] [Lit 1])"
| "ref_info (TableFill _) = (Some REFERENCE_TYPES, Arity [Lit 3] [Lit 0])"
| "ref_info (TableGet _) = (Some REFERENCE_TYPES, Arity [Lit 1] [Lit 1])"
| "ref_info (TableSet _) = (Some REFERENCE_TYPES, Arity [Lit 2] [Lit 0])"
| "ref_info (TableGrow _) = (Some REFERENCE_TYPES, Arity [Lit 2] [Lit 1])"
| "ref_info (TableSize _) = (Some REFERENCE_TYPES, Arity [Lit 0] [Lit 1])"
| "ref_info (ReturnCall func) = (Some TAIL_CALL, Arity [Cat (CatFunc func)] [Lit 0])"
| "ref_info (ReturnCallIndirect ty _) =
     (Some TAIL_CALL, Arity [Lit 1, Cat (CatType ty)] [Lit 0])"
| "ref_info (MemoryDiscard _) = (Some MEMORY_CONTROL, Arity [Lit 2] [Lit 0])"
| "ref_info (CallRef ty) =
     (Some FUNCTION_REFERENCES, Arity [Lit 1, Cat (CatType ty)] [Cat (CatType ty)])"
| "ref_info (ReturnCallRef ty) =
     (Some FUNCTION_REFERENCES, Arity [Lit 1, Cat (CatType ty)] [Lit 0])"
| "ref_info RefAsNonNull = (Some FUNCTION_REFERENCES, Arity [Lit 1] [Lit 1])"
| "ref_info (BrOnNull depth) =
     (Some FUNCTION_REFERENCES, Arity [Lit 1, Cat (CatBr depth)] [Lit 1, Cat (CatBr depth)])"
| "ref_info (BrOnNonNull depth) =
     (Some FUNCTION_REFERENCES, Arity [Cat (CatBr depth)] [Cat (CatBr depth), Lit (-1)])"

section \<open>Exceptions and stack switching\<close>

fun exn_info :: "block_type exn_op \<Rightarrow> op_info" where
  "exn_info (TryTable (MkTryTable ty _)) =
     (Some EXCEPTIONS, Arity [Cat (CatBlock ty)] [Swap (CatBlock ty)])"
| "exn_info (Throw tag) = (Some EXCEPTIONS, Arity [Cat (CatTag tag)] [Lit 0])"
| "exn_info ThrowRef = (Some EXCEPTIONS, Arity [Lit 1] [Lit 0])"
| "exn_info (Try blockty) =
     (Some LEGACY_EXCEPTIONS, Arity [Cat (CatBlock blockty)] [Swap (CatBlock blockty)])"
| "exn_info (Catch tag) = (Some LEGACY_EXCEPTIONS, Arity [Swap CatEnd] [Swap (CatTag tag)])"
| "exn_info (Rethrow _) = (Some LEGACY_EXCEPTIONS, Arity [Lit 0] [Lit 0])"
| "exn_info (Delegate _) = (Some LEGACY_EXCEPTIONS, Arity [Swap CatEnd] [Cat CatEnd])"
| "exn_info CatchAll = (Some LEGACY_EXCEPTIONS, Arity [Swap CatEnd] [Lit 0])"
| "exn_info (ContNew _) = (Some STACK_SWITCHING, Arity [Lit 1] [Lit 1])"
| "exn_info (ContBind arg res) =
     (Some STACK_SWITCHING, Arity [Cat (CatTypeDiff arg res), Lit 1] [Lit 1])"
| "exn_info (Suspend tag) = (Some STACK_SWITCHING, Arity [Cat (CatTag tag)] [Cat (CatTag tag)])"
| "exn_info (Resume ty _) =
     (Some STACK_SWITCHING, Arity [Lit 1, Cat (CatType ty)] [Cat (CatType ty)])"
| "exn_info (ResumeThrow ty tag _) =
     (Some STACK_SWITCHING, Arity [Lit 1, Cat (CatTag tag)] [Cat (CatType ty)])"
| "exn_info (Switch ty _) =
     (Some STACK_SWITCHING, Arity [Cat (CatType ty)] [Swap (CatSwitch ty)])"

section \<open>Garbage collection\<close>

fun gc_info :: "(heap_type, ref_type) gc_op \<Rightarrow> op_info" where
  "gc_info RefEq = (Some GC, Arity [Lit 2] [Lit 1])"
| "gc_info (StructNew ty) = (Some GC, Arity [Cat (CatType ty)] [Lit 1])"
| "gc_info (StructNewDefault _) = (Some GC, Arity [Lit 0] [Lit 1])"
| "gc_info (StructGet _ _) = (Some GC, Arity [Lit 1] [Lit 1])"
| "gc_info (StructGetS _ _) = (Some GC, Arity [Lit 1] [Lit 1])"
| "gc_info (StructGetU _ _) = (Some GC, Arity [Lit 1] [Lit 1])"
| "gc_info (StructSet _ _) = (Some GC, Arity [Lit 2] [Lit 0])"
| "gc_info (ArrayNew _) = (Some GC, Arity [Lit 2] [Lit 1])"
| "gc_info (ArrayNewDefault _) = (Some GC, Arity [Lit 1] [Lit 1])"
| "gc_info (ArrayNewFixed _ n) = (Some GC, Arity [Cat (CatSize n)] [Lit 1])"
| "gc_info (ArrayNewData _ _) = (Some GC, Arity [Lit 2] [Lit 1])"
| "gc_info (ArrayNewElem _ _) = (Some GC, Arity [Lit 2] [Lit 1])"
| "gc_info (ArrayGet _) = (Some GC, Arity [Lit 2] [Lit 1])"
| "gc_info (ArrayGetS _) = (Some GC, Arity [Lit 2] [Lit 1])"
| "gc_info (ArrayGetU _) = (Some GC, Arity [Lit 2] [Lit 1])"
| "gc_info (ArraySet _) = (Some GC, Arity [Lit 3] [Lit 0])"
| "gc_info ArrayLen = (Some GC, Arity [Lit 1] [Lit 1])"
| "gc_info (ArrayFill _) = (Some GC, Arity [Lit 4] [Lit 0])"
| "gc_info (ArrayCopy _ _) = (Some GC, Arity [Lit 5] [Lit 0])"
| "gc_info (ArrayInitData _ _) = (Some GC, Arity [Lit 4] [Lit 0])"
| "gc_info (ArrayInitElem _ _) = (Some GC, Arity [Lit 4] [Lit 0])"
| "gc_info (RefTestNonNull _) = (Some GC, Arity [Lit 1] [Lit 1])"
| "gc_info (RefTestNullable _) = (Some GC, Arity [Lit 1] [Lit 1])"
| "gc_info (RefCastNonNull _) = (Some GC, Arity [Lit 1] [Lit 1])"
| "gc_info (RefCastNullable _) = (Some GC, Arity [Lit 1] [Lit 1])"
| "gc_info (BrOnCast depth _ _) = (Some GC, Arity [Cat (CatBr depth)] [Cat (CatBr depth)])"
| "gc_info (BrOnCastFail depth _ _) = (Some GC, Arity [Cat (CatBr depth)] [Cat (CatBr depth)])"
| "gc_info AnyConvertExtern = (Some GC, Arity [Lit 1] [Lit 1])"
| "gc_info ExternConvertAny = (Some GC, Arity [Lit 1] [Lit 1])"
| "gc_info RefI31 = (Some GC, Arity [Lit 1] [Lit 1])"
| "gc_info I31GetS = (Some GC, Arity [Lit 1] [Lit 1])"
| "gc_info I31GetU = (Some GC, Arity [Lit 1] [Lit 1])"

section \<open>Numeric, memory and vector operators\<close>

fun i32_info :: "i32_op \<Rightarrow> op_info" where
  "i32_info I32Eqz = (None, Fixed CatTest)"
| "i32_info I32Eq = (None, Fixed CatCmp)"
| "i32_info I32Ne = (None, Fixed CatCmp)"
| "i32_info I32LtS = (None, Fixed CatCmp)"
| "i32_info I32LtU = (None, Fixed CatCmp)"
| "i32_info I32GtS = (None, Fixed CatCmp)"
| "i32_info I32GtU = (None, Fixed CatCmp)"
| "i32_info I32LeS = (None, Fixed CatCmp)"
| "i32_info I32LeU = (None, Fixed CatCmp)"
| "i32_info I32GeS = (None, Fixed CatCmp)"
| "i32_info I32GeU = (None, Fixed CatCmp)"
| "i32_info I32Clz = (None, Fixed CatUnary)"
| "i32_info I32Ctz = (None, Fixed CatUnary)"
| "i32_info I32Popcnt = (None, Fixed CatUnary)"
| "i32_info I32Add = (None, Fixed CatBinary)"
| "i32_info I32Sub = (None, Fixed CatBinary)"
| "i32_info I32Mul = (None, Fixed CatBinary)"
| "i32_info I32DivS = (None, Fixed CatBinary)"
| "i32_info I32DivU = (None, Fixed CatBinary)"
| "i32_info I32RemS = (None, Fixed CatBinary)"
| "i32_info I32RemU = (None, Fixed CatBinary)"
| "i32_info I32And = (None, Fixed CatBinary)"
| "i32_info I32Or = (None, Fixed CatBinary)"
| "i32_info I32Xor = (None, Fixed CatBinary)"
| "i32_info I32Shl = (None, Fixed CatBinary)"
| "i32_info I32ShrS = (None, Fixed CatBinary)"
| "i32_info I32ShrU = (None, Fixed CatBinary)"
| "i32_info I32Rotl = (None, Fixed CatBinary)"
| "i32_info I32Rotr = (None, Fixed CatBinary)"
| "i32_info I32WrapI64 = (None, Fixed CatConversion)"
| "i32_info I32TruncF32S = (None, Fixed CatConversion)"
| "i32_info I32TruncF32U = (None, Fixed CatConversion)"
| "i32_info I32TruncF64S = (None, Fixed CatConversion)"
| "i32_info I32TruncF64U = (None, Fixed CatConversion)"
| "i32_info I32ReinterpretF32 = (None, Fixed CatConversion)"
| "i32_info I32Extend8S = (Some SIGN_EXTENSION, Fixed CatUnary)"
| "i32_info I32Extend16S = (Some SIGN_EXTENSION, Fixed CatUnary)"
| "i32_info I32TruncSatF32S = (Some SATURATING_FLOAT_TO_INT, Fixed CatConversion)"
| "i32_info I32TruncSatF32U = (Some SATURATING_FLOAT_TO_INT, Fixed CatConversion)"
| "i32_info I32TruncSatF64S = (Some SATURATING_FLOAT_TO_INT, Fixed CatConversion)"
| "i32_info I32TruncSatF64U = (Some SATURATING_FLOAT_TO_INT, Fixed CatConversion)"

fun i64_info :: "i64_op \<Rightarrow> op_info" where
  "i64_info I64Eqz = (None, Fixed CatTest)"
| "i64_info I64Eq = (None, Fixed CatCmp)"
| "i64_info I64Ne = (None, Fixed CatCmp)"
| "i64_info I64LtS = (None, Fixed CatCmp)"
| "i64_info I64LtU = (None, Fixed CatCmp)"
| "i64_info I64GtS = (None, Fixed CatCmp)"
| "i64_info I64GtU = (None, Fixed CatCmp)"
| "i64_info I64LeS = (None, Fixed CatCmp)"
| "i64_info I64LeU = (None, Fixed CatCmp)"
| "i64_info I64GeS = (None, Fixed CatCmp)"
| "i64_info I64GeU = (None, Fixed CatCmp)"
| "i64_info I64Clz = (None, Fixed CatUnary)"
| "i64_info I64Ctz = (None, Fixed CatUnary)"
| "i64_info I64Popcnt = (None, Fixed CatUnary)"
| "i64_info I64Add = (None, Fixed CatBinary)"
| "i64_info I64Sub = (None, Fixed CatBinary)"
| "i64_info I64Mul = (None, Fixed CatBinary)"
| "i64_info I64DivS = (None, Fixed CatBinary)"
| "i64_info I64DivU = (None, Fixed CatBinary)"
| "i64_info I64RemS = (None, Fixed CatBinary)"
| "i64_info I64RemU = (None, Fixed CatBinary)"
| "i64_info I64And = (None, Fixed CatBinary)"
| "i64_info I64Or = (None, Fixed CatBinary)"
| "i64_info I64Xor = (None, Fixed CatBinary)"
| "i64_info I64Shl = (None, Fixed CatBinary)"
| "i64_info I64ShrS = (None, Fixed CatBinary)"
| "i64_info I64ShrU = (None, Fixed CatBinary)"
| "i64_info I64Rotl = (None, Fixed CatBinary)"
| "i64_info I64Rotr = (None, Fixed CatBinary)"
| "i64_info I64ExtendI32S = (None, Fixed CatConversion)"
| "i64_info I64ExtendI32U = (None, Fixed CatConversion)"
| "i64_info I64TruncF32S = (None, Fixed CatConversion)"
| "i64_info I64TruncF32U = (None, Fixed CatConversion)"
| "i64_info I64TruncF64S = (None, Fixed CatConversion)"
| "i64_info I64TruncF64U = (None, Fixed CatConversion)"
| "i64_info I64ReinterpretF64 = (None, Fixed CatConversion)"
| "i64_info I64Extend8S = (Some SIGN_EXTENSION, Fixed CatUnary)"
| "i64_info I64Extend16S = (Some SIGN_EXTENSION, Fixed CatUnary)"
| "i64_info I64Extend32S = (Some SIGN_EXTENSION, Fixed CatUnary)"
| "i64_info I64TruncSatF32S = (Some SATURATING_FLOAT_TO_INT, Fixed CatConversion)"
| "i64_info I64TruncSatF32U = (Some SATURATING_FLOAT_TO_INT, Fixed CatConversion)"
| "i64_info I64TruncSatF64S = (Some SATURATING_FLOAT_TO_INT, Fixed CatConversion)"
| "i64_info I64TruncSatF64U = (Some SATURATING_FLOAT_TO_INT, Fixed CatConversion)"
| "i64_info I64Add128 = (Some WIDE_ARITHMETIC, Arity [Lit 4] [Lit 2])"
| "i64_info I64Sub128 = (Some WIDE_ARITHMETIC, Arity [Lit 4] [Lit 2])"
| "i64_info I64MulWideS = (Some WIDE_ARITHMETIC, Arity [Lit 2] [Lit 2])"
| "i64_info I64MulWideU = (Some WIDE_ARITHMETIC, Arity [Lit 2] [Lit 2])"

fun f32_info :: "f32_op \<Rightarrow> op_info" where
  "f32_info F32Eq = (None, Fixed CatCmp)"
| "f32_info F32Ne = (None, Fixed CatCmp)"
| "f32_info F32Lt = (None, Fixed CatCmp)"
| "f32_info F32Gt = (None, Fixed CatCmp)"
| "f32_info F32Le = (None, Fixed CatCmp)"
| "f32_info F32Ge = (None, Fixed CatCmp)"
| "f32_info F32Abs = (None, Fixed CatUnary)"
| "f32_info F32Neg = (None, Fixed CatUnary)"
| "f32_info F32Ceil = (None, Fixed CatUnary)"
| "f32_info F32Floor = (None, Fixed CatUnary)"
| "f32_info F32Trunc = (None, Fixed CatUnary)"
| "f32_info F32Nearest = (None, Fixed CatUnary)"
| "f32_info F32Sqrt = (None, Fixed CatUnary)"
| "f32_info F32Add = (None, Fixed CatBinary)"
| "f32_info F32Sub = (None, Fixed CatBinary)"
| "f32_info F32Mul = (None, Fixed CatBinary)"
| "f32_info F32Div = (None, Fixed CatBinary)"
| "f32_info F32Min = (None, Fixed CatBinary)"
| "f32_info F32Max = (None, Fixed CatBinary)"
| "f32_info F32Copysign = (None, Fixed CatBinary)"
| "f32_info F32ConvertI32S = (None, Fixed CatConversion)"
| "f32_info F32ConvertI32U = (None, Fixed CatConversion)"
| "f32_info F32ConvertI64S = (None, Fixed CatConversion)"
| "f32_info F32ConvertI64U = (None, Fixed CatConversion)"
| "f32_info F32DemoteF64 = (None, Fixed CatConversion)"
| "f32_info F32ReinterpretI32 = (None, Fixed CatConversion)"

fun f64_info :: "f64_op \<Rightarrow> op_info" where
  "f64_info F64Eq = (None, Fixed CatCmp)"
| "f64_info F64Ne = (None, Fixed CatCmp)"
| "f64_info F64Lt = (None, Fixed CatCmp)"
| "f64_info F64Gt = (None, Fixed CatCmp)"
| "f64_info F64Le = (None, Fixed CatCmp)"
| "f64_info F64Ge = (None, Fixed CatCmp)"
| "f64_info F64Abs = (None, Fixed CatUnary)"
| "f64_info F64Neg = (None, Fixed CatUnary)"
| "f64_info F64Ceil = (None, Fixed CatUnary)"
| "f64_info F64Floor = (None, Fixed CatUnary)"
| "f64_info F64Trunc = (None, Fixed CatUnary)"
| "f64_info F64Nearest = (None, Fixed CatUnary)"
| "f64_info F64Sqrt = (None, Fixed CatUnary)"
| "f64_info F64Add = (None, Fixed CatBinary)"
| "f64_info F64Sub = (None, Fixed CatBinary)"
| "f64_info F64Mul = (None, Fixed CatBinary)"
| "f64_info F64Div = (None, Fixed CatBinary)"
| "f64_info F64Min = (None, Fixed CatBinary)"
| "f64_info F64Max = (None, Fixed CatBinary)"
| "f64_info F64Copysign = (None, Fixed CatBinary)"
| "f64_info F64ConvertI32S = (None, Fixed CatConversion)"
| "f64_info F64ConvertI32U = (None, Fixed CatConversion)"
| "f64_info F64ConvertI64S = (None, Fixed CatConversion)"
| "f64_info F64ConvertI64U = (None, Fixed CatConversion)"
| "f64_info F64PromoteF32 = (None, Fixed CatConversion)"
| "f64_info F64ReinterpretI64 = (None, Fixed CatConversion)"

fun load_info :: "load_op \<Rightarrow> op_info" where
  "load_info I32Load = (None, Fixed CatLoad)"
| "load_info I64Load = (None, Fixed CatLoad)"
| "load_info F32Load = (None, Fixed CatLoad)"
| "load_info F64Load = (None, Fixed CatLoad)"
| "load_info I32Load8S = (None, Fixed CatLoad)"
| "load_info I32Load8U = (None, Fixed CatLoad)"
| "load_info I32Load16S = (None, Fixed CatLoad)"
| "load_info I32Load16U = (None, Fixed CatLoad)"
| "load_info I64Load8S = (None, Fixed CatLoad)"
| "load_info I64Load8U = (None, Fixed CatLoad)"
| "load_info I64Load16S = (None, Fixed CatLoad)"
| "load_info I64Load16U = (None, Fixed CatLoad)"
| "load_info I64Load32S = (None, Fixed CatLoad)"
| "load_info I64Load32U = (None, Fixed CatLoad)"

fun store_info :: "store_op \<Rightarrow> op_info" where
  "store_info I32Store = (None, Fixed CatStore)"
| "store_info I64Store = (None, Fixed CatStore)"
| "store_info F32Store = (None, Fixed CatStore)"
| "store_info F64Store = (None, Fixed CatStore)"
| "store_info I32Store8 = (None, Fixed CatStore)"
| "store_info I32Store16 = (None, Fixed CatStore)"
| "store_info I64Store8 = (None, Fixed CatStore)"
| "store_info I64Store16 = (None, Fixed CatStore)"
| "store_info I64Store32 = (None, Fixed CatStore)"

fun atomic_access_info :: "atomic_access_op \<Rightarrow> op_info" where
  "atomic_access_info MemoryAtomicNotify = (Some THREADS, Fixed CatAtomicRmw)"
| "atomic_access_info MemoryAtomicWait32 = (Some THREADS, Arity [Lit 3] [Lit 1])"
| "atomic_access_info MemoryAtomicWait64 = (Some THREADS, Arity [Lit 3] [Lit 1])"
| "atomic_access_info I32AtomicLoad = (Some THREADS, Fixed CatLoad)"
| "atomic_access_info I64AtomicLoad = (Some THREADS, Fixed CatLoad)"
| "atomic_access_info I32AtomicLoad8U = (Some THREADS, Fixed CatLoad)"
| "atomic_access_info I32AtomicLoad16U = (Some THREADS, Fixed CatLoad)"
| "atomic_access_info I64AtomicLoad8U = (Some THREADS, Fixed CatLoad)"
| "atomic_access_info I64AtomicLoad16U = (Some THREADS, Fixed CatLoad)"
| "atomic_access_info I64AtomicLoad32U = (Some THREADS, Fixed CatLoad)"
| "atomic_access_info I32AtomicStore = (Some THREADS, Fixed CatStore)"
| "atomic_access_info I64AtomicStore = (Some THREADS, Fixed CatStore)"
| "atomic_access_info I32AtomicStore8 = (Some THREADS, Fixed CatStore)"
| "atomic_access_info I32AtomicStore16 = (Some THREADS, Fixed CatStore)"
| "atomic_access_info I64AtomicStore8 = (Some THREADS, Fixed CatStore)"
| "atomic_access_info I64AtomicStore16 = (Some THREADS, Fixed CatStore)"
| "atomic_access_info I64AtomicStore32 = (Some THREADS, Fixed CatStore)"

fun atomic_rmw_info :: "atomic_rmw_op \<Rightarrow> op_info" where
  "atomic_rmw_info I32AtomicRmwAdd = (Some THREADS, Fixed CatAtomicRmw)"
| "atomic_rmw_info I64AtomicRmwAdd = (Some THREADS, Fixed CatAtomicRmw)"
| "atomic_rmw_info I32AtomicRmw8AddU = (Some THREADS, Fixed CatAtomicRmw)"
| "atomic_rmw_info I32AtomicRmw16AddU = (Some THREADS, Fixed CatAtomicRmw)"
| "atomic_rmw_info I64AtomicRmw8AddU = (Some THREADS, Fixed CatAtomicRmw)"
| "atomic_rmw_info I64AtomicRmw16AddU = (Some THREADS, Fixed CatAtomicRmw)"
| "atomic_rmw_info I64AtomicRmw32AddU = (Some THREADS, Fixed CatAtomicRmw)"
| "atomic_rmw_info I32AtomicRmwSub = (Some THREADS, Fixed CatAtomicRmw)"
| "atomic_rmw_info I64AtomicRmwSub = (Some THREADS, Fixed CatAtomicRmw)"
| "atomic_rmw_info I32AtomicRmw8SubU = (Some THREADS, Fixed CatAtomicRmw)"
| "atomic_rmw_info I32AtomicRmw16SubU = (Some THREADS, Fixed CatAtomicRmw)"
| "atomic_rmw_info I64AtomicRmw8SubU = (Some THREADS, Fixed CatAtomicRmw)"
| "atomic_rmw_info I64AtomicRmw16SubU = (Some THREADS, Fixed CatAtomicRmw)"
| "atomic_rmw_info I64AtomicRmw32SubU = (Some THREADS, Fixed CatAtomicRmw)"
| "atomic_rmw_info I32AtomicRmwAnd = (Some THREADS, Fixed CatAtomicRmw)"
| "atomic_rmw_info I64AtomicRmwAnd = (Some THREADS, Fixed CatAtomicRmw)"
| "atomic_rmw_info I32AtomicRmw8AndU = (Some THREADS, Fixed CatAtomicRmw)"
| "atomic_rmw_info I32AtomicRmw16AndU = (Some THREADS, Fixed CatAtomicRmw)"
| "atomic_rmw_info I64AtomicRmw8AndU = (Some THREADS, Fixed CatAtomicRmw)"
| "atomic_rmw_info I64AtomicRmw16AndU = (Some THREADS, Fixed CatAtomicRmw)"
| "atomic_rmw_info I64AtomicRmw32AndU = (Some THREADS, Fixed CatAtomicRmw)"
| "atomic_rmw_info I32AtomicRmwOr = (Some THREADS, Fixed CatAtomicRmw)"
| "atomic_rmw_info I64AtomicRmwOr = (Some THREADS, Fixed CatAtomicRmw)"
| "atomic_rmw_info I32AtomicRmw8OrU = (Some THREADS, Fixed CatAtomicRmw)"
| "atomic_rmw_info I32AtomicRmw16OrU = (Some THREADS, Fixed CatAtomicRmw)"
| "atomic_rmw_info I64AtomicRmw8OrU = (Some THREADS, Fixed CatAtomicRmw)"
| "atomic_rmw_info I64AtomicRmw16OrU = (Some THREADS, Fixed CatAtomicRmw)"
| "atomic_rmw_info I64AtomicRmw32OrU = (Some THREADS, Fixed CatAtomicRmw)"
| "atomic_rmw_info I32AtomicRmwXor = (Some THREADS, Fixed CatAtomicRmw)"
| "atomic_rmw_info I64AtomicRmwXor = (Some THREADS, Fixed CatAtomicRmw)"
| "atomic_rmw_info I32AtomicRmw8XorU = (Some THREADS, Fixed CatAtomicRmw)"
| "atomic_rmw_info I32AtomicRmw16XorU = (Some THREADS, Fixed CatAtomicRmw)"
| "atomic_rmw_info I64AtomicRmw8XorU = (Some THREADS, Fixed CatAtomicRmw)"
| "atomic_rmw_info I64AtomicRmw16XorU = (Some THREADS, Fixed CatAtomicRmw)"
| "atomic_rmw_info I64AtomicRmw32XorU = (Some THREADS, Fixed CatAtomicRmw)"
| "atomic_rmw_info I32AtomicRmwXchg = (Some THREADS, Fixed CatAtomicRmw)"
| "atomic_rmw_info I64AtomicRmwXchg = (Some THREADS, Fixed CatAtomicRmw)"
| "atomic_rmw_info I32AtomicRmw8XchgU = (Some THREADS, Fixed CatAtomicRmw)"
| "atomic_rmw_info I32AtomicRmw16XchgU = (Some THREADS, Fixed CatAtomicRmw)"
| "atomic_rmw_info I64AtomicRmw8XchgU = (Some THREADS, Fixed CatAtomicRmw)"
| "atomic_rmw_info I64AtomicRmw16XchgU = (Some THREADS, Fixed CatAtomicRmw)"
| "atomic_rmw_info I64AtomicRmw32XchgU = (Some THREADS, Fixed CatAtomicRmw)"
| "atomic_rmw_info I32AtomicRmwCmpxchg = (Some THREADS, Fixed CatAtomicCmpxchg)"
| "atomic_rmw_info I64AtomicRmwCmpxchg = (Some THREADS, Fixed CatAtomicCmpxchg)"
| "atomic_rmw_info I32AtomicRmw8CmpxchgU = (Some THREADS, Fixed CatAtomicCmpxchg)"
| "atomic_rmw_info I32AtomicRmw16CmpxchgU = (Some THREADS, Fixed CatAtomicCmpxchg)"
| "atomic_rmw_info I64AtomicRmw8CmpxchgU = (Some THREADS, Fixed CatAtomicCmpxchg)"
| "atomic_rmw_info I64AtomicRmw16CmpxchgU = (Some THREADS, Fixed CatAtomicCmpxchg)"
| "atomic_rmw_info I64AtomicRmw32CmpxchgU = (Some THREADS, Fixed CatAtomicCmpxchg)"

fun v128_mem_info :: "v128_mem_op \<Rightarrow> op_info" where
  "v128_mem_info V128Load = (Some SIMD, Fixed CatLoad)"
| "v128_mem_info V128Load8x8S = (Some SIMD, Fixed CatLoad)"
| "v128_mem_info V128Load8x8U = (Some SIMD, Fixed CatLoad)"
| "v128_mem_info V128Load16x4S = (Some SIMD, Fixed CatLoad)"
| "v128_mem_info V128Load16x4U = (Some SIMD, Fixed CatLoad)"
| "v128_mem_info V128Load32x2S = (Some SIMD, Fixed CatLoad)"
| "v128_mem_info V128Load32x2U = (Some SIMD, Fixed CatLoad)"
| "v128_mem_info V128Load8Splat = (Some SIMD, Fixed CatLoad)"
| "v128_mem_info V128Load16Splat = (Some SIMD, Fixed CatLoad)"
| "v128_mem_info V128Load32Splat = (Some SIMD, Fixed CatLoad)"
| "v128_mem_info V128Load64Splat = (Some SIMD, Fixed CatLoad)"
| "v128_mem_info V128Load32Zero = (Some SIMD, Fixed CatLoad)"
| "v128_mem_info V128Load64Zero = (Some SIMD, Fixed CatLoad)"
| "v128_mem_info V128Store = (Some SIMD, Fixed CatStore)"

fun v128_lane_mem_info :: "v128_lane_mem_op \<Rightarrow> op_info" where
  "v128_lane_mem_info V128Load8Lane = (Some SIMD, Fixed CatLoadLane)"
| "v128_lane_mem_info V128Load16Lane = (Some SIMD, Fixed CatLoadLane)"
| "v128_lane_mem_info V128Load32Lane = (Some SIMD, Fixed CatLoadLane)"
| "v128_lane_mem_info V128Load64Lane = (Some SIMD, Fixed CatLoadLane)"
| "v128_lane_mem_info V128Store8Lane = (Some SIMD, Fixed CatStore)"
| "v128_lane_mem_info V128Store16Lane = (Some SIMD, Fixed CatStore)"
| "v128_lane_mem_info V128Store32Lane = (Some SIMD, Fixed CatStore)"
| "v128_lane_mem_info V128Store64Lane = (Some SIMD, Fixed CatStore)"

fun lane_info :: "lane_op \<Rightarrow> op_info" where
  "lane_info I8x16ExtractLaneS = (Some SIMD, Fixed CatExtract)"
| "lane_info I8x16ExtractLaneU = (Some SIMD, Fixed CatExtract)"
| "lane_info I8x16ReplaceLane = (Some SIMD, Fixed CatReplace)"
| "lane_info I16x8ExtractLaneS = (Some SIMD, Fixed CatExtract)"
| "lane_info I16x8ExtractLaneU = (Some SIMD, Fixed CatExtract)"
| "lane_info I16x8ReplaceLane = (Some SIMD, Fixed CatReplace)"
| "lane_info I32x4ExtractLane = (Some SIMD, Fixed CatExtract)"
| "lane_info I32x4ReplaceLane = (Some SIMD, Fixed CatReplace)"
| "lane_info I64x2ExtractLane = (Some SIMD, Fixed CatExtract)"
| "lane_info I64x2ReplaceLane = (Some SIMD, Fixed CatReplace)"
| "lane_info F32x4ExtractLane = (Some SIMD, Fixed CatExtract)"
| "lane_info F32x4ReplaceLane = (Some SIMD, Fixed CatReplace)"
| "lane_info F64x2ExtractLane = (Some SIMD, Fixed CatExtract)"
| "lane_info F64x2ReplaceLane = (Some SIMD, Fixed CatReplace)"

fun i8x16_info :: "i8x16_op \<Rightarrow> op_info" where
  "i8x16_info I8x16Swizzle = (Some SIMD, Fixed CatBinary)"
| "i8x16_info I8x16Splat = (Some SIMD, Fixed CatSplat)"
| "i8x16_info I8x16Eq = (Some SIMD, Fixed CatBinary)"
| "i8x16_info I8x16Ne = (Some SIMD, Fixed CatBinary)"
| "i8x16_info I8x16LtS = (Some SIMD, Fixed CatBinary)"
| "i8x16_info I8x16LtU = (Some SIMD, Fixed CatBinary)"
| "i8x16_info I8x16GtS = (Some SIMD, Fixed CatBinary)"
| "i8x16_info I8x16GtU = (Some SIMD, Fixed CatBinary)"
| "i8x16_info I8x16LeS = (Some SIMD, Fixed CatBinary)"
| "i8x16_info I8x16LeU = (Some SIMD, Fixed CatBinary)"
| "i8x16_info I8x16GeS = (Some SIMD, Fixed CatBinary)"
| "i8x16_info I8x16GeU = (Some SIMD, Fixed CatBinary)"
| "i8x16_info I8x16Abs = (Some SIMD, Fixed CatUnary)"
| "i8x16_info I8x16Neg = (Some SIMD, Fixed CatUnary)"
| "i8x16_info I8x16Popcnt = (Some SIMD, Fixed CatUnary)"
| "i8x16_info I8x16AllTrue = (Some SIMD, Fixed CatTest)"
| "i8x16_info I8x16Bitmask = (Some SIMD, Fixed CatTest)"
| "i8x16_info I8x16NarrowI16x8S = (Some SIMD, Fixed CatBinary)"
| "i8x16_info I8x16NarrowI16x8U = (Some SIMD, Fixed CatBinary)"
| "i8x16_info I8x16Shl = (Some SIMD, Fixed CatShift)"
| "i8x16_info I8x16ShrS = (Some SIMD, Fixed CatShift)"
| "i8x16_info I8x16ShrU = (Some SIMD, Fixed CatShift)"
| "i8x16_info I8x16Add = (Some SIMD, Fixed CatBinary)"
| "i8x16_info I8x16AddSatS = (Some SIMD, Fixed CatBinary)"
| "i8x16_info I8x16AddSatU = (Some SIMD, Fixed CatBinary)"
| "i8x16_info I8x16Sub = (Some SIMD, Fixed CatBinary)"
| "i8x16_info I8x16SubSatS = (Some SIMD, Fixed CatBinary)"
| "i8x16_info I8x16SubSatU = (Some SIMD, Fixed CatBinary)"
| "i8x16_info I8x16MinS = (Some SIMD, Fixed CatBinary)"
| "i8x16_info I8x16MinU = (Some SIMD, Fixed CatBinary)"
| "i8x16_info I8x16MaxS = (Some SIMD, Fixed CatBinary)"
| "i8x16_info I8x16MaxU = (Some SIMD, Fixed CatBinary)"
| "i8x16_info I8x16AvgrU = (Some SIMD, Fixed CatBinary)"
| "i8x16_info I8x16RelaxedSwizzle = (Some RELAXED_SIMD, Fixed CatBinary)"
| "i8x16_info I8x16RelaxedLaneselect = (Some RELAXED_SIMD, Fixed CatTernary)"

fun i16x8_info :: "i16x8_op \<Rightarrow> op_info" where
  "i16x8_info I16x8Splat = (Some SIMD, Fixed CatSplat)"
| "i16x8_info I16x8Eq = (Some SIMD, Fixed CatBinary)"
| "i16x8_info I16x8Ne = (Some SIMD, Fixed CatBinary)"
| "i16x8_info I16x8LtS = (Some SIMD, Fixed CatBinary)"
| "i16x8_info I16x8LtU = (Some SIMD, Fixed CatBinary)"
| "i16x8_info I16x8GtS = (Some SIMD, Fixed CatBinary)"
| "i16x8_info I16x8GtU = (Some SIMD, Fixed CatBinary)"
| "i16x8_info I16x8LeS = (Some SIMD, Fixed CatBinary)"
| "i16x8_info I16x8LeU = (Some SIMD, Fixed CatBinary)"
| "i16x8_info I16x8GeS = (Some SIMD, Fixed CatBinary)"
| "i16x8_info I16x8GeU = (Some SIMD, Fixed CatBinary)"
| "i16x8_info I16x8ExtAddPairwiseI8x16S = (Some SIMD, Fixed CatUnary)"
| "i16x8_info I16x8ExtAddPairwiseI8x16U = (Some SIMD, Fixed CatUnary)"
| "i16x8_info I16x8Abs = (Some SIMD, Fixed CatUnary)"
| "i16x8_info I16x8Neg = (Some SIMD, Fixed CatUnary)"
| "i16x8_info I16x8Q15MulrSatS = (Some SIMD, Fixed CatBinary)"
| "i16x8_info I16x8AllTrue = (Some SIMD, Fixed CatTest)"
| "i16x8_info I16x8Bitmask = (Some SIMD, Fixed CatTest)"
| "i16x8_info I16x8NarrowI32x4S = (Some SIMD, Fixed CatBinary)"
| "i16x8_info I16x8NarrowI32x4U = (Some SIMD, Fixed CatBinary)"
| "i16x8_info I16x8ExtendLowI8x16S = (Some SIMD, Fixed CatUnary)"
| "i16x8_info I16x8ExtendHighI8x16S = (Some SIMD, Fixed CatUnary)"
| "i16x8_info I16x8ExtendLowI8x16U = (Some SIMD, Fixed CatUnary)"
| "i16x8_info I16x8ExtendHighI8x16U = (Some SIMD, Fixed CatUnary)"
| "i16x8_info I16x8Shl = (Some SIMD, Fixed CatShift)"
| "i16x8_info I16x8ShrS = (Some SIMD, Fixed CatShift)"
| "i16x8_info I16x8ShrU = (Some SIMD, Fixed CatShift)"
| "i16x8_info I16x8Add = (Some SIMD, Fixed CatBinary)"
| "i16x8_info I16x8AddSatS = (Some SIMD, Fixed CatBinary)"
| "i16x8_info I16x8AddSatU = (Some SIMD, Fixed CatBinary)"
| "i16x8_info I16x8Sub = (Some SIMD, Fixed CatBinary)"
| "i16x8_info I16x8SubSatS = (Some SIMD, Fixed CatBinary)"
| "i16x8_info I16x8SubSatU = (Some SIMD, Fixed CatBinary)"
| "i16x8_info I16x8Mul = (Some SIMD, Fixed CatBinary)"
| "i16x8_info I16x8MinS = (Some SIMD, Fixed CatBinary)"
| "i16x8_info I16x8MinU = (Some SIMD, Fixed CatBinary)"
| "i16x8_info I16x8MaxS = (Some SIMD, Fixed CatBinary)"
| "i16x8_info I16x8MaxU = (Some SIMD, Fixed CatBinary)"
| "i16x8_info I16x8AvgrU = (Some SIMD, Fixed CatBinary)"
| "i16x8_info I16x8ExtMulLowI8x16S = (Some SIMD, Fixed CatBinary)"
| "i16x8_info I16x8ExtMulHighI8x16S = (Some SIMD, Fixed CatBinary)"
| "i16x8_info I16x8ExtMulLowI8x16U = (Some SIMD, Fixed CatBinary)"
| "i16x8_info I16x8ExtMulHighI8x16U = (Some SIMD, Fixed CatBinary)"
| "i16x8_info I16x8RelaxedLaneselect = (Some RELAXED_SIMD, Fixed CatTernary)"
| "i16x8_info I16x8RelaxedQ15mulrS = (Some RELAXED_SIMD, Fixed CatBinary)"
| "i16x8_info I16x8RelaxedDotI8x16I7x16S = (Some RELAXED_SIMD, Fixed CatBinary)"

fun i32x4_info :: "i32x4_op \<Rightarrow> op_info" where
  "i32x4_info I32x4Splat = (Some SIMD, Fixed CatSplat)"
| "i32x4_info I32x4Eq = (Some SIMD, Fixed CatBinary)"
| "i32x4_info I32x4Ne = (Some SIMD, Fixed CatBinary)"
| "i32x4_info I32x4LtS = (Some SIMD, Fixed CatBinary)"
| "i32x4_info I32x4LtU = (Some SIMD, Fixed CatBinary)"
| "i32x4_info I32x4GtS = (Some SIMD, Fixed CatBinary)"
| "i32x4_info I32x4GtU = (Some SIMD, Fixed CatBinary)"
| "i32x4_info I32x4LeS = (Some SIMD, Fixed CatBinary)"
| "i32x4_info I32x4LeU = (Some SIMD, Fixed CatBinary)"
| "i32x4_info I32x4GeS = (Some SIMD, Fixed CatBinary)"
| "i32x4_info I32x4GeU = (Some SIMD, Fixed CatBinary)"
| "i32x4_info I32x4ExtAddPairwiseI16x8S = (Some SIMD, Fixed CatUnary)"
| "i32x4_info I32x4ExtAddPairwiseI16x8U = (Some SIMD, Fixed CatUnary)"
| "i32x4_info I32x4Abs = (Some SIMD, Fixed CatUnary)"
| "i32x4_info I32x4Neg = (Some SIMD, Fixed CatUnary)"
| "i32x4_info I32x4AllTrue = (Some SIMD, Fixed CatTest)"
| "i32x4_info I32x4Bitmask = (Some SIMD, Fixed CatTest)"
| "i32x4_info I32x4ExtendLowI16x8S = (Some SIMD, Fixed CatUnary)"
| "i32x4_info I32x4ExtendHighI16x8S = (Some SIMD, Fixed CatUnary)"
| "i32x4_info I32x4ExtendLowI16x8U = (Some SIMD, Fixed CatUnary)"
| "i32x4_info I32x4ExtendHighI16x8U = (Some SIMD, Fixed CatUnary)"
| "i32x4_info I32x4Shl = (Some SIMD, Fixed CatShift)"
| "i32x4_info I32x4ShrS = (Some SIMD, Fixed CatShift)"
| "i32x4_info I32x4ShrU = (Some SIMD, Fixed CatShift)"
| "i32x4_info I32x4Add = (Some SIMD, Fixed CatBinary)"
| "i32x4_info I32x4Sub = (Some SIMD, Fixed CatBinary)"
| "i32x4_info I32x4Mul = (Some SIMD, Fixed CatBinary)"
| "i32x4_info I32x4MinS = (Some SIMD, Fixed CatBinary)"
| "i32x4_info I32x4MinU = (Some SIMD, Fixed CatBinary)"
| "i32x4_info I32x4MaxS = (Some SIMD, Fixed CatBinary)"
| "i32x4_info I32x4MaxU = (Some SIMD, Fixed CatBinary)"
| "i32x4_info I32x4DotI16x8S = (Some SIMD, Fixed CatBinary)"
| "i32x4_info I32x4ExtMulLowI16x8S = (Some SIMD, Fixed CatBinary)"
| "i32x4_info I32x4ExtMulHighI16x8S = (Some SIMD, Fixed CatBinary)"
| "i32x4_info I32x4ExtMulLowI16x8U = (Some SIMD, Fixed CatBinary)"
| "i32x4_info I32x4ExtMulHighI16x8U = (Some SIMD, Fixed CatBinary)"
| "i32x4_info I32x4TruncSatF32x4S = (Some SIMD, Fixed CatUnary)"
| "i32x4_info I32x4TruncSatF32x4U = (Some SIMD, Fixed CatUnary)"
| "i32x4_info I32x4TruncSatF64x2SZero = (Some SIMD, Fixed CatUnary)"
| "i32x4_info I32x4TruncSatF64x2UZero = (Some SIMD, Fixed CatUnary)"
| "i32x4_info I32x4RelaxedTruncF32x4S = (Some RELAXED_SIMD, Fixed CatUnary)"
| "i32x4_info I32x4RelaxedTruncF32x4U = (Some RELAXED_SIMD, Fixed CatUnary)"
| "i32x4_info I32x4RelaxedTruncF64x2SZero = (Some RELAXED_SIMD, Fixed CatUnary)"
| "i32x4_info I32x4RelaxedTruncF64x2UZero = (Some RELAXED_SIMD, Fixed CatUnary)"
| "i32x4_info I32x4RelaxedLaneselect = (Some RELAXED_SIMD, Fixed CatTernary)"
| "i32x4_info I32x4RelaxedDotI8x16I7x16AddS = (Some RELAXED_SIMD, Fixed CatTernary)"

fun i64x2_info :: "i64x2_op \<Rightarrow> op_info" where
  "i64x2_info I64x2Splat = (Some SIMD, Fixed CatSplat)"
| "i64x2_info I64x2Eq = (Some SIMD, Fixed CatBinary)"
| "i64x2_info I64x2Ne = (Some SIMD, Fixed CatBinary)"
| "i64x2_info I64x2LtS = (Some SIMD, Fixed CatBinary)"
| "i64x2_info I64x2GtS = (Some SIMD, Fixed CatBinary)"
| "i64x2_info I64x2LeS = (Some SIMD, Fixed CatBinary)"
| "i64x2_info I64x2GeS = (Some SIMD, Fixed CatBinary)"
| "i64x2_info I64x2Abs = (Some SIMD, Fixed CatUnary)"
| "i64x2_info I64x2Neg = (Some SIMD, Fixed CatUnary)"
| "i64x2_info I64x2AllTrue = (Some SIMD, Fixed CatTest)"
| "i64x2_info I64x2Bitmask = (Some SIMD, Fixed CatTest)"
| "i64x2_info I64x2ExtendLowI32x4S = (Some SIMD, Fixed CatUnary)"
| "i64x2_info I64x2ExtendHighI32x4S = (Some SIMD, Fixed CatUnary)"
| "i64x2_info I64x2ExtendLowI32x4U = (Some SIMD, Fixed CatUnary)"
| "i64x2_info I64x2ExtendHighI32x4U = (Some SIMD, Fixed CatUnary)"
| "i64x2_info I64x2Shl = (Some SIMD, Fixed CatShift)"
| "i64x2_info I64x2ShrS = (Some SIMD, Fixed CatShift)"
| "i64x2_info I64x2ShrU = (Some SIMD, Fixed CatShift)"
| "i64x2_info I64x2Add = (Some SIMD, Fixed CatBinary)"
| "i64x2_info I64x2Sub = (Some SIMD, Fixed CatBinary)"
| "i64x2_info I64x2Mul = (Some SIMD, Fixed CatBinary)"
| "i64x2_info I64x2ExtMulLowI32x4S = (Some SIMD, Fixed CatBinary)"
| "i64x2_info I64x2ExtMulHighI32x4S = (Some SIMD, Fixed CatBinary)"
| "i64x2_info I64x2ExtMulLowI32x4U = (Some SIMD, Fixed CatBinary)"
| "i64x2_info I64x2ExtMulHighI32x4U = (Some SIMD, Fixed CatBinary)"
| "i64x2_info I64x2RelaxedLaneselect = (Some RELAXED_SIMD, Fixed CatTernary)"

fun f32x4_info :: "f32x4_op \<Rightarrow> op_info" where
  "f32x4_info F32x4Splat = (Some SIMD, Fixed CatSplat)"
| "f32x4_info F32x4Eq = (Some SIMD, Fixed CatBinary)"
| "f32x4_info F32x4Ne = (Some SIMD, Fixed CatBinary)"
| "f32x4_info F32x4Lt = (Some SIMD, Fixed CatBinary)"
| "f32x4_info F32x4Gt = (Some SIMD, Fixed CatBinary)"
| "f32x4_info F32x4Le = (Some SIMD, Fixed CatBinary)"
| "f32x4_info F32x4Ge = (Some SIMD, Fixed CatBinary)"
| "f32x4_info F32x4Ceil = (Some SIMD, Fixed CatUnary)"
| "f32x4_info F32x4Floor = (Some SIMD, Fixed CatUnary)"
| "f32x4_info F32x4Trunc = (Some SIMD, Fixed CatUnary)"
| "f32x4_info F32x4Nearest = (Some SIMD, Fixed CatUnary)"
| "f32x4_info F32x4Abs = (Some SIMD, Fixed CatUnary)"
| "f32x4_info F32x4Neg = (Some SIMD, Fixed CatUnary)"
| "f32x4_info F32x4Sqrt = (Some SIMD, Fixed CatUnary)"
| "f32x4_info F32x4Add = (Some SIMD, Fixed CatBinary)"
| "f32x4_info F32x4Sub = (Some SIMD, Fixed CatBinary)"
| "f32x4_info F32x4Mul = (Some SIMD, Fixed CatBinary)"
| "f32x4_info F32x4Div = (Some SIMD, Fixed CatBinary)"
| "f32x4_info F32x4Min = (Some SIMD, Fixed CatBinary)"
| "f32x4_info F32x4Max = (Some SIMD, Fixed CatBinary)"
| "f32x4_info F32x4PMin = (Some SIMD, Fixed CatBinary)"
| "f32x4_info F32x4PMax = (Some SIMD, Fixed CatBinary)"
| "f32x4_info F32x4ConvertI32x4S = (Some SIMD, Fixed CatUnary)"
| "f32x4_info F32x4ConvertI32x4U = (Some SIMD, Fixed CatUnary)"
| "f32x4_info F32x4DemoteF64x2Zero = (Some SIMD, Fixed CatUnary)"
| "f32x4_info F32x4RelaxedMadd = (Some RELAXED_SIMD, Fixed CatTernary)"
| "f32x4_info F32x4RelaxedNmadd = (Some RELAXED_SIMD, Fixed CatTernary)"
| "f32x4_info F32x4RelaxedMin = (Some RELAXED_SIMD, Fixed CatBinary)"
| "f32x4_info F32x4RelaxedMax = (Some RELAXED_SIMD, Fixed CatBinary)"

fun f64x2_info :: "f64x2_op \<Rightarrow> op_info" where
  "f64x2_info F64x2Splat = (Some SIMD, Fixed CatSplat)"
| "f64x2_info F64x2Eq = (Some SIMD, Fixed CatBinary)"
| "f64x2_info F64x2Ne = (Some SIMD, Fixed CatBinary)"
| "f64x2_info F64x2Lt = (Some SIMD, Fixed CatBinary)"
| "f64x2_info F64x2Gt = (Some SIMD, Fixed CatBinary)"
| "f64x2_info F64x2Le = (Some SIMD, Fixed CatBinary)"
| "f64x2_info F64x2Ge = (Some SIMD, Fixed CatBinary)"
| "f64x2_info F64x2Ceil = (Some SIMD, Fixed CatUnary)"
| "f64x2_info F64x2Floor = (Some SIMD, Fixed CatUnary)"
| "f64x2_info F64x2Trunc = (Some SIMD, Fixed CatUnary)"
| "f64x2_info F64x2Nearest = (Some SIMD, Fixed CatUnary)"
| "f64x2_info F64x2Abs = (Some SIMD, Fixed CatUnary)"
| "f64x2_info F64x2Neg = (Some SIMD, Fixed CatUnary)"
| "f64x2_info F64x2Sqrt = (Some SIMD, Fixed CatUnary)"
| "f64x2_info F64x2Add = (Some SIMD, Fixed CatBinary)"
| "f64x2_info F64x2Sub = (Some SIMD, Fixed CatBinary)"
| "f64x2_info F64x2Mul = (Some SIMD, Fixed CatBinary)"
| "f64x2_info F64x2Div = (Some SIMD, Fixed CatBinary)"
| "f64x2_info F64x2Min = (Some SIMD, Fixed CatBinary)"
| "f64x2_info F64x2Max = (Some SIMD, Fixed CatBinary)"
| "f64x2_info F64x2PMin = (Some SIMD, Fixed CatBinary)"
| "f64x2_info F64x2PMax = (Some SIMD, Fixed CatBinary)"
| "f64x2_info F64x2ConvertLowI32x4S = (Some SIMD, Fixed CatUnary)"
| "f64x2_info F64x2ConvertLowI32x4U = (Some SIMD, Fixed CatUnary)"
| "f64x2_info F64x2PromoteLowF32x4 = (Some SIMD, Fixed CatUnary)"
| "f64x2_info F64x2RelaxedMadd = (Some RELAXED_SIMD, Fixed CatTernary)"
| "f64x2_info F64x2RelaxedNmadd = (Some RELAXED_SIMD, Fixed CatTernary)"
| "f64x2_info F64x2RelaxedMin = (Some RELAXED_SIMD, Fixed CatBinary)"
| "f64x2_info F64x2RelaxedMax = (Some RELAXED_SIMD, Fixed CatBinary)"

fun v128_info :: "v128_op \<Rightarrow> op_info" where
  "v128_info V128Not = (Some SIMD, Fixed CatUnary)"
| "v128_info V128And = (Some SIMD, Fixed CatBinary)"
| "v128_info V128AndNot = (Some SIMD, Fixed CatBinary)"
| "v128_info V128Or = (Some SIMD, Fixed CatBinary)"
| "v128_info V128Xor = (Some SIMD, Fixed CatBinary)"
| "v128_info V128Bitselect = (Some SIMD, Fixed CatTernary)"
| "v128_info V128AnyTrue = (Some SIMD, Fixed CatTest)"

fun global_atomic_info :: "global_atomic_op \<Rightarrow> op_info" where
  "global_atomic_info GlobalAtomicGet = (Some SHARED_EVERYTHING_THREADS, Arity [Lit 0] [Lit 1])"
| "global_atomic_info GlobalAtomicSet = (Some SHARED_EVERYTHING_THREADS, Arity [Lit 1] [Lit 0])"
| "global_atomic_info GlobalAtomicRmwAdd = (Some SHARED_EVERYTHING_THREADS, Fixed CatUnary)"
| "global_atomic_info GlobalAtomicRmwSub = (Some SHARED_EVERYTHING_THREADS, Fixed CatUnary)"
| "global_atomic_info GlobalAtomicRmwAnd = (Some SHARED_EVERYTHING_THREADS, Fixed CatUnary)"
| "global_atomic_info GlobalAtomicRmwOr = (Some SHARED_EVERYTHING_THREADS, Fixed CatUnary)"
| "global_atomic_info GlobalAtomicRmwXor = (Some SHARED_EVERYTHING_THREADS, Fixed CatUnary)"
| "global_atomic_info GlobalAtomicRmwXchg = (Some SHARED_EVERYTHING_THREADS, Arity [Lit 1] [Lit 1])"
| "global_atomic_info GlobalAtomicRmwCmpxchg = (Some SHARED_EVERYTHING_THREADS, Arity [Lit 2] [Lit 1])"

fun table_atomic_info :: "table_atomic_op \<Rightarrow> op_info" where
  "table_atomic_info TableAtomicGet = (Some SHARED_EVERYTHING_THREADS, Arity [Lit 1] [Lit 1])"
| "table_atomic_info TableAtomicSet = (Some SHARED_EVERYTHING_THREADS, Arity [Lit 2] [Lit 0])"
| "table_atomic_info TableAtomicRmwXchg = (Some SHARED_EVERYTHING_THREADS, Arity [Lit 2] [Lit 1])"
| "table_atomic_info TableAtomicRmwCmpxchg = (Some SHARED_EVERYTHING_THREADS, Arity [Lit 3] [Lit 1])"

fun struct_atomic_info :: "struct_atomic_op \<Rightarrow> op_info" where
  "struct_atomic_info StructAtomicGet = (Some SHARED_EVERYTHING_THREADS, Arity [Lit 1] [Lit 1])"
| "struct_atomic_info StructAtomicGetS = (Some SHARED_EVERYTHING_THREADS, Arity [Lit 1] [Lit 1])"
| "struct_atomic_info StructAtomicGetU = (Some SHARED_EVERYTHING_THREADS, Arity [Lit 1] [Lit 1])"
| "struct_atomic_info StructAtomicSet = (Some SHARED_EVERYTHING_THREADS, Arity [Lit 2] [Lit 0])"
| "struct_atomic_info StructAtomicRmwAdd = (Some SHARED_EVERYTHING_THREADS, Fixed CatAtomicRmw)"
| "struct_atomic_info StructAtomicRmwSub = (Some SHARED_EVERYTHING_THREADS, Fixed CatAtomicRmw)"
| "struct_atomic_info StructAtomicRmwAnd = (Some SHARED_EVERYTHING_THREADS, Fixed CatAtomicRmw)"
| "struct_atomic_info StructAtomicRmwOr = (Some SHARED_EVERYTHING_THREADS, Fixed CatAtomicRmw)"
| "struct_atomic_info StructAtomicRmwXor = (Some SHARED_EVERYTHING_THREADS, Fixed CatAtomicRmw)"
| "struct_atomic_info StructAtomicRmwXchg = (Some SHARED_EVERYTHING_THREADS, Arity [Lit 2] [Lit 1])"
| "struct_atomic_info StructAtomicRmwCmpxchg = (Some SHARED_EVERYTHING_THREADS, Arity [Lit 3] [Lit 1])"

fun array_atomic_info :: "array_atomic_op \<Rightarrow> op_info" where
  "array_atomic_info ArrayAtomicGet = (Some SHARED_EVERYTHING_THREADS, Arity [Lit 2] [Lit 1])"
| "array_atomic_info ArrayAtomicGetS = (Some SHARED_EVERYTHING_THREADS, Arity [Lit 2] [Lit 1])"
| "array_atomic_info ArrayAtomicGetU = (Some SHARED_EVERYTHING_THREADS, Arity [Lit 2] [Lit 1])"
| "array_atomic_info ArrayAtomicSet = (Some SHARED_EVERYTHING_THREADS, Arity [Lit 3] [Lit 0])"
| "array_atomic_info ArrayAtomicRmwAdd = (Some SHARED_EVERYTHING_THREADS, Fixed CatAtomicRmwArray)"
| "array_atomic_info ArrayAtomicRmwSub = (Some SHARED_EVERYTHING_THREADS, Fixed CatAtomicRmwArray)"
| "array_atomic_info ArrayAtomicRmwAnd = (Some SHARED_EVERYTHING_THREADS, Fixed CatAtomicRmwArray)"
| "array_atomic_info ArrayAtomicRmwOr = (Some SHARED_EVERYTHING_THREADS, Fixed CatAtomicRmwArray)"
| "array_atomic_info ArrayAtomicRmwXor = (Some SHARED_EVERYTHING_THREADS, Fixed CatAtomicRmwArray)"
| "array_atomic_info ArrayAtomicRmwXchg = (Some SHARED_EVERYTHING_THREADS, Arity [Lit 3] [Lit 1])"
| "array_atomic_info ArrayAtomicRmwCmpxchg = (Some SHARED_EVERYTHING_THREADS, Arity [Lit 4] [Lit 1])"

section \<open>The table\<close>

fun operator_info :: "operator \<Rightarrow> op_info" where
  "operator_info (Control op) = control_info op"
| "operator_info (Reference op) = ref_info op"
| "operator_info (Exception op) = exn_info op"
| "operator_info (Gc op) = gc_info op"
| "operator_info (NumI32 op) = i32_info op"
| "operator_info (NumI64 op) = i64_info op"
| "operator_info (NumF32 op) = f32_info op"
| "operator_info (NumF64 op) = f64_info op"
| "operator_info (Load op _) = load_info op"
| "operator_info (Store op _) = store_info op"
| "operator_info (AtomicAccess op _) = atomic_access_info op"
| "operator_info (AtomicRmw op _) = atomic_rmw_info op"
| "operator_info AtomicFence = (Some THREADS, Arity [Lit 0] [Lit 0])"
| "operator_info (GlobalAtomic op _ _) = global_atomic_info op"
| "operator_info (TableAtomic op _ _) = table_atomic_info op"
| "operator_info (StructAtomic op _ _ _) = struct_atomic_info op"
| "operator_info (ArrayAtomic op _ _) = array_atomic_info op"
| "operator_info RefI31Shared = (Some SHARED_EVERYTHING_THREADS, Arity [Lit 1] [Lit 1])"
| "operator_info (V128Mem op _) = v128_mem_info op"
| "operator_info (V128LaneMem op _ _) = v128_lane_mem_info op"
| "operator_info (V128Const _) = (Some SIMD, Fixed CatPush)"
| "operator_info (I8x16Shuffle _) = (Some SIMD, Arity [Lit 2] [Lit 1])"
| "operator_info (Lane op _) = lane_info op"
| "operator_info (SimdI8x16 op) = i8x16_info op"
| "operator_info (SimdI16x8 op) = i16x8_info op"
| "operator_info (SimdI32x4 op) = i32x4_info op"
| "operator_info (SimdI64x2 op) = i64x2_info op"
| "operator_info (SimdF32x4 op) = f32x4_info op"
| "operator_info (SimdF64x2 op) = f64x2_info op"
| "operator_info (SimdV128 op) = v128_info op"

end
