(* ===== verification/Validator_Visit.thy ===== *)
theory Validator_Visit
  imports Validator_Gc Operator_Table
begin

text \<open>
  The visitor of the operator validator: the dispatch from an operator to its validator, the
  implementations of \<open>VisitOperator\<close> and \<open>VisitSimdOperator\<close> for \<open>OperatorValidatorTemp\<close>, and
  \<open>WasmProposalValidator\<close> around it, which first checks that the proposal of the operator is
  enabled (crates/wasmparser/src/validator/operators.rs).
\<close>

section \<open>Dispatch\<close>

fun visit_control :: "op_cx \<Rightarrow> (block_type, br_table) control_op \<Rightarrow> unit ov" where
  "visit_control cx Unreachable = visit_unreachable cx"
| "visit_control cx Nop = return_ov ()"
| "visit_control cx (Block blockty) = visit_block cx blockty"
| "visit_control cx (Loop blockty) = visit_loop cx blockty"
| "visit_control cx (OpIf blockty) = visit_if cx blockty"
| "visit_control cx Else = visit_else cx"
| "visit_control cx End = visit_end cx"
| "visit_control cx (Br depth) = visit_br cx depth"
| "visit_control cx (BrIf depth) = visit_br_if cx depth"
| "visit_control cx (BrTable targets) = visit_br_table cx targets"
| "visit_control cx Return = visit_return cx"
| "visit_control cx (Call func) = visit_call cx func"
| "visit_control cx (CallIndirect ty table) = visit_call_indirect cx ty table"
| "visit_control cx Drop = visit_drop cx"
| "visit_control cx Select = visit_select cx"
| "visit_control cx (LocalGet i) = visit_local_get cx i"
| "visit_control cx (LocalSet i) = visit_local_set cx i"
| "visit_control cx (LocalTee i) = visit_local_tee cx i"
| "visit_control cx (GlobalGet i) = visit_global_get cx i"
| "visit_control cx (GlobalSet i) = visit_global_set cx i"
| "visit_control cx (MemorySize mem) = visit_memory_size cx mem"
| "visit_control cx (MemoryGrow mem) = visit_memory_grow cx mem"
| "visit_control cx (I32Const _) = push_operand I32"
| "visit_control cx (I64Const _) = push_operand I64"
| "visit_control cx (F32Const _) = steps [check_floats_enabled cx, push_operand F32]"
| "visit_control cx (F64Const _) = steps [check_floats_enabled cx, push_operand F64]"

fun visit_reference :: "op_cx \<Rightarrow> (val_type, heap_type) ref_op \<Rightarrow> unit ov" where
  "visit_reference cx (MemoryInit data mem) = visit_memory_init cx data mem"
| "visit_reference cx (DataDrop data) = check_data_segment cx data"
| "visit_reference cx (MemoryCopy dst src) = visit_memory_copy cx dst src"
| "visit_reference cx (MemoryFill mem) = visit_memory_fill cx mem"
| "visit_reference cx (TableInit elem table) = visit_table_init cx elem table"
| "visit_reference cx (ElemDrop elem) = visit_elem_drop cx elem"
| "visit_reference cx (TableCopy dst src) = visit_table_copy cx dst src"
| "visit_reference cx (TypedSelect ty) = visit_typed_select cx ty"
| "visit_reference cx (RefNull hty) = visit_ref_null cx hty"
| "visit_reference cx RefIsNull = visit_ref_is_null cx"
| "visit_reference cx (RefFunc func) = visit_ref_func cx func"
| "visit_reference cx (TableFill table) = visit_table_fill cx table"
| "visit_reference cx (TableGet table) = visit_table_get cx table"
| "visit_reference cx (TableSet table) = visit_table_set cx table"
| "visit_reference cx (TableGrow table) = visit_table_grow cx table"
| "visit_reference cx (TableSize table) = visit_table_size cx table"
| "visit_reference cx (ReturnCall func) = visit_return_call cx func"
| "visit_reference cx (ReturnCallIndirect ty table) = visit_return_call_indirect cx ty table"
| "visit_reference cx (MemoryDiscard mem) = visit_memory_discard cx mem"
| "visit_reference cx (CallRef ty) = visit_call_ref cx ty"
| "visit_reference cx (ReturnCallRef ty) = visit_return_call_ref cx ty"
| "visit_reference cx RefAsNonNull = visit_ref_as_non_null cx"
| "visit_reference cx (BrOnNull depth) = visit_br_on_null cx depth"
| "visit_reference cx (BrOnNonNull depth) = visit_br_on_non_null cx depth"

fun visit_exception :: "op_cx \<Rightarrow> block_type exn_op \<Rightarrow> unit ov" where
  "visit_exception cx (TryTable table) = visit_try_table cx table"
| "visit_exception cx (Throw tag) = visit_throw cx tag"
| "visit_exception cx ThrowRef = visit_throw_ref cx"
| "visit_exception cx (Try blockty) = visit_try cx blockty"
| "visit_exception cx (Catch tag) = visit_catch cx tag"
| "visit_exception cx (Rethrow depth) = visit_rethrow cx depth"
| "visit_exception cx (Delegate depth) = visit_delegate cx depth"
| "visit_exception cx CatchAll = visit_catch_all cx"
| "visit_exception cx (ContNew ty) = visit_cont_new cx ty"
| "visit_exception cx (ContBind arg res) = visit_cont_bind cx arg res"
| "visit_exception cx (Suspend tag) = visit_suspend cx tag"
| "visit_exception cx (Resume ty table) = visit_resume cx ty table"
| "visit_exception cx (ResumeThrow ty tag table) = visit_resume_throw cx ty tag table"
| "visit_exception cx (Switch ty tag) = visit_switch cx ty tag"

fun visit_gc :: "op_cx \<Rightarrow> (heap_type, ref_type) gc_op \<Rightarrow> unit ov" where
  "visit_gc cx RefEq = visit_ref_eq cx"
| "visit_gc cx (StructNew ty) = visit_struct_new cx ty"
| "visit_gc cx (StructNewDefault ty) = visit_struct_new_default cx ty"
| "visit_gc cx (StructGet ty field) = visit_struct_get cx ty field"
| "visit_gc cx (StructGetS ty field) = visit_struct_get_s cx ty field"
| "visit_gc cx (StructGetU ty field) = visit_struct_get_u cx ty field"
| "visit_gc cx (StructSet ty field) = visit_struct_set cx ty field"
| "visit_gc cx (ArrayNew ty) = visit_array_new cx ty"
| "visit_gc cx (ArrayNewDefault ty) = visit_array_new_default cx ty"
| "visit_gc cx (ArrayNewFixed ty n) = visit_array_new_fixed cx ty n"
| "visit_gc cx (ArrayNewData ty data) = visit_array_new_data cx ty data"
| "visit_gc cx (ArrayNewElem ty elem) = visit_array_new_elem cx ty elem"
| "visit_gc cx (ArrayGet ty) = visit_array_get cx ty"
| "visit_gc cx (ArrayGetS ty) = visit_array_get_s cx ty"
| "visit_gc cx (ArrayGetU ty) = visit_array_get_u cx ty"
| "visit_gc cx (ArraySet ty) = visit_array_set cx ty"
| "visit_gc cx ArrayLen = visit_array_len cx"
| "visit_gc cx (ArrayFill ty) = visit_array_fill cx ty"
| "visit_gc cx (ArrayCopy dst src) = visit_array_copy cx dst src"
| "visit_gc cx (ArrayInitData ty data) = visit_array_init_data cx ty data"
| "visit_gc cx (ArrayInitElem ty elem) = visit_array_init_elem cx ty elem"
| "visit_gc cx (RefTestNonNull hty) = check_ref_test cx False hty"
| "visit_gc cx (RefTestNullable hty) = check_ref_test cx True hty"
| "visit_gc cx (RefCastNonNull hty) = check_ref_cast cx False hty"
| "visit_gc cx (RefCastNullable hty) = check_ref_cast cx True hty"
| "visit_gc cx (BrOnCast depth from into) = visit_br_on_cast cx depth from into"
| "visit_gc cx (BrOnCastFail depth from into) = visit_br_on_cast_fail cx depth from into"
| "visit_gc cx AnyConvertExtern = visit_convert cx AExtern AAny"
| "visit_gc cx ExternConvertAny = visit_convert cx AAny AExtern"
| "visit_gc cx RefI31 = visit_ref_i31 cx"
| "visit_gc cx I31GetS = visit_i31_get cx"
| "visit_gc cx I31GetU = visit_i31_get cx"

definition visit_i8x16_shuffle :: "op_cx \<Rightarrow> u8 list \<Rightarrow> unit ov" where
  "visit_i8x16_shuffle cx lanes = steps [pop cx V128, pop cx V128,
     steps (map (\<lambda>i. check_simd_lane_index cx i 32) lanes), push_operand V128]"

fun visit_op :: "op_cx \<Rightarrow> operator \<Rightarrow> unit ov" where
  "visit_op cx (Control op) = visit_control cx op"
| "visit_op cx (Reference op) = visit_reference cx op"
| "visit_op cx (Exception op) = visit_exception cx op"
| "visit_op cx (Gc op) = visit_gc cx op"
| "visit_op cx (NumI32 op) = visit_i32 cx op"
| "visit_op cx (NumI64 op) = visit_i64 cx op"
| "visit_op cx (NumF32 op) = visit_f32 cx op"
| "visit_op cx (NumF64 op) = visit_f64 cx op"
| "visit_op cx (Load op memarg) = visit_load cx op memarg"
| "visit_op cx (Store op memarg) = visit_store cx op memarg"
| "visit_op cx (AtomicAccess op memarg) = visit_atomic_access cx op memarg"
| "visit_op cx (AtomicRmw op memarg) = visit_atomic_rmw cx op memarg"
| "visit_op cx AtomicFence = return_ov ()"
| "visit_op cx (GlobalAtomic op _ i) = visit_global_atomic cx op i"
| "visit_op cx (TableAtomic op _ table) = visit_table_atomic cx op table"
| "visit_op cx (StructAtomic op _ ty field) = visit_struct_atomic cx op ty field"
| "visit_op cx (ArrayAtomic op _ ty) = visit_array_atomic cx op ty"
| "visit_op cx RefI31Shared = visit_ref_i31_shared cx"
| "visit_op cx (V128Mem op memarg) = visit_v128_mem cx op memarg"
| "visit_op cx (V128LaneMem op memarg lane) = visit_v128_lane_mem cx op memarg lane"
| "visit_op cx (V128Const _) = push_operand V128"
| "visit_op cx (I8x16Shuffle lanes) = visit_i8x16_shuffle cx lanes"
| "visit_op cx (Lane op lane) = visit_lane cx op lane"
| "visit_op cx (SimdI8x16 op) = visit_i8x16 cx op"
| "visit_op cx (SimdI16x8 op) = visit_i16x8 cx op"
| "visit_op cx (SimdI32x4 op) = visit_i32x4 cx op"
| "visit_op cx (SimdI64x2 op) = visit_i64x2 cx op"
| "visit_op cx (SimdF32x4 op) = visit_f32x4 cx op"
| "visit_op cx (SimdF64x2 op) = visit_f64x2 cx op"
| "visit_op cx (SimdV128 op) = visit_v128 cx op"

section \<open>Proposals\<close>

text \<open>
  \<open>validate_proposal!(desc ..)\<close>. The macro has a description for each proposal of the table of
  operators; the others have none.
\<close>

definition proposal_desc :: "wasm_feature \<Rightarrow> string" where
  "proposal_desc f =
     (case f of
        SIMD \<Rightarrow> ''SIMD''
      | RELAXED_SIMD \<Rightarrow> ''relaxed SIMD''
      | THREADS \<Rightarrow> ''threads''
      | SHARED_EVERYTHING_THREADS \<Rightarrow> ''shared-everything-threads''
      | SATURATING_FLOAT_TO_INT \<Rightarrow> ''saturating float to int conversions''
      | REFERENCE_TYPES \<Rightarrow> ''reference types''
      | BULK_MEMORY \<Rightarrow> ''bulk memory''
      | SIGN_EXTENSION \<Rightarrow> ''sign extension operations''
      | EXCEPTIONS \<Rightarrow> ''exceptions''
      | TAIL_CALL \<Rightarrow> ''tail calls''
      | FUNCTION_REFERENCES \<Rightarrow> ''function references''
      | MEMORY_CONTROL \<Rightarrow> ''memory control''
      | GC \<Rightarrow> ''gc''
      | LEGACY_EXCEPTIONS \<Rightarrow> ''legacy exceptions''
      | STACK_SWITCHING \<Rightarrow> ''stack switching''
      | WIDE_ARITHMETIC \<Rightarrow> ''wide arithmetic''
      | _ \<Rightarrow> '''')"

definition check_enabled :: "op_cx \<Rightarrow> wasm_feature \<Rightarrow> unit ov" where
  "check_enabled cx f = check_feature cx f (proposal_desc f @ '' support is not enabled'')"

definition visit_proposal :: "op_cx \<Rightarrow> operator \<Rightarrow> unit ov" where
  "visit_proposal cx op =
     steps [case fst (operator_info op) of None \<Rightarrow> return_ov () | Some f \<Rightarrow> check_enabled cx f,
       visit_op cx op]"

end
