(* ===== verification/Operator_Names.thy ===== *)
theory Operator_Names
  imports Operators
begin

text \<open>
  The names of the methods of the visitor, \<open>$visit\<close> in the macro \<open>for_each_operator\<close> of
  crates/wasmparser/src/lib.rs: what \<open>stringify!\<close> turns into a part of an error message.
\<close>

primrec control_visit :: "(block_type, br_table) control_op \<Rightarrow> string" where
  "control_visit Unreachable = ''visit_unreachable''"
| "control_visit Nop = ''visit_nop''"
| "control_visit (Block _) = ''visit_block''"
| "control_visit (Loop _) = ''visit_loop''"
| "control_visit (OpIf _) = ''visit_if''"
| "control_visit Else = ''visit_else''"
| "control_visit End = ''visit_end''"
| "control_visit (Br _) = ''visit_br''"
| "control_visit (BrIf _) = ''visit_br_if''"
| "control_visit (BrTable _) = ''visit_br_table''"
| "control_visit Return = ''visit_return''"
| "control_visit (Call _) = ''visit_call''"
| "control_visit (CallIndirect _ _) = ''visit_call_indirect''"
| "control_visit Drop = ''visit_drop''"
| "control_visit Select = ''visit_select''"
| "control_visit (LocalGet _) = ''visit_local_get''"
| "control_visit (LocalSet _) = ''visit_local_set''"
| "control_visit (LocalTee _) = ''visit_local_tee''"
| "control_visit (GlobalGet _) = ''visit_global_get''"
| "control_visit (GlobalSet _) = ''visit_global_set''"
| "control_visit (MemorySize _) = ''visit_memory_size''"
| "control_visit (MemoryGrow _) = ''visit_memory_grow''"
| "control_visit (I32Const _) = ''visit_i32_const''"
| "control_visit (I64Const _) = ''visit_i64_const''"
| "control_visit (F32Const _) = ''visit_f32_const''"
| "control_visit (F64Const _) = ''visit_f64_const''"

primrec ref_visit :: "(val_type, heap_type) ref_op \<Rightarrow> string" where
  "ref_visit (MemoryInit _ _) = ''visit_memory_init''"
| "ref_visit (DataDrop _) = ''visit_data_drop''"
| "ref_visit (MemoryCopy _ _) = ''visit_memory_copy''"
| "ref_visit (MemoryFill _) = ''visit_memory_fill''"
| "ref_visit (TableInit _ _) = ''visit_table_init''"
| "ref_visit (ElemDrop _) = ''visit_elem_drop''"
| "ref_visit (TableCopy _ _) = ''visit_table_copy''"
| "ref_visit (TypedSelect _) = ''visit_typed_select''"
| "ref_visit (RefNull _) = ''visit_ref_null''"
| "ref_visit RefIsNull = ''visit_ref_is_null''"
| "ref_visit (RefFunc _) = ''visit_ref_func''"
| "ref_visit (TableFill _) = ''visit_table_fill''"
| "ref_visit (TableGet _) = ''visit_table_get''"
| "ref_visit (TableSet _) = ''visit_table_set''"
| "ref_visit (TableGrow _) = ''visit_table_grow''"
| "ref_visit (TableSize _) = ''visit_table_size''"
| "ref_visit (ReturnCall _) = ''visit_return_call''"
| "ref_visit (ReturnCallIndirect _ _) = ''visit_return_call_indirect''"
| "ref_visit (MemoryDiscard _) = ''visit_memory_discard''"
| "ref_visit (CallRef _) = ''visit_call_ref''"
| "ref_visit (ReturnCallRef _) = ''visit_return_call_ref''"
| "ref_visit RefAsNonNull = ''visit_ref_as_non_null''"
| "ref_visit (BrOnNull _) = ''visit_br_on_null''"
| "ref_visit (BrOnNonNull _) = ''visit_br_on_non_null''"

primrec exn_visit :: "block_type exn_op \<Rightarrow> string" where
  "exn_visit (TryTable _) = ''visit_try_table''"
| "exn_visit (Throw _) = ''visit_throw''"
| "exn_visit ThrowRef = ''visit_throw_ref''"
| "exn_visit (Try _) = ''visit_try''"
| "exn_visit (Catch _) = ''visit_catch''"
| "exn_visit (Rethrow _) = ''visit_rethrow''"
| "exn_visit (Delegate _) = ''visit_delegate''"
| "exn_visit CatchAll = ''visit_catch_all''"
| "exn_visit (ContNew _) = ''visit_cont_new''"
| "exn_visit (ContBind _ _) = ''visit_cont_bind''"
| "exn_visit (Suspend _) = ''visit_suspend''"
| "exn_visit (Resume _ _) = ''visit_resume''"
| "exn_visit (ResumeThrow _ _ _) = ''visit_resume_throw''"
| "exn_visit (Switch _ _) = ''visit_switch''"

primrec gc_visit :: "(heap_type, ref_type) gc_op \<Rightarrow> string" where
  "gc_visit RefEq = ''visit_ref_eq''"
| "gc_visit (StructNew _) = ''visit_struct_new''"
| "gc_visit (StructNewDefault _) = ''visit_struct_new_default''"
| "gc_visit (StructGet _ _) = ''visit_struct_get''"
| "gc_visit (StructGetS _ _) = ''visit_struct_get_s''"
| "gc_visit (StructGetU _ _) = ''visit_struct_get_u''"
| "gc_visit (StructSet _ _) = ''visit_struct_set''"
| "gc_visit (ArrayNew _) = ''visit_array_new''"
| "gc_visit (ArrayNewDefault _) = ''visit_array_new_default''"
| "gc_visit (ArrayNewFixed _ _) = ''visit_array_new_fixed''"
| "gc_visit (ArrayNewData _ _) = ''visit_array_new_data''"
| "gc_visit (ArrayNewElem _ _) = ''visit_array_new_elem''"
| "gc_visit (ArrayGet _) = ''visit_array_get''"
| "gc_visit (ArrayGetS _) = ''visit_array_get_s''"
| "gc_visit (ArrayGetU _) = ''visit_array_get_u''"
| "gc_visit (ArraySet _) = ''visit_array_set''"
| "gc_visit ArrayLen = ''visit_array_len''"
| "gc_visit (ArrayFill _) = ''visit_array_fill''"
| "gc_visit (ArrayCopy _ _) = ''visit_array_copy''"
| "gc_visit (ArrayInitData _ _) = ''visit_array_init_data''"
| "gc_visit (ArrayInitElem _ _) = ''visit_array_init_elem''"
| "gc_visit (RefTestNonNull _) = ''visit_ref_test_non_null''"
| "gc_visit (RefTestNullable _) = ''visit_ref_test_nullable''"
| "gc_visit (RefCastNonNull _) = ''visit_ref_cast_non_null''"
| "gc_visit (RefCastNullable _) = ''visit_ref_cast_nullable''"
| "gc_visit (BrOnCast _ _ _) = ''visit_br_on_cast''"
| "gc_visit (BrOnCastFail _ _ _) = ''visit_br_on_cast_fail''"
| "gc_visit AnyConvertExtern = ''visit_any_convert_extern''"
| "gc_visit ExternConvertAny = ''visit_extern_convert_any''"
| "gc_visit RefI31 = ''visit_ref_i31''"
| "gc_visit I31GetS = ''visit_i31_get_s''"
| "gc_visit I31GetU = ''visit_i31_get_u''"

primrec i32_visit :: "i32_op \<Rightarrow> string" where
  "i32_visit I32Eqz = ''visit_i32_eqz''"
| "i32_visit I32Eq = ''visit_i32_eq''"
| "i32_visit I32Ne = ''visit_i32_ne''"
| "i32_visit I32LtS = ''visit_i32_lt_s''"
| "i32_visit I32LtU = ''visit_i32_lt_u''"
| "i32_visit I32GtS = ''visit_i32_gt_s''"
| "i32_visit I32GtU = ''visit_i32_gt_u''"
| "i32_visit I32LeS = ''visit_i32_le_s''"
| "i32_visit I32LeU = ''visit_i32_le_u''"
| "i32_visit I32GeS = ''visit_i32_ge_s''"
| "i32_visit I32GeU = ''visit_i32_ge_u''"
| "i32_visit I32Clz = ''visit_i32_clz''"
| "i32_visit I32Ctz = ''visit_i32_ctz''"
| "i32_visit I32Popcnt = ''visit_i32_popcnt''"
| "i32_visit I32Add = ''visit_i32_add''"
| "i32_visit I32Sub = ''visit_i32_sub''"
| "i32_visit I32Mul = ''visit_i32_mul''"
| "i32_visit I32DivS = ''visit_i32_div_s''"
| "i32_visit I32DivU = ''visit_i32_div_u''"
| "i32_visit I32RemS = ''visit_i32_rem_s''"
| "i32_visit I32RemU = ''visit_i32_rem_u''"
| "i32_visit I32And = ''visit_i32_and''"
| "i32_visit I32Or = ''visit_i32_or''"
| "i32_visit I32Xor = ''visit_i32_xor''"
| "i32_visit I32Shl = ''visit_i32_shl''"
| "i32_visit I32ShrS = ''visit_i32_shr_s''"
| "i32_visit I32ShrU = ''visit_i32_shr_u''"
| "i32_visit I32Rotl = ''visit_i32_rotl''"
| "i32_visit I32Rotr = ''visit_i32_rotr''"
| "i32_visit I32WrapI64 = ''visit_i32_wrap_i64''"
| "i32_visit I32TruncF32S = ''visit_i32_trunc_f32_s''"
| "i32_visit I32TruncF32U = ''visit_i32_trunc_f32_u''"
| "i32_visit I32TruncF64S = ''visit_i32_trunc_f64_s''"
| "i32_visit I32TruncF64U = ''visit_i32_trunc_f64_u''"
| "i32_visit I32ReinterpretF32 = ''visit_i32_reinterpret_f32''"
| "i32_visit I32Extend8S = ''visit_i32_extend8_s''"
| "i32_visit I32Extend16S = ''visit_i32_extend16_s''"
| "i32_visit I32TruncSatF32S = ''visit_i32_trunc_sat_f32_s''"
| "i32_visit I32TruncSatF32U = ''visit_i32_trunc_sat_f32_u''"
| "i32_visit I32TruncSatF64S = ''visit_i32_trunc_sat_f64_s''"
| "i32_visit I32TruncSatF64U = ''visit_i32_trunc_sat_f64_u''"

primrec i64_visit :: "i64_op \<Rightarrow> string" where
  "i64_visit I64Eqz = ''visit_i64_eqz''"
| "i64_visit I64Eq = ''visit_i64_eq''"
| "i64_visit I64Ne = ''visit_i64_ne''"
| "i64_visit I64LtS = ''visit_i64_lt_s''"
| "i64_visit I64LtU = ''visit_i64_lt_u''"
| "i64_visit I64GtS = ''visit_i64_gt_s''"
| "i64_visit I64GtU = ''visit_i64_gt_u''"
| "i64_visit I64LeS = ''visit_i64_le_s''"
| "i64_visit I64LeU = ''visit_i64_le_u''"
| "i64_visit I64GeS = ''visit_i64_ge_s''"
| "i64_visit I64GeU = ''visit_i64_ge_u''"
| "i64_visit I64Clz = ''visit_i64_clz''"
| "i64_visit I64Ctz = ''visit_i64_ctz''"
| "i64_visit I64Popcnt = ''visit_i64_popcnt''"
| "i64_visit I64Add = ''visit_i64_add''"
| "i64_visit I64Sub = ''visit_i64_sub''"
| "i64_visit I64Mul = ''visit_i64_mul''"
| "i64_visit I64DivS = ''visit_i64_div_s''"
| "i64_visit I64DivU = ''visit_i64_div_u''"
| "i64_visit I64RemS = ''visit_i64_rem_s''"
| "i64_visit I64RemU = ''visit_i64_rem_u''"
| "i64_visit I64And = ''visit_i64_and''"
| "i64_visit I64Or = ''visit_i64_or''"
| "i64_visit I64Xor = ''visit_i64_xor''"
| "i64_visit I64Shl = ''visit_i64_shl''"
| "i64_visit I64ShrS = ''visit_i64_shr_s''"
| "i64_visit I64ShrU = ''visit_i64_shr_u''"
| "i64_visit I64Rotl = ''visit_i64_rotl''"
| "i64_visit I64Rotr = ''visit_i64_rotr''"
| "i64_visit I64ExtendI32S = ''visit_i64_extend_i32_s''"
| "i64_visit I64ExtendI32U = ''visit_i64_extend_i32_u''"
| "i64_visit I64TruncF32S = ''visit_i64_trunc_f32_s''"
| "i64_visit I64TruncF32U = ''visit_i64_trunc_f32_u''"
| "i64_visit I64TruncF64S = ''visit_i64_trunc_f64_s''"
| "i64_visit I64TruncF64U = ''visit_i64_trunc_f64_u''"
| "i64_visit I64ReinterpretF64 = ''visit_i64_reinterpret_f64''"
| "i64_visit I64Extend8S = ''visit_i64_extend8_s''"
| "i64_visit I64Extend16S = ''visit_i64_extend16_s''"
| "i64_visit I64Extend32S = ''visit_i64_extend32_s''"
| "i64_visit I64TruncSatF32S = ''visit_i64_trunc_sat_f32_s''"
| "i64_visit I64TruncSatF32U = ''visit_i64_trunc_sat_f32_u''"
| "i64_visit I64TruncSatF64S = ''visit_i64_trunc_sat_f64_s''"
| "i64_visit I64TruncSatF64U = ''visit_i64_trunc_sat_f64_u''"
| "i64_visit I64Add128 = ''visit_i64_add128''"
| "i64_visit I64Sub128 = ''visit_i64_sub128''"
| "i64_visit I64MulWideS = ''visit_i64_mul_wide_s''"
| "i64_visit I64MulWideU = ''visit_i64_mul_wide_u''"

primrec f32_visit :: "f32_op \<Rightarrow> string" where
  "f32_visit F32Eq = ''visit_f32_eq''"
| "f32_visit F32Ne = ''visit_f32_ne''"
| "f32_visit F32Lt = ''visit_f32_lt''"
| "f32_visit F32Gt = ''visit_f32_gt''"
| "f32_visit F32Le = ''visit_f32_le''"
| "f32_visit F32Ge = ''visit_f32_ge''"
| "f32_visit F32Abs = ''visit_f32_abs''"
| "f32_visit F32Neg = ''visit_f32_neg''"
| "f32_visit F32Ceil = ''visit_f32_ceil''"
| "f32_visit F32Floor = ''visit_f32_floor''"
| "f32_visit F32Trunc = ''visit_f32_trunc''"
| "f32_visit F32Nearest = ''visit_f32_nearest''"
| "f32_visit F32Sqrt = ''visit_f32_sqrt''"
| "f32_visit F32Add = ''visit_f32_add''"
| "f32_visit F32Sub = ''visit_f32_sub''"
| "f32_visit F32Mul = ''visit_f32_mul''"
| "f32_visit F32Div = ''visit_f32_div''"
| "f32_visit F32Min = ''visit_f32_min''"
| "f32_visit F32Max = ''visit_f32_max''"
| "f32_visit F32Copysign = ''visit_f32_copysign''"
| "f32_visit F32ConvertI32S = ''visit_f32_convert_i32_s''"
| "f32_visit F32ConvertI32U = ''visit_f32_convert_i32_u''"
| "f32_visit F32ConvertI64S = ''visit_f32_convert_i64_s''"
| "f32_visit F32ConvertI64U = ''visit_f32_convert_i64_u''"
| "f32_visit F32DemoteF64 = ''visit_f32_demote_f64''"
| "f32_visit F32ReinterpretI32 = ''visit_f32_reinterpret_i32''"

primrec f64_visit :: "f64_op \<Rightarrow> string" where
  "f64_visit F64Eq = ''visit_f64_eq''"
| "f64_visit F64Ne = ''visit_f64_ne''"
| "f64_visit F64Lt = ''visit_f64_lt''"
| "f64_visit F64Gt = ''visit_f64_gt''"
| "f64_visit F64Le = ''visit_f64_le''"
| "f64_visit F64Ge = ''visit_f64_ge''"
| "f64_visit F64Abs = ''visit_f64_abs''"
| "f64_visit F64Neg = ''visit_f64_neg''"
| "f64_visit F64Ceil = ''visit_f64_ceil''"
| "f64_visit F64Floor = ''visit_f64_floor''"
| "f64_visit F64Trunc = ''visit_f64_trunc''"
| "f64_visit F64Nearest = ''visit_f64_nearest''"
| "f64_visit F64Sqrt = ''visit_f64_sqrt''"
| "f64_visit F64Add = ''visit_f64_add''"
| "f64_visit F64Sub = ''visit_f64_sub''"
| "f64_visit F64Mul = ''visit_f64_mul''"
| "f64_visit F64Div = ''visit_f64_div''"
| "f64_visit F64Min = ''visit_f64_min''"
| "f64_visit F64Max = ''visit_f64_max''"
| "f64_visit F64Copysign = ''visit_f64_copysign''"
| "f64_visit F64ConvertI32S = ''visit_f64_convert_i32_s''"
| "f64_visit F64ConvertI32U = ''visit_f64_convert_i32_u''"
| "f64_visit F64ConvertI64S = ''visit_f64_convert_i64_s''"
| "f64_visit F64ConvertI64U = ''visit_f64_convert_i64_u''"
| "f64_visit F64PromoteF32 = ''visit_f64_promote_f32''"
| "f64_visit F64ReinterpretI64 = ''visit_f64_reinterpret_i64''"

primrec load_visit :: "load_op \<Rightarrow> string" where
  "load_visit I32Load = ''visit_i32_load''"
| "load_visit I64Load = ''visit_i64_load''"
| "load_visit F32Load = ''visit_f32_load''"
| "load_visit F64Load = ''visit_f64_load''"
| "load_visit I32Load8S = ''visit_i32_load8_s''"
| "load_visit I32Load8U = ''visit_i32_load8_u''"
| "load_visit I32Load16S = ''visit_i32_load16_s''"
| "load_visit I32Load16U = ''visit_i32_load16_u''"
| "load_visit I64Load8S = ''visit_i64_load8_s''"
| "load_visit I64Load8U = ''visit_i64_load8_u''"
| "load_visit I64Load16S = ''visit_i64_load16_s''"
| "load_visit I64Load16U = ''visit_i64_load16_u''"
| "load_visit I64Load32S = ''visit_i64_load32_s''"
| "load_visit I64Load32U = ''visit_i64_load32_u''"

primrec store_visit :: "store_op \<Rightarrow> string" where
  "store_visit I32Store = ''visit_i32_store''"
| "store_visit I64Store = ''visit_i64_store''"
| "store_visit F32Store = ''visit_f32_store''"
| "store_visit F64Store = ''visit_f64_store''"
| "store_visit I32Store8 = ''visit_i32_store8''"
| "store_visit I32Store16 = ''visit_i32_store16''"
| "store_visit I64Store8 = ''visit_i64_store8''"
| "store_visit I64Store16 = ''visit_i64_store16''"
| "store_visit I64Store32 = ''visit_i64_store32''"

primrec atomic_access_visit :: "atomic_access_op \<Rightarrow> string" where
  "atomic_access_visit MemoryAtomicNotify = ''visit_memory_atomic_notify''"
| "atomic_access_visit MemoryAtomicWait32 = ''visit_memory_atomic_wait32''"
| "atomic_access_visit MemoryAtomicWait64 = ''visit_memory_atomic_wait64''"
| "atomic_access_visit I32AtomicLoad = ''visit_i32_atomic_load''"
| "atomic_access_visit I64AtomicLoad = ''visit_i64_atomic_load''"
| "atomic_access_visit I32AtomicLoad8U = ''visit_i32_atomic_load8_u''"
| "atomic_access_visit I32AtomicLoad16U = ''visit_i32_atomic_load16_u''"
| "atomic_access_visit I64AtomicLoad8U = ''visit_i64_atomic_load8_u''"
| "atomic_access_visit I64AtomicLoad16U = ''visit_i64_atomic_load16_u''"
| "atomic_access_visit I64AtomicLoad32U = ''visit_i64_atomic_load32_u''"
| "atomic_access_visit I32AtomicStore = ''visit_i32_atomic_store''"
| "atomic_access_visit I64AtomicStore = ''visit_i64_atomic_store''"
| "atomic_access_visit I32AtomicStore8 = ''visit_i32_atomic_store8''"
| "atomic_access_visit I32AtomicStore16 = ''visit_i32_atomic_store16''"
| "atomic_access_visit I64AtomicStore8 = ''visit_i64_atomic_store8''"
| "atomic_access_visit I64AtomicStore16 = ''visit_i64_atomic_store16''"
| "atomic_access_visit I64AtomicStore32 = ''visit_i64_atomic_store32''"

primrec atomic_rmw_visit :: "atomic_rmw_op \<Rightarrow> string" where
  "atomic_rmw_visit I32AtomicRmwAdd = ''visit_i32_atomic_rmw_add''"
| "atomic_rmw_visit I64AtomicRmwAdd = ''visit_i64_atomic_rmw_add''"
| "atomic_rmw_visit I32AtomicRmw8AddU = ''visit_i32_atomic_rmw8_add_u''"
| "atomic_rmw_visit I32AtomicRmw16AddU = ''visit_i32_atomic_rmw16_add_u''"
| "atomic_rmw_visit I64AtomicRmw8AddU = ''visit_i64_atomic_rmw8_add_u''"
| "atomic_rmw_visit I64AtomicRmw16AddU = ''visit_i64_atomic_rmw16_add_u''"
| "atomic_rmw_visit I64AtomicRmw32AddU = ''visit_i64_atomic_rmw32_add_u''"
| "atomic_rmw_visit I32AtomicRmwSub = ''visit_i32_atomic_rmw_sub''"
| "atomic_rmw_visit I64AtomicRmwSub = ''visit_i64_atomic_rmw_sub''"
| "atomic_rmw_visit I32AtomicRmw8SubU = ''visit_i32_atomic_rmw8_sub_u''"
| "atomic_rmw_visit I32AtomicRmw16SubU = ''visit_i32_atomic_rmw16_sub_u''"
| "atomic_rmw_visit I64AtomicRmw8SubU = ''visit_i64_atomic_rmw8_sub_u''"
| "atomic_rmw_visit I64AtomicRmw16SubU = ''visit_i64_atomic_rmw16_sub_u''"
| "atomic_rmw_visit I64AtomicRmw32SubU = ''visit_i64_atomic_rmw32_sub_u''"
| "atomic_rmw_visit I32AtomicRmwAnd = ''visit_i32_atomic_rmw_and''"
| "atomic_rmw_visit I64AtomicRmwAnd = ''visit_i64_atomic_rmw_and''"
| "atomic_rmw_visit I32AtomicRmw8AndU = ''visit_i32_atomic_rmw8_and_u''"
| "atomic_rmw_visit I32AtomicRmw16AndU = ''visit_i32_atomic_rmw16_and_u''"
| "atomic_rmw_visit I64AtomicRmw8AndU = ''visit_i64_atomic_rmw8_and_u''"
| "atomic_rmw_visit I64AtomicRmw16AndU = ''visit_i64_atomic_rmw16_and_u''"
| "atomic_rmw_visit I64AtomicRmw32AndU = ''visit_i64_atomic_rmw32_and_u''"
| "atomic_rmw_visit I32AtomicRmwOr = ''visit_i32_atomic_rmw_or''"
| "atomic_rmw_visit I64AtomicRmwOr = ''visit_i64_atomic_rmw_or''"
| "atomic_rmw_visit I32AtomicRmw8OrU = ''visit_i32_atomic_rmw8_or_u''"
| "atomic_rmw_visit I32AtomicRmw16OrU = ''visit_i32_atomic_rmw16_or_u''"
| "atomic_rmw_visit I64AtomicRmw8OrU = ''visit_i64_atomic_rmw8_or_u''"
| "atomic_rmw_visit I64AtomicRmw16OrU = ''visit_i64_atomic_rmw16_or_u''"
| "atomic_rmw_visit I64AtomicRmw32OrU = ''visit_i64_atomic_rmw32_or_u''"
| "atomic_rmw_visit I32AtomicRmwXor = ''visit_i32_atomic_rmw_xor''"
| "atomic_rmw_visit I64AtomicRmwXor = ''visit_i64_atomic_rmw_xor''"
| "atomic_rmw_visit I32AtomicRmw8XorU = ''visit_i32_atomic_rmw8_xor_u''"
| "atomic_rmw_visit I32AtomicRmw16XorU = ''visit_i32_atomic_rmw16_xor_u''"
| "atomic_rmw_visit I64AtomicRmw8XorU = ''visit_i64_atomic_rmw8_xor_u''"
| "atomic_rmw_visit I64AtomicRmw16XorU = ''visit_i64_atomic_rmw16_xor_u''"
| "atomic_rmw_visit I64AtomicRmw32XorU = ''visit_i64_atomic_rmw32_xor_u''"
| "atomic_rmw_visit I32AtomicRmwXchg = ''visit_i32_atomic_rmw_xchg''"
| "atomic_rmw_visit I64AtomicRmwXchg = ''visit_i64_atomic_rmw_xchg''"
| "atomic_rmw_visit I32AtomicRmw8XchgU = ''visit_i32_atomic_rmw8_xchg_u''"
| "atomic_rmw_visit I32AtomicRmw16XchgU = ''visit_i32_atomic_rmw16_xchg_u''"
| "atomic_rmw_visit I64AtomicRmw8XchgU = ''visit_i64_atomic_rmw8_xchg_u''"
| "atomic_rmw_visit I64AtomicRmw16XchgU = ''visit_i64_atomic_rmw16_xchg_u''"
| "atomic_rmw_visit I64AtomicRmw32XchgU = ''visit_i64_atomic_rmw32_xchg_u''"
| "atomic_rmw_visit I32AtomicRmwCmpxchg = ''visit_i32_atomic_rmw_cmpxchg''"
| "atomic_rmw_visit I64AtomicRmwCmpxchg = ''visit_i64_atomic_rmw_cmpxchg''"
| "atomic_rmw_visit I32AtomicRmw8CmpxchgU = ''visit_i32_atomic_rmw8_cmpxchg_u''"
| "atomic_rmw_visit I32AtomicRmw16CmpxchgU = ''visit_i32_atomic_rmw16_cmpxchg_u''"
| "atomic_rmw_visit I64AtomicRmw8CmpxchgU = ''visit_i64_atomic_rmw8_cmpxchg_u''"
| "atomic_rmw_visit I64AtomicRmw16CmpxchgU = ''visit_i64_atomic_rmw16_cmpxchg_u''"
| "atomic_rmw_visit I64AtomicRmw32CmpxchgU = ''visit_i64_atomic_rmw32_cmpxchg_u''"

primrec v128_mem_visit :: "v128_mem_op \<Rightarrow> string" where
  "v128_mem_visit V128Load = ''visit_v128_load''"
| "v128_mem_visit V128Load8x8S = ''visit_v128_load8x8_s''"
| "v128_mem_visit V128Load8x8U = ''visit_v128_load8x8_u''"
| "v128_mem_visit V128Load16x4S = ''visit_v128_load16x4_s''"
| "v128_mem_visit V128Load16x4U = ''visit_v128_load16x4_u''"
| "v128_mem_visit V128Load32x2S = ''visit_v128_load32x2_s''"
| "v128_mem_visit V128Load32x2U = ''visit_v128_load32x2_u''"
| "v128_mem_visit V128Load8Splat = ''visit_v128_load8_splat''"
| "v128_mem_visit V128Load16Splat = ''visit_v128_load16_splat''"
| "v128_mem_visit V128Load32Splat = ''visit_v128_load32_splat''"
| "v128_mem_visit V128Load64Splat = ''visit_v128_load64_splat''"
| "v128_mem_visit V128Load32Zero = ''visit_v128_load32_zero''"
| "v128_mem_visit V128Load64Zero = ''visit_v128_load64_zero''"
| "v128_mem_visit V128Store = ''visit_v128_store''"

primrec v128_lane_mem_visit :: "v128_lane_mem_op \<Rightarrow> string" where
  "v128_lane_mem_visit V128Load8Lane = ''visit_v128_load8_lane''"
| "v128_lane_mem_visit V128Load16Lane = ''visit_v128_load16_lane''"
| "v128_lane_mem_visit V128Load32Lane = ''visit_v128_load32_lane''"
| "v128_lane_mem_visit V128Load64Lane = ''visit_v128_load64_lane''"
| "v128_lane_mem_visit V128Store8Lane = ''visit_v128_store8_lane''"
| "v128_lane_mem_visit V128Store16Lane = ''visit_v128_store16_lane''"
| "v128_lane_mem_visit V128Store32Lane = ''visit_v128_store32_lane''"
| "v128_lane_mem_visit V128Store64Lane = ''visit_v128_store64_lane''"

primrec lane_visit :: "lane_op \<Rightarrow> string" where
  "lane_visit I8x16ExtractLaneS = ''visit_i8x16_extract_lane_s''"
| "lane_visit I8x16ExtractLaneU = ''visit_i8x16_extract_lane_u''"
| "lane_visit I8x16ReplaceLane = ''visit_i8x16_replace_lane''"
| "lane_visit I16x8ExtractLaneS = ''visit_i16x8_extract_lane_s''"
| "lane_visit I16x8ExtractLaneU = ''visit_i16x8_extract_lane_u''"
| "lane_visit I16x8ReplaceLane = ''visit_i16x8_replace_lane''"
| "lane_visit I32x4ExtractLane = ''visit_i32x4_extract_lane''"
| "lane_visit I32x4ReplaceLane = ''visit_i32x4_replace_lane''"
| "lane_visit I64x2ExtractLane = ''visit_i64x2_extract_lane''"
| "lane_visit I64x2ReplaceLane = ''visit_i64x2_replace_lane''"
| "lane_visit F32x4ExtractLane = ''visit_f32x4_extract_lane''"
| "lane_visit F32x4ReplaceLane = ''visit_f32x4_replace_lane''"
| "lane_visit F64x2ExtractLane = ''visit_f64x2_extract_lane''"
| "lane_visit F64x2ReplaceLane = ''visit_f64x2_replace_lane''"

primrec i8x16_visit :: "i8x16_op \<Rightarrow> string" where
  "i8x16_visit I8x16Swizzle = ''visit_i8x16_swizzle''"
| "i8x16_visit I8x16Splat = ''visit_i8x16_splat''"
| "i8x16_visit I8x16Eq = ''visit_i8x16_eq''"
| "i8x16_visit I8x16Ne = ''visit_i8x16_ne''"
| "i8x16_visit I8x16LtS = ''visit_i8x16_lt_s''"
| "i8x16_visit I8x16LtU = ''visit_i8x16_lt_u''"
| "i8x16_visit I8x16GtS = ''visit_i8x16_gt_s''"
| "i8x16_visit I8x16GtU = ''visit_i8x16_gt_u''"
| "i8x16_visit I8x16LeS = ''visit_i8x16_le_s''"
| "i8x16_visit I8x16LeU = ''visit_i8x16_le_u''"
| "i8x16_visit I8x16GeS = ''visit_i8x16_ge_s''"
| "i8x16_visit I8x16GeU = ''visit_i8x16_ge_u''"
| "i8x16_visit I8x16Abs = ''visit_i8x16_abs''"
| "i8x16_visit I8x16Neg = ''visit_i8x16_neg''"
| "i8x16_visit I8x16Popcnt = ''visit_i8x16_popcnt''"
| "i8x16_visit I8x16AllTrue = ''visit_i8x16_all_true''"
| "i8x16_visit I8x16Bitmask = ''visit_i8x16_bitmask''"
| "i8x16_visit I8x16NarrowI16x8S = ''visit_i8x16_narrow_i16x8_s''"
| "i8x16_visit I8x16NarrowI16x8U = ''visit_i8x16_narrow_i16x8_u''"
| "i8x16_visit I8x16Shl = ''visit_i8x16_shl''"
| "i8x16_visit I8x16ShrS = ''visit_i8x16_shr_s''"
| "i8x16_visit I8x16ShrU = ''visit_i8x16_shr_u''"
| "i8x16_visit I8x16Add = ''visit_i8x16_add''"
| "i8x16_visit I8x16AddSatS = ''visit_i8x16_add_sat_s''"
| "i8x16_visit I8x16AddSatU = ''visit_i8x16_add_sat_u''"
| "i8x16_visit I8x16Sub = ''visit_i8x16_sub''"
| "i8x16_visit I8x16SubSatS = ''visit_i8x16_sub_sat_s''"
| "i8x16_visit I8x16SubSatU = ''visit_i8x16_sub_sat_u''"
| "i8x16_visit I8x16MinS = ''visit_i8x16_min_s''"
| "i8x16_visit I8x16MinU = ''visit_i8x16_min_u''"
| "i8x16_visit I8x16MaxS = ''visit_i8x16_max_s''"
| "i8x16_visit I8x16MaxU = ''visit_i8x16_max_u''"
| "i8x16_visit I8x16AvgrU = ''visit_i8x16_avgr_u''"
| "i8x16_visit I8x16RelaxedSwizzle = ''visit_i8x16_relaxed_swizzle''"
| "i8x16_visit I8x16RelaxedLaneselect = ''visit_i8x16_relaxed_laneselect''"

primrec i16x8_visit :: "i16x8_op \<Rightarrow> string" where
  "i16x8_visit I16x8Splat = ''visit_i16x8_splat''"
| "i16x8_visit I16x8Eq = ''visit_i16x8_eq''"
| "i16x8_visit I16x8Ne = ''visit_i16x8_ne''"
| "i16x8_visit I16x8LtS = ''visit_i16x8_lt_s''"
| "i16x8_visit I16x8LtU = ''visit_i16x8_lt_u''"
| "i16x8_visit I16x8GtS = ''visit_i16x8_gt_s''"
| "i16x8_visit I16x8GtU = ''visit_i16x8_gt_u''"
| "i16x8_visit I16x8LeS = ''visit_i16x8_le_s''"
| "i16x8_visit I16x8LeU = ''visit_i16x8_le_u''"
| "i16x8_visit I16x8GeS = ''visit_i16x8_ge_s''"
| "i16x8_visit I16x8GeU = ''visit_i16x8_ge_u''"
| "i16x8_visit I16x8ExtAddPairwiseI8x16S = ''visit_i16x8_extadd_pairwise_i8x16_s''"
| "i16x8_visit I16x8ExtAddPairwiseI8x16U = ''visit_i16x8_extadd_pairwise_i8x16_u''"
| "i16x8_visit I16x8Abs = ''visit_i16x8_abs''"
| "i16x8_visit I16x8Neg = ''visit_i16x8_neg''"
| "i16x8_visit I16x8Q15MulrSatS = ''visit_i16x8_q15mulr_sat_s''"
| "i16x8_visit I16x8AllTrue = ''visit_i16x8_all_true''"
| "i16x8_visit I16x8Bitmask = ''visit_i16x8_bitmask''"
| "i16x8_visit I16x8NarrowI32x4S = ''visit_i16x8_narrow_i32x4_s''"
| "i16x8_visit I16x8NarrowI32x4U = ''visit_i16x8_narrow_i32x4_u''"
| "i16x8_visit I16x8ExtendLowI8x16S = ''visit_i16x8_extend_low_i8x16_s''"
| "i16x8_visit I16x8ExtendHighI8x16S = ''visit_i16x8_extend_high_i8x16_s''"
| "i16x8_visit I16x8ExtendLowI8x16U = ''visit_i16x8_extend_low_i8x16_u''"
| "i16x8_visit I16x8ExtendHighI8x16U = ''visit_i16x8_extend_high_i8x16_u''"
| "i16x8_visit I16x8Shl = ''visit_i16x8_shl''"
| "i16x8_visit I16x8ShrS = ''visit_i16x8_shr_s''"
| "i16x8_visit I16x8ShrU = ''visit_i16x8_shr_u''"
| "i16x8_visit I16x8Add = ''visit_i16x8_add''"
| "i16x8_visit I16x8AddSatS = ''visit_i16x8_add_sat_s''"
| "i16x8_visit I16x8AddSatU = ''visit_i16x8_add_sat_u''"
| "i16x8_visit I16x8Sub = ''visit_i16x8_sub''"
| "i16x8_visit I16x8SubSatS = ''visit_i16x8_sub_sat_s''"
| "i16x8_visit I16x8SubSatU = ''visit_i16x8_sub_sat_u''"
| "i16x8_visit I16x8Mul = ''visit_i16x8_mul''"
| "i16x8_visit I16x8MinS = ''visit_i16x8_min_s''"
| "i16x8_visit I16x8MinU = ''visit_i16x8_min_u''"
| "i16x8_visit I16x8MaxS = ''visit_i16x8_max_s''"
| "i16x8_visit I16x8MaxU = ''visit_i16x8_max_u''"
| "i16x8_visit I16x8AvgrU = ''visit_i16x8_avgr_u''"
| "i16x8_visit I16x8ExtMulLowI8x16S = ''visit_i16x8_extmul_low_i8x16_s''"
| "i16x8_visit I16x8ExtMulHighI8x16S = ''visit_i16x8_extmul_high_i8x16_s''"
| "i16x8_visit I16x8ExtMulLowI8x16U = ''visit_i16x8_extmul_low_i8x16_u''"
| "i16x8_visit I16x8ExtMulHighI8x16U = ''visit_i16x8_extmul_high_i8x16_u''"
| "i16x8_visit I16x8RelaxedLaneselect = ''visit_i16x8_relaxed_laneselect''"
| "i16x8_visit I16x8RelaxedQ15mulrS = ''visit_i16x8_relaxed_q15mulr_s''"
| "i16x8_visit I16x8RelaxedDotI8x16I7x16S = ''visit_i16x8_relaxed_dot_i8x16_i7x16_s''"

primrec i32x4_visit :: "i32x4_op \<Rightarrow> string" where
  "i32x4_visit I32x4Splat = ''visit_i32x4_splat''"
| "i32x4_visit I32x4Eq = ''visit_i32x4_eq''"
| "i32x4_visit I32x4Ne = ''visit_i32x4_ne''"
| "i32x4_visit I32x4LtS = ''visit_i32x4_lt_s''"
| "i32x4_visit I32x4LtU = ''visit_i32x4_lt_u''"
| "i32x4_visit I32x4GtS = ''visit_i32x4_gt_s''"
| "i32x4_visit I32x4GtU = ''visit_i32x4_gt_u''"
| "i32x4_visit I32x4LeS = ''visit_i32x4_le_s''"
| "i32x4_visit I32x4LeU = ''visit_i32x4_le_u''"
| "i32x4_visit I32x4GeS = ''visit_i32x4_ge_s''"
| "i32x4_visit I32x4GeU = ''visit_i32x4_ge_u''"
| "i32x4_visit I32x4ExtAddPairwiseI16x8S = ''visit_i32x4_extadd_pairwise_i16x8_s''"
| "i32x4_visit I32x4ExtAddPairwiseI16x8U = ''visit_i32x4_extadd_pairwise_i16x8_u''"
| "i32x4_visit I32x4Abs = ''visit_i32x4_abs''"
| "i32x4_visit I32x4Neg = ''visit_i32x4_neg''"
| "i32x4_visit I32x4AllTrue = ''visit_i32x4_all_true''"
| "i32x4_visit I32x4Bitmask = ''visit_i32x4_bitmask''"
| "i32x4_visit I32x4ExtendLowI16x8S = ''visit_i32x4_extend_low_i16x8_s''"
| "i32x4_visit I32x4ExtendHighI16x8S = ''visit_i32x4_extend_high_i16x8_s''"
| "i32x4_visit I32x4ExtendLowI16x8U = ''visit_i32x4_extend_low_i16x8_u''"
| "i32x4_visit I32x4ExtendHighI16x8U = ''visit_i32x4_extend_high_i16x8_u''"
| "i32x4_visit I32x4Shl = ''visit_i32x4_shl''"
| "i32x4_visit I32x4ShrS = ''visit_i32x4_shr_s''"
| "i32x4_visit I32x4ShrU = ''visit_i32x4_shr_u''"
| "i32x4_visit I32x4Add = ''visit_i32x4_add''"
| "i32x4_visit I32x4Sub = ''visit_i32x4_sub''"
| "i32x4_visit I32x4Mul = ''visit_i32x4_mul''"
| "i32x4_visit I32x4MinS = ''visit_i32x4_min_s''"
| "i32x4_visit I32x4MinU = ''visit_i32x4_min_u''"
| "i32x4_visit I32x4MaxS = ''visit_i32x4_max_s''"
| "i32x4_visit I32x4MaxU = ''visit_i32x4_max_u''"
| "i32x4_visit I32x4DotI16x8S = ''visit_i32x4_dot_i16x8_s''"
| "i32x4_visit I32x4ExtMulLowI16x8S = ''visit_i32x4_extmul_low_i16x8_s''"
| "i32x4_visit I32x4ExtMulHighI16x8S = ''visit_i32x4_extmul_high_i16x8_s''"
| "i32x4_visit I32x4ExtMulLowI16x8U = ''visit_i32x4_extmul_low_i16x8_u''"
| "i32x4_visit I32x4ExtMulHighI16x8U = ''visit_i32x4_extmul_high_i16x8_u''"
| "i32x4_visit I32x4TruncSatF32x4S = ''visit_i32x4_trunc_sat_f32x4_s''"
| "i32x4_visit I32x4TruncSatF32x4U = ''visit_i32x4_trunc_sat_f32x4_u''"
| "i32x4_visit I32x4TruncSatF64x2SZero = ''visit_i32x4_trunc_sat_f64x2_s_zero''"
| "i32x4_visit I32x4TruncSatF64x2UZero = ''visit_i32x4_trunc_sat_f64x2_u_zero''"
| "i32x4_visit I32x4RelaxedTruncF32x4S = ''visit_i32x4_relaxed_trunc_f32x4_s''"
| "i32x4_visit I32x4RelaxedTruncF32x4U = ''visit_i32x4_relaxed_trunc_f32x4_u''"
| "i32x4_visit I32x4RelaxedTruncF64x2SZero = ''visit_i32x4_relaxed_trunc_f64x2_s_zero''"
| "i32x4_visit I32x4RelaxedTruncF64x2UZero = ''visit_i32x4_relaxed_trunc_f64x2_u_zero''"
| "i32x4_visit I32x4RelaxedLaneselect = ''visit_i32x4_relaxed_laneselect''"
| "i32x4_visit I32x4RelaxedDotI8x16I7x16AddS = ''visit_i32x4_relaxed_dot_i8x16_i7x16_add_s''"

primrec i64x2_visit :: "i64x2_op \<Rightarrow> string" where
  "i64x2_visit I64x2Splat = ''visit_i64x2_splat''"
| "i64x2_visit I64x2Eq = ''visit_i64x2_eq''"
| "i64x2_visit I64x2Ne = ''visit_i64x2_ne''"
| "i64x2_visit I64x2LtS = ''visit_i64x2_lt_s''"
| "i64x2_visit I64x2GtS = ''visit_i64x2_gt_s''"
| "i64x2_visit I64x2LeS = ''visit_i64x2_le_s''"
| "i64x2_visit I64x2GeS = ''visit_i64x2_ge_s''"
| "i64x2_visit I64x2Abs = ''visit_i64x2_abs''"
| "i64x2_visit I64x2Neg = ''visit_i64x2_neg''"
| "i64x2_visit I64x2AllTrue = ''visit_i64x2_all_true''"
| "i64x2_visit I64x2Bitmask = ''visit_i64x2_bitmask''"
| "i64x2_visit I64x2ExtendLowI32x4S = ''visit_i64x2_extend_low_i32x4_s''"
| "i64x2_visit I64x2ExtendHighI32x4S = ''visit_i64x2_extend_high_i32x4_s''"
| "i64x2_visit I64x2ExtendLowI32x4U = ''visit_i64x2_extend_low_i32x4_u''"
| "i64x2_visit I64x2ExtendHighI32x4U = ''visit_i64x2_extend_high_i32x4_u''"
| "i64x2_visit I64x2Shl = ''visit_i64x2_shl''"
| "i64x2_visit I64x2ShrS = ''visit_i64x2_shr_s''"
| "i64x2_visit I64x2ShrU = ''visit_i64x2_shr_u''"
| "i64x2_visit I64x2Add = ''visit_i64x2_add''"
| "i64x2_visit I64x2Sub = ''visit_i64x2_sub''"
| "i64x2_visit I64x2Mul = ''visit_i64x2_mul''"
| "i64x2_visit I64x2ExtMulLowI32x4S = ''visit_i64x2_extmul_low_i32x4_s''"
| "i64x2_visit I64x2ExtMulHighI32x4S = ''visit_i64x2_extmul_high_i32x4_s''"
| "i64x2_visit I64x2ExtMulLowI32x4U = ''visit_i64x2_extmul_low_i32x4_u''"
| "i64x2_visit I64x2ExtMulHighI32x4U = ''visit_i64x2_extmul_high_i32x4_u''"
| "i64x2_visit I64x2RelaxedLaneselect = ''visit_i64x2_relaxed_laneselect''"

primrec f32x4_visit :: "f32x4_op \<Rightarrow> string" where
  "f32x4_visit F32x4Splat = ''visit_f32x4_splat''"
| "f32x4_visit F32x4Eq = ''visit_f32x4_eq''"
| "f32x4_visit F32x4Ne = ''visit_f32x4_ne''"
| "f32x4_visit F32x4Lt = ''visit_f32x4_lt''"
| "f32x4_visit F32x4Gt = ''visit_f32x4_gt''"
| "f32x4_visit F32x4Le = ''visit_f32x4_le''"
| "f32x4_visit F32x4Ge = ''visit_f32x4_ge''"
| "f32x4_visit F32x4Ceil = ''visit_f32x4_ceil''"
| "f32x4_visit F32x4Floor = ''visit_f32x4_floor''"
| "f32x4_visit F32x4Trunc = ''visit_f32x4_trunc''"
| "f32x4_visit F32x4Nearest = ''visit_f32x4_nearest''"
| "f32x4_visit F32x4Abs = ''visit_f32x4_abs''"
| "f32x4_visit F32x4Neg = ''visit_f32x4_neg''"
| "f32x4_visit F32x4Sqrt = ''visit_f32x4_sqrt''"
| "f32x4_visit F32x4Add = ''visit_f32x4_add''"
| "f32x4_visit F32x4Sub = ''visit_f32x4_sub''"
| "f32x4_visit F32x4Mul = ''visit_f32x4_mul''"
| "f32x4_visit F32x4Div = ''visit_f32x4_div''"
| "f32x4_visit F32x4Min = ''visit_f32x4_min''"
| "f32x4_visit F32x4Max = ''visit_f32x4_max''"
| "f32x4_visit F32x4PMin = ''visit_f32x4_pmin''"
| "f32x4_visit F32x4PMax = ''visit_f32x4_pmax''"
| "f32x4_visit F32x4ConvertI32x4S = ''visit_f32x4_convert_i32x4_s''"
| "f32x4_visit F32x4ConvertI32x4U = ''visit_f32x4_convert_i32x4_u''"
| "f32x4_visit F32x4DemoteF64x2Zero = ''visit_f32x4_demote_f64x2_zero''"
| "f32x4_visit F32x4RelaxedMadd = ''visit_f32x4_relaxed_madd''"
| "f32x4_visit F32x4RelaxedNmadd = ''visit_f32x4_relaxed_nmadd''"
| "f32x4_visit F32x4RelaxedMin = ''visit_f32x4_relaxed_min''"
| "f32x4_visit F32x4RelaxedMax = ''visit_f32x4_relaxed_max''"

primrec f64x2_visit :: "f64x2_op \<Rightarrow> string" where
  "f64x2_visit F64x2Splat = ''visit_f64x2_splat''"
| "f64x2_visit F64x2Eq = ''visit_f64x2_eq''"
| "f64x2_visit F64x2Ne = ''visit_f64x2_ne''"
| "f64x2_visit F64x2Lt = ''visit_f64x2_lt''"
| "f64x2_visit F64x2Gt = ''visit_f64x2_gt''"
| "f64x2_visit F64x2Le = ''visit_f64x2_le''"
| "f64x2_visit F64x2Ge = ''visit_f64x2_ge''"
| "f64x2_visit F64x2Ceil = ''visit_f64x2_ceil''"
| "f64x2_visit F64x2Floor = ''visit_f64x2_floor''"
| "f64x2_visit F64x2Trunc = ''visit_f64x2_trunc''"
| "f64x2_visit F64x2Nearest = ''visit_f64x2_nearest''"
| "f64x2_visit F64x2Abs = ''visit_f64x2_abs''"
| "f64x2_visit F64x2Neg = ''visit_f64x2_neg''"
| "f64x2_visit F64x2Sqrt = ''visit_f64x2_sqrt''"
| "f64x2_visit F64x2Add = ''visit_f64x2_add''"
| "f64x2_visit F64x2Sub = ''visit_f64x2_sub''"
| "f64x2_visit F64x2Mul = ''visit_f64x2_mul''"
| "f64x2_visit F64x2Div = ''visit_f64x2_div''"
| "f64x2_visit F64x2Min = ''visit_f64x2_min''"
| "f64x2_visit F64x2Max = ''visit_f64x2_max''"
| "f64x2_visit F64x2PMin = ''visit_f64x2_pmin''"
| "f64x2_visit F64x2PMax = ''visit_f64x2_pmax''"
| "f64x2_visit F64x2ConvertLowI32x4S = ''visit_f64x2_convert_low_i32x4_s''"
| "f64x2_visit F64x2ConvertLowI32x4U = ''visit_f64x2_convert_low_i32x4_u''"
| "f64x2_visit F64x2PromoteLowF32x4 = ''visit_f64x2_promote_low_f32x4''"
| "f64x2_visit F64x2RelaxedMadd = ''visit_f64x2_relaxed_madd''"
| "f64x2_visit F64x2RelaxedNmadd = ''visit_f64x2_relaxed_nmadd''"
| "f64x2_visit F64x2RelaxedMin = ''visit_f64x2_relaxed_min''"
| "f64x2_visit F64x2RelaxedMax = ''visit_f64x2_relaxed_max''"

primrec v128_visit :: "v128_op \<Rightarrow> string" where
  "v128_visit V128Not = ''visit_v128_not''"
| "v128_visit V128And = ''visit_v128_and''"
| "v128_visit V128AndNot = ''visit_v128_andnot''"
| "v128_visit V128Or = ''visit_v128_or''"
| "v128_visit V128Xor = ''visit_v128_xor''"
| "v128_visit V128Bitselect = ''visit_v128_bitselect''"
| "v128_visit V128AnyTrue = ''visit_v128_any_true''"

primrec global_atomic_visit :: "global_atomic_op \<Rightarrow> string" where
  "global_atomic_visit GlobalAtomicGet = ''visit_global_atomic_get''"
| "global_atomic_visit GlobalAtomicSet = ''visit_global_atomic_set''"
| "global_atomic_visit GlobalAtomicRmwAdd = ''visit_global_atomic_rmw_add''"
| "global_atomic_visit GlobalAtomicRmwSub = ''visit_global_atomic_rmw_sub''"
| "global_atomic_visit GlobalAtomicRmwAnd = ''visit_global_atomic_rmw_and''"
| "global_atomic_visit GlobalAtomicRmwOr = ''visit_global_atomic_rmw_or''"
| "global_atomic_visit GlobalAtomicRmwXor = ''visit_global_atomic_rmw_xor''"
| "global_atomic_visit GlobalAtomicRmwXchg = ''visit_global_atomic_rmw_xchg''"
| "global_atomic_visit GlobalAtomicRmwCmpxchg = ''visit_global_atomic_rmw_cmpxchg''"

primrec table_atomic_visit :: "table_atomic_op \<Rightarrow> string" where
  "table_atomic_visit TableAtomicGet = ''visit_table_atomic_get''"
| "table_atomic_visit TableAtomicSet = ''visit_table_atomic_set''"
| "table_atomic_visit TableAtomicRmwXchg = ''visit_table_atomic_rmw_xchg''"
| "table_atomic_visit TableAtomicRmwCmpxchg = ''visit_table_atomic_rmw_cmpxchg''"

primrec struct_atomic_visit :: "struct_atomic_op \<Rightarrow> string" where
  "struct_atomic_visit StructAtomicGet = ''visit_struct_atomic_get''"
| "struct_atomic_visit StructAtomicGetS = ''visit_struct_atomic_get_s''"
| "struct_atomic_visit StructAtomicGetU = ''visit_struct_atomic_get_u''"
| "struct_atomic_visit StructAtomicSet = ''visit_struct_atomic_set''"
| "struct_atomic_visit StructAtomicRmwAdd = ''visit_struct_atomic_rmw_add''"
| "struct_atomic_visit StructAtomicRmwSub = ''visit_struct_atomic_rmw_sub''"
| "struct_atomic_visit StructAtomicRmwAnd = ''visit_struct_atomic_rmw_and''"
| "struct_atomic_visit StructAtomicRmwOr = ''visit_struct_atomic_rmw_or''"
| "struct_atomic_visit StructAtomicRmwXor = ''visit_struct_atomic_rmw_xor''"
| "struct_atomic_visit StructAtomicRmwXchg = ''visit_struct_atomic_rmw_xchg''"
| "struct_atomic_visit StructAtomicRmwCmpxchg = ''visit_struct_atomic_rmw_cmpxchg''"

primrec array_atomic_visit :: "array_atomic_op \<Rightarrow> string" where
  "array_atomic_visit ArrayAtomicGet = ''visit_array_atomic_get''"
| "array_atomic_visit ArrayAtomicGetS = ''visit_array_atomic_get_s''"
| "array_atomic_visit ArrayAtomicGetU = ''visit_array_atomic_get_u''"
| "array_atomic_visit ArrayAtomicSet = ''visit_array_atomic_set''"
| "array_atomic_visit ArrayAtomicRmwAdd = ''visit_array_atomic_rmw_add''"
| "array_atomic_visit ArrayAtomicRmwSub = ''visit_array_atomic_rmw_sub''"
| "array_atomic_visit ArrayAtomicRmwAnd = ''visit_array_atomic_rmw_and''"
| "array_atomic_visit ArrayAtomicRmwOr = ''visit_array_atomic_rmw_or''"
| "array_atomic_visit ArrayAtomicRmwXor = ''visit_array_atomic_rmw_xor''"
| "array_atomic_visit ArrayAtomicRmwXchg = ''visit_array_atomic_rmw_xchg''"
| "array_atomic_visit ArrayAtomicRmwCmpxchg = ''visit_array_atomic_rmw_cmpxchg''"

primrec operator_visit :: "operator \<Rightarrow> string" where
  "operator_visit (Control op) = control_visit op"
| "operator_visit (Reference op) = ref_visit op"
| "operator_visit (Exception op) = exn_visit op"
| "operator_visit (Gc op) = gc_visit op"
| "operator_visit (NumI32 op) = i32_visit op"
| "operator_visit (NumI64 op) = i64_visit op"
| "operator_visit (NumF32 op) = f32_visit op"
| "operator_visit (NumF64 op) = f64_visit op"
| "operator_visit (Load op _) = load_visit op"
| "operator_visit (Store op _) = store_visit op"
| "operator_visit (AtomicAccess op _) = atomic_access_visit op"
| "operator_visit (AtomicRmw op _) = atomic_rmw_visit op"
| "operator_visit AtomicFence = ''visit_atomic_fence''"
| "operator_visit (GlobalAtomic op _ _) = global_atomic_visit op"
| "operator_visit (TableAtomic op _ _) = table_atomic_visit op"
| "operator_visit (StructAtomic op _ _ _) = struct_atomic_visit op"
| "operator_visit (ArrayAtomic op _ _) = array_atomic_visit op"
| "operator_visit RefI31Shared = ''visit_ref_i31_shared''"
| "operator_visit (V128Mem op _) = v128_mem_visit op"
| "operator_visit (V128LaneMem op _ _) = v128_lane_mem_visit op"
| "operator_visit (V128Const _) = ''visit_v128_const''"
| "operator_visit (I8x16Shuffle _) = ''visit_i8x16_shuffle''"
| "operator_visit (Lane op _) = lane_visit op"
| "operator_visit (SimdI8x16 op) = i8x16_visit op"
| "operator_visit (SimdI16x8 op) = i16x8_visit op"
| "operator_visit (SimdI32x4 op) = i32x4_visit op"
| "operator_visit (SimdI64x2 op) = i64x2_visit op"
| "operator_visit (SimdF32x4 op) = f32x4_visit op"
| "operator_visit (SimdF64x2 op) = f64x2_visit op"
| "operator_visit (SimdV128 op) = v128_visit op"

end
