(* ===== verification/Module_State.thy ===== *)
theory Module_State
  imports Core_Module Validator_Visit Operator_Names
begin

text \<open>
  \<open>ModuleState\<close> of crates/wasmparser/src/validator/core.rs: the module, where its validation is in the
  order of the sections, and the validation of constant expressions.

  The state is passed explicitly; after a failure it is not used again and the model drops it. The
  field \<open>const_expr_allocs\<close> holds vectors that are cleared between uses and is left out.
\<close>

section \<open>The order of the sections\<close>

datatype section_order =
    OrderInitial | OrderType | OrderImport | OrderFunction | OrderTable | OrderMemory | OrderTag
  | OrderGlobal | OrderExport | OrderStart | OrderElement | OrderDataCount | OrderCode | OrderData

text \<open>The derived order is that of the declaration.\<close>

fun order_rank :: "section_order \<Rightarrow> nat" where
  "order_rank OrderInitial = 0" | "order_rank OrderType = 1" | "order_rank OrderImport = 2"
| "order_rank OrderFunction = 3" | "order_rank OrderTable = 4" | "order_rank OrderMemory = 5"
| "order_rank OrderTag = 6" | "order_rank OrderGlobal = 7" | "order_rank OrderExport = 8"
| "order_rank OrderStart = 9" | "order_rank OrderElement = 10" | "order_rank OrderDataCount = 11"
| "order_rank OrderCode = 12" | "order_rank OrderData = 13"

lemma order_rank_inj: "order_rank a = order_rank b \<Longrightarrow> a = b"
  by (cases a; cases b) simp_all

instantiation section_order :: linorder
begin

definition less_eq_section_order :: "section_order \<Rightarrow> section_order \<Rightarrow> bool" where
  "a \<le> b \<longleftrightarrow> order_rank a \<le> order_rank b"

definition less_section_order :: "section_order \<Rightarrow> section_order \<Rightarrow> bool" where
  "a < b \<longleftrightarrow> order_rank a < order_rank b"

instance
  by standard (auto simp: less_eq_section_order_def less_section_order_def intro: order_rank_inj)

end

section \<open>The state\<close>

text \<open>\<open>module\<close> is a \<open>MaybeOwned\<close>: \<open>ms_shared\<close> says that it is behind an \<open>Arc\<close> and cannot be changed.\<close>

record module_state =
  ms_module :: core_module
  ms_shared :: bool
  ms_order :: section_order
  data_segment_count :: u32
  expected_code_bodies :: "u32 option"
  code_section_index :: "usize option"

definition module_state_default :: module_state where
  "module_state_default =
     \<lparr>ms_module = module_default, ms_shared = False, ms_order = OrderInitial, data_segment_count = 0,
      expected_code_bodies = None, code_section_index = None\<rparr>"

definition assert_mut :: "module_state \<Rightarrow> failure + core_module" where
  "assert_mut ms = (if ms_shared ms then Inl Panicked else Inr (ms_module ms))"

text \<open>\<open>self.module.assert_mut().f(..)\<close>\<close>

definition on_module :: "(core_module \<Rightarrow> failure + core_module) \<Rightarrow> module_state \<Rightarrow> failure + module_state" where
  "on_module f ms = bind_res (assert_mut ms) (\<lambda>m. bind_res (f m) (\<lambda>m. Inr (ms\<lparr>ms_module := m\<rparr>)))"

definition make_shared :: "module_state \<Rightarrow> module_state" where
  "make_shared ms = ms\<lparr>ms_shared := True\<rparr>"

definition update_order :: "section_order \<Rightarrow> usize \<Rightarrow> module_state \<Rightarrow> failure + module_state" where
  "update_order order off ms =
     (if ms_order ms \<ge> order then fail_at off ''section out of order''
      else Inr (ms\<lparr>ms_order := order\<rparr>))"

definition validate_end :: "usize \<Rightarrow> module_state \<Rightarrow> failure + unit" where
  "validate_end off ms =
     bind_res (case module_data_count (ms_module ms) of
         Some n \<Rightarrow> require off (\<not> n \<noteq> data_segment_count ms)
           ''data count and data section have inconsistent lengths''
       | None \<Rightarrow> Inr ()) (\<lambda>_.
     case expected_code_bodies ms of
       Some n \<Rightarrow> require off (\<not> n > 0) ''function and code section have inconsistent lengths''
     | None \<Rightarrow> Inr ())"

definition next_code_index_and_type :: "usize \<Rightarrow> module_state \<Rightarrow> failure + ((u32 \<times> u32) \<times> module_state)" where
  "next_code_index_and_type off ms =
     (let index = (case code_section_index ms of
          Some i \<Rightarrow> i
        | None \<Rightarrow> unat (num_imported_functions (ms_module ms))) in
      if index \<ge> length (module_functions (ms_module ms))
      then fail_at off ''code section entry exceeds number of functions''
      else Inr ((of_nat index, module_functions (ms_module ms) ! index),
        ms\<lparr>code_section_index := Some (index + 1)\<rparr>))"

section \<open>Constant expressions\<close>

record const_visitor =
  cv_ops :: operator_validator
  cv_state :: module_state
  uninserted_funcref :: bool

text \<open>What \<open>define_visit_operator\<close> does with an operator: it is always allowed, allowed with a feature
  that is checked under the name of the operator, one of the two that need more, or not constant.\<close>

datatype const_class = ConstAlways | ConstWith wasm_feature string | ConstGlobal u32 | ConstFunc u32 | ConstNever

definition const_control :: "(block_type, br_table) control_op \<Rightarrow> const_class" where
  "const_control op =
     (case op of
        I32Const _ \<Rightarrow> ConstAlways | I64Const _ \<Rightarrow> ConstAlways
      | F32Const _ \<Rightarrow> ConstAlways | F64Const _ \<Rightarrow> ConstAlways
      | End \<Rightarrow> ConstAlways
      | GlobalGet idx \<Rightarrow> ConstGlobal idx
      | _ \<Rightarrow> ConstNever)"

definition const_reference :: "(val_type, heap_type) ref_op \<Rightarrow> const_class" where
  "const_reference op =
     (case op of RefNull _ \<Rightarrow> ConstAlways | RefFunc idx \<Rightarrow> ConstFunc idx | _ \<Rightarrow> ConstNever)"

definition const_i32 :: "i32_op \<Rightarrow> const_class" where
  "const_i32 op =
     (case op of
        I32Add \<Rightarrow> ConstWith EXTENDED_CONST ''i32.add''
      | I32Sub \<Rightarrow> ConstWith EXTENDED_CONST ''i32.sub''
      | I32Mul \<Rightarrow> ConstWith EXTENDED_CONST ''i32.mul''
      | _ \<Rightarrow> ConstNever)"

definition const_i64 :: "i64_op \<Rightarrow> const_class" where
  "const_i64 op =
     (case op of
        I64Add \<Rightarrow> ConstWith EXTENDED_CONST ''i64.add''
      | I64Sub \<Rightarrow> ConstWith EXTENDED_CONST ''i64.sub''
      | I64Mul \<Rightarrow> ConstWith EXTENDED_CONST ''i64.mul''
      | _ \<Rightarrow> ConstNever)"

definition const_gc :: "(heap_type, ref_type) gc_op \<Rightarrow> const_class" where
  "const_gc op =
     (case op of
        StructNew _ \<Rightarrow> ConstWith GC ''struct.new''
      | StructNewDefault _ \<Rightarrow> ConstWith GC ''struct.new_default''
      | ArrayNew _ \<Rightarrow> ConstWith GC ''array.new''
      | ArrayNewDefault _ \<Rightarrow> ConstWith GC ''array.new_default''
      | ArrayNewFixed _ _ \<Rightarrow> ConstWith GC ''array.new_fixed''
      | RefI31 \<Rightarrow> ConstWith GC ''ref.i31''
      | _ \<Rightarrow> ConstNever)"

definition const_rule :: "operator \<Rightarrow> const_class" where
  "const_rule op =
     (case op of
        Control op \<Rightarrow> const_control op
      | Reference op \<Rightarrow> const_reference op
      | NumI32 op \<Rightarrow> const_i32 op
      | NumI64 op \<Rightarrow> const_i64 op
      | Gc op \<Rightarrow> const_gc op
      | RefI31Shared \<Rightarrow> ConstWith SHARED_EVERYTHING_THREADS ''ref.i31_shared''
      | V128Const _ \<Rightarrow> ConstAlways
      | _ \<Rightarrow> ConstNever)"

definition not_const :: "usize \<Rightarrow> string \<Rightarrow> failure + 'a" where
  "not_const off instr = fail_at off (''constant expression required: non-constant operator: '' @ instr)"

definition validate_global :: "usize \<Rightarrow> wasm_features \<Rightarrow> u32 \<Rightarrow> core_module \<Rightarrow> failure + unit" where
  "validate_global off fs index m =
     bind_res (module_global_at m index off) (\<lambda>global.
     bind_res (require off (\<not> (index \<ge> num_imported_globals m \<and> GC \<notin> fs))
       ''constant expression required: global.get of locally defined global'') (\<lambda>_.
     require off (\<not> global_mutable global)
       ''constant expression required: global.get of mutable global''))"

definition insert_reference :: "u32 \<Rightarrow> core_module \<Rightarrow> core_module" where
  "insert_reference index m = m\<lparr>function_references := insert index (function_references m)\<rparr>"

text \<open>\<open>self.order\<close> is the order of the state the visitor was made from.\<close>

definition insert_ref_func :: "u32 \<Rightarrow> const_visitor \<Rightarrow> failure + const_visitor" where
  "insert_ref_func index v =
     (if ms_order (cv_state v) = OrderData then Inr (v\<lparr>uninserted_funcref := True\<rparr>)
      else bind_res (on_module (\<lambda>m. Inr (insert_reference index m)) (cv_state v)) (\<lambda>ms.
        Inr (v\<lparr>cv_state := ms\<rparr>)))"

text \<open>\<open>self.validator().visit_..(..)\<close>\<close>

definition const_validator :: "type_list \<Rightarrow> usize \<Rightarrow> operator \<Rightarrow> const_visitor \<Rightarrow> failure + const_visitor" where
  "const_validator ts off op v =
     bind_res (visit_proposal
       \<lparr>offset = off, resources = operator_validator_resources ts (ms_module (cv_state v))\<rparr> op (cv_ops v))
       (\<lambda>(_, ops). Inr (v\<lparr>cv_ops := ops\<rparr>))"

definition visit_const ::
  "wasm_features \<Rightarrow> type_list \<Rightarrow> usize \<Rightarrow> operator \<Rightarrow> const_visitor \<Rightarrow> failure + const_visitor" where
  "visit_const fs ts off op v =
     (case const_rule op of
        ConstAlways \<Rightarrow> const_validator ts off op v
      | ConstWith f name \<Rightarrow>
          if f \<in> fs then const_validator ts off op v else not_const off name
      | ConstGlobal idx \<Rightarrow>
          bind_res (validate_global off fs idx (ms_module (cv_state v))) (\<lambda>_. const_validator ts off op v)
      | ConstFunc idx \<Rightarrow> bind_res (insert_ref_func idx v) (const_validator ts off op)
      | ConstNever \<Rightarrow> not_const off (operator_visit op))"

text \<open>The loop \<open>while !ops.eof()\<close>. The result is the visitor and the final position.\<close>

function const_loop ::
  "wasm_features \<Rightarrow> type_list \<Rightarrow> binary_reader \<Rightarrow> const_visitor \<Rightarrow> failure + (const_visitor \<times> usize)" where
  "const_loop fs ts r v =
     (if eof r then Inr (v, original_position r)
      else case read_operator r of
          Inl e \<Rightarrow> Inl (Failed e)
        | Inr (op, r') \<Rightarrow> bind_res (visit_const fs ts (original_position r) op v) (const_loop fs ts r'))"
  by pat_completeness auto
termination
  by (relation "measure (\<lambda>(_, _, r, _). bytes_remaining r)")
    (auto dest: bytes_remaining_decreases simp: eq_commute)

declare const_loop.simps [simp del]

definition check_const_expr ::
  "const_expr \<Rightarrow> val_type \<Rightarrow> wasm_features \<Rightarrow> type_list \<Rightarrow> module_state \<Rightarrow> failure + module_state" where
  "check_const_expr expr expected_ty fs ts ms =
     bind_res (const_loop fs ts (ce_reader expr)
       \<lparr>cv_ops = new_const_expr fs expected_ty, cv_state = ms, uninserted_funcref = False\<rparr>) (\<lambda>(v, pos).
     bind_res (finish pos (cv_ops v)) (\<lambda>_.
     if uninserted_funcref v then Inl Panicked else Inr (cv_state v)))"

section \<open>Globals, tables and segments\<close>

definition add_global ::
  "wasm_global \<Rightarrow> wasm_features \<Rightarrow> type_list \<Rightarrow> usize \<Rightarrow> module_state \<Rightarrow> failure + module_state" where
  "add_global global fs ts off ms =
     bind_res (check_global_type (ms_module ms) (wg_ty global) fs ts off) (\<lambda>ty.
     bind_res (check_const_expr (wg_init_expr global) (content_type ty) fs ts ms)
     (on_module (\<lambda>m. Inr (m\<lparr>module_globals := module_globals m @ [ty]\<rparr>))))"

definition add_table ::
  "wasm_table \<Rightarrow> wasm_features \<Rightarrow> type_list \<Rightarrow> usize \<Rightarrow> module_state \<Rightarrow> failure + module_state" where
  "add_table table fs ts off ms =
     bind_res (check_table_type (ms_module ms) (wt_ty table) fs ts off) (\<lambda>ty.
     bind_res (case wt_init table of
         TableRefNull \<Rightarrow>
           bind_res (require off (is_nullable (table_element_type ty))
             ''type mismatch: non-defaultable element type'') (\<lambda>_. Inr ms)
       | TableExpr expr \<Rightarrow>
           bind_res (require off (FUNCTION_REFERENCES \<in> fs)
             (''tables with expression initializers require '' @ ''the function-references proposal'')) (\<lambda>_.
           check_const_expr expr (Ref (table_element_type ty)) fs ts ms))
     (on_module (\<lambda>m. Inr (m\<lparr>module_tables := module_tables m @ [ty]\<rparr>))))"

definition add_data_segment ::
  "wasm_data \<Rightarrow> wasm_features \<Rightarrow> type_list \<Rightarrow> usize \<Rightarrow> module_state \<Rightarrow> failure + module_state" where
  "add_data_segment data fs ts off ms =
     (case wd_kind data of
        DataPassive \<Rightarrow> Inr ms
      | DataActive memory_index offset_expr \<Rightarrow>
          bind_res (module_memory_at (ms_module ms) memory_index off) (\<lambda>mem.
          check_const_expr offset_expr (memory_index_type mem) fs ts ms))"

text \<open>The loop \<open>for item in section { f(item?)?; }\<close>.\<close>

function for_items :: "'a rd \<Rightarrow> ('a \<Rightarrow> 's \<Rightarrow> failure + 's) \<Rightarrow> section_iter \<Rightarrow> 's \<Rightarrow> failure + 's" where
  "for_items read f it s =
     (case section_next read it of
        (None, _) \<Rightarrow> Inr s
      | (Some (Inl e), _) \<Rightarrow> Inl (Failed e)
      | (Some (Inr x), it') \<Rightarrow> bind_res (f x s) (for_items read f it'))"
  by pat_completeness auto
termination
  by (relation "measure (\<lambda>(_, _, it, _). unat (si_remaining it))") (auto dest: section_next_decreases [OF sym])

declare for_items.simps [simp del]

definition for_section :: "'a rd \<Rightarrow> ('a \<Rightarrow> 's \<Rightarrow> failure + 's) \<Rightarrow> section_limited \<Rightarrow> 's \<Rightarrow> failure + 's" where
  "for_section read f sec = for_items read f (section_into_iter sec)"

definition validate_count :: "usize \<Rightarrow> u32 \<Rightarrow> failure + unit" where
  "validate_count off count =
     require off (\<not> count > of_nat MAX_WASM_TABLE_ENTRIES) ''number of elements is out of bounds''"

definition add_element_function :: "type_list \<Rightarrow> usize \<times> u32 \<Rightarrow> module_state \<Rightarrow> failure + module_state" where
  "add_element_function ts item ms =
     (case item of (off, f) \<Rightarrow>
       bind_res (get_func_type (ms_module ms) ts f off) (\<lambda>_.
       on_module (\<lambda>m. Inr (insert_reference f m)) ms))"

definition check_element_kind ::
  "element_kind \<Rightarrow> ref_type \<Rightarrow> wasm_features \<Rightarrow> type_list \<Rightarrow> usize \<Rightarrow> module_state \<Rightarrow> failure + module_state" where
  "check_element_kind kind element_ty fs ts off ms =
     (case kind of
        ElementActive table_index offset_expr \<Rightarrow>
          bind_res (module_table_at (ms_module ms) (case table_index of Some i \<Rightarrow> i | None \<Rightarrow> 0) off) (\<lambda>table.
          bind_res (ok_or Panicked (reftype_is_subtype ts element_ty (table_element_type table))) (\<lambda>sub.
          bind_res (require off sub (''type mismatch: invalid element type `'' @ ty_to_str (Ref element_ty)
            @ ''` for table type `'' @ ty_to_str (Ref (table_element_type table)) @ ''`'')) (\<lambda>_.
          check_const_expr offset_expr (table_index_type table) fs ts ms)))
      | _ \<Rightarrow> bind_res (require off (BULK_MEMORY \<in> fs) ''bulk memory must be enabled'') (\<lambda>_. Inr ms))"

definition add_element_items ::
  "element_items \<Rightarrow> ref_type \<Rightarrow> wasm_features \<Rightarrow> type_list \<Rightarrow> usize \<Rightarrow> module_state \<Rightarrow> failure + module_state" where
  "add_element_items items element_ty fs ts off ms =
     (case items of
        ElementFunctions reader \<Rightarrow>
          bind_res (validate_count off (sl_count reader)) (\<lambda>_.
          for_section (with_offset read_var_u32) (add_element_function ts) reader ms)
      | ElementExpressions _ reader \<Rightarrow>
          bind_res (validate_count off (sl_count reader)) (\<lambda>_.
          for_section read_const_expr (\<lambda>expr. check_const_expr expr (Ref element_ty) fs ts) reader ms))"

text \<open>The type of a list of expressions is changed in place; \<open>element_ty\<close> is the changed type.\<close>

definition add_element_segment ::
  "wasm_element \<Rightarrow> wasm_features \<Rightarrow> type_list \<Rightarrow> usize \<Rightarrow> module_state \<Rightarrow> failure + module_state" where
  "add_element_segment e fs ts off ms =
     bind_res (case we_items e of
         ElementFunctions _ \<Rightarrow> Inr ref_FUNC
       | ElementExpressions ty _ \<Rightarrow> module_check_ref_type (ms_module ms) ty fs off) (\<lambda>element_ty.
     bind_res (check_element_kind (we_kind e) element_ty fs ts off ms) (\<lambda>ms.
     bind_res (add_element_items (we_items e) element_ty fs ts off ms)
     (on_module (\<lambda>m. Inr (m\<lparr>module_element_types := module_element_types m @ [element_ty]\<rparr>)))))"

end
