(* ===== verification/Operator_Arity.thy ===== *)
theory Operator_Arity
  imports Validator_Visit
begin

text \<open>
  The arity of an operator, how many operands it pops and pushes: crates/wasmparser/src/arity.rs,
  and the implementation of \<open>ModuleArity\<close> for the validator
  (crates/wasmparser/src/validator/operators.rs).

  The trait is a record of its methods. The result of a method that can panic is wrapped once more:
  \<open>None\<close> is a panic, \<open>Some None\<close> the value \<open>None\<close> of the code. The arithmetic of the macro
  \<open>operator_arity!\<close> is on \<open>i32\<close>: the counts are cast, and an overflow of the sum panics.
\<close>

section \<open>The trait\<close>

definition bind_opt :: "'a option option \<Rightarrow> ('a \<Rightarrow> 'b option option) \<Rightarrow> 'b option option" where
  "bind_opt x f = (case x of Some (Some y) \<Rightarrow> f y | Some None \<Rightarrow> Some None | None \<Rightarrow> None)"

lemma bind_opt_simps [simp]:
  "bind_opt None f = None" "bind_opt (Some None) f = Some None" "bind_opt (Some (Some y)) f = f y"
  by (simp_all add: bind_opt_def)

record module_arity =
  mod_sub_type_at :: "u32 \<Rightarrow> sub_type option option"
  mod_tag_type_arity :: "u32 \<Rightarrow> (u32 \<times> u32) option option"
  mod_type_index_of_function :: "u32 \<Rightarrow> u32 option"
  mod_func_type_of_cont_type :: "cont_type \<Rightarrow> func_type option option"
  mod_sub_type_of_ref_type :: "ref_type \<Rightarrow> sub_type option option"
  mod_control_stack_height :: u32
  mod_label_block :: "u32 \<Rightarrow> (block_type \<times> frame_kind) option"

definition func_arity :: "func_type \<Rightarrow> u32 \<times> u32" where
  "func_arity f = (of_nat (length (func_params f)), of_nat (length (func_results f)))"

definition sub_type_arity :: "module_arity \<Rightarrow> sub_type \<Rightarrow> (u32 \<times> u32) option option" where
  "sub_type_arity m t =
     (case comp_inner (composite_type t) of
        CompFunc f \<Rightarrow> Some (Some (func_arity f))
      | CompStruct (StructType flds) \<Rightarrow>
          Some (Some (of_nat (length flds), of_nat (length flds)))
      | CompArray _ \<Rightarrow> Some None
      | CompCont c \<Rightarrow>
          bind_opt (mod_func_type_of_cont_type m c) (\<lambda>f. Some (Some (func_arity f))))"

definition block_type_arity :: "module_arity \<Rightarrow> block_type \<Rightarrow> (u32 \<times> u32) option option" where
  "block_type_arity m ty =
     (case ty of
        BlockEmpty \<Rightarrow> Some (Some (0, 0))
      | BlockResult _ \<Rightarrow> Some (Some (0, 1))
      | BlockFuncType t \<Rightarrow> bind_opt (mod_sub_type_at m t) (sub_type_arity m))"

section \<open>The macro\<close>

fun fixed_arity :: "fixed_category \<Rightarrow> u32 \<times> u32" where
  "fixed_arity CatLoadLane = (2, 1)"
| "fixed_arity CatLoad = (1, 1)"
| "fixed_arity CatStore = (2, 0)"
| "fixed_arity CatTest = (1, 1)"
| "fixed_arity CatUnary = (1, 1)"
| "fixed_arity CatBinary = (2, 1)"
| "fixed_arity CatCmp = (2, 1)"
| "fixed_arity CatShift = (2, 1)"
| "fixed_arity CatSplat = (1, 1)"
| "fixed_arity CatTernary = (3, 1)"
| "fixed_arity CatConversion = (1, 1)"
| "fixed_arity CatPush = (0, 1)"
| "fixed_arity CatExtract = (1, 1)"
| "fixed_arity CatReplace = (2, 1)"
| "fixed_arity CatAtomicRmwArray = (3, 1)"
| "fixed_arity CatAtomicRmw = (2, 1)"
| "fixed_arity CatAtomicCmpxchg = (3, 1)"

definition checked_sub :: "u32 \<Rightarrow> u32 \<Rightarrow> u32 option" where
  "checked_sub a b = (if b \<le> a then Some (a - b) else None)"

definition is_cont :: "sub_type \<Rightarrow> cont_type option" where
  "is_cont st = (case comp_inner (composite_type st) of CompCont c \<Rightarrow> Some c | _ \<Rightarrow> None)"

definition last_param_ref :: "func_type \<Rightarrow> ref_type option" where
  "last_param_ref f =
     (if func_params f = [] then None
      else case last (func_params f) of Ref rt \<Rightarrow> Some rt | _ \<Rightarrow> None)"

fun count_arity :: "module_arity \<Rightarrow> category \<Rightarrow> (u32 \<times> u32) option option" where
  "count_arity m (CatTag tag) = mod_tag_type_arity m tag"
| "count_arity m (CatFunc func) =
     bind_opt (Some (mod_type_index_of_function m func)) (\<lambda>ty.
     bind_opt (mod_sub_type_at m ty) (sub_type_arity m))"
| "count_arity m (CatType ty) = bind_opt (mod_sub_type_at m ty) (sub_type_arity m)"
| "count_arity m (CatSwitch ty) =
     bind_opt (mod_sub_type_at m ty) (\<lambda>st.
     bind_opt (Some (is_cont st)) (\<lambda>ct.
     bind_opt (mod_func_type_of_cont_type m ct) (\<lambda>f.
     bind_opt (Some (last_param_ref f)) (\<lambda>rt.
     bind_opt (mod_sub_type_of_ref_type m rt) (sub_type_arity m)))))"
| "count_arity m (CatTypeDiff ty1 ty2) =
     bind_opt (bind_opt (mod_sub_type_at m ty1) (sub_type_arity m)) (\<lambda>a.
     bind_opt (bind_opt (mod_sub_type_at m ty2) (sub_type_arity m)) (\<lambda>b.
     bind_opt (Some (checked_sub (fst a) (fst b))) (\<lambda>d0.
     bind_opt (Some (checked_sub (snd a) (snd b))) (\<lambda>d1. Some (Some (d0, d1))))))"
| "count_arity m (CatSize sz) = Some (Some (sz, sz))"
| "count_arity m (CatBr depth) =
     bind_opt (Some (mod_label_block m depth)) (\<lambda>(ty, kind).
     bind_opt (block_type_arity m ty) (\<lambda>(params, results).
     let n = (case kind of FrameLoop \<Rightarrow> params | _ \<Rightarrow> results) in Some (Some (n, n))))"
| "count_arity m CatRet =
     bind_opt (Some (checked_sub (mod_control_stack_height m) 1)) (\<lambda>x.
     bind_opt (Some (mod_label_block m x)) (\<lambda>(ty, _). block_type_arity m ty))"
| "count_arity m (CatBlock blockty) = block_type_arity m blockty"
| "count_arity m CatImplicitElse =
     bind_opt (Some (mod_label_block m 0)) (\<lambda>(ty, kind).
     bind_opt (block_type_arity m ty) (\<lambda>(params, results).
     Some (Some (case kind of FrameIf \<Rightarrow> (results, params) | _ \<Rightarrow> (0, 0)))))"
| "count_arity m CatEnd =
     bind_opt (Some (mod_label_block m 0)) (\<lambda>(ty, _). block_type_arity m ty)"

definition add_i32 :: "int \<Rightarrow> int \<Rightarrow> int option option" where
  "add_i32 x y = (if - (2 ^ 31) \<le> x + y \<and> x + y < 2 ^ 31 then Some (Some (x + y)) else None)"

definition add_pairs :: "int \<times> int \<Rightarrow> int \<times> int \<Rightarrow> (int \<times> int) option option" where
  "add_pairs x y =
     bind_opt (add_i32 (fst x) (fst y)) (\<lambda>a. bind_opt (add_i32 (snd x) (snd y)) (\<lambda>b. Some (Some (a, b))))"

text \<open>\<open>x as i32\<close>\<close>

definition as_i32 :: "u32 \<Rightarrow> int" where
  "as_i32 x = sint x"

fun sum_tokens :: "module_arity \<Rightarrow> arity_token list \<Rightarrow> (int \<times> int) option option" where
  "sum_tokens m [] = Some (Some (0, 0))"
| "sum_tokens m (Lit v # ts) = bind_opt (sum_tokens m ts) (\<lambda>rest. add_pairs (v, v) rest)"
| "sum_tokens m (Cat c # ts) =
     bind_opt (count_arity m c) (\<lambda>(a, b).
     bind_opt (sum_tokens m ts) (\<lambda>rest. add_pairs (as_i32 a, as_i32 b) rest))"
| "sum_tokens m (Swap c # ts) =
     bind_opt (count_arity m c) (\<lambda>(a, b).
     bind_opt (sum_tokens m ts) (\<lambda>rest. add_pairs (as_i32 b, as_i32 a) rest))"

definition operator_arity :: "module_arity \<Rightarrow> operator \<Rightarrow> (u32 \<times> u32) option option" where
  "operator_arity m op =
     (case snd (operator_info op) of
        Fixed cat \<Rightarrow> Some (Some (fixed_arity cat))
      | Arity ps rs \<Rightarrow>
          (case sum_tokens m ps of
             None \<Rightarrow> None
           | Some params \<Rightarrow>
               (case sum_tokens m rs of
                  None \<Rightarrow> None
                | Some results \<Rightarrow>
                    Some (case (params, results) of
                        (Some (a, _), Some (_, d)) \<Rightarrow>
                          (if a \<ge> 0 \<and> d \<ge> 0 then Some (of_int a, of_int d) else None)
                      | _ \<Rightarrow> None))))"

section \<open>The validator as a \<open>ModuleArity\<close>\<close>

text \<open>\<open>.ok()\<close>: an error is forgotten, a panic is not.\<close>

definition ok :: "failure + ('a \<times> operator_validator) \<Rightarrow> 'a option option" where
  "ok x = (case x of Inr (v, _) \<Rightarrow> Some (Some v) | Inl Panicked \<Rightarrow> None | Inl (Failed _) \<Rightarrow> Some None)"

definition validator_arity :: "op_cx \<Rightarrow> operator_validator \<Rightarrow> module_arity" where
  "validator_arity cx s =
     \<lparr>mod_sub_type_at = (\<lambda>ty. ok (sub_type_at_ov cx ty s)),
      mod_tag_type_arity = (\<lambda>at.
        map_option (map_option func_arity) (tag_at (resources cx) at)),
      mod_type_index_of_function = type_index_of_function (resources cx),
      mod_func_type_of_cont_type = (\<lambda>c. ok (func_type_of_cont_type cx c s)),
      mod_sub_type_of_ref_type = (\<lambda>rt.
        bind_opt (Some (Option.bind (type_index rt) packed_as_core_type_id)) (\<lambda>tid.
        map_option Some (sub_type_at_id (resources cx) tid))),
      mod_control_stack_height = of_nat (length (control s)),
      mod_label_block = (\<lambda>depth. Option.bind (ok (jump cx depth s)) id)\<rparr>"

text \<open>\<open>BinaryReader::operator_arity\<close>: the arity of the operator that comes next.\<close>

definition reader_operator_arity :: "module_arity \<Rightarrow> binary_reader \<Rightarrow> (u32 \<times> u32) result option" where
  "reader_operator_arity m r =
     (case read_operator r of
        Inl e \<Rightarrow> Some (Inl e)
      | Inr (op, _) \<Rightarrow>
          (case operator_arity m op of
             None \<Rightarrow> None
           | Some None \<Rightarrow> Some (Inl (error_new ''operator arity is unknown'' (original_position r)))
           | Some (Some a) \<Rightarrow> Some (Inr a)))"

end
