(* ===== verification/Validator_Effects.thy ===== *)
theory Validator_Effects
  imports Operator_Arity
begin

text \<open>
  What a successful step of the validator does to its counters and to its control stack. The
  predicate \<open>effect n p m\<close> says that \<open>m\<close>, when it succeeds, counts \<open>n\<close> pops and \<open>p\<close> pushes, and keeps
  the frames of the control stack, but for their reachability, and what is fixed for a function. Its
  rules follow the structure of the code; the operators that pop as many operands as a type says
  have their own lemmas.
\<close>

section \<open>The predicate\<close>

definition frame_label :: "frame \<Rightarrow> frame_kind \<times> block_type \<times> usize \<times> usize" where
  "frame_label f = (fr_kind f, fr_block_type f, fr_height f, fr_init_height f)"

definition same_frames :: "operator_validator \<Rightarrow> operator_validator \<Rightarrow> bool" where
  "same_frames s s' \<longleftrightarrow>
     map frame_label (control s') = map frame_label (control s)
     \<and> ov_features s' = ov_features s \<and> ov_shared s' = ov_shared s \<and> ov_locals s' = ov_locals s
     \<and> end_which_emptied_control s' = end_which_emptied_control s"

definition counted :: "nat \<Rightarrow> nat \<Rightarrow> operator_validator \<Rightarrow> operator_validator \<Rightarrow> bool" where
  "counted n p s s' \<longleftrightarrow>
     pop_push_count s' = (fst (pop_push_count s) + n, snd (pop_push_count s) + p)"

definition effect :: "nat \<Rightarrow> nat \<Rightarrow> 'a ov \<Rightarrow> bool" where
  "effect n p m \<longleftrightarrow> (\<forall>s x s'. m s = Inr (x, s') \<longrightarrow> counted n p s s' \<and> same_frames s s')"

lemma same_frames_refl [simp]: "same_frames s s"
  by (simp add: same_frames_def)

lemma same_frames_trans: "same_frames s s' \<Longrightarrow> same_frames s' s'' \<Longrightarrow> same_frames s s''"
  by (simp add: same_frames_def)

lemma counted_refl [simp]: "counted 0 0 s s"
  by (simp add: counted_def)

lemma counted_trans: "counted n p s s' \<Longrightarrow> counted n' p' s' s'' \<Longrightarrow> counted (n + n') (p + p') s s''"
  by (simp add: counted_def)

lemma effectD:
  assumes "effect n p m" "m s = Inr (x, s')"
  shows "counted n p s s'" "same_frames s s'"
  using assms by (auto simp: effect_def)

lemma bind_ov_InrE:
  assumes "bind_ov m f s = Inr (y, s')"
  obtains x s1 where "m s = Inr (x, s1)" "f x s1 = Inr (y, s')"
  using assms by (auto simp: bind_ov_def split: sum.splits)

section \<open>Rules\<close>

named_theorems effects

lemma effect_return [effects]: "effect 0 0 (return_ov x)"
  by (simp add: effect_def return_ov_def)

lemma effect_panic [effects]: "effect n p panic_ov"
  by (simp add: effect_def panic_ov_def)

lemma effect_bail [effects]: "effect n p (bail cx msg)"
  by (simp add: effect_def bail_def)

lemma effect_get [effects]: "effect 0 0 (get_ov f)"
  by (simp add: effect_def get_ov_def)

lemma effect_bind [effects]:
  assumes "effect n p m" "\<And>x. effect n' p' (f x)" "k = n + n'" "l = p + p'"
  shows "effect k l (bind_ov m f)"
  unfolding effect_def
proof (intro allI impI)
  fix s y s'
  assume "bind_ov m f s = Inr (y, s')"
  then obtain x s1 where run: "m s = Inr (x, s1)" "f x s1 = Inr (y, s')"
    by (rule bind_ov_InrE)
  have "counted n p s s1" "same_frames s s1" by (rule effectD [OF assms(1) run(1)])+
  moreover have "counted n' p' s1 s'" "same_frames s1 s'" by (rule effectD [OF assms(2) run(2)])+
  ultimately show "counted k l s s' \<and> same_frames s s'"
    unfolding assms(3,4) by (meson counted_trans same_frames_trans)
qed

lemma effect_call [effects]: "effect 0 0 (call_ov x)"
  by (cases x) (simp_all add: call_ov_def effects)

lemma effect_try [effects]: "effect 0 0 (try_ov x)"
  unfolding try_ov_def
  by (rule effect_bind [OF effect_call]) (auto simp: effect_def split: sum.splits)

lemma effect_ensure [effects]: "effect 0 0 (ensure cx b msg)"
  by (simp add: ensure_def effects)

lemma effect_steps_Nil [effects]: "effect 0 0 (steps [])"
  by (simp add: effects)

lemma effect_steps_Cons [effects]:
  assumes "effect n p m" "effect n' p' (steps ms)" "k = n + n'" "l = p + p'"
  shows "effect k l (steps (m # ms))"
  unfolding steps.simps by (rule effect_bind [OF assms])

lemma effect_ignore [effects]: "effect n p m \<Longrightarrow> effect n p (ignore m)"
  unfolding ignore_def by (rule effect_bind [OF _ effect_return]) simp_all

lemma effect_if [effects]:
  "(c \<Longrightarrow> effect n p m) \<Longrightarrow> (\<not> c \<Longrightarrow> effect n p m') \<Longrightarrow> effect n p (if c then m else m')"
  by simp

lemma effect_case_prod [effects]:
  "(\<And>a b. effect n p (f a b)) \<Longrightarrow> effect n p (case x of (a, b) \<Rightarrow> f a b)"
  by (cases x) simp

lemma effect_steps_map:
  assumes "\<And>x. effect n p (f x)"
  shows "effect (length xs * n) (length xs * p) (steps (map f xs))"
  by (induction xs) (simp_all add: effects effect_bind [OF assms])

lemma effect_steps_map_0 [effects]:
  assumes "\<And>x. effect 0 0 (f x)"
  shows "effect 0 0 (steps (map f xs))"
  using effect_steps_map [OF assms, of xs] by simp

lemma effect_keep_counts:
  assumes "\<And>s x s'. m s = Inr (x, s') \<Longrightarrow> pop_push_count s' = pop_push_count s \<and> same_frames s s'"
  shows "effect 0 0 m"
  using assms by (fastforce simp: effect_def counted_def)

section \<open>The operand stack\<close>

lemma effect_last_control [effects]: "effect 0 0 (last_control cx)"
  by (auto simp: effect_def last_control_def split: list.splits)

lemma effect_record_pop [effects]: "effect 1 0 record_pop"
  by (simp add: effect_def record_pop_def modify_ov_def counted_def same_frames_def apfst_def map_prod_def
    split: prod.splits)

lemma effect_record_push [effects]: "effect 0 1 record_push"
  by (simp add: effect_def record_push_def modify_ov_def counted_def same_frames_def apsnd_def map_prod_def
    split: prod.splits)

lemma effect_debug_assert_ids [effects]: "effect 0 0 (debug_assert_type_indices_are_ids ty)"
  by (simp add: debug_assert_type_indices_are_ids_def effects)

lemma effect_set_operands [effects]: "effect 0 0 (modify_ov (\<lambda>s. s\<lparr>operands := g s\<rparr>))"
  by (rule effect_keep_counts) (auto simp: modify_ov_def same_frames_def)

lemma effect_push_maybe [effects]: "effect 0 1 (push_maybe ty)"
  unfolding push_maybe_def by (rule effects | simp)+

lemma effect_push_operand [effects]: "effect 0 1 (push_operand ty)"
  unfolding push_operand_def by (rule effects)

lemma effect_match_expected [effects]: "effect 0 0 (match_expected cx actual expected)"
  unfolding match_expected_def
  by (auto split: maybe_type.split val_type.split option.split intro!: effects)

lemma effect_slow_pop [effects]: "effect 1 0 (slow_pop_operand cx expected popped)"
proof -
  have put_back: "effect 0 0 (modify_ov (\<lambda>s.
      case popped of None \<Rightarrow> s | Some ty \<Rightarrow> s\<lparr>operands := ty # operands s\<rparr>))"
    by (rule effect_keep_counts) (auto simp: modify_ov_def same_frames_def split: option.splits)
  have take: "effect 0 0 (\<lambda>s.
      if length (operands s) = fr_height c \<and> fr_unreachable c then Inr (Bottom, s)
      else if length (operands s) = fr_height c then bail cx msg s
      else case operands s of
        [] \<Rightarrow> Inl Panicked
      | ty # rest \<Rightarrow> Inr (ty, s\<lparr>operands := rest\<rparr>))" for c msg
    by (rule effect_keep_counts)
      (auto simp: bail_def same_frames_def split: if_splits list.splits)
  have check: "effect 0 0 (case expected of Some ty \<Rightarrow> match_expected cx actual ty
      | None \<Rightarrow> return_ov ())" for actual
    by (auto split: option.split intro: effects)
  show ?thesis
    unfolding slow_pop_operand_def by (rule put_back take check effects | simp)+
qed

lemma effect_pop_operand [effects]: "effect 1 0 (pop_operand cx expected)"
proof -
  have rest: "same_frames s (s\<lparr>operands := r\<rparr>)" "counted 0 0 s (s\<lparr>operands := r\<rparr>)" for s r
    by (simp_all add: same_frames_def counted_def)
  have slow: "counted 1 0 s s' \<and> same_frames s s'"
    if "slow_pop_operand cx expected popped (s\<lparr>operands := r\<rparr>) = Inr (x, s')" for popped s r x s'
    using effectD [OF effect_slow_pop that] rest [of s r]
    by (auto intro: same_frames_trans dest: counted_trans)
  have fast: "counted 1 0 s s' \<and> same_frames s s'"
    if "bind_ov record_pop (\<lambda>_. return_ov ty) (s\<lparr>operands := r\<rparr>) = Inr (x, s')"
    for ty :: "val_type maybe_type" and s r x s'
  proof -
    have "effect 1 0 (bind_ov record_pop (\<lambda>_. return_ov ty))" by (rule effects | simp)+
    from effectD [OF this that] rest [of s r] show ?thesis
      by (auto intro: same_frames_trans dest: counted_trans)
  qed
  show ?thesis
    unfolding effect_def pop_operand_def
    by (auto simp: Let_def split: list.splits maybe_type.splits if_splits
      dest: slow fast effectD [OF effect_slow_pop])
qed

lemma effect_pop [effects]: "effect 1 0 (pop cx ty)"
  unfolding pop_def by (rule effects)+

lemma effect_pop_rev: "effect (length tys) 0 (pop_rev cx tys)"
  unfolding pop_rev_def using effect_steps_map [of 1 0 "pop cx" "rev tys"] effect_pop by auto

lemma effect_push_all: "effect 0 (length tys) (push_all tys)"
  unfolding push_all_def using effect_steps_map [of 0 1 push_operand tys] effect_push_operand by auto

lemma effect_pop_push: "effect (length tys) (length tys) (pop_push_label_types cx tys)"
  unfolding pop_push_label_types_def
  by (rule effect_pop_rev effect_push_all effects | simp)+

text \<open>Only the frames are kept; the counts may depend on the state.\<close>

definition keeps_frames :: "'a ov \<Rightarrow> bool" where
  "keeps_frames m \<longleftrightarrow> (\<forall>s x s'. m s = Inr (x, s') \<longrightarrow> same_frames s s')"

lemma keeps_framesD: "keeps_frames m \<Longrightarrow> m s = Inr (x, s') \<Longrightarrow> same_frames s s'"
  by (simp add: keeps_frames_def)

lemma effect_keeps_frames: "effect n p m \<Longrightarrow> keeps_frames m"
  by (simp add: effect_def keeps_frames_def)

lemma keeps_frames_bind:
  assumes "keeps_frames m" "\<And>x. keeps_frames (f x)"
  shows "keeps_frames (bind_ov m f)"
  unfolding keeps_frames_def
  by (auto elim!: bind_ov_InrE intro: same_frames_trans keeps_framesD [OF assms(1)]
    keeps_framesD [OF assms(2)])

lemma effect_uncounted_keeps:
  assumes "keeps_frames m"
  shows "effect 0 0 (uncounted m)"
  unfolding effect_def
proof (intro allI impI)
  fix s x s'
  assume "uncounted m s = Inr (x, s')"
  then obtain y s1 where "m s = Inr (y, s1)" "s' = s1\<lparr>pop_push_count := pop_push_count s\<rparr>"
    by (auto simp: uncounted_def bind_ov_def get_ov_def modify_ov_def split: sum.splits)
  with keeps_framesD [OF assms] show "counted 0 0 s s' \<and> same_frames s s'"
    by (auto simp: counted_def same_frames_def)
qed

lemmas effect_uncounted [effects] = effect_uncounted_keeps [OF effect_keeps_frames]

lemma effect_match_operand [effects]: "effect 0 0 (match_operand cx actual expected)"
  unfolding match_operand_def
  by (rule effect_uncounted [of 1 1]) (rule effects | simp)+

lemma effect_pop_operands: "effect (length tys) 0 (pop_operands cx tys)"
proof (induction tys)
  case (Cons ty tys)
  show ?case
    by (simp, rule effect_bind [OF effect_pop_operand])
      (rule effect_bind [OF Cons.IH] effects | simp)+
qed (simp add: effects)

lemma effect_match_stack_operands [effects]: "effect 0 0 (match_stack_operands cx tys)"
  unfolding match_stack_operands_def
  by (rule effect_uncounted [of "length tys" 0])
    (rule effect_bind [OF effect_pop_operands] effects | simp)+

lemma effect_pop_ref [effects]: "effect 1 0 (pop_ref cx expected)"
  unfolding pop_ref_def
  by (rule effect_bind [OF effect_pop_operand, where n' = 0 and p' = 0])
    (auto split: maybe_type.split val_type.split intro: effects)

lemma effect_pop_maybe_shared_ref [effects]: "effect 1 0 (pop_maybe_shared_ref cx expected)"
  unfolding pop_maybe_shared_ref_def
  by (rule effect_bind [OF effect_pop_ref, where n' = 0 and p' = 0])
    (auto split: maybe_type.split option.split intro!: effects)

section \<open>Look-ups\<close>

lemma effect_sub_type_at [effects]: "effect 0 0 (sub_type_at_ov cx at)"
  unfolding sub_type_at_ov_def
  by (rule effect_bind [OF effect_call, where n' = 0 and p' = 0])
    (auto split: option.split intro: effects)

lemma effect_ensure_shared [effects]: "effect 0 0 (ensure_shared cx b msg)"
  unfolding ensure_shared_def by (rule effects | simp)+

lemma effect_type_at [effects]:
  "effect 0 0 (struct_type_at cx at)" "effect 0 0 (array_type_at cx at)"
  "effect 0 0 (func_type_at cx at)" "effect 0 0 (cont_type_at cx at)"
  unfolding struct_type_at_def array_type_at_def func_type_at_def cont_type_at_def
  by (rule effect_bind [OF effect_sub_type_at, where n' = 0 and p' = 0];
    auto split: composite_inner_type.split struct_type.split array_type.split intro!: effects)+

lemma effect_struct_field_at [effects]: "effect 0 0 (struct_field_at cx t f)"
  unfolding struct_field_at_def by (rule effects | simp)+

lemma effect_mutable_at [effects]:
  "effect 0 0 (mutable_struct_field_at cx t f)" "effect 0 0 (mutable_array_type_at cx t)"
  unfolding mutable_struct_field_at_def mutable_array_type_at_def by (rule effects | simp)+

lemma effect_func_type_of_cont_type [effects]: "effect 0 0 (func_type_of_cont_type cx c)"
  unfolding func_type_of_cont_type_def by (cases c) (simp, (rule effects | simp)+)

lemma effect_tag_at [effects]: "effect 0 0 (tag_at_ov cx at)"
  unfolding tag_at_ov_def
  by (rule effect_bind [OF effect_call, where n' = 0 and p' = 0])
    (auto split: option.split intro: effects)

lemma effect_exception_tag_at [effects]: "effect 0 0 (exception_tag_at cx at)"
  unfolding exception_tag_at_def by (rule effects | simp)+

lemma effect_entity_at [effects]:
  "effect 0 0 (global_type_at cx at)" "effect 0 0 (table_type_at cx at)"
  "effect 0 0 (element_type_at_ov cx at)" "effect 0 0 (check_data_segment cx at)"
  unfolding global_type_at_def table_type_at_def element_type_at_ov_def check_data_segment_def
  by (auto split: option.split intro!: effects)

lemma effect_block_types [effects]:
  "effect 0 0 (block_params cx ty)" "effect 0 0 (block_results cx ty)"
  unfolding block_params_def block_results_def
  by (auto split: block_type.split intro!: effects)

lemma effect_label_types [effects]: "effect 0 0 (label_types cx block)"
  unfolding label_types_def by (auto split: frame_kind.split intro!: effects)

lemma effect_local_type [effects]: "effect 0 0 (local_type cx i)"
  unfolding local_type_def
  by (rule effect_bind [OF effect_get, where n' = 0 and p' = 0])
    (auto split: option.split intro: effects)

lemma effect_unreachable [effects]: "effect 0 0 (unreachable cx)"
  by (rule effect_keep_counts)
    (auto simp: unreachable_def same_frames_def frame_label_def split: list.splits)

lemma effect_jump [effects]: "effect 0 0 (jump cx depth)"
  by (rule effect_keep_counts) (auto simp: jump_def bail_def Let_def split: if_splits)

end
