(* ===== verification/Validator_Op_Effects.thy ===== *)
theory Validator_Op_Effects
  imports Validator_Effects
begin

text \<open>
  The operators of fixed arity: each counts the pops and pushes that its annotation in the table of
  operators says.
\<close>

section \<open>Annotations without a category\<close>

fun literal_sum :: "arity_token list \<Rightarrow> int option" where
  "literal_sum [] = Some 0"
| "literal_sum (Lit v # ts) = map_option ((+) v) (literal_sum ts)"
| "literal_sum _ = None"

fun literal_arity :: "annotation \<Rightarrow> (nat \<times> nat) option" where
  "literal_arity (Fixed cat) = Some (map_prod unat unat (fixed_arity cat))"
| "literal_arity (Arity ps rs) =
     (case (literal_sum ps, literal_sum rs) of
        (Some a, Some d) \<Rightarrow> Some (nat a, nat d)
      | _ \<Rightarrow> None)"

section \<open>Checks\<close>

lemma effect_checks [effects]:
  "effect 0 0 (check_memory_index cx mem)"
  "effect 0 0 (check_feature cx f msg)"
  "effect 0 0 (check_floats_enabled cx)"
  unfolding check_memory_index_def check_feature_def check_floats_enabled_def
  by ((rule effects | simp)+ | auto split: option.split intro: effects)+

lemma effect_memarg [effects]:
  "effect 0 0 (check_memarg cx memarg)" "effect 0 0 (check_shared_memarg cx memarg)"
  unfolding check_memarg_def check_shared_memarg_def by (rule effects | simp)+

lemma effect_numeric_checks [effects]:
  "effect 2 1 (check_cmp_op cx ty)" "effect 2 1 (check_fcmp_op cx ty)"
  "effect 1 1 (check_unary_op cx ty)" "effect 1 1 (check_funary_op cx ty)"
  "effect 1 1 (check_conversion_op cx into from)" "effect 1 1 (check_fconversion_op cx into from)"
  "effect 2 1 (check_binary_op cx ty)" "effect 2 1 (check_fbinary_op cx ty)"
  "effect 4 2 (check_binop128 cx)" "effect 2 2 (check_i64_mul_wide cx)"
  unfolding numeric_checks by (rule effects | simp)+

lemma effect_atomic_checks [effects]:
  "effect 1 1 (check_atomic_load cx memarg ty)" "effect 2 0 (check_atomic_store cx memarg ty)"
  "effect 2 1 (check_atomic_binary_memory_op cx memarg ty)"
  "effect 3 1 (check_atomic_binary_memory_cmpxchg cx memarg ty)"
  unfolding check_atomic_load_def check_atomic_store_def check_atomic_binary_memory_op_def
    check_atomic_binary_memory_cmpxchg_def
  by (rule effects | simp)+

lemma effect_vector_checks [effects]:
  "effect 0 0 (check_simd_lane_index cx i limit)" "effect 1 1 (check_v128_splat cx ty)"
  "effect 2 1 (check_v128_binary_op cx)" "effect 2 1 (check_v128_fbinary_op cx)"
  "effect 1 1 (check_v128_unary_op cx)" "effect 1 1 (check_v128_funary_op cx)"
  "effect 3 1 (check_v128_ternary_op cx)" "effect 1 1 (check_v128_bitmask_op cx)"
  "effect 2 1 (check_v128_shift_op cx)" "effect 1 1 (check_v128_load_op cx memarg)"
  unfolding vector_checks check_simd_lane_index_def by (rule effects | simp)+

lemma effect_implementation_limit [effects]: "effect 0 0 (implementation_limit cx rt)"
  unfolding implementation_limit_def by (auto split: option.split intro: effects)

lemma effect_debug_assert_concrete_id [effects]: "effect 0 0 (debug_assert_concrete_id h)"
  unfolding debug_assert_concrete_id_def
  by (auto split: heap_type.split unpacked_index.split intro: effects)

lemma effect_concrete_ref [effects]:
  "effect 0 1 (push_concrete_ref cx n ty)" "effect 1 0 (pop_concrete_ref cx n ty)"
  unfolding push_concrete_ref_def pop_concrete_ref_def check_heap_type_ov_def
  by (rule effects | simp)+

lemma effect_ref_checks [effects]:
  "effect 1 0 (check_downcast cx n h)" "effect 1 1 (check_ref_test cx n h)"
  "effect 1 1 (check_ref_cast cx n h)"
  unfolding check_ref_test_def check_ref_cast_def check_downcast_def check_heap_type_ov_def
  by (rule effects | simp)+

lemma effect_subtype_checks [effects]:
  "effect 0 0 (check_atomic_ty cx ty super msg)" "effect 0 0 (check_subtype_or cx a b msg)"
  "effect 0 0 (shared_ov rt)" "effect 0 0 (check_atomic_storage cx packed sty super msg)"
  "effect 0 0 (debug_assert_packed f)"
  subgoal unfolding check_atomic_ty_def by (rule effects | simp)+
  subgoal unfolding check_subtype_or_def by (rule effects | simp)+
  subgoal unfolding shared_ov_def by (rule effects)
  subgoal
    unfolding check_atomic_storage_def shared_ov_def
    by (rule effect_bind [where n = 0 and p = 0 and n' = 0 and p' = 0])
      (auto split: storage_type.split val_type.split intro!: effects)
  subgoal unfolding debug_assert_packed_def by (rule effects)+
  done

lemma effect_rmw_checks [effects]:
  "effect 0 0 (check_atomic_global_rmw_ty cx i)"
  "effect 2 1 (check_struct_atomic_rmw cx op t f)"
  "effect 3 1 (check_array_atomic_rmw cx op t)"
proof -
  have rmw_ty: "effect 0 0 (case t of Val I32 \<Rightarrow> return_ov I32 | Val I64 \<Rightarrow> return_ov I64
      | _ \<Rightarrow> bail cx msg)" for t msg
    by (auto split: storage_type.split val_type.split intro: effects)
  show "effect 0 0 (check_atomic_global_rmw_ty cx i)"
    "effect 2 1 (check_struct_atomic_rmw cx op t f)" "effect 3 1 (check_array_atomic_rmw cx op t)"
    unfolding check_atomic_global_rmw_ty_def check_struct_atomic_rmw_def check_array_atomic_rmw_def
    by (rule rmw_ty effects | simp)+
qed

section \<open>Numeric, memory and vector operators\<close>

text \<open>Each case is a sequence of the steps above.\<close>

lemma effect_conv: "effect n' p' m \<Longrightarrow> n' = n \<Longrightarrow> p' = p \<Longrightarrow> effect n p m"
  by simp

lemma effect_i32:
  assumes "literal_arity (snd (i32_info op)) = Some (n, p)"
  shows "effect n p (visit_i32 cx op)"
  by (insert assms, cases op; (clarsimp, rule effect_conv, (rule effects | simp)+))

lemma effect_i64:
  assumes "literal_arity (snd (i64_info op)) = Some (n, p)"
  shows "effect n p (visit_i64 cx op)"
  by (insert assms, cases op; (clarsimp, rule effect_conv, (rule effects | simp)+))

lemma effect_f32:
  assumes "literal_arity (snd (f32_info op)) = Some (n, p)"
  shows "effect n p (visit_f32 cx op)"
  by (insert assms, cases op; (clarsimp, rule effect_conv, (rule effects | simp)+))

lemma effect_f64:
  assumes "literal_arity (snd (f64_info op)) = Some (n, p)"
  shows "effect n p (visit_f64 cx op)"
  by (insert assms, cases op; (clarsimp, rule effect_conv, (rule effects | simp)+))

lemma effect_load:
  assumes "literal_arity (snd (load_info op)) = Some (n, p)"
  shows "effect n p (visit_load cx op memarg)"
  by (insert assms, cases op; (clarsimp, rule effect_conv, (rule effects | simp)+))

lemma effect_store:
  assumes "literal_arity (snd (store_info op)) = Some (n, p)"
  shows "effect n p (visit_store cx op memarg)"
  by (insert assms, cases op; (clarsimp, rule effect_conv, (rule effects | simp)+))

lemma effect_atomic_access:
  assumes "literal_arity (snd (atomic_access_info op)) = Some (n, p)"
  shows "effect n p (visit_atomic_access cx op memarg)"
  by (insert assms, cases op; (clarsimp, rule effect_conv, (rule effects | simp)+))

lemma effect_atomic_rmw:
  assumes "literal_arity (snd (atomic_rmw_info op)) = Some (n, p)"
  shows "effect n p (visit_atomic_rmw cx op memarg)"
  by (insert assms, cases op; (clarsimp, rule effect_conv, (rule effects | simp)+))

lemma effect_v128_mem:
  assumes "literal_arity (snd (v128_mem_info op)) = Some (n, p)"
  shows "effect n p (visit_v128_mem cx op memarg)"
  by (insert assms, cases op; (clarsimp, rule effect_conv, (rule effects | simp)+))

lemma effect_v128_lane_mem:
  assumes "literal_arity (snd (v128_lane_mem_info op)) = Some (n, p)"
  shows "effect n p (visit_v128_lane_mem cx op memarg lane)"
  by (insert assms, cases op; (clarsimp, rule effect_conv, (rule effects | simp)+))

lemma effect_lane:
  assumes "literal_arity (snd (lane_info op)) = Some (n, p)"
  shows "effect n p (visit_lane cx op lane)"
  by (insert assms, cases op; (clarsimp, rule effect_conv, (rule effects | simp)+))

lemma effect_i8x16:
  assumes "literal_arity (snd (i8x16_info op)) = Some (n, p)"
  shows "effect n p (visit_i8x16 cx op)"
  by (insert assms, cases op; (clarsimp, rule effect_conv, (rule effects | simp)+))

lemma effect_i16x8:
  assumes "literal_arity (snd (i16x8_info op)) = Some (n, p)"
  shows "effect n p (visit_i16x8 cx op)"
  by (insert assms, cases op; (clarsimp, rule effect_conv, (rule effects | simp)+))

lemma effect_i32x4:
  assumes "literal_arity (snd (i32x4_info op)) = Some (n, p)"
  shows "effect n p (visit_i32x4 cx op)"
  by (insert assms, cases op; (clarsimp, rule effect_conv, (rule effects | simp)+))

lemma effect_i64x2:
  assumes "literal_arity (snd (i64x2_info op)) = Some (n, p)"
  shows "effect n p (visit_i64x2 cx op)"
  by (insert assms, cases op; (clarsimp, rule effect_conv, (rule effects | simp)+))

lemma effect_f32x4:
  assumes "literal_arity (snd (f32x4_info op)) = Some (n, p)"
  shows "effect n p (visit_f32x4 cx op)"
  by (insert assms, cases op; (clarsimp, rule effect_conv, (rule effects | simp)+))

lemma effect_f64x2:
  assumes "literal_arity (snd (f64x2_info op)) = Some (n, p)"
  shows "effect n p (visit_f64x2 cx op)"
  by (insert assms, cases op; (clarsimp, rule effect_conv, (rule effects | simp)+))

lemma effect_v128:
  assumes "literal_arity (snd (v128_info op)) = Some (n, p)"
  shows "effect n p (visit_v128 cx op)"
  by (insert assms, cases op; (clarsimp, rule effect_conv, (rule effects | simp)+))

section \<open>Control flow, variables, memories and tables\<close>

lemma effect_init_local [effects]: "effect 0 0 (init_local i)"
  by (rule effect_keep_counts) (auto simp: init_local_def same_frames_def split: option.splits)

lemma effect_visit_select [effects]: "effect 3 1 (visit_select cx)"
proof -
  have pick: "effect 0 0 (if is_heap_operand ty1 \<or> is_heap_operand ty2 then bail cx msg
      else case (ty1, ty2) of (Bottom, t) \<Rightarrow> return_ov t | (t, Bottom) \<Rightarrow> return_ov t
      | (t, t2) \<Rightarrow> if t \<noteq> t2 then bail cx msg' else return_ov t)" for ty1 ty2 msg msg'
    by (auto split: maybe_type.split intro: effects)
  show ?thesis unfolding visit_select_def by (rule pick effects | simp)+
qed

lemma effect_control:
  assumes "literal_arity (snd (control_info op)) = Some (n, p)"
  shows "effect n p (visit_control cx op)"
  by (insert assms, cases op; (clarsimp simp: visit_unreachable_def visit_drop_def
      visit_local_get_def visit_local_set_def visit_local_tee_def visit_global_get_def
      visit_global_set_def visit_memory_size_def visit_memory_grow_def split: option.splits;
    rule effect_conv, (rule effects | simp)+))

lemma effect_global_set [effects]: "effect 1 0 (visit_global_set cx i)"
  unfolding visit_global_set_def by (rule effects | simp)+

lemma effect_global_get [effects]: "effect 0 1 (visit_global_get cx i)"
  unfolding visit_global_get_def by (rule effects | simp)+

lemma effect_global_atomic:
  assumes "literal_arity (snd (global_atomic_info op)) = Some (n, p)"
  shows "effect n p (visit_global_atomic cx op i)"
  by (insert assms, cases op; (clarsimp, rule effect_conv, (rule effects | simp)+))

lemma effect_table_get [effects]: "effect 1 1 (visit_table_get cx i)"
  unfolding visit_table_get_def by (rule effects | simp)+

lemma effect_table_set [effects]: "effect 2 0 (visit_table_set cx i)"
  unfolding visit_table_set_def by (rule effects | simp)+

lemma effect_table_atomic:
  assumes "literal_arity (snd (table_atomic_info op)) = Some (n, p)"
  shows "effect n p (visit_table_atomic cx op i)"
  by (insert assms, cases op; (clarsimp, rule effect_conv, (rule effects | simp)+))

section \<open>References\<close>

lemma effect_visit_ref_null [effects]: "effect 0 1 (visit_ref_null cx h)"
proof -
  have check: "effect 0 0 (case x of Some ty \<Rightarrow> try_ov (g ty) | None \<Rightarrow> return_ov ())"
    for x :: "'a option" and g
    by (auto split: option.split intro: effects)
  show ?thesis
    unfolding visit_ref_null_def check_heap_type_ov_def by (rule check effects | simp)+
qed

lemma effect_visit_ref_func [effects]: "effect 0 1 (visit_ref_func cx f)"
  unfolding visit_ref_func_def by (cases "type_id_of_function (resources cx) f") (simp, (rule effects | simp)+)+

lemma effect_is_maybe_shared [effects]: "effect 0 0 (is_maybe_shared cx ty)"
  unfolding is_maybe_shared_def by (auto split: maybe_type.split intro!: effects)

lemma effect_visit_ref_eq [effects]: "effect 2 1 (visit_ref_eq cx)"
proof -
  have check: "effect 0 0 (case (a, b) of (Some x, Some y) \<Rightarrow> ensure cx (x = y) msg
      | _ \<Rightarrow> return_ov ())" for a b :: "bool option" and msg
    by (auto split: option.split intro: effects)
  show ?thesis unfolding visit_ref_eq_def by (rule check effects | simp)+
qed

lemma effect_visit_convert [effects]: "effect 1 1 (visit_convert cx from into)"
proof -
  have convert: "effect 0 0 (case actual of
        Known ty \<Rightarrow>
          bind_ov (call_ov (is_shared (resources cx) ty)) (\<lambda>shared.
          bind_ov (call_ov (ref_new (is_nullable ty) (Abstract shared into))) (\<lambda>rt.
          return_ov (Known rt)))
      | _ \<Rightarrow> return_ov (UnknownRef (Some into)))" for actual
    by (auto split: maybe_type.split intro!: effects)
  show ?thesis unfolding visit_convert_def by (rule convert effects | simp)+
qed

lemma effect_reference:
  assumes "literal_arity (snd (ref_info op)) = Some (n, p)"
  shows "effect n p (visit_reference cx op)"
  by (insert assms, cases op; (clarsimp simp: visit_memory_init_def visit_memory_copy_def
      visit_memory_fill_def visit_memory_discard_def visit_table_init_def visit_elem_drop_def
      visit_table_copy_def visit_table_grow_def visit_table_size_def visit_table_fill_def
      visit_typed_select_def visit_ref_is_null_def visit_ref_as_non_null_def
      split: option.splits;
    rule effect_conv, (rule effects | simp)+))

section \<open>Garbage collection, exceptions, stack switching\<close>

lemma effect_array_ref_type [effects]: "effect 0 0 (array_ref_type cx f msg)"
  unfolding array_ref_type_def by (auto split: val_type.split intro: effects)

lemma effect_check_array_copy [effects]: "effect 0 0 (check_array_copy cx a b)"
  by (cases "(cx, a, b)" rule: check_array_copy.cases) (simp_all add: effects)

lemmas struct_visits = visit_struct_get_def visit_struct_get_s_def visit_struct_get_u_def
  visit_struct_set_def visit_struct_new_default_def

lemmas array_visits = visit_array_new_def visit_array_new_default_def visit_array_new_data_def
  visit_array_new_elem_def visit_array_get_def visit_array_get_s_def visit_array_get_u_def
  visit_array_set_def visit_array_len_def visit_array_fill_def visit_array_copy_def
  visit_array_init_data_def visit_array_init_elem_def

lemma effect_struct_atomic:
  assumes "literal_arity (snd (struct_atomic_info op)) = Some (n, p)"
  shows "effect n p (visit_struct_atomic cx op t f)"
  by (insert assms, cases op; (clarsimp simp: struct_visits, rule effect_conv, (rule effects | simp)+))

lemma effect_array_atomic:
  assumes "literal_arity (snd (array_atomic_info op)) = Some (n, p)"
  shows "effect n p (visit_array_atomic cx op t)"
  by (insert assms, cases op; (clarsimp simp: array_visits, rule effect_conv, (rule effects | simp)+))

lemma effect_gc:
  assumes "literal_arity (snd (gc_info op)) = Some (n, p)"
  shows "effect n p (visit_gc cx op)"
  by (insert assms, cases op; (clarsimp simp: struct_visits array_visits visit_ref_i31_def
      visit_i31_get_def split: option.splits;
    rule effect_conv, (rule effects | simp)+))

lemma effect_visit_cont_new [effects]: "effect 1 1 (visit_cont_new cx ty)"
  unfolding visit_cont_new_def
  by (rule effect_bind [where n = 0 and p = 0 and n' = 1 and p' = 1])
    (rule effects | simp split: cont_type.split, intro allI impI | simp)+

lemma effect_exception:
  assumes "literal_arity (snd (exn_info op)) = Some (n, p)"
  shows "effect n p (visit_exception cx op)"
  by (insert assms, cases op rule: exn_info.cases; (clarsimp simp: visit_throw_ref_def visit_rethrow_def
      split: option.splits;
    rule effect_conv, (rule effects | simp)+))

section \<open>All operators of fixed arity\<close>

lemma effect_shuffle [effects]: "effect 2 1 (visit_i8x16_shuffle cx lanes)"
  unfolding visit_i8x16_shuffle_def by (rule effects | simp)+

lemma effect_op:
  assumes "literal_arity (snd (operator_info op)) = Some (n, p)"
  shows "effect n p (visit_op cx op)"
  by (insert assms, cases op; (simp add: effect_control effect_reference effect_exception effect_gc
      effect_i32 effect_i64 effect_f32 effect_f64 effect_load effect_store effect_atomic_access
      effect_atomic_rmw effect_global_atomic effect_table_atomic effect_struct_atomic
      effect_array_atomic effect_v128_mem effect_v128_lane_mem effect_lane effect_i8x16
      effect_i16x8 effect_i32x4 effect_i64x2 effect_f32x4 effect_f64x2 effect_v128)?;
    (clarsimp simp: visit_ref_i31_shared_def, rule effect_conv, (rule effects | simp)+)?)

end
