(* ===== verification/Validator_Arity.thy ===== *)
theory Validator_Arity
  imports Validator_Op_Effects
begin

text \<open>
  The operators of variable arity, and the theorem that the two sides of the debug check of
  \<open>FuncValidator::validate\<close> agree: what the validator of an operator pops and pushes is what
  \<open>operator_arity\<close> computes from the state before.
\<close>

section \<open>Steps whose counts depend on a type\<close>

lemma counted_add:
  "counted n p s s' \<Longrightarrow> counted n' p' s' s'' \<Longrightarrow> k = n + n' \<Longrightarrow> l = p + p' \<Longrightarrow> counted k l s s''"
  by (simp add: counted_def)

lemma effect_params: "effect (length (func_params ty)) 0 (pop_params cx ty)"
proof -
  have "effect 1 0 (steps [debug_assert_type_indices_are_ids t, pop cx t])" for t
    by (rule effects | simp)+
  from effect_steps_map [OF this, of "rev (func_params ty)"] show ?thesis
    by (simp add: pop_params_def)
qed

lemma effect_results: "effect 0 (length (func_results ty)) (push_results ty)"
proof -
  have "effect 0 1 (steps [debug_assert_type_indices_are_ids t, push_operand t])" for t
    by (rule effects | simp)+
  from effect_steps_map [OF this, of "func_results ty"] show ?thesis
    by (simp add: push_results_def)
qed

lemma effect_call_ty:
  "effect (length (func_params ty)) (length (func_results ty)) (check_call_ty cx ty)"
  unfolding check_call_ty_def by (rule effect_params effect_results effects | simp)+

lemma effect_outermost_results [effects]: "effect 0 0 (outermost_results cx)"
  by (auto simp: effect_def outermost_results_def dest: effectD [OF effect_block_types(2)])

lemma effect_all_subtypes [effects]: "effect 0 0 (all_subtypes cx tys)"
proof (induction cx tys rule: all_subtypes.induct)
  case (2 cx a b tys)
  have "effect 0 0 (if ok then all_subtypes cx tys else return_ov False)" for ok
    using 2 by (cases ok) (simp_all add: effect_return)
  then show ?case unfolding all_subtypes.simps by (rule effect_bind [OF effect_call]) simp_all
qed (simp add: effect_return)

lemma keeps_frames_check_return: "keeps_frames (check_return cx)"
proof -
  have "effect (length tys) 0 (steps [pop_rev cx tys, unreachable cx])" for tys
    by (rule effect_pop_rev effects | simp)+
  then show ?thesis
    unfolding check_return_def
    by (intro keeps_frames_bind effect_keeps_frames [OF effect_outermost_results])
      (rule effect_keeps_frames)
qed

lemma effect_return_call_ty: "effect (length (func_params ty)) 0 (check_return_call_ty cx ty)"
proof -
  have "keeps_frames (steps [push_results ty, check_return cx])"
    unfolding steps.simps
    by (intro keeps_frames_bind keeps_frames_check_return effect_keeps_frames [OF effect_results]
      effect_keeps_frames [OF effect_return])
  note uncounted = effect_uncounted_keeps [OF this]
  have "effect 0 0 (check_func_type_same_results cx ty)"
    unfolding check_func_type_same_results_def by (rule effects | simp)+
  note same = this
  show ?thesis
    unfolding check_return_call_ty_def by (rule effect_params same uncounted effects | simp)+
qed

section \<open>Look-ups do not depend on the state\<close>

lemma sub_type_at_ov_Inr:
  "sub_type_at_ov cx t s = Inr (st, s') \<Longrightarrow> s' = s \<and> sub_type_at (resources cx) t = Some (Some st)"
  by (auto simp: sub_type_at_ov_def bind_ov_def call_ov_def panic_ov_def return_ov_def bail_def
    split: option.splits)

lemma ensure_shared_Inr: "ensure_shared cx b msg s = Inr (x, s') \<Longrightarrow> s' = s"
  by (auto simp: ensure_shared_def ensure_def bind_ov_def get_ov_def return_ov_def bail_def
    split: if_splits)

lemma bind_sub_type_InrE:
  assumes "bind_ov (sub_type_at_ov cx t) f s = Inr (x, s')"
  obtains st where "sub_type_at (resources cx) t = Some (Some st)" "f st s = Inr (x, s')"
  using assms by (auto elim!: bind_ov_InrE dest!: sub_type_at_ov_Inr)

lemma bind_ensure_shared_InrE:
  assumes "bind_ov (ensure_shared cx b msg) (\<lambda>_. return_ov y) s = Inr (x, s')"
  shows "s' = s \<and> x = y"
  using assms by (auto simp: return_ov_def elim!: bind_ov_InrE dest!: ensure_shared_Inr)

lemma func_type_at_Inr:
  assumes "func_type_at cx t s = Inr (ft, s')"
  shows "s' = s \<and> (\<exists>st. sub_type_at (resources cx) t = Some (Some st)
    \<and> comp_inner (composite_type st) = CompFunc ft)"
proof -
  from assms obtain st where st: "sub_type_at (resources cx) t = Some (Some st)"
    and run: "(case comp_inner (composite_type st) of
        CompFunc func_ty \<Rightarrow>
          bind_ov (ensure_shared cx (comp_shared (composite_type st))
            ''shared functions cannot access unshared functions'') (\<lambda>_. return_ov func_ty)
      | _ \<Rightarrow> bail cx (''expected func type at index '' @ fmt_dec (unat t) @ '', found ''
          @ sub_type_display st)) s = Inr (ft, s')"
    unfolding func_type_at_def by (rule bind_sub_type_InrE)
  from run st show ?thesis
    by (cases "comp_inner (composite_type st)") (auto simp: bail_def dest: bind_ensure_shared_InrE)
qed

lemma cont_type_at_Inr:
  assumes "cont_type_at cx t s = Inr (ct, s')"
  shows "s' = s \<and> (\<exists>st. sub_type_at (resources cx) t = Some (Some st)
    \<and> comp_inner (composite_type st) = CompCont ct)"
proof -
  from assms obtain st where st: "sub_type_at (resources cx) t = Some (Some st)"
    and run: "(case comp_inner (composite_type st) of
        CompCont cont_ty \<Rightarrow>
          bind_ov (ensure_shared cx (comp_shared (composite_type st))
            ''shared continuations cannot access unshared continuations'')
            (\<lambda>_. return_ov cont_ty)
      | _ \<Rightarrow> bail cx (''non-continuation type '' @ fmt_dec (unat t))) s = Inr (ct, s')"
    unfolding cont_type_at_def by (rule bind_sub_type_InrE)
  from run st show ?thesis
    by (cases "comp_inner (composite_type st)") (auto simp: bail_def dest: bind_ensure_shared_InrE)
qed

lemma struct_type_at_Inr:
  assumes "struct_type_at cx t s = Inr (flds, s')"
  shows "s' = s \<and> (\<exists>st. sub_type_at (resources cx) t = Some (Some st)
    \<and> comp_inner (composite_type st) = CompStruct (StructType flds))"
proof -
  from assms obtain st where st: "sub_type_at (resources cx) t = Some (Some st)"
    and run: "(case comp_inner (composite_type st) of
        CompStruct (StructType flds) \<Rightarrow>
          bind_ov (ensure_shared cx (comp_shared (composite_type st))
            ''shared functions cannot access unshared structs'') (\<lambda>_. return_ov flds)
      | _ \<Rightarrow> bail cx (''expected struct type at index '' @ fmt_dec (unat t) @ '', found ''
          @ sub_type_display st)) s = Inr (flds, s')"
    unfolding struct_type_at_def by (rule bind_sub_type_InrE)
  from run st show ?thesis
    by (cases "comp_inner (composite_type st)")
      (auto simp: bail_def dest: bind_ensure_shared_InrE split: struct_type.splits)
qed

lemma tag_at_ov_Inr:
  "tag_at_ov cx t s = Inr (ft, s') \<Longrightarrow> s' = s \<and> tag_at (resources cx) t = Some (Some ft)"
  "exception_tag_at cx t s = Inr (ft, s') \<Longrightarrow> s' = s \<and> tag_at (resources cx) t = Some (Some ft)"
proof -
  show tag: "tag_at_ov cx t s = Inr (ft, s') \<Longrightarrow> s' = s \<and> tag_at (resources cx) t = Some (Some ft)"
    for s ft s'
    by (auto simp: tag_at_ov_def bind_ov_def call_ov_def panic_ov_def return_ov_def bail_def
      split: option.splits)
  show "exception_tag_at cx t s = Inr (ft, s') \<Longrightarrow>
      s' = s \<and> tag_at (resources cx) t = Some (Some ft)"
    by (auto simp: exception_tag_at_def ensure_def return_ov_def bail_def
      elim!: bind_ov_InrE dest!: tag split: if_splits)
qed

lemma func_type_of_cont_type_Inr:
  assumes "func_type_of_cont_type cx c s = Inr (ft, s')"
  shows "s' = s" "func_type_of_cont_type cx c s0 = Inr (ft, s0)"
  using assms
  by (auto simp: func_type_of_cont_type_def bind_ov_def call_ov_def panic_ov_def return_ov_def
    split: cont_type.splits option.splits)

lemma jump_Inr:
  assumes "jump cx d s1 = Inr (b, s2)" "same_frames s s1"
  shows "s2 = s1" "mod_label_block (validator_arity cx s) d = Some b"
proof -
  have len: "length (control s1) = length (control s)"
    using assms(2) by (metis length_map same_frames_def)
  have label: "frame_label (control s1 ! i) = frame_label (control s ! i)"
    if "i < length (control s)" for i
  proof -
    have "map frame_label (control s1) ! i = map frame_label (control s) ! i"
      using assms(2) by (simp add: same_frames_def)
    with that len show ?thesis by simp
  qed
  have "unat d \<le> length (control s) - 1" "control s \<noteq> []"
    and b: "b = (fr_block_type (control s1 ! unat d), fr_kind (control s1 ! unat d))" "s2 = s1"
    using assms(1) len by (auto simp: jump_def bail_def Let_def split: if_splits)
  moreover from this have "unat d < length (control s)" by (cases "control s") auto
  ultimately show "s2 = s1" "mod_label_block (validator_arity cx s) d = Some b"
    using label [of "unat d"]
    by (simp_all add: validator_arity_def jump_def ok_def frame_label_def Let_def)
qed

section \<open>The arithmetic of the macro\<close>

lemma as_i32_small:
  assumes "n < 2 ^ 31"
  shows "as_i32 (of_nat n) = int n"
proof -
  have "sint (of_nat n :: u32) = signed_take_bit 31 (int n)"
    by (simp add: signed_of_nat)
  also have "\<dots> = int n"
    using assms by (intro signed_take_bit_int_eq_self) auto
  finally show ?thesis by (simp add: as_i32_def)
qed

lemma add_pairs_small:
  assumes "- (2 ^ 31) \<le> a + c" "a + c < 2 ^ 31" "- (2 ^ 31) \<le> b + d" "b + d < 2 ^ 31"
  shows "add_pairs (a, b) (c, d) = Some (Some (a + c, b + d))"
  using assms by (simp add: add_pairs_def add_i32_def)

text \<open>\<open>arity_agrees cx op s s'\<close>: the counts between the two states are the arity of the operator.\<close>

definition arity_agrees :: "op_cx \<Rightarrow> operator \<Rightarrow> operator_validator \<Rightarrow> operator_validator \<Rightarrow> bool" where
  "arity_agrees cx op s s' \<longleftrightarrow>
     (\<exists>n p. operator_arity (validator_arity cx s) op = Some (Some (n, p))
        \<and> counted (unat n) (unat p) s s')"

lemma arity_agreesI:
  assumes "snd (operator_info op) = Arity ps rs"
    and "sum_tokens (validator_arity cx s) ps = Some (Some (int n, x))"
    and "sum_tokens (validator_arity cx s) rs = Some (Some (y, int p))"
    and "counted n p s s'" "n < 2 ^ 32" "p < 2 ^ 32"
  shows "arity_agrees cx op s s'"
  using assms
  by (auto simp: arity_agrees_def operator_arity_def unat_of_nat take_bit_nat_eq_self)

section \<open>Operators of fixed arity\<close>

definition small_tokens :: "arity_token list \<Rightarrow> bool" where
  "small_tokens ts \<longleftrightarrow>
     literal_sum ts = None \<or> length ts < 10 \<and> (\<forall>t \<in> set ts. \<exists>v. t = Lit v \<and> 0 \<le> v \<and> v < 10)"

fun small_annotation :: "annotation \<Rightarrow> bool" where
  "small_annotation (Fixed _) \<longleftrightarrow> True"
| "small_annotation (Arity ps rs) \<longleftrightarrow>
     literal_sum ps = None \<or> literal_sum rs = None \<or> small_tokens ps \<and> small_tokens rs"

lemma literal_sum_tokens:
  assumes "literal_sum ts = Some a" "\<forall>t \<in> set ts. \<exists>v. t = Lit v \<and> 0 \<le> v \<and> v < 10"
    "length ts < 10"
  shows "sum_tokens m ts = Some (Some (a, a)) \<and> 0 \<le> a \<and> a \<le> 10 * int (length ts)"
  using assms
proof (induction ts arbitrary: a)
  case (Cons t ts)
  then obtain v b where t: "t = Lit v" "0 \<le> v" "v < 10" and b: "literal_sum ts = Some b" "a = v + b"
    by auto
  have "sum_tokens m ts = Some (Some (b, b)) \<and> 0 \<le> b \<and> b \<le> 10 * int (length ts)"
    using Cons.IH [OF b(1)] Cons.prems by simp
  with t b Cons.prems(3) show ?case by (simp add: add_pairs_small)
qed simp

lemma small_info:
  "small_annotation (snd (i32_info op0))"
  "small_annotation (snd (i64_info op1))"
  "small_annotation (snd (f32_info op2))"
  "small_annotation (snd (f64_info op3))"
  "small_annotation (snd (load_info op4))"
  "small_annotation (snd (store_info op5))"
  "small_annotation (snd (atomic_access_info op6))"
  "small_annotation (snd (atomic_rmw_info op7))"
  "small_annotation (snd (global_atomic_info op8))"
  "small_annotation (snd (table_atomic_info op9))"
  "small_annotation (snd (struct_atomic_info op10))"
  "small_annotation (snd (array_atomic_info op11))"
  "small_annotation (snd (v128_mem_info op12))"
  "small_annotation (snd (v128_lane_mem_info op13))"
  "small_annotation (snd (lane_info op14))"
  "small_annotation (snd (i8x16_info op15))"
  "small_annotation (snd (i16x8_info op16))"
  "small_annotation (snd (i32x4_info op17))"
  "small_annotation (snd (i64x2_info op18))"
  "small_annotation (snd (f32x4_info op19))"
  "small_annotation (snd (f64x2_info op20))"
  "small_annotation (snd (v128_info op21))"
  subgoal by (cases op0; simp add: small_tokens_def)
  subgoal by (cases op1; simp add: small_tokens_def)
  subgoal by (cases op2; simp add: small_tokens_def)
  subgoal by (cases op3; simp add: small_tokens_def)
  subgoal by (cases op4; simp add: small_tokens_def)
  subgoal by (cases op5; simp add: small_tokens_def)
  subgoal by (cases op6; simp add: small_tokens_def)
  subgoal by (cases op7; simp add: small_tokens_def)
  subgoal by (cases op8; simp add: small_tokens_def)
  subgoal by (cases op9; simp add: small_tokens_def)
  subgoal by (cases op10; simp add: small_tokens_def)
  subgoal by (cases op11; simp add: small_tokens_def)
  subgoal by (cases op12; simp add: small_tokens_def)
  subgoal by (cases op13; simp add: small_tokens_def)
  subgoal by (cases op14; simp add: small_tokens_def)
  subgoal by (cases op15; simp add: small_tokens_def)
  subgoal by (cases op16; simp add: small_tokens_def)
  subgoal by (cases op17; simp add: small_tokens_def)
  subgoal by (cases op18; simp add: small_tokens_def)
  subgoal by (cases op19; simp add: small_tokens_def)
  subgoal by (cases op20; simp add: small_tokens_def)
  subgoal by (cases op21; simp add: small_tokens_def)
  done

lemma small_control_info: "small_annotation (snd (control_info op))"
  by (cases op; simp add: small_tokens_def)

lemma small_ref_info: "small_annotation (snd (ref_info op))"
  by (cases op; simp add: small_tokens_def)

lemma small_exn_info: "small_annotation (snd (exn_info op))"
  by (cases op rule: exn_info.cases; simp add: small_tokens_def)

lemma small_gc_info: "small_annotation (snd (gc_info op))"
  by (cases op; simp add: small_tokens_def)

lemma small_operator_info: "small_annotation (snd (operator_info op))"
  by (cases op)
    (simp_all add: small_info small_control_info small_ref_info small_exn_info small_gc_info
      small_tokens_def)

lemma arity_fixed:
  assumes "literal_arity (snd (operator_info op)) = Some (n, p)" "visit_op cx op s = Inr (x, s')"
  shows "arity_agrees cx op s s'"
proof (cases "snd (operator_info op)")
  case (Fixed cat)
  with assms effectD(1) [OF effect_op [OF assms(1)] assms(2)] show ?thesis
    by (auto simp: arity_agrees_def operator_arity_def map_prod_def split: prod.splits)
next
  case (Arity ps rs)
  with assms(1) obtain a d where ad: "literal_sum ps = Some a" "literal_sum rs = Some d"
    "n = nat a" "p = nat d"
    by (auto split: option.splits)
  with small_operator_info [of op] Arity have "small_tokens ps" "small_tokens rs" by simp_all
  with ad literal_sum_tokens [OF ad(1)] literal_sum_tokens [OF ad(2)]
  have "sum_tokens (validator_arity cx s) ps = Some (Some (a, a)) \<and> 0 \<le> a \<and> a < 100"
    "sum_tokens (validator_arity cx s) rs = Some (Some (d, d)) \<and> 0 \<le> d \<and> d < 100"
    by (force simp: small_tokens_def)+
  with ad effectD(1) [OF effect_op [OF assms(1)] assms(2)] show ?thesis
    by (intro arity_agreesI [OF Arity, of _ _ n a d p]) auto
qed

section \<open>Blocks\<close>

text \<open>\<open>block_counts cx ty np nr\<close>: the block type \<open>ty\<close> has \<open>np\<close> parameters and \<open>nr\<close> results, for the
  validator and for the computation of arities.\<close>

definition block_counts :: "op_cx \<Rightarrow> block_type \<Rightarrow> nat \<Rightarrow> nat \<Rightarrow> bool" where
  "block_counts cx ty np nr \<longleftrightarrow>
     np \<le> 1000 \<and> nr \<le> 1000
     \<and> (\<forall>s. block_type_arity (validator_arity cx s) ty = Some (Some (of_nat np, of_nat nr)))
     \<and> (\<forall>s ps s'. block_params cx ty s = Inr (ps, s') \<longrightarrow> s' = s \<and> length ps = np)
     \<and> (\<forall>s rs s'. block_results cx ty s = Inr (rs, s') \<longrightarrow> s' = s \<and> length rs = nr)"

lemma mod_sub_type_at_eq:
  "sub_type_at (resources cx) t = Some (Some st) \<Longrightarrow>
     mod_sub_type_at (validator_arity cx s) t = Some (Some st)"
  by (simp add: validator_arity_def sub_type_at_ov_def bind_ov_def call_ov_def return_ov_def ok_def)

lemma pop_ctrl_InrE:
  assumes "pop_ctrl cx s = Inr (frame, s')"
  obtains f0 s1 rs s2 s3 where "control s \<noteq> []" "f0 = hd (control s)"
    "reset_local_inits (fr_init_height f0) s = Inr ((), s1)"
    "block_results cx (fr_block_type f0) s1 = Inr (rs, s2)" "pop_rev cx rs s2 = Inr ((), s3)"
    "s3 = s'\<lparr>control := frame # control s'\<rparr>" "length (operands s3) = fr_height f0"
proof -
  from assms obtain f0 s0 s1 rs s2 s3 n s4 s5 where run: "last_control cx s = Inr (f0, s0)"
    "reset_local_inits (fr_init_height f0) s0 = Inr ((), s1)"
    "block_results cx (fr_block_type f0) s1 = Inr (rs, s2)" "pop_rev cx rs s2 = Inr ((), s3)"
    "get_ov (\<lambda>s. length (operands s)) s3 = Inr (n, s4)"
    "ensure cx (n = fr_height f0) ''type mismatch: values remaining on stack at end of block'' s4
       = Inr ((), s5)"
    "(case control s5 of [] \<Rightarrow> Inl Panicked | c # cs \<Rightarrow> Inr (c, s5\<lparr>control := cs\<rparr>)) = Inr (frame, s')"
    unfolding pop_ctrl_def by (elim bind_ov_InrE) auto
  moreover from run(1) have "control s \<noteq> []" "f0 = hd (control s)" "s0 = s"
    by (auto simp: last_control_def split: list.splits)
  moreover from run(5,6) have "s5 = s3" "length (operands s3) = fr_height f0"
    by (auto simp: get_ov_def ensure_def return_ov_def bail_def split: if_splits)
  moreover from this run(7) have "s3 = s'\<lparr>control := frame # control s'\<rparr>"
    by (cases s3) (auto split: list.splits)
  ultimately show thesis by (intro that [of f0 s1 rs s2 s3]) simp_all
qed

context wasm_module_resources
begin

lemma func_counts:
  assumes "sub_type_at r t = Some (Some st)" "comp_inner (composite_type st) = CompFunc ft"
  shows "length (func_params ft) \<le> 1000" "length (func_results ft) \<le> 1000"
proof -
  have "canonical_sub (sub_type_at_id r) st" using sub_type_canonical [of t] assms(1) by auto
  with assms(2) have "canonical_func (sub_type_at_id r) ft" by (simp add: canonical_sub_def)
  then show "length (func_params ft) \<le> 1000" "length (func_results ft) \<le> 1000"
    by (auto simp: canonical_func_def wasm_limits)
qed

lemma block_counts_func:
  assumes "resources cx = r" "func_type_at cx t s = Inr (ft, s')"
  shows "block_counts cx (BlockFuncType t) (length (func_params ft)) (length (func_results ft))"
proof -
  obtain st where st: "sub_type_at r t = Some (Some st)"
    "comp_inner (composite_type st) = CompFunc ft"
    using func_type_at_Inr [OF assms(2)] assms(1) by auto
  have "s2 = s1 \<and> ft' = ft" if "func_type_at cx t s1 = Inr (ft', s2)" for ft' s1 s2
    using func_type_at_Inr [OF that] assms(1) st by auto
  with st func_counts [OF st] assms(1) show ?thesis
    by (auto simp: block_counts_def block_type_arity_def mod_sub_type_at_eq sub_type_arity_def
      func_arity_def block_params_def block_results_def return_ov_def elim!: bind_ov_InrE)
qed

lemma block_counts_ok:
  assumes "resources cx = r"
    and "block_params cx ty s = Inr (ps, s') \<or> block_results cx ty s = Inr (ps, s')"
  obtains np nr where "block_counts cx ty np nr"
proof (cases ty)
  case BlockEmpty
  then have "block_counts cx ty 0 0"
    by (auto simp: block_counts_def block_type_arity_def block_params_def block_results_def
      return_ov_def)
  then show thesis by (rule that)
next
  case (BlockResult t)
  then have "block_counts cx ty 0 1"
    by (auto simp: block_counts_def block_type_arity_def block_params_def block_results_def
      return_ov_def)
  then show thesis by (rule that)
next
  case (BlockFuncType t)
  with assms(2) obtain ft s1 where "func_type_at cx t s = Inr (ft, s1)"
    by (auto simp: block_params_def block_results_def elim!: bind_ov_InrE)
  from block_counts_func [OF assms(1) this] BlockFuncType show thesis by (auto intro: that)
qed

lemma bind_block_paramsE:
  assumes "bind_ov (block_params cx ty) f s = Inr (x, s')" "resources cx = r"
  obtains ps np nr where "block_counts cx ty np nr" "length ps = np" "f ps s = Inr (x, s')"
proof -
  from assms(1) obtain ps s1 where run: "block_params cx ty s = Inr (ps, s1)" "f ps s1 = Inr (x, s')"
    by (rule bind_ov_InrE)
  obtain np nr where c: "block_counts cx ty np nr"
    using block_counts_ok [OF assms(2)] run(1) by blast
  with run(1) have "s1 = s" "length ps = np" by (auto simp: block_counts_def)
  with run(2) that [OF c, of ps] show thesis by simp
qed

lemma bind_block_resultsE:
  assumes "bind_ov (block_results cx ty) f s = Inr (x, s')" "resources cx = r"
  obtains rs np nr where "block_counts cx ty np nr" "length rs = nr" "f rs s = Inr (x, s')"
proof -
  from assms(1) obtain rs s1 where run: "block_results cx ty s = Inr (rs, s1)" "f rs s1 = Inr (x, s')"
    by (rule bind_ov_InrE)
  obtain np nr where c: "block_counts cx ty np nr"
    using block_counts_ok [OF assms(2)] run(1) by blast
  with run(1) have "s1 = s" "length rs = nr" by (auto simp: block_counts_def)
  with run(2) that [OF c, of rs] show thesis by simp
qed

lemma bind_check_block_typeE:
  assumes "bind_ov (check_block_type cx ty) f s = Inr (x, s')"
  obtains ty' where "f ty' s = Inr (x, s')"
    "\<forall>m. block_type_arity m ty' = block_type_arity m ty"
proof -
  from assms obtain ty' s1 where run: "check_block_type cx ty s = Inr (ty', s1)" "f ty' s1 = Inr (x, s')"
    by (rule bind_ov_InrE)
  have "s1 = s \<and> (\<forall>m. block_type_arity m ty' = block_type_arity m ty)"
    using run(1)
    by (auto simp: check_block_type_def check_feature_def ensure_def get_ov_def return_ov_def
      bail_def try_ov_def call_ov_def panic_ov_def block_type_arity_def
      split: block_type.splits if_splits option.splits sum.splits elim!: bind_ov_InrE
      dest!: func_type_at_Inr)
  with run(2) that show thesis by auto
qed

lemma push_frame_counted: "push_frame kind ty s = Inr (x, s') \<Longrightarrow> counted 0 0 s s'"
  by (auto simp: push_frame_def modify_ov_def counted_def)

lemma push_ctrl_counted:
  assumes "push_ctrl cx kind ty s = Inr (x, s')" "block_counts cx ty np nr"
  shows "counted 0 np s s'"
proof -
  from assms(1) obtain s1 ps s2 where run: "push_frame kind ty s = Inr ((), s1)"
    "block_params cx ty s1 = Inr (ps, s2)" "push_all ps s2 = Inr (x, s')"
    unfolding push_ctrl_def by (elim bind_ov_InrE) auto
  with assms(2) have "s2 = s1" "length ps = np" by (auto simp: block_counts_def)
  with push_frame_counted [OF run(1)] effectD(1) [OF effect_push_all run(3)] show ?thesis
    by (auto dest: counted_trans)
qed

lemma pop_ctrl_counted:
  assumes "pop_ctrl cx s = Inr (frame, s')" "resources cx = r"
  obtains np nr where "block_counts cx (fr_block_type frame) np nr" "counted nr 0 s s'"
    "mod_label_block (validator_arity cx s) 0 = Some (fr_block_type frame, fr_kind frame)"
    "same_frames s (s'\<lparr>control := frame # control s'\<rparr>)"
proof -
  from assms(1) obtain f0 s1 rs s2 s3 where f0: "control s \<noteq> []" "f0 = hd (control s)"
    and run: "reset_local_inits (fr_init_height f0) s = Inr ((), s1)"
      "block_results cx (fr_block_type f0) s1 = Inr (rs, s2)" "pop_rev cx rs s2 = Inr ((), s3)"
    and s3: "s3 = s'\<lparr>control := frame # control s'\<rparr>"
    by (rule pop_ctrl_InrE)
  obtain np nr where bc: "block_counts cx (fr_block_type f0) np nr"
    using block_counts_ok [OF assms(2)] run(2) by blast
  with run(2) have s2: "s2 = s1" "length rs = nr" by (auto simp: block_counts_def)
  have "same_frames s s1" "counted 0 0 s s1"
    using run(1)
    by (auto simp: reset_local_inits_def same_frames_def counted_def split: option.splits)
  with effectD [OF effect_pop_rev run(3)] s2
  have same: "same_frames s s3" "counted nr 0 s s3"
    by (auto intro: same_frames_trans dest: counted_trans)
  have lab: "frame_label frame = frame_label f0"
    using f0 same(1) by (auto simp: same_frames_def neq_Nil_conv s3)
  show thesis
  proof (rule that [of np nr])
    show "block_counts cx (fr_block_type frame) np nr"
      using bc lab by (simp add: frame_label_def)
    from same(2) show "counted nr 0 s s'" by (simp add: counted_def s3)
    from same(1) s3 show "same_frames s (s'\<lparr>control := frame # control s'\<rparr>)" by simp
    show "mod_label_block (validator_arity cx s) 0 = Some (fr_block_type frame, fr_kind frame)"
      using f0 lab by (cases "control s")
        (auto simp: validator_arity_def jump_def ok_def Let_def frame_label_def)
  qed
qed

end

end
