(* ===== verification/Arity_Agreement.thy ===== *)
theory Arity_Agreement
  imports Validator_Arity
begin

text \<open>
  The operators whose arity depends on a type or on the control stack, one lemma for each group,
  and the theorem for all operators.
\<close>

lemma as_i32_0: "as_i32 0 = 0"
  by (simp add: as_i32_def)

lemmas arity_simps = operator_arity_def add_pairs_def add_i32_def as_i32_small as_i32_0

lemma arity_agrees_counted:
  assumes "counted n p s s'"
    and "operator_arity (validator_arity cx s) op = Some (Some (of_nat n, of_nat p))"
    and "n < 2 ^ 32" "p < 2 ^ 32"
  shows "arity_agrees cx op s s'"
  using assms by (auto simp: arity_agrees_def unat_of_nat take_bit_nat_eq_self)

lemma steps2_InrE:
  assumes "steps [a, b] s = Inr (x, s')"
  obtains s1 where "a s = Inr ((), s1)" "b s1 = Inr ((), s')"
  using assms by (auto simp: return_ov_def elim!: bind_ov_InrE)

lemma steps3_InrE:
  assumes "steps [a, b, c] s = Inr (x, s')"
  obtains s1 s2 where "a s = Inr ((), s1)" "b s1 = Inr ((), s2)" "c s2 = Inr ((), s')"
  using assms by (auto simp: return_ov_def elim!: bind_ov_InrE)

lemma bind_ensure_InrE:
  assumes "bind_ov (ensure cx b msg) f s = Inr (x, s')"
  obtains "b" "f () s = Inr (x, s')"
  using assms by (auto simp: bind_ov_def ensure_def return_ov_def bail_def split: if_splits)

lemma ensure_Inr: "ensure cx b msg s = Inr (x, s') \<Longrightarrow> b \<and> s' = s"
  by (auto simp: ensure_def return_ov_def bail_def split: if_splits)

lemma bind_effect_InrE:
  assumes "bind_ov m f s = Inr (x, s')" "effect n p m"
  obtains y s1 where "f y s1 = Inr (x, s')" "counted n p s s1" "same_frames s s1"
  using assms effectD by (metis bind_ov_InrE)

lemma effect_check_catch [effects]: "effect 0 0 (check_catch cx c)"
proof -
  have matches: "effect 0 0 (match_operands cx tys)" for tys
    unfolding match_operands_def by (rule effects | simp)+
  have single: "effect 0 0 (case types of [ty] \<Rightarrow> check_subtype_or cx t ty msg | _ \<Rightarrow> bail cx msg')"
    for types t msg msg'
    by (auto split: list.split intro: effects)
  show ?thesis
    unfolding check_catch_def by (cases c) (simp, (rule matches single effects | simp)+)+
qed

lemma fixed_info:
  "literal_arity (snd (i32_info op0)) \<noteq> None"
  "literal_arity (snd (i64_info op1)) \<noteq> None"
  "literal_arity (snd (f32_info op2)) \<noteq> None"
  "literal_arity (snd (f64_info op3)) \<noteq> None"
  "literal_arity (snd (load_info op4)) \<noteq> None"
  "literal_arity (snd (store_info op5)) \<noteq> None"
  "literal_arity (snd (atomic_access_info op6)) \<noteq> None"
  "literal_arity (snd (atomic_rmw_info op7)) \<noteq> None"
  "literal_arity (snd (global_atomic_info op8)) \<noteq> None"
  "literal_arity (snd (table_atomic_info op9)) \<noteq> None"
  "literal_arity (snd (struct_atomic_info op10)) \<noteq> None"
  "literal_arity (snd (array_atomic_info op11)) \<noteq> None"
  "literal_arity (snd (v128_mem_info op12)) \<noteq> None"
  "literal_arity (snd (v128_lane_mem_info op13)) \<noteq> None"
  "literal_arity (snd (lane_info op14)) \<noteq> None"
  "literal_arity (snd (i8x16_info op15)) \<noteq> None"
  "literal_arity (snd (i16x8_info op16)) \<noteq> None"
  "literal_arity (snd (i32x4_info op17)) \<noteq> None"
  "literal_arity (snd (i64x2_info op18)) \<noteq> None"
  "literal_arity (snd (f32x4_info op19)) \<noteq> None"
  "literal_arity (snd (f64x2_info op20)) \<noteq> None"
  "literal_arity (snd (v128_info op21)) \<noteq> None"
  subgoal by (cases op0; simp)
  subgoal by (cases op1; simp)
  subgoal by (cases op2; simp)
  subgoal by (cases op3; simp)
  subgoal by (cases op4; simp)
  subgoal by (cases op5; simp)
  subgoal by (cases op6; simp)
  subgoal by (cases op7; simp)
  subgoal by (cases op8; simp)
  subgoal by (cases op9; simp)
  subgoal by (cases op10; simp)
  subgoal by (cases op11; simp)
  subgoal by (cases op12; simp)
  subgoal by (cases op13; simp)
  subgoal by (cases op14; simp)
  subgoal by (cases op15; simp)
  subgoal by (cases op16; simp)
  subgoal by (cases op17; simp)
  subgoal by (cases op18; simp)
  subgoal by (cases op19; simp)
  subgoal by (cases op20; simp)
  subgoal by (cases op21; simp)
  done

context wasm_module_resources
begin

section \<open>Blocks\<close>

lemma enter_block_counted:
  assumes "bind_ov (block_params cx ty) (\<lambda>params. steps [pop_rev cx params, push_ctrl cx kind ty]) s
    = Inr (x, s')" "resources cx = r"
  obtains np nr where "block_counts cx ty np nr" "counted np np s s'"
proof -
  from assms obtain ps np nr where c: "block_counts cx ty np nr" "length ps = np"
    and run: "steps [pop_rev cx ps, push_ctrl cx kind ty] s = Inr (x, s')"
    by (rule bind_block_paramsE)
  from run obtain s1 where s1: "pop_rev cx ps s = Inr ((), s1)" "push_ctrl cx kind ty s1 = Inr ((), s')"
    by (rule steps2_InrE)
  have "counted np np s s'"
    using counted_trans [OF effectD(1) [OF effect_pop_rev s1(1)] push_ctrl_counted [OF s1(2) c(1)]] c(2)
    by simp
  with c show thesis by (intro that)
qed

lemma arity_block:
  assumes "visit_op cx op s = Inr (x, s')" "resources cx = r"
    and "op = Control (Block ty) \<or> op = Control (Loop ty) \<or> op = Exception (Try ty)"
  shows "arity_agrees cx op s s'"
proof -
  from assms(1,3) obtain kind where "bind_ov (check_block_type cx ty) (\<lambda>ty.
      bind_ov (block_params cx ty) (\<lambda>params. steps [pop_rev cx params, push_ctrl cx kind ty])) s
      = Inr (x, s')"
    unfolding visit_block_def visit_loop_def visit_try_def
    by (elim disjE) (simp_all only: visit_op.simps visit_control.simps visit_exception.simps
      visit_block_def visit_loop_def visit_try_def)
  then obtain ty' where run: "bind_ov (block_params cx ty')
      (\<lambda>params. steps [pop_rev cx params, push_ctrl cx kind ty']) s = Inr (x, s')"
    and ty': "\<forall>m. block_type_arity m ty' = block_type_arity m ty"
    by (rule bind_check_block_typeE)
  from enter_block_counted [OF run assms(2)] obtain np nr
    where c: "block_counts cx ty' np nr" "counted np np s s'" .
  then have "block_type_arity (validator_arity cx s) ty = Some (Some (of_nat np, of_nat nr))"
    "np \<le> 1000" "nr \<le> 1000"
    by (simp_all add: block_counts_def ty')
  with assms(3) show ?thesis
    by (intro arity_agrees_counted [OF c(2)]) (auto simp: arity_simps)
qed

lemma arity_if:
  assumes "visit_if cx ty s = Inr (x, s')" "resources cx = r"
  shows "arity_agrees cx (Control (OpIf ty)) s s'"
proof -
  from assms(1) obtain ty'
    where run: "bind_ov (pop cx I32) (\<lambda>_. bind_ov (block_params cx ty')
      (\<lambda>params. steps [pop_rev cx params, push_ctrl cx FrameIf ty'])) s = Inr (x, s')"
    and ty': "\<forall>m. block_type_arity m ty' = block_type_arity m ty"
    unfolding visit_if_def by (rule bind_check_block_typeE)
  from run obtain s1 where pop: "counted 1 0 s s1"
    and run: "bind_ov (block_params cx ty')
      (\<lambda>params. steps [pop_rev cx params, push_ctrl cx FrameIf ty']) s1 = Inr (x, s')"
    by (rule bind_effect_InrE [OF _ effect_pop])
  from enter_block_counted [OF run assms(2)] obtain np nr
    where c: "block_counts cx ty' np nr" "counted np np s1 s'" .
  have "block_type_arity (validator_arity cx s) ty = Some (Some (of_nat np, of_nat nr))"
    "np \<le> 1000" "nr \<le> 1000"
    using c by (simp_all add: block_counts_def ty')
  then show ?thesis
    by (intro arity_agrees_counted [OF counted_trans [OF pop c(2)]]) (simp_all add: arity_simps)
qed

lemma arity_try_table:
  assumes "visit_try_table cx (MkTryTable ty catches) s = Inr (x, s')" "resources cx = r"
  shows "arity_agrees cx (Exception (TryTable (MkTryTable ty catches))) s s'"
proof -
  from assms(1) obtain ty' where run: "bind_ov (block_params cx ty') (\<lambda>params. steps [pop_rev cx params,
      steps (map (check_catch cx) catches), push_ctrl cx FrameTryTable ty']) s = Inr (x, s')"
    and ty': "\<forall>m. block_type_arity m ty' = block_type_arity m ty"
    unfolding visit_try_table_def try_table.case by (rule bind_check_block_typeE)
  from run assms(2) obtain ps np nr where c: "block_counts cx ty' np nr" "length ps = np"
    and run: "steps [pop_rev cx ps, steps (map (check_catch cx) catches),
      push_ctrl cx FrameTryTable ty'] s = Inr (x, s')"
    by (rule bind_block_paramsE)
  from run obtain s1 s2 where r: "pop_rev cx ps s = Inr ((), s1)"
    "steps (map (check_catch cx) catches) s1 = Inr ((), s2)"
    "push_ctrl cx FrameTryTable ty' s2 = Inr ((), s')"
    by (rule steps3_InrE)
  have "counted np 0 s s1" using effectD(1) [OF effect_pop_rev r(1)] c(2) by simp
  moreover have "counted 0 0 s1 s2"
    by (rule effectD(1) [OF effect_steps_map_0 [OF effect_check_catch] r(2)])
  moreover have "counted 0 np s2 s'" by (rule push_ctrl_counted [OF r(3) c(1)])
  ultimately have counts: "counted np np s s'" by (simp add: counted_def)
  have "block_type_arity (validator_arity cx s) ty = Some (Some (of_nat np, of_nat nr))"
    "np \<le> 1000" "nr \<le> 1000"
    using c by (simp_all add: block_counts_def ty')
  then show ?thesis
    by (intro arity_agrees_counted [OF counts]) (simp_all add: arity_simps)
qed

lemma end_count:
  assumes "mod_label_block (validator_arity cx s) 0 = Some (ty, kind)" "block_counts cx ty np nr"
  shows "count_arity (validator_arity cx s) CatEnd = Some (Some (of_nat np, of_nat nr))"
    "count_arity (validator_arity cx s) CatImplicitElse =
       Some (Some (if kind = FrameIf then (of_nat nr, of_nat np) else (0, 0)))"
    "np \<le> 1000" "nr \<le> 1000"
  using assms by (simp_all add: block_counts_def split: frame_kind.split)

lemma arity_else:
  assumes "visit_else cx s = Inr (x, s')" "resources cx = r"
  shows "arity_agrees cx (Control Else) s s'"
proof -
  from assms(1) obtain frame s1 where pop: "pop_ctrl cx s = Inr (frame, s1)"
    and push: "push_ctrl cx FrameElse (fr_block_type frame) s1 = Inr (x, s')"
    unfolding visit_else_def by (elim bind_ov_InrE bind_ensure_InrE) auto
  from pop_ctrl_counted [OF pop assms(2)] obtain np nr
    where c: "block_counts cx (fr_block_type frame) np nr" "counted nr 0 s s1"
      "mod_label_block (validator_arity cx s) 0 = Some (fr_block_type frame, fr_kind frame)" .
  show ?thesis
    using end_count [OF c(3,1)]
    by (intro arity_agrees_counted [OF counted_trans [OF c(2) push_ctrl_counted [OF push c(1)]]])
      (simp_all add: arity_simps del: count_arity.simps)
qed

lemma push_frame_label:
  assumes "push_frame kind ty s = Inr (x, s')"
  shows "map frame_label (control s') =
      (kind, ty, length (operands s), inits_push_ctrl (ov_local_inits s)) # map frame_label (control s)"
  using assms by (auto simp: push_frame_def modify_ov_def frame_label_def)

lemma push_ctrl_label:
  assumes "push_ctrl cx kind ty s = Inr (x, s')"
  shows "map frame_label (control s') =
      (kind, ty, length (operands s), inits_push_ctrl (ov_local_inits s)) # map frame_label (control s)"
proof -
  from assms obtain s1 ps s2 where run: "push_frame kind ty s = Inr ((), s1)"
    "block_params cx ty s1 = Inr (ps, s2)" "push_all ps s2 = Inr (x, s')"
    unfolding push_ctrl_def by (elim bind_ov_InrE) auto
  from effectD(2) [OF effect_block_types(1) run(2)] effectD(2) [OF effect_push_all run(3)]
  show ?thesis by (simp add: same_frames_def push_frame_label [OF run(1)])
qed

lemma set_end_counted: "set_end cx s = Inr (x, s') \<Longrightarrow> counted 0 0 s s'"
  by (auto simp: set_end_def counted_def split: if_splits)

lemma end_tail_counted:
  assumes "bind_ov (block_results cx ty) (\<lambda>results. steps [push_all results, set_end cx]) s = Inr (x, s')"
    "block_counts cx ty np nr"
  shows "counted 0 nr s s'"
proof -
  from assms(1) obtain rs s1 where rs: "block_results cx ty s = Inr (rs, s1)"
    and run: "steps [push_all rs, set_end cx] s1 = Inr (x, s')"
    by (rule bind_ov_InrE)
  with assms(2) have eq: "s1 = s" "length rs = nr" by (auto simp: block_counts_def)
  from run obtain s2 where "push_all rs s1 = Inr ((), s2)" "set_end cx s2 = Inr ((), s')"
    by (rule steps2_InrE)
  then show ?thesis
    using effectD(1) [OF effect_push_all, of rs s1 "()" s2] set_end_counted [of cx s2 "()" s'] eq
    by (simp add: counted_def)
qed

lemma arity_end:
  assumes "visit_end cx s = Inr (x, s')" "resources cx = r"
  shows "arity_agrees cx (Control End) s s'"
proof -
  from assms(1) obtain frame s1 frame' s2 where pop: "pop_ctrl cx s = Inr (frame, s1)"
    and mid: "(if fr_kind frame = FrameIf
       then bind_ov (push_ctrl cx FrameElse (fr_block_type frame)) (\<lambda>_. pop_ctrl cx)
       else return_ov frame) s1 = Inr (frame', s2)"
    and tail: "bind_ov (block_results cx (fr_block_type frame'))
       (\<lambda>results. steps [push_all results, set_end cx]) s2 = Inr (x, s')"
    unfolding visit_end_def by (elim bind_ov_InrE) (auto intro: that simp: bind_ov_def)
  from pop_ctrl_counted [OF pop assms(2)] obtain np nr
    where c: "block_counts cx (fr_block_type frame) np nr" "counted nr 0 s s1"
      "mod_label_block (validator_arity cx s) 0 = Some (fr_block_type frame, fr_kind frame)" .
  note counts = end_count [OF c(3,1)]
  show ?thesis
  proof (cases "fr_kind frame = FrameIf")
    case False
    with mid have "frame' = frame" "s2 = s1" by (simp_all add: return_ov_def)
    with tail have rest: "counted 0 nr s1 s'" using end_tail_counted [OF _ c(1)] by simp
    from counts False show ?thesis
      by (intro arity_agrees_counted [OF counted_trans [OF c(2) rest]])
        (simp_all add: arity_simps del: count_arity.simps)
  next
    case True
    with mid obtain s3 where push: "push_ctrl cx FrameElse (fr_block_type frame) s1 = Inr ((), s3)"
      and pop2: "pop_ctrl cx s3 = Inr (frame', s2)"
      by (auto elim!: bind_ov_InrE)
    from pop_ctrl_counted [OF pop2 assms(2)] obtain np' nr'
      where c': "block_counts cx (fr_block_type frame') np' nr'" "counted nr' 0 s3 s2"
        "same_frames s3 (s2\<lparr>control := frame' # control s2\<rparr>)" .
    have ty: "fr_block_type frame' = fr_block_type frame"
      using c'(3) push_ctrl_label [OF push] by (auto simp: same_frames_def frame_label_def)
    have "block_type_arity (validator_arity cx s) (fr_block_type frame) = Some (Some (of_nat np', of_nat nr'))"
      "nr' \<le> 1000"
      using c'(1) ty by (simp_all add: block_counts_def)
    moreover have "block_type_arity (validator_arity cx s) (fr_block_type frame) = Some (Some (of_nat np, of_nat nr))"
      using c(1) by (simp add: block_counts_def)
    ultimately have "(of_nat nr' :: u32) = of_nat nr" by simp
    then have "unat (of_nat nr' :: u32) = unat (of_nat nr :: u32)" by simp
    with \<open>nr' \<le> 1000\<close> counts(4) have nr': "nr' = nr"
      by (simp add: unat_of_nat take_bit_nat_eq_self)
    have "counted 0 np s1 s3" by (rule push_ctrl_counted [OF push c(1)])
    moreover have "counted 0 nr s2 s'" using tail ty by (intro end_tail_counted [OF _ c(1)]) simp
    ultimately have all: "counted (nr + nr) (np + nr) s s'"
      using c(2) c'(2) nr' by (simp add: counted_def)
    from counts True show ?thesis
      by (intro arity_agrees_counted [OF all]) (simp_all add: arity_simps del: count_arity.simps)
  qed
qed

section \<open>Branches\<close>

lemma bind_label_typesE:
  assumes "bind_ov (jump cx d) (\<lambda>block. bind_ov (label_types cx block) f) s1 = Inr (x, s')"
    "same_frames s s1" "resources cx = r"
  obtains tys where "f tys s1 = Inr (x, s')" "length tys \<le> 1000"
    "count_arity (validator_arity cx s) (CatBr d) = Some (Some (of_nat (length tys), of_nat (length tys)))"
proof -
  from assms(1) obtain b s2 tys s3 where run: "jump cx d s1 = Inr (b, s2)"
    "label_types cx b s2 = Inr (tys, s3)" "f tys s3 = Inr (x, s')"
    by (elim bind_ov_InrE) auto
  note b = jump_Inr [OF run(1) assms(2)]
  obtain ty kind where tk: "b = (ty, kind)" by (cases b)
  have "(if kind = FrameLoop then block_params cx ty else block_results cx ty) s1 = Inr (tys, s3)"
    using run(2) b(1) tk by (auto simp: label_types_def split: frame_kind.splits)
  moreover from this obtain np nr where c: "block_counts cx ty np nr"
    using block_counts_ok [OF assms(3)] by (metis (full_types))
  ultimately have "s3 = s1" "length tys = (if kind = FrameLoop then np else nr)"
    by (auto simp: block_counts_def split: if_splits)
  with c b(2) tk run(3) show thesis
    by (intro that [of tys]) (auto simp: block_counts_def Let_def split: frame_kind.split)
qed

lemma pops_then_unreachable:
  assumes "steps [pop_rev cx tys, unreachable cx] s = Inr (x, s')"
  shows "counted (length tys) 0 s s'"
proof -
  from assms obtain s1 where "pop_rev cx tys s = Inr ((), s1)" "unreachable cx s1 = Inr ((), s')"
    by (rule steps2_InrE)
  from counted_trans [OF effectD(1) [OF effect_pop_rev this(1)] effectD(1) [OF effect_unreachable this(2)]]
  show ?thesis by simp
qed

lemma arity_br:
  assumes "visit_br cx d s = Inr (x, s')" "resources cx = r"
  shows "arity_agrees cx (Control (Br d)) s s'"
proof -
  from assms obtain tys where run: "steps [pop_rev cx tys, unreachable cx] s = Inr (x, s')"
    and tys: "length tys \<le> 1000"
      "count_arity (validator_arity cx s) (CatBr d) = Some (Some (of_nat (length tys), of_nat (length tys)))"
    unfolding visit_br_def by (auto elim: bind_label_typesE [OF _ same_frames_refl])
  from tys show ?thesis
    by (intro arity_agrees_counted [OF pops_then_unreachable [OF run]])
      (simp_all add: arity_simps del: count_arity.simps)
qed

lemma arity_br_if:
  assumes "visit_br_if cx d s = Inr (x, s')" "resources cx = r"
  shows "arity_agrees cx (Control (BrIf d)) s s'"
proof -
  from assms(1) obtain s1 where s1: "bind_ov (jump cx d) (\<lambda>block. bind_ov (label_types cx block)
      (\<lambda>tys. pop_push_label_types cx tys)) s1 = Inr (x, s')" "counted 1 0 s s1" "same_frames s s1"
    unfolding visit_br_if_def by (rule bind_effect_InrE [OF _ effect_pop])
  from bind_label_typesE [OF s1(1,3) assms(2)] obtain tys
    where tys: "pop_push_label_types cx tys s1 = Inr (x, s')" "length tys \<le> 1000"
      "count_arity (validator_arity cx s) (CatBr d) = Some (Some (of_nat (length tys), of_nat (length tys)))" .
  from tys(2,3) show ?thesis
    by (intro arity_agrees_counted [OF counted_trans [OF s1(2) effectD(1) [OF effect_pop_push tys(1)]]])
      (simp_all add: arity_simps del: count_arity.simps)
qed

lemma effect_check_br_table_target: "effect 0 0 (check_br_table_target cx n item)"
  unfolding check_br_table_target_def by (rule effects | simp)+

lemma arity_br_table:
  assumes "visit_br_table cx table s = Inr (x, s')" "resources cx = r"
  shows "arity_agrees cx (Control (BrTable table)) s s'"
proof -
  let ?rest = "\<lambda>tys. bind_ov (steps (map (check_br_table_target cx (length tys))
    (br_table_items (unat (bt_cnt table)) (bt_reader table))))
    (\<lambda>_. steps [pop_rev cx tys, unreachable cx])"
  from assms(1) obtain s1 where s1: "bind_ov (jump cx (bt_default table)) (\<lambda>block.
      bind_ov (label_types cx block) ?rest) s1 = Inr (x, s')" "counted 1 0 s s1" "same_frames s s1"
    unfolding visit_br_table_def by (rule bind_effect_InrE [OF _ effect_pop])
  from bind_label_typesE [OF s1(1,3) assms(2)] obtain tys
    where tys: "?rest tys s1 = Inr (x, s')" "length tys \<le> 1000"
      "count_arity (validator_arity cx s) (CatBr (bt_default table)) =
        Some (Some (of_nat (length tys), of_nat (length tys)))" .
  from tys(1) obtain s2 where s2: "steps [pop_rev cx tys, unreachable cx] s2 = Inr (x, s')"
    "counted 0 0 s1 s2"
    by (rule bind_effect_InrE [OF _ effect_steps_map_0 [OF effect_check_br_table_target]])
  have "counted (1 + length tys) 0 s s'"
    using s1(2) s2(2) pops_then_unreachable [OF s2(1)] by (simp add: counted_def)
  from tys(2,3) show ?thesis
    by (intro arity_agrees_counted [OF \<open>counted (1 + length tys) 0 s s'\<close>])
      (simp_all add: arity_simps del: count_arity.simps)
qed

lemma arity_br_on_null:
  assumes "visit_br_on_null cx d s = Inr (x, s')" "resources cx = r"
  shows "arity_agrees cx (Reference (BrOnNull d)) s s'"
proof -
  from assms(1) obtain rt s1 where s1: "bind_ov (jump cx d) (\<lambda>block. bind_ov (label_types cx block)
      (\<lambda>tys. steps [pop_push_label_types cx tys, push_maybe (maybe_val (maybe_as_non_null rt))])) s1
      = Inr (x, s')" "counted 1 0 s s1" "same_frames s s1"
    unfolding visit_br_on_null_def by (rule bind_effect_InrE [OF _ effect_pop_ref])
  from bind_label_typesE [OF s1(1,3) assms(2)] obtain tys
    where tys: "steps [pop_push_label_types cx tys, push_maybe (maybe_val (maybe_as_non_null rt))] s1
        = Inr (x, s')" "length tys \<le> 1000"
      "count_arity (validator_arity cx s) (CatBr d) = Some (Some (of_nat (length tys), of_nat (length tys)))" .
  have "effect (length tys) (length tys + 1)
      (steps [pop_push_label_types cx tys, push_maybe (maybe_val (maybe_as_non_null rt))])"
    by (rule effect_pop_push effects | simp)+
  from counted_trans [OF s1(2) effectD(1) [OF this tys(1)]]
  have "counted (1 + length tys) (1 + length tys) s s'" by simp
  from tys(2,3) show ?thesis
    by (intro arity_agrees_counted [OF \<open>counted (1 + length tys) (1 + length tys) s s'\<close>])
      (simp_all add: arity_simps del: count_arity.simps)
qed

lemma arity_br_on_non_null:
  assumes "visit_br_on_non_null cx d s = Inr (x, s')" "resources cx = r"
  shows "arity_agrees cx (Reference (BrOnNonNull d)) s s'"
proof -
  from assms obtain tys where tys: "length tys \<le> 1000"
      "count_arity (validator_arity cx s) (CatBr d) = Some (Some (of_nat (length tys), of_nat (length tys)))"
    and run: "(if tys = [] then bail cx ''type mismatch: br_on_non_null target has no label types''
     else case last tys of
       Ref expected \<Rightarrow>
         bind_ov (pop_ref cx (Some (ref_nullable expected))) (\<lambda>_.
         pop_push_label_types cx (butlast tys))
     | _ \<Rightarrow> bail cx ''type mismatch: br_on_non_null target does not end with heap type'') s
     = Inr (x, s')"
    unfolding visit_br_on_non_null_def by (auto elim: bind_label_typesE [OF _ same_frames_refl])
  from run have ne: "tys \<noteq> []" by (auto simp: bail_def)
  with run obtain rt where "bind_ov (pop_ref cx (Some (ref_nullable rt)))
      (\<lambda>_. pop_push_label_types cx (butlast tys)) s = Inr (x, s')"
    by (auto simp: bail_def split: val_type.splits)
  then obtain s1 where s1: "pop_push_label_types cx (butlast tys) s1 = Inr (x, s')" "counted 1 0 s s1"
    by (rule bind_effect_InrE [OF _ effect_pop_ref])
  have "counted (length tys) (length tys - 1) s s'"
    using counted_trans [OF s1(2) effectD(1) [OF effect_pop_push s1(1)]] ne by simp
  from tys ne show ?thesis
    by (intro arity_agrees_counted [OF \<open>counted (length tys) (length tys - 1) s s'\<close>])
      (auto simp: arity_simps of_nat_diff Suc_le_eq simp del: count_arity.simps)
qed

lemma bind_check_cast_typesE:
  assumes "bind_ov (check_cast_types cx a b) f s = Inr (x, s')"
  obtains y s1 where "f y s1 = Inr (x, s')" "counted 0 0 s s1" "same_frames s s1"
proof -
  have "effect 0 0 (check_cast_types cx a b)"
    unfolding check_cast_types_def by (rule effects | simp)+
  from bind_effect_InrE [OF assms this] that show thesis by blast
qed

lemma br_cast_tail:
  assumes "bind_ov (if tys = [] then bail cx msg
      else steps [check_subtype_or cx ty (last tys) msg', pop cx ty']) (\<lambda>_.
     bind_ov (pop_push_label_types cx (butlast tys)) (\<lambda>_. m)) s = Inr (x, s')"
    and "effect 0 1 m"
  shows "counted (length tys) (length tys) s s'"
proof -
  have ne: "tys \<noteq> []" using assms(1) by (auto simp: bind_ov_def bail_def)
  then have "effect (length tys) (length tys) (bind_ov (if tys = [] then bail cx msg
      else steps [check_subtype_or cx ty (last tys) msg', pop cx ty']) (\<lambda>_.
     bind_ov (pop_push_label_types cx (butlast tys)) (\<lambda>_. m)))"
    by (simp del: steps.simps) (rule assms(2) effect_pop_push effects | simp)+
  from effectD(1) [OF this assms(1)] show ?thesis .
qed

lemma arity_br_on_cast:
  assumes "visit_br_on_cast cx d a b s = Inr (x, s')" "resources cx = r"
  shows "arity_agrees cx (Gc (BrOnCast d a b)) s s'"
proof -
  let ?rest = "\<lambda>from_ref_type to_ref_type tys. bind_ov (if tys = []
       then bail cx (''type mismatch: br_on_cast to label with empty types, ''
         @ ''must have a reference type'')
       else steps [check_subtype_or cx (Ref to_ref_type) (last tys)
           (''type mismatch: casting to type '' @ ref_display to_ref_type
            @ '', but it does not match label result type '' @ val_type_display (last tys)),
         pop cx (Ref from_ref_type)]) (\<lambda>_.
     bind_ov (pop_push_label_types cx (butlast tys)) (\<lambda>_.
     bind_ov (call_ov (ref_difference from_ref_type to_ref_type)) (\<lambda>diff_ty.
     push_operand (Ref diff_ty))))"
  from assms(1) obtain y s1 where s1: "(case y of (fr, tr) \<Rightarrow> bind_ov (jump cx d) (\<lambda>block.
      bind_ov (label_types cx block) (?rest fr tr))) s1 = Inr (x, s')"
      "counted 0 0 s s1" "same_frames s s1"
    unfolding visit_br_on_cast_def by (rule bind_check_cast_typesE)
  obtain fr tr where y: "y = (fr, tr)" by (cases y)
  from bind_label_typesE [OF s1(1) [unfolded y prod.case] s1(3) assms(2)] obtain tys
    where tys: "?rest fr tr tys s1 = Inr (x, s')" "length tys \<le> 1000"
      "count_arity (validator_arity cx s) (CatBr d) = Some (Some (of_nat (length tys), of_nat (length tys)))" .
  have "effect 0 1 (bind_ov (call_ov (ref_difference fr tr)) (\<lambda>d. push_operand (Ref d)))"
    by (rule effects | simp)+
  from counted_trans [OF s1(2) br_cast_tail [OF tys(1) this]]
  have "counted (length tys) (length tys) s s'" by simp
  from tys(2,3) show ?thesis
    by (intro arity_agrees_counted [OF \<open>counted (length tys) (length tys) s s'\<close>])
      (simp_all add: arity_simps del: count_arity.simps)
qed

lemma arity_br_on_cast_fail:
  assumes "visit_br_on_cast_fail cx d a b s = Inr (x, s')" "resources cx = r"
  shows "arity_agrees cx (Gc (BrOnCastFail d a b)) s s'"
proof -
  let ?rest = "\<lambda>from_ref_type to_ref_type tys diff_ty. bind_ov (if tys = []
       then bail cx ''type mismatch: expected a reference type, found nothing''
       else steps [check_subtype_or cx (Ref diff_ty) (last tys)
           (''type mismatch: expected label result type '' @ val_type_display (last tys)
            @ '', found '' @ ref_display diff_ty),
         pop cx (Ref from_ref_type)]) (\<lambda>_.
     bind_ov (pop_push_label_types cx (butlast tys)) (\<lambda>_.
     push_operand (Ref to_ref_type)))"
  from assms(1) obtain y s1 where s1: "(case y of (fr, tr) \<Rightarrow> bind_ov (jump cx d) (\<lambda>block.
      bind_ov (label_types cx block) (\<lambda>tys. bind_ov (call_ov (ref_difference fr tr)) (?rest fr tr tys)))) s1
      = Inr (x, s')" "counted 0 0 s s1" "same_frames s s1"
    unfolding visit_br_on_cast_fail_def by (rule bind_check_cast_typesE)
  obtain fr tr where y: "y = (fr, tr)" by (cases y)
  from bind_label_typesE [OF s1(1) [unfolded y prod.case] s1(3) assms(2)] obtain tys
    where tys: "bind_ov (call_ov (ref_difference fr tr)) (?rest fr tr tys) s1 = Inr (x, s')"
      "length tys \<le> 1000"
      "count_arity (validator_arity cx s) (CatBr d) = Some (Some (of_nat (length tys), of_nat (length tys)))" .
  from tys(1) obtain dt s2 where s2: "?rest fr tr tys dt s2 = Inr (x, s')" "counted 0 0 s1 s2"
    by (rule bind_effect_InrE [OF _ effect_call])
  have "counted (length tys) (length tys) s s'"
    using s1(2) s2(2) br_cast_tail [OF s2(1) effect_push_operand] by (simp add: counted_def)
  from tys(2,3) show ?thesis
    by (intro arity_agrees_counted [OF \<open>counted (length tys) (length tys) s s'\<close>])
      (simp_all add: arity_simps del: count_arity.simps)
qed

section \<open>Calls\<close>

lemma func_type_count:
  assumes "func_type_at cx t s = Inr (ft, s')" "resources cx = r"
  shows "s' = s" "length (func_params ft) \<le> 1000" "length (func_results ft) \<le> 1000"
    "count_arity (validator_arity cx s0) (CatType t) =
      Some (Some (of_nat (length (func_params ft)), of_nat (length (func_results ft))))"
proof -
  obtain st where st: "s' = s" "sub_type_at r t = Some (Some st)"
    "comp_inner (composite_type st) = CompFunc ft"
    using func_type_at_Inr [OF assms(1)] assms(2) by auto
  with func_counts [OF st(2,3)] assms(2)
  show "s' = s" "length (func_params ft) \<le> 1000" "length (func_results ft) \<le> 1000"
    "count_arity (validator_arity cx s0) (CatType t) =
      Some (Some (of_nat (length (func_params ft)), of_nat (length (func_results ft))))"
    by (simp_all add: mod_sub_type_at_eq sub_type_arity_def func_arity_def)
qed

lemma bind_type_of_functionE:
  assumes "bind_ov (type_of_function cx f) g s = Inr (x, s')" "resources cx = r"
  obtains ft where "g ft s = Inr (x, s')" "length (func_params ft) \<le> 1000"
    "length (func_results ft) \<le> 1000"
    "count_arity (validator_arity cx s) (CatFunc f) =
      Some (Some (of_nat (length (func_params ft)), of_nat (length (func_results ft))))"
proof -
  from assms(1) obtain t ft s1 where t: "type_index_of_function (resources cx) f = Some t"
    and run: "func_type_at cx t s = Inr (ft, s1)" "g ft s1 = Inr (x, s')"
    by (auto simp: type_of_function_def bail_def elim!: bind_ov_InrE split: option.splits)
  from func_type_count [OF run(1) assms(2)] run(2) t that show thesis
    by (simp add: validator_arity_def)
qed

lemma arity_call:
  assumes "visit_call cx f s = Inr (x, s')" "resources cx = r"
  shows "arity_agrees cx (Control (Call f)) s s'"
proof -
  from assms obtain ft where ft: "check_call_ty cx ft s = Inr (x, s')"
    "length (func_params ft) \<le> 1000" "length (func_results ft) \<le> 1000"
    "count_arity (validator_arity cx s) (CatFunc f) =
      Some (Some (of_nat (length (func_params ft)), of_nat (length (func_results ft))))"
    unfolding visit_call_def by (rule bind_type_of_functionE)
  from ft(2-4) show ?thesis
    by (intro arity_agrees_counted [OF effectD(1) [OF effect_call_ty ft(1)]])
      (simp_all add: arity_simps del: count_arity.simps)
qed

lemma arity_return_call:
  assumes "visit_return_call cx f s = Inr (x, s')" "resources cx = r"
  shows "arity_agrees cx (Reference (ReturnCall f)) s s'"
proof -
  from assms obtain ft where ft: "check_return_call_ty cx ft s = Inr (x, s')"
    "length (func_params ft) \<le> 1000" "length (func_results ft) \<le> 1000"
    "count_arity (validator_arity cx s) (CatFunc f) =
      Some (Some (of_nat (length (func_params ft)), of_nat (length (func_results ft))))"
    unfolding visit_return_call_def by (rule bind_type_of_functionE)
  from ft(2-4) show ?thesis
    by (intro arity_agrees_counted [OF effectD(1) [OF effect_return_call_ty ft(1)]])
      (simp_all add: arity_simps del: count_arity.simps)
qed

text \<open>Calls through a table or a reference pop one operand more.\<close>

lemma indirect_counted:
  assumes "bind_ov m (\<lambda>_. func_type_at cx t) s = Inr (ft, s1)" "effect 1 0 m" "resources cx = r"
  shows "counted 1 0 s s1" "length (func_params ft) \<le> 1000" "length (func_results ft) \<le> 1000"
    "count_arity (validator_arity cx s) (CatType t) =
      Some (Some (of_nat (length (func_params ft)), of_nat (length (func_results ft))))"
proof -
  from assms(1,2) obtain s2 where s2: "func_type_at cx t s2 = Inr (ft, s1)" "counted 1 0 s s2"
    by (rule bind_effect_InrE)
  note c = func_type_count [OF s2(1) assms(3)]
  from s2(2) c(1) show "counted 1 0 s s1" by simp
  show "length (func_params ft) \<le> 1000" "length (func_results ft) \<le> 1000"
    "count_arity (validator_arity cx s) (CatType t) =
      Some (Some (of_nat (length (func_params ft)), of_nat (length (func_results ft))))"
    by (rule c)+
qed

lemma bind_ov_assoc: "bind_ov (bind_ov m f) g = bind_ov m (\<lambda>x. bind_ov (f x) g)"
  by (auto simp: fun_eq_iff bind_ov_def split: sum.split)

lemma bind_return_ov: "bind_ov (return_ov y) f = f y"
  by (simp add: fun_eq_iff bind_ov_def return_ov_def)

lemma call_ref_ty_alt:
  obtains m :: "ref_type maybe_type ov"
  where "check_call_ref_ty cx t = bind_ov m (\<lambda>_. func_type_at cx t)" "effect 1 0 m"
proof (rule that)
  show "check_call_ref_ty cx t = bind_ov (bind_ov (check_heap_type_ov cx (Concrete (Module t))) (\<lambda>hty.
      bind_ov (call_ov (ref_new True hty)) (\<lambda>expected. pop_ref cx (Some expected))))
      (\<lambda>_. func_type_at cx t)"
    by (simp add: check_call_ref_ty_def bind_ov_assoc)
  show "effect 1 0 (bind_ov (check_heap_type_ov cx (Concrete (Module t))) (\<lambda>hty.
      bind_ov (call_ov (ref_new True hty)) (\<lambda>expected. pop_ref cx (Some expected))))"
    unfolding check_heap_type_ov_def by (rule effects | simp)+
qed

lemma call_indirect_ty_alt:
  obtains m :: "unit ov" where "check_call_indirect_ty cx t table = bind_ov m (\<lambda>_. func_type_at cx t)" "effect 1 0 m"
proof (rule that)
  let ?m = "bind_ov (table_type_at cx table) (\<lambda>tab.
     bind_ov (call_ov (is_subtype (resources cx) (Ref (table_element_type tab)) (Ref FUNCREF))) (\<lambda>ok.
     bind_ov (ensure cx ok
       ''type mismatch: indirect calls must go through a table with type <= funcref'') (\<lambda>_.
     pop cx (table_index_type tab))))"
  show "check_call_indirect_ty cx t table = bind_ov ?m (\<lambda>_. func_type_at cx t)"
    by (simp add: check_call_indirect_ty_def bind_ov_assoc)
  show "effect 1 0 ?m" by (rule effects | simp)+
qed

lemma arity_indirect_call:
  assumes "bind_ov (bind_ov m (\<lambda>_. func_type_at cx t)) (check_call_ty cx) s = Inr (x, s')"
    and "effect 1 0 m" "resources cx = r"
    and "snd (operator_info op) = Arity [Lit 1, Cat (CatType t)] [Cat (CatType t)]"
  shows "arity_agrees cx op s s'"
proof -
  from assms(1) obtain ft s1 where run: "bind_ov m (\<lambda>_. func_type_at cx t) s = Inr (ft, s1)"
    "check_call_ty cx ft s1 = Inr (x, s')"
    by (rule bind_ov_InrE)
  note c = indirect_counted [OF run(1) assms(2,3)]
  from c(2-4) assms(4) show ?thesis
    by (intro arity_agrees_counted [OF counted_trans [OF c(1) effectD(1) [OF effect_call_ty run(2)]]])
      (simp_all add: arity_simps del: count_arity.simps)
qed

lemma arity_indirect_return_call:
  assumes "bind_ov (bind_ov m (\<lambda>_. func_type_at cx t)) (check_return_call_ty cx) s = Inr (x, s')"
    and "effect 1 0 m" "resources cx = r"
    and "snd (operator_info op) = Arity [Lit 1, Cat (CatType t)] [Lit 0]"
  shows "arity_agrees cx op s s'"
proof -
  from assms(1) obtain ft s1 where run: "bind_ov m (\<lambda>_. func_type_at cx t) s = Inr (ft, s1)"
    "check_return_call_ty cx ft s1 = Inr (x, s')"
    by (rule bind_ov_InrE)
  note c = indirect_counted [OF run(1) assms(2,3)]
  from c(2-4) assms(4) show ?thesis
    by (intro arity_agrees_counted
        [OF counted_trans [OF c(1) effectD(1) [OF effect_return_call_ty run(2)]]])
      (simp_all add: arity_simps del: count_arity.simps)
qed

lemma arity_calls:
  assumes "resources cx = r"
  shows "visit_call_ref cx t s = Inr (x, s') \<Longrightarrow> arity_agrees cx (Reference (CallRef t)) s s'"
    "visit_return_call_ref cx t s = Inr (x, s') \<Longrightarrow>
      arity_agrees cx (Reference (ReturnCallRef t)) s s'"
    "visit_call_indirect cx t table s = Inr (x, s') \<Longrightarrow>
      arity_agrees cx (Control (CallIndirect t table)) s s'"
    "visit_return_call_indirect cx t table s = Inr (x, s') \<Longrightarrow>
      arity_agrees cx (Reference (ReturnCallIndirect t table)) s s'"
proof -
  from call_ref_ty_alt [of cx t] obtain m :: "ref_type maybe_type ov"
    where m: "check_call_ref_ty cx t = bind_ov m (\<lambda>_. func_type_at cx t)" "effect 1 0 m" .
  show "visit_call_ref cx t s = Inr (x, s') \<Longrightarrow> arity_agrees cx (Reference (CallRef t)) s s'"
    unfolding visit_call_ref_def m(1)
    by (rule arity_indirect_call [OF _ m(2) assms]) simp_all
  show "visit_return_call_ref cx t s = Inr (x, s') \<Longrightarrow>
      arity_agrees cx (Reference (ReturnCallRef t)) s s'"
    unfolding visit_return_call_ref_def m(1)
    by (rule arity_indirect_return_call [OF _ m(2) assms]) simp_all
  from call_indirect_ty_alt [of cx t table] obtain m :: "unit ov"
    where m: "check_call_indirect_ty cx t table = bind_ov m (\<lambda>_. func_type_at cx t)"
      "effect 1 0 m" .
  show "visit_call_indirect cx t table s = Inr (x, s') \<Longrightarrow>
      arity_agrees cx (Control (CallIndirect t table)) s s'"
    unfolding visit_call_indirect_def m(1)
    by (rule arity_indirect_call [OF _ m(2) assms]) simp_all
  show "visit_return_call_indirect cx t table s = Inr (x, s') \<Longrightarrow>
      arity_agrees cx (Reference (ReturnCallIndirect t table)) s s'"
    unfolding visit_return_call_indirect_def m(1)
    by (rule arity_indirect_return_call [OF _ m(2) assms]) simp_all
qed

section \<open>Return\<close>

lemma arity_return:
  assumes "visit_return cx s = Inr (x, s')" "resources cx = r" "length (control s) < 2 ^ 32"
  shows "arity_agrees cx (Control Return) s s'"
proof -
  let ?ty = "fr_block_type (last (control s))"
  from assms(1) have ne: "control s \<noteq> []"
    and "bind_ov (block_results cx ?ty) (\<lambda>tys. steps [pop_rev cx tys, unreachable cx]) s = Inr (x, s')"
    by (auto simp: visit_return_def check_return_def outermost_results_def bind_ov_def
      split: if_splits)
  then obtain rs np nr where c: "block_counts cx ?ty np nr" "length rs = nr"
    and run: "steps [pop_rev cx rs, unreachable cx] s = Inr (x, s')"
    using assms(2) by (elim bind_block_resultsE)
  have "effect (length rs) 0 (steps [pop_rev cx rs, unreachable cx])"
    by (rule effect_pop_rev effects | simp)+
  from effectD(1) [OF this run] c(2) have counts: "counted nr 0 s s'" by simp
  obtain n where n: "length (control s) = Suc n" using ne by (cases "control s") auto
  then have unat: "unat (of_nat n :: u32) = n"
    using assms(3) by (simp add: unat_of_nat take_bit_nat_eq_self)
  have "(1 :: u32) \<le> of_nat (Suc n)"
    using n assms(3) by (simp only: word_le_nat_alt unat_of_nat) (simp add: take_bit_nat_eq_self)
  then have "checked_sub (of_nat (length (control s))) 1 = Some (of_nat n)"
    by (simp add: checked_sub_def n)
  moreover have "mod_label_block (validator_arity cx s) (of_nat n)
      = Some (?ty, fr_kind (last (control s)))"
    using n ne by (simp add: validator_arity_def jump_def ok_def Let_def unat last_conv_nth)
  ultimately have "count_arity (validator_arity cx s) CatRet = Some (Some (of_nat np, of_nat nr))"
    using c(1) by (simp add: validator_arity_def block_counts_def)
  moreover have "np \<le> 1000" "nr \<le> 1000" using c(1) by (simp_all add: block_counts_def)
  ultimately show ?thesis
    by (intro arity_agrees_counted [OF counts]) (simp_all add: arity_simps del: count_arity.simps)
qed

section \<open>Exceptions\<close>

lemma tag_count:
  assumes "tag_at (resources cx) t = Some (Some ft)" "resources cx = r"
  shows "count_arity (validator_arity cx s) (CatTag t) =
      Some (Some (of_nat (length (func_params ft)), of_nat (length (func_results ft))))"
    "length (func_params ft) \<le> 1000" "length (func_results ft) \<le> 1000"
  using tag_canonical [of t] assms
  by (auto simp: validator_arity_def func_arity_def canonical_func_def wasm_limits)

lemma bind_tag_atE:
  assumes "bind_ov (tag_at_ov cx t) f s = Inr (x, s')
    \<or> bind_ov (exception_tag_at cx t) f s = Inr (x, s')"
  obtains ft where "tag_at (resources cx) t = Some (Some ft)" "f ft s = Inr (x, s')"
  using assms by (auto elim!: bind_ov_InrE dest!: tag_at_ov_Inr)

lemma arity_throw:
  assumes "visit_throw cx t s = Inr (x, s')" "resources cx = r"
  shows "arity_agrees cx (Exception (Throw t)) s s'"
proof -
  from assms(1) obtain ft where ft: "tag_at (resources cx) t = Some (Some ft)"
    and run: "steps [pop_rev cx (func_params ft),
       if func_results ft = [] then return_ov () else panic_ov, unreachable cx] s = Inr (x, s')"
    unfolding visit_throw_def by (elim bind_tag_atE [OF disjI2])
  have "effect (length (func_params ft)) 0 (steps [pop_rev cx (func_params ft),
       if func_results ft = [] then return_ov () else panic_ov, unreachable cx])"
    by (rule effect_pop_rev effects | simp)+
  from tag_count [OF ft assms(2)] show ?thesis
    by (intro arity_agrees_counted [OF effectD(1) [OF \<open>effect _ _ _\<close> run]])
      (simp_all add: arity_simps del: count_arity.simps)
qed

lemma arity_catch:
  assumes "visit_catch cx t s = Inr (x, s')" "resources cx = r"
  shows "arity_agrees cx (Exception (Catch t)) s s'"
proof -
  from assms(1) obtain frame s1 s2 where pop: "pop_ctrl cx s = Inr (frame, s1)"
    and push: "push_frame FrameLegacyCatch (fr_block_type frame) s1 = Inr ((), s2)"
    and run: "bind_ov (exception_tag_at cx t) (\<lambda>ty. push_all (func_params ty)) s2 = Inr (x, s')"
    unfolding visit_catch_def by (elim bind_ov_InrE bind_ensure_InrE) (auto simp: bind_ov_def)
  from run obtain ft where ft: "tag_at (resources cx) t = Some (Some ft)"
    "push_all (func_params ft) s2 = Inr (x, s')"
    by (elim bind_tag_atE [OF disjI2])
  from pop_ctrl_counted [OF pop assms(2)] obtain np nr
    where c: "block_counts cx (fr_block_type frame) np nr" "counted nr 0 s s1"
      "mod_label_block (validator_arity cx s) 0 = Some (fr_block_type frame, fr_kind frame)" .
  have counts: "counted nr (length (func_params ft)) s s'"
    using c(2) push_frame_counted [OF push] effectD(1) [OF effect_push_all ft(2)]
    by (simp add: counted_def)
  from end_count [OF c(3,1)] tag_count [OF ft(1) assms(2)] show ?thesis
    by (intro arity_agrees_counted [OF counts]) (simp_all add: arity_simps del: count_arity.simps)
qed

lemma arity_catch_all:
  assumes "visit_catch_all cx s = Inr (x, s')" "resources cx = r"
  shows "arity_agrees cx (Exception CatchAll) s s'"
proof -
  from assms(1) obtain frame s1 where pop: "pop_ctrl cx s = Inr (frame, s1)"
    and push: "push_frame FrameLegacyCatchAll (fr_block_type frame) s1 = Inr (x, s')"
    unfolding visit_catch_all_def
    by (auto simp: bail_def bind_ov_def elim!: bind_ov_InrE split: if_splits sum.splits prod.splits
      dest: ensure_Inr)
  from pop_ctrl_counted [OF pop assms(2)] obtain np nr
    where c: "block_counts cx (fr_block_type frame) np nr" "counted nr 0 s s1"
      "mod_label_block (validator_arity cx s) 0 = Some (fr_block_type frame, fr_kind frame)" .
  from end_count [OF c(3,1)] show ?thesis
    by (intro arity_agrees_counted [OF counted_trans [OF c(2) push_frame_counted [OF push]]])
      (simp_all add: arity_simps del: count_arity.simps)
qed

lemma arity_delegate:
  assumes "visit_delegate cx d s = Inr (x, s')" "resources cx = r"
  shows "arity_agrees cx (Exception (Delegate d)) s s'"
proof -
  from assms(1) obtain frame s1 s2 where pop: "pop_ctrl cx s = Inr (frame, s1)"
    and jump: "counted 0 0 s1 s2"
    and run: "bind_ov (block_results cx (fr_block_type frame)) push_all s2 = Inr (x, s')"
    unfolding visit_delegate_def
    by (elim bind_ov_InrE bind_ensure_InrE) (auto simp: bind_ov_def dest: effectD(1) [OF effect_jump])
  from pop_ctrl_counted [OF pop assms(2)] obtain np nr
    where c: "block_counts cx (fr_block_type frame) np nr" "counted nr 0 s s1"
      "mod_label_block (validator_arity cx s) 0 = Some (fr_block_type frame, fr_kind frame)" .
  from run obtain rs s3 where rs: "block_results cx (fr_block_type frame) s2 = Inr (rs, s3)"
    "push_all rs s3 = Inr (x, s')"
    by (rule bind_ov_InrE)
  with c(1) have eq: "s3 = s2" "length rs = nr" by (auto simp: block_counts_def)
  have counts: "counted nr nr s s'"
    using c(2) jump effectD(1) [OF effect_push_all rs(2)] eq by (simp add: counted_def)
  from end_count [OF c(3,1)] show ?thesis
    by (intro arity_agrees_counted [OF counts]) (simp_all add: arity_simps del: count_arity.simps)
qed

section \<open>Stack switching\<close>

lemma cont_type_func:
  assumes "comp_inner (composite_type st) = CompCont ct" "canonical_sub (sub_type_at_id r) st"
    "func_type_of_cont_type cx ct s = Inr (ft, s1)" "resources cx = r"
  shows "s1 = s" "length (func_params ft) \<le> 1000" "length (func_results ft) \<le> 1000"
    "sub_type_arity (validator_arity cx s0) st =
      Some (Some (of_nat (length (func_params ft)), of_nat (length (func_results ft))))"
    "mod_func_type_of_cont_type (validator_arity cx s0) ct = Some (Some ft)"
proof -
  obtain tid st' where st': "sub_type_at_id r tid = Some st'"
    "comp_inner (composite_type st') = CompFunc ft"
    using assms(3,4)
    by (cases ct) (auto simp: func_type_of_cont_type_def call_ov_def panic_ov_def return_ov_def
      unwrap_func_def elim!: bind_ov_InrE split: option.splits composite_inner_type.splits)
  have "canonical_func (sub_type_at_id r) ft"
    using sub_type_id_canonical [OF st'(1)] st'(2) by (simp add: canonical_sub_def)
  then show "length (func_params ft) \<le> 1000" "length (func_results ft) \<le> 1000"
    by (auto simp: canonical_func_def wasm_limits)
  show "s1 = s" by (rule func_type_of_cont_type_Inr(1) [OF assms(3)])
  show cont: "mod_func_type_of_cont_type (validator_arity cx s0) ct = Some (Some ft)"
    using func_type_of_cont_type_Inr(2) [OF assms(3), of s0]
    by (simp add: validator_arity_def ok_def)
  show "sub_type_arity (validator_arity cx s0) st =
      Some (Some (of_nat (length (func_params ft)), of_nat (length (func_results ft))))"
    using assms(1) cont by (simp add: sub_type_arity_def func_arity_def)
qed

lemma bind_cont_func_typeE:
  assumes "bind_ov (cont_type_at cx t) (\<lambda>ct. bind_ov (func_type_of_cont_type cx ct) f) s = Inr (x, s')"
    "resources cx = r"
  obtains ft where "f ft s = Inr (x, s')"
    "length (func_params ft) \<le> 1000" "length (func_results ft) \<le> 1000"
    "count_arity (validator_arity cx s) (CatType t) =
      Some (Some (of_nat (length (func_params ft)), of_nat (length (func_results ft))))"
    "\<exists>st ct. mod_sub_type_at (validator_arity cx s) t = Some (Some st) \<and> is_cont st = Some ct
      \<and> mod_func_type_of_cont_type (validator_arity cx s) ct = Some (Some ft)"
proof -
  from assms(1) obtain ct s1 ft s2 where run: "cont_type_at cx t s = Inr (ct, s1)"
    "func_type_of_cont_type cx ct s1 = Inr (ft, s2)" "f ft s2 = Inr (x, s')"
    by (elim bind_ov_InrE)
  obtain st where st: "s1 = s" "sub_type_at r t = Some (Some st)"
    "comp_inner (composite_type st) = CompCont ct"
    using cont_type_at_Inr [OF run(1)] assms(2) by auto
  have "canonical_sub (sub_type_at_id r) st" using sub_type_canonical [of t] st(2) by auto
  from cont_type_func [OF st(3) this run(2) assms(2)] st run(3) assms(2) show thesis
    by (intro that [of ft]) (auto simp: mod_sub_type_at_eq is_cont_def)
qed

lemma effect_same_len_subtypes [effects]:
  "effect 0 0 (is_subtype_many cx ts us)" "effect 0 0 (same_len_subtypes cx ts us)"
  unfolding same_len_subtypes_def is_subtype_many_def by (rule effects | simp)+

lemma same_len_subtypes_length:
  "same_len_subtypes cx ts us s = Inr (True, s') \<Longrightarrow> length ts = length us"
  by (auto simp: same_len_subtypes_def return_ov_def split: if_splits)

lemma effect_cont_func_type_of_ref [effects]: "effect 0 0 (cont_func_type_of_ref cx rt)"
proof -
  have cont: "effect 0 0 (case comp_inner (composite_type sub_ty) of
       CompCont cont \<Rightarrow> func_type_of_cont_type cx cont
     | _ \<Rightarrow> bail cx ''non-continuation type'')" for sub_ty
    by (auto split: composite_inner_type.split intro: effects)
  show ?thesis unfolding cont_func_type_of_ref_def by (rule cont effects | simp)+
qed

lemma effect_check_resume_handle [effects]: "effect 0 0 (check_resume_handle cx ft h)"
proof -
  have handle: "effect 0 0 (case t of Ref rt \<Rightarrow> f rt | ty \<Rightarrow> bail cx (msg ty))"
    if "\<And>rt. effect 0 0 (f rt)" for t msg and f :: "ref_type \<Rightarrow> unit ov"
    using that by (cases t) (auto intro: effects)
  show ?thesis
    unfolding check_resume_handle_def
    by (cases h) (simp only: handle.case, (rule handle effects | simp)+)+
qed

lemma bind_check_resume_tableE:
  assumes "bind_ov (check_resume_table cx table t) f s = Inr (x, s')" "resources cx = r"
  obtains ft s1 where "f ft s1 = Inr (x, s')" "counted 0 0 s s1"
    "length (func_params ft) \<le> 1000" "length (func_results ft) \<le> 1000"
    "count_arity (validator_arity cx s) (CatType t) =
      Some (Some (of_nat (length (func_params ft)), of_nat (length (func_results ft))))"
proof -
  from assms(1) have "bind_ov (cont_type_at cx t) (\<lambda>ct. bind_ov (func_type_of_cont_type cx ct)
      (\<lambda>ft. bind_ov (steps (map (check_resume_handle cx ft) table)) (\<lambda>_. f ft))) s = Inr (x, s')"
    by (simp add: check_resume_table_def bind_ov_assoc bind_return_ov)
  then obtain ft where ft: "bind_ov (steps (map (check_resume_handle cx ft) table)) (\<lambda>_. f ft) s
      = Inr (x, s')"
    "length (func_params ft) \<le> 1000" "length (func_results ft) \<le> 1000"
    "count_arity (validator_arity cx s) (CatType t) =
      Some (Some (of_nat (length (func_params ft)), of_nat (length (func_results ft))))"
    using assms(2) by (rule bind_cont_func_typeE)
  from ft(1) obtain s1 where "f ft s1 = Inr (x, s')" "counted 0 0 s s1"
    by (rule bind_effect_InrE [OF _ effect_steps_map_0 [OF effect_check_resume_handle]])
  with ft that show thesis by blast
qed

lemma arity_suspend:
  assumes "visit_suspend cx t s = Inr (x, s')" "resources cx = r"
  shows "arity_agrees cx (Exception (Suspend t)) s s'"
proof -
  from assms(1) obtain ft where ft: "tag_at (resources cx) t = Some (Some ft)"
    and run: "steps [pop_rev cx (func_params ft), push_all (func_results ft)] s = Inr (x, s')"
    unfolding visit_suspend_def by (elim bind_tag_atE [OF disjI1])
  have "effect (length (func_params ft)) (length (func_results ft))
      (steps [pop_rev cx (func_params ft), push_all (func_results ft)])"
    by (rule effect_pop_rev effect_push_all effects | simp)+
  from tag_count [OF ft assms(2)] show ?thesis
    by (intro arity_agrees_counted [OF effectD(1) [OF \<open>effect _ _ _\<close> run]])
      (simp_all add: arity_simps del: count_arity.simps)
qed

lemma arity_resume:
  assumes "visit_resume cx t table s = Inr (x, s')" "resources cx = r"
  shows "arity_agrees cx (Exception (Resume t table)) s s'"
proof -
  from assms obtain ft s1 where run: "steps [pop_concrete_ref cx True t, pop_rev cx (func_params ft),
       push_all (func_results ft)] s1 = Inr (x, s')" "counted 0 0 s s1"
    and ft: "length (func_params ft) \<le> 1000" "length (func_results ft) \<le> 1000"
    "count_arity (validator_arity cx s) (CatType t) =
      Some (Some (of_nat (length (func_params ft)), of_nat (length (func_results ft))))"
    unfolding visit_resume_def by (rule bind_check_resume_tableE)
  have "effect (1 + length (func_params ft)) (length (func_results ft))
      (steps [pop_concrete_ref cx True t, pop_rev cx (func_params ft), push_all (func_results ft)])"
    by (rule effect_pop_rev effect_push_all effects | simp)+
  from counted_trans [OF run(2) effectD(1) [OF this run(1)]]
  have counts: "counted (1 + length (func_params ft)) (length (func_results ft)) s s'" by simp
  from ft show ?thesis
    by (intro arity_agrees_counted [OF counts]) (simp_all add: arity_simps del: count_arity.simps)
qed

lemma arity_resume_throw:
  assumes "visit_resume_throw cx t tag table s = Inr (x, s')" "resources cx = r"
  shows "arity_agrees cx (Exception (ResumeThrow t tag table)) s s'"
proof -
  from assms obtain ft s1 where run: "bind_ov (exception_tag_at cx tag) (\<lambda>tag_ty.
     steps [ensure cx (length (func_results tag_ty) = 0)
         ''type mismatch: non-empty tag result type'',
       pop_concrete_ref cx True t, pop_rev cx (func_params tag_ty),
       push_all (func_results ft)]) s1 = Inr (x, s')" "counted 0 0 s s1"
    and ft: "length (func_params ft) \<le> 1000" "length (func_results ft) \<le> 1000"
    "count_arity (validator_arity cx s) (CatType t) =
      Some (Some (of_nat (length (func_params ft)), of_nat (length (func_results ft))))"
    unfolding visit_resume_throw_def by (rule bind_check_resume_tableE)
  from run(1) obtain gt where gt: "tag_at (resources cx) tag = Some (Some gt)"
    and tail: "steps [ensure cx (length (func_results gt) = 0)
         ''type mismatch: non-empty tag result type'',
       pop_concrete_ref cx True t, pop_rev cx (func_params gt),
       push_all (func_results ft)] s1 = Inr (x, s')"
    by (elim bind_tag_atE [OF disjI2])
  have "effect (1 + length (func_params gt)) (length (func_results ft))
      (steps [ensure cx (length (func_results gt) = 0) ''type mismatch: non-empty tag result type'',
         pop_concrete_ref cx True t, pop_rev cx (func_params gt), push_all (func_results ft)])"
    by (rule effect_pop_rev effect_push_all effects | simp)+
  from counted_trans [OF run(2) effectD(1) [OF this tail]]
  have counts: "counted (1 + length (func_params gt)) (length (func_results ft)) s s'" by simp
  from ft tag_count [OF gt assms(2)] show ?thesis
    by (intro arity_agrees_counted [OF counts]) (simp_all add: arity_simps del: count_arity.simps)
qed

lemma checked_sub_self: "checked_sub a a = Some 0"
  by (simp add: checked_sub_def)

lemma arity_cont_bind:
  assumes "visit_cont_bind cx arg res s = Inr (x, s')" "resources cx = r"
  shows "arity_agrees cx (Exception (ContBind arg res)) s s'"
proof -
  let ?tail = "\<lambda>arg_func res_func. bind_ov (ensure cx
       (\<not> length (func_params arg_func) < length (func_params res_func))
       ''type mismatch in continuation arguments'') (\<lambda>_.
     let argcnt = length (func_params arg_func) - length (func_params res_func) in
     bind_ov (is_subtype_many cx (func_params res_func) (drop argcnt (func_params arg_func))) (\<lambda>ok.
     bind_ov (if ok then same_len_subtypes cx (func_results arg_func) (func_results res_func)
       else return_ov False) (\<lambda>ok.
     steps [ensure cx ok ''type mismatch in continuation types'',
       pop_concrete_ref cx True arg,
       pop_rev cx (take argcnt (func_params arg_func)),
       push_concrete_ref cx False res])))"
  from assms obtain af where af: "bind_ov (cont_type_at cx res) (\<lambda>res_cont.
     bind_ov (func_type_of_cont_type cx res_cont) (?tail af)) s = Inr (x, s')"
    "length (func_params af) \<le> 1000" "length (func_results af) \<le> 1000"
    "count_arity (validator_arity cx s) (CatType arg) =
      Some (Some (of_nat (length (func_params af)), of_nat (length (func_results af))))"
    unfolding visit_cont_bind_def by (rule bind_cont_func_typeE)
  from af(1) assms(2) obtain rf where rf: "?tail af rf s = Inr (x, s')"
    "length (func_params rf) \<le> 1000" "length (func_results rf) \<le> 1000"
    "count_arity (validator_arity cx s) (CatType res) =
      Some (Some (of_nat (length (func_params rf)), of_nat (length (func_results rf))))"
    by (rule bind_cont_func_typeE)
  from rf(1) have len: "length (func_params rf) \<le> length (func_params af)"
    by (rule bind_ensure_InrE) simp
  from rf(1) [unfolded Let_def] obtain ok1 s1 ok2 s2 us
    where same: "(if ok1 then same_len_subtypes cx (func_results af) (func_results rf)
        else return_ov False) s1 = Inr (ok2, s2)"
      and ok2: "steps (ensure cx ok2 ''type mismatch in continuation types'' # us) s2 = Inr (x, s')"
    by (elim bind_ensure_InrE bind_ov_InrE) (rule that)
  from ok2 have "ok2" unfolding steps.simps by (rule bind_ensure_InrE)
  with same have results: "length (func_results af) = length (func_results rf)"
    by (auto simp: return_ov_def dest: same_len_subtypes_length split: if_splits)
  have "effect (1 + (length (func_params af) - length (func_params rf))) 1 (?tail af rf)"
    unfolding Let_def by (rule effect_pop_rev effects | simp)+
  note counts = effectD(1) [OF this rf(1)]
  have "checked_sub (of_nat (length (func_params af))) (of_nat (length (func_params rf)))
      = Some (of_nat (length (func_params af) - length (func_params rf)))"
    using len af(2) rf(2)
    by (simp add: checked_sub_def word_le_nat_alt unat_of_nat take_bit_nat_eq_self of_nat_diff)
  with af(4) rf(4) results
  have "count_arity (validator_arity cx s) (CatTypeDiff arg res)
      = Some (Some (of_nat (length (func_params af) - length (func_params rf)), 0))"
    by (simp add: checked_sub_self)
  with af(2) show ?thesis
    by (intro arity_agrees_counted [OF counts]) (simp_all add: arity_simps del: count_arity.simps)
qed

lemma cont_func_of_ref_count:
  assumes "cont_func_type_of_ref cx rt s1 = Inr (ft, s2)" "resources cx = r"
  shows "bind_opt (mod_sub_type_of_ref_type (validator_arity cx s) rt) (sub_type_arity (validator_arity cx s))
      = Some (Some (of_nat (length (func_params ft)), of_nat (length (func_results ft))))"
    "length (func_params ft) \<le> 1000" "length (func_results ft) \<le> 1000"
proof -
  from assms obtain tid st ct where st: "Option.bind (type_index rt) packed_as_core_type_id = Some tid"
    "sub_type_at_id r tid = Some st" "comp_inner (composite_type st) = CompCont ct"
    and ft: "func_type_of_cont_type cx ct s1 = Inr (ft, s2)"
    by (auto simp: cont_func_type_of_ref_def call_ov_def panic_ov_def return_ov_def bail_def
      elim!: bind_ov_InrE split: option.splits composite_inner_type.splits)
  note c = cont_type_func [OF st(3) sub_type_id_canonical [OF st(2)] ft assms(2)]
  show "length (func_params ft) \<le> 1000" "length (func_results ft) \<le> 1000" by (rule c)+
  from st(1,2) assms(2) have "mod_sub_type_of_ref_type (validator_arity cx s) rt = Some (Some st)"
    by (simp add: validator_arity_def)
  with c(4) show "bind_opt (mod_sub_type_of_ref_type (validator_arity cx s) rt)
      (sub_type_arity (validator_arity cx s))
      = Some (Some (of_nat (length (func_params ft)), of_nat (length (func_results ft))))"
    by simp
qed

lemma arity_switch:
  assumes "visit_switch cx t tag s = Inr (x, s')" "resources cx = r"
  shows "arity_agrees cx (Exception (Switch t tag)) s s'"
proof -
  let ?after = "\<lambda>ft gt oft. bind_ov (same_len_subtypes cx (func_results ft) (func_results gt)) (\<lambda>ok.
      bind_ov (if ok then same_len_subtypes cx (func_results gt) (func_results oft)
        else return_ov False) (\<lambda>ok.
      steps [ensure cx ok ''type mismatch in continuation types'', pop_concrete_ref cx True t,
        pop_rev cx (butlast (func_params ft)), push_all (func_params oft)]))"
  from assms obtain ft where run: "bind_ov (tag_at_ov cx tag) (\<lambda>tag_ty.
     bind_ov (ensure cx (length (func_params tag_ty) = 0)
       ''type mismatch: non-empty tag parameter type'') (\<lambda>_.
     if func_params ft = []
     then bail cx ''type mismatch: instruction requires a continuation reference''
     else case last (func_params ft) of
       Ref rt \<Rightarrow>
         (if is_concrete_type_ref rt then bind_ov (cont_func_type_of_ref cx rt) (?after ft tag_ty)
          else bail cx (''type mismatch: expected a continuation reference, found ''
            @ ty_to_str (Ref rt)))
     | ty \<Rightarrow> bail cx (''type mismatch: expected a continuation reference, found ''
         @ ty_to_str ty))) s = Inr (x, s')"
    and len: "length (func_params ft) \<le> 1000" "length (func_results ft) \<le> 1000"
    and pops: "count_arity (validator_arity cx s) (CatType t) =
      Some (Some (of_nat (length (func_params ft)), of_nat (length (func_results ft))))"
    and cont: "\<exists>st ct. mod_sub_type_at (validator_arity cx s) t = Some (Some st) \<and> is_cont st = Some ct
      \<and> mod_func_type_of_cont_type (validator_arity cx s) ct = Some (Some ft)"
    unfolding visit_switch_def by (rule bind_cont_func_typeE)
  from run obtain gt rt where ne: "func_params ft \<noteq> []" "last (func_params ft) = Ref rt"
    and run: "bind_ov (cont_func_type_of_ref cx rt) (?after ft gt) s = Inr (x, s')"
    by (elim bind_tag_atE [OF disjI1] bind_ensure_InrE)
      (auto simp: bail_def split: if_splits val_type.splits)
  from run obtain oft s1 where other: "cont_func_type_of_ref cx rt s = Inr (oft, s1)"
    and tail: "?after ft gt oft s1 = Inr (x, s')"
    by (rule bind_ov_InrE)
  note o = cont_func_of_ref_count [OF other assms(2)]
  from cont ne o(1) have pushes: "count_arity (validator_arity cx s) (CatSwitch t) =
      Some (Some (of_nat (length (func_params oft)), of_nat (length (func_results oft))))"
    by (auto simp: last_param_ref_def)
  have "effect (1 + (length (func_params ft) - 1)) (length (func_params oft)) (?after ft gt oft)"
    by (rule effect_pop_rev effect_push_all effects | simp)+
  from counted_trans [OF effectD(1) [OF effect_cont_func_type_of_ref other] effectD(1) [OF this tail]]
  have counts: "counted (length (func_params ft)) (length (func_params oft)) s s'"
    using ne(1) by (simp add: Suc_diff_1)
  from len o pops pushes show ?thesis
    by (intro arity_agrees_counted [OF counts]) (simp_all add: arity_simps del: count_arity.simps)
qed

section \<open>Structs and arrays\<close>

lemma arity_struct_new:
  assumes "visit_struct_new cx t s = Inr (x, s')" "resources cx = r"
  shows "arity_agrees cx (Gc (StructNew t)) s s'"
proof -
  from assms(1) obtain flds s1 where run: "struct_type_at cx t s = Inr (flds, s1)"
    "steps [pop_rev cx (map (\<lambda>f. storage_unpack (element_type f)) flds),
       push_concrete_ref cx False t] s1 = Inr (x, s')"
    unfolding visit_struct_new_def by (rule bind_ov_InrE)
  obtain st where st: "s1 = s" "sub_type_at r t = Some (Some st)"
    "comp_inner (composite_type st) = CompStruct (StructType flds)"
    using struct_type_at_Inr [OF run(1)] assms(2) by auto
  have "canonical_sub (sub_type_at_id r) st" using sub_type_canonical [of t] st(2) by auto
  with st have len: "length flds \<le> 10000"
    and count: "count_arity (validator_arity cx s) (CatType t) =
      Some (Some (of_nat (length flds), of_nat (length flds)))"
    using assms(2) by (auto simp: canonical_sub_def wasm_limits mod_sub_type_at_eq sub_type_arity_def)
  have "effect (length flds) 1 (steps [pop_rev cx (map (\<lambda>f. storage_unpack (element_type f)) flds),
       push_concrete_ref cx False t])"
    by (rule effect_pop_rev effects | simp)+
  from effectD(1) [OF this run(2)] st(1) have counts: "counted (length flds) 1 s s'" by simp
  from len count show ?thesis
    by (intro arity_agrees_counted [OF counts]) (simp_all add: arity_simps del: count_arity.simps)
qed

lemma arity_array_new_fixed:
  assumes "visit_array_new_fixed cx t n s = Inr (x, s')" "unat n < 2 ^ 31"
  shows "arity_agrees cx (Gc (ArrayNewFixed t n)) s s'"
proof -
  have "effect (unat n) 0 (steps (replicate (unat n) (pop cx ty)))" for ty
    using effect_steps_map [OF effect_pop, of "replicate (unat n) ty"] by (simp add: map_replicate)
  note pops = this
  have "effect (unat n) 1 (visit_array_new_fixed cx t n)"
    unfolding visit_array_new_fixed_def by (rule pops effects | simp)+
  from effectD(1) [OF this assms(1)] have counts: "counted (unat n) 1 s s'" .
  obtain k where k: "k < 2 ^ 31" "n = of_nat k" "unat n = k"
    by (rule that [of "unat n"]) (use assms(2) in simp_all)
  then show ?thesis
    by (intro arity_agrees_counted [OF counts [unfolded k(3)]]) (simp_all add: arity_simps)
qed

section \<open>All operators\<close>

lemma arity_control:
  assumes "visit_control cx op s = Inr (x, s')" "resources cx = r" "length (control s) < 2 ^ 32"
    and "literal_arity (snd (control_info op)) = None"
  shows "arity_agrees cx (Control op) s s'"
  using assms arity_block [of cx "Control op" s x s'] arity_calls [OF assms(2)]
  by (cases op) (auto intro: arity_if arity_else arity_end arity_br arity_br_if arity_br_table
    arity_return arity_call)

lemma arity_reference:
  assumes "visit_reference cx op s = Inr (x, s')" "resources cx = r"
    and "literal_arity (snd (ref_info op)) = None"
  shows "arity_agrees cx (Reference op) s s'"
  using assms arity_calls [OF assms(2)]
  by (cases op) (auto intro: arity_return_call arity_br_on_null arity_br_on_non_null)

lemma arity_exception:
  assumes "visit_exception cx op s = Inr (x, s')" "resources cx = r"
    and "literal_arity (snd (exn_info op)) = None"
  shows "arity_agrees cx (Exception op) s s'"
  using assms arity_block [of cx "Exception op" s x s']
  by (cases op rule: exn_info.cases) (auto intro: arity_try_table arity_throw arity_catch
    arity_catch_all arity_delegate arity_suspend arity_resume arity_resume_throw arity_cont_bind
    arity_switch)

lemma arity_gc:
  assumes "visit_gc cx op s = Inr (x, s')" "resources cx = r"
    and "literal_arity (snd (gc_info op)) = None"
    and "\<And>t n. op = ArrayNewFixed t n \<Longrightarrow> unat n < 2 ^ 31"
  shows "arity_agrees cx (Gc op) s s'"
  using assms
  by (cases op) (auto intro: arity_struct_new arity_array_new_fixed arity_br_on_cast
    arity_br_on_cast_fail)

theorem arity_operator:
  assumes "visit_op cx op s = Inr (x, s')" "resources cx = r" "length (control s) < 2 ^ 32"
    and "\<And>t n. op = Gc (ArrayNewFixed t n) \<Longrightarrow> unat n < 2 ^ 31"
  shows "arity_agrees cx op s s'"
proof (cases "literal_arity (snd (operator_info op))")
  case None
  with assms show ?thesis
    by (cases op) (simp_all add: arity_control arity_reference arity_exception arity_gc fixed_info
      del: not_None_eq)
next
  case (Some a)
  with assms(1) arity_fixed show ?thesis by (cases a) blast
qed

end

end
