(* ===== verification/Func_Validator.thy ===== *)
theory Func_Validator
  imports Module_State Arity_Agreement
begin

text \<open>
  The validation of function bodies: crates/wasmparser/src/validator/func.rs. \<open>FuncToValidate\<close> is what
  the validator of the module hands out for each body, \<open>FuncValidator\<close> validates one.

  The loop over the operators is compiled with a check in debug builds, that the pops and pushes of
  the validator are the arity of the operator; the argument \<open>debug\<close> selects the build. The counters of
  the check are natural numbers, where the code has \<open>u32\<close> counters that overflow after \<open>2^32 - 1\<close>
  operands.
\<close>

section \<open>Definitions\<close>

record func_to_validate =
  ftv_resources :: core_module
  ftv_index :: u32
  ftv_ty :: u32
  ftv_features :: wasm_features

record func_validator =
  fv_validator :: operator_validator
  fv_resources :: module_resources
  fv_index :: u32

definition into_validator :: "func_to_validate \<Rightarrow> failure + func_validator" where
  "into_validator f =
     (case new_func (ftv_ty f) 0 (ftv_features f) (validator_resources (ftv_resources f)) of
        Inl _ \<Rightarrow> Inl Panicked
      | Inr validator \<Rightarrow>
          Inr \<lparr>fv_validator = validator, fv_resources = validator_resources (ftv_resources f),
            fv_index = ftv_index f\<rparr>)"

text \<open>A step of the operator validator at an offset.\<close>

definition run_at :: "usize \<Rightarrow> (op_cx \<Rightarrow> unit ov) \<Rightarrow> func_validator \<Rightarrow> failure + func_validator" where
  "run_at off m v =
     bind_res (m \<lparr>offset = off, resources = fv_resources v\<rparr> (fv_validator v)) (\<lambda>(_, s).
     Inr (v\<lparr>fv_validator := s\<rparr>))"

definition func_define_locals :: "usize \<Rightarrow> u32 \<Rightarrow> val_type \<Rightarrow> func_validator \<Rightarrow> failure + func_validator" where
  "func_define_locals off count ty = run_at off (\<lambda>cx. define_locals cx count ty)"

definition func_op :: "usize \<Rightarrow> operator \<Rightarrow> func_validator \<Rightarrow> failure + func_validator" where
  "func_op off op = run_at off (\<lambda>cx. visit_proposal cx op)"

text \<open>The \<open>?\<close> on the result of a reader.\<close>

definition try_rd :: "('a \<times> binary_reader) result \<Rightarrow> failure + ('a \<times> binary_reader)" where
  "try_rd x = (case x of Inl e \<Rightarrow> Inl (Failed e) | Inr y \<Rightarrow> Inr y)"

fun read_locals_loop ::
  "nat \<Rightarrow> binary_reader \<times> func_validator \<Rightarrow> failure + (binary_reader \<times> func_validator)" where
  "read_locals_loop 0 (r, v) = Inr (r, v)"
| "read_locals_loop (Suc n) (r, v) =
     bind_res (try_rd (read_local r)) (\<lambda>((cnt, ty), r').
     bind_res (func_define_locals (original_position r) cnt ty v) (\<lambda>v.
     read_locals_loop n (r', v)))"

definition func_read_locals ::
  "binary_reader \<Rightarrow> func_validator \<Rightarrow> failure + (binary_reader \<times> func_validator)" where
  "func_read_locals r v =
     bind_res (try_rd (read_var_u32 r)) (\<lambda>(count, r). read_locals_loop (unat count) (r, v))"

definition func_finish :: "usize \<Rightarrow> func_validator \<Rightarrow> failure + unit" where
  "func_finish off v = finish off (fv_validator v)"

text \<open>The check of debug builds after an operator: \<open>arity\<close> was computed before it.\<close>

definition check_arity ::
  "usize \<Rightarrow> (u32 \<times> u32) option \<Rightarrow> func_validator \<Rightarrow> func_validator \<Rightarrow> failure + unit" where
  "check_arity off arity v v' =
     (case arity of
        None \<Rightarrow> fail_at off ''could not calculate operator arity''
      | Some (params, results) \<Rightarrow>
          if fst (pop_push_count (fv_validator v')) - fst (pop_push_count (fv_validator v)) \<noteq> unat params
            \<or> snd (pop_push_count (fv_validator v')) - snd (pop_push_count (fv_validator v)) \<noteq> unat results
          then Inl Panicked else Inr ())"

definition validate_operator ::
  "bool \<Rightarrow> usize \<Rightarrow> usize \<Rightarrow> operator \<Rightarrow> func_validator \<Rightarrow> failure + func_validator" where
  "validate_operator debug off off' op v =
     (if debug then
        bind_res (ok_or Panicked
          (operator_arity (validator_arity \<lparr>offset = off, resources = fv_resources v\<rparr> (fv_validator v)) op)) (\<lambda>arity.
        bind_res (func_op off op v) (\<lambda>v'.
        bind_res (check_arity off' arity v v') (\<lambda>_. Inr v')))
      else func_op off op v)"

function validate_loop ::
  "bool \<Rightarrow> binary_reader \<Rightarrow> func_validator \<Rightarrow> failure + (binary_reader \<times> func_validator)" where
  "validate_loop debug r v =
     (if eof r then Inr (r, v)
      else case read_operator r of
          Inl e \<Rightarrow> Inl (Failed e)
        | Inr (op, r') \<Rightarrow>
            bind_res (validate_operator debug (original_position r) (original_position r') op v)
              (validate_loop debug r'))"
  by pat_completeness auto
termination
  by (relation "measure (\<lambda>(_, r, _). bytes_remaining r)")
    (auto dest: bytes_remaining_decreases simp: eq_commute)

declare validate_loop.simps [simp del]

definition func_validate :: "bool \<Rightarrow> function_body \<Rightarrow> func_validator \<Rightarrow> failure + func_validator" where
  "func_validate debug body v =
     bind_res (func_read_locals (fb_reader body) v) (\<lambda>(r, v).
     bind_res (validate_loop debug (r\<lparr>features := ov_features (fv_validator v)\<rparr>) v) (\<lambda>(r, v).
     bind_res (func_finish (original_position r) v) (\<lambda>_. Inr v)))"

end
