(* ===== verification/Module_Validator.thy ===== *)
theory Module_Validator
  imports Func_Validator
begin

text \<open>
  The validator of modules: \<open>Validator\<close> of crates/wasmparser/src/validator.rs, built without the feature
  \<open>component-model\<close>. The payloads that the parser produces are the inputs: a section comes as its
  reader, a function body as a \<open>FunctionBody\<close>.

  The state is passed explicitly; after a failure the validator is not used again and the model drops
  it. The identifier of the validator is left out.
\<close>

section \<open>The state\<close>

datatype encoding = EncodingModule | EncodingComponent

datatype validator_state = StateUnparsed "encoding option" | StateModule | StateEnd

record validator =
  val_state :: validator_state
  val_types :: type_list
  val_module :: "module_state option"
  val_features :: wasm_features

definition validator_new_with_features :: "wasm_features \<Rightarrow> validator" where
  "validator_new_with_features fs =
     \<lparr>val_state = StateUnparsed None, val_types = type_alloc_default, val_module = None,
      val_features = fs\<rparr>"

definition validator_reset :: "validator \<Rightarrow> failure + validator" where
  "validator_reset v =
     (if val_state v \<noteq> StateEnd \<or> val_module v \<noteq> None then Inl Panicked
      else Inr (v\<lparr>val_state := StateUnparsed None\<rparr>))"

text \<open>The types of a module that has been validated.\<close>

record wasm_types =
  wt_list :: type_list
  wt_module :: core_module

definition ensure_module :: "usize \<Rightarrow> validator_state \<Rightarrow> failure + unit" where
  "ensure_module off st =
     (case st of
        StateModule \<Rightarrow> Inr ()
      | StateUnparsed _ \<Rightarrow> fail_at off ''unexpected section before header was parsed''
      | StateEnd \<Rightarrow> fail_at off ''unexpected section after parsing has completed'')"

definition WASM_MODULE_VERSION :: "16 word" where
  "WASM_MODULE_VERSION = 0x1"

definition validator_version ::
  "16 word \<Rightarrow> encoding \<Rightarrow> usize \<times> usize \<Rightarrow> validator \<Rightarrow> failure + validator" where
  "validator_version num encoding rng v =
     bind_res (case val_state v of
         StateUnparsed (Some expected) \<Rightarrow>
           require (fst rng) (\<not> expected \<noteq> encoding)
             (''expected a version header for a ''
              @ (case expected of EncodingModule \<Rightarrow> ''module'' | EncodingComponent \<Rightarrow> ''component''))
       | StateUnparsed None \<Rightarrow> Inr ()
       | _ \<Rightarrow> fail_at (fst rng) ''wasm version header out of order'') (\<lambda>_.
     case encoding of
       EncodingModule \<Rightarrow>
         if num = WASM_MODULE_VERSION then
           (if val_module v \<noteq> None then Inl Panicked
            else Inr (v\<lparr>val_module := Some module_state_default, val_state := StateModule\<rparr>))
         else fail_at (fst rng) (''unknown binary version: 0x'' @ fmt_hex (unat num))
     | EncodingComponent \<Rightarrow>
         if COMPONENT_MODEL \<notin> val_features v then
           fail_at (fst rng) (''unknown binary version and encoding combination: 0x'' @ fmt_hex (unat num)
             @ '' and 0x1, '' @ ''note: encoded as a component but the WebAssembly component model feature ''
             @ ''is not enabled - enable the feature to allow component validation'')
         else fail_at (fst rng) (''component model validation support disabled '' @ ''at compile time''))"

section \<open>Sections\<close>

text \<open>\<open>self.state.ensure_module(..)?; self.module.as_mut().unwrap(); state.update_order(..)?\<close>\<close>

definition enter_section :: "section_order \<Rightarrow> usize \<Rightarrow> validator \<Rightarrow> failure + module_state" where
  "enter_section order off v =
     bind_res (ensure_module off (val_state v)) (\<lambda>_.
     bind_res (ok_or Panicked (val_module v)) (update_order order off))"

text \<open>The two closures work on the state of the module, the second also on the list of types.\<close>

definition process_module_section ::
  "section_order \<Rightarrow> (u32 \<Rightarrow> usize \<Rightarrow> module_state \<Rightarrow> failure + module_state)
     \<Rightarrow> 'a rd \<Rightarrow> (usize \<times> 'a \<Rightarrow> module_state \<times> type_list \<Rightarrow> failure + (module_state \<times> type_list))
     \<Rightarrow> section_limited \<Rightarrow> validator \<Rightarrow> failure + validator" where
  "process_module_section order validate_section read validate_item sec v =
     (let off = fst (reader_range (sl_reader sec)) in
      bind_res (enter_section order off v) (\<lambda>ms.
      bind_res (validate_section (sl_count sec) off ms) (\<lambda>ms.
      bind_res (for_section (with_offset read) validate_item sec (ms, val_types v)) (\<lambda>(ms, ts).
      Inr (v\<lparr>val_module := Some ms, val_types := ts\<rparr>)))))"

text \<open>The closure that checks a count and reserves space in the module, and items that leave the types
  alone.\<close>

definition check_section ::
  "(core_module \<Rightarrow> usize) \<Rightarrow> usize \<Rightarrow> string \<Rightarrow> u32 \<Rightarrow> usize \<Rightarrow> module_state \<Rightarrow> failure + module_state" where
  "check_section len limit desc count off ms =
     bind_res (check_max (len (ms_module ms)) count limit desc off) (\<lambda>_.
     bind_res (assert_mut ms) (\<lambda>_. Inr ms))"

definition on_state ::
  "(usize \<Rightarrow> 'a \<Rightarrow> type_list \<Rightarrow> module_state \<Rightarrow> failure + module_state)
     \<Rightarrow> usize \<times> 'a \<Rightarrow> module_state \<times> type_list \<Rightarrow> failure + (module_state \<times> type_list)" where
  "on_state f item s =
     (case item of (off, x) \<Rightarrow> case s of (ms, ts) \<Rightarrow> bind_res (f off x ts ms) (\<lambda>ms. Inr (ms, ts)))"

definition add_types_item ::
  "wasm_features \<Rightarrow> usize \<times> rec_group \<Rightarrow> module_state \<times> type_list \<Rightarrow> failure + (module_state \<times> type_list)" where
  "add_types_item fs item s =
     (case item of (off, rg) \<Rightarrow> case s of (ms, ts) \<Rightarrow>
       bind_res (assert_mut ms) (\<lambda>m.
       bind_res (add_types rg fs off True (m, ts)) (\<lambda>(m, ts). Inr (ms\<lparr>ms_module := m\<rparr>, ts))))"

definition type_section :: "section_limited \<Rightarrow> validator \<Rightarrow> failure + validator" where
  "type_section sec v = process_module_section OrderType
     (check_section (\<lambda>m. length (module_types m)) MAX_WASM_TYPES ''types'')
     read_rec_group (add_types_item (val_features v)) sec v"

definition import_section :: "section_limited \<Rightarrow> validator \<Rightarrow> failure + validator" where
  "import_section sec v = process_module_section OrderImport
     (check_section (\<lambda>m. length (module_imports m)) MAX_WASM_IMPORTS ''imports'')
     read_import (on_state (\<lambda>off import ts. on_module (add_import import (val_features v) ts off))) sec v"

definition function_section :: "section_limited \<Rightarrow> validator \<Rightarrow> failure + validator" where
  "function_section sec v = process_module_section OrderFunction
     (\<lambda>count off ms.
       bind_res (check_section (\<lambda>m. length (module_functions m)) MAX_WASM_FUNCTIONS ''functions'' count off ms) (\<lambda>ms.
       if expected_code_bodies ms \<noteq> None then Inl Panicked
       else Inr (ms\<lparr>expected_code_bodies := Some count\<rparr>)))
     read_var_u32 (on_state (\<lambda>off ty ts. on_module (add_function ty ts off))) sec v"

definition table_section :: "section_limited \<Rightarrow> validator \<Rightarrow> failure + validator" where
  "table_section sec v = process_module_section OrderTable
     (check_section (\<lambda>m. length (module_tables m)) (max_tables (val_features v)) ''tables'')
     read_table (on_state (\<lambda>off table ts. add_table table (val_features v) ts off)) sec v"

definition memory_section :: "section_limited \<Rightarrow> validator \<Rightarrow> failure + validator" where
  "memory_section sec v = process_module_section OrderMemory
     (check_section (\<lambda>m. length (module_memories m)) (max_memories (val_features v)) ''memories'')
     read_memory_type (on_state (\<lambda>off ty ts. on_module (add_memory ty (val_features v) off))) sec v"

definition tag_section :: "section_limited \<Rightarrow> validator \<Rightarrow> failure + validator" where
  "tag_section sec v =
     bind_res (require (fst (reader_range (sl_reader sec))) (EXCEPTIONS \<in> val_features v)
       ''exceptions proposal not enabled'') (\<lambda>_.
     process_module_section OrderTag
       (check_section (\<lambda>m. length (module_tags m)) MAX_WASM_TAGS ''tags'')
       read_tag_type (on_state (\<lambda>off ty ts. on_module (add_tag ty (val_features v) ts off))) sec v)"

definition global_section :: "section_limited \<Rightarrow> validator \<Rightarrow> failure + validator" where
  "global_section sec v = process_module_section OrderGlobal
     (check_section (\<lambda>m. length (module_globals m)) MAX_WASM_GLOBALS ''globals'')
     read_global (on_state (\<lambda>off global ts. add_global global (val_features v) ts off)) sec v"

definition add_export_item ::
  "wasm_features \<Rightarrow> usize \<Rightarrow> wasm_export \<Rightarrow> type_list \<Rightarrow> core_module \<Rightarrow> failure + core_module" where
  "add_export_item fs off e ts m =
     bind_res (export_to_entity_type e off m) (\<lambda>(ty, m).
     add_export (export_name e) ty fs off False ts m)"

definition export_section :: "section_limited \<Rightarrow> validator \<Rightarrow> failure + validator" where
  "export_section sec v = process_module_section OrderExport
     (check_section (\<lambda>m. length (module_exports m)) MAX_WASM_EXPORTS ''exports'')
     read_export (on_state (\<lambda>off e ts. on_module (add_export_item (val_features v) off e ts))) sec v"

definition start_section :: "u32 \<Rightarrow> usize \<times> usize \<Rightarrow> validator \<Rightarrow> failure + validator" where
  "start_section func rng v =
     bind_res (enter_section OrderStart (fst rng) v) (\<lambda>ms.
     bind_res (get_func_type (ms_module ms) (val_types v) func (fst rng)) (\<lambda>ty.
     bind_res (require (fst rng) (\<not> (func_params ty \<noteq> [] \<or> func_results ty \<noteq> []))
       ''invalid start function type'') (\<lambda>_.
     Inr (v\<lparr>val_module := Some ms\<rparr>))))"

definition element_section :: "section_limited \<Rightarrow> validator \<Rightarrow> failure + validator" where
  "element_section sec v = process_module_section OrderElement
     (check_section (\<lambda>m. length (module_element_types m)) MAX_WASM_ELEMENT_SEGMENTS ''element segments'')
     read_element (on_state (\<lambda>off e ts. add_element_segment e (val_features v) ts off)) sec v"

definition data_count_section :: "u32 \<Rightarrow> usize \<times> usize \<Rightarrow> validator \<Rightarrow> failure + validator" where
  "data_count_section count rng v =
     bind_res (enter_section OrderDataCount (fst rng) v) (\<lambda>ms.
     bind_res (require (fst rng) (\<not> count > of_nat MAX_WASM_DATA_SEGMENTS)
       ''data count section specifies too many data segments'') (\<lambda>_.
     bind_res (on_module (\<lambda>m. Inr (m\<lparr>module_data_count := Some count\<rparr>)) ms) (\<lambda>ms.
     Inr (v\<lparr>val_module := Some ms\<rparr>))))"

definition code_section_start :: "u32 \<Rightarrow> usize \<times> usize \<Rightarrow> validator \<Rightarrow> failure + validator" where
  "code_section_start count rng v =
     bind_res (enter_section OrderCode (fst rng) v) (\<lambda>ms.
     bind_res (case expected_code_bodies ms of
         Some n \<Rightarrow> require (fst rng) (n = count) ''function and code section have inconsistent lengths''
       | None \<Rightarrow> require (fst rng) (count = 0) ''code section without function section'') (\<lambda>_.
     let (snapshot, ts) = type_list_commit (val_types v) in
     bind_res (on_module (\<lambda>m. Inr (m\<lparr>module_snapshot := Some snapshot\<rparr>))
       (ms\<lparr>expected_code_bodies := None\<rparr>)) (\<lambda>ms.
     Inr (v\<lparr>val_module := Some ms, val_types := ts\<rparr>))))"

definition code_section_entry ::
  "function_body \<Rightarrow> validator \<Rightarrow> failure + (func_to_validate \<times> validator)" where
  "code_section_entry body v =
     (let off = fst (reader_range (fb_reader body)) in
      bind_res (ensure_module off (val_state v)) (\<lambda>_.
      bind_res (ok_or Panicked (val_module v)) (\<lambda>ms.
      bind_res (next_code_index_and_type off ms) (\<lambda>((index, ty), ms).
      Inr (\<lparr>ftv_resources = ms_module ms, ftv_index = index, ftv_ty = ty, ftv_features = val_features v\<rparr>,
        v\<lparr>val_module := Some (make_shared ms)\<rparr>)))))"

definition data_section :: "section_limited \<Rightarrow> validator \<Rightarrow> failure + validator" where
  "data_section sec v = process_module_section OrderData
     (\<lambda>count off ms.
       bind_res (check_max 0 count MAX_WASM_DATA_SEGMENTS ''data segments'' off) (\<lambda>_.
       Inr (ms\<lparr>data_segment_count := count\<rparr>)))
     read_data (on_state (\<lambda>off d ts. add_data_segment d (val_features v) ts off)) sec v"

definition unknown_section :: "u8 \<Rightarrow> usize \<times> usize \<Rightarrow> validator \<Rightarrow> failure + validator" where
  "unknown_section sid rng v = fail_at (fst rng) (''malformed section id: '' @ fmt_dec (unat sid))"

definition validator_end :: "usize \<Rightarrow> validator \<Rightarrow> failure + (wasm_types \<times> validator)" where
  "validator_end off v =
     (case val_state v of
        StateUnparsed _ \<Rightarrow> fail_at off ''cannot call `end` before a header has been parsed''
      | StateEnd \<Rightarrow> fail_at off ''cannot call `end` after parsing has completed''
      | StateModule \<Rightarrow>
          bind_res (ok_or Panicked (val_module v)) (\<lambda>ms.
          bind_res (validate_end off ms) (\<lambda>_.
          let (snapshot, ts) = type_list_commit (val_types v) in
          Inr (\<lparr>wt_list = snapshot, wt_module = ms_module ms\<rparr>,
            v\<lparr>val_state := StateEnd, val_module := None, val_types := ts\<rparr>))))"

section \<open>Payloads\<close>

datatype payload =
    Version "16 word" encoding "usize \<times> usize"
  | TypeSection section_limited
  | ImportSection section_limited
  | FunctionSection section_limited
  | TableSection section_limited
  | MemorySection section_limited
  | TagSection section_limited
  | GlobalSection section_limited
  | ExportSection section_limited
  | StartSection u32 "usize \<times> usize"
  | ElementSection section_limited
  | DataCountSection u32 "usize \<times> usize"
  | DataSection section_limited
  | CodeSectionStart u32 "usize \<times> usize"
  | CodeSectionEntry function_body
  | CustomSection
  | UnknownSection u8 "usize \<times> usize"
  | PayloadEnd usize

datatype valid_payload = ValidOk | ValidFunc func_to_validate function_body | ValidEnd wasm_types

definition valid_ok :: "failure + validator \<Rightarrow> failure + (valid_payload \<times> validator)" where
  "valid_ok x = bind_res x (\<lambda>v. Inr (ValidOk, v))"

fun validator_payload :: "payload \<Rightarrow> validator \<Rightarrow> failure + (valid_payload \<times> validator)" where
  "validator_payload (Version num encoding rng) v = valid_ok (validator_version num encoding rng v)"
| "validator_payload (TypeSection s) v = valid_ok (type_section s v)"
| "validator_payload (ImportSection s) v = valid_ok (import_section s v)"
| "validator_payload (FunctionSection s) v = valid_ok (function_section s v)"
| "validator_payload (TableSection s) v = valid_ok (table_section s v)"
| "validator_payload (MemorySection s) v = valid_ok (memory_section s v)"
| "validator_payload (TagSection s) v = valid_ok (tag_section s v)"
| "validator_payload (GlobalSection s) v = valid_ok (global_section s v)"
| "validator_payload (ExportSection s) v = valid_ok (export_section s v)"
| "validator_payload (StartSection func rng) v = valid_ok (start_section func rng v)"
| "validator_payload (ElementSection s) v = valid_ok (element_section s v)"
| "validator_payload (DataCountSection count rng) v = valid_ok (data_count_section count rng v)"
| "validator_payload (CodeSectionStart count rng) v = valid_ok (code_section_start count rng v)"
| "validator_payload (CodeSectionEntry body) v =
     bind_res (code_section_entry body v) (\<lambda>(f, v). Inr (ValidFunc f body, v))"
| "validator_payload (DataSection s) v = valid_ok (data_section s v)"
| "validator_payload (PayloadEnd off) v =
     bind_res (validator_end off v) (\<lambda>(types, v). Inr (ValidEnd types, v))"
| "validator_payload CustomSection v = Inr (ValidOk, v)"
| "validator_payload (UnknownSection sid rng) v = valid_ok (unknown_section sid rng v)"

text \<open>
  \<open>validate_all\<close>: the payloads are the items of the parser's iterator. The results are the functions
  to validate, with their bodies, and the last types.
\<close>

fun validate_payloads ::
  "payload result list \<Rightarrow> validator \<Rightarrow> failure + ((func_to_validate \<times> function_body) list
     \<times> wasm_types option \<times> validator)" where
  "validate_payloads [] v = Inr ([], None, v)"
| "validate_payloads (Inl e # ps) v = Inl (Failed e)"
| "validate_payloads (Inr p # ps) v =
     bind_res (validator_payload p v) (\<lambda>(x, v).
     bind_res (validate_payloads ps v) (\<lambda>(funcs, last, v).
     Inr (case x of ValidFunc f body \<Rightarrow> (f, body) # funcs | _ \<Rightarrow> funcs,
       case last of Some _ \<Rightarrow> last | None \<Rightarrow> (case x of ValidEnd types \<Rightarrow> Some types | _ \<Rightarrow> None),
       v)))"

fun validate_functions :: "bool \<Rightarrow> (func_to_validate \<times> function_body) list \<Rightarrow> failure + unit" where
  "validate_functions debug [] = Inr ()"
| "validate_functions debug ((func, body) # funcs) =
     bind_res (into_validator func) (\<lambda>validator.
     bind_res (func_validate debug body validator) (\<lambda>_. validate_functions debug funcs))"

definition validate_all ::
  "bool \<Rightarrow> payload result list \<Rightarrow> validator \<Rightarrow> failure + (wasm_types \<times> validator)" where
  "validate_all debug payloads v =
     bind_res (validate_payloads payloads v) (\<lambda>(functions_to_validate, last_types, v).
     bind_res (validate_functions debug functions_to_validate) (\<lambda>_.
     bind_res (ok_or Panicked last_types) (\<lambda>types. Inr (types, v))))"

end
