(* ===== verification/Module_Contract.thy ===== *)
theory Module_Contract
  imports Core_Module
begin

text \<open>
  The invariant of a module under validation: every type in it is canonicalized, every function and
  every tag has a function type. The operations of \<open>Module\<close> keep it, and a module with the invariant
  satisfies the contract \<open>wasm_module_resources\<close> that the validation of operators relies on.
\<close>

section \<open>The invariant\<close>

definition is_func_id :: "type_list \<Rightarrow> u32 \<Rightarrow> bool" where
  "is_func_id ts tid \<longleftrightarrow> (\<exists>st ft. type_at ts tid = Some st \<and> comp_inner (composite_type st) = CompFunc ft)"

definition is_func_index :: "type_list \<Rightarrow> u32 list \<Rightarrow> u32 \<Rightarrow> bool" where
  "is_func_index ts ids idx \<longleftrightarrow> (\<exists>tid. nth_opt ids (unat idx) = Some tid \<and> is_func_id ts tid)"

definition module_wf :: "type_list \<Rightarrow> core_module \<Rightarrow> bool" where
  "module_wf ts m \<longleftrightarrow> types_wf ts \<and> ids_wf ts (module_types m)
     \<and> list_all (canonical_ref (type_at ts) \<circ> table_element_type) (module_tables m)
     \<and> list_all (canonical (type_at ts) \<circ> content_type) (module_globals m)
     \<and> list_all (canonical_ref (type_at ts)) (module_element_types m)
     \<and> list_all (is_func_id ts) (module_tags m)
     \<and> list_all (is_func_index ts (module_types m)) (module_functions m)"

lemma types_wf_default: "types_wf type_alloc_default"
proof -
  have "snap_index snap_default i = None" for i
    by (simp add: snap_default_def snap_index_def snap_get_def nth_opt_def)
  then have "type_at type_alloc_default tid = None" "supertype_of type_alloc_default tid = None" for tid
    by (simp_all add: type_at_def supertype_of_def type_alloc_default_def)
  then show ?thesis
    by (auto simp: types_wf_def lists_wf_def supers_wf_def kinds_wf_def groups_wf_def
      type_alloc_default_def snap_default_def snap_wf_def snap_list_def nth_opt_def)
qed

lemma module_wf_default: "module_wf type_alloc_default module_default"
  by (simp add: module_wf_def module_default_def ids_wf_def types_wf_default)

section \<open>The contract\<close>

lemma nth_opt_list_all: "nth_opt xs i = Some x \<Longrightarrow> list_all P xs \<Longrightarrow> P x"
  by (auto simp: nth_opt_Some_iff list_all_length)

lemma nth_opt_list_all_comp: "nth_opt xs i = Some x \<Longrightarrow> list_all (P \<circ> f) xs \<Longrightarrow> P (f x)"
  by (auto dest: nth_opt_list_all)

lemma valtype_is_subtype_eq:
  assumes "types_wf ts" "canonical (type_at ts) a" "canonical (type_at ts) b"
  shows "\<exists>x. valtype_is_subtype ts a b = Some x" "valtype_is_subtype ts a a = Some True"
proof -
  show "valtype_is_subtype ts a a = Some True" by (simp add: valtype_is_subtype_def)
  show "\<exists>x. valtype_is_subtype ts a b = Some x"
    using assms by (cases a; cases b) (auto simp: valtype_is_subtype_def types_wf_def reftype_is_subtype_eq)
qed

lemma reftype_is_shared_total:
  assumes "canonical_ref (type_at ts) rt"
  shows "\<exists>x. reftype_is_shared ts rt = Some x"
  using assms by (cases rule: canonical_refE) (auto simp: reftype_is_shared_def)

lemma types_top_type_total:
  assumes "canonical_heap (type_at ts) h"
  shows "\<exists>s a. types_top_type ts h = Some (Abstract s a)"
proof (cases h)
  case (Concrete u)
  with assms show ?thesis by (cases u) auto
qed simp

lemma module_contract:
  assumes wf: "module_wf ts m"
    and tag: "\<And>st ft. comp_inner (composite_type st) = CompFunc ft \<Longrightarrow> tag st = Some (Some ft)"
  shows "wasm_module_resources (module_resources_with tag (Some ts) m)"
proof -
  have ids: "\<exists>st. type_at ts tid = Some st \<and> canonical_sub (type_at ts) st"
    if "nth_opt (module_types m) i = Some tid" for i tid
    using that wf unfolding module_wf_def ids_wf_def types_wf_def nth_opt_Some_iff
    by (metis nth_mem option.exhaust)
  show ?thesis
  proof (unfold_locales, goal_cases)
    case (2 i)
    then show ?case
    proof (cases "nth_opt (module_tags m) (unat i)")
      case (Some tid)
      then have "is_func_id ts tid" using wf by (auto simp: module_wf_def elim: nth_opt_list_all)
      then obtain st ft where st: "type_at ts tid = Some st" "comp_inner (composite_type st) = CompFunc ft"
        by (auto simp: is_func_id_def)
      then have "canonical_sub (type_at ts) st" using wf by (auto simp: module_wf_def types_wf_def)
      with st tag [OF st(2)] Some show ?thesis
        by (auto simp: module_resources_with_def canonical_sub_def)
    qed (simp add: module_resources_with_def del: nth_opt_None_iff)
  next
    case (4 i)
    then show ?case using ids by (fastforce simp: module_resources_with_def split: option.splits)
  next
    case (6 f tid)
    then show ?case
      using ids by (fastforce simp: module_resources_with_def bind_eq_Some_conv)
  next
    case (12 i off)
    show ?case
    proof (cases "nth_opt (module_types m) (unat i)")
      case (Some tid)
      with ids [OF Some] show ?thesis
        by (auto simp: module_resources_with_def module_check_heap_type_def type_id_at_def as_result_def
          simp flip: nth_opt_Some_iff)
    next
      case None
      then show ?thesis
        by (auto simp: module_resources_with_def module_check_heap_type_def type_id_at_def as_result_def
          fail_at_def error_new_def simp del: nth_opt_None_iff)
    qed
  qed (use wf in \<open>auto simp: module_resources_with_def module_wf_def valtype_is_subtype_eq
         reftype_is_shared_total types_top_type_total module_check_heap_type_def as_result_def
         types_wf_def elim: nth_opt_list_all nth_opt_list_all_comp\<close>)
qed

text \<open>The modules with the invariant, beside their types: the states in which constant expressions are
  validated. A module whose snapshot has been taken is one over the types of the snapshot: the states in
  which function bodies are validated.\<close>

typedef typed_module = "{(ts, m). module_wf ts m}"
  using module_wf_default by blast

typedef validated_module = "{m. \<exists>ts. module_snapshot m = Some ts \<and> module_wf ts m}"
proof -
  have "module_wf type_alloc_default (module_default\<lparr>module_snapshot := Some type_alloc_default\<rparr>)"
    using module_wf_default by (simp add: module_wf_def)
  then show ?thesis
    by (intro exI [of _ "module_default\<lparr>module_snapshot := Some type_alloc_default\<rparr>"]) simp
qed

lemma operator_validator_contract:
  "module_wf ts m \<Longrightarrow> wasm_module_resources (operator_validator_resources ts m)"
  unfolding operator_validator_resources_def by (rule module_contract) simp_all

lemma validator_contract:
  "module_snapshot m = Some ts \<Longrightarrow> module_wf ts m \<Longrightarrow> wasm_module_resources (validator_resources m)"
  unfolding validator_resources_def by (simp add: module_contract)

interpretation const_resources: wasm_module_resources
  "operator_validator_resources (fst (Rep_typed_module m)) (snd (Rep_typed_module m))" for m
  using Rep_typed_module [of m] by (intro operator_validator_contract) auto

interpretation body_resources: wasm_module_resources "validator_resources (Rep_validated_module m)" for m
  using Rep_validated_module [of m] validator_contract by blast

section \<open>The checks\<close>

lemma require_Inr_iff [simp]: "require off b msg = Inr u \<longleftrightarrow> b"
  by (simp add: require_def fail_at_def)

lemma fail_at_not_Inr [simp]: "fail_at off msg \<noteq> Inr x"
  by (simp add: fail_at_def)

lemma type_id_at_Inr_iff: "type_id_at ids idx off = Inr tid \<longleftrightarrow> nth_opt ids (unat idx) = Some tid"
  by (auto simp: type_id_at_def split: option.splits simp del: nth_opt_None_iff)

lemma ids_wf_nth: "ids_wf ts ids \<Longrightarrow> nth_opt ids i = Some tid \<Longrightarrow> \<exists>st. type_at ts tid = Some st"
  by (auto simp: ids_wf_def nth_opt_Some_iff)

lemma check_ref_type_canonical:
  assumes "module_check_ref_type m rt fs off = Inr rt'" "ids_wf ts (module_types m)"
  shows "canonical_ref (type_at ts) rt'"
proof -
  from assms(1) obtain h h' where h: "module_check_heap_type m h off = Inr h'"
    and new: "ref_new (is_nullable rt) h' = Some rt'"
    by (auto simp: module_check_ref_type_def bind_res_Inr_iff)
  have "canonical_heap (type_at ts) h'"
    using h ids_wf_nth [OF assms(2)]
    by (auto simp: module_check_heap_type_def bind_res_Inr_iff type_id_at_Inr_iff
      split: heap_type.splits unpacked_index.splits)
  with ref_ok_new [OF new] ref_new_correct(2) [OF new] show ?thesis by (simp add: canonical_ref_def)
qed

lemma check_value_type_canonical:
  assumes "module_check_value_type m t fs off = Inr t'" "ids_wf ts (module_types m)"
  shows "canonical (type_at ts) t'"
  using assms
  by (cases "(m, t, fs, off)" rule: module_check_value_type.cases)
    (auto simp: bind_res_Inr_iff check_ref_type_canonical)

lemma canonical_FUNCREF: "canonical_ref types FUNCREF"
  using ref_ok_new [OF ref_constants(2) [symmetric]] ref_new_correct(2) [OF ref_constants(2) [symmetric]]
  by (simp add: canonical_ref_def)

lemma check_table_type_canonical:
  assumes "check_table_type m t fs ts off = Inr t'" "ids_wf ts' (module_types m)"
  shows "canonical_ref (type_at ts') (table_element_type t')"
  using assms check_ref_type_canonical canonical_FUNCREF
  by (auto simp: check_table_type_def bind_res_Inr_iff split: if_splits)

lemma check_global_type_canonical:
  assumes "check_global_type m g fs ts off = Inr g'" "ids_wf ts' (module_types m)"
  shows "canonical (type_at ts') (content_type g')"
  using assms check_value_type_canonical
  by (auto simp: check_global_type_def bind_res_Inr_iff Let_def split: if_splits)

lemma func_type_at_index:
  assumes "module_func_type_at m ts idx off = Inr ft"
  shows "is_func_index ts (module_types m) idx"
proof -
  from assms obtain tid st where st: "nth_opt (module_types m) (unat idx) = Some tid" "type_at ts tid = Some st"
    and ft: "(case comp_inner (composite_type st) of CompFunc f \<Rightarrow> Inr f
      | _ \<Rightarrow> fail_at off (''type index '' @ fmt_dec (unat idx) @ '' is not a function type'')) = Inr ft"
    by (auto simp: module_func_type_at_def module_sub_type_at_def bind_res_Inr_iff type_id_at_Inr_iff)
  from ft have "comp_inner (composite_type st) = CompFunc ft" by (simp split: composite_inner_type.splits)
  with st show ?thesis by (auto simp: is_func_index_def is_func_id_def)
qed

lemma check_tag_type_index:
  "check_tag_type m t fs ts off = Inr u \<Longrightarrow> is_func_index ts (module_types m) (func_type_idx t)"
  by (auto simp: check_tag_type_def bind_res_Inr_iff intro: func_type_at_index)

section \<open>The operations keep the invariant\<close>

lemma import_entity_wf:
  assumes check: "check_type_ref m ty fs ts off = Inr (entity, ty')"
    and run: "import_entity ty' fs off m = Inr (m', len, limit, desc)" and wf: "module_wf ts m"
  shows "module_wf ts m'"
proof -
  from wf have ids: "ids_wf ts (module_types m)" by (simp add: module_wf_def)
  note canonical = check_table_type_canonical [OF _ ids] check_global_type_canonical [OF _ ids]
    func_type_at_index
  show ?thesis
  proof (cases ty)
    case (TypeRefTag t)
    with check have t: "ty' = TypeRefTag t" "is_func_index ts (module_types m) (func_type_idx t)"
      by (auto simp: bind_res_Inr_iff dest: check_tag_type_index)
    with run wf show ?thesis
      by (auto simp: bind_res_Inr_iff module_wf_def is_func_index_def Let_def)
  qed (use check run wf canonical in \<open>auto simp: bind_res_Inr_iff module_wf_def Let_def\<close>)
qed

lemma add_import_wf:
  assumes "add_import import fs ts off m = Inr m'" "module_wf ts m"
  shows "module_wf ts m'"
proof -
  from assms(1) obtain entity ty m1 len limit desc
    where "check_type_ref m (import_ty import) fs ts off = Inr (entity, ty)"
      "import_entity ty fs off m = Inr (m1, len, limit, desc)"
      and m': "module_tables m' = module_tables m1" "module_globals m' = module_globals m1"
      "module_types m' = module_types m1" "module_element_types m' = module_element_types m1"
      "module_tags m' = module_tags m1" "module_functions m' = module_functions m1"
    by (auto simp: add_import_def bind_res_Inr_iff)
  from import_entity_wf [OF this(1,2) assms(2)] m' show ?thesis by (simp add: module_wf_def)
qed

lemma add_export_wf:
  "add_export name ty fs off check_limit ts' m = Inr m' \<Longrightarrow> module_wf ts m \<Longrightarrow> module_wf ts m'"
  by (auto simp: add_export_def bind_res_Inr_iff module_wf_def split: if_splits)

lemma export_to_entity_type_wf:
  "export_to_entity_type export off m = Inr (entity, m') \<Longrightarrow> module_wf ts m \<Longrightarrow> module_wf ts m'"
  by (auto simp: export_to_entity_type_def bind_res_Inr_iff module_wf_def split: external_kind.splits)

lemma add_function_wf:
  "add_function type_idx ts off m = Inr m' \<Longrightarrow> module_wf ts m \<Longrightarrow> module_wf ts m'"
  by (auto simp: add_function_def bind_res_Inr_iff module_wf_def intro: func_type_at_index)

lemma add_memory_wf: "add_memory ty fs off m = Inr m' \<Longrightarrow> module_wf ts m \<Longrightarrow> module_wf ts m'"
  by (auto simp: add_memory_def bind_res_Inr_iff module_wf_def)

lemma add_tag_wf:
  assumes "add_tag ty fs ts off m = Inr m'" "module_wf ts m"
  shows "module_wf ts m'"
  using assms by (auto simp: add_tag_def bind_res_Inr_iff module_wf_def is_func_index_def
    dest!: check_tag_type_index)

section \<open>More types\<close>

lemma canonical_ref_mono:
  "canonical_ref types rt \<Longrightarrow> (\<And>tid st. types tid = Some st \<Longrightarrow> types' tid \<noteq> None) \<Longrightarrow> canonical_ref types' rt"
  by (cases "the (ref_heap_type rt)") (auto simp: canonical_ref_def split: unpacked_index.splits)

lemma canonical_mono:
  "canonical types t \<Longrightarrow> (\<And>tid st. types tid = Some st \<Longrightarrow> types' tid \<noteq> None) \<Longrightarrow> canonical types' t"
  by (cases t) (auto intro: canonical_ref_mono)

lemma module_wf_mono:
  assumes "module_wf ts m" "types_wf ts'"
    and keep: "\<And>tid st. type_at ts tid = Some st \<Longrightarrow> type_at ts' tid = Some st"
  shows "module_wf ts' m"
proof -
  have func: "is_func_id ts tid \<Longrightarrow> is_func_id ts' tid" for tid
    using keep by (auto simp: is_func_id_def)
  then have index: "is_func_index ts ids i \<Longrightarrow> is_func_index ts' ids i" for ids i
    by (auto simp: is_func_index_def)
  have "ids_wf ts' (module_types m)"
    using assms(1) keep by (fastforce simp: module_wf_def ids_wf_def)
  moreover have "canonical_ref (type_at ts) rt \<Longrightarrow> canonical_ref (type_at ts') rt"
    "canonical (type_at ts) t \<Longrightarrow> canonical (type_at ts') t" for rt t
    using keep by (auto intro: canonical_ref_mono canonical_mono)
  ultimately show ?thesis using assms(1,2) func index
    unfolding module_wf_def by (auto elim!: list.pred_mono_strong)
qed

lemma is_func_index_append: "is_func_index ts ids i \<Longrightarrow> is_func_index ts (ids @ ids') i"
  by (auto simp: is_func_index_def nth_opt_append nth_opt_Some_iff)

lemma add_types_wf:
  assumes "add_types rg fs off check_limit (m, ts) = Inr (m', ts')" "module_wf ts m"
    and "list_all sub_fresh (rec_group_types rg)"
  shows "module_wf ts' m'" "\<And>tid st. type_at ts tid = Some st \<Longrightarrow> type_at ts' tid = Some st"
proof -
  from assms(1) obtain ids where run:
    "canonicalize_and_intern_rec_group fs rg off (module_types m, ts) = Inr (ids, ts')"
    and m': "m' = m\<lparr>module_types := ids\<rparr>"
    by (auto simp: add_types_def bind_res_Inr_iff)
  from assms(2) have "types_wf ts" "ids_wf ts (module_types m)" by (simp_all add: module_wf_def)
  from add_rec_group_wf [OF run this assms(3)] obtain new where
    wf: "types_wf ts'" "ids_wf ts' ids" and ids: "ids = module_types m @ new"
    and keep: "\<forall>tid st. type_at ts tid = Some st \<longrightarrow> type_at ts' tid = Some st"
    by metis
  have "module_wf ts' m" using module_wf_mono [OF assms(2) wf(1)] keep by blast
  then show "module_wf ts' m'"
    using wf unfolding module_wf_def m' ids by (auto elim!: list.pred_mono_strong intro: is_func_index_append)
  show "type_at ts' tid = Some st" if "type_at ts tid = Some st" for tid st
    using keep that by blast
qed

section \<open>Committing\<close>

lemma types_wf_same_lists:
  assumes "types_wf ts"
    and "snap_wf (core_types ts')" "snap_wf (core_type_to_rec_group ts')"
      "snap_wf (core_type_to_supertype ts')" "snap_wf (rec_group_elements ts')"
    and "snap_list (core_types ts') = snap_list (core_types ts)"
      "snap_list (core_type_to_rec_group ts') = snap_list (core_type_to_rec_group ts)"
      "snap_list (core_type_to_supertype ts') = snap_list (core_type_to_supertype ts)"
      "snap_list (rec_group_elements ts') = snap_list (rec_group_elements ts)"
    and "canonical_rec_groups ts' = canonical_rec_groups ts \<or> canonical_rec_groups ts' = None"
  shows "types_wf ts'" "type_at ts' = type_at ts"
proof -
  have wf: "lists_wf ts" "lists_wf ts'" using assms by (simp_all add: types_wf_def lists_wf_def)
  show types: "type_at ts' = type_at ts" using assms(6) by (simp add: type_at_nth wf fun_eq_iff)
  have super: "supertype_of ts' = supertype_of ts" using assms(8) by (simp add: supertype_of_nth wf fun_eq_iff)
  have groups: "rec_group_at ts' = rec_group_at ts" using assms(9) by (simp add: rec_group_at_nth wf fun_eq_iff)
  from assms(1) have old: "groups_wf ts" "kinds_wf ts" "supers_wf ts" by (simp_all add: types_wf_def)
  from assms(10) old(1) have "groups_wf ts'"
    by (elim disjE) (simp_all add: groups_wf_def group_types_def assms(6,9) groups)
  moreover from old(2,3) have "kinds_wf ts'" "supers_wf ts'"
    by (simp_all add: kinds_wf_def supers_wf_def assms(6,8) super types)
  ultimately show "types_wf ts'"
    using assms(1) wf types by (simp add: types_wf_def)
qed

lemma commit_wf:
  assumes "types_wf ts" "type_list_commit ts = (snapshot, ts')"
  shows "types_wf snapshot" "type_at snapshot = type_at ts" "types_wf ts'" "type_at ts' = type_at ts"
proof -
  from assms(1) have "snap_wf (core_types ts)" "snap_wf (core_type_to_rec_group ts)"
    "snap_wf (core_type_to_supertype ts)" "snap_wf (rec_group_elements ts)"
    by (simp_all add: types_wf_def lists_wf_def)
  note commits = this [THEN snap_commit_list, OF prod.collapse [symmetric]]
  have eqs: "core_types snapshot = fst (snap_commit (core_types ts))"
    "core_type_to_rec_group snapshot = fst (snap_commit (core_type_to_rec_group ts))"
    "core_type_to_supertype snapshot = fst (snap_commit (core_type_to_supertype ts))"
    "rec_group_elements snapshot = fst (snap_commit (rec_group_elements ts))"
    "canonical_rec_groups snapshot = None"
    "core_types ts' = snd (snap_commit (core_types ts))"
    "core_type_to_rec_group ts' = snd (snap_commit (core_type_to_rec_group ts))"
    "core_type_to_supertype ts' = snd (snap_commit (core_type_to_supertype ts))"
    "rec_group_elements ts' = snd (snap_commit (rec_group_elements ts))"
    "canonical_rec_groups ts' = canonical_rec_groups ts"
    using assms(2) by (auto simp: type_list_commit_def split: prod.splits)
  show "types_wf snapshot" "type_at snapshot = type_at ts" "types_wf ts'" "type_at ts' = type_at ts"
    by (rule types_wf_same_lists [OF assms(1)]; simp add: eqs commits)+
qed

end
