(* ===== verification/Module_Safety.thy ===== *)
theory Module_Safety
  imports Module_Validator Module_Contract Type_Round_Trip "HOL-Library.Code_Target_Nat"
begin

text \<open>
  The validator of modules keeps the invariant of the module through every payload, and the resources
  it hands out with a function body satisfy the contract of \<open>WasmModuleResources\<close>.
\<close>

section \<open>Constant expressions\<close>

text \<open>A constant expression changes nothing but the set of referenced functions, and nothing at all in
  the data section.\<close>

definition only_references :: "module_state \<Rightarrow> module_state \<Rightarrow> bool" where
  "only_references ms ms' \<longleftrightarrow>
     (\<exists>R. ms' = ms\<lparr>ms_module := (ms_module ms)\<lparr>function_references := R\<rparr>\<rparr>)
     \<and> (ms_order ms = OrderData \<longrightarrow> ms' = ms)"

lemma only_references_refl [simp]: "only_references ms ms"
  unfolding only_references_def by (auto intro!: exI [of _ "function_references (ms_module ms)"])

lemma only_references_trans:
  assumes "only_references a b" "only_references b c"
  shows "only_references a c"
proof -
  from assms obtain R R' where "b = a\<lparr>ms_module := (ms_module a)\<lparr>function_references := R\<rparr>\<rparr>"
    and "c = b\<lparr>ms_module := (ms_module b)\<lparr>function_references := R'\<rparr>\<rparr>"
    unfolding only_references_def by blast
  then have c: "c = a\<lparr>ms_module := (ms_module a)\<lparr>function_references := R'\<rparr>\<rparr>" and "ms_order b = ms_order a"
    by simp_all
  then have "ms_order a = OrderData \<longrightarrow> c = a" using assms unfolding only_references_def by metis
  with c show ?thesis unfolding only_references_def by blast
qed

lemma on_module_Inr_iff:
  "on_module f ms = Inr ms' \<longleftrightarrow>
     \<not> ms_shared ms \<and> (\<exists>m. f (ms_module ms) = Inr m \<and> ms' = ms\<lparr>ms_module := m\<rparr>)"
  by (auto simp: on_module_def assert_mut_def bind_res_Inr_iff)

lemma const_validator_state:
  "const_validator ts off op v = Inr v' \<Longrightarrow> cv_state v' = cv_state v"
  by (auto simp: const_validator_def bind_res_Inr_iff)

lemma insert_ref_func_state:
  assumes "insert_ref_func index v = Inr v'"
  shows "only_references (cv_state v) (cv_state v')"
proof (cases "ms_order (cv_state v) = OrderData")
  case True
  with assms have "cv_state v' = cv_state v" by (auto simp: insert_ref_func_def)
  then show ?thesis by simp
next
  case False
  with assms show ?thesis
    by (auto simp: insert_ref_func_def only_references_def bind_res_Inr_iff on_module_Inr_iff
      insert_reference_def)
qed

lemma not_const_not_Inr [simp]: "not_const off instr \<noteq> Inr x"
  by (simp add: not_const_def)

lemma visit_const_state:
  assumes "visit_const fs ts off op v = Inr v'"
  shows "only_references (cv_state v) (cv_state v')"
proof (cases "const_rule op")
  case (ConstFunc idx)
  with assms obtain v1 where "insert_ref_func idx v = Inr v1" "const_validator ts off op v1 = Inr v'"
    by (auto simp: visit_const_def bind_res_Inr_iff)
  with insert_ref_func_state const_validator_state show ?thesis by metis
qed (use assms in \<open>auto simp: visit_const_def bind_res_Inr_iff const_validator_state split: if_splits\<close>)

lemma const_loop_state:
  "const_loop fs ts r v = Inr (v', pos) \<Longrightarrow> only_references (cv_state v) (cv_state v')"
proof (induction fs ts r v rule: const_loop.induct)
  case (1 fs ts r v)
  show ?case
  proof (cases "eof r")
    case True
    with 1(2) show ?thesis by (subst (asm) const_loop.simps) simp
  next
    case False
    with 1(2) obtain op r' v1 where read: "read_operator r = Inr (op, r')"
      and step: "visit_const fs ts (original_position r) op v = Inr v1"
      and rest: "const_loop fs ts r' v1 = Inr (v', pos)"
      by (subst (asm) const_loop.simps) (auto simp: bind_res_Inr_iff split: sum.splits)
    from 1(1) [OF False read refl, of v1] rest visit_const_state [OF step] show ?thesis
      by (blast intro: only_references_trans)
  qed
qed

lemma check_const_expr_state:
  "check_const_expr expr ty fs ts ms = Inr ms' \<Longrightarrow> only_references ms ms'"
  by (auto simp: check_const_expr_def bind_res_Inr_iff split: if_splits dest!: const_loop_state)

section \<open>Loops over sections\<close>

lemma for_items_inv:
  assumes "for_items read f it s = Inr s'" "I s"
    and item: "\<And>r x r'. read r = Inr (x, r') \<Longrightarrow> R x"
    and step: "\<And>x s s'. R x \<Longrightarrow> I s \<Longrightarrow> f x s = Inr s' \<Longrightarrow> I s'"
  shows "I s'"
  using assms(1,2,3,4)
proof (induction read f it s rule: for_items.induct)
  case (1 read f it s)
  show ?case
  proof (cases "section_next read it")
    case (Pair x it')
    show ?thesis
    proof (cases x)
      case None
      with 1(2,3) Pair show ?thesis by (subst (asm) for_items.simps) simp
    next
      case (Some y)
      with 1(2) Pair obtain z s1 where z: "y = Inr z" and s1: "f z s = Inr s1"
        and rest: "for_items read f it' s1 = Inr s'"
        by (subst (asm) for_items.simps) (auto simp: bind_res_Inr_iff split: sum.splits)
      from Pair Some z have "R z"
        by (auto simp: section_next_def Let_def split: if_splits sum.splits intro: 1(4))
      then have "I s1" using 1(3,5) s1 by blast
      with 1(1) [OF Pair [symmetric] Some z rest] 1(4,5) show ?thesis by blast
    qed
  qed
qed

lemma for_section_inv:
  assumes "for_section read f sec s = Inr s'" "I s"
    and "\<And>r x r'. read r = Inr (x, r') \<Longrightarrow> R x"
    and "\<And>x s s'. R x \<Longrightarrow> I s \<Longrightarrow> f x s = Inr s' \<Longrightarrow> I s'"
  shows "I s'"
  using assms unfolding for_section_def by (rule for_items_inv)

section \<open>The invariant of the state\<close>

text \<open>Before the code section there is no snapshot, and the module is not shared; the snapshot that is
  taken there has the types that the module refers to.\<close>

definition state_wf :: "type_list \<Rightarrow> module_state \<Rightarrow> bool" where
  "state_wf ts ms \<longleftrightarrow> module_wf ts (ms_module ms)
     \<and> (case module_snapshot (ms_module ms) of
          None \<Rightarrow> True
        | Some snapshot \<Rightarrow> module_wf snapshot (ms_module ms) \<and> OrderCode \<le> ms_order ms)"

text \<open>The states inside a section before the code section.\<close>

definition open_wf :: "section_order \<Rightarrow> module_state \<times> type_list \<Rightarrow> bool" where
  "open_wf order s \<longleftrightarrow> (case s of (ms, ts) \<Rightarrow>
     module_wf ts (ms_module ms) \<and> module_snapshot (ms_module ms) = None \<and> ms_order ms = order)"

lemma open_wf_state: "open_wf order (ms, ts) \<Longrightarrow> state_wf ts ms"
  by (simp add: open_wf_def state_wf_def)

lemma open_wf_references:
  assumes "open_wf order (ms, ts)" "only_references ms ms'"
  shows "open_wf order (ms', ts)"
  using assms by (auto simp: open_wf_def only_references_def module_wf_def)

lemma open_wf_module:
  assumes "on_module f ms = Inr ms'" "open_wf order (ms, ts)"
    and "\<And>m. f (ms_module ms) = Inr m \<Longrightarrow> module_wf ts m \<and> module_snapshot m = None"
  shows "open_wf order (ms', ts)"
  using assms by (auto simp: on_module_Inr_iff open_wf_def)

text \<open>The operations leave the snapshot alone.\<close>

lemma import_entity_snapshot:
  "import_entity ty fs off m = Inr (m', x) \<Longrightarrow> module_snapshot m' = module_snapshot m"
  by (cases ty) (auto simp: bind_res_Inr_iff Let_def)

lemma snapshot_kept:
  "add_import import fs ts off m = Inr m' \<Longrightarrow> module_snapshot m' = module_snapshot m"
  "add_function type_idx ts off m = Inr m' \<Longrightarrow> module_snapshot m' = module_snapshot m"
  "add_memory ty fs off m = Inr m' \<Longrightarrow> module_snapshot m' = module_snapshot m"
  "add_tag tag fs ts off m = Inr m' \<Longrightarrow> module_snapshot m' = module_snapshot m"
  "add_export_item fs off e ts m = Inr m' \<Longrightarrow> module_snapshot m' = module_snapshot m"
  by (auto simp: add_import_def add_function_def add_memory_def add_tag_def add_export_item_def
    add_export_def export_to_entity_type_def bind_res_Inr_iff import_entity_snapshot
    split: if_splits external_kind.splits)

lemma add_export_item_wf:
  "add_export_item fs off e ts m = Inr m' \<Longrightarrow> module_wf ts m \<Longrightarrow> module_wf ts m'"
  unfolding add_export_item_def bind_res_Inr_iff
  by (auto intro: add_export_wf export_to_entity_type_wf)

lemma add_global_wf:
  assumes "add_global g fs ts off ms = Inr ms'" "open_wf order (ms, ts)"
  shows "open_wf order (ms', ts)"
proof -
  from assms(1) obtain ty ms1 where ty: "check_global_type (ms_module ms) (wg_ty g) fs ts off = Inr ty"
    and ms1: "only_references ms ms1"
    and push: "on_module (\<lambda>m. Inr (m\<lparr>module_globals := module_globals m @ [ty]\<rparr>)) ms1 = Inr ms'"
    by (auto simp: add_global_def bind_res_Inr_iff dest: check_const_expr_state)
  have "canonical (type_at ts) (content_type ty)"
    using check_global_type_canonical [OF ty] assms(2) by (simp add: open_wf_def module_wf_def)
  then show ?thesis
    using push open_wf_references [OF assms(2) ms1]
    by (intro open_wf_module [OF push]) (auto simp: open_wf_def module_wf_def)
qed

lemma add_table_wf:
  assumes "add_table t fs ts off ms = Inr ms'" "open_wf order (ms, ts)"
  shows "open_wf order (ms', ts)"
proof -
  from assms(1) obtain ty ms1 where ty: "check_table_type (ms_module ms) (wt_ty t) fs ts off = Inr ty"
    and ms1: "only_references ms ms1"
    and push: "on_module (\<lambda>m. Inr (m\<lparr>module_tables := module_tables m @ [ty]\<rparr>)) ms1 = Inr ms'"
    by (cases "wt_init t")
      (fastforce simp: add_table_def bind_res_Inr_iff dest: check_const_expr_state intro: only_references_refl)+
  have "canonical_ref (type_at ts) (table_element_type ty)"
    using check_table_type_canonical [OF ty] assms(2) by (simp add: open_wf_def module_wf_def)
  then show ?thesis
    using push open_wf_references [OF assms(2) ms1]
    by (intro open_wf_module [OF push]) (auto simp: open_wf_def module_wf_def)
qed

lemma check_element_kind_state:
  "check_element_kind kind ty fs ts off ms = Inr ms' \<Longrightarrow> only_references ms ms'"
  by (cases kind) (auto simp: check_element_kind_def bind_res_Inr_iff dest: check_const_expr_state)

lemma insert_reference_state:
  assumes "on_module (\<lambda>m. Inr (insert_reference f m)) ms = Inr ms'" "ms_order ms \<noteq> OrderData"
  shows "only_references ms ms'"
  using assms by (auto simp: on_module_Inr_iff insert_reference_def only_references_def)

lemma add_element_items_state:
  assumes "add_element_items items ty fs ts off ms = Inr ms'" "ms_order ms \<noteq> OrderData"
  shows "only_references ms ms'"
proof -
  define I where "I x \<longleftrightarrow> only_references ms x" for x
  have order: "I x \<Longrightarrow> ms_order x \<noteq> OrderData" for x
    using assms(2) by (auto simp: I_def only_references_def)
  have step: "I x'" if "I x" "only_references x x'" for x x'
    using that only_references_trans by (auto simp: I_def)
  have "I ms" by (simp add: I_def)
  then have "I ms'"
  proof (cases items)
    case (ElementFunctions reader)
    have "for_section (with_offset read_var_u32) (add_element_function ts) reader ms = Inr ms'"
      using assms(1) unfolding ElementFunctions by (simp add: add_element_items_def bind_res_Inr_iff)
    then show ?thesis
    proof (rule for_section_inv [where I = I and R = "\<lambda>_. True"])
      fix x s s'
      assume s: "I s" and "add_element_function ts x s = Inr s'"
      then have "on_module (\<lambda>m. Inr (insert_reference (snd x) m)) s = Inr s'"
        by (cases x) (auto simp: add_element_function_def bind_res_Inr_iff)
      from step [OF s insert_reference_state [OF this order [OF s]]] show "I s'" .
    qed (simp_all add: \<open>I ms\<close>)
  next
    case (ElementExpressions t reader)
    have "for_section read_const_expr (\<lambda>expr. check_const_expr expr (Ref ty) fs ts) reader ms = Inr ms'"
      using assms(1) unfolding ElementExpressions by (simp add: add_element_items_def bind_res_Inr_iff)
    then show ?thesis
      by (rule for_section_inv [where I = I and R = "\<lambda>_. True"])
        (simp_all add: \<open>I ms\<close>, blast intro: step check_const_expr_state)
  qed
  then show ?thesis by (simp add: I_def)
qed

lemma canonical_ref_FUNC: "canonical_ref types ref_FUNC"
  using ref_ok_new [OF ref_constants(1) [symmetric]] ref_new_correct(2) [OF ref_constants(1) [symmetric]]
  by (simp add: canonical_ref_def)

lemma add_element_segment_wf:
  assumes "add_element_segment e fs ts off ms = Inr ms'" "open_wf order (ms, ts)" "order \<noteq> OrderData"
  shows "open_wf order (ms', ts)"
proof -
  from assms(1) obtain ty ms1 ms2 where
    ty: "(case we_items e of ElementFunctions _ \<Rightarrow> Inr ref_FUNC
      | ElementExpressions ty _ \<Rightarrow> module_check_ref_type (ms_module ms) ty fs off) = Inr ty"
    and ms1: "check_element_kind (we_kind e) ty fs ts off ms = Inr ms1"
    and ms2: "add_element_items (we_items e) ty fs ts off ms1 = Inr ms2"
    and push: "on_module (\<lambda>m. Inr (m\<lparr>module_element_types := module_element_types m @ [ty]\<rparr>)) ms2 = Inr ms'"
    by (auto simp: add_element_segment_def bind_res_Inr_iff)
  have canonical: "canonical_ref (type_at ts) ty"
    using ty assms(2) canonical_ref_FUNC
    by (cases "we_items e") (auto simp: open_wf_def module_wf_def intro: check_ref_type_canonical)
  have 1: "open_wf order (ms1, ts)"
    using open_wf_references [OF assms(2) check_element_kind_state [OF ms1]] .
  then have "ms_order ms1 \<noteq> OrderData" using assms(3) by (simp add: open_wf_def)
  note 2 = open_wf_references [OF 1 add_element_items_state [OF ms2 this]]
  from canonical 2 show ?thesis
    by (intro open_wf_module [OF push]) (auto simp: open_wf_def module_wf_def)
qed

section \<open>Sections\<close>

lemma update_order_Inr:
  "update_order order off ms = Inr ms' \<Longrightarrow> ms_order ms < order \<and> ms' = ms\<lparr>ms_order := order\<rparr>"
  by (auto simp: update_order_def split: if_splits)

definition validator_wf :: "validator \<Rightarrow> bool" where
  "validator_wf v \<longleftrightarrow> types_wf (val_types v)
     \<and> (case val_module v of
          None \<Rightarrow> val_state v \<noteq> StateModule
        | Some ms \<Rightarrow> val_state v = StateModule \<and> state_wf (val_types v) ms)"

lemma enter_section_wf:
  assumes "enter_section order off v = Inr ms" "validator_wf v"
  obtains ms0 where "val_module v = Some ms0" "val_state v = StateModule" "state_wf (val_types v) ms0"
    "ms_order ms0 < order" "ms = ms0\<lparr>ms_order := order\<rparr>"
proof -
  from assms(1) obtain ms0 where "val_module v = Some ms0" "update_order order off ms0 = Inr ms"
    by (auto simp: enter_section_def bind_res_Inr_iff)
  with assms(2) update_order_Inr that show thesis by (auto simp: validator_wf_def)
qed

lemma enter_open:
  assumes "enter_section order off v = Inr ms" "validator_wf v" "order \<le> OrderCode"
  shows "open_wf order (ms, val_types v)" "val_state v = StateModule"
proof -
  obtain ms0 where ms0: "val_state v = StateModule" "state_wf (val_types v) ms0"
    "ms_order ms0 < order" "ms = ms0\<lparr>ms_order := order\<rparr>"
    by (rule enter_section_wf [OF assms(1,2)])
  from ms0(1) show "val_state v = StateModule" .
  have "\<not> OrderCode \<le> ms_order ms0" using ms0(3) assms(3) by simp
  with ms0(2) have "module_snapshot (ms_module ms0) = None" by (auto simp: state_wf_def split: option.splits)
  with ms0(2,4) show "open_wf order (ms, val_types v)" by (simp add: open_wf_def state_wf_def)
qed

lemma process_section_wf:
  assumes run: "process_module_section order check read item sec v = Inr v'" and wf: "validator_wf v"
    and order: "order \<le> OrderCode"
    and check: "\<And>count off ms ms' ts. check count off ms = Inr ms' \<Longrightarrow> open_wf order (ms, ts) \<Longrightarrow> open_wf order (ms', ts)"
    and reads: "\<And>r x r'. read r = Inr (x, r') \<Longrightarrow> R x"
    and item: "\<And>off x s s'. R x \<Longrightarrow> open_wf order s \<Longrightarrow> item (off, x) s = Inr s' \<Longrightarrow> open_wf order s'"
  shows "validator_wf v'"
proof -
  from run obtain off ms ms1 ms2 ts where ms: "enter_section order off v = Inr ms"
    and ms1: "check (sl_count sec) off ms = Inr ms1"
    and loop: "for_section (with_offset read) item sec (ms1, val_types v) = Inr (ms2, ts)"
    and v': "v' = v\<lparr>val_module := Some ms2, val_types := ts\<rparr>"
    by (auto simp: process_module_section_def bind_res_Inr_iff Let_def)
  note enter = enter_open [OF ms wf order]
  have "open_wf order (ms2, ts)"
  proof (rule for_section_inv [OF loop, where R = "\<lambda>x. R (snd x)"])
    show "open_wf order (ms1, val_types v)" using check [OF ms1 enter(1)] .
    show "R (snd x)" if "with_offset read r = Inr (x, r')" for r x r'
      using that reads by (auto simp: with_offset_def with_pos_def bind_rd_def return_rd_def split: sum.splits)
    show "open_wf order s'" if "R (snd x)" "open_wf order s" "item x s = Inr s'" for x s s'
      using that item [of "snd x" s "fst x" s'] by simp
  qed
  moreover from this have "types_wf ts" by (simp add: open_wf_def module_wf_def)
  ultimately show ?thesis using v' enter(2) open_wf_state by (auto simp: validator_wf_def)
qed

lemma check_section_wf: "check_section len limit desc count off ms = Inr ms' \<Longrightarrow> ms' = ms"
  by (auto simp: check_section_def bind_res_Inr_iff)

lemma on_state_module_wf:
  assumes "on_state (\<lambda>off x ts. on_module (f off x ts)) (off, x) s = Inr s'" "open_wf order s"
    and "\<And>ts m m'. f off x ts m = Inr m' \<Longrightarrow> module_wf ts m \<Longrightarrow> module_wf ts m'"
    and "\<And>ts m m'. f off x ts m = Inr m' \<Longrightarrow> module_snapshot m' = module_snapshot m"
  shows "open_wf order s'"
  using assms(1,2)
  by (cases s) (auto simp: on_state_def bind_res_Inr_iff on_module_Inr_iff open_wf_def assms(3,4))

lemma on_state_wf:
  assumes "on_state f (off, x) s = Inr s'" "open_wf order s"
    and "\<And>ts ms ms'. f off x ts ms = Inr ms' \<Longrightarrow> open_wf order (ms, ts) \<Longrightarrow> open_wf order (ms', ts)"
  shows "open_wf order s'"
  using assms(1,2) by (cases s) (auto simp: on_state_def bind_res_Inr_iff assms(3))

text \<open>The types that are read are as \<open>add_types\<close> needs them.\<close>

lemma packed_readable_fresh: "packed_readable p \<Longrightarrow> index_fresh p"
  using from_module_index_readable(1)
  by (auto simp: packed_readable_def index_fresh_def packed_ok_def intro!: exI [of _ "Module _"])

lemma ref_readable_fresh:
  assumes "ref_type_readable rt"
  shows "ref_ok rt" "type_index rt = Some p \<Longrightarrow> index_fresh p"
proof -
  from assms obtain n h where rt: "ref_new n h = Some rt" and h: "heap_type_readable h"
    by (auto simp: ref_type_readable_def)
  show ok: "ref_ok rt" using rt by (rule ref_ok_new)
  have heap: "ref_heap_type rt = Some h" using ref_new_correct(2) [OF rt] .
  show "index_fresh p" if "type_index rt = Some p"
  proof -
    from type_index_ok(1) [OF ok that] heap obtain u where u: "packed_ok p" "unpack p = Some u" "h = Concrete u"
      by (cases "unpack p") auto
    with h show ?thesis by (cases u) (auto simp: index_fresh_def)
  qed
qed

lemma val_readable_fresh: "val_type_readable t \<Longrightarrow> val_ok t \<and> list_all index_fresh (val_indices t)"
  by (cases t) (auto simp: ref_readable_fresh split: option.splits)

lemma storage_readable_fresh:
  "storage_type_readable t \<Longrightarrow> storage_ok t \<and> list_all index_fresh (storage_indices t)"
  by (cases t) (auto simp: val_readable_fresh)

lemma list_all_concat_map: "list_all P (concat (map f xs)) \<longleftrightarrow> list_all (\<lambda>x. list_all P (f x)) xs"
  by (induction xs) auto

lemma index_fresh_ok: "index_fresh p \<Longrightarrow> packed_ok p"
  by (simp add: index_fresh_def)

lemma inner_readable_fresh:
  assumes "inner_readable t"
  shows "inner_ok t \<and> list_all index_fresh (inner_indices t)"
proof (cases t rule: inner_readable.cases)
  case (1 ft)
  with assms show ?thesis
    by (auto simp: func_type_readable_def list_all_concat_map val_readable_fresh elim!: list.pred_mono_strong)
next
  case (3 fs)
  with assms show ?thesis
    by (auto simp: list_all_concat_map storage_readable_fresh elim!: list.pred_mono_strong)
qed (use assms in \<open>auto simp: storage_readable_fresh packed_readable_fresh index_fresh_ok\<close>)

lemma sub_readable_fresh:
  assumes "sub_type_readable st"
  shows "sub_fresh st"
proof -
  have "index_fresh p" if "supertype_idx st = Some p" for p
    using that assms by (simp add: sub_type_readable_def packed_readable_fresh)
  moreover have "inner_ok (comp_inner (composite_type st))
      \<and> list_all index_fresh (inner_indices (comp_inner (composite_type st)))"
    using assms by (intro inner_readable_fresh) (simp add: sub_type_readable_def)
  ultimately show ?thesis by (simp add: sub_fresh_def sub_ok_def index_fresh_ok)
qed

lemma rec_group_read_fresh:
  assumes "read_rec_group r = Inr (rg, r')"
  shows "list_all sub_fresh (rec_group_types rg)"
proof -
  have "rec_group_readable rg"
    using returns_rec_group [of "features r"] assms unfolding returns_def by blast
  then show ?thesis
  proof (cases rg rule: rec_group_readable.cases)
    case (2 tys)
    with \<open>rec_group_readable rg\<close> have "list_all (\<lambda>x. sub_fresh (snd x)) tys"
      by (auto intro: sub_readable_fresh elim!: list.pred_mono_strong)
    with 2 show ?thesis by (simp add: rec_group_types_def list.pred_map comp_def)
  qed (simp add: rec_group_types_def sub_readable_fresh)
qed

lemma add_types_item_wf:
  assumes "add_types_item fs (off, rg) s = Inr s'" "open_wf order s" "list_all sub_fresh (rec_group_types rg)"
  shows "open_wf order s'"
proof -
  obtain ms ts where s: "s = (ms, ts)" by (cases s)
  with assms(1) obtain m ts' where run: "add_types rg fs off True (ms_module ms, ts) = Inr (m, ts')"
    and s': "s' = (ms\<lparr>ms_module := m\<rparr>, ts')"
    by (auto simp: add_types_item_def bind_res_Inr_iff assert_mut_def split: if_splits)
  from assms(2) s have wf: "module_wf ts (ms_module ms)" by (simp add: open_wf_def)
  have "module_snapshot m = module_snapshot (ms_module ms)"
    using run by (auto simp: add_types_def bind_res_Inr_iff)
  with add_types_wf(1) [OF run wf assms(3)] assms(2) s s' show ?thesis by (simp add: open_wf_def)
qed

lemmas order_simps = less_eq_section_order_def less_section_order_def

lemma type_section_wf:
  assumes "type_section sec v = Inr v'" "validator_wf v"
  shows "validator_wf v'"
  using assms(1) unfolding type_section_def
  by (rule process_section_wf [OF _ assms(2), where R = "\<lambda>rg. list_all sub_fresh (rec_group_types rg)"])
    (auto simp: order_simps rec_group_read_fresh dest: check_section_wf intro: add_types_item_wf)

lemma import_section_wf:
  assumes "import_section sec v = Inr v'" "validator_wf v"
  shows "validator_wf v'"
  using assms(1) unfolding import_section_def
  by (rule process_section_wf [OF _ assms(2), where R = "\<lambda>_. True"])
    (auto simp: order_simps dest: check_section_wf intro: add_import_wf snapshot_kept
      elim!: on_state_module_wf)

lemma table_section_wf:
  assumes "table_section sec v = Inr v'" "validator_wf v"
  shows "validator_wf v'"
  using assms(1) unfolding table_section_def
  by (rule process_section_wf [OF _ assms(2), where R = "\<lambda>_. True"])
    (auto simp: order_simps dest: check_section_wf intro: add_table_wf elim!: on_state_wf)

lemma global_section_wf:
  assumes "global_section sec v = Inr v'" "validator_wf v"
  shows "validator_wf v'"
  using assms(1) unfolding global_section_def
  by (rule process_section_wf [OF _ assms(2), where R = "\<lambda>_. True"])
    (auto simp: order_simps dest: check_section_wf intro: add_global_wf elim!: on_state_wf)

lemma element_section_wf:
  assumes "element_section sec v = Inr v'" "validator_wf v"
  shows "validator_wf v'"
  using assms(1) unfolding element_section_def
  by (rule process_section_wf [OF _ assms(2), where R = "\<lambda>_. True"])
    (auto simp: order_simps dest: check_section_wf intro: add_element_segment_wf elim!: on_state_wf)

lemma memory_section_wf:
  assumes "memory_section sec v = Inr v'" "validator_wf v"
  shows "validator_wf v'"
  using assms(1) unfolding memory_section_def
  by (rule process_section_wf [OF _ assms(2), where R = "\<lambda>_. True"])
    (auto simp: order_simps dest: check_section_wf intro: add_memory_wf snapshot_kept elim!: on_state_module_wf)

lemma export_section_wf:
  assumes "export_section sec v = Inr v'" "validator_wf v"
  shows "validator_wf v'"
  using assms(1) unfolding export_section_def
  by (rule process_section_wf [OF _ assms(2), where R = "\<lambda>_. True"])
    (auto simp: order_simps dest: check_section_wf intro: add_export_item_wf snapshot_kept elim!: on_state_module_wf)

lemma tag_section_wf:
  assumes "tag_section sec v = Inr v'" "validator_wf v"
  shows "validator_wf v'"
proof -
  from assms(1) have "process_module_section OrderTag
       (check_section (\<lambda>m. length (module_tags m)) MAX_WASM_TAGS ''tags'')
       read_tag_type (on_state (\<lambda>off ty ts. on_module (add_tag ty (val_features v) ts off))) sec v = Inr v'"
    by (simp add: tag_section_def bind_res_Inr_iff)
  then show ?thesis
    by (rule process_section_wf [OF _ assms(2), where R = "\<lambda>_. True"])
      (auto simp: order_simps dest: check_section_wf intro: add_tag_wf snapshot_kept elim!: on_state_module_wf)
qed

lemma function_section_wf:
  assumes "function_section sec v = Inr v'" "validator_wf v"
  shows "validator_wf v'"
  using assms(1) unfolding function_section_def
proof (rule process_section_wf [OF _ assms(2), where R = "\<lambda>_. True"])
  show "open_wf OrderFunction (ms', ts)"
    if "bind_res (check_section (\<lambda>m. length (module_functions m)) MAX_WASM_FUNCTIONS ''functions'' count off ms) (\<lambda>ms.
       if expected_code_bodies ms \<noteq> None then Inl Panicked
       else Inr (ms\<lparr>expected_code_bodies := Some count\<rparr>)) = Inr ms'" "open_wf OrderFunction (ms, ts)"
    for count off ms ms' ts
    using that by (auto simp: bind_res_Inr_iff open_wf_def dest!: check_section_wf split: if_splits)
qed (auto simp: order_simps intro: add_function_wf snapshot_kept elim!: on_state_module_wf)

lemma data_section_wf:
  assumes "data_section sec v = Inr v'" "validator_wf v"
  shows "validator_wf v'" "\<exists>ms ms'. val_module v = Some ms \<and> val_module v' = Some ms' \<and> ms_module ms' = ms_module ms"
proof -
  from assms(1) obtain off ms ms2 ts where ms: "enter_section OrderData off v = Inr ms"
    and loop: "for_section (with_offset read_data)
      (on_state (\<lambda>off d ts. add_data_segment d (val_features v) ts off)) sec
      (ms\<lparr>data_segment_count := sl_count sec\<rparr>, val_types v) = Inr (ms2, ts)"
    and v': "v' = v\<lparr>val_module := Some ms2, val_types := ts\<rparr>"
    by (auto simp: data_section_def process_module_section_def bind_res_Inr_iff Let_def)
  obtain ms0 where ms0: "val_module v = Some ms0" "val_state v = StateModule" "state_wf (val_types v) ms0"
    "ms = ms0\<lparr>ms_order := OrderData\<rparr>"
    by (rule enter_section_wf [OF ms assms(2)])
  have "(ms2, ts) = (ms\<lparr>data_segment_count := sl_count sec\<rparr>, val_types v)"
  proof (rule for_section_inv [OF loop, where R = "\<lambda>_. True" and I = "\<lambda>s. s = (ms\<lparr>data_segment_count := sl_count sec\<rparr>, val_types v)"])
    fix x s s'
    assume s: "s = (ms\<lparr>data_segment_count := sl_count sec\<rparr>, val_types v)"
      and "on_state (\<lambda>off d ts. add_data_segment d (val_features v) ts off) x s = Inr s'"
    then obtain ms1 where ms1: "s' = (ms1, val_types v)"
      "add_data_segment (snd x) (val_features v) (val_types v) (fst x) (ms\<lparr>data_segment_count := sl_count sec\<rparr>) = Inr ms1"
      by (cases x) (auto simp: on_state_def bind_res_Inr_iff)
    from ms1(2) have "only_references (ms\<lparr>data_segment_count := sl_count sec\<rparr>) ms1"
      by (cases "wd_kind (snd x)") (auto simp: add_data_segment_def bind_res_Inr_iff dest: check_const_expr_state)
    then have "ms1 = ms\<lparr>data_segment_count := sl_count sec\<rparr>" using ms0(4) by (simp add: only_references_def)
    with ms1(1) show "s' = (ms\<lparr>data_segment_count := sl_count sec\<rparr>, val_types v)" by simp
  qed simp_all
  then have v'_eq: "v' = v\<lparr>val_module := Some (ms0\<lparr>ms_order := OrderData, data_segment_count := sl_count sec\<rparr>)\<rparr>"
    using v' ms0(4) by simp
  then show "\<exists>ms ms'. val_module v = Some ms \<and> val_module v' = Some ms' \<and> ms_module ms' = ms_module ms"
    using ms0(1) by simp
  have "state_wf (val_types v) (ms0\<lparr>ms_order := OrderData, data_segment_count := sl_count sec\<rparr>)"
    using ms0(3) by (auto simp: state_wf_def order_simps split: option.splits)
  with v'_eq ms0(2) assms(2) show "validator_wf v'" by (simp add: validator_wf_def)
qed

lemma start_section_wf:
  assumes "start_section func rng v = Inr v'" "validator_wf v"
  shows "validator_wf v'"
proof -
  from assms(1) obtain ms where ms: "enter_section OrderStart (fst rng) v = Inr ms"
    and v': "v' = v\<lparr>val_module := Some ms\<rparr>"
    by (auto simp: start_section_def bind_res_Inr_iff)
  from enter_open [OF ms assms(2)] open_wf_state v' assms(2) show ?thesis
    by (auto simp: validator_wf_def order_simps)
qed

lemma data_count_section_wf:
  assumes "data_count_section count rng v = Inr v'" "validator_wf v"
  shows "validator_wf v'"
proof -
  from assms(1) obtain ms ms' where ms: "enter_section OrderDataCount (fst rng) v = Inr ms"
    and ms': "on_module (\<lambda>m. Inr (m\<lparr>module_data_count := Some count\<rparr>)) ms = Inr ms'"
    and v': "v' = v\<lparr>val_module := Some ms'\<rparr>"
    by (auto simp: data_count_section_def bind_res_Inr_iff)
  note enter = enter_open [OF ms assms(2)]
  have "open_wf OrderDataCount (ms', val_types v)"
    using enter(1) by (intro open_wf_module [OF ms']) (auto simp: order_simps open_wf_def module_wf_def)
  with open_wf_state v' enter(2) assms(2) show ?thesis by (auto simp: validator_wf_def order_simps)
qed

lemma code_section_start_wf:
  assumes "code_section_start count rng v = Inr v'" "validator_wf v"
  shows "validator_wf v'" "\<exists>ms. val_module v' = Some ms \<and> module_snapshot (ms_module ms) \<noteq> None"
proof -
  obtain snapshot ts where commit: "type_list_commit (val_types v) = (snapshot, ts)"
    by (cases "type_list_commit (val_types v)")
  with assms(1) obtain ms where ms: "enter_section OrderCode (fst rng) v = Inr ms"
    and v': "v' = v\<lparr>val_module := Some (ms\<lparr>expected_code_bodies := None,
      ms_module := (ms_module ms)\<lparr>module_snapshot := Some snapshot\<rparr>\<rparr>), val_types := ts\<rparr>"
    by (auto simp: code_section_start_def bind_res_Inr_iff on_module_Inr_iff)
  note enter = enter_open [OF ms assms(2)]
  have wf: "module_wf (val_types v) (ms_module ms)" "ms_order ms = OrderCode"
    using enter(1) by (simp_all add: open_wf_def)
  have "types_wf (val_types v)" using assms(2) by (simp add: validator_wf_def)
  note commit_wf = commit_wf [OF this commit]
  have "module_wf snapshot (ms_module ms)" "module_wf ts (ms_module ms)"
    using module_wf_mono [OF wf(1)] commit_wf by simp_all
  then show "validator_wf v'" using v' wf(2) enter(2) commit_wf
    by (simp add: validator_wf_def state_wf_def module_wf_def)
  show "\<exists>ms. val_module v' = Some ms \<and> module_snapshot (ms_module ms) \<noteq> None" using v' by simp
qed

definition next_body :: "module_state \<Rightarrow> usize" where
  "next_body ms =
     (case code_section_index ms of Some i \<Rightarrow> i | None \<Rightarrow> unat (num_imported_functions (ms_module ms)))"

lemma next_code_Inr:
  "next_code_index_and_type off ms = Inr ((index, ty), ms') \<longleftrightarrow>
     next_body ms < length (module_functions (ms_module ms)) \<and> index = of_nat (next_body ms)
     \<and> ty = module_functions (ms_module ms) ! next_body ms
     \<and> ms' = ms\<lparr>code_section_index := Some (next_body ms + 1)\<rparr>"
  by (auto simp: next_code_index_and_type_def Let_def simp flip: next_body_def)

lemma code_section_entry_Inr:
  assumes "code_section_entry body v = Inr (f, v')" "validator_wf v"
  obtains ms where "val_module v = Some ms" "val_state v = StateModule" "state_wf (val_types v) ms"
    "ftv_resources f = ms_module ms" "ftv_index f = of_nat (next_body ms)"
    "next_body ms < length (module_functions (ms_module ms))"
    "ftv_ty f = module_functions (ms_module ms) ! next_body ms"
    "val_module v' = Some (make_shared (ms\<lparr>code_section_index := Some (next_body ms + 1)\<rparr>))"
    "val_state v' = val_state v" "val_types v' = val_types v"
proof -
  from assms(1) obtain ms where ms: "val_module v = Some ms"
    "next_body ms < length (module_functions (ms_module ms))"
    and f: "f = \<lparr>ftv_resources = ms_module ms, ftv_index = of_nat (next_body ms),
      ftv_ty = module_functions (ms_module ms) ! next_body ms, ftv_features = val_features v\<rparr>"
    and v': "v' = v\<lparr>val_module := Some (make_shared (ms\<lparr>code_section_index := Some (next_body ms + 1)\<rparr>))\<rparr>"
    by (auto simp: code_section_entry_def next_code_Inr bind_res_Inr_iff Let_def)
  from ms(1) assms(2) have "val_state v = StateModule" "state_wf (val_types v) ms"
    by (simp_all add: validator_wf_def)
  with ms f v' show thesis by (intro that [of ms]) simp_all
qed

lemma code_section_entry_wf:
  assumes "code_section_entry body v = Inr (f, v')" "validator_wf v"
  shows "validator_wf v'"
proof -
  obtain ms where "val_module v = Some ms" "state_wf (val_types v) ms"
    "val_module v' = Some (make_shared (ms\<lparr>code_section_index := Some (next_body ms + 1)\<rparr>))"
    "val_state v' = val_state v" "val_types v' = val_types v" "val_state v = StateModule"
    by (rule code_section_entry_Inr [OF assms])
  with assms(2) show ?thesis
    by (auto simp: validator_wf_def state_wf_def make_shared_def split: option.splits)
qed

lemma version_wf: "validator_version num enc rng v = Inr v' \<Longrightarrow> validator_wf v \<Longrightarrow> validator_wf v'"
  by (auto simp: validator_version_def bind_res_Inr_iff validator_wf_def state_wf_def
    module_state_default_def module_default_def module_wf_def ids_wf_def
    split: encoding.splits if_splits)

lemma end_wf:
  assumes "validator_end off v = Inr (types, v')" "validator_wf v"
  shows "validator_wf v'"
proof -
  obtain snapshot ts where commit: "type_list_commit (val_types v) = (snapshot, ts)"
    by (cases "type_list_commit (val_types v)")
  moreover have "types_wf (val_types v)" using assms(2) by (simp add: validator_wf_def)
  ultimately have "types_wf ts" by (rule commit_wf(3) [rotated])
  with assms commit show ?thesis
    by (auto simp: validator_end_def bind_res_Inr_iff validator_wf_def split: validator_state.splits)
qed

lemma payload_wf:
  assumes "validator_payload p v = Inr (x, v')" "validator_wf v"
  shows "validator_wf v'"
  using assms
  by (cases p) (auto simp: valid_ok_def bind_res_Inr_iff unknown_section_def intro: version_wf type_section_wf
    import_section_wf function_section_wf table_section_wf memory_section_wf tag_section_wf
    global_section_wf export_section_wf start_section_wf element_section_wf data_count_section_wf
    code_section_start_wf(1) code_section_entry_wf data_section_wf(1) end_wf)

section \<open>Functions to validate\<close>

text \<open>After the code section has started, there is a snapshot or validation has ended.\<close>

definition code_started :: "validator \<Rightarrow> bool" where
  "code_started v \<longleftrightarrow> val_state v = StateEnd
     \<or> val_state v = StateModule \<and> (\<exists>ms. val_module v = Some ms \<and> module_snapshot (ms_module ms) \<noteq> None)"

lemma enter_not_started:
  assumes "enter_section order off v = Inr ms" "validator_wf v" "order \<le> OrderCode"
  shows "\<not> code_started v"
proof -
  obtain ms0 where "val_module v = Some ms0" "val_state v = StateModule" "ms = ms0\<lparr>ms_order := order\<rparr>"
    by (rule enter_section_wf [OF assms(1,2)])
  moreover have "module_snapshot (ms_module ms) = None"
    using enter_open(1) [OF assms] by (simp add: open_wf_def)
  ultimately show ?thesis by (simp add: code_started_def)
qed

lemma process_section_not_started:
  assumes "process_module_section order check read item sec v = Inr v'" "validator_wf v" "order \<le> OrderCode"
  shows "\<not> code_started v"
  using assms(1) enter_not_started [OF _ assms(2,3)]
  by (auto simp: process_module_section_def bind_res_Inr_iff Let_def)

lemma section_not_started:
  assumes "validator_wf v"
  shows "type_section sec v = Inr v' \<Longrightarrow> \<not> code_started v"
    "import_section sec v = Inr v' \<Longrightarrow> \<not> code_started v"
    "function_section sec v = Inr v' \<Longrightarrow> \<not> code_started v"
    "table_section sec v = Inr v' \<Longrightarrow> \<not> code_started v"
    "memory_section sec v = Inr v' \<Longrightarrow> \<not> code_started v"
    "tag_section sec v = Inr v' \<Longrightarrow> \<not> code_started v"
    "global_section sec v = Inr v' \<Longrightarrow> \<not> code_started v"
    "export_section sec v = Inr v' \<Longrightarrow> \<not> code_started v"
    "element_section sec v = Inr v' \<Longrightarrow> \<not> code_started v"
    "start_section func rng v = Inr v' \<Longrightarrow> \<not> code_started v"
    "data_count_section count rng v = Inr v' \<Longrightarrow> \<not> code_started v"
    "code_section_start count rng v = Inr v' \<Longrightarrow> \<not> code_started v"
  unfolding type_section_def import_section_def function_section_def table_section_def
    memory_section_def tag_section_def global_section_def export_section_def element_section_def
    start_section_def data_count_section_def code_section_start_def bind_res_Inr_iff
  by - ((elim exE conjE)?, erule process_section_not_started [OF _ assms] enter_not_started [OF _ assms],
    simp add: order_simps)+

lemma payload_started:
  assumes "validator_payload p v = Inr (x, v')" "validator_wf v" "code_started v"
  shows "code_started v'"
proof (cases p)
  case (CodeSectionEntry body)
  with assms(1) obtain f where run: "code_section_entry body v = Inr (f, v')"
    by (auto simp: bind_res_Inr_iff)
  obtain ms where "val_module v = Some ms" "val_state v = StateModule" "val_state v' = val_state v"
    "val_module v' = Some (make_shared (ms\<lparr>code_section_index := Some (next_body ms + 1)\<rparr>))"
    by (rule code_section_entry_Inr [OF run assms(2)])
  with assms(3) show ?thesis by (auto simp: code_started_def make_shared_def)
next
  case (DataSection sec)
  with assms(1) have run: "data_section sec v = Inr v'" by (auto simp: valid_ok_def bind_res_Inr_iff)
  then have "val_state v' = val_state v"
    by (auto simp: data_section_def process_module_section_def bind_res_Inr_iff Let_def)
  with data_section_wf(2) [OF run assms(2)] assms(3) show ?thesis by (auto simp: code_started_def)
next
  case (Version num enc rng)
  with assms(1,3) show ?thesis
    by (auto simp: valid_ok_def bind_res_Inr_iff validator_version_def code_started_def)
next
  case (PayloadEnd off)
  with assms(1) show ?thesis
    by (cases "type_list_commit (val_types v)")
      (auto simp: bind_res_Inr_iff validator_end_def code_started_def split: validator_state.splits)
qed (use assms(1,3) in \<open>auto simp: valid_ok_def bind_res_Inr_iff unknown_section_def
       dest: section_not_started [OF assms(2)]\<close>)

text \<open>What is handed out with a body: a module over its snapshot, and the index of a function type.\<close>

definition func_ready :: "func_to_validate \<Rightarrow> bool" where
  "func_ready f \<longleftrightarrow> (\<exists>ts. module_snapshot (ftv_resources f) = Some ts \<and> module_wf ts (ftv_resources f)
     \<and> is_func_index ts (module_types (ftv_resources f)) (ftv_ty f))"

lemma code_section_entry_ready:
  assumes "code_section_entry body v = Inr (f, v')" "validator_wf v"
  shows "module_snapshot (ftv_resources f) = None \<or> func_ready f"
    and "code_started v \<Longrightarrow> module_snapshot (ftv_resources f) \<noteq> None"
proof -
  obtain ms where ms: "val_module v = Some ms" "val_state v = StateModule" "state_wf (val_types v) ms"
    "ftv_resources f = ms_module ms" "next_body ms < length (module_functions (ms_module ms))"
    "ftv_ty f = module_functions (ms_module ms) ! next_body ms"
    by (rule code_section_entry_Inr [OF assms])
  from ms(1,2,4) show "module_snapshot (ftv_resources f) \<noteq> None" if "code_started v"
    using that by (auto simp: code_started_def)
  show "module_snapshot (ftv_resources f) = None \<or> func_ready f"
  proof (cases "module_snapshot (ms_module ms)")
    case (Some ts)
    with ms(3) have wf: "module_wf ts (ms_module ms)" by (simp add: state_wf_def)
    then have "list_all (is_func_index ts (module_types (ms_module ms))) (module_functions (ms_module ms))"
      by (simp add: module_wf_def)
    with ms(5,6) have "is_func_index ts (module_types (ms_module ms)) (ftv_ty f)"
      by (simp add: list_all_length)
    with Some wf ms(4) show ?thesis by (auto simp: func_ready_def)
  qed (simp add: ms(4))
qed

text \<open>The parser produces the entries of the code section after its start.\<close>

fun entries_after_start :: "bool \<Rightarrow> payload result list \<Rightarrow> bool" where
  "entries_after_start started [] \<longleftrightarrow> True"
| "entries_after_start started (Inl e # ps) \<longleftrightarrow> entries_after_start started ps"
| "entries_after_start started (Inr p # ps) \<longleftrightarrow>
     (case p of
        CodeSectionStart _ _ \<Rightarrow> entries_after_start True ps
      | CodeSectionEntry _ \<Rightarrow> started \<and> entries_after_start started ps
      | _ \<Rightarrow> entries_after_start started ps)"

lemma entries_after_start_Inr:
  "entries_after_start started (Inr p # ps) \<Longrightarrow>
     entries_after_start (started \<or> (\<exists>c r. p = CodeSectionStart c r)) ps
     \<and> (\<forall>body. p = CodeSectionEntry body \<longrightarrow> started)"
  by (cases p) auto

lemma validate_payloads_funcs:
  assumes "validate_payloads ps v = Inr (funcs, lst, v')" "validator_wf v"
    and "started \<longrightarrow> code_started v"
  shows "list_all (\<lambda>(f, _). func_ready f
      \<or> module_snapshot (ftv_resources f) = None \<and> \<not> entries_after_start started ps) funcs \<and> validator_wf v'"
  using assms
proof (induction ps v arbitrary: started funcs lst v' rule: validate_payloads.induct)
  case (3 p ps v)
  from 3(2) obtain x v1 funcs1 last1 where step: "validator_payload p v = Inr (x, v1)"
    and rest: "validate_payloads ps v1 = Inr (funcs1, last1, v')"
    and funcs: "funcs = (case x of ValidFunc f body \<Rightarrow> (f, body) # funcs1 | _ \<Rightarrow> funcs1)"
    by (auto simp: bind_res_Inr_iff)
  let ?started = "started \<or> (\<exists>c r. p = CodeSectionStart c r)"
  note entries = entries_after_start_Inr [of started p ps]
  note wf = payload_wf [OF step 3(3)]
  have started: "code_started v1" if ?started
  proof (cases started)
    case True
    with payload_started [OF step 3(3)] 3(4) show ?thesis by blast
  next
    case False
    with that step obtain c r where start: "code_section_start c r v = Inr v1"
      by (auto simp: valid_ok_def bind_res_Inr_iff)
    from code_section_start_wf [OF start 3(3)] show ?thesis
      by (auto simp: code_started_def validator_wf_def)
  qed
  have IH: "list_all (\<lambda>(f, _). func_ready f
      \<or> module_snapshot (ftv_resources f) = None \<and> \<not> entries_after_start started (Inr p # ps)) funcs1
      \<and> validator_wf v'"
    using 3(1) [OF rest wf impI, of ?started] started entries by (fastforce elim!: list.pred_mono_strong)
  show ?case
  proof (cases x)
    case (ValidFunc f body)
    with step have p: "p = CodeSectionEntry body \<and> code_section_entry body v = Inr (f, v1)"
      by (cases p) (auto simp: valid_ok_def bind_res_Inr_iff)
    note entry = code_section_entry_ready [OF p [THEN conjunct2] 3(3)]
    have "func_ready f \<or> module_snapshot (ftv_resources f) = None \<and> \<not> entries_after_start started (Inr p # ps)"
      using entry 3(4) entries p by blast
    with IH funcs ValidFunc show ?thesis by simp
  qed (use IH funcs in simp_all)
qed (simp_all)

lemma validate_payloads_ready:
  assumes "validate_payloads ps v = Inr (funcs, lst, v')" "validator_wf v"
    and "started \<longrightarrow> code_started v" "entries_after_start started ps"
  shows "list_all (\<lambda>(f, _). func_ready f) funcs \<and> validator_wf v'"
  using validate_payloads_funcs [OF assms(1-3)] assms(4) by simp

section \<open>Making the validator of a function\<close>

lemma define_param_locals_list:
  assumes "locals_wf l" "length (locals_list l) + length tys \<le> MAX_WASM_FUNCTION_LOCALS"
  shows "\<exists>l'. define_param_locals tys l = Some l' \<and> locals_wf l' \<and> locals_list l' = locals_list l @ tys"
  using assms
proof (induction tys arbitrary: l)
  case (Cons ty tys)
  have "0 < (1 :: u32)" by simp
  with Cons(2) show ?case
  proof (cases rule: locals_define_locals_list [where ty = ty])
    case (1 l')
    with Cons(1) [of l'] Cons(3) show ?thesis by (simp add: replicate_Suc)
  next
    case (2 l')
    with Cons(3) show ?thesis by simp
  qed
qed simp

lemma into_validator_ready:
  assumes "func_ready f"
  obtains fv st ft where "into_validator f = Inr fv" "wasm_module_resources (fv_resources fv)"
    "fv_resources fv = validator_resources (ftv_resources f)"
    "sub_type_at (fv_resources fv) (ftv_ty f) = Some (Some st)" "comp_inner (composite_type st) = CompFunc ft"
    "locals_list (ov_locals (fv_validator fv)) = func_params ft"
    "length (control (fv_validator fv)) = 1"
proof -
  let ?r = "validator_resources (ftv_resources f)"
  from assms obtain ts tid st ft where ts: "module_snapshot (ftv_resources f) = Some ts"
    "module_wf ts (ftv_resources f)" and tid: "nth_opt (module_types (ftv_resources f)) (unat (ftv_ty f)) = Some tid"
    and st: "type_at ts tid = Some st" "comp_inner (composite_type st) = CompFunc ft"
    unfolding func_ready_def is_func_index_def is_func_id_def by blast
  have at: "sub_type_at ?r (ftv_ty f) = Some (Some st)"
    using ts(1) tid st(1) by (simp add: validator_resources_def module_resources_with_def)
  have "canonical_sub (type_at ts) st" using ts(2) st(1) by (auto simp: module_wf_def types_wf_def)
  then have "length (func_params ft) \<le> MAX_WASM_FUNCTION_PARAMS"
    using st(2) by (simp add: canonical_sub_def canonical_func_def)
  then have "length (func_params ft) \<le> MAX_WASM_FUNCTION_LOCALS"
    by (simp add: MAX_WASM_FUNCTION_PARAMS_def MAX_WASM_FUNCTION_LOCALS_def)
  then obtain l where l: "define_param_locals (func_params ft) locals_empty = Some l"
    "locals_list l = func_params ft"
    using define_param_locals_list [of locals_empty "func_params ft"] locals_wf_empty
    by (auto simp: locals_list_def locals_empty_def)
  have "\<exists>s. new_func (ftv_ty f) 0 (ftv_features f) ?r = Inr s \<and> ov_locals s = l \<and> length (control s) = 1"
    using at st(2) l(1)
    by (simp add: new_func_def sub_type_at_ov_def bind_ov_def call_ov_def return_ov_def operator_validator_new_def)
  then obtain s where "new_func (ftv_ty f) 0 (ftv_features f) ?r = Inr s" "ov_locals s = l" "length (control s) = 1"
    by blast
  with at st(2) l(2) validator_contract [OF ts] show thesis
    by (intro that [of "\<lparr>fv_validator = s, fv_resources = ?r, fv_index = ftv_index f\<rparr>" st ft])
      (simp_all add: into_validator_def)
qed

lemma validator_wf_new: "validator_wf (validator_new_with_features fs)"
  by (simp add: validator_wf_def validator_new_with_features_def types_wf_default)

text \<open>Without a snapshot, \<open>self.0.snapshot.as_ref().unwrap()\<close> panics, and an index behind the types is an
  error that \<open>into_validator\<close> unwraps.\<close>

lemma into_validator_no_snapshot:
  assumes "module_snapshot (ftv_resources f) = None"
  shows "into_validator f = Inl Panicked"
proof -
  let ?r = "validator_resources (ftv_resources f)"
  have "sub_type_at ?r (ftv_ty f) = None \<or> sub_type_at ?r (ftv_ty f) = Some None"
    using assms by (simp add: validator_resources_def module_resources_with_def split: option.split)
  then have "\<exists>e. new_func (ftv_ty f) 0 (ftv_features f) ?r = Inl e"
    by (auto simp: new_func_def sub_type_at_ov_def bind_ov_def call_ov_def panic_ov_def return_ov_def bail_def Let_def)
  then show ?thesis by (auto simp: into_validator_def)
qed

text \<open>C2. Let a new validator accept a list of payloads, and let it hand out a function for one of them.
  Either the types had been committed when the function was handed out, and it is ready to be validated:
  \<open>into_validator\<close> does not panic, the resources keep the contract of \<open>WasmModuleResources\<close>, the type
  index of the function is that of a function type, and the locals start out as its parameters. Or
  \<open>into_validator\<close> panics: then there is no snapshot of the types, and some entry of the code section
  precedes its start in the list, which \<open>code_section_entry\<close> does not check and a parser does not
  produce.\<close>

theorem handed_out_functions_ready:
  assumes "validate_payloads ps (validator_new_with_features fs) = Inr (funcs, types, v)"
    and "(f, body) \<in> set funcs"
  shows "case into_validator f of
      Inr fv \<Rightarrow> \<exists>snapshot st ft. module_snapshot (ftv_resources f) = Some snapshot
        \<and> wasm_module_resources (fv_resources fv)
        \<and> sub_type_at (fv_resources fv) (ftv_ty f) = Some (Some st) \<and> comp_inner (composite_type st) = CompFunc ft
        \<and> locals_list (ov_locals (fv_validator fv)) = func_params ft
    | Inl e \<Rightarrow> e = Panicked \<and> module_snapshot (ftv_resources f) = None \<and> \<not> entries_after_start False ps"
proof -
  consider "func_ready f" | "module_snapshot (ftv_resources f) = None" "\<not> entries_after_start False ps"
    using validate_payloads_funcs [OF assms(1) validator_wf_new, of False] assms(2)
    by (auto simp: list_all_iff)
  then show ?thesis
  proof cases
    case 1
    then obtain fv st ft where "into_validator f = Inr fv" "wasm_module_resources (fv_resources fv)"
      "sub_type_at (fv_resources fv) (ftv_ty f) = Some (Some st)" "comp_inner (composite_type st) = CompFunc ft"
      "locals_list (ov_locals (fv_validator fv)) = func_params ft"
      by (rule into_validator_ready)
    moreover obtain snapshot where "module_snapshot (ftv_resources f) = Some snapshot"
      using 1 by (auto simp: func_ready_def)
    ultimately show ?thesis by simp
  qed (simp add: into_validator_no_snapshot)
qed

text \<open>A module with one function of type \<open>[i32] \<rightarrow> []\<close> and the body \<open>(end)\<close>.\<close>

definition example_section :: "u8 list \<Rightarrow> usize \<Rightarrow> section_limited" where
  "example_section bytes off =
     (case section_limited_new (reader_new_features bytes off {}) of Inr s \<Rightarrow> s)"

definition example_body :: function_body where
  "example_body = \<lparr>fb_reader = reader_new_features [0x00, 0x0b] 22 {}\<rparr>"

definition example_payloads :: "payload result list" where
  "example_payloads = map Inr
     [Version 1 EncodingModule (0, 8), TypeSection (example_section [0x01, 0x60, 0x01, 0x7f, 0x00] 10),
      FunctionSection (example_section [0x01, 0x00] 17), CodeSectionStart 1 (20, 24),
      CodeSectionEntry example_body, PayloadEnd 25]"

definition example_version :: validator where
  "example_version = projr (validator_version 1 EncodingModule (0, 8) (validator_new_with_features {}))"

definition example_types :: validator where
  "example_types = projr (type_section (example_section [0x01, 0x60, 0x01, 0x7f, 0x00] 10) example_version)"

definition example_functions :: validator where
  "example_functions = projr (function_section (example_section [0x01, 0x00] 17) example_types)"

definition example_code :: validator where
  "example_code = projr (code_section_start 1 (20, 24) example_functions)"

definition example_entry :: "func_to_validate \<times> validator" where
  "example_entry = projr (code_section_entry example_body example_code)"

lemma not_isl_projr: "\<not> isl x \<Longrightarrow> x = Inr (projr x)"
  by (cases x) simp_all

lemma example_steps:
  "validator_version 1 EncodingModule (0, 8) (validator_new_with_features {}) = Inr example_version"
  "type_section (example_section [0x01, 0x60, 0x01, 0x7f, 0x00] 10) example_version = Inr example_types"
  "function_section (example_section [0x01, 0x00] 17) example_types = Inr example_functions"
  "code_section_start 1 (20, 24) example_functions = Inr example_code"
  "code_section_entry example_body example_code = Inr example_entry"
  unfolding example_version_def example_types_def example_functions_def example_code_def example_entry_def
  by (rule not_isl_projr, code_simp)+

lemma example_end: "\<not> isl (validator_end 25 (snd example_entry))"
  by code_simp

lemma example_accepted:
  "\<exists>types v. validate_payloads example_payloads (validator_new_with_features {}) =
     Inr ([(fst example_entry, example_body)], Some types, v)"
proof -
  obtain types v where "validator_end 25 (snd example_entry) = Inr (types, v)"
    using not_isl_projr [OF example_end] by (cases "projr (validator_end 25 (snd example_entry))") simp
  then show ?thesis
    by (simp add: example_payloads_def valid_ok_def bind_res_def example_steps split_beta)
qed

text \<open>The same function with its body without the start of the code section: the list, which does not
  reach the end of a module, is accepted.\<close>

definition early_payloads :: "payload result list" where
  "early_payloads = map Inr
     [Version 1 EncodingModule (0, 8), TypeSection (example_section [0x01, 0x60, 0x01, 0x7f, 0x00] 10),
      FunctionSection (example_section [0x01, 0x00] 17), CodeSectionEntry example_body]"

definition early_entry :: "func_to_validate \<times> validator" where
  "early_entry = projr (code_section_entry example_body example_functions)"

lemma early_step: "code_section_entry example_body example_functions = Inr early_entry"
  unfolding early_entry_def by (rule not_isl_projr) code_simp

lemma early_no_snapshot: "Option.is_none (module_snapshot (ftv_resources (fst early_entry)))"
  by code_simp

lemma early_accepted:
  "validate_payloads early_payloads (validator_new_with_features {}) =
     Inr ([(fst early_entry, example_body)], None, snd early_entry)"
  by (simp add: early_payloads_def valid_ok_def bind_res_def example_steps early_step split_beta)

text \<open>Both cases occur: the first list is accepted and its function is ready, the second list is accepted
  and its function panics.\<close>

theorem handed_out_functions_ready_witness:
  "(\<exists>types v. validate_payloads example_payloads (validator_new_with_features {}) =
       Inr ([(fst example_entry, example_body)], types, v)
     \<and> (\<exists>fv st ft. into_validator (fst example_entry) = Inr fv \<and> wasm_module_resources (fv_resources fv)
        \<and> sub_type_at (fv_resources fv) (ftv_ty (fst example_entry)) = Some (Some st)
        \<and> comp_inner (composite_type st) = CompFunc ft
        \<and> locals_list (ov_locals (fv_validator fv)) = func_params ft))
   \<and> validate_payloads early_payloads (validator_new_with_features {}) =
       Inr ([(fst early_entry, example_body)], None, snd early_entry)
     \<and> into_validator (fst early_entry) = Inl Panicked \<and> \<not> entries_after_start False early_payloads"
proof -
  have entries: "entries_after_start False example_payloads" by (simp add: example_payloads_def)
  obtain types v where run: "validate_payloads example_payloads (validator_new_with_features {}) =
      Inr ([(fst example_entry, example_body)], types, v)"
    using example_accepted by blast
  note ready = handed_out_functions_ready [OF run, of "fst example_entry" example_body]
  note panics = handed_out_functions_ready [OF early_accepted, of "fst early_entry" example_body]
  show ?thesis
    using run ready entries early_accepted panics early_no_snapshot
    by (cases "into_validator (fst example_entry)"; cases "into_validator (fst early_entry)") auto
qed

end
