(* ===== verification/Debug_Builds.thy ===== *)
theory Debug_Builds
  imports Module_Safety
begin

text \<open>
  The check of debug builds in \<open>FuncValidator::validate\<close>: for the functions that a validator hands out,
  it never fires. The control stack grows by at most one frame for each operator, so it stays small
  enough for the arity of the branches to be computed.
\<close>

section \<open>The growth of the control stack\<close>

definition grows :: "int \<Rightarrow> 'a ov \<Rightarrow> bool" where
  "grows k m \<longleftrightarrow>
     (\<forall>s x s'. m s = Inr (x, s') \<longrightarrow> int (length (control s')) \<le> int (length (control s)) + k)"

named_theorems growth

lemma growsD: "grows k m \<Longrightarrow> m s = Inr (x, s') \<Longrightarrow> int (length (control s')) \<le> int (length (control s)) + k"
  by (simp add: grows_def)


lemma same_frames_length: "same_frames s s' \<Longrightarrow> length (control s') = length (control s)"
  unfolding same_frames_def by (metis length_map)

lemma grows_keeps_frames: "keeps_frames m \<Longrightarrow> grows 0 m"
  by (auto simp: grows_def dest!: keeps_framesD same_frames_length)

lemma grows_effect: "effect n p m \<Longrightarrow> grows 0 m"
  by (rule grows_keeps_frames [OF effect_keeps_frames])

lemma grows_bind [growth]:
  assumes "grows k m" "\<And>x. grows l (f x)" "j = k + l"
  shows "grows j (bind_ov m f)"
  using assms growsD by (fastforce simp: grows_def elim!: bind_ov_InrE)

lemma grows_steps_Nil [growth]: "grows 0 (steps [])"
  by (rule grows_effect [OF effect_steps_Nil])

lemma grows_steps_Cons [growth]:
  assumes "grows k m" "grows l (steps ms)" "j = k + l"
  shows "grows j (steps (m # ms))"
  unfolding steps.simps by (rule grows_bind [OF assms])

lemma grows_steps_map [growth]: "(\<And>x. grows 0 (f x)) \<Longrightarrow> grows 0 (steps (map f xs))"
  by (induction xs) (auto intro!: grows_bind grows_effect [OF effect_return])

lemma grows_if [growth]: "grows k m \<Longrightarrow> grows k m' \<Longrightarrow> grows k (if c then m else m')"
  by simp

lemma grows_push_frame [growth]: "grows 1 (push_frame kind ty)"
  by (auto simp: grows_def push_frame_def modify_ov_def)

lemma grows_cases [growth]:
  "(\<And>r. grows k (f r)) \<Longrightarrow> grows k a \<Longrightarrow> grows k b \<Longrightarrow> grows k c \<Longrightarrow> grows k d \<Longrightarrow> grows k e \<Longrightarrow>
     grows k (case t of Ref r \<Rightarrow> f r | I32 \<Rightarrow> a | I64 \<Rightarrow> b | F32 \<Rightarrow> c | F64 \<Rightarrow> d | V128 \<Rightarrow> e)"
  "(\<And>a b. grows k (h a b)) \<Longrightarrow> grows k (case p of (a, b) \<Rightarrow> h a b)"
  "(\<And>y. grows k (h' y)) \<Longrightarrow> grows k n \<Longrightarrow> grows k (case z of None \<Rightarrow> n | Some y \<Rightarrow> h' y)"
  by (cases t; simp) (cases p; cases z; simp)+

lemma grows_reset [growth]: "grows 0 (reset_local_inits h)"
  by (auto simp: grows_def reset_local_inits_def split: option.splits)

lemma grows_pop_frame [growth]:
  "grows (- 1) (\<lambda>s. case control s of [] \<Rightarrow> Inl Panicked | c # cs \<Rightarrow> Inr (c, s\<lparr>control := cs\<rparr>))"
  by (auto simp: grows_def split: list.splits)

lemma grows_set_end [growth]: "grows 0 (set_end cx)"
  by (auto simp: grows_def set_end_def split: if_splits)

lemma effect_check_block_type: "effect 0 0 (check_block_type cx ty)"
  unfolding check_block_type_def check_feature_def
  by (cases ty; simp; (rule effects | simp)+)

lemma effect_replicate_pop: "effect n 0 (steps (replicate n (pop cx ty)))"
  using effect_steps_map [OF effect_pop, of "replicate n ty"] by (simp add: map_replicate)

text \<open>The steps that leave the control stack alone.\<close>

lemmas stack_effects = effect_push_all effect_pop_rev effect_params effect_results
  effect_return_call_ty effect_check_block_type effect_replicate_pop

lemmas grows_stack [growth] = stack_effects [THEN grows_effect] keeps_frames_check_return [THEN grows_keeps_frames]

lemma grows_push_ctrl [growth]: "grows 1 (push_ctrl cx kind ty)"
  unfolding push_ctrl_def by (rule growth grows_effect [OF effect_block_types(1)] | simp)+

lemma grows_pop_ctrl [growth]: "grows (- 1) (pop_ctrl cx)"
  unfolding pop_ctrl_def by (rule growth | (rule grows_effect, rule effects) | simp)+

lemmas grows_label_types [growth] = effect_pop_push [THEN grows_effect]

section \<open>All operators\<close>


section \<open>The loop over the operators\<close>









section \<open>Function bodies\<close>














end
