(* ===== verification/Accepted_Types.thy ===== *)
theory Accepted_Types
  imports Module_Safety
begin

text \<open>
  The list of types of a validator that has accepted payloads: subtyping on it ends, decides the declared
  relation and is a preorder, and recursion groups are interned up to equality.
\<close>

section \<open>The invariant\<close>

lemma validate_payloads_wf:
  "validate_payloads ps v = Inr (funcs, types, v') \<Longrightarrow> validator_wf v \<Longrightarrow> validator_wf v'"
proof (induction ps v arbitrary: funcs types rule: validate_payloads.induct)
  case (3 p ps v)
  then obtain x v1 funcs1 types1 where "validator_payload p v = Inr (x, v1)"
    "validate_payloads ps v1 = Inr (funcs1, types1, v')"
    by (auto simp: bind_res_Inr_iff)
  with 3 payload_wf show ?case by blast
qed auto

lemma accepted_types_wf:
  assumes "validate_payloads ps (validator_new_with_features fs) = Inr (funcs, types, v)"
  shows "types_wf (val_types v)"
  using validate_payloads_wf [OF assms validator_wf_new] by (simp add: validator_wf_def)

section \<open>Subtyping\<close>

text \<open>A module with one type, \<open>(sub (struct))\<close>, and what can be evaluated on its types.\<close>

definition struct_features :: wasm_features where
  "struct_features = {GC, GC_TYPES, FUNCTION_REFERENCES, REFERENCE_TYPES}"

definition struct_section :: section_limited where
  "struct_section = (case section_limited_new
     (reader_new_features [0x01, 0x50, 0x00, 0x5f, 0x00] 10 struct_features) of Inr s \<Rightarrow> s)"

definition struct_version :: validator where
  "struct_version = projr (validator_version 1 EncodingModule (0, 8) (validator_new_with_features struct_features))"

definition struct_types :: validator where
  "struct_types = projr (type_section struct_section struct_version)"

lemma struct_accepted:
  "validate_payloads [Inr (Version 1 EncodingModule (0, 8)), Inr (TypeSection struct_section)]
     (validator_new_with_features struct_features) = Inr ([], None, struct_types)"
proof -
  have "validator_version 1 EncodingModule (0, 8) (validator_new_with_features struct_features) = Inr struct_version"
    "type_section struct_section struct_version = Inr struct_types"
    unfolding struct_version_def struct_types_def by (rule not_isl_projr, code_simp)+
  then show ?thesis by (simp add: valid_ok_def bind_res_def)
qed

definition struct_type_sub :: sub_type where
  "struct_type_sub = \<lparr>is_final = False, supertype_idx = None,
     composite_type = \<lparr>comp_inner = CompStruct (StructType []), comp_shared = False\<rparr>\<rparr>"

definition struct_group :: rec_group where
  "struct_group = Implicit (0, struct_type_sub)"

definition func_group :: rec_group where
  "func_group = Implicit (0, sub_type_func (func_type_new [I32] []) False)"

definition struct_facts :: "type_list \<Rightarrow> bool" where
  "struct_facts ts \<longleftrightarrow> type_at ts 0 = Some struct_type_sub \<and> supertype_of ts 0 = Some None
     \<and> (case intern_canonical_rec_group True struct_group ts of
          Inr (_, ts1) \<Rightarrow> \<not> isl (intern_canonical_rec_group True func_group ts1)
        | _ \<Rightarrow> False)"

lemma struct_evaluates: "struct_facts (val_types struct_types)"
  by code_simp

text \<open>C9. The loop of \<open>id_is_subtype\<close> ends on the types of a validator, whatever it has accepted so far:
  started at the identifier of a type of the list, it returns without a panic, and it decides the reflexive
  and transitive closure of the declared supertypes.\<close>

theorem id_is_subtype_decides:
  assumes "validate_payloads ps (validator_new_with_features fs) = Inr (funcs, types, v)"
    and "type_at (val_types v) a \<noteq> None"
  shows "id_is_subtype (val_types v) a b = Some ((a, b) \<in> (super_rel (val_types v))\<^sup>*)"
  using accepted_types_wf [OF assms(1)] assms(2) by (simp add: types_wf_def id_is_subtype_rtrancl)

theorem id_is_subtype_decides_witness:
  "validate_payloads [Inr (Version 1 EncodingModule (0, 8)), Inr (TypeSection struct_section)]
     (validator_new_with_features struct_features) = Inr ([], None, struct_types)
   \<and> type_at (val_types struct_types) 0 \<noteq> None
   \<and> id_is_subtype (val_types struct_types) 0 0 = Some True \<and> id_is_subtype (val_types struct_types) 0 1 = Some False"
proof -
  have facts: "type_at (val_types struct_types) 0 \<noteq> None" "supertype_of (val_types struct_types) 0 = Some None"
    using struct_evaluates by (simp_all add: struct_facts_def)
  then have "(0, 1) \<notin> (super_rel (val_types struct_types))\<^sup>*"
    by (auto simp: super_rel_def elim: converse_rtranclE)
  with facts struct_accepted id_is_subtype_decides [OF struct_accepted] show ?thesis by simp
qed

lemma heap_sub_refl: "heap_sub ts a a"
  by (simp add: heap_sub_def)

lemma canonical_subtype_eq:
  assumes "types_wf ts" "canonical (type_at ts) a" "canonical (type_at ts) b"
  shows "valtype_is_subtype ts a b = Some (case (a, b) of
      (Ref ra, Ref rb) \<Rightarrow> (is_nullable ra \<longrightarrow> is_nullable rb)
        \<and> heap_sub ts (the (ref_heap_type ra)) (the (ref_heap_type rb))
    | _ \<Rightarrow> a = b)"
  using assms
  by (cases a; cases b)
    (auto simp: valtype_is_subtype_def types_wf_def reftype_is_subtype_eq heap_sub_refl)

text \<open>C10. On the types of a validator, whatever it has accepted so far, subtyping of value types never
  panics, and it is reflexive and transitive, on the types whose indices have been canonicalized.\<close>

theorem valtype_subtyping_preorder:
  assumes "validate_payloads ps (validator_new_with_features fs) = Inr (funcs, types, v)"
    and "canonical (type_at (val_types v)) a" "canonical (type_at (val_types v)) b"
      "canonical (type_at (val_types v)) c"
  shows "valtype_is_subtype (val_types v) a b \<noteq> None \<and> valtype_is_subtype (val_types v) a a = Some True
    \<and> (valtype_is_subtype (val_types v) a b = Some True \<longrightarrow> valtype_is_subtype (val_types v) b c = Some True
       \<longrightarrow> valtype_is_subtype (val_types v) a c = Some True)"
proof -
  let ?ts = "val_types v"
  have wf: "types_wf ?ts" by (rule accepted_types_wf [OF assms(1)])
  then have lists: "lists_wf ?ts" "supers_wf ?ts" "kinds_wf ?ts" by (simp_all add: types_wf_def)
  note eq = canonical_subtype_eq [OF wf]
  have heap: "canonical_heap (type_at ?ts) (the (ref_heap_type r))" if "canonical (type_at ?ts) (Ref r)" for r
    using that by (auto simp: canonical_ref_def elim: ref_okE)
  have "valtype_is_subtype ?ts a c = Some True"
    if sub: "valtype_is_subtype ?ts a b = Some True" "valtype_is_subtype ?ts b c = Some True"
  proof (cases "a = b \<or> b = c")
    case False
    then obtain ra rb rc where refs: "a = Ref ra" "b = Ref rb" "c = Ref rc"
      using sub by (auto simp: valtype_is_subtype_def split: val_type.splits if_splits)
    with sub assms(2-4) heap_sub_trans [OF lists heap heap heap, of ra rb rc] show ?thesis
      by (simp add: eq)
  qed (use sub in auto)
  moreover have "valtype_is_subtype ?ts a b \<noteq> None" using eq [OF assms(2,3)] by simp
  ultimately show ?thesis by (simp add: valtype_is_subtype_def [of _ a a])
qed

theorem valtype_subtyping_preorder_witness:
  "\<exists>a b c. validate_payloads [Inr (Version 1 EncodingModule (0, 8)), Inr (TypeSection struct_section)]
       (validator_new_with_features struct_features) = Inr ([], None, struct_types)
   \<and> ref_new False (Concrete (CoreTypeId 0)) = Some a \<and> ref_new True (Concrete (CoreTypeId 0)) = Some b
   \<and> ref_new True (Abstract False AStruct) = Some c
   \<and> valtype_is_subtype (val_types struct_types) (Ref a) (Ref b) = Some True
   \<and> valtype_is_subtype (val_types struct_types) (Ref b) (Ref c) = Some True
   \<and> valtype_is_subtype (val_types struct_types) (Ref a) (Ref c) = Some True"
proof -
  let ?ts = "val_types struct_types"
  have ty: "type_at ?ts 0 = Some struct_type_sub" using struct_evaluates by (simp add: struct_facts_def)
  obtain a b c where new: "ref_new False (Concrete (CoreTypeId 0)) = Some a"
    "ref_new True (Concrete (CoreTypeId 0)) = Some b" "ref_new True (Abstract False AStruct) = Some c"
    using ref_new_None_iff [of _ "Concrete (CoreTypeId 0)"] by (force simp: Let_def)
  note refs = new [THEN ref_new_correct(1)] new [THEN ref_new_correct(2)]
  have canonical: "canonical (type_at ?ts) (Ref a)" "canonical (type_at ?ts) (Ref b)" "canonical (type_at ?ts) (Ref c)"
    using new [THEN ref_ok_new] refs ty by (simp_all add: canonical_ref_def)
  have "heap_sub ?ts (Concrete (CoreTypeId 0)) (Abstract False AStruct)"
    using ty by (simp add: heap_sub_def struct_type_sub_def)
  then have "valtype_is_subtype ?ts (Ref a) (Ref b) = Some True" "valtype_is_subtype ?ts (Ref b) (Ref c) = Some True"
    using canonical_subtype_eq [OF accepted_types_wf [OF struct_accepted]] canonical refs
    by (simp_all add: heap_sub_refl)
  with valtype_subtyping_preorder [OF struct_accepted canonical] new struct_accepted show ?thesis by blast
qed

section \<open>Recursion groups\<close>

lemma rec_group_eq_iff: "rec_group_eq a b \<longleftrightarrow> rec_group_types a = rec_group_types b"
  by (auto simp: rec_group_eq_def list_all_iff list_eq_iff_zip_eq)

lemma lookup_rec_group_Some:
  assumes "lookup_rec_group rg m = Some g"
  obtains key where "(key, g) \<in> set m" "rec_group_types key = rec_group_types rg"
  using assms by (auto simp: lookup_rec_group_def find_Some_iff rec_group_eq_iff dest: nth_mem)

lemma lookup_rec_group_eq: "rec_group_types a = rec_group_types b \<Longrightarrow> lookup_rec_group a m = lookup_rec_group b m"
  by (simp add: lookup_rec_group_def rec_group_eq_iff)

text \<open>Different groups have different identifiers.\<close>

definition gids_wf :: "type_list \<Rightarrow> bool" where
  "gids_wf ts \<longleftrightarrow> lists_wf ts \<and> (\<exists>m. canonical_rec_groups ts = Some m \<and> distinct (map snd m)
     \<and> (\<forall>(rg, gid) \<in> set m. unat gid < length (snap_list (rec_group_elements ts))))"

lemma types_wf_gids:
  assumes "types_wf ts" "canonical_rec_groups ts = Some m"
  shows "gids_wf ts"
proof -
  have wf: "lists_wf ts" "groups_wf ts" using assms(1) by (simp_all add: types_wf_def)
  then have "unat gid < length (snap_list (rec_group_elements ts))" if "(rg, gid) \<in> set m" for rg gid
    using that assms(2) unfolding groups_wf_def by (fastforce simp: rec_group_at_nth nth_opt_Some_iff)
  with wf assms(2) show ?thesis by (auto simp: gids_wf_def groups_wf_def)
qed

lemma intern_canonical_gids:
  assumes "intern_canonical_rec_group True rg ts = Inr ((new, gid), ts')" "gids_wf ts"
  obtains m m' where "canonical_rec_groups ts = Some m" "canonical_rec_groups ts' = Some m'"
    "lookup_rec_group rg m' = Some gid" "set m \<subseteq> set m'" "gids_wf ts'"
    "new \<longleftrightarrow> lookup_rec_group rg m = None"
proof -
  obtain m where wf: "lists_wf ts" and m: "canonical_rec_groups ts = Some m" "distinct (map snd m)"
    "\<forall>(rg, gid) \<in> set m. unat gid < length (snap_list (rec_group_elements ts))"
    using assms(2) by (auto simp: gids_wf_def)
  show thesis
  proof (cases "lookup_rec_group rg m")
    case (Some g)
    with assms(1) m(1) have "gid = g" "\<not> new" "ts' = ts"
      by (auto simp: intern_canonical_rec_group_def bind_res_Inr_iff)
    with that [of m m] m(1) Some assms(2) show thesis by simp
  next
    case None
    with assms(1) m(1) obtain g where g: "try_u32 (snap_len (rec_group_elements ts)) = Some g"
      and run: "intern_new_rec_group g rg (ts\<lparr>canonical_rec_groups := Some ((rg, g) # m)\<rparr>) = Inr ((new, gid), ts')"
      by (auto simp: intern_canonical_rec_group_def bind_res_Inr_iff)
    have "lists_wf (ts\<lparr>canonical_rec_groups := Some ((rg, g) # m)\<rparr>)" using wf by simp
    then obtain ts1 new' sups x where new: "new" "gid = g" "lists_wf ts1"
      and i: "interned (of_nat (type_count ts)) (rec_group_types rg) (ts\<lparr>canonical_rec_groups := Some ((rg, g) # m)\<rparr>)
        ts1 new' sups"
      and ts': "ts' = ts1\<lparr>rec_group_elements := snap_push x (rec_group_elements ts1)\<rparr>"
      by (rule intern_new_rec_group_Inr [OF run]) simp
    have els: "length (snap_list (rec_group_elements ts')) = Suc (length (snap_list (rec_group_elements ts)))"
      and m': "canonical_rec_groups ts' = Some ((rg, g) # m)" and wf': "lists_wf ts'"
      using i new(3) by (auto simp: ts' interned_def lists_wf_def)
    have g': "unat g = length (snap_list (rec_group_elements ts))"
      using g wf by (auto simp: lists_wf_def snap_len_list dest: try_u32_Some)
    with m(3) have "g \<notin> snd ` set m" by fastforce
    with m m' wf' els g' have "gids_wf ts'" by (fastforce simp: gids_wf_def)
    moreover have "lookup_rec_group rg ((rg, g) # m) = Some gid"
      using new(2) by (simp add: lookup_rec_group_def rec_group_eq_iff)
    ultimately show thesis using that [OF m(1) m'] new(1) None by auto
  qed
qed

text \<open>C11. Recursion groups are hash-consed: starting from the types of a validator that has accepted
  payloads, two canonicalized groups that are interned one after the other get the same identifier
  exactly if their types are equal, and then the second is not added again.\<close>

theorem rec_groups_hash_consed:
  assumes "validate_payloads ps (validator_new_with_features fs) = Inr (funcs, types, v)"
    and "intern_canonical_rec_group True rg1 (val_types v) = Inr ((new1, gid1), ts1)"
    and "intern_canonical_rec_group True rg2 ts1 = Inr ((new2, gid2), ts2)"
  shows "(gid1 = gid2 \<longleftrightarrow> rec_group_types rg1 = rec_group_types rg2)
    \<and> (rec_group_types rg1 = rec_group_types rg2 \<longrightarrow> \<not> new2 \<and> ts2 = ts1)"
proof -
  obtain m where "canonical_rec_groups (val_types v) = Some m"
    using assms(2) by (auto simp: intern_canonical_rec_group_def bind_res_Inr_iff split: option.splits)
  note gids = types_wf_gids [OF accepted_types_wf [OF assms(1)] this]
  obtain m1 where m1: "canonical_rec_groups ts1 = Some m1" "lookup_rec_group rg1 m1 = Some gid1" "gids_wf ts1"
    using intern_canonical_gids [OF assms(2) gids] by metis
  obtain m2 where m2: "canonical_rec_groups ts2 = Some m2" "lookup_rec_group rg2 m2 = Some gid2" "gids_wf ts2"
    "set m1 \<subseteq> set m2"
    using intern_canonical_gids [OF assms(3) m1(3)] m1(1) by (metis option.inject)
  have same: "\<not> new2 \<and> ts2 = ts1 \<and> gid2 = gid1" if "rec_group_types rg1 = rec_group_types rg2"
    using that assms(3) m1(1,2) lookup_rec_group_eq [OF that, of m1]
    by (auto simp: intern_canonical_rec_group_def bind_res_Inr_iff)
  obtain key1 where key1: "(key1, gid1) \<in> set m2" "rec_group_types key1 = rec_group_types rg1"
    using lookup_rec_group_Some [OF m1(2)] m2(4) by blast
  obtain key2 where key2: "(key2, gid2) \<in> set m2" "rec_group_types key2 = rec_group_types rg2"
    using lookup_rec_group_Some [OF m2(2)] by blast
  have "key1 = key2" if "gid1 = gid2"
    using that key1(1) key2(1) m2(1,3) eq_key_imp_eq_value [of "map prod.swap m2" gid1 key1 key2]
    by (force simp: gids_wf_def comp_def)
  with key1(2) key2(2) same show ?thesis by auto
qed

theorem rec_groups_hash_consed_witness:
  "validate_payloads [Inr (Version 1 EncodingModule (0, 8)), Inr (TypeSection struct_section)]
     (validator_new_with_features struct_features) = Inr ([], None, struct_types)
   \<and> (\<exists>new1 gid1 ts1 new2 gid2 ts2.
        intern_canonical_rec_group True struct_group (val_types struct_types) = Inr ((new1, gid1), ts1)
        \<and> intern_canonical_rec_group True func_group ts1 = Inr ((new2, gid2), ts2) \<and> gid1 \<noteq> gid2)"
proof -
  obtain new1 gid1 ts1 new2 gid2 ts2
    where run: "intern_canonical_rec_group True struct_group (val_types struct_types) = Inr ((new1, gid1), ts1)"
      "intern_canonical_rec_group True func_group ts1 = Inr ((new2, gid2), ts2)"
    using struct_evaluates unfolding struct_facts_def
    by (cases "intern_canonical_rec_group True struct_group (val_types struct_types)")
      (auto simp: isl_def split: prod.splits, metis old.sum.exhaust surj_pair)
  have "rec_group_types struct_group \<noteq> rec_group_types func_group"
    by (simp add: struct_group_def func_group_def sub_type_func_def struct_type_sub_def rec_group_types_def)
  with rec_groups_hash_consed [OF struct_accepted run] run struct_accepted show ?thesis by blast
qed

end
