(* ===== verification/Spec2Isabelle.thy ===== *)
theory Spec2Isabelle
  imports Op_Laws Section_Round_Trip Debug_Builds Accepted_Types
begin

text \<open>
  A verification of the core of wasm-tools: the binary reader of the crate wasmparser and what is
  built on it, the validator of core modules of the same crate, and the encoder of the crate
  wasm-encoder that writes what wasmparser reads.

  \<^bold>\<open>The program.\<close> wasmparser reads WebAssembly modules from a byte buffer. A \<open>BinaryReader\<close> is a
  cursor into such a buffer; its methods read bytes, LEB128 integers, strings and lists, and every
  syntactic category implements the trait \<open>FromReader\<close> on top of them. The types of the core
  language are read this way and stored in packed form, and \<open>visit_operator\<close> decodes the operators
  of a function body one at a time. The \<open>Validator\<close> takes the payloads of a module, one for each
  section and function body. It interns the types in a \<open>TypeList\<close>, which canonicalizes recursion
  groups, collects the entities of the module in a \<open>Module\<close>, and hands out a \<open>FuncToValidate\<close> for each
  body, which sees the module through the trait \<open>WasmModuleResources\<close>. The operators of a body are
  checked by an \<open>OperatorValidator\<close> with a stack of operands and a stack of control frames.
  wasm-encoder writes the same syntax: its types implement the trait \<open>Encode\<close>, and its module
  \<open>reencode\<close> translates what wasmparser has read.

  \<^bold>\<open>Theories of the reader\<close>, in the order of the code:
  \<^item> \<open>Wasm_Prelude\<close>: machine integers, number formatting, facts on words;
  \<^item> \<open>Features\<close>: features.rs and limits.rs;
  \<^item> \<open>Binary_Reader\<close>: the primitive readers of binary_reader.rs. A reader is a function from the
    state \<open>binary_reader\<close> to an error or a value and the new state; \<open>usize\<close> is modelled by \<open>nat\<close>,
    the other integers by words of their width;
  \<^item> \<open>Reader_Laws\<close>: the contract of \<open>FromReader\<close> as the locale \<open>from_reader\<close>: only the position
    changes, it moves forward within the buffer, the result does not depend on the bytes behind
    it, and errors are located inside the input;
  \<^item> \<open>Leb128\<close>: the LEB128 readers compute the value of the bytes they consume;
  \<^item> \<open>Reader_Items\<close>: sizes, lists of items, nested readers and strings keep the contract; which
    bytes decode to which value;
  \<^item> \<open>Wasm_Types\<close> and \<open>Type_Packing\<close>: readers/core/types.rs, the types with their methods, and the
    proofs that their packed forms lose nothing;
  \<^item> \<open>Type_Readers\<close>: the \<open>FromReader\<close> implementations of these types;
  \<^item> \<open>Operators\<close>: the enumeration \<open>Operator\<close>. Operators that the code treats alike are grouped
    into one constructor over an enumeration, because datatypes of several hundred constructors
    are out of reach;
  \<^item> \<open>Op_Reader\<close> and \<open>Op_Laws\<close>: \<open>visit_operator\<close> with the prefixed opcode spaces, and its
    contract;
  \<^item> \<open>Reader_Results\<close>: a logic for what a reader can return;
  \<^item> \<open>Item_Readers\<close>: the items of the other sections, readers/core/imports.rs to data.rs.

  \<^bold>\<open>Theories of the encoder:\<close>
  \<^item> \<open>Encode\<close>: the trait \<open>Encode\<close> with the crate leb128 as a parameter, what it means that a reader
    reads back what an encoder writes, and the locale \<open>reencodable\<close> of the types that survive a round
    trip;
  \<^item> \<open>Enc_Types\<close> and \<open>Type_Round_Trip\<close>: core/types.rs of wasm-encoder, its translation from
    wasmparser, and the round trip of every type that wasmparser reads;
  \<^item> \<open>Sections\<close>: sections that are a list of items, read by \<open>SectionLimited\<close> and written by the
    section builders, and the locale \<open>section_item\<close> with their round trip;
  \<^item> \<open>Enc_Code\<close>, \<open>Op_Results\<close>, \<open>Op_Immediates\<close> and \<open>Op_Round_Trip\<close>: the instructions of core/code.rs
    and their translation, what \<open>read_operator\<close> can return, and the round trip of every operator;
  \<^item> \<open>Function_Bodies\<close> and \<open>Section_Round_Trip\<close>: readers/core/code.rs, \<open>Function\<close> and \<open>CodeSection\<close>,
    \<open>parse_function_body\<close>; the round trip of function bodies and of the type and code sections, and that
    \<open>new_with_locals_types\<close> declares its locals with the fewest declarations.

  \<^bold>\<open>Theories of the types of the validator:\<close>
  \<^item> \<open>Snapshot_List\<close>: \<open>SnapshotList\<close> of validator/types.rs, and that it refines a vector;
  \<^item> \<open>Type_List\<close> and \<open>Type_Matches\<close>: \<open>TypeList\<close> with interning, look-ups and subtyping, and the trait
    \<open>Matches\<close> of readers/core/types/matches.rs;
  \<^item> \<open>Type_Canonical\<close>: validator/core/canonical.rs;
  \<^item> \<open>Type_Subtyping\<close>, \<open>Type_Interning\<close> and \<open>Type_Groups\<close>: subtyping on a well-formed list terminates
    and is a preorder; what canonicalizing and interning a group establishes; the invariant \<open>types_wf\<close>
    of the list, kept by every group that is accepted.

  \<^bold>\<open>Theories of the validator of operators:\<close>
  \<^item> \<open>Module_Resources\<close>: the trait \<open>WasmModuleResources\<close> as a record of its methods, and the locale
    \<open>wasm_module_resources\<close> of what the operator validator relies on;
  \<^item> \<open>Binary_Search\<close>, \<open>Validator_Locals\<close> and \<open>Validator_State\<close>: the locals with their binary search, the two stacks and the primitive operations
    of validator/operators.rs;
  \<^item> \<open>Validator_Checks\<close>, \<open>Validator_Ops\<close>, \<open>Validator_Numeric\<close>, \<open>Validator_Gc\<close> and \<open>Validator_Visit\<close>:
    the checks shared by the operators, the visit methods, and the dispatch with the check of the proposal;
  \<^item> \<open>Operator_Table\<close>, \<open>Operator_Names\<close> and \<open>Operator_Arity\<close>: the table \<open>for_each_operator\<close> of lib.rs and
    arity.rs;
  \<^item> \<open>Validator_Effects\<close>, \<open>Validator_Op_Effects\<close>, \<open>Validator_Arity\<close> and \<open>Arity_Agreement\<close>: what a step of
    the validator does to its counters and its frames, and that every operator pops and pushes what
    \<open>operator_arity\<close> says, for any module that keeps the contract.

  \<^bold>\<open>Theories of the validator of modules:\<close>
  \<^item> \<open>Core_Module\<close>: \<open>Module\<close> of validator/core.rs with its checks, and its two implementations of
    \<open>WasmModuleResources\<close>;
  \<^item> \<open>Module_Contract\<close>: the invariant \<open>module_wf\<close>, kept by every operation of \<open>Module\<close>; under it both
    implementations satisfy the locale \<open>wasm_module_resources\<close>;
  \<^item> \<open>Module_State\<close>: \<open>ModuleState\<close> of validator/core.rs, the order of the sections, constant
    expressions, globals, tables and segments;
  \<^item> \<open>Func_Validator\<close>: validator/func.rs, in release and debug builds;
  \<^item> \<open>Module_Validator\<close>: \<open>Validator\<close> of validator.rs, with one function for each section;
  \<^item> \<open>Module_Safety\<close>: the invariant of the validator, and that every function it hands out after the
    start of the code section is ready to be validated, while one handed out before it panics;
  \<^item> \<open>Debug_Builds\<close>: the arity check of debug builds accepts the bodies that release builds accept;
  \<^item> \<open>Accepted_Types\<close>: on the types of a validator that has accepted payloads, subtyping ends and is a
    preorder, and recursion groups have the same identifier exactly if they are equal.

  \<^bold>\<open>Loops.\<close> The loops of the readers run on the bytes or items that are left, so they are total functions
  and need no fuel; reading an operator is proved to consume at least one byte. The loops of the
  validator over operators and items are total for the same reason. The loop of \<open>id_is_subtype\<close> follows
  supertypes and is proved to end on a well-formed list of types.

  \<^bold>\<open>Panics.\<close> \<open>Failed\<close> is an error that the code returns, \<open>Panicked\<close> and \<open>None\<close> stand for a panic: an index
  out of bounds, \<open>unwrap\<close> and \<open>expect\<close>, and the overflow of the count of \<open>new_with_locals_types\<close>. A look-up
  in the types of \<open>ValidatorResources\<close> panics when there is no snapshot. The debug assertions on the state of
  the validator, as those of \<open>function_section\<close>, \<open>set_subtyping_depth\<close> and
  \<open>canonicalize_and_intern_rec_group\<close>, panic when they fail, as in a build with debug assertions. The debug
  assertions inside the packed types are left out: they test the representation of the
  values, which \<open>Type_Packing\<close> treats instead. The number of items of a section of the encoder is a \<open>u32\<close> that
  wraps around. The check of \<open>FuncValidator::validate\<close> that only debug builds have is an argument of the model,
  and its counters \<open>pop_push_count\<close> are natural numbers where the code has \<open>u32\<close>.

  \<^bold>\<open>Assumptions.\<close> The crate leb128 is a parameter of the encoder. The payloads are an input of the
  validator, in any order; \<open>entries_after_start\<close> says that the bodies come after the start of the code
  section, as the parser produces them. wasmparser is built with its feature \<open>simd\<close> and without
  \<open>component-model\<close>.

  \<^bold>\<open>Not modelled.\<close> The incremental parser, the component model and what is compiled only with its
  feature, builds without the feature \<open>simd\<close>, the other sections of the encoder, the text format and the
  tools built on them.
\<close>

end
